(* ===== verification/Prelude.thy ===== *)
theory Prelude
  imports Complex_Main "HOL-Library.List_Lexorder" "HOL-Library.Char_ord"
begin

text \<open>
  Shared vocabulary of the development: text predicates (the regular expressions the packages
  repeat), the JavaScript array and Set idioms they use, timestamps, bounded numbers, and the
  generic lemmas the component theories share.

  A JavaScript string is modelled as a \<^typ>\<open>string\<close>, so its code units range over Latin-1;
  \<open>length\<close> then counts code units as JavaScript does. White space is the part of the
  ECMAScript white-space and line-terminator set that lies in Latin-1.
\<close>

named_theorems text_simps "definitions of the text predicates"
named_theorems js_simps "characteristic facts of the JavaScript list and set idioms"

section \<open>Characters and text\<close>

abbreviation code_of :: "char \<Rightarrow> int" where
  "code_of c \<equiv> of_char c"

definition js_space :: "char \<Rightarrow> bool" where [text_simps]:
  "js_space c \<longleftrightarrow> code_of c \<in> {9, 10, 11, 12, 13, 32, 160}"

definition ascii_upper :: "char \<Rightarrow> bool" where [text_simps]:
  "ascii_upper c \<longleftrightarrow> 65 \<le> code_of c \<and> code_of c \<le> 90"

definition ascii_lower :: "char \<Rightarrow> bool" where [text_simps]:
  "ascii_lower c \<longleftrightarrow> 97 \<le> code_of c \<and> code_of c \<le> 122"

definition ascii_digit :: "char \<Rightarrow> bool" where [text_simps]:
  "ascii_digit c \<longleftrightarrow> 48 \<le> code_of c \<and> code_of c \<le> 57"

definition ascii_alnum :: "char \<Rightarrow> bool" where [text_simps]:
  "ascii_alnum c \<longleftrightarrow> ascii_upper c \<or> ascii_lower c \<or> ascii_digit c"

text \<open>The class \<open>[^\0\r\n]\<close>.\<close>

definition plain_char :: "char \<Rightarrow> bool" where [text_simps]:
  "plain_char c \<longleftrightarrow> code_of c \<noteq> 0 \<and> code_of c \<noteq> 13 \<and> code_of c \<noteq> 10"

definition plain_text :: "string \<Rightarrow> bool" where [text_simps]:
  "plain_text s \<longleftrightarrow> list_all plain_char s"

definition js_trim :: "string \<Rightarrow> string" where [text_simps]:
  "js_trim s = rev (dropWhile js_space (rev (dropWhile js_space s)))"

text \<open>\<open>value.trim().length > 0\<close>.\<close>

definition has_text :: "string \<Rightarrow> bool" where [text_simps]:
  "has_text s \<longleftrightarrow> js_trim s \<noteq> []"

text \<open>\<open>/^H T{0,n}$/\<close>: one character of a head class, then at most \<open>n\<close> of a tail class.\<close>

definition head_tail :: "(char \<Rightarrow> bool) \<Rightarrow> (char \<Rightarrow> bool) \<Rightarrow> nat \<Rightarrow> string \<Rightarrow> bool" where [text_simps]:
  "head_tail h t n s = (case s of [] \<Rightarrow> False | c # cs \<Rightarrow> h c \<and> list_all t cs \<and> length cs \<le> n)"

text \<open>\<open>/^[A-Z][A-Z0-9_]{0,n}$/\<close>.\<close>

definition code_tail :: "char \<Rightarrow> bool" where [text_simps]:
  "code_tail c \<longleftrightarrow> ascii_upper c \<or> ascii_digit c \<or> c = CHR ''_''"

definition upper_code :: "nat \<Rightarrow> string \<Rightarrow> bool" where [text_simps]:
  "upper_code n s = head_tail ascii_upper code_tail n s"

text \<open>\<open>/^[A-Za-z0-9][A-Za-z0-9._:-]{0,499}$/u\<close>.\<close>

definition id_tail :: "char \<Rightarrow> bool" where [text_simps]:
  "id_tail c \<longleftrightarrow> ascii_alnum c \<or> c = CHR ''.'' \<or> c = CHR ''_'' \<or> c = CHR '':'' \<or> c = CHR ''-''"

definition safe_id :: "string \<Rightarrow> bool" where [text_simps]:
  "safe_id s = head_tail ascii_alnum id_tail 499 s"

text \<open>
  \<open>validText(value, maximum)\<close> of the interaction, stop-continuation and orchestration packages:
  non-blank, bounded and free of NUL, CR and LF.
\<close>

definition valid_text :: "nat \<Rightarrow> string \<Rightarrow> bool" where [text_simps]:
  "valid_text n s \<longleftrightarrow> has_text s \<and> length s \<le> n \<and> plain_text s"

text \<open>\<open>value.split(sep)\<close> for a one-character separator.\<close>

fun split_on :: "char \<Rightarrow> string \<Rightarrow> string list" where
  "split_on c [] = [[]]"
| "split_on c (x # xs) =
     (if x = c then [] # split_on c xs
      else (case split_on c xs of [] \<Rightarrow> [[x]] | y # ys \<Rightarrow> (x # y) # ys))"

fun starts_with :: "string \<Rightarrow> string \<Rightarrow> bool" where
  "starts_with [] s = True"
| "starts_with (p # ps) [] = False"
| "starts_with (p # ps) (c # cs) = (p = c \<and> starts_with ps cs)"

definition ends_with :: "string \<Rightarrow> string \<Rightarrow> bool" where
  "ends_with p s = starts_with (rev p) (rev s)"

fun contains_text :: "string \<Rightarrow> string \<Rightarrow> bool" where
  "contains_text p [] = (p = [])"
| "contains_text p (c # cs) = (starts_with p (c # cs) \<or> contains_text p cs)"

lemma starts_with_iff: "starts_with p s \<longleftrightarrow> (\<exists>r. s = p @ r)"
  by (induction p s rule: starts_with.induct) auto

lemma starts_with_append [simp]: "starts_with p (p @ r)"
  by (simp add: starts_with_iff)

lemma starts_with_refl [simp]: "starts_with p p"
  by (induction p) auto

lemma starts_with_contains: "starts_with p s \<Longrightarrow> contains_text p s"
  by (cases s) (auto elim: starts_with.elims)

lemma contains_text_append [simp]: "contains_text p (l @ p @ r)"
  by (induction l) (auto intro: starts_with_contains)

lemma contains_textD: "contains_text p s \<Longrightarrow> \<exists>l r. s = l @ p @ r"
proof (induction s)
  case (Cons c cs)
  then consider "starts_with p (c # cs)" | "contains_text p cs" by auto
  then show ?case
  proof cases
    case 1
    then show ?thesis by (metis append_Nil starts_with_iff)
  next
    case 2
    then show ?thesis using Cons.IH by (metis append_Cons)
  qed
qed auto

lemma contains_text_iff: "contains_text p s \<longleftrightarrow> (\<exists>l r. s = l @ p @ r)"
  using contains_textD by auto

lemma split_on_nonempty [simp]: "split_on c s \<noteq> []"
  by (induction s) (auto split: list.splits)

lemma split_on_free: "p \<in> set (split_on c s) \<Longrightarrow> c \<notin> set p"
proof (induction s arbitrary: p)
  case (Cons x xs)
  then show ?case by (cases "split_on c xs") (auto split: if_splits)
qed auto

lemma upper_code_length: "upper_code n s \<Longrightarrow> 0 < length s \<and> length s \<le> Suc n"
  by (auto simp: upper_code_def head_tail_def split: list.splits)

lemma safe_id_length: "safe_id s \<Longrightarrow> 0 < length s \<and> length s \<le> 500"
  by (auto simp: safe_id_def head_tail_def split: list.splits)

section \<open>JavaScript sets and arrays\<close>

text \<open>\<open>[...new Set(xs)]\<close> keeps the first occurrence of each element in order.\<close>

definition uniq :: "'a list \<Rightarrow> 'a list" where
  "uniq xs = rev (remdups (rev xs))"

text \<open>\<open>set.add(x)\<close> on a Set kept in insertion order.\<close>

definition set_add :: "'a list \<Rightarrow> 'a \<Rightarrow> 'a list" where
  "set_add xs x = (if x \<in> set xs then xs else xs @ [x])"

definition add_when :: "bool \<Rightarrow> 'a \<Rightarrow> 'a list \<Rightarrow> 'a list" where
  "add_when b x xs = (if b then set_add xs x else xs)"

lemma set_uniq [simp, js_simps]: "set (uniq xs) = set xs"
  by (simp add: uniq_def)

lemma distinct_uniq [simp, js_simps]: "distinct (uniq xs)"
  by (simp add: uniq_def)

lemma uniq_distinct [js_simps]: "distinct xs \<Longrightarrow> uniq xs = xs"
  by (simp add: uniq_def distinct_remdups_id)

lemma uniq_Nil_iff [simp]: "uniq xs = [] \<longleftrightarrow> xs = []"
  by (simp add: uniq_def)

lemma uniq_Nil [simp]: "uniq [] = []"
  by (simp add: uniq_def)

lemma length_uniq_le: "length (uniq xs) \<le> length xs"
  by (simp add: uniq_def length_remdups_leq[of "rev xs", simplified])

lemma length_uniq: "length (uniq xs) = card (set xs)"
  by (metis distinct_card distinct_uniq set_uniq)

lemma set_set_add [simp, js_simps]: "set (set_add xs x) = insert x (set xs)"
  by (auto simp: set_add_def)

lemma distinct_set_add [simp]: "distinct xs \<Longrightarrow> distinct (set_add xs x)"
  by (simp add: set_add_def)

lemma set_add_when [simp, js_simps]: "set (add_when b x xs) = (if b then insert x (set xs) else set xs)"
  by (simp add: add_when_def)

lemma distinct_add_when [simp]: "distinct xs \<Longrightarrow> distinct (add_when b x xs)"
  by (simp add: add_when_def)

lemma set_add_nonempty [simp]: "set_add xs x \<noteq> []"
  by (auto simp: set_add_def)

lemma add_when_Nil_iff [simp]: "add_when b x xs = [] \<longleftrightarrow> \<not> b \<and> xs = []"
  by (simp add: add_when_def)

text \<open>\<open>new Map(entries)\<close>: a later entry replaces an earlier one with the same key.\<close>

definition last_entry :: "('a \<Rightarrow> 'k) \<Rightarrow> 'a list \<Rightarrow> 'k \<Rightarrow> 'a option" where
  "last_entry key xs k = find (\<lambda>x. key x = k) (rev xs)"

lemma find_SomeD: "find P xs = Some x \<Longrightarrow> x \<in> set xs \<and> P x"
  by (induction xs) (auto split: if_splits)

lemma find_NoneD: "find P xs = None \<Longrightarrow> x \<in> set xs \<Longrightarrow> \<not> P x"
  by (induction xs) (auto split: if_splits)

lemma find_None_conv: "find P xs = None \<longleftrightarrow> (\<forall>x \<in> set xs. \<not> P x)"
  by (induction xs) auto

lemma last_entry_SomeD: "last_entry key xs k = Some x \<Longrightarrow> x \<in> set xs \<and> key x = k"
  by (auto simp: last_entry_def dest: find_SomeD)

lemma last_entry_None_conv: "last_entry key xs k = None \<longleftrightarrow> k \<notin> key ` set xs"
  by (auto simp: last_entry_def find_None_conv)

lemma find_unique:
  "distinct (map key xs) \<Longrightarrow> x \<in> set xs \<Longrightarrow> find (\<lambda>y. key y = key x) xs = Some x"
  by (induction xs) (auto simp: image_iff)

lemma last_entry_unique:
  "distinct (map key xs) \<Longrightarrow> x \<in> set xs \<Longrightarrow> last_entry key xs (key x) = Some x"
  unfolding last_entry_def by (rule find_unique) (simp_all add: rev_map [symmetric])

text \<open>\<open>[...new Map(entries).values()]\<close>: keys in the order of their first entry, values of their last.\<close>

definition map_values :: "('a \<Rightarrow> 'k) \<Rightarrow> 'a list \<Rightarrow> 'a list" where
  "map_values key xs = map (\<lambda>k. the (last_entry key xs k)) (uniq (map key xs))"

lemma map_values_in: "set (map_values key xs) \<subseteq> set xs"
proof
  fix y assume "y \<in> set (map_values key xs)"
  then obtain x where x: "x \<in> set xs" "y = the (last_entry key xs (key x))" by (auto simp: map_values_def)
  then obtain z where "last_entry key xs (key x) = Some z" by (cases "last_entry key xs (key x)") (auto simp: last_entry_None_conv)
  then show "y \<in> set xs" using x(2) last_entry_SomeD by fastforce
qed

lemma map_values_covers: "x \<in> set xs \<Longrightarrow> \<exists>y \<in> set (map_values key xs). key y = key x"
proof -
  assume x: "x \<in> set xs"
  then obtain z where z: "last_entry key xs (key x) = Some z" by (cases "last_entry key xs (key x)") (auto simp: last_entry_None_conv)
  then have "z \<in> set (map_values key xs)" using x by (force simp: map_values_def)
  then show ?thesis using last_entry_SomeD[OF z] by blast
qed

lemma map_values_keys: "map key (map_values key xs) = uniq (map key xs)"
proof -
  have "key (the (last_entry key xs k)) = k" if "k \<in> set (map key xs)" for k
  proof (cases "last_entry key xs k")
    case None
    then show ?thesis using that by (simp add: last_entry_None_conv)
  next
    case (Some z)
    then show ?thesis using last_entry_SomeD[OF Some] by simp
  qed
  then have "map (\<lambda>k. key (the (last_entry key xs k))) (uniq (map key xs)) = uniq (map key xs)"
    by (intro map_idI) simp
  then show ?thesis by (simp add: map_values_def comp_def)
qed

section \<open>Numbers and timestamps\<close>

text \<open>\<open>Number.isSafeInteger\<close> on an integral number.\<close>

definition safe_integer :: "int \<Rightarrow> bool" where
  "safe_integer n \<longleftrightarrow> - 9007199254740991 \<le> n \<and> n \<le> 9007199254740991"

definition bounded :: "int \<Rightarrow> int \<Rightarrow> int \<Rightarrow> bool" where
  "bounded lo hi n \<longleftrightarrow> safe_integer n \<and> lo \<le> n \<and> n \<le> hi"

text \<open>
  A timestamp string, seen through \<open>Date\<close>: either the canonical \<open>toISOString\<close> rendering of
  a millisecond value, or any other string with its \<open>Date.parse\<close> value (\<open>None\<close> for NaN).
\<close>

datatype timestamp = Iso int | NonIso "int option"

fun date_parse :: "timestamp \<Rightarrow> int option" where
  "date_parse (Iso ms) = Some ms"
| "date_parse (NonIso r) = r"

definition finite_date :: "timestamp \<Rightarrow> bool" where
  "finite_date t \<longleftrightarrow> date_parse t \<noteq> None"

text \<open>\<open>Number.isFinite(Date.parse(t)) && new Date(t).toISOString() === t\<close>.\<close>

fun canonical_date :: "timestamp \<Rightarrow> bool" where
  "canonical_date (Iso ms) = True"
| "canonical_date (NonIso r) = False"

section \<open>Stable sorting by a comparator\<close>

text \<open>
  \<open>Array.prototype.sort\<close> is stable; for a consistent comparator \<open>cmp\<close> its result is the
  insertion sort below with \<open>le x y\<close> for \<open>cmp(x, y) <= 0\<close>.
\<close>

fun insert_by :: "('a \<Rightarrow> 'a \<Rightarrow> bool) \<Rightarrow> 'a \<Rightarrow> 'a list \<Rightarrow> 'a list" where
  "insert_by le x [] = [x]"
| "insert_by le x (y # ys) = (if le x y then x # y # ys else y # insert_by le x ys)"

definition sort_by :: "('a \<Rightarrow> 'a \<Rightarrow> bool) \<Rightarrow> 'a list \<Rightarrow> 'a list" where
  "sort_by le xs = foldr (insert_by le) xs []"

lemma set_insert_by [simp, js_simps]: "set (insert_by le x ys) = insert x (set ys)"
  by (induction ys) auto

lemma length_insert_by [simp]: "length (insert_by le x ys) = Suc (length ys)"
  by (induction ys) auto

lemma sort_by_simps [simp]:
  "sort_by le [] = []" "sort_by le (x # xs) = insert_by le x (sort_by le xs)"
  by (simp_all add: sort_by_def)

lemma set_sort_by [simp, js_simps]: "set (sort_by le xs) = set xs"
  by (induction xs) auto

lemma length_sort_by [simp]: "length (sort_by le xs) = length xs"
  by (induction xs) auto

lemma sort_by_Nil_iff [simp]: "sort_by le xs = [] \<longleftrightarrow> xs = []"
  by (metis length_0_conv length_sort_by)

lemma distinct_map_insert_by:
  "distinct (map f (insert_by le x ys)) \<longleftrightarrow> f x \<notin> f ` set ys \<and> distinct (map f ys)"
  by (induction ys) auto

lemma distinct_map_sort_by [simp]: "distinct (map f (sort_by le xs)) \<longleftrightarrow> distinct (map f xs)"
  by (induction xs) (auto simp: distinct_map_insert_by)

lemma filter_insert_by_False: "\<not> P x \<Longrightarrow> filter P (insert_by le x ys) = filter P ys"
  by (induction ys) auto

text \<open>The interface a comparator offers to the code that sorts with it.\<close>

locale comparator =
  fixes le :: "'a \<Rightarrow> 'a \<Rightarrow> bool"
  assumes le_total: "le x y \<or> le y x"
    and le_trans: "le x y \<Longrightarrow> le y z \<Longrightarrow> le x z"
begin

lemma le_refl: "le x x"
  using le_total by blast

lemma sorted_insert_by: "sorted_wrt le ys \<Longrightarrow> sorted_wrt le (insert_by le x ys)"
proof (induction ys)
  case (Cons y ys)
  show ?case
  proof (cases "le x y")
    case True
    with Cons.prems show ?thesis by (auto intro: le_trans)
  next
    case False
    then have "le y x" using le_total by blast
    with False Cons show ?thesis by auto
  qed
qed simp

lemma sorted_sort_by: "sorted_wrt le (sort_by le xs)"
  by (induction xs) (auto intro: sorted_insert_by)

text \<open>The head of the sorted list is a least element: what \<open>ORDER BY ... LIMIT 1\<close> returns.\<close>

lemma sort_by_head_least:
  assumes "sort_by le xs = x # rest"
  shows "x \<in> set xs \<and> (\<forall>y \<in> set xs. le x y)"
proof -
  have s: "sorted_wrt le (x # rest)" using sorted_sort_by[of xs] assms by simp
  have "set xs = set (x # rest)" using assms by (metis set_sort_by)
  with s show ?thesis by (auto intro: le_refl)
qed

end

interpretation text_order: comparator "(\<le>) :: string \<Rightarrow> string \<Rightarrow> bool"
  by unfold_locales auto

section \<open>Transition tables\<close>

text \<open>
  A status table lists the allowed next states of each state; the packages read it through one
  guard ("equal, or listed"). Facts about runs of such a machine are proved here once.
\<close>

locale transition_table =
  fixes next_states :: "'s \<Rightarrow> 's list"
  assumes no_self_loop: "s \<notin> set (next_states s)"
    and table_distinct: "distinct (next_states s)"
begin

definition step :: "'s \<Rightarrow> 's \<Rightarrow> bool" where
  "step s t \<longleftrightarrow> t \<in> set (next_states s)"

lemma step_irrefl: "\<not> step s s"
  by (simp add: step_def no_self_loop)

lemma terminal_absorbing: "step\<^sup>*\<^sup>* s t \<Longrightarrow> next_states s = [] \<Longrightarrow> t = s"
  by (induction rule: rtranclp_induct) (auto simp: step_def)

lemma closed_invariant:
  assumes "step\<^sup>*\<^sup>* s t" and "s \<in> S" and "\<And>u v. u \<in> S \<Longrightarrow> step u v \<Longrightarrow> v \<in> S"
  shows "t \<in> S"
  using assms(1,2) by (induction rule: rtranclp_induct) (auto intro: assms(3))

lemma step_closed_converse:
  assumes "step\<^sup>*\<^sup>* s t" and "t \<in> S" and "\<And>u v. v \<in> S \<Longrightarrow> step u v \<Longrightarrow> u \<in> S"
  shows "s \<in> S"
  using assms(1,2) by (induction rule: converse_rtranclp_induct) (auto intro: assms(3))

end

section \<open>Results\<close>

text \<open>
  A step that throws is \<open>Inl\<close> of its error; \<open>and_then\<close> sequences two steps as statements do, and
  \<open>ensure\<close> is a guard that throws.
\<close>

definition and_then :: "'e + 'a \<Rightarrow> ('a \<Rightarrow> 'e + 'b) \<Rightarrow> 'e + 'b" where
  "and_then r f = (case r of Inl e \<Rightarrow> Inl e | Inr x \<Rightarrow> f x)"

declare and_then_def [code_unfold]

definition is_ok :: "'e + 'a \<Rightarrow> bool" where
  "is_ok r = (case r of Inl _ \<Rightarrow> False | Inr _ \<Rightarrow> True)"

lemma is_ok_iff: "is_ok r \<longleftrightarrow> (\<exists>x. r = Inr x)"
  by (simp add: is_ok_def split: sum.splits)

definition ensure :: "bool \<Rightarrow> 'e \<Rightarrow> 'e + unit" where
  "ensure b e = (if b then Inr () else Inl e)"

text \<open>\<open>map_error\<close> wraps the error of a callee into the caller's error type.\<close>

definition map_error :: "('e \<Rightarrow> 'f) \<Rightarrow> 'e + 'a \<Rightarrow> 'f + 'a" where
  "map_error g r = (case r of Inl e \<Rightarrow> Inl (g e) | Inr x \<Rightarrow> Inr x)"

lemma and_then_simps [simp]:
  "and_then (Inl e) f = Inl e" "and_then (Inr x) f = f x"
  by (simp_all add: and_then_def)

lemma and_then_Inr_iff [simp]: "and_then r f = Inr y \<longleftrightarrow> (\<exists>x. r = Inr x \<and> f x = Inr y)"
  by (auto simp: and_then_def split: sum.splits)

lemma and_then_Inl_iff: "and_then r f = Inl e \<longleftrightarrow> r = Inl e \<or> (\<exists>x. r = Inr x \<and> f x = Inl e)"
  by (auto simp: and_then_def split: sum.splits)

lemma ensure_Inr_iff [simp]: "ensure b e = Inr u \<longleftrightarrow> b"
  by (simp add: ensure_def)

lemma ensure_Inl_iff [simp]: "ensure b e = Inl e' \<longleftrightarrow> \<not> b \<and> e = e'"
  by (auto simp: ensure_def)

lemma ensure_simps [simp]: "ensure True e = Inr ()" "ensure False e = Inl e"
  by (simp_all add: ensure_def)

lemma map_error_simps [simp]: "map_error g (Inl e) = Inl (g e)" "map_error g (Inr x) = Inr x"
  by (simp_all add: map_error_def)

lemma map_error_Inr_iff [simp]: "map_error g r = Inr x \<longleftrightarrow> r = Inr x"
  by (auto simp: map_error_def split: sum.splits)

lemma map_error_Inl_iff [simp]: "map_error g r = Inl e \<longleftrightarrow> (\<exists>e'. r = Inl e' \<and> e = g e')"
  by (auto simp: map_error_def split: sum.splits)

lemmas result_splits = sum.splits option.splits if_splits

end
