(* ===== verification/JobJson.thy ===== *)
theory JobJson
  imports Prelude
begin

text \<open>
  The canonical JSON of the durable job runtime (\<^verbatim>\<open>packages/job-runtime/src/serialization.ts\<close>):
  the depth-limited serializer with sorted object keys, the byte limit, the content hash and the
  integrity check on stored JSON. SHA-256 (\<^verbatim>\<open>node:crypto\<close>) is the parameter \<open>sha\<close>. Numbers are
  integral; a value that JSON cannot carry is \<open>JFault\<close> with the reason the serializer gives. JSON text
  kept in a column is represented by the value \<open>JSON.parse\<close> gives for it.
\<close>

section \<open>Decimal numerals\<close>

definition digit_char :: "nat \<Rightarrow> char" where
  "digit_char d = char_of (48 + d)"

fun show_nat :: "nat \<Rightarrow> string" where
  "show_nat n = (if n < 10 then [digit_char n] else show_nat (n div 10) @ [digit_char (n mod 10)])"

declare show_nat.simps [simp del]

definition show_int :: "int \<Rightarrow> string" where
  "show_int i = (if i < 0 then CHR ''-'' # show_nat (nat (- i)) else show_nat (nat i))"

definition read_nat :: "string \<Rightarrow> nat" where
  "read_nat s = foldl (\<lambda>a c. 10 * a + (of_char c - 48)) 0 s"

lemma code_digit_char [simp]:
  "d < 10 \<Longrightarrow> (of_char (digit_char d) :: nat) = 48 + d"
  "d < 10 \<Longrightarrow> code_of (digit_char d) = 48 + int d"
proof -
  assume d: "d < 10"
  show n: "(of_char (digit_char d) :: nat) = 48 + d" using d by (simp add: digit_char_def)
  have "code_of (digit_char d) = int (of_char (digit_char d))" by (rule of_nat_of_char [symmetric])
  then show "code_of (digit_char d) = 48 + int d" unfolding n by simp
qed

lemma read_show_nat [simp]: "read_nat (show_nat n) = n"
proof (induction n rule: show_nat.induct)
  case (1 n)
  show ?case
  proof (cases "n < 10")
    case True
    then show ?thesis by (subst show_nat.simps) (simp add: read_nat_def)
  next
    case False
    with 1 show ?thesis by (subst show_nat.simps) (simp add: read_nat_def)
  qed
qed

lemma show_nat_inject [simp]: "show_nat m = show_nat n \<longleftrightarrow> m = n"
  by (metis read_show_nat)

lemma show_nat_digits: "c \<in> set (show_nat n) \<Longrightarrow> ascii_digit c"
proof (induction n rule: show_nat.induct)
  case (1 n)
  show ?case
  proof (cases "n < 10")
    case True
    then show ?thesis using 1 by (simp add: show_nat.simps[of n] ascii_digit_def)
  next
    case False
    then show ?thesis using 1 by (auto simp: show_nat.simps[of n] ascii_digit_def)
  qed
qed

lemma length_show_nat: "n < 10 ^ Suc k \<Longrightarrow> length (show_nat n) \<le> Suc k"
proof (induction k arbitrary: n)
  case 0
  then show ?case by (simp add: show_nat.simps[of n])
next
  case (Suc k)
  then have "n div 10 < 10 ^ Suc k" by simp
  then show ?case using Suc.IH[of "n div 10"] by (simp add: show_nat.simps[of n])
qed

lemma show_nat_nonempty [simp]: "show_nat n \<noteq> []"
  by (subst show_nat.simps) simp

section \<open>Values and the canonical text\<close>

datatype json_fault = NON_FINITE_NUMBER | NON_JSON_VALUE | CYCLIC_VALUE | NON_JSON_OBJECT

datatype js_value =
  JNull
| JBool bool
| JNum int
| JText string
| JList "js_value list"
| JObject "(string \<times> js_value) list"
| JFault json_fault

datatype json_error = DEPTH_LIMIT | FAULT json_fault | BYTE_LIMIT | INTEGRITY

definition hex_digit :: "int \<Rightarrow> char" where
  "hex_digit d = (if d < 10 then char_of (48 + d) else char_of (87 + d))"

text \<open>\<open>JSON.stringify\<close> of one code unit inside a string literal.\<close>

definition json_escape :: "char \<Rightarrow> string" where
  "json_escape c = (let n = code_of c; bs = CHR 0x5C in
     if n = 34 then [bs, c] else if n = 92 then [bs, c]
     else if n = 8 then [bs, CHR ''b''] else if n = 12 then [bs, CHR ''f'']
     else if n = 10 then [bs, CHR ''n''] else if n = 13 then [bs, CHR ''r'']
     else if n = 9 then [bs, CHR ''t'']
     else if n < 32 then bs # ''u00'' @ [hex_digit (n div 16), hex_digit (n mod 16)]
     else [c])"

definition json_quote :: "string \<Rightarrow> string" where
  "json_quote s = CHR 0x22 # concat (map json_escape s) @ [CHR 0x22]"

fun join_with :: "string \<Rightarrow> string list \<Rightarrow> string" where
  "join_with sep [] = []"
| "join_with sep [x] = x"
| "join_with sep (x # xs) = x @ sep @ join_with sep xs"

text \<open>The first error of a list of results, in order; otherwise all the values.\<close>

fun sequence :: "('e + 'a) list \<Rightarrow> 'e + 'a list" where
  "sequence [] = Inr []"
| "sequence (Inl e # rs) = Inl e"
| "sequence (Inr x # rs) = (case sequence rs of Inl e \<Rightarrow> Inl e | Inr xs \<Rightarrow> Inr (x # xs))"

fun render_field :: "string \<times> (json_error + string) \<Rightarrow> json_error + string" where
  "render_field (k, Inl e) = Inl e"
| "render_field (k, Inr s) = Inr (json_quote k @ '':'' @ s)"

text \<open>
  \<open>canonical(value, path, depth, ancestors)\<close>. Evaluating every member before the first error is
  looked for does not change which error is reported, since evaluation has no effect.
\<close>

primrec canonical :: "js_value \<Rightarrow> nat \<Rightarrow> json_error + string" where
  "canonical JNull d = (if 64 < d then Inl DEPTH_LIMIT else Inr ''null'')"
| "canonical (JBool b) d =
     (if 64 < d then Inl DEPTH_LIMIT else Inr (if b then ''true'' else ''false''))"
| "canonical (JNum i) d = (if 64 < d then Inl DEPTH_LIMIT else Inr (show_int i))"
| "canonical (JText s) d = (if 64 < d then Inl DEPTH_LIMIT else Inr (json_quote s))"
| "canonical (JList vs) d =
     (if 64 < d then Inl DEPTH_LIMIT
      else case sequence (map (\<lambda>f. f (Suc d)) (map canonical vs)) of
        Inl e \<Rightarrow> Inl e | Inr ss \<Rightarrow> Inr (''['' @ join_with '','' ss @ '']''))"
| "canonical (JObject fs) d =
     (if 64 < d then Inl DEPTH_LIMIT
      else case sequence (map render_field (sort_key fst
             (map (\<lambda>(k, f). (k, f (Suc d))) (map (map_prod id canonical) fs)))) of
        Inl e \<Rightarrow> Inl e | Inr ss \<Rightarrow> Inr (''{'' @ join_with '','' ss @ ''}''))"
| "canonical (JFault w) d = (if 64 < d then Inl DEPTH_LIMIT else Inl (FAULT w))"

text \<open>\<open>JSON.parse(canonical(value))\<close>: the same value with its object keys in sorted order.\<close>

primrec parsed_value :: "js_value \<Rightarrow> js_value" where
  "parsed_value JNull = JNull"
| "parsed_value (JBool b) = JBool b"
| "parsed_value (JNum i) = JNum i"
| "parsed_value (JText s) = JText s"
| "parsed_value (JList vs) = JList (map parsed_value vs)"
| "parsed_value (JObject fs) = JObject (sort_key fst (map (map_prod id parsed_value) fs))"
| "parsed_value (JFault w) = JFault w"

text \<open>\<open>Buffer.byteLength\<close> (UTF-8) of a Latin-1 string.\<close>

definition byte_length :: "string \<Rightarrow> int" where
  "byte_length s = sum_list (map (\<lambda>c. if code_of c < 128 then 1 else 2) s)"

record serialized =
  sz_json :: string
  sz_hash :: string
  sz_value :: js_value

definition serializeJobJson :: "(string \<Rightarrow> string) \<Rightarrow> js_value \<Rightarrow> json_error + serialized" where
  "serializeJobJson sha v = (case canonical v 0 of
     Inl e \<Rightarrow> Inl e
   | Inr json \<Rightarrow>
       if 1048576 < byte_length json then Inl BYTE_LIMIT
       else Inr \<lparr>sz_json = json, sz_hash = sha json, sz_value = parsed_value v\<rparr>)"

text \<open>
  \<open>parseStoredJobJson(json, expectedHash)\<close>, with the stored text given by its parsed value \<open>v\<close> and
  the text itself \<open>json\<close>.
\<close>

definition parseStoredJobJson ::
  "(string \<Rightarrow> string) \<Rightarrow> string \<Rightarrow> js_value \<Rightarrow> string \<Rightarrow> json_error + js_value" where
  "parseStoredJobJson sha json v expected = (case serializeJobJson sha v of
     Inl e \<Rightarrow> Inl e
   | Inr p \<Rightarrow>
       if sz_hash p \<noteq> expected \<or> sz_json p \<noteq> json then Inl INTEGRITY else Inr (sz_value p))"

datatype effect_error = EFFECT_STEP_INVALID

definition jobEffectKey :: "(string \<Rightarrow> string) \<Rightarrow> string \<Rightarrow> string \<Rightarrow> effect_error + string" where
  "jobEffectKey sha key step =
     (if length step < 1 \<or> 200 < length step \<or> \<not> plain_text step then Inl EFFECT_STEP_INVALID
      else Inr (sha (''zhiloop-job-effect-v1'' @ [CHR 0x00] @ key
                     @ [CHR 0x00] @ step)))"

section \<open>Facts\<close>

lemma sequence_InrD: "sequence rs = Inr xs \<Longrightarrow> rs = map Inr xs"
  by (induction rs arbitrary: xs rule: sequence.induct) (auto split: sum.splits)

lemma sequence_Inr [simp]: "sequence (map Inr xs) = Inr xs"
  by (induction xs) auto

lemma sequence_map_cong: "(\<And>x. x \<in> set xs \<Longrightarrow> f x = g x) \<Longrightarrow> sequence (map f xs) = sequence (map g xs)"
  by (metis map_cong)

text \<open>Sorting by the key commutes with any change of the values that keeps the keys.\<close>

lemma insort_key_map_snd:
  "insort_key fst (k, g v) (map (\<lambda>(k, v). (k, g v)) xs)
    = map (\<lambda>(k, v). (k, g v)) (insort_key fst (k, v) xs)"
  by (induction xs) auto

lemma sort_key_map_snd:
  "sort_key fst (map (\<lambda>(k, v). (k, g v)) xs) = map (\<lambda>(k, v). (k, g v)) (sort_key fst xs)"
  by (induction xs) (auto simp: insort_key_map_snd split: prod.splits)

lemma map_prod_id_eq: "map (map_prod id g) xs = map (\<lambda>(k, v). (k, g v)) xs"
  by (auto simp: map_prod_def)

lemma sort_key_idem: "sort_key f (sort_key f xs) = sort_key f xs"
  by (rule sort_key_id_if_sorted) (rule sorted_sort_key)

text \<open>The object clause of both functions, with the sort done first.\<close>

lemma parsed_object:
  "parsed_value (JObject fs) = JObject (map (\<lambda>(k, v). (k, parsed_value v)) (sort_key fst fs))"
  by (simp add: map_prod_id_eq sort_key_map_snd)

lemma object_members:
  "sort_key fst (map (\<lambda>(k, f). (k, f (Suc d))) (map (map_prod id canonical) fs))
    = map (\<lambda>(k, v). (k, canonical v (Suc d))) (sort_key fst fs)"
proof -
  have "map (\<lambda>(k, f). (k, f (Suc d))) (map (map_prod id canonical) fs)
      = map (\<lambda>(k, v). (k, canonical v (Suc d))) fs"
    by (auto simp: map_prod_def)
  then show ?thesis by (simp only: sort_key_map_snd)
qed

lemma canonical_parsed: "canonical (parsed_value v) d = canonical v d"
proof (induction v arbitrary: d)
  case (JList vs)
  then show ?case by (simp add: o_def cong: map_cong)
next
  case (JObject fs)
  let ?s = "sort_key fst fs"
  have ih: "canonical (parsed_value v) d = canonical v d" if "(k, v) \<in> set fs" for k v d
    using JObject that by (metis prod_set_simps(2) singletonI snd_conv snds.intros)
  have "map (\<lambda>(k, v). (k, canonical v (Suc d))) (sort_key fst (map (\<lambda>(k, v). (k, parsed_value v)) ?s))
      = map (\<lambda>(k, v). (k, canonical v (Suc d))) (map (\<lambda>(k, v). (k, parsed_value v)) ?s)"
    by (simp only: sort_key_map_snd sort_key_idem)
  also have "\<dots> = map (\<lambda>(k, v). (k, canonical v (Suc d))) ?s"
    using ih by auto
  finally show ?case
    unfolding parsed_object canonical.simps object_members by simp
qed simp_all

lemma parsed_parsed: "parsed_value (parsed_value v) = parsed_value v"
proof (induction v)
  case (JObject fs)
  have ih: "parsed_value (parsed_value v) = parsed_value v" if "(k, v) \<in> set fs" for k v
    using JObject that by (metis prod_set_simps(2) singletonI snd_conv snds.intros)
  show ?case
    unfolding parsed_object sort_key_map_snd sort_key_idem using ih by auto
qed (simp_all add: o_def cong: map_cong)

text \<open>Reading back what the serializer stored passes the integrity check.\<close>

lemma parse_serialized:
  assumes "serializeJobJson sha v = Inr z"
  shows "parseStoredJobJson sha (sz_json z) (sz_value z) (sz_hash z) = Inr (sz_value z)"
  using assms
  by (auto simp: parseStoredJobJson_def serializeJobJson_def canonical_parsed parsed_parsed
      split: sum.splits if_splits)

lemma serialized_hash: "serializeJobJson sha v = Inr z \<Longrightarrow> sz_hash z = sha (sz_json z)"
  by (auto simp: serializeJobJson_def split: sum.splits if_splits)

end
