(* ===== verification/ControlStates.thy ===== *)
theory ControlStates
  imports Prelude
begin

text \<open>
  The control API's status machines (\<^verbatim>\<open>packages/control-api/src/constants.ts\<close> and
  \<^verbatim>\<open>state-machine.ts\<close>): eight enumerations, one transition table each, and the guard
  \<open>canTransition\<close> that every snapshot producer uses. Statuses of different machines share names;
  a constructor is then written with its type, as in \<open>job_status.RUNNING\<close>. The generic key
  \<open>kind\<close> of the source picks the table, so each guard takes the table itself.
\<close>

section \<open>Statuses\<close>

datatype capability_status =
  NOT_IMPLEMENTED | DISABLED | NOT_CONFIGURED | NOT_VERIFIED | STARTING | READY | DEGRADED
| FAILED

datatype stage_status =
  NOT_APPLICABLE | PENDING | RUNNING | SUCCEEDED | FAILED | BLOCKED | SKIPPED | DISABLED

datatype attempt_status =
  RUNNING | SUCCEEDED | RETRYABLE_FAILED | TERMINAL_FAILED | CANCELLED | LEASE_LOST

datatype lease_status =
  ACTIVE | EXPIRED | RELEASED

datatype cancellation_status =
  NOT_REQUESTED | REQUESTED | ACKNOWLEDGED | REJECTED

datatype idempotency_status =
  RESERVED | COMPLETED

datatype injection_status =
  PENDING | RETRIEVING | DISABLED | SHADOWED | INJECTED | NO_CONTEXT | ROLLED_BACK
| INVALID_INPUT | TIMEOUT | PROVIDER_ERROR | INVALID_CONTEXT | ERROR

datatype job_status =
  QUEUED | RUNNING | RETRY_WAIT | SUCCEEDED | FAILED | CANCELLED

section \<open>Transition tables\<close>

fun capabilityTransitions :: "capability_status \<Rightarrow> capability_status list" where
  "capabilityTransitions capability_status.NOT_IMPLEMENTED = [capability_status.DISABLED]"
| "capabilityTransitions capability_status.DISABLED =
     [capability_status.NOT_CONFIGURED,
      capability_status.NOT_VERIFIED, capability_status.STARTING]"
| "capabilityTransitions capability_status.NOT_CONFIGURED =
     [capability_status.DISABLED, capability_status.NOT_VERIFIED, capability_status.STARTING]"
| "capabilityTransitions capability_status.NOT_VERIFIED =
     [capability_status.DISABLED, capability_status.STARTING,
      capability_status.READY, capability_status.FAILED]"
| "capabilityTransitions capability_status.STARTING =
     [capability_status.READY, capability_status.DEGRADED,
      capability_status.FAILED, capability_status.DISABLED]"
| "capabilityTransitions capability_status.READY =
     [capability_status.DEGRADED, capability_status.FAILED,
      capability_status.DISABLED, capability_status.NOT_CONFIGURED]"
| "capabilityTransitions capability_status.DEGRADED =
     [capability_status.READY, capability_status.FAILED,
      capability_status.DISABLED, capability_status.NOT_CONFIGURED]"
| "capabilityTransitions capability_status.FAILED =
     [capability_status.STARTING, capability_status.DEGRADED,
      capability_status.DISABLED, capability_status.NOT_CONFIGURED]"

fun stageTransitions :: "stage_status \<Rightarrow> stage_status list" where
  "stageTransitions stage_status.NOT_APPLICABLE = []"
| "stageTransitions stage_status.PENDING =
     [stage_status.RUNNING, stage_status.BLOCKED,
      stage_status.SKIPPED, stage_status.DISABLED, stage_status.FAILED]"
| "stageTransitions stage_status.RUNNING =
     [stage_status.SUCCEEDED, stage_status.FAILED, stage_status.BLOCKED, stage_status.SKIPPED]"
| "stageTransitions stage_status.SUCCEEDED = []"
| "stageTransitions stage_status.FAILED = [stage_status.PENDING, stage_status.RUNNING]"
| "stageTransitions stage_status.BLOCKED =
     [stage_status.PENDING, stage_status.RUNNING, stage_status.SKIPPED, stage_status.DISABLED]"
| "stageTransitions stage_status.SKIPPED = []"
| "stageTransitions stage_status.DISABLED = [stage_status.PENDING]"

fun jobAttemptTransitions :: "attempt_status \<Rightarrow> attempt_status list" where
  "jobAttemptTransitions attempt_status.RUNNING =
     [attempt_status.SUCCEEDED, attempt_status.RETRYABLE_FAILED,
      attempt_status.TERMINAL_FAILED, attempt_status.CANCELLED, attempt_status.LEASE_LOST]"
| "jobAttemptTransitions attempt_status.SUCCEEDED = []"
| "jobAttemptTransitions attempt_status.RETRYABLE_FAILED = []"
| "jobAttemptTransitions attempt_status.TERMINAL_FAILED = []"
| "jobAttemptTransitions attempt_status.CANCELLED = []"
| "jobAttemptTransitions attempt_status.LEASE_LOST = []"

fun jobLeaseTransitions :: "lease_status \<Rightarrow> lease_status list" where
  "jobLeaseTransitions lease_status.ACTIVE = [lease_status.EXPIRED, lease_status.RELEASED]"
| "jobLeaseTransitions lease_status.EXPIRED = []"
| "jobLeaseTransitions lease_status.RELEASED = []"

fun jobCancellationTransitions :: "cancellation_status \<Rightarrow> cancellation_status list" where
  "jobCancellationTransitions cancellation_status.NOT_REQUESTED = [cancellation_status.REQUESTED]"
| "jobCancellationTransitions cancellation_status.REQUESTED =
     [cancellation_status.ACKNOWLEDGED, cancellation_status.REJECTED]"
| "jobCancellationTransitions cancellation_status.ACKNOWLEDGED = []"
| "jobCancellationTransitions cancellation_status.REJECTED = []"

fun jobIdempotencyTransitions :: "idempotency_status \<Rightarrow> idempotency_status list" where
  "jobIdempotencyTransitions idempotency_status.RESERVED = [idempotency_status.COMPLETED]"
| "jobIdempotencyTransitions idempotency_status.COMPLETED = []"

fun injectionTransitions :: "injection_status \<Rightarrow> injection_status list" where
  "injectionTransitions injection_status.PENDING =
     [injection_status.RETRIEVING, injection_status.DISABLED,
      injection_status.INVALID_INPUT, injection_status.ERROR]"
| "injectionTransitions injection_status.RETRIEVING =
     [injection_status.SHADOWED, injection_status.INJECTED, injection_status.NO_CONTEXT, injection_status.ROLLED_BACK,
      injection_status.TIMEOUT, injection_status.PROVIDER_ERROR, injection_status.INVALID_CONTEXT, injection_status.ERROR]"
| "injectionTransitions injection_status.DISABLED = []"
| "injectionTransitions injection_status.SHADOWED = []"
| "injectionTransitions injection_status.INJECTED = []"
| "injectionTransitions injection_status.NO_CONTEXT = []"
| "injectionTransitions injection_status.ROLLED_BACK = []"
| "injectionTransitions injection_status.INVALID_INPUT = []"
| "injectionTransitions injection_status.TIMEOUT = []"
| "injectionTransitions injection_status.PROVIDER_ERROR = []"
| "injectionTransitions injection_status.INVALID_CONTEXT = []"
| "injectionTransitions injection_status.ERROR = []"

fun jobTransitions :: "job_status \<Rightarrow> job_status list" where
  "jobTransitions job_status.QUEUED = [job_status.RUNNING, job_status.CANCELLED]"
| "jobTransitions job_status.RUNNING =
     [job_status.SUCCEEDED, job_status.FAILED, job_status.RETRY_WAIT, job_status.CANCELLED]"
| "jobTransitions job_status.RETRY_WAIT =
     [job_status.QUEUED, job_status.RUNNING, job_status.FAILED, job_status.CANCELLED]"
| "jobTransitions job_status.SUCCEEDED = []"
| "jobTransitions job_status.FAILED = [job_status.QUEUED]"
| "jobTransitions job_status.CANCELLED = []"

section \<open>The guards\<close>

definition canTransition :: "('s \<Rightarrow> 's list) \<Rightarrow> 's \<Rightarrow> 's \<Rightarrow> bool" where
  "canTransition table from target =
     (if from = target then True else target \<in> set (table from))"

datatype 's transition_error = IllegalTransition 's 's

definition assertTransition :: "('s \<Rightarrow> 's list) \<Rightarrow> 's \<Rightarrow> 's \<Rightarrow> 's transition_error + unit" where
  "assertTransition table from target =
     (if \<not> canTransition table from target then Inl (IllegalTransition from target) else Inr ())"

section \<open>Facts\<close>

context transition_table begin

lemma canTransition_iff: "canTransition next_states s t \<longleftrightarrow> s = t \<or> step s t"
  by (simp add: canTransition_def step_def)

text \<open>A recorded history in which every move is guarded is a run of the table.\<close>

lemma guarded_history:
  "successively (canTransition next_states) (s # hs) \<Longrightarrow> t \<in> set (s # hs) \<Longrightarrow> step\<^sup>*\<^sup>* s t"
proof (induction hs arbitrary: s)
  case (Cons h hs)
  have h: "step\<^sup>*\<^sup>* s h" using Cons.prems(1) by (auto simp: canTransition_iff)
  show ?case
  proof (cases "t = s")
    case False
    then have "step\<^sup>*\<^sup>* h t" using Cons by auto
    with h show ?thesis by (rule rtranclp_trans)
  qed simp
qed auto

lemma guarded_history_terminal:
  assumes "successively (canTransition next_states) (s # hs)" and "next_states s = []"
    and "t \<in> set hs"
  shows "t = s"
  using guarded_history[OF assms(1), of t] terminal_absorbing[of s t] assms(2,3) by simp

end

interpretation cap_table: transition_table capabilityTransitions
proof
  fix s show "s \<notin> set (capabilityTransitions s)" by (cases s) auto
next
  fix s show "distinct (capabilityTransitions s)" by (cases s) auto
qed

interpretation stage_table: transition_table stageTransitions
proof
  fix s show "s \<notin> set (stageTransitions s)" by (cases s) auto
next
  fix s show "distinct (stageTransitions s)" by (cases s) auto
qed

interpretation attempt_table: transition_table jobAttemptTransitions
proof
  fix s show "s \<notin> set (jobAttemptTransitions s)" by (cases s) auto
next
  fix s show "distinct (jobAttemptTransitions s)" by (cases s) auto
qed

interpretation lease_table: transition_table jobLeaseTransitions
proof
  fix s show "s \<notin> set (jobLeaseTransitions s)" by (cases s) auto
next
  fix s show "distinct (jobLeaseTransitions s)" by (cases s) auto
qed

interpretation cancel_table: transition_table jobCancellationTransitions
proof
  fix s show "s \<notin> set (jobCancellationTransitions s)" by (cases s) auto
next
  fix s show "distinct (jobCancellationTransitions s)" by (cases s) auto
qed

interpretation idem_table: transition_table jobIdempotencyTransitions
proof
  fix s show "s \<notin> set (jobIdempotencyTransitions s)" by (cases s) auto
next
  fix s show "distinct (jobIdempotencyTransitions s)" by (cases s) auto
qed

interpretation injection_table: transition_table injectionTransitions
proof
  fix s show "s \<notin> set (injectionTransitions s)" by (cases s) auto
next
  fix s show "distinct (injectionTransitions s)" by (cases s) auto
qed

interpretation job_table: transition_table jobTransitions
proof
  fix s show "s \<notin> set (jobTransitions s)" by (cases s) auto
next
  fix s show "distinct (jobTransitions s)" by (cases s) auto
qed

end
