(* ===== verification/JobTables.thy ===== *)
theory JobTables
  imports JobJson ControlStates "HOL-Library.Product_Lexorder"
begin

text \<open>
  The tables of the durable job store (\<^verbatim>\<open>packages/job-runtime/src/store.ts\<close>): one record per
  row type, the \<open>CHECK\<close>, \<open>UNIQUE\<close> and foreign-key constraints of its schema, and the snapshot
  schemas of \<^verbatim>\<open>packages/control-api/src/schemas.ts\<close> that every returned job must satisfy.

  A text column holding an ISO timestamp and its millisecond twin are one field, the
  millisecond value, since the code always writes both from the same \<open>Date\<close>. \<open>NULL\<close> is \<open>None\<close>.
  Times are milliseconds, counters and revisions integers, progress a rational.
\<close>

section \<open>Rows\<close>

datatype job_reason =
  JOB_QUEUED | JOB_RUNNING | JOB_RETRY_WAIT | JOB_SUCCEEDED | JOB_CANCELLED
| JOB_MAX_ATTEMPTS_EXHAUSTED | JOB_NON_RETRYABLE_FAILURE | JOB_CANCELLATION_REQUESTED

datatype job_priority = BACKGROUND | NORMAL | INTERACTIVE

fun JOB_PRIORITIES :: "job_priority \<Rightarrow> int" where
  "JOB_PRIORITIES BACKGROUND = 0"
| "JOB_PRIORITIES NORMAL = 10"
| "JOB_PRIORITIES INTERACTIVE = 20"

record job_row =
  jr_id :: string
  jr_type :: string
  jr_revision :: int
  jr_priority :: int
  jr_key :: string
  jr_fingerprint :: string
  jr_input :: serialized
  jr_status :: job_status
  jr_count :: int
  jr_max :: int
  jr_fencing :: int
  jr_progress :: rat
  jr_reason :: job_reason
  jr_next :: "int option"
  jr_attempt :: "string option"
  jr_worker :: "string option"
  jr_acquired :: "int option"
  jr_heartbeat :: "int option"
  jr_expires :: "int option"
  jr_cancel :: cancellation_status
  jr_requested :: "int option"
  jr_resolved :: "int option"
  jr_fail_code :: "string option"
  jr_fail_retryable :: "bool option"
  jr_fail_at :: "int option"
  jr_created :: int
  jr_updated :: int
  jr_transition :: int
  jr_started :: "int option"
  jr_completed :: "int option"

record attempt_row =
  ar_job :: string
  ar_id :: string
  ar_number :: int
  ar_status :: attempt_status
  ar_worker :: string
  ar_fencing :: int
  ar_lease :: lease_status
  ar_started :: int
  ar_heartbeat :: int
  ar_expires :: int
  ar_finished :: "int option"
  ar_checkpoint :: int
  ar_fail_code :: "string option"
  ar_fail_retryable :: "bool option"
  ar_fail_at :: "int option"

record checkpoint_row =
  cp_job :: string
  cp_revision :: int
  cp_payload :: serialized
  cp_progress :: rat
  cp_updated :: int

datatype command_action = CANCEL | RETRY

datatype command_disposition = APPLIED | NOOP | REPLAYED

record command_row =
  cm_key :: string
  cm_fingerprint :: string
  cm_job :: string
  cm_action :: command_action
  cm_disposition :: command_disposition
  cm_expected :: int
  cm_revision_after :: int
  cm_created :: int

record job_db =
  db_jobs :: "job_row list"
  db_attempts :: "attempt_row list"
  db_checkpoints :: "checkpoint_row list"
  db_commands :: "command_row list"
  db_closed :: bool

section \<open>Errors\<close>

datatype job_argument =
  ArgJobId | ArgWorkerId | ArgAttemptId | ArgAfterJobId | ArgAfterCreatedAt | ArgLimit
| ArgLeaseMs | ArgJobType | ArgIdempotencyKey | ArgMaxAttempts | ArgFailureCode | ArgProgress
| ArgExpectedRevision | ArgBaseDelay | ArgMaxDelay | ArgJitter | ArgRandom

datatype store_error =
  StoreClosed
| ClockInvalid
| InvalidArgument job_argument
| Serialization json_error
| IdempotencyConflict
| LeaseLost
| StaleRevision
| StateConflict
| JobNotFound
| ProgressNotMonotonic
| CancellationNotRequested
| SqlConstraint
| SnapshotInvalid
| MissingRow
| MigrationUnsupported

section \<open>Constraints of the schema\<close>

definition terminal :: "job_status \<Rightarrow> bool" where
  "terminal s \<longleftrightarrow> s \<in> {job_status.SUCCEEDED, job_status.FAILED, job_status.CANCELLED}"

definition job_check :: "job_row \<Rightarrow> bool" where
  "job_check r \<longleftrightarrow>
     0 \<le> jr_revision r \<and> 0 \<le> jr_priority r \<and> jr_priority r \<le> 100
   \<and> 0 \<le> jr_count r \<and> 1 \<le> jr_max r \<and> jr_max r \<le> 1000 \<and> 0 \<le> jr_fencing r
   \<and> 0 \<le> jr_progress r \<and> jr_progress r \<le> 1
   \<and> jr_count r \<le> jr_max r
   \<and> (jr_status r = job_status.RUNNING) = (jr_attempt r \<noteq> None)
   \<and> (jr_status r = job_status.RUNNING) = (jr_worker r \<noteq> None)
   \<and> (jr_status r = job_status.RUNNING) = (jr_expires r \<noteq> None)
   \<and> (jr_status r = job_status.RETRY_WAIT) = (jr_next r \<noteq> None)
   \<and> terminal (jr_status r) = (jr_completed r \<noteq> None)"

definition attempt_check :: "attempt_row \<Rightarrow> bool" where
  "attempt_check a \<longleftrightarrow>
     1 \<le> ar_number a \<and> ar_number a \<le> 1000 \<and> 0 < ar_fencing a \<and> 0 \<le> ar_checkpoint a
   \<and> (ar_status a = attempt_status.RUNNING) = (ar_finished a = None)
   \<and> (ar_status a \<in> {attempt_status.RETRYABLE_FAILED, attempt_status.TERMINAL_FAILED,
                     attempt_status.LEASE_LOST}) = (ar_fail_code a \<noteq> None)"

definition checkpoint_check :: "checkpoint_row \<Rightarrow> bool" where
  "checkpoint_check c \<longleftrightarrow> 0 < cp_revision c \<and> 0 \<le> cp_progress c \<and> cp_progress c \<le> 1"

definition command_check :: "command_row \<Rightarrow> bool" where
  "command_check c \<longleftrightarrow>
     cm_disposition c \<in> {APPLIED, NOOP} \<and> 0 \<le> cm_expected c \<and> 0 \<le> cm_revision_after c"

text \<open>\<open>INSERT\<close> and \<open>UPDATE\<close>: a violated constraint raises and the transaction rolls back.\<close>

definition insert_job :: "job_row \<Rightarrow> job_db \<Rightarrow> store_error + job_db" where
  "insert_job r db =
     and_then (ensure (job_check r
         \<and> jr_id r \<notin> jr_id ` set (db_jobs db) \<and> jr_key r \<notin> jr_key ` set (db_jobs db)) SqlConstraint)
       (\<lambda>_. Inr (db\<lparr>db_jobs := db_jobs db @ [r]\<rparr>))"

definition update_job :: "string \<Rightarrow> (job_row \<Rightarrow> job_row) \<Rightarrow> job_db \<Rightarrow> store_error + job_db" where
  "update_job i f db =
     and_then (ensure (list_all (\<lambda>r. jr_id r = i \<longrightarrow> job_check (f r)) (db_jobs db)) SqlConstraint)
       (\<lambda>_. Inr (db\<lparr>db_jobs := map (\<lambda>r. if jr_id r = i then f r else r) (db_jobs db)\<rparr>))"

definition insert_attempt :: "attempt_row \<Rightarrow> job_db \<Rightarrow> store_error + job_db" where
  "insert_attempt a db =
     and_then (ensure (attempt_check a
         \<and> ar_job a \<in> jr_id ` set (db_jobs db)
         \<and> ar_id a \<notin> ar_id ` set (db_attempts db)
         \<and> (ar_job a, ar_number a) \<notin> (\<lambda>b. (ar_job b, ar_number b)) ` set (db_attempts db)
         \<and> (ar_job a, ar_fencing a) \<notin> (\<lambda>b. (ar_job b, ar_fencing b)) ` set (db_attempts db))
         SqlConstraint)
       (\<lambda>_. Inr (db\<lparr>db_attempts := db_attempts db @ [a]\<rparr>))"

definition update_attempts ::
  "(attempt_row \<Rightarrow> bool) \<Rightarrow> (attempt_row \<Rightarrow> attempt_row) \<Rightarrow> job_db \<Rightarrow> store_error + job_db" where
  "update_attempts P f db =
     and_then (ensure (list_all (\<lambda>a. P a \<longrightarrow> attempt_check (f a)) (db_attempts db)) SqlConstraint)
       (\<lambda>_. Inr (db\<lparr>db_attempts := map (\<lambda>a. if P a then f a else a) (db_attempts db)\<rparr>))"

text \<open>\<open>INSERT ... ON CONFLICT(job_id) DO UPDATE\<close> of the checkpoint table.\<close>

definition upsert_checkpoint :: "checkpoint_row \<Rightarrow> job_db \<Rightarrow> store_error + job_db" where
  "upsert_checkpoint c db =
     and_then (ensure (checkpoint_check c \<and> cp_job c \<in> jr_id ` set (db_jobs db)) SqlConstraint)
       (\<lambda>_. Inr (db\<lparr>db_checkpoints :=
          (if cp_job c \<in> cp_job ` set (db_checkpoints db)
           then map (\<lambda>d. if cp_job d = cp_job c then c else d) (db_checkpoints db)
           else db_checkpoints db @ [c])\<rparr>))"

definition insert_command :: "command_row \<Rightarrow> job_db \<Rightarrow> store_error + job_db" where
  "insert_command c db =
     and_then (ensure (command_check c \<and> cm_job c \<in> jr_id ` set (db_jobs db)
         \<and> cm_key c \<notin> cm_key ` set (db_commands db)) SqlConstraint)
       (\<lambda>_. Inr (db\<lparr>db_commands := db_commands db @ [c]\<rparr>))"

section \<open>Snapshots\<close>

record lease_snapshot =
  ls_attemptId :: "string option"
  ls_workerId :: "string option"
  ls_fencingToken :: int
  ls_status :: lease_status
  ls_acquiredAt :: "int option"
  ls_heartbeatAt :: "int option"
  ls_expiresAt :: "int option"

record checkpoint_snapshot =
  cs_revision :: int
  cs_payloadHash :: string
  cs_progress :: rat
  cs_updatedAt :: int

record cancellation_snapshot =
  cn_status :: cancellation_status
  cn_requestedAt :: "int option"
  cn_resolvedAt :: "int option"

record failure_snapshot =
  fs_code :: string
  fs_retryable :: bool
  fs_occurredAt :: "int option"

record idempotency_snapshot =
  is_key :: string
  is_inputHash :: string
  is_status :: idempotency_status

record job_snapshot =
  js_jobId :: string
  js_jobType :: string
  js_revision :: int
  js_status :: job_status
  js_attempt :: int
  js_maxAttempts :: int
  js_progress :: rat
  js_reasonCode :: job_reason
  js_observedAt :: int
  js_lastTransitionAt :: int
  js_retryable :: bool
  js_createdAt :: int
  js_updatedAt :: int
  js_startedAt :: "int option"
  js_completedAt :: "int option"
  js_nextAttemptAt :: "int option"
  js_lease :: "lease_snapshot option"
  js_checkpoint :: "checkpoint_snapshot option"
  js_cancellation :: cancellation_snapshot
  js_lastFailure :: "failure_snapshot option"
  js_idempotency :: idempotency_snapshot

definition safeId :: "nat \<Rightarrow> string \<Rightarrow> bool" where
  "safeId n s \<longleftrightarrow> 1 \<le> length s \<and> length s \<le> n \<and> plain_text s"

definition key_char :: "char \<Rightarrow> bool" where
  "key_char c \<longleftrightarrow> id_tail c"

definition idempotencyKey_ok :: "string \<Rightarrow> bool" where
  "idempotencyKey_ok s \<longleftrightarrow> 16 \<le> length s \<and> length s \<le> 200 \<and> list_all key_char s"

definition sha256_ok :: "string \<Rightarrow> bool" where
  "sha256_ok s \<longleftrightarrow> length s = 64 \<and>
     list_all (\<lambda>c. ascii_digit c \<or> 97 \<le> code_of c \<and> code_of c \<le> 102) s"

definition positive_int :: "int \<Rightarrow> bool" where
  "positive_int n \<longleftrightarrow> safe_integer n \<and> 0 < n"

definition lease_ok :: "lease_snapshot \<Rightarrow> bool" where
  "lease_ok l \<longleftrightarrow>
     (case ls_attemptId l of None \<Rightarrow> False | Some a \<Rightarrow> safeId 500 a)
   \<and> (case ls_workerId l of None \<Rightarrow> False | Some w \<Rightarrow> safeId 200 w)
   \<and> positive_int (ls_fencingToken l)
   \<and> ls_acquiredAt l \<noteq> None \<and> ls_heartbeatAt l \<noteq> None \<and> ls_expiresAt l \<noteq> None"

definition checkpoint_ok :: "checkpoint_snapshot \<Rightarrow> bool" where
  "checkpoint_ok c \<longleftrightarrow> positive_int (cs_revision c) \<and> sha256_ok (cs_payloadHash c)
     \<and> 0 \<le> cs_progress c \<and> cs_progress c \<le> 1"

definition cancellation_ok :: "cancellation_snapshot \<Rightarrow> bool" where
  "cancellation_ok c \<longleftrightarrow>
     \<not> (cn_status c = NOT_REQUESTED \<and> (cn_requestedAt c \<noteq> None \<or> cn_resolvedAt c \<noteq> None))
   \<and> \<not> (cn_status c \<noteq> NOT_REQUESTED \<and> cn_requestedAt c = None)
   \<and> \<not> ((cn_status c = ACKNOWLEDGED \<or> cn_status c = REJECTED) \<and> cn_resolvedAt c = None)
   \<and> \<not> (cn_status c = REQUESTED \<and> cn_resolvedAt c \<noteq> None)"

definition failure_ok :: "failure_snapshot \<Rightarrow> bool" where
  "failure_ok f \<longleftrightarrow> upper_code 119 (fs_code f) \<and> fs_occurredAt f \<noteq> None"

definition idempotency_ok :: "idempotency_snapshot \<Rightarrow> bool" where
  "idempotency_ok i \<longleftrightarrow> idempotencyKey_ok (is_key i) \<and> sha256_ok (is_inputHash i)"

definition jobSnapshot_ok :: "job_snapshot \<Rightarrow> bool" where
  "jobSnapshot_ok s \<longleftrightarrow>
     safeId 500 (js_jobId s) \<and> upper_code 119 (js_jobType s)
   \<and> safe_integer (js_revision s) \<and> 0 \<le> js_revision s
   \<and> bounded 0 1000 (js_attempt s) \<and> bounded 1 1000 (js_maxAttempts s)
   \<and> 0 \<le> js_progress s \<and> js_progress s \<le> 1
   \<and> (case js_lease s of None \<Rightarrow> True | Some l \<Rightarrow> lease_ok l)
   \<and> (case js_checkpoint s of None \<Rightarrow> True | Some c \<Rightarrow> checkpoint_ok c)
   \<and> cancellation_ok (js_cancellation s)
   \<and> (case js_lastFailure s of None \<Rightarrow> True | Some f \<Rightarrow> failure_ok f)
   \<and> idempotency_ok (js_idempotency s)
   \<and> \<not> (js_attempt s > js_maxAttempts s)
   \<and> \<not> (js_lease s \<noteq> None \<and> js_status s \<noteq> job_status.RUNNING)
   \<and> \<not> (js_nextAttemptAt s \<noteq> None \<and> js_status s \<noteq> job_status.RETRY_WAIT)
   \<and> \<not> (js_completedAt s \<noteq> None \<and> js_status s \<noteq> job_status.SUCCEEDED
         \<and> js_status s \<noteq> job_status.FAILED \<and> js_status s \<noteq> job_status.CANCELLED)"

record attempt_snapshot =
  at_jobId :: string
  at_attemptId :: string
  at_attempt :: int
  at_status :: attempt_status
  at_workerId :: string
  at_fencingToken :: int
  at_startedAt :: int
  at_heartbeatAt :: int
  at_leaseExpiresAt :: int
  at_finishedAt :: "int option"
  at_checkpointRevision :: int
  at_failure :: "failure_snapshot option"

definition attemptSnapshot_ok :: "attempt_snapshot \<Rightarrow> bool" where
  "attemptSnapshot_ok s \<longleftrightarrow>
     safeId 500 (at_jobId s) \<and> safeId 500 (at_attemptId s)
   \<and> bounded 1 1000 (at_attempt s) \<and> safeId 200 (at_workerId s)
   \<and> positive_int (at_fencingToken s)
   \<and> safe_integer (at_checkpointRevision s) \<and> 0 \<le> at_checkpointRevision s
   \<and> (case at_failure s of None \<Rightarrow> True | Some f \<Rightarrow> failure_ok f)
   \<and> \<not> (at_status s = attempt_status.RUNNING \<and> at_finishedAt s \<noteq> None)
   \<and> \<not> (at_status s \<noteq> attempt_status.RUNNING \<and> at_finishedAt s = None)
   \<and> (at_status s = attempt_status.RETRYABLE_FAILED \<or> at_status s = attempt_status.TERMINAL_FAILED
       \<or> at_status s = attempt_status.LEASE_LOST) = (at_failure s \<noteq> None)"

end
