(* ===== verification/JobStore.thy ===== *)
theory JobStore
  imports JobTables
begin

text \<open>
  The operations of \<open>SqliteDurableJobStore\<close> (\<^verbatim>\<open>packages/job-runtime/src/store.ts\<close>). An operation
  maps the database to an error, in which case the transaction is rolled back and the database is
  unchanged, or to the new database and the value returned. The clock reading, the id of the
  id factory and the random sample are arguments; SHA-256 is the parameter \<open>sha\<close>.
\<close>

section \<open>Validation and configuration\<close>

text \<open>A JavaScript \<open>Date\<close> holds at most 8.64e15 ms either side of the epoch; else it is invalid.\<close>

definition valid_date :: "int \<Rightarrow> bool" where
  "valid_date ms \<longleftrightarrow> - 8640000000000000 \<le> ms \<and> ms \<le> 8640000000000000"

definition clock_now :: "int option \<Rightarrow> store_error + int" where
  "clock_now c = (case c of
     None \<Rightarrow> Inl ClockInvalid
   | Some ms \<Rightarrow> if valid_date ms then Inr ms else Inl ClockInvalid)"

text \<open>\<open>new Date(ms).toISOString()\<close> raises outside that range.\<close>

definition to_iso :: "int \<Rightarrow> store_error + int" where
  "to_iso ms = (if valid_date ms then Inr ms else Inl ClockInvalid)"

definition validateIdentifier :: "string \<Rightarrow> job_argument \<Rightarrow> nat \<Rightarrow> store_error + unit" where
  "validateIdentifier v field n =
     ensure (\<not> (length v < 1 \<or> n < length v \<or> \<not> plain_text v)) (InvalidArgument field)"

definition validateLeaseMs :: "int \<Rightarrow> store_error + unit" where
  "validateLeaseMs v =
     ensure (\<not> (\<not> safe_integer v \<or> v < 10 \<or> v > 3600000)) (InvalidArgument ArgLeaseMs)"

record retry_policy =
  rp_base :: int
  rp_max :: int
  rp_jitter :: rat

definition retryPolicy :: "int option \<Rightarrow> int option \<Rightarrow> rat option \<Rightarrow> store_error + retry_policy" where
  "retryPolicy base maxd jitter =
     (let b = (case base of None \<Rightarrow> 1000 | Some v \<Rightarrow> v);
          m = (case maxd of None \<Rightarrow> 300000 | Some v \<Rightarrow> v);
          j = (case jitter of None \<Rightarrow> 1 / 5 | Some v \<Rightarrow> v) in
      and_then (ensure (\<not> (\<not> safe_integer b \<or> b < 10 \<or> b > 3600000)) (InvalidArgument ArgBaseDelay)) (\<lambda>_.
      and_then (ensure (\<not> (\<not> safe_integer m \<or> m < b \<or> m > 86400000)) (InvalidArgument ArgMaxDelay)) (\<lambda>_.
      and_then (ensure (\<not> (j < 0 \<or> j > 1)) (InvalidArgument ArgJitter)) (\<lambda>_.
      Inr \<lparr>rp_base = b, rp_max = m, rp_jitter = j\<rparr>))))"

text \<open>\<open>Math.round\<close>: the nearest integer, halves upwards.\<close>

definition math_round :: "rat \<Rightarrow> int" where
  "math_round x = \<lfloor>x + 1 / 2\<rfloor>"

definition retryDelay :: "retry_policy \<Rightarrow> int \<Rightarrow> rat option \<Rightarrow> store_error + int" where
  "retryDelay p attempt sample = (case sample of
     None \<Rightarrow> Inl (InvalidArgument ArgRandom)
   | Some s \<Rightarrow>
       if s < 0 \<or> s > 1 then Inl (InvalidArgument ArgRandom)
       else let exponent = min 52 (max 0 (attempt - 1));
                base = min (rp_max p) (rp_base p * 2 ^ nat exponent);
                factor = 1 - rp_jitter p + 2 * rp_jitter p * s
            in Inr (max 1 (min (rp_max p) (math_round (of_int base * factor)))))"

record store_config =
  sc_lease :: int
  sc_retry :: retry_policy

definition open_store ::
  "int option \<Rightarrow> int option \<Rightarrow> int option \<Rightarrow> rat option \<Rightarrow> store_error + store_config" where
  "open_store lease base maxd jitter =
     (let l = (case lease of None \<Rightarrow> 30000 | Some v \<Rightarrow> v) in
      and_then (validateLeaseMs l) (\<lambda>_.
      and_then (retryPolicy base maxd jitter) (\<lambda>p.
      Inr \<lparr>sc_lease = l, sc_retry = p\<rparr>)))"

text \<open>
  \<open>#migrate\<close>: the version read first, and the version read again under the exclusive lock. Older
  databases gain the columns \<open>revision\<close> (default 0), \<open>priority\<close> (default 10) and the command table.
\<close>

definition upgrade_v2 :: "job_db \<Rightarrow> job_db" where
  "upgrade_v2 db = db\<lparr>db_jobs := map (\<lambda>r. r\<lparr>jr_priority := 10\<rparr>) (db_jobs db)\<rparr>"

definition upgrade_v1 :: "job_db \<Rightarrow> job_db" where
  "upgrade_v1 db = db\<lparr>db_jobs := map (\<lambda>r. r\<lparr>jr_revision := 0, jr_priority := 10\<rparr>) (db_jobs db),
                      db_commands := []\<rparr>"

definition empty_db :: job_db where
  "empty_db = \<lparr>db_jobs = [], db_attempts = [], db_checkpoints = [], db_commands = [], db_closed = False\<rparr>"

definition migrate :: "int option \<Rightarrow> int option \<Rightarrow> job_db \<Rightarrow> store_error + job_db" where
  "migrate existing locked db =
     and_then (case existing of
         Some v \<Rightarrow> ensure (\<not> v > 3 \<and> \<not> v < 1) MigrationUnsupported
       | None \<Rightarrow> Inr ()) (\<lambda>_.
     if existing = Some 3 \<or> locked = Some 3 then Inr db
     else case locked of
       None \<Rightarrow> Inr db
     | Some v \<Rightarrow> if v = 1 then Inr (upgrade_v1 db) else if v = 2 then Inr (upgrade_v2 db)
                else Inl MigrationUnsupported)"

section \<open>Reading rows\<close>

definition jobRow :: "job_db \<Rightarrow> string \<Rightarrow> job_row option" where
  "jobRow db i = find (\<lambda>r. jr_id r = i) (db_jobs db)"

definition jobRowByKey :: "job_db \<Rightarrow> string \<Rightarrow> job_row option" where
  "jobRowByKey db k = find (\<lambda>r. jr_key r = k) (db_jobs db)"

definition checkpointRow :: "job_db \<Rightarrow> string \<Rightarrow> checkpoint_row option" where
  "checkpointRow db i = find (\<lambda>c. cp_job c = i) (db_checkpoints db)"

definition commandRow :: "job_db \<Rightarrow> string \<Rightarrow> command_row option" where
  "commandRow db k = find (\<lambda>c. cm_key c = k) (db_commands db)"

definition require_job :: "job_db \<Rightarrow> string \<Rightarrow> store_error + job_row" where
  "require_job db i = (case jobRow db i of None \<Rightarrow> Inl MissingRow | Some r \<Rightarrow> Inr r)"

record checkpoint_record =
  cr_revision :: int
  cr_payloadHash :: string
  cr_progress :: rat
  cr_updatedAt :: int
  cr_data :: js_value

definition parse_stored :: "(string \<Rightarrow> string) \<Rightarrow> serialized \<Rightarrow> store_error + js_value" where
  "parse_stored sha z =
     map_error Serialization (parseStoredJobJson sha (sz_json z) (sz_value z) (sz_hash z))"

definition checkpoint_of ::
  "(string \<Rightarrow> string) \<Rightarrow> checkpoint_row option \<Rightarrow> store_error + checkpoint_record option" where
  "checkpoint_of sha row = (case row of
     None \<Rightarrow> Inr None
   | Some c \<Rightarrow> and_then (parse_stored sha (cp_payload c)) (\<lambda>v.
       Inr (Some \<lparr>cr_revision = cp_revision c, cr_payloadHash = sz_hash (cp_payload c),
                  cr_progress = cp_progress c, cr_updatedAt = cp_updated c, cr_data = v\<rparr>)))"

definition snapshot_value :: "job_row \<Rightarrow> checkpoint_row option \<Rightarrow> job_snapshot" where
  "snapshot_value r c =
    \<lparr>js_jobId = jr_id r, js_jobType = jr_type r, js_revision = jr_revision r,
     js_status = jr_status r, js_attempt = jr_count r, js_maxAttempts = jr_max r,
     js_progress = jr_progress r, js_reasonCode = jr_reason r,
     js_observedAt = jr_updated r, js_lastTransitionAt = jr_transition r,
     js_retryable = (jr_status r = job_status.QUEUED \<or> jr_status r = job_status.RUNNING
                     \<or> jr_status r = job_status.RETRY_WAIT),
     js_createdAt = jr_created r, js_updatedAt = jr_updated r,
     js_startedAt = jr_started r, js_completedAt = jr_completed r, js_nextAttemptAt = jr_next r,
     js_lease = (if jr_status r \<noteq> job_status.RUNNING then None
       else Some \<lparr>ls_attemptId = jr_attempt r, ls_workerId = jr_worker r,
                  ls_fencingToken = jr_fencing r, ls_status = ACTIVE,
                  ls_acquiredAt = jr_acquired r, ls_heartbeatAt = jr_heartbeat r,
                  ls_expiresAt = jr_expires r\<rparr>),
     js_checkpoint = map_option (\<lambda>c. \<lparr>cs_revision = cp_revision c,
        cs_payloadHash = sz_hash (cp_payload c), cs_progress = cp_progress c,
        cs_updatedAt = cp_updated c\<rparr>) c,
     js_cancellation =
       (if jr_cancel r = NOT_REQUESTED
        then \<lparr>cn_status = NOT_REQUESTED, cn_requestedAt = None, cn_resolvedAt = None\<rparr>
        else \<lparr>cn_status = jr_cancel r, cn_requestedAt = jr_requested r, cn_resolvedAt = jr_resolved r\<rparr>),
     js_lastFailure = (case jr_fail_code r of None \<Rightarrow> None
       | Some code \<Rightarrow> Some \<lparr>fs_code = code, fs_retryable = (jr_fail_retryable r = Some True),
                            fs_occurredAt = jr_fail_at r\<rparr>),
     js_idempotency = \<lparr>is_key = jr_key r, is_inputHash = sz_hash (jr_input r),
        is_status = (if terminal (jr_status r) then COMPLETED else RESERVED)\<rparr>\<rparr>"

definition snapshot :: "job_row \<Rightarrow> checkpoint_row option \<Rightarrow> store_error + job_snapshot" where
  "snapshot r c = (let s = snapshot_value r c in
     and_then (ensure (jobSnapshot_ok s) SnapshotInvalid) (\<lambda>_. Inr s))"

record job_record =
  rc_snapshot :: job_snapshot
  rc_input :: js_value
  rc_checkpoint :: "checkpoint_record option"

definition record_of :: "(string \<Rightarrow> string) \<Rightarrow> job_db \<Rightarrow> job_row \<Rightarrow> store_error + job_record" where
  "record_of sha db r = (let c = checkpointRow db (jr_id r) in
     and_then (checkpoint_of sha c) (\<lambda>cp.
     and_then (snapshot r c) (\<lambda>s.
     and_then (parse_stored sha (jr_input r)) (\<lambda>v.
     Inr \<lparr>rc_snapshot = s, rc_input = v, rc_checkpoint = cp\<rparr>))))"

text \<open>\<open>this.#record(this.#jobRow(id))\<close> after an update, with the database it is read from.\<close>

definition finish_with :: "(string \<Rightarrow> string) \<Rightarrow> job_db \<Rightarrow> string \<Rightarrow> store_error + job_db \<times> job_record" where
  "finish_with sha db i =
     and_then (require_job db i) (\<lambda>r.
     and_then (record_of sha db r) (\<lambda>rec. Inr (db, rec)))"

definition assert_open :: "job_db \<Rightarrow> store_error + unit" where
  "assert_open db = ensure (\<not> db_closed db) StoreClosed"

section \<open>Enqueueing and reading\<close>

record enqueue_request =
  eq_type :: string
  eq_key :: string
  eq_input :: js_value
  eq_max :: int
  eq_priority :: "job_priority option"

datatype enqueue_status = CREATED | EXISTING

text \<open>The row inserted by \<open>enqueue\<close>: the named columns, every other one its default.\<close>

definition new_job ::
  "string \<Rightarrow> enqueue_request \<Rightarrow> int \<Rightarrow> string \<Rightarrow> serialized \<Rightarrow> int \<Rightarrow> job_row" where
  "new_job i req priority fingerprint input now =
    \<lparr>jr_id = i, jr_type = eq_type req, jr_revision = 0, jr_priority = priority,
     jr_key = eq_key req, jr_fingerprint = fingerprint, jr_input = input,
     jr_status = job_status.QUEUED, jr_count = 0, jr_max = eq_max req, jr_fencing = 0,
     jr_progress = 0, jr_reason = JOB_QUEUED, jr_next = None, jr_attempt = None,
     jr_worker = None, jr_acquired = None, jr_heartbeat = None, jr_expires = None,
     jr_cancel = NOT_REQUESTED, jr_requested = None, jr_resolved = None,
     jr_fail_code = None, jr_fail_retryable = None, jr_fail_at = None,
     jr_created = now, jr_updated = now, jr_transition = now,
     jr_started = None, jr_completed = None\<rparr>"

definition enqueue_fingerprint ::
  "(string \<Rightarrow> string) \<Rightarrow> string \<Rightarrow> string \<Rightarrow> int \<Rightarrow> store_error + string" where
  "enqueue_fingerprint sha type hash maxAttempts =
     and_then (map_error Serialization (serializeJobJson sha (JObject
       [(''jobType'', JText type), (''inputHash'', JText hash), (''maxAttempts'', JNum maxAttempts)])))
     (\<lambda>z. Inr (sz_hash z))"

definition enqueue_existing ::
  "(string \<Rightarrow> string) \<Rightarrow> job_row \<Rightarrow> string \<Rightarrow> int \<Rightarrow> int \<Rightarrow> job_db
     \<Rightarrow> store_error + job_db \<times> enqueue_status \<times> job_record" where
  "enqueue_existing sha row fingerprint priority now db =
     and_then (ensure (jr_fingerprint row = fingerprint) IdempotencyConflict) (\<lambda>_.
     if priority > jr_priority row \<and> \<not> terminal (jr_status row)
     then and_then (update_job (jr_id row) (\<lambda>r. r\<lparr>jr_priority := priority, jr_updated := now\<rparr>) db) (\<lambda>db'.
          and_then (finish_with sha db' (jr_id row)) (\<lambda>(db'', rec). Inr (db'', EXISTING, rec)))
     else and_then (record_of sha db row) (\<lambda>rec. Inr (db, EXISTING, rec)))"

definition enqueue ::
  "(string \<Rightarrow> string) \<Rightarrow> enqueue_request \<Rightarrow> int option \<Rightarrow> string \<Rightarrow> job_db
     \<Rightarrow> store_error + job_db \<times> enqueue_status \<times> job_record" where
  "enqueue sha req clock jobId db =
     and_then (assert_open db) (\<lambda>_.
     and_then (ensure (upper_code 119 (eq_type req)) (InvalidArgument ArgJobType)) (\<lambda>_.
     and_then (ensure (idempotencyKey_ok (eq_key req)) (InvalidArgument ArgIdempotencyKey)) (\<lambda>_.
     and_then (ensure (bounded 1 1000 (eq_max req)) (InvalidArgument ArgMaxAttempts)) (\<lambda>_.
     let priority = JOB_PRIORITIES (case eq_priority req of None \<Rightarrow> NORMAL | Some p \<Rightarrow> p) in
     and_then (map_error Serialization (serializeJobJson sha (eq_input req))) (\<lambda>input.
     and_then (enqueue_fingerprint sha (eq_type req) (sz_hash input) (eq_max req)) (\<lambda>fingerprint.
     and_then (clock_now clock) (\<lambda>now.
     case jobRowByKey db (eq_key req) of
       Some row \<Rightarrow> enqueue_existing sha row fingerprint priority now db
     | None \<Rightarrow>
         and_then (validateIdentifier jobId ArgJobId 200) (\<lambda>_.
         and_then (insert_job (new_job jobId req priority fingerprint input now) db) (\<lambda>db'.
         and_then (finish_with sha db' jobId) (\<lambda>(db'', rec). Inr (db'', CREATED, rec)))))))))))"

definition get_job :: "(string \<Rightarrow> string) \<Rightarrow> string \<Rightarrow> job_db \<Rightarrow> store_error + job_record option" where
  "get_job sha i db =
     and_then (assert_open db) (\<lambda>_.
     and_then (validateIdentifier i ArgJobId 200) (\<lambda>_.
     case jobRow db i of None \<Rightarrow> Inr None
     | Some r \<Rightarrow> and_then (record_of sha db r) (\<lambda>rec. Inr (Some rec))))"

definition getByIdempotencyKey ::
  "(string \<Rightarrow> string) \<Rightarrow> string \<Rightarrow> job_db \<Rightarrow> store_error + job_record option" where
  "getByIdempotencyKey sha k db =
     and_then (assert_open db) (\<lambda>_.
     and_then (ensure (idempotencyKey_ok k) (InvalidArgument ArgIdempotencyKey)) (\<lambda>_.
     case jobRowByKey db k of None \<Rightarrow> Inr None
     | Some r \<Rightarrow> and_then (record_of sha db r) (\<lambda>rec. Inr (Some rec))))"

record list_request =
  lq_limit :: int
  lq_statuses :: "job_status list option"
  lq_after :: "(timestamp \<times> string) option"

record job_list =
  jl_items :: "job_snapshot list"
  jl_next :: "(int \<times> string) option"

definition list_le :: "job_row \<Rightarrow> job_row \<Rightarrow> bool" where
  "list_le r s \<longleftrightarrow> (jr_created r, jr_id r) \<le> (jr_created s, jr_id s)"

definition list_cursor :: "(timestamp \<times> string) option \<Rightarrow> store_error + (int \<times> string) option" where
  "list_cursor after = (case after of
     None \<Rightarrow> Inr None
   | Some (createdAt, i) \<Rightarrow>
       and_then (validateIdentifier i ArgAfterJobId 200) (\<lambda>_.
       case createdAt of Iso ms \<Rightarrow> Inr (Some (ms, i))
       | NonIso _ \<Rightarrow> Inl (InvalidArgument ArgAfterCreatedAt)))"

definition list_rows :: "job_status list \<Rightarrow> (int \<times> string) option \<Rightarrow> job_db \<Rightarrow> job_row list" where
  "list_rows statuses after db = sort_by list_le (filter
     (\<lambda>r. (statuses = [] \<or> jr_status r \<in> set statuses)
        \<and> (case after of None \<Rightarrow> True
           | Some (ms, i) \<Rightarrow> jr_created r > ms \<or> (jr_created r = ms \<and> jr_id r > i))) (db_jobs db))"

definition list_jobs :: "list_request \<Rightarrow> job_db \<Rightarrow> store_error + job_list" where
  "list_jobs req db =
     and_then (assert_open db) (\<lambda>_.
     and_then (ensure (bounded 1 1000 (lq_limit req)) (InvalidArgument ArgLimit)) (\<lambda>_.
     let statuses = (case lq_statuses req of None \<Rightarrow> [] | Some ss \<Rightarrow> uniq ss) in
     and_then (list_cursor (lq_after req)) (\<lambda>after.
     let rows = take (nat (lq_limit req + 1)) (list_rows statuses after db);
         hasMore = int (length rows) > lq_limit req;
         page = (if hasMore then take (nat (lq_limit req)) rows else rows) in
     and_then (sequence (map (\<lambda>r. snapshot r (checkpointRow db (jr_id r))) page)) (\<lambda>items.
     Inr \<lparr>jl_items = items,
          jl_next = (if hasMore \<and> page \<noteq> []
                     then Some (jr_created (last page), jr_id (last page)) else None)\<rparr>))))"

section \<open>Claiming\<close>

definition claimable :: "int \<Rightarrow> job_row \<Rightarrow> bool" where
  "claimable now r \<longleftrightarrow>
     jr_status r = job_status.QUEUED
   \<or> (jr_status r = job_status.RETRY_WAIT \<and> (case jr_next r of None \<Rightarrow> False | Some t \<Rightarrow> t \<le> now))
   \<or> (jr_status r = job_status.RUNNING \<and> (case jr_expires r of None \<Rightarrow> False | Some t \<Rightarrow> t \<le> now))"

text \<open>
  The \<open>ORDER BY\<close> key. A claimable row has the time its status orders by, so the \<open>NULL\<close> case
  (which SQLite sorts first) does not arise.
\<close>

definition claim_key :: "job_row \<Rightarrow> int \<times> int \<times> int \<times> int \<times> string" where
  "claim_key r =
     (if jr_status r = job_status.RUNNING then 0 else 1,
      - jr_priority r,
      (case jr_status r of
         job_status.RUNNING \<Rightarrow> (case jr_expires r of None \<Rightarrow> 0 | Some t \<Rightarrow> t)
       | job_status.RETRY_WAIT \<Rightarrow> (case jr_next r of None \<Rightarrow> 0 | Some t \<Rightarrow> t)
       | _ \<Rightarrow> jr_created r),
      jr_created r, jr_id r)"

definition claim_le :: "job_row \<Rightarrow> job_row \<Rightarrow> bool" where
  "claim_le r s \<longleftrightarrow> claim_key r \<le> claim_key s"

definition next_claimable :: "int \<Rightarrow> job_db \<Rightarrow> job_row option" where
  "next_claimable now db =
     (case sort_by claim_le (filter (claimable now) (db_jobs db)) of [] \<Rightarrow> None | r # _ \<Rightarrow> Some r)"

definition clear_lease :: "job_row \<Rightarrow> job_row" where
  "clear_lease r = r\<lparr>jr_attempt := None, jr_worker := None, jr_acquired := None,
     jr_heartbeat := None, jr_expires := None\<rparr>"

definition lost_attempt :: "int \<Rightarrow> attempt_row \<Rightarrow> attempt_row" where
  "lost_attempt now a = a\<lparr>ar_status := attempt_status.LEASE_LOST, ar_lease := EXPIRED,
     ar_finished := Some now, ar_fail_code := Some ''JOB_LEASE_EXPIRED'',
     ar_fail_retryable := Some True, ar_fail_at := Some now\<rparr>"

definition expireAttempt :: "job_row \<Rightarrow> int \<Rightarrow> job_db \<Rightarrow> store_error + job_db" where
  "expireAttempt row now db = (case jr_attempt row of
     None \<Rightarrow> Inl MissingRow
   | Some i \<Rightarrow> update_attempts (\<lambda>a. ar_id a = i \<and> ar_status a = attempt_status.RUNNING)
       (lost_attempt now) db)"

definition exhaust_row :: "int \<Rightarrow> job_row \<Rightarrow> job_row" where
  "exhaust_row now r = (clear_lease r)\<lparr>jr_status := job_status.FAILED, jr_revision := jr_revision r + 1,
     jr_reason := JOB_MAX_ATTEMPTS_EXHAUSTED, jr_completed := Some now, jr_updated := now,
     jr_transition := now, jr_fail_code := Some ''JOB_LEASE_EXPIRED'',
     jr_fail_retryable := Some True, jr_fail_at := Some now\<rparr>"

definition markExhausted :: "job_row \<Rightarrow> int \<Rightarrow> job_db \<Rightarrow> store_error + job_db" where
  "markExhausted row now = update_job (jr_id row) (exhaust_row now)"

text \<open>The row update shared by \<open>cancelExpired\<close>, \<open>fail\<close> and \<open>acknowledgeCancellation\<close>.\<close>

definition acknowledge_row :: "int \<Rightarrow> job_row \<Rightarrow> job_row" where
  "acknowledge_row now r = (clear_lease r)\<lparr>jr_status := job_status.CANCELLED,
     jr_revision := jr_revision r + 1, jr_reason := JOB_CANCELLED, jr_cancel := ACKNOWLEDGED,
     jr_resolved := Some now, jr_completed := Some now, jr_updated := now, jr_transition := now\<rparr>"

definition cancelExpired :: "job_row \<Rightarrow> int \<Rightarrow> job_db \<Rightarrow> store_error + job_db" where
  "cancelExpired row now = update_job (jr_id row) (acknowledge_row now)"

definition attempt_id :: "string \<Rightarrow> int \<Rightarrow> string" where
  "attempt_id i n = i @ '':attempt:'' @ show_int n"

definition new_attempt :: "job_row \<Rightarrow> string \<Rightarrow> int \<Rightarrow> int \<Rightarrow> int \<Rightarrow> attempt_row" where
  "new_attempt row worker now expires checkpoint =
    \<lparr>ar_job = jr_id row, ar_id = attempt_id (jr_id row) (jr_count row + 1),
     ar_number = jr_count row + 1, ar_status = attempt_status.RUNNING, ar_worker = worker,
     ar_fencing = jr_fencing row + 1, ar_lease = ACTIVE, ar_started = now, ar_heartbeat = now,
     ar_expires = expires, ar_finished = None, ar_checkpoint = checkpoint,
     ar_fail_code = None, ar_fail_retryable = None, ar_fail_at = None\<rparr>"

definition claim_row :: "job_row \<Rightarrow> string \<Rightarrow> int \<Rightarrow> int \<Rightarrow> job_row \<Rightarrow> job_row" where
  "claim_row row worker now expires r = r\<lparr>jr_status := job_status.RUNNING,
     jr_revision := jr_revision r + 1, jr_count := jr_count row + 1, jr_fencing := jr_fencing row + 1,
     jr_reason := JOB_RUNNING, jr_next := None,
     jr_attempt := Some (attempt_id (jr_id row) (jr_count row + 1)), jr_worker := Some worker,
     jr_acquired := Some now, jr_heartbeat := Some now, jr_expires := Some expires,
     jr_started := (case jr_started r of None \<Rightarrow> Some now | Some t \<Rightarrow> Some t),
     jr_completed := None, jr_updated := now, jr_transition := now\<rparr>"

record job_claim =
  cl_jobId :: string
  cl_jobType :: string
  cl_attemptId :: string
  cl_workerId :: string
  cl_fencingToken :: int
  cl_idempotencyKey :: string
  cl_input :: js_value
  cl_checkpoint :: "checkpoint_record option"
  cl_snapshot :: job_snapshot

text \<open>\<open>None\<close> is the status \<open>EMPTY\<close>.\<close>

definition claim_job ::
  "(string \<Rightarrow> string) \<Rightarrow> job_row \<Rightarrow> string \<Rightarrow> int \<Rightarrow> int \<Rightarrow> job_db
     \<Rightarrow> store_error + job_db \<times> job_claim option" where
  "claim_job sha row worker lease now db =
     (let attemptId = attempt_id (jr_id row) (jr_count row + 1);
          revision = (case checkpointRow db (jr_id row) of None \<Rightarrow> 0 | Some c \<Rightarrow> cp_revision c) in
      and_then (validateIdentifier attemptId ArgAttemptId 500) (\<lambda>_.
      and_then (to_iso (now + lease)) (\<lambda>expires.
      and_then (insert_attempt (new_attempt row worker now expires revision) db) (\<lambda>db1.
      and_then (update_job (jr_id row) (claim_row row worker now expires) db1) (\<lambda>db2.
      and_then (require_job db2 (jr_id row)) (\<lambda>claimed.
      and_then (checkpoint_of sha (checkpointRow db2 (jr_id row))) (\<lambda>checkpoint.
      and_then (parse_stored sha (jr_input row)) (\<lambda>input.
      and_then (snapshot claimed (checkpointRow db2 (jr_id claimed))) (\<lambda>s.
      Inr (db2, Some \<lparr>cl_jobId = jr_id row, cl_jobType = jr_type row, cl_attemptId = attemptId,
        cl_workerId = worker, cl_fencingToken = jr_fencing row + 1, cl_idempotencyKey = jr_key row,
        cl_input = input, cl_checkpoint = checkpoint, cl_snapshot = s\<rparr>))))))))))"

text \<open>The recovery loop, at most \<open>n\<close> more rounds.\<close>

primrec claim_loop ::
  "nat \<Rightarrow> (string \<Rightarrow> string) \<Rightarrow> string \<Rightarrow> int \<Rightarrow> int \<Rightarrow> job_db
     \<Rightarrow> store_error + job_db \<times> job_claim option" where
  "claim_loop 0 sha worker lease now db = Inr (db, None)"
| "claim_loop (Suc n) sha worker lease now db = (case next_claimable now db of
     None \<Rightarrow> Inr (db, None)
   | Some row \<Rightarrow>
       if jr_status row = job_status.RUNNING then
         and_then (expireAttempt row now db) (\<lambda>db1.
         if jr_cancel row = REQUESTED then
           and_then (cancelExpired row now db1) (\<lambda>db2. claim_loop n sha worker lease now db2)
         else if jr_count row \<ge> jr_max row then
           and_then (markExhausted row now db1) (\<lambda>db2. claim_loop n sha worker lease now db2)
         else claim_job sha row worker lease now db1)
       else claim_job sha row worker lease now db)"

definition lease_or_default :: "store_config \<Rightarrow> int option \<Rightarrow> int" where
  "lease_or_default cfg lease = (case lease of None \<Rightarrow> sc_lease cfg | Some l \<Rightarrow> l)"

definition claimNext ::
  "(string \<Rightarrow> string) \<Rightarrow> store_config \<Rightarrow> string \<Rightarrow> int option \<Rightarrow> int option \<Rightarrow> job_db
     \<Rightarrow> store_error + job_db \<times> job_claim option" where
  "claimNext sha cfg worker lease clock db =
     and_then (assert_open db) (\<lambda>_.
     and_then (validateIdentifier worker ArgWorkerId 200) (\<lambda>_.
     and_then (validateLeaseMs (lease_or_default cfg lease)) (\<lambda>_.
     and_then (clock_now clock) (\<lambda>now.
     claim_loop 100 sha worker (lease_or_default cfg lease) now db))))"

section \<open>Operations of a lease holder\<close>

record lease_reference =
  lr_jobId :: string
  lr_attemptId :: string
  lr_workerId :: string
  lr_fencingToken :: int

text \<open>The reference a worker keeps of its claim.\<close>

definition claim_reference :: "job_claim \<Rightarrow> lease_reference" where
  "claim_reference c = \<lparr>lr_jobId = cl_jobId c, lr_attemptId = cl_attemptId c,
     lr_workerId = cl_workerId c, lr_fencingToken = cl_fencingToken c\<rparr>"

definition activeLease :: "lease_reference \<Rightarrow> int \<Rightarrow> job_db \<Rightarrow> store_error + job_row" where
  "activeLease ref now db = (case jobRow db (lr_jobId ref) of
     None \<Rightarrow> Inl LeaseLost
   | Some r \<Rightarrow>
       if jr_status r \<noteq> job_status.RUNNING \<or> jr_attempt r \<noteq> Some (lr_attemptId ref)
        \<or> jr_worker r \<noteq> Some (lr_workerId ref) \<or> jr_fencing r \<noteq> lr_fencingToken ref
        \<or> (case jr_expires r of None \<Rightarrow> True | Some t \<Rightarrow> t \<le> now)
       then Inl LeaseLost else Inr r)"

record heartbeat_result =
  hb_leaseExpiresAt :: int
  hb_cancellationRequested :: bool

definition heartbeat ::
  "store_config \<Rightarrow> lease_reference \<Rightarrow> int option \<Rightarrow> int option \<Rightarrow> job_db
     \<Rightarrow> store_error + job_db \<times> heartbeat_result" where
  "heartbeat cfg ref lease clock db =
     and_then (assert_open db) (\<lambda>_.
     and_then (validateLeaseMs (lease_or_default cfg lease)) (\<lambda>_.
     and_then (clock_now clock) (\<lambda>now.
     and_then (activeLease ref now db) (\<lambda>row.
     and_then (to_iso (now + lease_or_default cfg lease)) (\<lambda>expires.
     and_then (update_job (jr_id row) (\<lambda>r. r\<lparr>jr_heartbeat := Some now, jr_expires := Some expires,
                                            jr_updated := now\<rparr>) db) (\<lambda>db1.
     and_then (update_attempts (\<lambda>a. ar_id a = lr_attemptId ref)
                (\<lambda>a. a\<lparr>ar_heartbeat := now, ar_expires := expires\<rparr>) db1) (\<lambda>db2.
     Inr (db2, \<lparr>hb_leaseExpiresAt = expires,
                hb_cancellationRequested = (jr_cancel row = REQUESTED)\<rparr>))))))))"

text \<open>The progress argument is \<open>None\<close> when it is not finite.\<close>

definition saveCheckpoint ::
  "(string \<Rightarrow> string) \<Rightarrow> lease_reference \<Rightarrow> js_value \<Rightarrow> rat option \<Rightarrow> int option \<Rightarrow> job_db
     \<Rightarrow> store_error + job_db \<times> checkpoint_record" where
  "saveCheckpoint sha ref data progress clock db =
     and_then (assert_open db) (\<lambda>_.
     and_then (case progress of None \<Rightarrow> Inl (InvalidArgument ArgProgress)
               | Some p \<Rightarrow> if p < 0 \<or> p > 1 then Inl (InvalidArgument ArgProgress) else Inr p) (\<lambda>p.
     and_then (map_error Serialization (serializeJobJson sha data)) (\<lambda>payload.
     and_then (clock_now clock) (\<lambda>now.
     and_then (activeLease ref now db) (\<lambda>row.
     and_then (ensure (\<not> p < jr_progress row) ProgressNotMonotonic) (\<lambda>_.
     let revision = (case checkpointRow db (jr_id row) of None \<Rightarrow> 0 | Some c \<Rightarrow> cp_revision c) + 1 in
     and_then (upsert_checkpoint \<lparr>cp_job = jr_id row, cp_revision = revision, cp_payload = payload,
                                  cp_progress = p, cp_updated = now\<rparr> db) (\<lambda>db1.
     and_then (update_job (jr_id row) (\<lambda>r. r\<lparr>jr_revision := jr_revision r + 1, jr_progress := p,
                                             jr_updated := now\<rparr>) db1) (\<lambda>db2.
     and_then (update_attempts (\<lambda>a. ar_id a = lr_attemptId ref)
                (\<lambda>a. a\<lparr>ar_checkpoint := revision\<rparr>) db2) (\<lambda>db3.
     Inr (db3, \<lparr>cr_revision = revision, cr_payloadHash = sz_hash payload, cr_progress = p,
                cr_updatedAt = now, cr_data = sz_value payload\<rparr>))))))))))"

definition isCancellationRequested ::
  "lease_reference \<Rightarrow> int option \<Rightarrow> job_db \<Rightarrow> store_error + bool" where
  "isCancellationRequested ref clock db =
     and_then (assert_open db) (\<lambda>_.
     and_then (clock_now clock) (\<lambda>now.
     and_then (activeLease ref now db) (\<lambda>row. Inr (jr_cancel row = REQUESTED))))"

text \<open>The failure argument is the code and whether it is retryable.\<close>

definition release_attempt ::
  "attempt_status \<Rightarrow> int \<Rightarrow> (string \<times> bool) option \<Rightarrow> attempt_row \<Rightarrow> attempt_row" where
  "release_attempt status now failure a = a\<lparr>ar_status := status, ar_lease := RELEASED,
     ar_finished := Some now, ar_fail_code := map_option fst failure,
     ar_fail_retryable := map_option snd failure,
     ar_fail_at := (case failure of None \<Rightarrow> None | Some _ \<Rightarrow> Some now)\<rparr>"

definition finishAttempt ::
  "lease_reference \<Rightarrow> attempt_status \<Rightarrow> int \<Rightarrow> (string \<times> bool) option \<Rightarrow> job_db
     \<Rightarrow> store_error + job_db" where
  "finishAttempt ref status now failure =
     update_attempts (\<lambda>a. ar_id a = lr_attemptId ref)
       (release_attempt status now failure)"

definition succeed_row :: "int \<Rightarrow> job_row \<Rightarrow> job_row \<Rightarrow> job_row" where
  "succeed_row now row r = (clear_lease r)\<lparr>jr_status := job_status.SUCCEEDED,
     jr_revision := jr_revision r + 1, jr_progress := 1, jr_reason := JOB_SUCCEEDED,
     jr_cancel := (if jr_cancel row = REQUESTED then REJECTED else jr_cancel row),
     jr_resolved := (if jr_cancel row = REQUESTED then Some now else jr_resolved row),
     jr_completed := Some now, jr_updated := now, jr_transition := now\<rparr>"

definition succeed ::
  "(string \<Rightarrow> string) \<Rightarrow> lease_reference \<Rightarrow> int option \<Rightarrow> job_db \<Rightarrow> store_error + job_db \<times> job_record" where
  "succeed sha ref clock db =
     and_then (assert_open db) (\<lambda>_.
     and_then (clock_now clock) (\<lambda>now.
     and_then (activeLease ref now db) (\<lambda>row.
     and_then (finishAttempt ref attempt_status.SUCCEEDED now None db) (\<lambda>db1.
     and_then (update_job (jr_id row) (succeed_row now row) db1) (\<lambda>db2.
     finish_with sha db2 (jr_id row))))))"

definition retry_row :: "int \<Rightarrow> int \<Rightarrow> string \<Rightarrow> job_row \<Rightarrow> job_row" where
  "retry_row now due code r = (clear_lease r)\<lparr>jr_status := job_status.RETRY_WAIT,
     jr_revision := jr_revision r + 1, jr_reason := JOB_RETRY_WAIT, jr_next := Some due,
     jr_fail_code := Some code, jr_fail_retryable := Some True, jr_fail_at := Some now,
     jr_updated := now, jr_transition := now\<rparr>"

definition failed_row :: "int \<Rightarrow> string \<Rightarrow> bool \<Rightarrow> job_row \<Rightarrow> job_row" where
  "failed_row now code retryable r = (clear_lease r)\<lparr>jr_status := job_status.FAILED,
     jr_revision := jr_revision r + 1,
     jr_reason := (if retryable then JOB_MAX_ATTEMPTS_EXHAUSTED else JOB_NON_RETRYABLE_FAILURE),
     jr_fail_code := Some code, jr_fail_retryable := Some retryable, jr_fail_at := Some now,
     jr_completed := Some now, jr_updated := now, jr_transition := now\<rparr>"

definition fail_update ::
  "store_config \<Rightarrow> lease_reference \<Rightarrow> string \<Rightarrow> bool \<Rightarrow> rat option \<Rightarrow> int \<Rightarrow> job_row \<Rightarrow> job_db
     \<Rightarrow> store_error + job_db" where
  "fail_update cfg ref code retryable sample now row db =
     (if jr_cancel row = REQUESTED then
        and_then (finishAttempt ref attempt_status.CANCELLED now None db)
          (update_job (jr_id row) (acknowledge_row now))
      else if retryable \<and> jr_count row < jr_max row then
        and_then (retryDelay (sc_retry cfg) (jr_count row) sample) (\<lambda>delay.
        and_then (to_iso (now + delay)) (\<lambda>due.
        and_then (finishAttempt ref attempt_status.RETRYABLE_FAILED now (Some (code, retryable)) db)
          (update_job (jr_id row) (retry_row now due code))))
      else
        and_then (finishAttempt ref attempt_status.TERMINAL_FAILED now (Some (code, retryable)) db)
          (update_job (jr_id row) (failed_row now code retryable)))"

definition fail_job ::
  "(string \<Rightarrow> string) \<Rightarrow> store_config \<Rightarrow> lease_reference \<Rightarrow> string \<Rightarrow> bool \<Rightarrow> rat option \<Rightarrow> int option
     \<Rightarrow> job_db \<Rightarrow> store_error + job_db \<times> job_record" where
  "fail_job sha cfg ref code retryable sample clock db =
     and_then (assert_open db) (\<lambda>_.
     and_then (ensure (upper_code 119 code) (InvalidArgument ArgFailureCode)) (\<lambda>_.
     and_then (clock_now clock) (\<lambda>now.
     and_then (activeLease ref now db) (\<lambda>row.
     and_then (fail_update cfg ref code retryable sample now row db) (\<lambda>db1.
     finish_with sha db1 (jr_id row))))))"

section \<open>Operator commands\<close>

record command_request =
  cq_jobId :: string
  cq_expectedRevision :: int
  cq_key :: string

record command_result =
  co_action :: command_action
  co_disposition :: command_disposition
  co_job :: job_snapshot

definition action_text :: "command_action \<Rightarrow> string" where
  "action_text a = (case a of CANCEL \<Rightarrow> ''CANCEL'' | RETRY \<Rightarrow> ''RETRY'')"

definition command_fingerprint ::
  "(string \<Rightarrow> string) \<Rightarrow> command_action \<Rightarrow> command_request \<Rightarrow> store_error + string" where
  "command_fingerprint sha action req =
     and_then (map_error Serialization (serializeJobJson sha (JObject
       [(''action'', JText (action_text action)), (''jobId'', JText (cq_jobId req)),
        (''expectedRevision'', JNum (cq_expectedRevision req))])))
     (\<lambda>z. Inr (sz_hash z))"

definition replay_command ::
  "command_row \<Rightarrow> string \<Rightarrow> job_db \<Rightarrow> store_error + job_db \<times> command_result" where
  "replay_command existing fingerprint db =
     and_then (ensure (cm_fingerprint existing = fingerprint) IdempotencyConflict) (\<lambda>_.
     and_then (require_job db (cm_job existing)) (\<lambda>current.
     and_then (snapshot current (checkpointRow db (jr_id current))) (\<lambda>s.
     Inr (db, \<lparr>co_action = cm_action existing, co_disposition = REPLAYED, co_job = s\<rparr>))))"

definition operatorCommand ::
  "(string \<Rightarrow> string) \<Rightarrow> command_action \<Rightarrow> command_request \<Rightarrow> int option
     \<Rightarrow> (job_row \<Rightarrow> int \<Rightarrow> job_db \<Rightarrow> store_error + job_db \<times> command_disposition) \<Rightarrow> job_db
     \<Rightarrow> store_error + job_db \<times> command_result" where
  "operatorCommand sha action req clock apply_command db =
     and_then (assert_open db) (\<lambda>_.
     and_then (validateIdentifier (cq_jobId req) ArgJobId 200) (\<lambda>_.
     and_then (ensure (safe_integer (cq_expectedRevision req) \<and> \<not> cq_expectedRevision req < 0)
                (InvalidArgument ArgExpectedRevision)) (\<lambda>_.
     and_then (ensure (idempotencyKey_ok (cq_key req)) (InvalidArgument ArgIdempotencyKey)) (\<lambda>_.
     and_then (command_fingerprint sha action req) (\<lambda>fingerprint.
     and_then (clock_now clock) (\<lambda>now.
     case commandRow db (cq_key req) of
       Some existing \<Rightarrow> replay_command existing fingerprint db
     | None \<Rightarrow> (case jobRow db (cq_jobId req) of
         None \<Rightarrow> Inl JobNotFound
       | Some row \<Rightarrow>
           and_then (ensure (jr_revision row = cq_expectedRevision req) StaleRevision) (\<lambda>_.
           and_then (apply_command row now db) (\<lambda>(db1, disposition).
           and_then (require_job db1 (jr_id row)) (\<lambda>updated.
           and_then (insert_command \<lparr>cm_key = cq_key req, cm_fingerprint = fingerprint,
               cm_job = jr_id row, cm_action = action, cm_disposition = disposition,
               cm_expected = cq_expectedRevision req, cm_revision_after = jr_revision updated,
               cm_created = now\<rparr> db1) (\<lambda>db2.
           and_then (snapshot updated (checkpointRow db2 (jr_id updated))) (\<lambda>s.
           Inr (db2, \<lparr>co_action = action, co_disposition = disposition, co_job = s\<rparr>))))))))))))) "

definition request_row :: "int \<Rightarrow> job_row \<Rightarrow> job_row" where
  "request_row now r = r\<lparr>jr_revision := jr_revision r + 1, jr_cancel := REQUESTED,
     jr_requested := Some now, jr_reason := JOB_CANCELLATION_REQUESTED, jr_updated := now\<rparr>"

definition cancel_waiting_row :: "int \<Rightarrow> job_row \<Rightarrow> job_row" where
  "cancel_waiting_row now r = r\<lparr>jr_status := job_status.CANCELLED, jr_revision := jr_revision r + 1,
     jr_reason := JOB_CANCELLED, jr_next := None, jr_cancel := ACKNOWLEDGED,
     jr_requested := Some now, jr_resolved := Some now, jr_completed := Some now,
     jr_updated := now, jr_transition := now\<rparr>"

definition cancel_apply ::
  "job_row \<Rightarrow> int \<Rightarrow> job_db \<Rightarrow> store_error + job_db \<times> command_disposition" where
  "cancel_apply row now db =
     (if terminal (jr_status row) \<or> jr_cancel row = REQUESTED then Inr (db, NOOP)
      else if jr_status row = job_status.RUNNING
      then and_then (update_job (jr_id row) (request_row now) db) (\<lambda>db1. Inr (db1, APPLIED))
      else and_then (update_job (jr_id row) (cancel_waiting_row now) db) (\<lambda>db1. Inr (db1, APPLIED)))"

definition cancel ::
  "(string \<Rightarrow> string) \<Rightarrow> command_request \<Rightarrow> int option \<Rightarrow> job_db
     \<Rightarrow> store_error + job_db \<times> command_result" where
  "cancel sha req clock db = operatorCommand sha CANCEL req clock cancel_apply db"

definition requeue_row :: "int \<Rightarrow> int \<Rightarrow> job_row \<Rightarrow> job_row" where
  "requeue_row maximum now r = r\<lparr>jr_status := job_status.QUEUED, jr_revision := jr_revision r + 1,
     jr_max := maximum, jr_reason := JOB_QUEUED, jr_next := None, jr_completed := None,
     jr_updated := now, jr_transition := now\<rparr>"

definition retry_apply ::
  "job_row \<Rightarrow> int \<Rightarrow> job_db \<Rightarrow> store_error + job_db \<times> command_disposition" where
  "retry_apply row now db =
     (let retryableTerminal = (jr_status row = job_status.FAILED \<and> jr_fail_retryable row = Some True) in
      if jr_status row \<noteq> job_status.RETRY_WAIT \<and> \<not> retryableTerminal then Inl StateConflict
      else if jr_count row \<ge> 1000 then Inl StateConflict
      else let maximum = (if jr_status row = job_status.FAILED
                          then max (jr_max row) (jr_count row + 1) else jr_max row) in
        and_then (update_job (jr_id row) (requeue_row maximum now) db) (\<lambda>db1. Inr (db1, APPLIED)))"

definition manualRetry ::
  "(string \<Rightarrow> string) \<Rightarrow> command_request \<Rightarrow> int option \<Rightarrow> job_db
     \<Rightarrow> store_error + job_db \<times> command_result" where
  "manualRetry sha req clock db = operatorCommand sha RETRY req clock retry_apply db"

section \<open>Cancellation\<close>

datatype cancellation_outcome =
  WasCancelled | WasRequested | AlreadyRequested | WasRejected | AlreadyTerminal

definition requestCancellation ::
  "(string \<Rightarrow> string) \<Rightarrow> string \<Rightarrow> int option \<Rightarrow> job_db
     \<Rightarrow> store_error + job_db \<times> cancellation_outcome \<times> job_record" where
  "requestCancellation sha i clock db =
     and_then (assert_open db) (\<lambda>_.
     and_then (validateIdentifier i ArgJobId 200) (\<lambda>_.
     and_then (clock_now clock) (\<lambda>now.
     case jobRow db i of
       None \<Rightarrow> Inl JobNotFound
     | Some row \<Rightarrow>
         let unchanged = (\<lambda>outcome. and_then (record_of sha db row) (\<lambda>rec. Inr (db, outcome, rec)));
             changed = (\<lambda>f outcome. and_then (update_job (jr_id row) f db) (\<lambda>db1.
                and_then (finish_with sha db1 (jr_id row)) (\<lambda>(db2, rec). Inr (db2, outcome, rec)))) in
         if terminal (jr_status row) then unchanged AlreadyTerminal
         else if jr_cancel row = REJECTED then unchanged WasRejected
         else if jr_cancel row = REQUESTED then unchanged AlreadyRequested
         else if jr_status row = job_status.RUNNING then changed (request_row now) WasRequested
         else changed (cancel_waiting_row now) WasCancelled)))"

definition acknowledgeCancellation ::
  "(string \<Rightarrow> string) \<Rightarrow> lease_reference \<Rightarrow> int option \<Rightarrow> job_db \<Rightarrow> store_error + job_db \<times> job_record" where
  "acknowledgeCancellation sha ref clock db =
     and_then (assert_open db) (\<lambda>_.
     and_then (clock_now clock) (\<lambda>now.
     and_then (activeLease ref now db) (\<lambda>row.
     and_then (ensure (jr_cancel row = REQUESTED) CancellationNotRequested) (\<lambda>_.
     and_then (finishAttempt ref attempt_status.CANCELLED now None db) (\<lambda>db1.
     and_then (update_job (jr_id row) (acknowledge_row now) db1) (\<lambda>db2.
     finish_with sha db2 (jr_id row)))))))"

definition reject_row :: "int \<Rightarrow> job_row \<Rightarrow> job_row" where
  "reject_row now r = r\<lparr>jr_revision := jr_revision r + 1, jr_cancel := REJECTED,
     jr_resolved := Some now, jr_reason := JOB_RUNNING, jr_updated := now\<rparr>"

definition rejectCancellation ::
  "(string \<Rightarrow> string) \<Rightarrow> lease_reference \<Rightarrow> int option \<Rightarrow> job_db \<Rightarrow> store_error + job_db \<times> job_record" where
  "rejectCancellation sha ref clock db =
     and_then (assert_open db) (\<lambda>_.
     and_then (clock_now clock) (\<lambda>now.
     and_then (activeLease ref now db) (\<lambda>row.
     and_then (ensure (jr_cancel row = REQUESTED) CancellationNotRequested) (\<lambda>_.
     and_then (update_job (jr_id row) (reject_row now) db) (\<lambda>db1.
     finish_with sha db1 (jr_id row))))))"

section \<open>Attempts\<close>

definition attempt_value :: "attempt_row \<Rightarrow> attempt_snapshot" where
  "attempt_value a =
    \<lparr>at_jobId = ar_job a, at_attemptId = ar_id a, at_attempt = ar_number a,
     at_status = ar_status a, at_workerId = ar_worker a, at_fencingToken = ar_fencing a,
     at_startedAt = ar_started a, at_heartbeatAt = ar_heartbeat a,
     at_leaseExpiresAt = ar_expires a, at_finishedAt = ar_finished a,
     at_checkpointRevision = ar_checkpoint a,
     at_failure = (case ar_fail_code a of None \<Rightarrow> None
       | Some code \<Rightarrow> Some \<lparr>fs_code = code, fs_retryable = (ar_fail_retryable a = Some True),
                            fs_occurredAt = ar_fail_at a\<rparr>)\<rparr>"

definition number_le :: "attempt_row \<Rightarrow> attempt_row \<Rightarrow> bool" where
  "number_le a b \<longleftrightarrow> ar_number a \<le> ar_number b"

definition listAttempts :: "string \<Rightarrow> job_db \<Rightarrow> store_error + attempt_snapshot list" where
  "listAttempts i db =
     and_then (assert_open db) (\<lambda>_.
     and_then (validateIdentifier i ArgJobId 200) (\<lambda>_.
     let rows = take 1000 (sort_by number_le (filter (\<lambda>a. ar_job a = i) (db_attempts db))) in
     sequence (map (\<lambda>a. let s = attempt_value a in
       and_then (ensure (attemptSnapshot_ok s) SnapshotInvalid) (\<lambda>_. Inr s)) rows)))"

definition close :: "job_db \<Rightarrow> job_db" where
  "close db = (if db_closed db then db else db\<lparr>db_closed := True\<rparr>)"

section \<open>Orders\<close>

interpretation claim_order: comparator claim_le
  by unfold_locales (auto simp: claim_le_def)

interpretation list_order: comparator list_le
  by unfold_locales (auto simp: list_le_def)

interpretation number_order: comparator number_le
  by unfold_locales (auto simp: number_le_def)

end
