(* ===== verification/JobInv.thy ===== *)
theory JobInv
  imports JobStore
begin

text \<open>
  The abstract machine behind the job store: \<open>row_move\<close> lists the ways one job row, together
  with its attempts, may change; \<open>store_move\<close> lifts them to the database. The invariant of the
  store is proved here once per move; the theory \<open>JobRefine\<close> shows that every operation is a
  sequence of moves.
\<close>

section \<open>Attempt identifiers\<close>

lemma show_int_nonneg: "0 \<le> n \<Longrightarrow> show_int n = show_nat (nat n)"
  by (simp add: show_int_def)

lemma digits_no_colon: "CHR '':'' \<notin> set (show_nat n)"
  using show_nat_digits[of "CHR '':''" n] by (auto simp: ascii_digit_def)

lemma attempt_id_inject:
  assumes "0 \<le> m" "0 \<le> n" "attempt_id i m = attempt_id j n"
  shows "i = j \<and> m = n"
proof -
  let ?p = "\<lambda>c. c \<noteq> CHR '':''"
  let ?m = "show_nat (nat m)" and ?n = "show_nat (nat n)"
  have e: "i @ '':attempt:'' @ ?m = j @ '':attempt:'' @ ?n"
    using assms by (simp add: attempt_id_def show_int_nonneg)
  have tail: "takeWhile ?p (rev (k @ '':attempt:'' @ show_nat q)) = rev (show_nat q)" for k q
  proof -
    have "takeWhile ?p (rev (show_nat q) @ rev (k @ '':attempt:''))
        = rev (show_nat q) @ takeWhile ?p (rev (k @ '':attempt:''))"
    proof (rule takeWhile_append2)
      fix c assume "c \<in> set (rev (show_nat q))"
      then have "c \<in> set (show_nat q)" by simp
      then show "c \<noteq> CHR '':''" using digits_no_colon by metis
    qed
    then show ?thesis by simp
  qed
  have "rev ?m = rev ?n" using tail[of i "nat m"] tail[of j "nat n"] e by metis
  then have "m = n" using assms by simp
  with e show ?thesis by simp
qed

lemma attempt_id_iff [simp]:
  "0 \<le> m \<Longrightarrow> 0 \<le> n \<Longrightarrow> attempt_id i m = attempt_id j n \<longleftrightarrow> i = j \<and> m = n"
  using attempt_id_inject by blast

section \<open>The invariant of the store\<close>

definition stored_ok :: "(string \<Rightarrow> string) \<Rightarrow> serialized \<Rightarrow> bool" where
  "stored_ok sha z \<longleftrightarrow> (\<exists>v. serializeJobJson sha v = Inr z)"

definition cancel_inv :: "job_row \<Rightarrow> bool" where
  "cancel_inv r \<longleftrightarrow>
     (jr_cancel r = NOT_REQUESTED \<longrightarrow> jr_requested r = None \<and> jr_resolved r = None)
   \<and> (jr_cancel r \<noteq> NOT_REQUESTED \<longrightarrow> jr_requested r \<noteq> None)
   \<and> (jr_cancel r = REQUESTED \<longrightarrow> jr_resolved r = None \<and> jr_status r = job_status.RUNNING)
   \<and> (jr_cancel r = REJECTED \<longrightarrow> jr_resolved r \<noteq> None)
   \<and> (jr_cancel r = ACKNOWLEDGED \<longrightarrow> jr_resolved r \<noteq> None)
   \<and> (jr_cancel r = ACKNOWLEDGED \<longleftrightarrow> jr_status r = job_status.CANCELLED)"

definition failure_inv :: "job_row \<Rightarrow> bool" where
  "failure_inv r \<longleftrightarrow>
     (case jr_fail_code r of None \<Rightarrow> jr_status r \<noteq> job_status.FAILED
      | Some c \<Rightarrow> upper_code 119 c \<and> jr_fail_at r \<noteq> None \<and> jr_fail_retryable r \<noteq> None)"

definition schedule_inv :: "job_row \<Rightarrow> bool" where
  "schedule_inv r \<longleftrightarrow>
     jr_fencing r = jr_count r
   \<and> (jr_status r = job_status.QUEUED \<or> jr_status r = job_status.RETRY_WAIT \<longrightarrow> jr_count r < jr_max r)
   \<and> (jr_status r = job_status.RUNNING \<longrightarrow>
        jr_attempt r = Some (attempt_id (jr_id r) (jr_count r)) \<and> 1 \<le> jr_count r
      \<and> jr_acquired r \<noteq> None \<and> jr_heartbeat r \<noteq> None
      \<and> (\<exists>w. jr_worker r = Some w \<and> safeId 200 w))
   \<and> (jr_status r = job_status.SUCCEEDED \<longrightarrow> jr_progress r = 1)"

definition identity_inv :: "(string \<Rightarrow> string) \<Rightarrow> job_row \<Rightarrow> bool" where
  "identity_inv sha r \<longleftrightarrow> safeId 200 (jr_id r) \<and> upper_code 119 (jr_type r)
     \<and> idempotencyKey_ok (jr_key r) \<and> stored_ok sha (jr_input r)"

definition row_inv :: "(string \<Rightarrow> string) \<Rightarrow> job_row \<Rightarrow> bool" where
  "row_inv sha r \<longleftrightarrow>
     job_check r \<and> identity_inv sha r \<and> schedule_inv r \<and> cancel_inv r \<and> failure_inv r"

definition attempt_inv :: "attempt_row \<Rightarrow> bool" where
  "attempt_inv a \<longleftrightarrow> attempt_check a
   \<and> ar_id a = attempt_id (ar_job a) (ar_number a) \<and> ar_fencing a = ar_number a
   \<and> safeId 200 (ar_worker a)
   \<and> (ar_lease a = ACTIVE \<longleftrightarrow> ar_status a = attempt_status.RUNNING)
   \<and> (case ar_fail_code a of None \<Rightarrow> True | Some c \<Rightarrow> upper_code 119 c \<and> ar_fail_at a \<noteq> None)"

definition attempts_of :: "string \<Rightarrow> attempt_row list \<Rightarrow> attempt_row list" where
  "attempts_of i as = filter (\<lambda>a. ar_job a = i) as"

text \<open>
  The attempts of a job are numbered from 1 to its attempt count, in order, and only the last can
  be running: it is, under the worker of the row, exactly while the job is.
\<close>

definition job_link :: "job_row \<Rightarrow> attempt_row list \<Rightarrow> bool" where
  "job_link r as \<longleftrightarrow>
     map ar_number (attempts_of (jr_id r) as) = [1..jr_count r]
   \<and> (\<forall>a \<in> set (attempts_of (jr_id r) as).
        (ar_status a = attempt_status.RUNNING
           \<longleftrightarrow> jr_status r = job_status.RUNNING \<and> ar_number a = jr_count r)
      \<and> (ar_status a = attempt_status.RUNNING \<longrightarrow> jr_worker r = Some (ar_worker a)))"

definition side_inv :: "(string \<Rightarrow> string) \<Rightarrow> job_db \<Rightarrow> bool" where
  "side_inv sha db \<longleftrightarrow>
     distinct (map cp_job (db_checkpoints db))
   \<and> (\<forall>c \<in> set (db_checkpoints db). checkpoint_check c \<and> stored_ok sha (cp_payload c)
        \<and> cp_job c \<in> jr_id ` set (db_jobs db))
   \<and> distinct (map cm_key (db_commands db))
   \<and> (\<forall>c \<in> set (db_commands db). command_check c \<and> cm_job c \<in> jr_id ` set (db_jobs db))"

definition store_inv :: "(string \<Rightarrow> string) \<Rightarrow> job_db \<Rightarrow> bool" where
  "store_inv sha db \<longleftrightarrow>
     distinct (map jr_id (db_jobs db)) \<and> distinct (map jr_key (db_jobs db))
   \<and> (\<forall>r \<in> set (db_jobs db). row_inv sha r \<and> job_link r (db_attempts db))
   \<and> (\<forall>a \<in> set (db_attempts db). attempt_inv a \<and> ar_job a \<in> jr_id ` set (db_jobs db))
   \<and> side_inv sha db"

lemmas row_inv_defs =
  row_inv_def job_check_def identity_inv_def schedule_inv_def cancel_inv_def failure_inv_def

section \<open>Moves of one row\<close>

definition touch_attempt :: "int option \<Rightarrow> int option \<Rightarrow> int option \<Rightarrow> attempt_row \<Rightarrow> attempt_row" where
  "touch_attempt beat expires revision a = a\<lparr>
     ar_heartbeat := (case beat of None \<Rightarrow> ar_heartbeat a | Some t \<Rightarrow> t),
     ar_expires := (case expires of None \<Rightarrow> ar_expires a | Some t \<Rightarrow> t),
     ar_checkpoint := (case revision of None \<Rightarrow> ar_checkpoint a | Some n \<Rightarrow> n)\<rparr>"

text \<open>
  \<open>row_move r g new r'\<close>: the row \<open>r\<close> becomes \<open>r'\<close>, its current attempt is changed by \<open>g\<close> and the
  attempts \<open>new\<close> are added.
\<close>

inductive row_move ::
  "job_row \<Rightarrow> (attempt_row \<Rightarrow> attempt_row) \<Rightarrow> attempt_row list \<Rightarrow> job_row \<Rightarrow> bool" where
  Reprioritise: "\<not> terminal (jr_status r) \<Longrightarrow> 0 \<le> p \<Longrightarrow> p \<le> 100 \<Longrightarrow>
     row_move r id [] (r\<lparr>jr_priority := p, jr_updated := now\<rparr>)"
| Claim: "jr_status r = job_status.QUEUED \<or> jr_status r = job_status.RETRY_WAIT \<Longrightarrow>
     safeId 200 w \<Longrightarrow> 0 \<le> cp \<Longrightarrow>
     row_move r id [new_attempt r w now ex cp] (claim_row r w now ex r)"
| Reclaim: "jr_status r = job_status.RUNNING \<Longrightarrow> jr_cancel r \<noteq> REQUESTED \<Longrightarrow> jr_count r < jr_max r \<Longrightarrow>
     safeId 200 w \<Longrightarrow> 0 \<le> cp \<Longrightarrow>
     row_move r (lost_attempt now) [new_attempt r w now ex cp] (claim_row r w now ex r)"
| CancelExpired: "jr_status r = job_status.RUNNING \<Longrightarrow> jr_cancel r = REQUESTED \<Longrightarrow>
     row_move r (lost_attempt now) [] (acknowledge_row now r)"
| Exhaust: "jr_status r = job_status.RUNNING \<Longrightarrow> jr_cancel r \<noteq> REQUESTED \<Longrightarrow>
     row_move r (lost_attempt now) [] (exhaust_row now r)"
| Heartbeat: "jr_status r = job_status.RUNNING \<Longrightarrow>
     row_move r (touch_attempt (Some now) (Some ex) None) []
       (r\<lparr>jr_heartbeat := Some now, jr_expires := Some ex, jr_updated := now\<rparr>)"
| Checkpoint: "jr_status r = job_status.RUNNING \<Longrightarrow> jr_progress r \<le> p \<Longrightarrow> p \<le> 1 \<Longrightarrow> 0 \<le> n \<Longrightarrow>
     row_move r (touch_attempt None None (Some n)) []
       (r\<lparr>jr_revision := jr_revision r + 1, jr_progress := p, jr_updated := now\<rparr>)"
| Succeed: "jr_status r = job_status.RUNNING \<Longrightarrow>
     row_move r (release_attempt attempt_status.SUCCEEDED now None) [] (succeed_row now r r)"
| Acknowledge: "jr_status r = job_status.RUNNING \<Longrightarrow> jr_cancel r = REQUESTED \<Longrightarrow>
     row_move r (release_attempt attempt_status.CANCELLED now None) [] (acknowledge_row now r)"
| Retry: "jr_status r = job_status.RUNNING \<Longrightarrow> jr_cancel r \<noteq> REQUESTED \<Longrightarrow> jr_count r < jr_max r \<Longrightarrow>
     upper_code 119 code \<Longrightarrow>
     row_move r (release_attempt attempt_status.RETRYABLE_FAILED now (Some (code, True))) []
       (retry_row now due code r)"
| Fail: "jr_status r = job_status.RUNNING \<Longrightarrow> jr_cancel r \<noteq> REQUESTED \<Longrightarrow> upper_code 119 code \<Longrightarrow>
     row_move r (release_attempt attempt_status.TERMINAL_FAILED now (Some (code, b))) []
       (failed_row now code b r)"
| Request: "jr_status r = job_status.RUNNING \<Longrightarrow> jr_cancel r = NOT_REQUESTED \<Longrightarrow>
     row_move r id [] (request_row now r)"
| CancelWaiting: "jr_status r = job_status.QUEUED \<or> jr_status r = job_status.RETRY_WAIT \<Longrightarrow>
     row_move r id [] (cancel_waiting_row now r)"
| RequeueWaiting: "jr_status r = job_status.RETRY_WAIT \<Longrightarrow>
     row_move r id [] (requeue_row (jr_max r) now r)"
| RequeueFailed: "jr_status r = job_status.FAILED \<Longrightarrow> jr_count r < 1000 \<Longrightarrow>
     row_move r id [] (requeue_row (max (jr_max r) (jr_count r + 1)) now r)"
| Reject: "jr_status r = job_status.RUNNING \<Longrightarrow> jr_cancel r = REQUESTED \<Longrightarrow>
     row_move r id [] (reject_row now r)"

lemmas row_update_defs =
  claim_row_def acknowledge_row_def exhaust_row_def succeed_row_def retry_row_def failed_row_def
  request_row_def cancel_waiting_row_def requeue_row_def reject_row_def clear_lease_def

lemma lease_expired_code: "upper_code 119 ''JOB_LEASE_EXPIRED''"
  by code_simp

lemma row_move_identity:
  "row_move r g new r' \<Longrightarrow> jr_id r' = jr_id r \<and> jr_key r' = jr_key r \<and> jr_type r' = jr_type r
     \<and> jr_input r' = jr_input r \<and> jr_fingerprint r' = jr_fingerprint r \<and> jr_created r' = jr_created r"
  by (induction rule: row_move.induct) (simp_all add: row_update_defs)

lemma row_move_check:
  assumes "row_move r g new r'" and "job_check r" and "schedule_inv r" and "failure_inv r"
  shows "job_check r'"
  using assms
  by (cases rule: row_move.cases; cases "jr_status r")
     (simp_all add: job_check_def schedule_inv_def row_update_defs terminal_def max_def)

lemma row_move_schedule:
  assumes "row_move r g new r'" and "job_check r" and "schedule_inv r"
  shows "schedule_inv r'"
  using assms
  by (cases rule: row_move.cases; cases "jr_status r")
     (simp_all add: job_check_def schedule_inv_def row_update_defs terminal_def)

lemma row_move_cancel:
  assumes "row_move r g new r'" and "cancel_inv r"
  shows "cancel_inv r'"
  using assms
  by (induction rule: row_move.induct) (auto simp: cancel_inv_def row_update_defs terminal_def)

lemma row_move_failure:
  assumes "row_move r g new r'" and "failure_inv r"
  shows "failure_inv r'"
  using assms
  by (induction rule: row_move.induct)
     (auto simp: failure_inv_def row_update_defs lease_expired_code split: option.splits)

lemma row_move_inv:
  assumes "row_move r g new r'" and "row_inv sha r"
  shows "row_inv sha r'"
  using assms row_move_identity[OF assms(1)] unfolding row_inv_def
  by (auto intro: row_move_check row_move_schedule row_move_cancel row_move_failure
      simp: identity_inv_def)

section \<open>Attempts under a move\<close>

definition same_attempt :: "(attempt_row \<Rightarrow> attempt_row) \<Rightarrow> bool" where
  "same_attempt g \<longleftrightarrow> (\<forall>a. ar_job (g a) = ar_job a \<and> ar_id (g a) = ar_id a
     \<and> ar_number (g a) = ar_number a \<and> ar_worker (g a) = ar_worker a)"

definition keeps_running :: "(attempt_row \<Rightarrow> attempt_row) \<Rightarrow> bool" where
  "keeps_running g \<longleftrightarrow> (\<forall>a. (ar_status (g a) = attempt_status.RUNNING) = (ar_status a = attempt_status.RUNNING))"

definition stops_running :: "(attempt_row \<Rightarrow> attempt_row) \<Rightarrow> bool" where
  "stops_running g \<longleftrightarrow> (\<forall>a. ar_status (g a) \<noteq> attempt_status.RUNNING)"

text \<open>What a move does to the attempts, in the three shapes the link proof distinguishes.\<close>

definition move_shape ::
  "job_row \<Rightarrow> (attempt_row \<Rightarrow> attempt_row) \<Rightarrow> attempt_row list \<Rightarrow> job_row \<Rightarrow> bool" where
  "move_shape r g new r' \<longleftrightarrow>
     (new = [] \<and> keeps_running g \<and> jr_count r' = jr_count r \<and> jr_worker r' = jr_worker r
        \<and> (jr_status r' = job_status.RUNNING) = (jr_status r = job_status.RUNNING))
   \<or> (new = [] \<and> stops_running g \<and> jr_count r' = jr_count r \<and> jr_status r' \<noteq> job_status.RUNNING)
   \<or> (\<exists>w now ex cp. new = [new_attempt r w now ex cp] \<and> safeId 200 w \<and> 0 \<le> cp
        \<and> (stops_running g \<or> jr_status r \<noteq> job_status.RUNNING)
        \<and> jr_count r < jr_max r
        \<and> jr_count r' = jr_count r + 1 \<and> jr_status r' = job_status.RUNNING \<and> jr_worker r' = Some w)"

lemmas attempt_update_defs = lost_attempt_def release_attempt_def touch_attempt_def

lemma row_move_shape:
  assumes "row_move r g new r'" and "row_inv sha r"
  shows "move_shape r g new r'"
proof -
  have sched: "schedule_inv r" and chk: "job_check r" using assms(2) by (simp_all add: row_inv_def)
  have lt: "jr_status r = job_status.QUEUED \<or> jr_status r = job_status.RETRY_WAIT \<Longrightarrow> jr_count r < jr_max r"
    using sched unfolding schedule_inv_def by blast
  have nw: "jr_status r \<noteq> job_status.RUNNING \<Longrightarrow> jr_worker r = None"
    using chk unfolding job_check_def by blast
  show ?thesis using assms(1)
  proof (cases rule: row_move.cases)
    case (Claim w cp now ex)
    then show ?thesis using lt unfolding move_shape_def by (force simp: claim_row_def)
  next
    case (Reclaim w cp now ex)
    then show ?thesis unfolding move_shape_def
      by (force simp: claim_row_def stops_running_def lost_attempt_def)
  next
    case (CancelWaiting now)
    then show ?thesis using nw by (auto simp: move_shape_def keeps_running_def row_update_defs)
  qed (auto simp: move_shape_def keeps_running_def stops_running_def row_update_defs attempt_update_defs)
qed

lemma row_move_same_attempt: "row_move r g new r' \<Longrightarrow> same_attempt g"
  by (erule row_move.cases) (simp_all add: same_attempt_def attempt_update_defs)

lemma row_move_attempt_inv:
  assumes "row_move r g new r'" and "attempt_inv a"
  shows "attempt_inv (g a)"
  using assms
  by (cases rule: row_move.cases)
     (simp_all add: attempt_inv_def attempt_check_def attempt_update_defs lease_expired_code
        split: option.splits)

lemma new_attempt_inv:
  assumes "row_inv sha r" and "jr_count r < jr_max r" and "safeId 200 w" and "0 \<le> cp"
  shows "attempt_inv (new_attempt r w now ex cp)"
  using assms by (simp add: attempt_inv_def attempt_check_def new_attempt_def row_inv_def
      job_check_def schedule_inv_def)

lemma attempts_of_simps [simp]:
  "attempts_of i [] = []"
  "attempts_of i (as @ bs) = attempts_of i as @ attempts_of i bs"
  "attempts_of i (a # as) = (if ar_job a = i then a # attempts_of i as else attempts_of i as)"
  by (simp_all add: attempts_of_def)

lemma set_attempts_of [simp]: "a \<in> set (attempts_of i as) \<longleftrightarrow> a \<in> set as \<and> ar_job a = i"
  by (auto simp: attempts_of_def)

definition change_attempt ::
  "string option \<Rightarrow> (attempt_row \<Rightarrow> attempt_row) \<Rightarrow> attempt_row list \<Rightarrow> attempt_row list" where
  "change_attempt i g as = map (\<lambda>a. if Some (ar_id a) = i then g a else a) as"

lemma attempts_of_change:
  "same_attempt g \<Longrightarrow> attempts_of j (change_attempt i g as) = change_attempt i g (attempts_of j as)"
  by (induction as) (auto simp: change_attempt_def same_attempt_def)

lemma change_attempt_other:
  assumes "\<forall>a \<in> set as. attempt_inv a" and "row_inv sha r" and "i \<noteq> jr_id r"
  shows "change_attempt (jr_attempt r) g (attempts_of i as) = attempts_of i as"
  unfolding change_attempt_def
proof (rule map_idI)
  fix a assume "a \<in> set (attempts_of i as)"
  then have a: "attempt_inv a" "ar_job a = i" using assms(1) by auto
  have "Some (ar_id a) \<noteq> jr_attempt r"
  proof (cases "jr_status r = job_status.RUNNING")
    case True
    then have e: "jr_attempt r = Some (attempt_id (jr_id r) (jr_count r))" "0 \<le> jr_count r"
      using assms(2) by (auto simp: row_inv_def schedule_inv_def)
    have "0 \<le> ar_number a" "ar_id a = attempt_id i (ar_number a)"
      using a by (auto simp: attempt_inv_def attempt_check_def)
    then show ?thesis using e assms(3) by simp
  next
    case False
    then show ?thesis using assms(2) unfolding row_inv_def job_check_def by auto
  qed
  then show "(if Some (ar_id a) = jr_attempt r then g a else a) = a" by simp
qed

lemma change_attempt_own:
  assumes "attempt_inv a" and "ar_job a = jr_id r" and "row_inv sha r"
  shows "Some (ar_id a) = jr_attempt r \<longleftrightarrow> jr_status r = job_status.RUNNING \<and> ar_number a = jr_count r"
proof (cases "jr_status r = job_status.RUNNING")
  case True
  then have e: "jr_attempt r = Some (attempt_id (jr_id r) (jr_count r))" "0 \<le> jr_count r"
    using assms(3) by (auto simp: row_inv_def schedule_inv_def)
  have "0 \<le> ar_number a" "ar_id a = attempt_id (jr_id r) (ar_number a)"
    using assms by (auto simp: attempt_inv_def attempt_check_def)
  then show ?thesis using e True by simp
next
  case False
  then show ?thesis using assms(3) unfolding row_inv_def job_check_def by auto
qed

lemma map_number_change: "same_attempt g \<Longrightarrow> map ar_number (change_attempt i g as) = map ar_number as"
  by (simp add: change_attempt_def same_attempt_def)

section \<open>The link under a move\<close>

lemma upto_snoc: "0 \<le> n \<Longrightarrow> [1..n + 1] = [1..n] @ [n + 1]"
  using upto_rec2[of 1 "n + 1"] by simp

lemma link_other:
  assumes "row_move r g new r'" and "row_inv sha r" and "\<forall>a \<in> set as. attempt_inv a"
    and "jr_id s \<noteq> jr_id r"
  shows "job_link s (change_attempt (jr_attempt r) g as @ new) = job_link s as"
proof -
  have "attempts_of (jr_id s) new = []"
    using row_move_shape[OF assms(1,2)] assms(4) by (auto simp: move_shape_def new_attempt_def)
  then have "attempts_of (jr_id s) (change_attempt (jr_attempt r) g as @ new) = attempts_of (jr_id s) as"
    using change_attempt_other[OF assms(3,2,4)] row_move_same_attempt[OF assms(1)]
    by (simp add: attempts_of_change)
  then show ?thesis by (simp add: job_link_def)
qed

text \<open>The own attempts after the change: the last one is changed when the job was running.\<close>

lemma own_changed:
  assumes "b \<in> set (change_attempt (jr_attempt r) g (attempts_of (jr_id r) as))"
    and "\<forall>a \<in> set as. attempt_inv a" and "row_inv sha r" and "same_attempt g"
  obtains a where "a \<in> set as" "ar_job a = jr_id r"
    "b = (if jr_status r = job_status.RUNNING \<and> ar_number a = jr_count r then g a else a)"
    "ar_number b = ar_number a" "ar_worker b = ar_worker a"
proof -
  from assms(1) obtain a where a: "a \<in> set as" "ar_job a = jr_id r"
    and b: "b = (if Some (ar_id a) = jr_attempt r then g a else a)"
    by (auto simp: change_attempt_def)
  have "b = (if jr_status r = job_status.RUNNING \<and> ar_number a = jr_count r then g a else a)"
    using b change_attempt_own[of a r sha] a assms(2,3) by metis
  with a show thesis using assms(4) that by (simp add: same_attempt_def)
qed

lemma link_own:
  assumes "row_move r g new r'" and "row_inv sha r" and "\<forall>a \<in> set as. attempt_inv a"
    and "job_link r as"
  shows "job_link r' (change_attempt (jr_attempt r) g as @ new)"
proof -
  let ?own = "change_attempt (jr_attempt r) g (attempts_of (jr_id r) as)"
  have same: "same_attempt g" by (rule row_move_same_attempt[OF assms(1)])
  have i: "jr_id r' = jr_id r" using row_move_identity[OF assms(1)] by simp
  have numbers: "map ar_number ?own = [1..jr_count r]"
    using assms(4) by (simp add: map_number_change[OF same] job_link_def)
  have link: "ar_status a = attempt_status.RUNNING
      \<longleftrightarrow> jr_status r = job_status.RUNNING \<and> ar_number a = jr_count r"
      "ar_status a = attempt_status.RUNNING \<longrightarrow> jr_worker r = Some (ar_worker a)"
    if "a \<in> set as" "ar_job a = jr_id r" for a
    using assms(4) that by (auto simp: job_link_def)
  have own: "attempts_of (jr_id r') (change_attempt (jr_attempt r) g as @ new)
      = ?own @ attempts_of (jr_id r) new"
    by (simp add: i attempts_of_change[OF same])
  from row_move_shape[OF assms(1,2)] consider
      (keep) "new = []" "keeps_running g" "jr_count r' = jr_count r" "jr_worker r' = jr_worker r"
        "(jr_status r' = job_status.RUNNING) = (jr_status r = job_status.RUNNING)"
    | (stop) "new = []" "stops_running g" "jr_count r' = jr_count r" "jr_status r' \<noteq> job_status.RUNNING"
    | (new) w now ex cp where "new = [new_attempt r w now ex cp]"
        "stops_running g \<or> jr_status r \<noteq> job_status.RUNNING" "jr_count r' = jr_count r + 1"
        "jr_status r' = job_status.RUNNING" "jr_worker r' = Some w"
    unfolding move_shape_def by blast
  then show ?thesis
  proof cases
    case keep
    have "(ar_status b = attempt_status.RUNNING
          \<longleftrightarrow> jr_status r' = job_status.RUNNING \<and> ar_number b = jr_count r')
        \<and> (ar_status b = attempt_status.RUNNING \<longrightarrow> jr_worker r' = Some (ar_worker b))"
      if "b \<in> set ?own" for b
      using that assms(3,2) same
    proof (rule own_changed)
      fix a assume a: "a \<in> set as" "ar_job a = jr_id r" "ar_number b = ar_number a"
        "ar_worker b = ar_worker a"
        "b = (if jr_status r = job_status.RUNNING \<and> ar_number a = jr_count r then g a else a)"
      then have "(ar_status b = attempt_status.RUNNING) = (ar_status a = attempt_status.RUNNING)"
        using keep(2) by (simp add: keeps_running_def)
      then show ?thesis using link[OF a(1,2)] keep(3-5) a(3,4) by metis
    qed
    then show ?thesis unfolding job_link_def own using numbers keep by simp
  next
    case stop
    have "ar_status b \<noteq> attempt_status.RUNNING" if "b \<in> set ?own" for b
      using that assms(3,2) same
    proof (rule own_changed)
      fix a assume a: "a \<in> set as" "ar_job a = jr_id r"
        "b = (if jr_status r = job_status.RUNNING \<and> ar_number a = jr_count r then g a else a)"
      then show ?thesis using link(1)[OF a(1,2)] stop(2) by (auto simp: stops_running_def)
    qed
    then show ?thesis unfolding job_link_def own using numbers stop by simp
  next
    case new
    have "ar_status b \<noteq> attempt_status.RUNNING \<and> ar_number b \<le> jr_count r" if "b \<in> set ?own" for b
      using that assms(3,2) same
    proof (rule own_changed)
      fix a assume a: "a \<in> set as" "ar_job a = jr_id r" "ar_number b = ar_number a"
        "b = (if jr_status r = job_status.RUNNING \<and> ar_number a = jr_count r then g a else a)"
      have "ar_number b \<in> set [1..jr_count r]" using that numbers by (metis image_eqI set_map)
      then show ?thesis using link(1)[OF a(1,2)] new(2) a by (auto simp: stops_running_def)
    qed
    then have "\<forall>b \<in> set ?own. ar_status b \<noteq> attempt_status.RUNNING \<and> ar_number b \<noteq> jr_count r + 1"
      by fastforce
    moreover have "0 \<le> jr_count r" using assms(2) by (simp add: row_inv_def job_check_def)
    ultimately show ?thesis unfolding job_link_def own using numbers new
      by (auto simp: new_attempt_def upto_snoc)
  qed
qed

section \<open>Moves of the store\<close>

definition put_job :: "job_row \<Rightarrow> job_db \<Rightarrow> job_db" where
  "put_job r' db = db\<lparr>db_jobs := map (\<lambda>r. if jr_id r = jr_id r' then r' else r) (db_jobs db)\<rparr>"

definition fresh_job :: "(string \<Rightarrow> string) \<Rightarrow> job_row \<Rightarrow> job_db \<Rightarrow> bool" where
  "fresh_job sha r db \<longleftrightarrow> row_inv sha r \<and> jr_status r = job_status.QUEUED \<and> jr_count r = 0
     \<and> jr_id r \<notin> jr_id ` set (db_jobs db) \<and> jr_key r \<notin> jr_key ` set (db_jobs db)"

inductive store_move :: "(string \<Rightarrow> string) \<Rightarrow> job_db \<Rightarrow> job_db \<Rightarrow> bool" for sha where
  Insert: "fresh_job sha r db \<Longrightarrow> store_move sha db (db\<lparr>db_jobs := db_jobs db @ [r]\<rparr>)"
| Row: "r \<in> set (db_jobs db) \<Longrightarrow> row_move r g new r' \<Longrightarrow>
     store_move sha db ((put_job r' db)\<lparr>db_attempts := change_attempt (jr_attempt r) g (db_attempts db) @ new\<rparr>)"
| Side: "side_inv sha (db\<lparr>db_checkpoints := cps, db_commands := cms\<rparr>) \<Longrightarrow>
     cms = db_commands db @ added \<Longrightarrow>
     store_move sha db (db\<lparr>db_checkpoints := cps, db_commands := cms\<rparr>)"
| Close: "store_move sha db (close db)"

lemma ids_put_job [simp]: "map jr_id (db_jobs (put_job r' db)) = map jr_id (db_jobs db)"
  by (simp add: put_job_def)

lemma set_put_job:
  "s \<in> set (db_jobs (put_job r' db)) \<Longrightarrow> s = r' \<or> s \<in> set (db_jobs db) \<and> jr_id s \<noteq> jr_id r'"
  by (auto simp: put_job_def split: if_splits)

lemma keys_put_job:
  assumes "distinct (map jr_id (db_jobs db))" "r \<in> set (db_jobs db)" "jr_id r' = jr_id r" "jr_key r' = jr_key r"
  shows "map jr_key (db_jobs (put_job r' db)) = map jr_key (db_jobs db)"
  using assms by (auto simp: put_job_def distinct_map inj_on_def)

lemma put_job_sides [simp]:
  "db_checkpoints (put_job r' db) = db_checkpoints db" "db_commands (put_job r' db) = db_commands db"
  "db_attempts (put_job r' db) = db_attempts db"
  by (simp_all add: put_job_def)

lemma side_inv_ids:
  "side_inv sha db \<Longrightarrow> jr_id ` set (db_jobs db) \<subseteq> jr_id ` set (db_jobs db')
    \<Longrightarrow> db_checkpoints db' = db_checkpoints db \<Longrightarrow> db_commands db' = db_commands db \<Longrightarrow> side_inv sha db'"
  unfolding side_inv_def by (metis subsetD)

lemma insert_keeps_inv:
  assumes inv: "store_inv sha db" and fresh: "fresh_job sha r db"
  shows "store_inv sha (db\<lparr>db_jobs := db_jobs db @ [r]\<rparr>)"
proof -
  have "ar_job a \<noteq> jr_id r" if "a \<in> set (db_attempts db)" for a
    using inv fresh that unfolding store_inv_def fresh_job_def by metis
  then have "attempts_of (jr_id r) (db_attempts db) = []"
    by (simp add: attempts_of_def filter_empty_conv)
  then have "job_link r (db_attempts db)" using fresh by (simp add: job_link_def fresh_job_def)
  moreover have "side_inv sha (db\<lparr>db_jobs := db_jobs db @ [r]\<rparr>)"
    by (rule side_inv_ids[of sha db]) (use inv in \<open>auto simp: store_inv_def\<close>)
  ultimately show ?thesis using inv fresh by (auto simp: store_inv_def fresh_job_def)
qed

lemma row_keeps_inv:
  assumes inv: "store_inv sha db" and r: "r \<in> set (db_jobs db)" and m: "row_move r g new r'"
  shows "store_inv sha ((put_job r' db)\<lparr>db_attempts := change_attempt (jr_attempt r) g (db_attempts db) @ new\<rparr>)"
    (is "store_inv sha ?db")
  unfolding store_inv_def
proof (intro conjI)
  have rinv: "row_inv sha r" and link: "job_link r (db_attempts db)"
    and atts: "\<forall>a \<in> set (db_attempts db). attempt_inv a"
    using inv r by (auto simp: store_inv_def)
  have same: "jr_id r' = jr_id r" "jr_key r' = jr_key r" using row_move_identity[OF m] by auto
  show "\<forall>s \<in> set (db_jobs ?db). row_inv sha s \<and> job_link s (db_attempts ?db)"
  proof
    fix s assume "s \<in> set (db_jobs ?db)"
    then consider "s = r'" | "s \<in> set (db_jobs db)" "jr_id s \<noteq> jr_id r"
      using set_put_job[of s r' db] same by auto
    then show "row_inv sha s \<and> job_link s (db_attempts ?db)"
    proof cases
      case 1
      then show ?thesis using row_move_inv[OF m rinv] link_own[OF m rinv atts link] by simp
    next
      case 2
      then show ?thesis using inv link_other[OF m rinv atts] by (simp add: store_inv_def)
    qed
  qed
  have ids: "map jr_id (db_jobs ?db) = map jr_id (db_jobs db)" by simp
  from arg_cong[OF this, of set] have set_ids: "jr_id ` set (db_jobs ?db) = jr_id ` set (db_jobs db)"
    by (simp only: set_map)
  show "distinct (map jr_id (db_jobs ?db))" using inv by (simp add: store_inv_def)
  show "distinct (map jr_key (db_jobs ?db))"
    using keys_put_job[OF _ r same] inv by (simp add: store_inv_def)
  have "side_inv sha db" using inv by (simp add: store_inv_def)
  then show "side_inv sha ?db"
    by (rule side_inv_ids) (simp_all only: set_ids order_refl, simp_all)
  have "attempt_inv a \<and> ar_job a \<in> jr_id ` set (db_jobs db)" if "a \<in> set new" for a
    using row_move_shape[OF m rinv] that new_attempt_inv[OF rinv] r
    by (auto simp: move_shape_def new_attempt_def)
  moreover have "attempt_inv (g a) \<and> ar_job (g a) = ar_job a" if "a \<in> set (db_attempts db)" for a
    using row_move_attempt_inv[OF m] row_move_same_attempt[OF m] that atts
    by (simp add: same_attempt_def)
  ultimately show "\<forall>a \<in> set (db_attempts ?db). attempt_inv a \<and> ar_job a \<in> jr_id ` set (db_jobs ?db)"
    unfolding set_ids using inv by (auto simp: change_attempt_def store_inv_def)
qed

lemma side_keeps_inv:
  assumes "store_inv sha db" and "side_inv sha (db\<lparr>db_checkpoints := cps, db_commands := cms\<rparr>)"
  shows "store_inv sha (db\<lparr>db_checkpoints := cps, db_commands := cms\<rparr>)"
  using assms by (simp add: store_inv_def)

lemma close_keeps_inv: "store_inv sha db \<Longrightarrow> store_inv sha (close db)"
  by (auto simp: close_def store_inv_def side_inv_def)

theorem store_move_inv: "store_move sha db db' \<Longrightarrow> store_inv sha db \<Longrightarrow> store_inv sha db'"
  by (induction rule: store_move.induct)
     (auto intro: insert_keeps_inv row_keeps_inv side_keeps_inv close_keeps_inv)

lemma store_moves_inv: "(store_move sha)\<^sup>*\<^sup>* db db' \<Longrightarrow> store_inv sha db \<Longrightarrow> store_inv sha db'"
  by (induction rule: rtranclp_induct) (auto intro: store_move_inv)

lemma empty_store_inv: "store_inv sha empty_db"
  by (simp add: store_inv_def side_inv_def empty_db_def)

end
