(* ===== verification/JobRefine.thy ===== *)
theory JobRefine
  imports JobInv
begin

text \<open>
  Every operation of the job store is a sequence of the moves of \<open>JobInv\<close>, and in a store that
  satisfies the invariant no operation trips a schema constraint, misses a row it has just
  written, or fails the integrity check of stored JSON.
\<close>

section \<open>Rows found and written\<close>

definition moved ::
  "job_db \<Rightarrow> job_row \<Rightarrow> (attempt_row \<Rightarrow> attempt_row) \<Rightarrow> attempt_row list \<Rightarrow> job_row \<Rightarrow> job_db" where
  "moved db r g new r' =
     (put_job r' db)\<lparr>db_attempts := change_attempt (jr_attempt r) g (db_attempts db) @ new\<rparr>"

lemma moved_is_move:
  "r \<in> set (db_jobs db) \<Longrightarrow> row_move r g new r' \<Longrightarrow> store_move sha db (moved db r g new r')"
  unfolding moved_def by (rule store_move.Row)

lemma one_move: "store_move sha db db1 \<Longrightarrow> (store_move sha)\<^sup>*\<^sup>* db db1"
  by (rule r_into_rtranclp)

lemma two_moves:
  "store_move sha db db1 \<Longrightarrow> store_move sha db1 db2 \<Longrightarrow> (store_move sha)\<^sup>*\<^sup>* db db2"
  by (blast intro: one_move converse_rtranclp_into_rtranclp)

lemma jobRow_SomeD: "jobRow db i = Some r \<Longrightarrow> r \<in> set (db_jobs db) \<and> jr_id r = i"
  by (auto simp: jobRow_def dest: find_SomeD)

lemma jobRowByKey_SomeD: "jobRowByKey db k = Some r \<Longrightarrow> r \<in> set (db_jobs db) \<and> jr_key r = k"
  by (auto simp: jobRowByKey_def dest: find_SomeD)

lemma jobRow_eq: "store_inv sha db \<Longrightarrow> r \<in> set (db_jobs db) \<Longrightarrow> jobRow db (jr_id r) = Some r"
  unfolding jobRow_def store_inv_def by (rule find_unique) auto

lemma store_invD:
  assumes "store_inv sha db" "r \<in> set (db_jobs db)"
  shows "row_inv sha r" "job_link r (db_attempts db)" "distinct (map jr_id (db_jobs db))"
    "\<forall>a \<in> set (db_attempts db). attempt_inv a" "side_inv sha db"
  using assms by (auto simp: store_inv_def)

lemma jobRow_put:
  assumes "r \<in> set (db_jobs db)" "jr_id r' = jr_id r"
  shows "jobRow (put_job r' db) (jr_id r) = Some r'"
proof -
  have "find (\<lambda>s. jr_id s = jr_id r) (map (\<lambda>r. if jr_id r = jr_id r' then r' else r) rs) = Some r'"
    if "r \<in> set rs" for rs
    using that assms(2) by (induction rs) auto
  then show ?thesis using assms(1) by (simp add: jobRow_def put_job_def)
qed

lemma jobRow_moved:
  "r \<in> set (db_jobs db) \<Longrightarrow> jr_id r' = jr_id r \<Longrightarrow> jobRow (moved db r g new r') (jr_id r) = Some r'"
  using jobRow_put[of r db r'] by (simp add: moved_def jobRow_def put_job_def)

lemma require_moved:
  "r \<in> set (db_jobs db) \<Longrightarrow> jr_id r' = jr_id r \<Longrightarrow> require_job (moved db r g new r') (jr_id r) = Inr r'"
  by (simp add: require_job_def jobRow_moved)

lemma update_job_put:
  assumes "distinct (map jr_id (db_jobs db))" "r \<in> set (db_jobs db)"
    "job_check (f r)" "jr_id (f r) = jr_id r"
  shows "update_job (jr_id r) f db = Inr (put_job (f r) db)"
proof -
  have u: "s = r" if "s \<in> set (db_jobs db)" "jr_id s = jr_id r" for s
    using that assms(1,2) by (auto simp: distinct_map inj_on_def)
  have "list_all (\<lambda>s. jr_id s = jr_id r \<longrightarrow> job_check (f s)) (db_jobs db)"
    using u assms(3) by (auto simp: list_all_iff)
  moreover have "map (\<lambda>s. if jr_id s = jr_id r then f s else s) (db_jobs db)
      = map (\<lambda>s. if jr_id s = jr_id (f r) then f r else s) (db_jobs db)"
    using u assms(4) by auto
  ultimately show ?thesis by (simp add: update_job_def put_job_def)
qed

text \<open>Updating the current attempt, selected by its id.\<close>

lemma update_attempts_change:
  assumes "\<And>a. a \<in> set (db_attempts db) \<Longrightarrow> attempt_inv (g a)"
    and "\<And>a. a \<in> set (db_attempts db) \<Longrightarrow> P a \<longleftrightarrow> Some (ar_id a) = i"
  shows "update_attempts P g db = Inr (db\<lparr>db_attempts := change_attempt i g (db_attempts db)\<rparr>)"
proof -
  have "list_all (\<lambda>a. P a \<longrightarrow> attempt_check (g a)) (db_attempts db)"
    using assms(1) by (auto simp: list_all_iff attempt_inv_def)
  moreover have "map (\<lambda>a. if P a then g a else a) (db_attempts db) = change_attempt i g (db_attempts db)"
    using assms(2) by (auto simp: change_attempt_def)
  ultimately show ?thesis by (simp add: update_attempts_def)
qed

lemma change_attempt_id [simp]: "change_attempt i id as = as"
  unfolding change_attempt_def by (rule map_idI) simp

text \<open>An update of the row alone, of the attempt and then the row, and of the row and then the attempt.\<close>

lemma update_row_move:
  assumes "store_inv sha db" "r \<in> set (db_jobs db)" "row_move r id [] (f r)"
  shows "update_job (jr_id r) f db = Inr (moved db r id [] (f r))"
proof -
  have "job_check (f r)" using row_move_inv[OF assms(3) store_invD(1)[OF assms(1,2)]]
    by (simp add: row_inv_def)
  then show ?thesis
    using update_job_put[of db r f] store_invD(3)[OF assms(1,2)] assms(2) row_move_identity[OF assms(3)]
    by (simp add: moved_def put_job_def)
qed

lemma update_attempt_move:
  assumes "store_inv sha db" "r \<in> set (db_jobs db)" "row_move r g [] (f r)"
    and "\<And>a. a \<in> set (db_attempts db) \<Longrightarrow> P a \<longleftrightarrow> Some (ar_id a) = jr_attempt r"
  shows "and_then (update_attempts P g db) (update_job (jr_id r) f) = Inr (moved db r g [] (f r))"
    and "and_then (update_job (jr_id r) f db) (update_attempts P g) = Inr (moved db r g [] (f r))"
proof -
  have check: "job_check (f r)" using row_move_inv[OF assms(3) store_invD(1)[OF assms(1,2)]]
    by (simp add: row_inv_def)
  have g: "\<And>a. a \<in> set (db_attempts db) \<Longrightarrow> attempt_inv (g a)"
    using row_move_attempt_inv[OF assms(3)] store_invD(4)[OF assms(1,2)] by blast
  have ids: "distinct (map jr_id (db_jobs db))" by (rule store_invD(3)[OF assms(1,2)])
  have same: "jr_id (f r) = jr_id r" using row_move_identity[OF assms(3)] by simp
  let ?db = "db\<lparr>db_attempts := change_attempt (jr_attempt r) g (db_attempts db)\<rparr>"
  have "update_job (jr_id r) f ?db = Inr (put_job (f r) ?db)"
    by (rule update_job_put) (use ids assms(2) check same in simp_all)
  then show "and_then (update_attempts P g db) (update_job (jr_id r) f) = Inr (moved db r g [] (f r))"
    by (simp add: update_attempts_change[OF g assms(4)] moved_def put_job_def)
  have "update_attempts P g (put_job (f r) db)
      = Inr ((put_job (f r) db)\<lparr>db_attempts := change_attempt (jr_attempt r) g (db_attempts (put_job (f r) db))\<rparr>)"
    by (rule update_attempts_change) (use g assms(4) in simp_all)
  then show "and_then (update_job (jr_id r) f db) (update_attempts P g) = Inr (moved db r g [] (f r))"
    by (simp add: update_job_put[where f = f, OF ids assms(2) check same] moved_def)
qed

lemma running_attempt:
  assumes "store_inv sha db" "r \<in> set (db_jobs db)" "jr_status r = job_status.RUNNING"
    "a \<in> set (db_attempts db)" "Some (ar_id a) = jr_attempt r"
  shows "ar_status a = attempt_status.RUNNING \<and> ar_job a = jr_id r \<and> ar_number a = jr_count r"
proof -
  have r: "row_inv sha r" and a: "attempt_inv a" and l: "job_link r (db_attempts db)"
    using store_invD[OF assms(1,2)] assms(4) by auto
  have n: "0 \<le> ar_number a" "0 \<le> jr_count r"
    using a r by (auto simp: attempt_inv_def attempt_check_def row_inv_def job_check_def)
  have "attempt_id (ar_job a) (ar_number a) = attempt_id (jr_id r) (jr_count r)"
    using a r assms(3,5) by (auto simp: attempt_inv_def row_inv_def schedule_inv_def)
  then have "ar_job a = jr_id r \<and> ar_number a = jr_count r" using n by simp
  then show ?thesis using l assms(3,4) by (auto simp: job_link_def)
qed

section \<open>Faults\<close>

text \<open>Errors that would mean the store itself is broken, rather than the request refused.\<close>

definition internal_fault :: "store_error \<Rightarrow> bool" where
  "internal_fault e \<longleftrightarrow> e \<in> {SqlConstraint, MissingRow, Serialization INTEGRITY}"

definition no_fault :: "store_error + 'a \<Rightarrow> bool" where
  "no_fault r \<longleftrightarrow> (case r of Inl e \<Rightarrow> \<not> internal_fault e | Inr _ \<Rightarrow> True)"

lemma no_fault_simps [simp]:
  "no_fault (Inr x)" "no_fault (Inl e) \<longleftrightarrow> \<not> internal_fault e"
  by (simp_all add: no_fault_def)

lemma no_fault_and_then:
  "no_fault r \<Longrightarrow> (\<And>x. r = Inr x \<Longrightarrow> no_fault (f x)) \<Longrightarrow> no_fault (and_then r f)"
  by (cases r) simp_all

lemma no_fault_ensure: "\<not> internal_fault e \<Longrightarrow> no_fault (ensure b e)"
  by (simp add: ensure_def)

lemma internal_fault_simps [simp]:
  "\<not> internal_fault StoreClosed" "\<not> internal_fault ClockInvalid" "\<not> internal_fault (InvalidArgument x)"
  "\<not> internal_fault IdempotencyConflict" "\<not> internal_fault LeaseLost" "\<not> internal_fault StaleRevision"
  "\<not> internal_fault StateConflict" "\<not> internal_fault JobNotFound" "\<not> internal_fault ProgressNotMonotonic"
  "\<not> internal_fault CancellationNotRequested" "\<not> internal_fault SnapshotInvalid"
  "internal_fault (Serialization j) \<longleftrightarrow> j = INTEGRITY" "internal_fault SqlConstraint"
  "internal_fault MissingRow"
  by (simp_all add: internal_fault_def)

lemma no_fault_guards [simp]:
  "no_fault (assert_open db)" "no_fault (clock_now clock)" "no_fault (to_iso t)"
  "no_fault (validateIdentifier v x n)" "no_fault (validateLeaseMs l)"
  "no_fault (activeLease ref now db)" "no_fault (retryDelay p m s)" "no_fault (snapshot r c)"
  by (simp_all add: assert_open_def clock_now_def to_iso_def validateIdentifier_def validateLeaseMs_def
      activeLease_def retryDelay_def snapshot_def ensure_def Let_def split: option.splits)

lemma sequence_InlD: "sequence rs = Inl e \<Longrightarrow> Inl e \<in> set rs"
  by (induction rs rule: sequence.induct) (auto split: sum.splits)

lemma canonical_not_integrity: "canonical v d \<noteq> Inl INTEGRITY"
proof (induction v arbitrary: d)
  case (JList vs)
  have "sequence (map (\<lambda>f. f (Suc d)) (map canonical vs)) \<noteq> Inl INTEGRITY"
    using JList by (fastforce dest!: sequence_InlD)
  then show ?case by (auto split: sum.splits)
next
  case (JObject fs)
  have ih: "canonical v d \<noteq> Inl INTEGRITY" if "(k, v) \<in> set fs" for k v d
    using JObject that by (metis prod_set_simps(2) singletonI snd_conv snds.intros)
  have "render_field (k, canonical v d) \<noteq> Inl INTEGRITY" if "(k, v) \<in> set fs" for k v d
    using ih[OF that, of d] by (cases "canonical v d") auto
  then have "Inl INTEGRITY \<notin> set (map render_field (map (\<lambda>(k, v). (k, canonical v (Suc d))) (sort_key fst fs)))"
    by (force simp del: render_field.simps)
  then have "sequence (map render_field (map (\<lambda>(k, v). (k, canonical v (Suc d))) (sort_key fst fs)))
      \<noteq> Inl INTEGRITY"
    by (rule contrapos_nn) (rule sequence_InlD)
  then show ?case unfolding canonical.simps object_members by (auto split: sum.splits)
qed auto

lemma serialize_no_fault [simp]: "no_fault (map_error Serialization (serializeJobJson sha v))"
  using canonical_not_integrity[of v 0]
  by (auto simp: serializeJobJson_def no_fault_def split: sum.splits)

lemma parse_stored_ok: "stored_ok sha z \<Longrightarrow> parse_stored sha z = Inr (sz_value z)"
  by (auto simp: stored_ok_def parse_stored_def parse_serialized)

lemma checkpoint_of_ok:
  assumes "side_inv sha db"
  shows "\<exists>cp. checkpoint_of sha (checkpointRow db i) = Inr cp"
proof (cases "checkpointRow db i")
  case (Some c)
  then have "c \<in> set (db_checkpoints db)" by (auto simp: checkpointRow_def dest: find_SomeD)
  then have "stored_ok sha (cp_payload c)" using assms by (simp add: side_inv_def)
  then show ?thesis by (simp add: Some checkpoint_of_def parse_stored_ok)
qed (simp add: checkpoint_of_def)

lemma record_no_fault:
  assumes "side_inv sha db" "row_inv sha r"
  shows "no_fault (record_of sha db r)"
  using checkpoint_of_ok[OF assms(1), of "jr_id r"] assms(2)
  by (auto simp: record_of_def Let_def row_inv_def identity_inv_def parse_stored_ok
      intro!: no_fault_and_then)

lemma record_snapshot: "record_of sha db r = Inr rec \<Longrightarrow> jobSnapshot_ok (snapshot_value r (checkpointRow db (jr_id r)))"
  by (auto simp: record_of_def snapshot_def Let_def)

section \<open>Each operation is a run of moves\<close>

text \<open>
  \<open>refines sha db r\<close>: the outcome \<open>r\<close> of an operation on \<open>db\<close> is not an internal fault, and a new
  database is reached from \<open>db\<close> by moves.
\<close>

definition refines :: "(string \<Rightarrow> string) \<Rightarrow> job_db \<Rightarrow> store_error + job_db \<times> 'a \<Rightarrow> bool" where
  "refines sha db r \<longleftrightarrow> no_fault r \<and> (\<forall>db' x. r = Inr (db', x) \<longrightarrow> (store_move sha)\<^sup>*\<^sup>* db db')"

lemma refines_Inl [simp]: "refines sha db (Inl e) \<longleftrightarrow> \<not> internal_fault e"
  by (simp add: refines_def)

lemma refines_Inr [simp]: "refines sha db (Inr (db', x)) \<longleftrightarrow> (store_move sha)\<^sup>*\<^sup>* db db'"
  by (simp add: refines_def)

lemma refines_guard:
  "no_fault r \<Longrightarrow> (\<And>x. r = Inr x \<Longrightarrow> refines sha db (f x)) \<Longrightarrow> refines sha db (and_then r f)"
  by (cases r) simp_all

lemma refines_ensure:
  "\<not> internal_fault e \<Longrightarrow> (b \<Longrightarrow> refines sha db (f ())) \<Longrightarrow> refines sha db (and_then (ensure b e) f)"
  by (simp add: ensure_def)

lemma refines_step:
  assumes "(store_move sha)\<^sup>*\<^sup>* db db1" and "refines sha db1 r"
  shows "refines sha db r"
  using assms by (auto simp: refines_def)

lemma refines_finish:
  assumes "store_inv sha db" "r \<in> set (db_jobs db)" "row_move r g new r'"
  shows "refines sha db (finish_with sha (moved db r g new r') (jr_id r))"
proof -
  have m: "store_move sha db (moved db r g new r')" by (rule moved_is_move[OF assms(2,3)])
  from store_move_inv[OF m assms(1)] have inv: "store_inv sha (moved db r g new r')" .
  have same: "jr_id r' = jr_id r" using row_move_identity[OF assms(3)] by simp
  have row: "row_inv sha r'" by (rule row_move_inv[OF assms(3) store_invD(1)[OF assms(1,2)]])
  have "side_inv sha (moved db r g new r')" using inv by (simp add: store_inv_def)
  from record_no_fault[OF this row] show ?thesis
    using m unfolding finish_with_def require_moved[OF assms(2) same]
    by (auto intro!: refines_guard)
qed

lemma refines_finish_pair:
  assumes "store_inv sha db" "r \<in> set (db_jobs db)" "row_move r g new r'"
  shows "refines sha db (and_then (finish_with sha (moved db r g new r') (jr_id r))
           (\<lambda>(db2, rec). Inr (db2, x, rec)))"
  using refines_finish[OF assms] by (auto simp: refines_def and_then_def split: sum.splits)

lemma activeLeaseD:
  "activeLease ref now db = Inr r \<Longrightarrow> r \<in> set (db_jobs db) \<and> jr_id r = lr_jobId ref
     \<and> jr_status r = job_status.RUNNING \<and> jr_attempt r = Some (lr_attemptId ref)
     \<and> jr_worker r = Some (lr_workerId ref) \<and> jr_fencing r = lr_fencingToken ref
     \<and> (\<exists>t. jr_expires r = Some t \<and> now < t)"
  by (auto simp: activeLease_def dest: jobRow_SomeD split: option.splits if_splits)

text \<open>The common shape of the lease operations.\<close>

lemma lease_update:
  assumes inv: "store_inv sha db" and lease: "activeLease ref now db = Inr r"
    and m: "row_move r g [] (f r)"
  shows "and_then (update_attempts (\<lambda>a. ar_id a = lr_attemptId ref) g db) (update_job (jr_id r) f)
      = Inr (moved db r g [] (f r))"
    and "and_then (update_job (jr_id r) f db) (update_attempts (\<lambda>a. ar_id a = lr_attemptId ref) g)
      = Inr (moved db r g [] (f r))"
proof -
  have "r \<in> set (db_jobs db)" "\<And>a. (ar_id a = lr_attemptId ref) = (Some (ar_id a) = jr_attempt r)"
    using activeLeaseD[OF lease] by auto
  note u = update_attempt_move[where f = f and P = "\<lambda>a. ar_id a = lr_attemptId ref", OF inv this(1) m this(2)]
  show "and_then (update_attempts (\<lambda>a. ar_id a = lr_attemptId ref) g db) (update_job (jr_id r) f)
      = Inr (moved db r g [] (f r))" by (rule u(1))
  show "and_then (update_job (jr_id r) f db) (update_attempts (\<lambda>a. ar_id a = lr_attemptId ref) g)
      = Inr (moved db r g [] (f r))" by (rule u(2))
qed

lemma and_then_assoc: "and_then (and_then r f) g = and_then r (\<lambda>x. and_then (f x) g)"
  by (cases r) simp_all

lemma lease_finish:
  assumes inv: "store_inv sha db" and lease: "activeLease ref now db = Inr r"
    and m: "row_move r (release_attempt st now failure) [] (f r)"
  shows "refines sha db (and_then (finishAttempt ref st now failure db) (\<lambda>db1.
           and_then (update_job (jr_id r) f db1) (\<lambda>db2. finish_with sha db2 (jr_id r))))"
proof -
  have r: "r \<in> set (db_jobs db)" using activeLeaseD[OF lease] by simp
  note e = lease_update(1)[where f = f, OF inv lease m, folded finishAttempt_def]
  show ?thesis
    unfolding and_then_assoc[symmetric] e and_then_simps by (rule refines_finish[OF inv r m])
qed

text \<open>The guards every lease operation starts with.\<close>

lemma lease_prefix:
  assumes "\<And>now r. activeLease ref now db = Inr r \<Longrightarrow> refines sha db (F now r)"
  shows "refines sha db (and_then (clock_now clock) (\<lambda>now. and_then (activeLease ref now db) (F now)))"
  using assms by (intro refines_guard[OF no_fault_guards(2)] refines_guard[OF no_fault_guards(6)])

lemmas open_guard = refines_guard[OF no_fault_guards(1)]
lemmas identifier_guard = refines_guard[OF no_fault_guards(4)]
lemmas lease_ms_guard = refines_guard[OF no_fault_guards(5)]
lemmas clock_guard = refines_guard[OF no_fault_guards(2)]
lemmas iso_guard = refines_guard[OF no_fault_guards(3)]

lemma succeed_refines:
  assumes "store_inv sha db"
  shows "refines sha db (succeed sha ref clock db)"
  unfolding succeed_def
proof (rule open_guard, rule lease_prefix)
  fix now r assume lease: "activeLease ref now db = Inr r"
  show "refines sha db (and_then (finishAttempt ref attempt_status.SUCCEEDED now None db) (\<lambda>db1.
      and_then (update_job (jr_id r) (succeed_row now r) db1) (\<lambda>db2. finish_with sha db2 (jr_id r))))"
    by (rule lease_finish[OF assms lease])
       (use activeLeaseD[OF lease] in \<open>auto intro: row_move.Succeed\<close>)
qed

lemma acknowledge_refines:
  assumes "store_inv sha db"
  shows "refines sha db (acknowledgeCancellation sha ref clock db)"
  unfolding acknowledgeCancellation_def
proof (rule open_guard, rule lease_prefix, rule refines_ensure)
  fix now r assume lease: "activeLease ref now db = Inr r" and c: "jr_cancel r = REQUESTED"
  show "refines sha db (and_then (finishAttempt ref attempt_status.CANCELLED now None db) (\<lambda>db1.
      and_then (update_job (jr_id r) (acknowledge_row now) db1) (\<lambda>db2. finish_with sha db2 (jr_id r))))"
    by (rule lease_finish[OF assms lease])
       (use activeLeaseD[OF lease] c in \<open>auto intro: row_move.Acknowledge\<close>)
qed simp

lemma reject_refines:
  assumes "store_inv sha db"
  shows "refines sha db (rejectCancellation sha ref clock db)"
  unfolding rejectCancellation_def
proof (rule open_guard, rule lease_prefix, rule refines_ensure)
  fix now r assume lease: "activeLease ref now db = Inr r" and c: "jr_cancel r = REQUESTED"
  then have r: "r \<in> set (db_jobs db)" and m: "row_move r id [] (reject_row now r)"
    using activeLeaseD[OF lease] by (auto intro: row_move.Reject)
  show "refines sha db (and_then (update_job (jr_id r) (reject_row now) db) (\<lambda>db1.
      finish_with sha db1 (jr_id r)))"
    unfolding update_row_move[where f = "reject_row now", OF assms r m] and_then_simps
    by (rule refines_finish[OF assms r m])
qed simp

lemma heartbeat_refines:
  assumes "store_inv sha db"
  shows "refines sha db (heartbeat cfg ref lease clock db)"
  unfolding heartbeat_def
proof (rule open_guard, rule lease_ms_guard, rule lease_prefix, rule iso_guard)
  fix now r ex assume lease: "activeLease ref now db = Inr r"
  let ?f = "\<lambda>r. r\<lparr>jr_heartbeat := Some now, jr_expires := Some ex, jr_updated := now\<rparr>"
  let ?g = "touch_attempt (Some now) (Some ex) None"
  have m: "row_move r ?g [] (?f r)" and r: "r \<in> set (db_jobs db)"
    using activeLeaseD[OF lease] by (auto intro: row_move.Heartbeat)
  have g: "(\<lambda>a. a\<lparr>ar_heartbeat := now, ar_expires := ex\<rparr>) = ?g"
    by (simp add: touch_attempt_def fun_eq_iff)
  note e = lease_update(2)[where f = ?f, OF assms lease m]
  show "refines sha db (and_then (update_job (jr_id r) ?f db) (\<lambda>db1.
      and_then (update_attempts (\<lambda>a. ar_id a = lr_attemptId ref)
                 (\<lambda>a. a\<lparr>ar_heartbeat := now, ar_expires := ex\<rparr>) db1) (\<lambda>db2.
      Inr (db2, \<lparr>hb_leaseExpiresAt = ex, hb_cancellationRequested = (jr_cancel r = REQUESTED)\<rparr>))))"
    unfolding g and_then_assoc[symmetric] e and_then_simps refines_Inr
    using moved_is_move[OF r m] by (rule r_into_rtranclp)
qed

section \<open>Checkpoints\<close>

lemma upsert_move:
  assumes inv: "store_inv sha db" and r: "r \<in> set (db_jobs db)" and c: "cp_job c = jr_id r"
    "checkpoint_check c" "stored_ok sha (cp_payload c)"
  obtains db1 where "upsert_checkpoint c db = Inr db1" "store_move sha db db1"
    "db_jobs db1 = db_jobs db" "db_attempts db1 = db_attempts db"
proof -
  let ?cps = "if cp_job c \<in> cp_job ` set (db_checkpoints db)
     then map (\<lambda>d. if cp_job d = cp_job c then c else d) (db_checkpoints db)
     else db_checkpoints db @ [c]"
  let ?db = "db\<lparr>db_checkpoints := ?cps, db_commands := db_commands db\<rparr>"
  have side: "side_inv sha db" using inv by (simp add: store_inv_def)
  have "map cp_job (map (\<lambda>d. if cp_job d = cp_job c then c else d) cs) = map cp_job cs" for cs
    by simp
  then have "distinct (map cp_job ?cps)" using side by (simp add: side_inv_def del: map_map)
  moreover have "\<forall>d \<in> set ?cps. d = c \<or> d \<in> set (db_checkpoints db)" by auto
  moreover have "cp_job c \<in> jr_id ` set (db_jobs db)" using r c(1) by simp
  ultimately have side': "side_inv sha ?db" using side c unfolding side_inv_def by auto
  have "upsert_checkpoint c db = Inr ?db"
    using c r unfolding upsert_checkpoint_def by simp
  then show thesis using that store_move.Side[OF side', of "[]"] by simp
qed

lemma checkpoint_revision_nonneg:
  assumes "side_inv sha db"
  shows "0 \<le> (case checkpointRow db i of None \<Rightarrow> 0 | Some c \<Rightarrow> cp_revision c)"
proof (cases "checkpointRow db i")
  case (Some c)
  then have "c \<in> set (db_checkpoints db)" by (auto simp: checkpointRow_def dest: find_SomeD)
  then show ?thesis using assms Some by (auto simp: side_inv_def checkpoint_check_def)
qed simp

lemma saveCheckpoint_refines:
  assumes inv: "store_inv sha db"
  shows "refines sha db (saveCheckpoint sha ref data progress clock db)"
  unfolding saveCheckpoint_def
proof (rule open_guard, rule refines_guard)
  show "no_fault (case progress of None \<Rightarrow> Inl (InvalidArgument ArgProgress)
      | Some p \<Rightarrow> if p < 0 \<or> p > 1 then Inl (InvalidArgument ArgProgress) else Inr p)"
    by (simp split: option.splits)
  fix p
  assume "(case progress of None \<Rightarrow> Inl (InvalidArgument ArgProgress)
      | Some p \<Rightarrow> if p < 0 \<or> p > 1 then Inl (InvalidArgument ArgProgress) else Inr p) = Inr p"
  then have p: "0 \<le> p" "p \<le> 1" by (auto split: option.splits if_splits)
  let ?rev = "\<lambda>r. (case checkpointRow db (jr_id r) of None \<Rightarrow> 0 | Some c \<Rightarrow> cp_revision c) + 1"
  show "refines sha db (and_then (map_error Serialization (serializeJobJson sha data)) (\<lambda>payload.
     and_then (clock_now clock) (\<lambda>now.
     and_then (activeLease ref now db) (\<lambda>row.
     and_then (ensure (\<not> p < jr_progress row) ProgressNotMonotonic) (\<lambda>_.
     let revision = ?rev row in
     and_then (upsert_checkpoint \<lparr>cp_job = jr_id row, cp_revision = revision, cp_payload = payload,
                                  cp_progress = p, cp_updated = now\<rparr> db) (\<lambda>db1.
     and_then (update_job (jr_id row) (\<lambda>r. r\<lparr>jr_revision := jr_revision r + 1, jr_progress := p,
                                             jr_updated := now\<rparr>) db1) (\<lambda>db2.
     and_then (update_attempts (\<lambda>a. ar_id a = lr_attemptId ref)
                (\<lambda>a. a\<lparr>ar_checkpoint := revision\<rparr>) db2) (\<lambda>db3.
     Inr (db3, \<lparr>cr_revision = revision, cr_payloadHash = sz_hash payload, cr_progress = p,
                cr_updatedAt = now, cr_data = sz_value payload\<rparr>)))))))))"
  proof (rule refines_guard[OF serialize_no_fault], rule lease_prefix, rule refines_ensure, simp,
      unfold Let_def)
    fix payload now r
    assume z: "map_error Serialization (serializeJobJson sha data) = Inr payload"
      and lease: "activeLease ref now db = Inr r" and mono: "\<not> p < jr_progress r"
    let ?c = "\<lparr>cp_job = jr_id r, cp_revision = ?rev r, cp_payload = payload, cp_progress = p, cp_updated = now\<rparr>"
    let ?f = "\<lambda>r. r\<lparr>jr_revision := jr_revision r + 1, jr_progress := p, jr_updated := now\<rparr>"
    let ?g = "touch_attempt None None (Some (?rev r))"
    have r: "r \<in> set (db_jobs db)" and run: "jr_status r = job_status.RUNNING"
      and att: "jr_attempt r = Some (lr_attemptId ref)"
      using activeLeaseD[OF lease] by auto
    have rev: "0 \<le> ?rev r" "0 < ?rev r"
      using checkpoint_revision_nonneg[OF store_invD(5)[OF inv r], of "jr_id r"] by simp_all
    have "checkpoint_check ?c" "stored_ok sha (cp_payload ?c)" "cp_job ?c = jr_id r"
      using rev p z by (auto simp: checkpoint_check_def stored_ok_def)
    then obtain db1 where up: "upsert_checkpoint ?c db = Inr db1" and m1: "store_move sha db db1"
      and same: "db_jobs db1 = db_jobs db" "db_attempts db1 = db_attempts db"
      using upsert_move[OF inv r] by metis
    have inv1: "store_inv sha db1" by (rule store_move_inv[OF m1 inv])
    have r1: "r \<in> set (db_jobs db1)" using r same by simp
    have m: "row_move r ?g [] (?f r)"
      using run mono p rev by (intro row_move.Checkpoint) auto
    have g: "(\<lambda>a. a\<lparr>ar_checkpoint := ?rev r\<rparr>) = ?g"
      by (simp add: touch_attempt_def fun_eq_iff)
    have sel: "(ar_id a = lr_attemptId ref) = (Some (ar_id a) = jr_attempt r)" for a
      using att by auto
    note e = update_attempt_move(2)[where f = ?f and P = "\<lambda>a. ar_id a = lr_attemptId ref",
        OF inv1 r1 m sel]
    show "refines sha db (and_then (upsert_checkpoint ?c db) (\<lambda>db1.
       and_then (update_job (jr_id r) ?f db1) (\<lambda>db2.
       and_then (update_attempts (\<lambda>a. ar_id a = lr_attemptId ref) (\<lambda>a. a\<lparr>ar_checkpoint := ?rev r\<rparr>) db2)
       (\<lambda>db3. Inr (db3, \<lparr>cr_revision = ?rev r, cr_payloadHash = sz_hash payload, cr_progress = p,
                cr_updatedAt = now, cr_data = sz_value payload\<rparr>)))))"
      unfolding up and_then_simps g and_then_assoc[symmetric] e refines_Inr
      by (rule two_moves[OF m1 moved_is_move[OF r1 m]])
  qed
qed

section \<open>Failing\<close>

lemma fail_update_refines:
  assumes inv: "store_inv sha db" and lease: "activeLease ref now db = Inr r" and code: "upper_code 119 code"
  shows "refines sha db (and_then (fail_update cfg ref code retryable sample now r db)
           (\<lambda>db1. finish_with sha db1 (jr_id r)))"
proof -
  have r: "r \<in> set (db_jobs db)" and run: "jr_status r = job_status.RUNNING"
    using activeLeaseD[OF lease] by auto
  consider (ack) "jr_cancel r = REQUESTED"
    | (retry) "jr_cancel r \<noteq> REQUESTED" "retryable" "jr_count r < jr_max r"
    | (fail) "jr_cancel r \<noteq> REQUESTED" "\<not> (retryable \<and> jr_count r < jr_max r)"
    by blast
  then show ?thesis
  proof cases
    case ack
    then have "row_move r (release_attempt attempt_status.CANCELLED now None) [] (acknowledge_row now r)"
      using run by (intro row_move.Acknowledge)
    from lease_finish[where f = "acknowledge_row now", OF inv lease this]
    show ?thesis unfolding fail_update_def if_P[OF ack] and_then_assoc .
  next
    case retry
    have m: "row_move r (release_attempt attempt_status.RETRYABLE_FAILED now (Some (code, True))) []
        (retry_row now due code r)" for due
      using run retry code by (intro row_move.Retry)
    have "refines sha db (and_then (retryDelay (sc_retry cfg) (jr_count r) sample) (\<lambda>delay.
        and_then (to_iso (now + delay)) (\<lambda>due.
        and_then (finishAttempt ref attempt_status.RETRYABLE_FAILED now (Some (code, True)) db) (\<lambda>db1.
        and_then (update_job (jr_id r) (retry_row now due code) db1) (\<lambda>db2. finish_with sha db2 (jr_id r))))))"
      by (intro refines_guard[OF no_fault_guards(7)] iso_guard
          lease_finish[where f = "retry_row now due code" for due, OF inv lease m])
    then show ?thesis using retry unfolding fail_update_def by (simp add: and_then_assoc)
  next
    case fail
    have "row_move r (release_attempt attempt_status.TERMINAL_FAILED now (Some (code, retryable))) []
        (failed_row now code retryable r)"
      using run fail code by (intro row_move.Fail)
    from lease_finish[where f = "failed_row now code retryable", OF inv lease this]
    show ?thesis unfolding fail_update_def if_not_P[OF fail(1)] if_not_P[OF fail(2)] and_then_assoc .
  qed
qed

lemma fail_refines:
  assumes "store_inv sha db"
  shows "refines sha db (fail_job sha cfg ref code retryable sample clock db)"
  unfolding fail_job_def
  by (rule open_guard, rule refines_ensure, simp, rule lease_prefix)
     (rule fail_update_refines[OF assms])

section \<open>Claiming\<close>

lemma link_number_le:
  assumes "store_inv sha db" "r \<in> set (db_jobs db)" "a \<in> set (db_attempts db)" "ar_job a = jr_id r"
  shows "1 \<le> ar_number a \<and> ar_number a \<le> jr_count r"
proof -
  have "map ar_number (attempts_of (jr_id r) (db_attempts db)) = [1..jr_count r]"
    using store_invD(2)[OF assms(1,2)] by (simp add: job_link_def)
  moreover have "a \<in> set (attempts_of (jr_id r) (db_attempts db))" using assms(3,4) by simp
  ultimately have "ar_number a \<in> set [1..jr_count r]" by (metis image_eqI set_map)
  then show ?thesis by simp
qed

text \<open>The new attempt of a claim is fresh, and inserting it then updating the row is the move.\<close>

lemma insert_claim:
  assumes inv: "store_inv sha db" and r: "r \<in> set (db_jobs db)"
    and m: "row_move r g [new_attempt r w now ex cp] (claim_row r w now ex r)"
    and db1: "db1 = db\<lparr>db_attempts := change_attempt (jr_attempt r) g (db_attempts db)\<rparr>"
  shows "and_then (insert_attempt (new_attempt r w now ex cp) db1) (update_job (jr_id r) (claim_row r w now ex))
    = Inr (moved db r g [new_attempt r w now ex cp] (claim_row r w now ex r))"
proof -
  let ?a = "new_attempt r w now ex cp" and ?f = "claim_row r w now ex"
  have row: "row_inv sha r" by (rule store_invD(1)[OF inv r])
  have same: "same_attempt g" by (rule row_move_same_attempt[OF m])
  have shape: "move_shape r g [?a] (?f r)" by (rule row_move_shape[OF m row])
  then obtain w' now' ex' cp' where a': "?a = new_attempt r w' now' ex' cp'" "safeId 200 w'" "0 \<le> cp'"
      "jr_count r < jr_max r"
    by (auto simp: move_shape_def)
  have "attempt_inv ?a" unfolding a'(1) by (rule new_attempt_inv[OF row a'(4,2,3)])
  then have check: "attempt_check ?a" by (simp add: attempt_inv_def)
  have c0: "0 \<le> jr_count r" "jr_fencing r = jr_count r"
    using row by (simp_all add: row_inv_def job_check_def schedule_inv_def)
  have fresh: "ar_id b \<noteq> ar_id ?a \<and> (ar_job b = jr_id r \<longrightarrow> ar_number b \<noteq> jr_count r + 1 \<and> ar_fencing b \<noteq> jr_count r + 1)"
    if "b \<in> set (db_attempts db1)" for b
  proof -
    from that obtain c where c: "c \<in> set (db_attempts db)" "b = c \<or> b = g c"
      by (auto simp: db1 change_attempt_def split: if_splits)
    have ci: "attempt_inv c" using store_invD(4)[OF inv r] c(1) by blast
    then have bi: "attempt_inv b" using c(2) row_move_attempt_inv[OF m] by blast
    have "ar_job b = ar_job c" "ar_number b = ar_number c" using c(2) same by (auto simp: same_attempt_def)
    then have le: "ar_job b = jr_id r \<Longrightarrow> ar_number b \<le> jr_count r" using link_number_le[OF inv r c(1)] by simp
    have "0 \<le> ar_number b" "ar_id b = attempt_id (ar_job b) (ar_number b)" "ar_fencing b = ar_number b"
      using bi by (auto simp: attempt_inv_def attempt_check_def)
    then show ?thesis using le c0 by (auto simp: new_attempt_def)
  qed
  have "ar_id ?a \<notin> ar_id ` set (db_attempts db1)" using fresh by (metis imageE)
  moreover have "(jr_id r, jr_count r + 1) \<notin> (\<lambda>b. (ar_job b, ar_number b)) ` set (db_attempts db1)"
    "(jr_id r, jr_count r + 1) \<notin> (\<lambda>b. (ar_job b, ar_fencing b)) ` set (db_attempts db1)"
    using fresh by fastforce+
  ultimately have "insert_attempt ?a db1 = Inr (db1\<lparr>db_attempts := db_attempts db1 @ [?a]\<rparr>)"
    using check r c0 by (simp add: insert_attempt_def db1 new_attempt_def)
  moreover have "update_job (jr_id r) ?f (db1\<lparr>db_attempts := db_attempts db1 @ [?a]\<rparr>)
      = Inr (put_job (?f r) (db1\<lparr>db_attempts := db_attempts db1 @ [?a]\<rparr>))"
  proof (rule update_job_put)
    show "job_check (?f r)" using row_move_inv[OF m row] by (simp add: row_inv_def)
    show "jr_id (?f r) = jr_id r" using row_move_identity[OF m] by simp
  qed (use store_invD(3)[OF inv r] r in \<open>simp_all add: db1\<close>)
  ultimately show ?thesis by (simp add: moved_def put_job_def db1)
qed

lemma claim_job_refines:
  assumes inv: "store_inv sha db" and r: "r \<in> set (db_jobs db)"
    and m: "\<And>ex cp. 0 \<le> cp \<Longrightarrow> row_move r g [new_attempt r w now ex cp] (claim_row r w now ex r)"
    and db1: "db1 = db\<lparr>db_attempts := change_attempt (jr_attempt r) g (db_attempts db)\<rparr>"
  shows "refines sha db (claim_job sha r w lease now db1)"
  unfolding claim_job_def Let_def
proof (rule identifier_guard, rule iso_guard)
  fix ex
  let ?cp = "case checkpointRow db1 (jr_id r) of None \<Rightarrow> 0 | Some c \<Rightarrow> cp_revision c"
  let ?a = "new_attempt r w now ex ?cp" and ?f = "claim_row r w now ex"
  let ?db2 = "moved db r g [?a] (?f r)"
  have "checkpointRow db1 = checkpointRow db" by (simp add: db1 checkpointRow_def fun_eq_iff)
  then have mv: "row_move r g [?a] (?f r)"
    using m checkpoint_revision_nonneg[OF store_invD(5)[OF inv r]] by simp
  note e = insert_claim[OF inv r mv db1]
  have mm: "store_move sha db ?db2" by (rule moved_is_move[OF r mv])
  have inv2: "store_inv sha ?db2" by (rule store_move_inv[OF mm inv])
  then have "side_inv sha ?db2" by (simp add: store_inv_def)
  then obtain cp where cp: "checkpoint_of sha (checkpointRow ?db2 (jr_id r)) = Inr cp"
    using checkpoint_of_ok by blast
  have same: "jr_id (?f r) = jr_id r" using row_move_identity[OF mv] by simp
  have parse: "parse_stored sha (jr_input r) = Inr (sz_value (jr_input r))"
    using store_invD(1)[OF inv r] by (simp add: row_inv_def identity_inv_def parse_stored_ok)
  show "refines sha db (and_then (insert_attempt ?a db1) (\<lambda>db1.
      and_then (update_job (jr_id r) ?f db1) (\<lambda>db2.
      and_then (require_job db2 (jr_id r)) (\<lambda>claimed.
      and_then (checkpoint_of sha (checkpointRow db2 (jr_id r))) (\<lambda>checkpoint.
      and_then (parse_stored sha (jr_input r)) (\<lambda>input.
      and_then (snapshot claimed (checkpointRow db2 (jr_id claimed))) (\<lambda>s.
      Inr (db2, Some \<lparr>cl_jobId = jr_id r, cl_jobType = jr_type r,
        cl_attemptId = attempt_id (jr_id r) (jr_count r + 1),
        cl_workerId = w, cl_fencingToken = jr_fencing r + 1, cl_idempotencyKey = jr_key r,
        cl_input = input, cl_checkpoint = checkpoint, cl_snapshot = s\<rparr>)))))))) "
    unfolding and_then_assoc[of "insert_attempt ?a db1" "update_job (jr_id r) ?f", symmetric]
      e and_then_simps require_moved[OF r same] cp parse
    by (rule refines_guard[OF no_fault_guards(8)]) (use mm in simp)
qed

lemma claimable_status:
  "claimable now r \<Longrightarrow> jr_status r = job_status.QUEUED \<or> jr_status r = job_status.RETRY_WAIT
     \<or> jr_status r = job_status.RUNNING"
  by (auto simp: claimable_def)

lemma next_claimable_SomeD:
  assumes "next_claimable now db = Some r"
  shows "r \<in> set (db_jobs db) \<and> claimable now r \<and>
    (\<forall>s \<in> set (db_jobs db). claimable now s \<longrightarrow> claim_le r s)"
proof -
  obtain rest where "sort_by claim_le (filter (claimable now) (db_jobs db)) = r # rest"
    using assms by (auto simp: next_claimable_def split: list.splits)
  from claim_order.sort_by_head_least[OF this] show ?thesis by auto
qed

lemma expire_step:
  assumes inv: "store_inv sha db" and r: "r \<in> set (db_jobs db)" and run: "jr_status r = job_status.RUNNING"
  shows "expireAttempt r now db
    = Inr (db\<lparr>db_attempts := change_attempt (jr_attempt r) (lost_attempt now) (db_attempts db)\<rparr>)"
proof -
  obtain i where i: "jr_attempt r = Some i"
    using store_invD(1)[OF inv r] run by (auto simp: row_inv_def schedule_inv_def)
  have "row_move r (lost_attempt now) [] (acknowledge_row now r)
      \<or> row_move r (lost_attempt now) [] (exhaust_row now r)"
    using run row_move.CancelExpired[of r now] row_move.Exhaust[of r now] by blast
  then have "attempt_inv (lost_attempt now a)" if "a \<in> set (db_attempts db)" for a
    using row_move_attempt_inv store_invD(4)[OF inv r] that by blast
  moreover have "(ar_id a = i \<and> ar_status a = attempt_status.RUNNING) = (Some (ar_id a) = jr_attempt r)"
    if "a \<in> set (db_attempts db)" for a
    using running_attempt[OF inv r run that] i by auto
  ultimately have "update_attempts (\<lambda>a. ar_id a = i \<and> ar_status a = attempt_status.RUNNING) (lost_attempt now) db
      = Inr (db\<lparr>db_attempts := change_attempt (jr_attempt r) (lost_attempt now) (db_attempts db)\<rparr>)"
    by (rule update_attempts_change)
  then show ?thesis by (simp add: expireAttempt_def i)
qed

lemma claim_loop_refines:
  "store_inv sha db \<Longrightarrow> safeId 200 w \<Longrightarrow> refines sha db (claim_loop n sha w lease now db)"
proof (induction n arbitrary: db)
  case (Suc n)
  note inv = Suc.prems(1)
  show ?case
  proof (cases "next_claimable now db")
    case None
    then show ?thesis by simp
  next
    case (Some r)
    then have r: "r \<in> set (db_jobs db)" and c: "claimable now r" using next_claimable_SomeD by auto
    show ?thesis
    proof (cases "jr_status r = job_status.RUNNING")
      case run: True
      let ?lost = "db\<lparr>db_attempts := change_attempt (jr_attempt r) (lost_attempt now) (db_attempts db)\<rparr>"
      have recover: "refines sha db (and_then (update_job (jr_id r) f ?lost)
          (\<lambda>db2. claim_loop n sha w lease now db2))"
        if m: "row_move r (lost_attempt now) [] (f r)" for f
      proof -
        have "(ar_id a = the (jr_attempt r) \<and> ar_status a = attempt_status.RUNNING) = (Some (ar_id a) = jr_attempt r)"
          if "a \<in> set (db_attempts db)" for a
          using running_attempt[OF inv r run that] store_invD(1)[OF inv r] run
          by (auto simp: row_inv_def schedule_inv_def)
        note u = update_attempt_move(1)[where f = f, OF inv r m this]
        obtain i where i: "jr_attempt r = Some i"
          using store_invD(1)[OF inv r] run by (auto simp: row_inv_def schedule_inv_def)
        have "and_then (expireAttempt r now db) (update_job (jr_id r) f)
            = Inr (moved db r (lost_attempt now) [] (f r))"
          using u by (simp add: expireAttempt_def i)
        then have e: "update_job (jr_id r) f ?lost = Inr (moved db r (lost_attempt now) [] (f r))"
          unfolding expire_step[OF inv r run] and_then_simps .
        have mv: "store_move sha db (moved db r (lost_attempt now) [] (f r))" by (rule moved_is_move[OF r m])
        show ?thesis unfolding e and_then_simps
          by (rule refines_step[OF one_move[OF mv]], rule Suc.IH[OF store_move_inv[OF mv inv] Suc.prems(2)])
      qed
      consider (cancel) "jr_cancel r = REQUESTED"
        | (exhaust) "jr_cancel r \<noteq> REQUESTED" "jr_count r \<ge> jr_max r"
        | (again) "jr_cancel r \<noteq> REQUESTED" "\<not> jr_count r \<ge> jr_max r" by blast
      then show ?thesis
      proof cases
        case cancel
        then show ?thesis
          using recover[of "acknowledge_row now"] row_move.CancelExpired[OF run cancel]
          by (simp add: Some run expire_step[OF inv r run] cancelExpired_def)
      next
        case exhaust
        then show ?thesis
          using recover[of "exhaust_row now"] row_move.Exhaust[OF run]
          by (simp add: Some run expire_step[OF inv r run] markExhausted_def)
      next
        case again
        have "refines sha db (claim_job sha r w lease now ?lost)"
          by (rule claim_job_refines[OF inv r _ refl])
             (use again run Suc.prems(2) in \<open>auto intro: row_move.Reclaim\<close>)
        then show ?thesis using again by (simp add: Some run expire_step[OF inv r run])
      qed
    next
      case False
      then have q: "jr_status r = job_status.QUEUED \<or> jr_status r = job_status.RETRY_WAIT"
        using claimable_status[OF c] by blast
      have "refines sha db (claim_job sha r w lease now db)"
        by (rule claim_job_refines[where g = id, OF inv r])
           (use q Suc.prems(2) in \<open>auto intro: row_move.Claim\<close>)
      then show ?thesis using False by (simp add: Some)
    qed
  qed
qed simp

lemma claimNext_refines:
  assumes "store_inv sha db"
  shows "refines sha db (claimNext sha cfg w lease clock db)"
  unfolding claimNext_def
proof (rule open_guard, rule identifier_guard, rule lease_ms_guard, rule clock_guard)
  fix now x
  assume "validateIdentifier w ArgWorkerId 200 = Inr x"
  then have "safeId 200 w" by (auto simp: validateIdentifier_def safeId_def Suc_le_eq)
  then show "refines sha db (claim_loop 100 sha w (lease_or_default cfg lease) now db)"
    by (rule claim_loop_refines[OF assms])
qed

section \<open>Enqueueing\<close>

lemma priorities_bounded: "0 \<le> JOB_PRIORITIES p \<and> JOB_PRIORITIES p \<le> 100"
  by (cases p) simp_all

lemma enqueue_existing_refines:
  assumes inv: "store_inv sha db" and r: "r \<in> set (db_jobs db)" and p: "0 \<le> p" "p \<le> 100"
  shows "refines sha db (enqueue_existing sha r fingerprint p now db)"
  unfolding enqueue_existing_def
proof (rule refines_ensure)
  let ?f = "\<lambda>r. r\<lparr>jr_priority := p, jr_updated := now\<rparr>"
  show "refines sha db (if p > jr_priority r \<and> \<not> terminal (jr_status r)
     then and_then (update_job (jr_id r) ?f db) (\<lambda>db'.
          and_then (finish_with sha db' (jr_id r)) (\<lambda>(db'', rec). Inr (db'', EXISTING, rec)))
     else and_then (record_of sha db r) (\<lambda>rec. Inr (db, EXISTING, rec)))"
  proof (cases "p > jr_priority r \<and> \<not> terminal (jr_status r)")
    case True
    then have m: "row_move r id [] (?f r)" using p by (intro row_move.Reprioritise) auto
    show ?thesis unfolding if_P[OF True] update_row_move[where f = ?f, OF inv r m] and_then_simps
      by (rule refines_finish_pair[OF inv r m])
  next
    case False
    show ?thesis unfolding if_not_P[OF False]
      by (rule refines_guard[OF record_no_fault[OF store_invD(5)[OF inv r] store_invD(1)[OF inv r]]]) simp
  qed
qed simp

lemma jobRow_append_fresh:
  "jr_id r \<notin> jr_id ` set (db_jobs db) \<Longrightarrow> jobRow (db\<lparr>db_jobs := db_jobs db @ [r]\<rparr>) (jr_id r) = Some r"
proof -
  have "jr_id r \<notin> jr_id ` set rs \<Longrightarrow> find (\<lambda>s. jr_id s = jr_id r) (rs @ [r]) = Some r" for rs
    by (induction rs) auto
  then show "jr_id r \<notin> jr_id ` set (db_jobs db) \<Longrightarrow> jobRow (db\<lparr>db_jobs := db_jobs db @ [r]\<rparr>) (jr_id r) = Some r"
    by (simp add: jobRow_def)
qed

lemma new_job_inv:
  assumes "upper_code 119 (eq_type req)" "idempotencyKey_ok (eq_key req)" "bounded 1 1000 (eq_max req)"
    "safeId 200 i" "stored_ok sha z" "0 \<le> p" "p \<le> 100"
  shows "row_inv sha (new_job i req p fingerprint z now)"
  using assms by (simp add: row_inv_defs new_job_def terminal_def bounded_def)

lemma validIdentifier_safeId:
  "validateIdentifier v field n = Inr x \<Longrightarrow> safeId n v"
  by (auto simp: validateIdentifier_def safeId_def Suc_le_eq)

lemma enqueue_refines:
  assumes inv: "store_inv sha db"
    and fresh: "jobRowByKey db (eq_key req) = None \<Longrightarrow> jobId \<notin> jr_id ` set (db_jobs db)"
  shows "refines sha db (enqueue sha req clock jobId db)"
  unfolding enqueue_def Let_def enqueue_fingerprint_def
proof (rule open_guard, rule refines_ensure, simp, rule refines_ensure, simp, rule refines_ensure, simp,
    rule refines_guard[OF serialize_no_fault], rule refines_guard, rule no_fault_and_then,
    rule serialize_no_fault, simp, rule clock_guard)
  fix z fp now
  assume t: "upper_code 119 (eq_type req)" and k: "idempotencyKey_ok (eq_key req)"
    and b: "bounded 1 1000 (eq_max req)"
    and z: "map_error Serialization (serializeJobJson sha (eq_input req)) = Inr z"
  let ?p = "JOB_PRIORITIES (case eq_priority req of None \<Rightarrow> NORMAL | Some p \<Rightarrow> p)"
  let ?r = "new_job jobId req ?p fp z now"
  have p: "0 \<le> ?p" "?p \<le> 100" using priorities_bounded by auto
  show "refines sha db (case jobRowByKey db (eq_key req) of
      None \<Rightarrow> and_then (validateIdentifier jobId ArgJobId 200) (\<lambda>_.
         and_then (insert_job ?r db) (\<lambda>db'.
         and_then (finish_with sha db' jobId) (\<lambda>(db'', rec). Inr (db'', CREATED, rec))))
    | Some row \<Rightarrow> enqueue_existing sha row fp ?p now db)"
  proof (cases "jobRowByKey db (eq_key req)")
    case (Some r)
    then show ?thesis using enqueue_existing_refines[OF inv _ p] jobRowByKey_SomeD by simp
  next
    case None
    have "refines sha db (and_then (validateIdentifier jobId ArgJobId 200) (\<lambda>_.
         and_then (insert_job ?r db) (\<lambda>db'.
         and_then (finish_with sha db' jobId) (\<lambda>(db'', rec). Inr (db'', CREATED, rec)))))"
    proof (rule identifier_guard)
      fix u assume v: "validateIdentifier jobId ArgJobId 200 = Inr u"
      have "stored_ok sha z" using z by (auto simp: stored_ok_def)
      then have row: "row_inv sha ?r" by (rule new_job_inv[OF t k b validIdentifier_safeId[OF v] _ p])
      have i: "jr_id ?r = jobId" "jr_key ?r = eq_key req" by (simp_all add: new_job_def)
      have nk: "jr_key ?r \<notin> jr_key ` set (db_jobs db)"
        using None by (auto simp: jobRowByKey_def find_None_conv i)
      have ni: "jr_id ?r \<notin> jr_id ` set (db_jobs db)" using fresh[OF None] i by simp
      let ?db = "db\<lparr>db_jobs := db_jobs db @ [?r]\<rparr>"
      have "fresh_job sha ?r db" using row nk ni by (simp add: fresh_job_def new_job_def)
      then have m: "store_move sha db ?db" by (rule store_move.Insert)
      have ins: "insert_job ?r db = Inr ?db"
        using row nk ni by (simp add: insert_job_def row_inv_def)
      have req: "require_job ?db jobId = Inr ?r"
        using jobRow_append_fresh[OF ni] i by (simp add: require_job_def)
      have "side_inv sha ?db" using store_move_inv[OF m inv] by (simp add: store_inv_def)
      from record_no_fault[OF this row] show "refines sha db (and_then (insert_job ?r db) (\<lambda>db'.
         and_then (finish_with sha db' jobId) (\<lambda>(db'', rec). Inr (db'', CREATED, rec))))"
        unfolding ins and_then_simps finish_with_def req and_then_assoc
        by (rule refines_guard) (use m in simp)
    qed
    then show ?thesis by (simp add: None)
  qed
qed

text \<open>Whatever id the factory gives, a success is a run of moves.\<close>

lemma enqueue_moves:
  assumes inv: "store_inv sha db" and ok: "enqueue sha req clock jobId db = Inr (db', x)"
  shows "(store_move sha)\<^sup>*\<^sup>* db db'"
proof (cases "jobRowByKey db (eq_key req) = None \<and> jobId \<in> jr_id ` set (db_jobs db)")
  case True
  then have "insert_job (new_job jobId req p fp z now) db = Inl SqlConstraint" for p fp z now
    by (auto simp: insert_job_def new_job_def ensure_def)
  then show ?thesis using ok True by (auto simp: enqueue_def Let_def)
next
  case False
  then have "refines sha db (enqueue sha req clock jobId db)" using enqueue_refines[OF inv] by blast
  then show ?thesis using ok by (cases x) simp
qed

section \<open>Cancellation and operator commands\<close>

lemma requestCancellation_refines:
  assumes inv: "store_inv sha db"
  shows "refines sha db (requestCancellation sha i clock db)"
  unfolding requestCancellation_def Let_def
proof (rule open_guard, rule identifier_guard, rule clock_guard)
  fix now
  let ?same = "\<lambda>row outcome. and_then (record_of sha db row) (\<lambda>rec. Inr (db, outcome, rec))"
  let ?new = "\<lambda>row f outcome. and_then (update_job (jr_id row) f db) (\<lambda>db1.
     and_then (finish_with sha db1 (jr_id row)) (\<lambda>(db2, rec). Inr (db2, outcome, rec)))"
  have same: "refines sha db (?same r out)" if "r \<in> set (db_jobs db)" for r and out :: cancellation_outcome
    by (rule refines_guard[OF record_no_fault[OF store_invD(5)[OF inv that] store_invD(1)[OF inv that]]]) simp
  have new: "refines sha db (?new r f out)"
    if "r \<in> set (db_jobs db)" "row_move r id [] (f r)" for r f and out :: cancellation_outcome
    unfolding update_row_move[where f = f, OF inv that] and_then_simps
    by (rule refines_finish_pair[OF inv that])
  show "refines sha db (case jobRow db i of None \<Rightarrow> Inl JobNotFound
    | Some row \<Rightarrow> if terminal (jr_status row) then ?same row AlreadyTerminal
         else if jr_cancel row = REJECTED then ?same row WasRejected
         else if jr_cancel row = REQUESTED then ?same row AlreadyRequested
         else if jr_status row = job_status.RUNNING then ?new row (request_row now) WasRequested
         else ?new row (cancel_waiting_row now) WasCancelled)"
  proof (cases "jobRow db i")
    case (Some r)
    then have r: "r \<in> set (db_jobs db)" using jobRow_SomeD by blast
    have "cancel_inv r" using store_invD(1)[OF inv r] by (simp add: row_inv_def)
    then have ack: "jr_cancel r \<noteq> ACKNOWLEDGED" if "\<not> terminal (jr_status r)"
      using that by (auto simp: cancel_inv_def terminal_def)
    have a: "row_move r id [] (request_row now r)"
      if "\<not> terminal (jr_status r)" "jr_cancel r \<noteq> REJECTED" "jr_cancel r \<noteq> REQUESTED"
        "jr_status r = job_status.RUNNING"
      using that ack by (intro row_move.Request) (auto intro: cancellation_status.exhaust[of "jr_cancel r"])
    have b: "row_move r id [] (cancel_waiting_row now r)"
      if "\<not> terminal (jr_status r)" "jr_status r \<noteq> job_status.RUNNING"
      using that by (intro row_move.CancelWaiting)
        (auto simp: terminal_def intro: job_status.exhaust[of "jr_status r"])
    show ?thesis unfolding Some option.case 
      using same[OF r] new[of r "request_row now", OF r a] new[of r "cancel_waiting_row now", OF r b]
      by presburger
  qed simp
qed

text \<open>The part of an operator command that follows the action itself.\<close>

definition record_command ::
  "command_action \<Rightarrow> command_request \<Rightarrow> string \<Rightarrow> int \<Rightarrow> job_row \<Rightarrow> job_db \<Rightarrow> command_disposition
     \<Rightarrow> store_error + job_db \<times> command_result" where
  "record_command action req fingerprint now row db1 disposition =
     and_then (require_job db1 (jr_id row)) (\<lambda>updated.
     and_then (insert_command \<lparr>cm_key = cq_key req, cm_fingerprint = fingerprint,
         cm_job = jr_id row, cm_action = action, cm_disposition = disposition,
         cm_expected = cq_expectedRevision req, cm_revision_after = jr_revision updated,
         cm_created = now\<rparr> db1) (\<lambda>db2.
     and_then (snapshot updated (checkpointRow db2 (jr_id updated))) (\<lambda>s.
     Inr (db2, \<lparr>co_action = action, co_disposition = disposition, co_job = s\<rparr>))))"

lemma jobRow_ids: "jobRow db i = Some r \<Longrightarrow> i \<in> jr_id ` set (db_jobs db)"
  using jobRow_SomeD by blast

lemma record_command_refines:
  assumes m: "(store_move sha)\<^sup>*\<^sup>* db db1" and inv: "store_inv sha db1"
    and row: "jobRow db1 (jr_id row) = Some updated"
    and key: "cq_key req \<notin> cm_key ` set (db_commands db1)"
    and d: "disposition \<in> {APPLIED, NOOP}" and e: "0 \<le> cq_expectedRevision req"
  shows "refines sha db (record_command action req fp now row db1 disposition)"
proof -
  let ?c = "\<lparr>cm_key = cq_key req, cm_fingerprint = fp, cm_job = jr_id row, cm_action = action,
     cm_disposition = disposition, cm_expected = cq_expectedRevision req,
     cm_revision_after = jr_revision updated, cm_created = now\<rparr>"
  let ?db2 = "db1\<lparr>db_checkpoints := db_checkpoints db1, db_commands := db_commands db1 @ [?c]\<rparr>"
  have u: "updated \<in> set (db_jobs db1)" using jobRow_SomeD[OF row] by blast
  have rev: "0 \<le> jr_revision updated"
    using store_invD(1)[OF inv u] by (simp add: row_inv_def job_check_def)
  have ids: "jr_id row \<in> jr_id ` set (db_jobs db1)" by (rule jobRow_ids[OF row])
  have check: "command_check ?c" using d e rev by (auto simp: command_check_def)
  have ins: "insert_command ?c db1 = Inr ?db2"
    using check ids key by (simp add: insert_command_def)
  have "side_inv sha db1" using inv by (simp add: store_inv_def)
  then have "side_inv sha ?db2" using check ids key by (auto simp: side_inv_def)
  then have m2: "store_move sha db1 ?db2" by (rule store_move.Side) (rule refl)
  have "refines sha db1 (record_command action req fp now row db1 disposition)"
    unfolding record_command_def require_job_def row option.case and_then_simps ins
    by (rule refines_guard[OF no_fault_guards(8)]) (use m2 in simp)
  then show ?thesis by (rule refines_step[OF m])
qed

lemma commandRow_None: "commandRow db k = None \<Longrightarrow> k \<notin> cm_key ` set (db_commands db)"
  by (auto simp: commandRow_def find_None_conv)

lemma operator_refines:
  assumes inv: "store_inv sha db"
    and act: "\<And>row fp now. jobRow db (cq_jobId req) = Some row \<Longrightarrow>
        cq_key req \<notin> cm_key ` set (db_commands db) \<Longrightarrow> 0 \<le> cq_expectedRevision req \<Longrightarrow>
        refines sha db (and_then (f row now db) (\<lambda>(db1, d). record_command action req fp now row db1 d))"
  shows "refines sha db (operatorCommand sha action req clock f db)"
  unfolding operatorCommand_def command_fingerprint_def
proof (rule open_guard, rule identifier_guard, rule refines_ensure, simp, rule refines_ensure, simp,
    rule refines_guard, rule no_fault_and_then, rule serialize_no_fault, simp, rule clock_guard,
    fold record_command_def)
  fix fp now
  assume e: "safe_integer (cq_expectedRevision req) \<and> \<not> cq_expectedRevision req < 0"
  show "refines sha db (case commandRow db (cq_key req) of
      None \<Rightarrow> (case jobRow db (cq_jobId req) of
         None \<Rightarrow> Inl JobNotFound
       | Some row \<Rightarrow> and_then (ensure (jr_revision row = cq_expectedRevision req) StaleRevision) (\<lambda>_.
           and_then (f row now db) (\<lambda>(db1, d). record_command action req fp now row db1 d)))
    | Some existing \<Rightarrow> replay_command existing fp db)"
  proof (cases "commandRow db (cq_key req)")
    case None
    then show ?thesis using act[OF _ commandRow_None[OF None]] e
      by (auto split: option.splits intro!: refines_ensure)
  next
    case (Some c)
    then have "c \<in> set (db_commands db)" by (auto simp: commandRow_def dest: find_SomeD)
    then have "cm_job c \<in> jr_id ` set (db_jobs db)" using inv by (simp add: store_inv_def side_inv_def)
    then obtain r where "require_job db (cm_job c) = Inr r"
      using jobRow_eq[OF inv] by (auto simp: require_job_def)
    then have "refines sha db (replay_command c fp db)"
      unfolding replay_command_def
      by (intro refines_ensure) (auto intro!: refines_guard[OF no_fault_guards(8)])
    then show ?thesis by (simp add: Some)
  qed
qed

text \<open>An action that is one row move, or none.\<close>

lemma action_refines:
  assumes inv: "store_inv sha db" and row: "jobRow db i = Some r"
    and key: "cq_key req \<notin> cm_key ` set (db_commands db)" and e: "0 \<le> cq_expectedRevision req"
  shows "refines sha db (record_command action req fp now r db NOOP)"
    and "row_move r id [] (f r) \<Longrightarrow>
      refines sha db (and_then (and_then (update_job (jr_id r) f db) (\<lambda>db1. Inr (db1, APPLIED)))
        (\<lambda>(db1, d). record_command action req fp now r db1 d))"
proof -
  have r: "r \<in> set (db_jobs db)" and i: "jr_id r = i" using jobRow_SomeD[OF row] by auto
  show "refines sha db (record_command action req fp now r db NOOP)"
    by (rule record_command_refines[OF _ inv _ key _ e]) (use row i in auto)
  assume m: "row_move r id [] (f r)"
  have mv: "store_move sha db (moved db r id [] (f r))" by (rule moved_is_move[OF r m])
  have same: "jr_id (f r) = jr_id r" using row_move_identity[OF m] by simp
  have "refines sha db (record_command action req fp now r (moved db r id [] (f r)) APPLIED)"
  proof (rule record_command_refines[OF one_move[OF mv] store_move_inv[OF mv inv] _ _ _ e])
    show "jobRow (moved db r id [] (f r)) (jr_id r) = Some (f r)" by (rule jobRow_moved[OF r same])
    show "cq_key req \<notin> cm_key ` set (db_commands (moved db r id [] (f r)))"
      using key by (simp add: moved_def)
  qed simp
  then show "refines sha db (and_then (and_then (update_job (jr_id r) f db) (\<lambda>db1. Inr (db1, APPLIED)))
        (\<lambda>(db1, d). record_command action req fp now r db1 d))"
    by (simp add: update_row_move[where f = f, OF inv r m])
qed

text \<open>
  A cancellation request for a running job whose earlier request was rejected: the new row would
  pair a pending request with a resolution time, which the snapshot schema refuses.
\<close>

lemma request_after_rejection:
  assumes inv: "store_inv sha db" and row: "jobRow db i = Some r"
    and c: "jr_cancel r = REJECTED" "jr_status r = job_status.RUNNING"
    and key: "cq_key req \<notin> cm_key ` set (db_commands db)" and e: "0 \<le> cq_expectedRevision req"
  shows "and_then (and_then (update_job (jr_id r) (request_row now) db) (\<lambda>db1. Inr (db1, APPLIED)))
        (\<lambda>(db1, d). record_command action req fp now r db1 d) = Inl SnapshotInvalid"
proof -
  let ?f = "request_row now"
  have r: "r \<in> set (db_jobs db)" using jobRow_SomeD[OF row] by auto
  have ri: "row_inv sha r" by (rule store_invD(1)[OF inv r])
  have chk: "job_check (?f r)" "jr_id (?f r) = jr_id r" "0 \<le> jr_revision (?f r)"
    using ri by (auto simp: row_inv_def job_check_def request_row_def)
  have u: "update_job (jr_id r) ?f db = Inr (put_job (?f r) db)"
    by (rule update_job_put[where f = ?f, OF store_invD(3)[OF inv r] r chk(1,2)])
  have row': "jobRow (put_job (?f r) db) (jr_id r) = Some (?f r)" by (rule jobRow_put[OF r chk(2)])
  have ids: "jr_id r \<in> jr_id ` set (db_jobs (put_job (?f r) db))" by (rule jobRow_ids[OF row'])
  have "\<not> cancellation_ok (js_cancellation (snapshot_value (?f r) cp))" for cp
    using ri c by (auto simp: cancellation_ok_def snapshot_value_def request_row_def row_inv_def cancel_inv_def)
  then have s: "snapshot (?f r) cp = Inl SnapshotInvalid" for cp
    by (simp add: snapshot_def jobSnapshot_ok_def Let_def)
  show ?thesis
    using key ids chk(3) e
    by (simp add: u record_command_def require_job_def row' insert_command_def command_check_def s)
qed

lemma cancel_refines:
  assumes inv: "store_inv sha db"
  shows "refines sha db (cancel sha req clock db)"
  unfolding cancel_def
proof (rule operator_refines[OF inv])
  fix r fp now
  assume row: "jobRow db (cq_jobId req) = Some r"
    and key: "cq_key req \<notin> cm_key ` set (db_commands db)" and e: "0 \<le> cq_expectedRevision req"
  have r: "r \<in> set (db_jobs db)" using jobRow_SomeD[OF row] by blast
  have ci: "cancel_inv r" using store_invD(1)[OF inv r] by (simp add: row_inv_def)
  note act = action_refines[OF inv row key e]
  consider (noop) "terminal (jr_status r) \<or> jr_cancel r = REQUESTED"
    | (rejected) "\<not> (terminal (jr_status r) \<or> jr_cancel r = REQUESTED)" "jr_status r = job_status.RUNNING"
        "jr_cancel r = REJECTED"
    | (running) "\<not> (terminal (jr_status r) \<or> jr_cancel r = REQUESTED)" "jr_status r = job_status.RUNNING"
        "jr_cancel r = NOT_REQUESTED"
    | (waiting) "\<not> (terminal (jr_status r) \<or> jr_cancel r = REQUESTED)"
        "jr_status r = job_status.QUEUED \<or> jr_status r = job_status.RETRY_WAIT"
    using ci by (cases "jr_status r"; cases "jr_cancel r") (auto simp: terminal_def cancel_inv_def)
  then show "refines sha db (and_then (cancel_apply r now db) (\<lambda>(db1, d). record_command CANCEL req fp now r db1 d))"
  proof cases
    case noop
    then show ?thesis using act(1) by (simp add: cancel_apply_def)
  next
    case rejected
    note c = rejected(3,2)
    show ?thesis
      unfolding cancel_apply_def if_not_P[OF rejected(1)] if_P[OF rejected(2)]
        request_after_rejection[OF inv row c key e] by simp
  next
    case running
    then have m: "row_move r id [] (request_row now r)" by (intro row_move.Request)
    show ?thesis
      unfolding cancel_apply_def if_not_P[OF running(1)] if_P[OF running(2)]
      by (rule act(2)[where f = "request_row now", OF m])
  next
    case waiting
    then have m: "row_move r id [] (cancel_waiting_row now r)" by (intro row_move.CancelWaiting)
    have "\<not> jr_status r = job_status.RUNNING" using waiting(2) by auto
    then show ?thesis
      unfolding cancel_apply_def if_not_P[OF waiting(1)]
      using act(2)[where f = "cancel_waiting_row now", OF m] by simp
  qed
qed

lemma retry_refines:
  assumes inv: "store_inv sha db"
  shows "refines sha db (manualRetry sha req clock db)"
  unfolding manualRetry_def
proof (rule operator_refines[OF inv])
  fix r fp now
  assume row: "jobRow db (cq_jobId req) = Some r"
    and key: "cq_key req \<notin> cm_key ` set (db_commands db)" and e: "0 \<le> cq_expectedRevision req"
  note act = action_refines(2)[OF inv row key e]
  have w: "row_move r id [] (requeue_row (jr_max r) now r)" if "jr_status r = job_status.RETRY_WAIT"
    using that by (rule row_move.RequeueWaiting)
  have f: "row_move r id [] (requeue_row (max (jr_max r) (jr_count r + 1)) now r)"
    if "jr_status r = job_status.FAILED" "\<not> jr_count r \<ge> 1000"
    using that by (intro row_move.RequeueFailed) auto
  show "refines sha db (and_then (retry_apply r now db) (\<lambda>(db1, d). record_command RETRY req fp now r db1 d))"
    unfolding retry_apply_def Let_def
    using act[where f = "requeue_row (jr_max r) now", OF w]
      act[where f = "requeue_row (max (jr_max r) (jr_count r + 1)) now", OF f] by auto
qed

lemma close_refines: "store_move sha db (close db)"
  by (rule store_move.Close)

end
