(* ===== verification/JobFacts.thy ===== *)
theory JobFacts
  imports JobRefine
begin

text \<open>
  Runs of the job store: the step relation over its public operations, how one row evolves along a
  run, when a snapshot is valid, and what a claim takes. The properties of the store rest on these.
\<close>

section \<open>Steps\<close>

inductive store_step :: "(string \<Rightarrow> string) \<Rightarrow> job_db \<Rightarrow> job_db \<Rightarrow> bool" for sha where
  Enqueue: "enqueue sha req clock i db = Inr (db', e) \<Longrightarrow> store_step sha db db'"
| ClaimNext: "claimNext sha cfg w lease clock db = Inr (db', c) \<Longrightarrow> store_step sha db db'"
| Heartbeat: "heartbeat cfg ref lease clock db = Inr (db', h) \<Longrightarrow> store_step sha db db'"
| SaveCheckpoint: "saveCheckpoint sha ref data p clock db = Inr (db', k) \<Longrightarrow> store_step sha db db'"
| Succeed: "succeed sha ref clock db = Inr (db', rec) \<Longrightarrow> store_step sha db db'"
| Fail: "fail_job sha cfg ref code retryable sample clock db = Inr (db', rec) \<Longrightarrow> store_step sha db db'"
| Cancel: "cancel sha cq clock db = Inr (db', co) \<Longrightarrow> store_step sha db db'"
| ManualRetry: "manualRetry sha cq clock db = Inr (db', co) \<Longrightarrow> store_step sha db db'"
| RequestCancellation: "requestCancellation sha i clock db = Inr (db', out) \<Longrightarrow> store_step sha db db'"
| Acknowledge: "acknowledgeCancellation sha ref clock db = Inr (db', rec) \<Longrightarrow> store_step sha db db'"
| Reject: "rejectCancellation sha ref clock db = Inr (db', rec) \<Longrightarrow> store_step sha db db'"
| Close: "store_step sha db (close db)"

text \<open>A store that has been in use since it was created empty.\<close>

definition store_reachable :: "(string \<Rightarrow> string) \<Rightarrow> job_db \<Rightarrow> bool" where
  "store_reachable sha db \<longleftrightarrow> (store_step sha)\<^sup>*\<^sup>* empty_db db"

lemma refinesD: "refines sha db r \<Longrightarrow> r = Inr (db', x) \<Longrightarrow> (store_move sha)\<^sup>*\<^sup>* db db'"
  by (simp add: refines_def)

lemmas operation_refines =
  claimNext_refines heartbeat_refines saveCheckpoint_refines succeed_refines fail_refines
  cancel_refines retry_refines requestCancellation_refines acknowledge_refines reject_refines

lemma step_moves:
  assumes "store_step sha db db'" and "store_inv sha db"
  shows "(store_move sha)\<^sup>*\<^sup>* db db'"
  using assms
  by (cases rule: store_step.cases)
     (blast intro: enqueue_moves one_move[OF store_move.Close]
        dest: refinesD[OF operation_refines(1)] refinesD[OF operation_refines(2)]
          refinesD[OF operation_refines(3)] refinesD[OF operation_refines(4)]
          refinesD[OF operation_refines(5)] refinesD[OF operation_refines(6)]
          refinesD[OF operation_refines(7)] refinesD[OF operation_refines(8)]
          refinesD[OF operation_refines(9)] refinesD[OF operation_refines(10)])+

lemma step_inv: "store_step sha db db' \<Longrightarrow> store_inv sha db \<Longrightarrow> store_inv sha db'"
  using step_moves store_moves_inv by blast

lemma steps_inv: "(store_step sha)\<^sup>*\<^sup>* db db' \<Longrightarrow> store_inv sha db \<Longrightarrow> store_inv sha db'"
  by (induction rule: rtranclp_induct) (auto intro: step_inv)

lemma steps_moves:
  "(store_step sha)\<^sup>*\<^sup>* db db' \<Longrightarrow> store_inv sha db \<Longrightarrow> (store_move sha)\<^sup>*\<^sup>* db db'"
proof (induction rule: rtranclp_induct)
  case (step b c)
  then show ?case using step_moves steps_inv by (blast intro: rtranclp_trans)
qed simp

lemma reachable_inv: "store_reachable sha db \<Longrightarrow> store_inv sha db"
  unfolding store_reachable_def by (blast intro: steps_inv empty_store_inv)

lemma reachable_step: "store_reachable sha db \<Longrightarrow> store_step sha db db' \<Longrightarrow> store_reachable sha db'"
  unfolding store_reachable_def by (rule rtranclp.rtrancl_into_rtrancl)

lemma reachable_empty: "store_reachable sha empty_db"
  by (simp add: store_reachable_def)

section \<open>How a row evolves\<close>

definition evolves :: "job_row \<Rightarrow> job_row \<Rightarrow> bool" where
  "evolves r r' \<longleftrightarrow>
     jr_id r' = jr_id r \<and> jr_key r' = jr_key r \<and> jr_type r' = jr_type r \<and> jr_input r' = jr_input r
   \<and> jr_fingerprint r' = jr_fingerprint r \<and> jr_created r' = jr_created r
   \<and> jr_count r \<le> jr_count r' \<and> jr_fencing r \<le> jr_fencing r' \<and> jr_revision r \<le> jr_revision r'
   \<and> jr_progress r \<le> jr_progress r' \<and> jr_max r \<le> jr_max r'
   \<and> (jr_status r = job_status.SUCCEEDED \<or> jr_status r = job_status.CANCELLED \<longrightarrow> r' = r)"

lemma evolves_refl [simp]: "evolves r r"
  by (simp add: evolves_def)

lemma evolves_trans: "evolves r s \<Longrightarrow> evolves s t \<Longrightarrow> evolves r t"
  unfolding evolves_def by auto

lemma row_move_evolves:
  assumes "row_move r g new r'" and "row_inv sha r"
  shows "evolves r r'"
proof -
  have p: "jr_progress r \<le> 1" using assms(2) by (simp add: row_inv_def job_check_def)
  show ?thesis using assms(1)
    by (cases rule: row_move.cases) (use p in \<open>auto simp: evolves_def row_update_defs terminal_def\<close>)
qed

lemma jobRow_put_other:
  "i \<noteq> jr_id r' \<Longrightarrow> jobRow (put_job r' db) i = jobRow db i"
proof -
  have "i \<noteq> jr_id r' \<Longrightarrow> find (\<lambda>s. jr_id s = i) (map (\<lambda>r. if jr_id r = jr_id r' then r' else r) rs)
      = find (\<lambda>s. jr_id s = i) rs" for rs
    by (induction rs) auto
  then show "i \<noteq> jr_id r' \<Longrightarrow> jobRow (put_job r' db) i = jobRow db i"
    by (simp add: jobRow_def put_job_def)
qed

lemma jobRow_moved_other:
  "i \<noteq> jr_id r' \<Longrightarrow> jobRow (moved db r g new r') i = jobRow db i"
  using jobRow_put_other[of i r' db] by (simp add: moved_def jobRow_def)

lemma jobRow_append: "jobRow db i = Some r \<Longrightarrow> jobRow (db\<lparr>db_jobs := db_jobs db @ [s]\<rparr>) i = Some r"
proof -
  have "find (\<lambda>s. jr_id s = i) rs = Some r \<Longrightarrow> find (\<lambda>s. jr_id s = i) (rs @ [s]) = Some r" for rs
    by (induction rs) auto
  then show "jobRow db i = Some r \<Longrightarrow> jobRow (db\<lparr>db_jobs := db_jobs db @ [s]\<rparr>) i = Some r"
    by (simp add: jobRow_def)
qed

lemma move_evolves:
  assumes "store_move sha db db'" and "store_inv sha db" and "jobRow db i = Some r"
  shows "\<exists>r'. jobRow db' i = Some r' \<and> evolves r r'"
  using assms(1)
proof (cases rule: store_move.cases)
  case (Row s g new s')
  have s: "row_inv sha s" by (rule store_invD(1)[OF assms(2) Row(2)])
  have same: "jr_id s' = jr_id s" using row_move_identity[OF Row(3)] by simp
  show ?thesis
  proof (cases "i = jr_id s")
    case True
    then have "r = s" using jobRow_eq[OF assms(2) Row(2)] assms(3) by simp
    then show ?thesis
      using True jobRow_moved[OF Row(2) same] row_move_evolves[OF Row(3) s] Row(1) by (simp add: moved_def)
  next
    case False
    then show ?thesis using jobRow_moved_other[of i s' db] same assms(3) Row(1) by (simp add: moved_def)
  qed
next
  case (Insert s)
  then show ?thesis using jobRow_append[OF assms(3)] by simp
qed (use assms(3) in \<open>auto simp: jobRow_def close_def\<close>)

lemma moves_evolve:
  assumes "(store_move sha)\<^sup>*\<^sup>* db db'" and "store_inv sha db" and "jobRow db i = Some r"
  shows "\<exists>r'. jobRow db' i = Some r' \<and> evolves r r'"
  using assms(1)
proof (induction rule: rtranclp_induct)
  case (step b c)
  then show ?case using move_evolves store_moves_inv[OF step(1) assms(2)] evolves_trans by blast
qed (use assms(3) in auto)

lemma steps_evolve:
  "(store_step sha)\<^sup>*\<^sup>* db db' \<Longrightarrow> store_inv sha db \<Longrightarrow> jobRow db i = Some r \<Longrightarrow>
    \<exists>r'. jobRow db' i = Some r' \<and> evolves r r'"
  using moves_evolve steps_moves by blast

section \<open>Updates seen through \<open>jobRow\<close>\<close>

lemma jobRow_update:
  assumes "update_job i f db = Inr db'" and "\<And>r. jr_id (f r) = jr_id r"
  shows "jobRow db' j = (if j = i then map_option f (jobRow db j) else jobRow db j)"
proof -
  have "find (\<lambda>s. jr_id s = j) (map (\<lambda>r. if jr_id r = i then f r else r) rs)
      = (if j = i then map_option f (find (\<lambda>s. jr_id s = j) rs) else find (\<lambda>s. jr_id s = j) rs)" for rs
    using assms(2) by (induction rs) auto
  then show ?thesis using assms(1) by (auto simp: update_job_def jobRow_def)
qed

lemma other_tables:
  "update_attempts P g db = Inr db' \<Longrightarrow> db_jobs db' = db_jobs db"
  "insert_attempt a db = Inr db' \<Longrightarrow> db_jobs db' = db_jobs db"
  "upsert_checkpoint c db = Inr db' \<Longrightarrow> db_jobs db' = db_jobs db"
  "insert_command k db = Inr db' \<Longrightarrow> db_jobs db' = db_jobs db"
  "finishAttempt ref st now failure db = Inr db' \<Longrightarrow> db_jobs db' = db_jobs db"
  "expireAttempt r now db = Inr db' \<Longrightarrow> db_jobs db' = db_jobs db"
  by (auto simp: update_attempts_def insert_attempt_def upsert_checkpoint_def insert_command_def
      finishAttempt_def expireAttempt_def split: option.splits)

lemma jobRow_cong: "db_jobs db' = db_jobs db \<Longrightarrow> jobRow db' = jobRow db"
  by (simp add: jobRow_def fun_eq_iff)

lemma finish_with_db: "finish_with sha db i = Inr (db', rec) \<Longrightarrow> db' = db"
  by (auto simp: finish_with_def)

lemma row_update_ids [simp]:
  "jr_id (claim_row r w now ex s) = jr_id s" "jr_id (acknowledge_row now s) = jr_id s"
  "jr_id (exhaust_row now s) = jr_id s" "jr_id (succeed_row now r s) = jr_id s"
  "jr_id (retry_row now due code s) = jr_id s" "jr_id (failed_row now code b s) = jr_id s"
  "jr_id (request_row now s) = jr_id s" "jr_id (cancel_waiting_row now s) = jr_id s"
  "jr_id (requeue_row m now s) = jr_id s" "jr_id (reject_row now s) = jr_id s"
  by (simp_all add: row_update_defs)

section \<open>Valid snapshots\<close>

definition hex_hash :: "(string \<Rightarrow> string) \<Rightarrow> bool" where
  "hex_hash sha \<longleftrightarrow> (\<forall>s. sha256_ok (sha s))"

definition max_safe :: int where "max_safe = 9007199254740991"

lemma stored_hash: "hex_hash sha \<Longrightarrow> stored_ok sha z \<Longrightarrow> sha256_ok (sz_hash z)"
  by (auto simp: stored_ok_def hex_hash_def serialized_hash)

lemma plain_append: "plain_text (a @ b) \<longleftrightarrow> plain_text a \<and> plain_text b"
  by (simp add: plain_text_def)

lemma digit_plain: "ascii_digit c \<Longrightarrow> plain_char c"
  by (auto simp: ascii_digit_def plain_char_def)

lemma show_nat_plain: "plain_text (show_nat n)"
  by (auto simp: plain_text_def list_all_iff intro: digit_plain show_nat_digits)

lemma attempt_id_safe:
  assumes "safeId 200 i" "0 \<le> n" "n \<le> 1000"
  shows "safeId 500 (attempt_id i n)"
proof -
  have "nat n < 10 ^ Suc 3" using assms by simp
  from length_show_nat[OF this] have "length (show_nat (nat n)) \<le> 4" by simp
  moreover have "plain_text '':attempt:''" by code_simp
  then have "plain_text (i @ '':attempt:'' @ show_nat (nat n))"
    using assms(1) unfolding plain_append by (simp add: show_nat_plain safeId_def)
  ultimately show ?thesis
    using assms by (simp add: safeId_def attempt_id_def show_int_nonneg)
qed

lemma safeId_mono: "safeId n s \<Longrightarrow> n \<le> m \<Longrightarrow> safeId m s"
  by (auto simp: safeId_def)

lemma row_snapshot_ok:
  assumes hash: "hex_hash sha" and row: "row_inv sha r" and rev: "jr_revision r \<le> max_safe"
    and cp: "\<forall>k. c = Some k \<longrightarrow> checkpoint_check k \<and> stored_ok sha (cp_payload k) \<and> cp_revision k \<le> max_safe"
  shows "jobSnapshot_ok (snapshot_value r c)"
proof -
  let ?s = "snapshot_value r c"
  have chk: "job_check r" and idn: "identity_inv sha r" and sch: "schedule_inv r"
    and can: "cancel_inv r" and flr: "failure_inv r"
    using row by (simp_all add: row_inv_def)
  have lease: "case js_lease ?s of None \<Rightarrow> True | Some l \<Rightarrow> lease_ok l"
  proof (cases "jr_status r = job_status.RUNNING")
    case True
    obtain w where w: "jr_worker r = Some w" "safeId 200 w"
      using sch True by (auto simp: schedule_inv_def)
    have ex: "jr_expires r \<noteq> None" using chk True by (simp add: job_check_def)
    have n: "1 \<le> jr_count r" "jr_count r \<le> 1000" using chk sch True by (auto simp: job_check_def schedule_inv_def)
    have a: "safeId 500 (attempt_id (jr_id r) (jr_count r))"
      using attempt_id_safe[of "jr_id r" "jr_count r"] n idn by (simp add: identity_inv_def)
    show ?thesis using True w ex n a sch
      by (simp add: snapshot_value_def lease_ok_def schedule_inv_def positive_int_def safe_integer_def)
  qed (simp add: snapshot_value_def)
  have check: "case js_checkpoint ?s of None \<Rightarrow> True | Some k \<Rightarrow> checkpoint_ok k"
    using cp stored_hash[OF hash]
    by (cases c) (auto simp: snapshot_value_def checkpoint_ok_def checkpoint_check_def positive_int_def
        safe_integer_def max_safe_def)
  have cancel: "cancellation_ok (js_cancellation ?s)"
    using can by (auto simp: snapshot_value_def cancellation_ok_def cancel_inv_def)
  have fail: "case js_lastFailure ?s of None \<Rightarrow> True | Some f \<Rightarrow> failure_ok f"
    using flr by (simp add: snapshot_value_def failure_ok_def failure_inv_def split: option.splits)
  have idem: "idempotency_ok (js_idempotency ?s)"
    using idn stored_hash[OF hash] by (simp add: snapshot_value_def idempotency_ok_def identity_inv_def)
  have base: "safeId 500 (jr_id r)" "upper_code 119 (jr_type r)" "safe_integer (jr_revision r)" "0 \<le> jr_revision r"
    "bounded 0 1000 (jr_count r)" "bounded 1 1000 (jr_max r)" "0 \<le> jr_progress r" "jr_progress r \<le> 1"
    "jr_count r \<le> jr_max r"
    using idn chk rev safeId_mono[of 200 "jr_id r" 500]
    by (auto simp: identity_inv_def job_check_def safe_integer_def max_safe_def bounded_def)
  have shape: "jr_next r = None \<or> jr_status r = job_status.RETRY_WAIT"
    "jr_completed r = None \<or> jr_status r = job_status.SUCCEEDED \<or> jr_status r = job_status.FAILED
       \<or> jr_status r = job_status.CANCELLED"
    using chk by (auto simp: job_check_def terminal_def)
  then have run: "jr_status r = job_status.RUNNING \<longrightarrow> jr_next r = None \<and> jr_completed r = None"
    by auto
  show ?thesis
    unfolding jobSnapshot_ok_def using lease check cancel fail idem base shape run
    by (simp add: snapshot_value_def terminal_def)
qed

section \<open>What a claim takes\<close>

lemma claim_jobD:
  assumes "claim_job sha row w lease now db = Inr (db', out)"
  shows "\<exists>c r'. out = Some c \<and> cl_jobId c = jr_id row \<and> cl_fencingToken c = jr_fencing row + 1
      \<and> cl_workerId c = w \<and> cl_attemptId c = attempt_id (jr_id row) (jr_count row + 1)
      \<and> jobRow db' (jr_id row) = Some (claim_row row w now (now + lease) r')
      \<and> (\<forall>j. j \<noteq> jr_id row \<longrightarrow> jobRow db' j = jobRow db j)
      \<and> jobRow db (jr_id row) = Some r'"
proof -
  from assms obtain ex db1 claimed cp where ex: "to_iso (now + lease) = Inr ex"
    and ins: "insert_attempt (new_attempt row w now ex cp) db = Inr db1"
    and upd: "update_job (jr_id row) (claim_row row w now ex) db1 = Inr db'"
    and req: "require_job db' (jr_id row) = Inr claimed"
    and out: "\<exists>c. out = Some c \<and> cl_jobId c = jr_id row \<and> cl_fencingToken c = jr_fencing row + 1
      \<and> cl_workerId c = w \<and> cl_attemptId c = attempt_id (jr_id row) (jr_count row + 1)"
    by (auto simp: claim_job_def Let_def)
  have e: "ex = now + lease" using ex by (simp add: to_iso_def split: if_splits)
  have j: "jobRow db1 = jobRow db" by (rule jobRow_cong) (rule other_tables(2)[OF ins])
  have u: "jobRow db' j = (if j = jr_id row then map_option (claim_row row w now ex) (jobRow db j)
      else jobRow db j)" for j
    using jobRow_update[OF upd, of j] j by simp
  obtain s where "jobRow db' (jr_id row) = Some s" using req by (auto simp: require_job_def split: option.splits)
  then obtain r' where r': "jobRow db (jr_id row) = Some r'" using u[of "jr_id row"] by auto
  have own: "jobRow db' (jr_id row) = Some (claim_row row w now (now + lease) r')"
    using u[of "jr_id row"] r' e by simp
  have others: "\<forall>j. j \<noteq> jr_id row \<longrightarrow> jobRow db' j = jobRow db j" using u by simp
  show ?thesis using out own others r' by blast
qed

text \<open>The update of one recovery of a lapsed lease.\<close>

definition recover_row :: "int \<Rightarrow> job_row \<Rightarrow> job_row \<Rightarrow> job_row" where
  "recover_row now row = (if jr_cancel row = REQUESTED then acknowledge_row now else exhaust_row now)"

lemma claim_loop_cases:
  assumes "claim_loop (Suc n) sha w lease now db = Inr (db', out)"
  obtains
    (empty) "next_claimable now db = None" "db' = db" "out = None"
  | (claim) row db1 where "next_claimable now db = Some row" "db_jobs db1 = db_jobs db"
      "claim_job sha row w lease now db1 = Inr (db', out)"
  | (recover) row db1 db2 where "next_claimable now db = Some row" "db_jobs db1 = db_jobs db"
      "jr_status row = job_status.RUNNING" "update_job (jr_id row) (recover_row now row) db1 = Inr db2"
      "claim_loop n sha w lease now db2 = Inr (db', out)"
proof (cases "next_claimable now db")
  case None
  then have "db' = db" "out = None" using assms by simp_all
  then show thesis by (rule that(1)[OF None])
next
  case (Some row)
  note row = this
  show thesis
  proof (cases "jr_status row = job_status.RUNNING")
    case True
    then obtain db1 where e: "expireAttempt row now db = Inr db1" using assms row by auto
    have j: "db_jobs db1 = db_jobs db" by (rule other_tables(6)[OF e])
    consider "jr_cancel row = REQUESTED" | "jr_cancel row \<noteq> REQUESTED" "jr_max row \<le> jr_count row"
      | "jr_cancel row \<noteq> REQUESTED" "\<not> jr_max row \<le> jr_count row" by blast
    then show thesis
    proof cases
      case 1
      then show thesis using assms row True e that(3)[OF row j True]
        by (auto simp: cancelExpired_def recover_row_def)
    next
      case 2
      then show thesis using assms row True e that(3)[OF row j True]
        by (auto simp: markExhausted_def recover_row_def)
    next
      case 3
      then show thesis using assms row True e that(2)[OF row j] by auto
    qed
  next
    case False
    then show thesis using assms row that(2)[OF row refl] by simp
  qed
qed

lemma jobRow_distinct:
  "distinct (map jr_id (db_jobs db)) \<Longrightarrow> r \<in> set (db_jobs db) \<Longrightarrow> jobRow db (jr_id r) = Some r"
  unfolding jobRow_def by (rule find_unique)

lemma update_job_ids:
  assumes "update_job i f db = Inr db'" and "\<And>r. jr_id (f r) = jr_id r"
  shows "map jr_id (db_jobs db') = map jr_id (db_jobs db)"
  using assms by (auto simp: update_job_def)

lemma recover_row_id [simp]: "jr_id (recover_row now row r) = jr_id r"
  by (simp add: recover_row_def)

lemma recover_row_status:
  "jr_status (recover_row now row r) = (if jr_cancel row = REQUESTED then job_status.CANCELLED else job_status.FAILED)"
  by (simp add: recover_row_def row_update_defs)

lemma recover_not_claimable: "\<not> claimable t (recover_row now row r)"
  by (simp add: claimable_def recover_row_status)

text \<open>A claim round leaves every other job alone, and changes one that could be claimed.\<close>

lemma claim_loop_rows:
  assumes "claim_loop n sha w lease now db = Inr (db', out)" and "distinct (map jr_id (db_jobs db))"
    and "jobRow db i = Some r"
  shows "\<exists>r'. jobRow db' i = Some r' \<and> (r' = r \<or> claimable now r \<and>
      (jr_status r' = job_status.RUNNING
       \<or> jr_status r = job_status.RUNNING \<and> jr_status r' \<in> {job_status.CANCELLED, job_status.FAILED}))"
  using assms
proof (induction n arbitrary: db r)
  case (Suc n)
  show ?case using Suc.prems(1)
  proof (cases rule: claim_loop_cases)
    case empty
    then show ?thesis using Suc.prems(3) by simp
  next
    case (claim row db1)
    have j: "jobRow db1 = jobRow db" by (rule jobRow_cong[OF claim(2)])
    have row: "row \<in> set (db_jobs db)" "claimable now row" using next_claimable_SomeD[OF claim(1)] by auto
    have "jobRow db (jr_id row) = Some row" by (rule jobRow_distinct[OF Suc.prems(2) row(1)])
    then show ?thesis
      using claim_jobD[OF claim(3)] j row(2) Suc.prems(3)
      by (cases "i = jr_id row") (auto simp: claim_row_def)
  next
    case (recover row db1 db2)
    have j: "jobRow db1 = jobRow db" by (rule jobRow_cong[OF recover(2)])
    have row: "row \<in> set (db_jobs db)" "claimable now row" using next_claimable_SomeD[OF recover(1)] by auto
    have own: "jobRow db (jr_id row) = Some row" by (rule jobRow_distinct[OF Suc.prems(2) row(1)])
    have u: "jobRow db2 k = (if k = jr_id row then map_option (recover_row now row) (jobRow db k)
        else jobRow db k)" for k
      using jobRow_update[OF recover(4), of k] j by simp
    have d: "distinct (map jr_id (db_jobs db2))"
      using update_job_ids[OF recover(4)] recover(2) Suc.prems(2) by simp
    show ?thesis
    proof (cases "i = jr_id row")
      case True
      then have "r = row" using own Suc.prems(3) by simp
      then have "jobRow db2 i = Some (recover_row now row r)" using u[of i] own True by simp
      then have "jobRow db' i = Some (recover_row now row r)"
        using Suc.IH[OF recover(5) d] recover_not_claimable by blast
      then show ?thesis using row(2) recover(3) \<open>r = row\<close> by (simp add: recover_row_status)
    next
      case False
      then show ?thesis using Suc.IH[OF recover(5) d, of r] u[of i] Suc.prems(3) by simp
    qed
  qed
qed simp

text \<open>The claimed job was the least claimable one when it was taken.\<close>

lemma claim_loop_acquired:
  assumes "claim_loop n sha w lease now db = Inr (db', Some c)" and "distinct (map jr_id (db_jobs db))"
  shows "\<exists>r. jobRow db (cl_jobId c) = Some r \<and> claimable now r
      \<and> cl_fencingToken c = jr_fencing r + 1 \<and> cl_attemptId c = attempt_id (jr_id r) (jr_count r + 1)
      \<and> jobRow db' (cl_jobId c) = Some (claim_row r w now (now + lease) r)
      \<and> cl_workerId c = w
      \<and> (\<forall>s \<in> set (db_jobs db). claimable now s \<and> jobRow db' (jr_id s) = Some s \<longrightarrow> claim_le r s)"
  using assms
proof (induction n arbitrary: db)
  case (Suc n)
  show ?case using Suc.prems(1)
  proof (cases rule: claim_loop_cases)
    case (claim row db1)
    have j: "jobRow db1 = jobRow db" by (rule jobRow_cong[OF claim(2)])
    have row: "row \<in> set (db_jobs db)" "claimable now row"
      "\<forall>s \<in> set (db_jobs db). claimable now s \<longrightarrow> claim_le row s"
      using next_claimable_SomeD[OF claim(1)] by auto
    have "jobRow db (jr_id row) = Some row" by (rule jobRow_distinct[OF Suc.prems(2) row(1)])
    then show ?thesis using claim_jobD[OF claim(3)] row j by auto
  next
    case (recover row db1 db2)
    have j: "jobRow db1 = jobRow db" by (rule jobRow_cong[OF recover(2)])
    have row: "row \<in> set (db_jobs db)" using next_claimable_SomeD[OF recover(1)] by auto
    have own: "jobRow db (jr_id row) = Some row" by (rule jobRow_distinct[OF Suc.prems(2) row])
    have u: "jobRow db2 k = (if k = jr_id row then map_option (recover_row now row) (jobRow db k)
        else jobRow db k)" for k
      using jobRow_update[OF recover(4), of k] j by simp
    have d: "distinct (map jr_id (db_jobs db2))"
      using update_job_ids[OF recover(4)] recover(2) Suc.prems(2) by simp
    from Suc.IH[OF recover(5) d] obtain r where r: "jobRow db2 (cl_jobId c) = Some r" "claimable now r"
        "cl_fencingToken c = jr_fencing r + 1" "cl_attemptId c = attempt_id (jr_id r) (jr_count r + 1)"
        "jobRow db' (cl_jobId c) = Some (claim_row r w now (now + lease) r)" "cl_workerId c = w"
        "\<forall>s \<in> set (db_jobs db2). claimable now s \<and> jobRow db' (jr_id s) = Some s \<longrightarrow> claim_le r s"
      by blast
    have ne: "cl_jobId c \<noteq> jr_id row" using r(1,2) u[of "cl_jobId c"] recover_not_claimable own by auto
    have rec: "jobRow db' (jr_id row) = Some (recover_row now row row)"
      using claim_loop_rows[OF recover(5) d, of "jr_id row"] u[of "jr_id row"] own recover_not_claimable
      by auto
    have "claim_le r s" if s: "s \<in> set (db_jobs db)" "claimable now s" "jobRow db' (jr_id s) = Some s" for s
    proof -
      have "jr_id s \<noteq> jr_id row" using rec s(2,3) recover_not_claimable by auto
      then have "jobRow db2 (jr_id s) = Some s"
        using u[of "jr_id s"] jobRow_distinct[OF Suc.prems(2) s(1)] by simp
      then show ?thesis using jobRow_SomeD r(7) s(2,3) by blast
    qed
    then show ?thesis using r ne u[of "cl_jobId c"] by auto
  qed simp
qed simp

text \<open>Lapsed leases, and why \<open>EMPTY\<close> means that nothing is left.\<close>

definition lapsed :: "int \<Rightarrow> job_db \<Rightarrow> job_row list" where
  "lapsed now db = filter (\<lambda>r. jr_status r = job_status.RUNNING \<and> claimable now r) (db_jobs db)"

lemma length_filter_replace:
  assumes "r \<in> set rs" "P r" "\<And>s. s \<in> set rs \<Longrightarrow> \<not> P (g s) \<or> g s = s" "\<not> P (g r)"
  shows "length (filter P (map g rs)) < length (filter P rs)"
  using assms
proof (induction rs)
  case (Cons s rs)
  have le: "length (filter P (map g rs)) \<le> length (filter P rs)"
  proof -
    have "length (filter P (map g ts)) \<le> length (filter P ts)" if "\<forall>s \<in> set ts. \<not> P (g s) \<or> g s = s" for ts
      using that by (induction ts) auto
    then show ?thesis using Cons.prems(3) by simp
  qed
  show ?case
  proof (cases "s = r")
    case True
    then show ?thesis using le Cons.prems by simp
  next
    case False
    then have "length (filter P (map g rs)) < length (filter P rs)" using Cons by simp
    then show ?thesis using Cons.prems(3)[of s] by auto
  qed
qed simp

lemma claim_loop_empty:
  assumes "claim_loop n sha w lease now db = Inr (db', None)" and "length (lapsed now db) < n"
  shows "next_claimable now db' = None"
  using assms
proof (induction n arbitrary: db)
  case (Suc n)
  show ?case using Suc.prems(1)
  proof (cases rule: claim_loop_cases)
    case empty
    then show ?thesis by simp
  next
    case (claim row db1)
    then show ?thesis using claim_jobD[OF claim(3)] by auto
  next
    case (recover row db1 db2)
    let ?g = "\<lambda>r. if jr_id r = jr_id row then recover_row now row r else r"
    let ?P = "\<lambda>r. jr_status r = job_status.RUNNING \<and> claimable now r"
    have row: "row \<in> set (db_jobs db)" "?P row" using next_claimable_SomeD[OF recover(1)] recover(3) by auto
    have "db_jobs db2 = map ?g (db_jobs db)" using recover(2,4) by (auto simp: update_job_def)
    moreover have "length (filter ?P (map ?g (db_jobs db))) < length (filter ?P (db_jobs db))"
      by (rule length_filter_replace[where P = ?P and g = ?g, OF row]) (use recover_not_claimable in auto)
    ultimately have "length (lapsed now db2) < n" using Suc.prems(2) by (simp add: lapsed_def)
    then show ?thesis by (rule Suc.IH[OF recover(5)])
  qed
qed simp

lemma next_claimable_None: "next_claimable now db = None \<longleftrightarrow> (\<forall>r \<in> set (db_jobs db). \<not> claimable now r)"
  by (auto simp: next_claimable_def filter_empty_conv split: list.splits)
     (metis filter_empty_conv sort_by_Nil_iff neq_Nil_conv)

section \<open>Status changes\<close>

definition guarded :: "job_db \<Rightarrow> job_db \<Rightarrow> bool" where
  "guarded db db' \<longleftrightarrow> (\<forall>i r. jobRow db i = Some r \<longrightarrow>
     (\<exists>r'. jobRow db' i = Some r' \<and> canTransition jobTransitions (jr_status r) (jr_status r')))"

lemma guarded_refl [simp]: "guarded db db"
  by (simp add: guarded_def canTransition_def)

lemma guarded_jobs: "db_jobs db' = db_jobs db \<Longrightarrow> guarded db db'"
  by (simp add: guarded_def jobRow_def canTransition_def)

lemma guarded_jobs_left: "db_jobs db1 = db_jobs db \<Longrightarrow> guarded db1 db' \<Longrightarrow> guarded db db'"
  by (simp add: guarded_def jobRow_def)

lemma guarded_jobs_right: "db_jobs db1 = db_jobs db' \<Longrightarrow> guarded db db1 \<Longrightarrow> guarded db db'"
  by (simp add: guarded_def jobRow_def)

lemma update_guarded:
  assumes "update_job i f db = Inr db'" "\<And>r. jr_id (f r) = jr_id r" "jobRow db i = Some row"
    "canTransition jobTransitions (jr_status row) (jr_status (f row))"
  shows "guarded db db'"
  unfolding guarded_def
proof (intro allI impI)
  fix j r assume "jobRow db j = Some r"
  then show "\<exists>r'. jobRow db' j = Some r' \<and> canTransition jobTransitions (jr_status r) (jr_status r')"
    using jobRow_update[OF assms(1,2), of j] assms(3,4) by (cases "j = i") (auto simp: canTransition_def)
qed

lemma claim_loop_guarded:
  assumes "claim_loop n sha w lease now db = Inr (db', out)" and "distinct (map jr_id (db_jobs db))"
  shows "guarded db db'"
  unfolding guarded_def
proof (intro allI impI)
  fix i r assume "jobRow db i = Some r"
  from claim_loop_rows[OF assms this] obtain r' where r': "jobRow db' i = Some r'"
    "r' = r \<or> claimable now r \<and> (jr_status r' = job_status.RUNNING
       \<or> jr_status r = job_status.RUNNING \<and> jr_status r' \<in> {job_status.CANCELLED, job_status.FAILED})"
    by blast
  then have "canTransition jobTransitions (jr_status r) (jr_status r')"
    by (auto simp: canTransition_def claimable_def)
  then show "\<exists>r'. jobRow db' i = Some r' \<and> canTransition jobTransitions (jr_status r) (jr_status r')"
    using r'(1) by blast
qed

section \<open>A claim that must succeed\<close>

lemma claim_job_total:
  assumes inv: "store_inv sha db" and r: "r \<in> set (db_jobs db)"
    and m: "\<And>ex cp. 0 \<le> cp \<Longrightarrow> row_move r g [new_attempt r w now ex cp] (claim_row r w now ex r)"
    and db1: "db1 = db\<lparr>db_attempts := change_attempt (jr_attempt r) g (db_attempts db)\<rparr>"
    and hash: "hex_hash sha" and date: "valid_date (now + lease)" and rev: "jr_revision r < max_safe"
    and cps: "\<forall>k \<in> set (db_checkpoints db). cp_revision k \<le> max_safe"
  shows "is_ok (claim_job sha r w lease now db1)"
proof -
  let ?ex = "now + lease"
  let ?cp = "case checkpointRow db1 (jr_id r) of None \<Rightarrow> 0 | Some c \<Rightarrow> cp_revision c"
  let ?a = "new_attempt r w now ?ex ?cp" and ?f = "claim_row r w now ?ex"
  let ?db2 = "moved db r g [?a] (?f r)"
  have "checkpointRow db1 = checkpointRow db" by (simp add: db1 checkpointRow_def fun_eq_iff)
  then have mv: "row_move r g [?a] (?f r)"
    using m checkpoint_revision_nonneg[OF store_invD(5)[OF inv r]] by simp
  have row: "row_inv sha r" by (rule store_invD(1)[OF inv r])
  have inv2: "store_inv sha ?db2" by (rule store_move_inv[OF moved_is_move[OF r mv] inv])
  then have side: "side_inv sha ?db2" by (simp add: store_inv_def)
  then obtain cp where cp: "checkpoint_of sha (checkpointRow ?db2 (jr_id r)) = Inr cp"
    using checkpoint_of_ok by blast
  have parse: "parse_stored sha (jr_input r) = Inr (sz_value (jr_input r))"
    using row by (simp add: row_inv_def identity_inv_def parse_stored_ok)
  have row2: "row_inv sha (?f r)" by (rule row_move_inv[OF mv row])
  then have bounds: "0 \<le> jr_count r + 1" "jr_count r + 1 \<le> 1000" "safeId 200 (jr_id r)"
    using row by (auto simp: row_inv_def job_check_def identity_inv_def claim_row_def)
  have idok: "validateIdentifier (attempt_id (jr_id r) (jr_count r + 1)) ArgAttemptId 500 = Inr ()"
    using attempt_id_safe[OF bounds(3,1,2)] by (auto simp: validateIdentifier_def safeId_def Suc_le_eq)
  have "checkpoint_check k \<and> stored_ok sha (cp_payload k) \<and> cp_revision k \<le> max_safe"
    if "checkpointRow ?db2 (jr_id r) = Some k" for k
  proof -
    have "k \<in> set (db_checkpoints ?db2)" using that by (auto simp: checkpointRow_def dest: find_SomeD)
    then show ?thesis using side cps by (auto simp: side_inv_def moved_def)
  qed
  moreover have "jr_revision (?f r) \<le> max_safe" using rev by (simp add: claim_row_def)
  ultimately have "jobSnapshot_ok (snapshot_value (?f r) (checkpointRow ?db2 (jr_id r)))"
    by (intro row_snapshot_ok[OF hash row2]) auto
  then have snap: "snapshot (?f r) (checkpointRow ?db2 (jr_id r))
      = Inr (snapshot_value (?f r) (checkpointRow ?db2 (jr_id r)))"
    by (simp add: snapshot_def Let_def)
  have same: "jr_id (?f r) = jr_id r" by simp
  have iso: "to_iso ?ex = Inr ?ex" using date by (simp add: to_iso_def)
  show ?thesis
    unfolding claim_job_def Let_def idok iso and_then_simps
      and_then_assoc[of "insert_attempt ?a db1" "update_job (jr_id r) ?f", symmetric]
      insert_claim[OF inv r mv db1] require_moved[OF r same] cp parse same snap
    by (simp add: is_ok_def)
qed

lemma claim_loop_total:
  assumes "hex_hash sha" "valid_date (now + lease)" "safeId 200 w"
  shows "store_inv sha db \<Longrightarrow> (\<forall>r \<in> set (db_jobs db). claimable now r \<longrightarrow> jr_revision r < max_safe) \<Longrightarrow>
    (\<forall>k \<in> set (db_checkpoints db). cp_revision k \<le> max_safe) \<Longrightarrow> is_ok (claim_loop n sha w lease now db)"
proof (induction n arbitrary: db)
  case (Suc n)
  note inv = Suc.prems(1) and rev = Suc.prems(2) and cps = Suc.prems(3)
  show ?case
  proof (cases "next_claimable now db")
    case None
    then show ?thesis by (simp add: is_ok_def)
  next
    case (Some r)
    then have r: "r \<in> set (db_jobs db)" and c: "claimable now r" using next_claimable_SomeD by auto
    have rr: "jr_revision r < max_safe" using rev r c by blast
    let ?lost = "db\<lparr>db_attempts := change_attempt (jr_attempt r) (lost_attempt now) (db_attempts db)\<rparr>"
    consider (run) "jr_status r = job_status.RUNNING" "jr_cancel r = REQUESTED \<or> jr_max r \<le> jr_count r"
      | (again) "jr_status r = job_status.RUNNING" "jr_cancel r \<noteq> REQUESTED" "jr_count r < jr_max r"
      | (wait) "jr_status r = job_status.QUEUED \<or> jr_status r = job_status.RETRY_WAIT"
      using claimable_status[OF c] by force
    then show ?thesis
    proof cases
      case wait
      then have "is_ok (claim_job sha r w lease now db)"
        by (intro claim_job_total[where g = id, OF inv r _ _ assms(1,2) rr cps])
           (use assms(3) in \<open>auto intro: row_move.Claim\<close>)
      then show ?thesis using wait by (auto simp: Some)
    next
      case again
      then have "is_ok (claim_job sha r w lease now ?lost)"
        by (intro claim_job_total[OF inv r _ refl assms(1,2) rr cps])
           (use assms(3) in \<open>auto intro: row_move.Reclaim\<close>)
      then show ?thesis using again by (simp add: Some expire_step[OF inv r again(1)])
    next
      case run
      let ?f = "recover_row now r"
      have m: "row_move r (lost_attempt now) [] (?f r)"
        using run row_move.CancelExpired[of r now] row_move.Exhaust[of r now] by (auto simp: recover_row_def)
      have mv: "store_move sha db (moved db r (lost_attempt now) [] (?f r))" by (rule moved_is_move[OF r m])
      have "job_check (?f r)" using row_move_inv[OF m store_invD(1)[OF inv r]] by (simp add: row_inv_def)
      then have u: "update_job (jr_id r) ?f ?lost = Inr (put_job (?f r) ?lost)"
        by (intro update_job_put[where f = ?f]) (use store_invD(3)[OF inv r] r in simp_all)
      have e: "put_job (?f r) ?lost = moved db r (lost_attempt now) [] (?f r)"
        by (simp add: moved_def put_job_def)
      have "is_ok (claim_loop n sha w lease now (moved db r (lost_attempt now) [] (?f r)))"
      proof (rule Suc.IH[OF store_move_inv[OF mv inv]])
        show "\<forall>s \<in> set (db_jobs (moved db r (lost_attempt now) [] (?f r))). claimable now s \<longrightarrow> jr_revision s < max_safe"
        proof (intro ballI impI)
          fix s assume "s \<in> set (db_jobs (moved db r (lost_attempt now) [] (?f r)))" "claimable now s"
          then have "s \<in> set (db_jobs db)"
            using set_put_job[of s "?f r" db] recover_not_claimable[of now now r r] by (auto simp: moved_def put_job_def)
          then show "jr_revision s < max_safe" using rev \<open>claimable now s\<close> by blast
        qed
        show "\<forall>k \<in> set (db_checkpoints (moved db r (lost_attempt now) [] (?f r))). cp_revision k \<le> max_safe"
          using cps by (simp add: moved_def)
      qed
      then show ?thesis
        using run u e
        by (auto simp: Some expire_step[OF inv r run(1)] cancelExpired_def markExhausted_def recover_row_def
            split: if_splits)
    qed
  qed
qed (simp add: is_ok_def)

lemma claim_loop_none_keeps:
  assumes "claim_loop n sha w lease now db = Inr (db', None)"
    and "jobRow db i = Some r" and "jr_status r \<noteq> job_status.RUNNING"
    and "distinct (map jr_id (db_jobs db))"
  shows "jobRow db' i = Some r"
  using assms
proof (induction n arbitrary: db)
  case (Suc n)
  show ?case using Suc.prems(1)
  proof (cases rule: claim_loop_cases)
    case empty
    then show ?thesis using Suc.prems(2) by simp
  next
    case (claim row db1)
    then show ?thesis using claim_jobD[OF claim(3)] by auto
  next
    case (recover row db1 db2)
    have j: "jobRow db1 = jobRow db" by (rule jobRow_cong[OF recover(2)])
    have row: "row \<in> set (db_jobs db)" using next_claimable_SomeD[OF recover(1)] by auto
    have "i \<noteq> jr_id row" using jobRow_distinct[OF Suc.prems(4) row] Suc.prems(2,3) recover(3) by auto
    then have "jobRow db2 i = Some r" using jobRow_update[OF recover(4), of i] j Suc.prems(2) by simp
    moreover have "distinct (map jr_id (db_jobs db2))"
      using update_job_ids[OF recover(4)] recover(2) Suc.prems(4) by simp
    ultimately show ?thesis using Suc.IH[OF recover(5) _ Suc.prems(3)] by blast
  qed
qed simp

section \<open>Commands persist\<close>

lemma move_keeps_command:
  assumes "store_move sha db db'" and "commandRow db k = Some c"
  shows "commandRow db' k = Some c"
  using assms(1)
proof (cases rule: store_move.cases)
  case (Side cps cms added)
  have "find P xs = Some c \<Longrightarrow> find P (xs @ added) = Some c" for P and xs :: "command_row list"
    by (induction xs) auto
  then show ?thesis using Side assms(2) by (simp add: commandRow_def)
qed (use assms(2) in \<open>auto simp: commandRow_def put_job_def close_def\<close>)

lemma steps_keep_command:
  assumes "(store_step sha)\<^sup>*\<^sup>* db db'" "store_inv sha db" "commandRow db k = Some c"
  shows "commandRow db' k = Some c"
proof -
  have "(store_move sha)\<^sup>*\<^sup>* db db'" using steps_moves assms(1,2) by blast
  then show ?thesis by (induction rule: rtranclp_induct) (auto intro: move_keeps_command assms(3))
qed

end
