(* ===== verification/JobExample.thy ===== *)
theory JobExample
  imports JobFacts
begin

text \<open>A concrete run of the job store, on which the properties are exercised.\<close>

section \<open>A worked example\<close>

text \<open>
  One job through the store: enqueued, claimed by a worker whose lease lapses, claimed by a second
  worker, asked to cancel, and refused. The properties below are applied to it.
\<close>

definition db_of :: "job_db \<Rightarrow> store_error + job_db \<times> 'a \<Rightarrow> job_db" where
  "db_of db r = (case r of Inl _ \<Rightarrow> db | Inr (db', _) \<Rightarrow> db')"

definition value_of :: "'a \<Rightarrow> store_error + job_db \<times> 'a \<Rightarrow> 'a" where
  "value_of d r = (case r of Inl _ \<Rightarrow> d | Inr (_, x) \<Rightarrow> x)"

definition ex_sha :: "string \<Rightarrow> string" where
  "ex_sha s = replicate 64 CHR ''a''"

definition ex_request :: enqueue_request where
  "ex_request = \<lparr>eq_type = ''INDEX'', eq_key = ''key-000000000001'', eq_input = JList [JNum 1],
     eq_max = 3, eq_priority = None\<rparr>"

definition ex_cfg :: store_config where
  "ex_cfg = \<lparr>sc_lease = 30000, sc_retry = \<lparr>rp_base = 1000, rp_max = 300000, rp_jitter = 1 / 5\<rparr>\<rparr>"

definition ex_enqueue :: "store_error + job_db \<times> enqueue_status \<times> job_record" where
  "ex_enqueue = enqueue ex_sha ex_request (Some 0) ''job'' empty_db"

definition ex_db1 :: job_db where "ex_db1 = db_of empty_db ex_enqueue"

definition ex_claim1 :: "store_error + job_db \<times> job_claim option" where
  "ex_claim1 = claimNext ex_sha ex_cfg ''w1'' (Some 100) (Some 10) ex_db1"

definition ex_db2 :: job_db where "ex_db2 = db_of ex_db1 ex_claim1"

definition ex_claim2 :: "store_error + job_db \<times> job_claim option" where
  "ex_claim2 = claimNext ex_sha ex_cfg ''w2'' (Some 100) (Some 500) ex_db2"

definition ex_db3 :: job_db where "ex_db3 = db_of ex_db2 ex_claim2"

text \<open>The stores after the second claim and after the rejection, written out.\<close>

definition ex_attempts :: "attempt_row list" where
  "ex_attempts =
     [\<lparr>ar_job = ''job'', ar_id = ''job:attempt:1'', ar_number = 1,
       ar_status = LEASE_LOST, ar_worker = ''w1'', ar_fencing = 1,
       ar_lease = EXPIRED, ar_started = 10, ar_heartbeat = 10,
       ar_expires = 110, ar_finished = Some 500, ar_checkpoint = 0,
       ar_fail_code = Some ''JOB_LEASE_EXPIRED'',
       ar_fail_retryable = Some True, ar_fail_at = Some 500\<rparr>,
      \<lparr>ar_job = ''job'', ar_id = ''job:attempt:2'', ar_number = 2,
       ar_status = attempt_status.RUNNING, ar_worker = ''w2'',
       ar_fencing = 2, ar_lease = ACTIVE, ar_started = 500,
       ar_heartbeat = 500, ar_expires = 600, ar_finished = None,
       ar_checkpoint = 0, ar_fail_code = None, ar_fail_retryable = None,
       ar_fail_at = None\<rparr>]"

lemma ex_db3_value [code]:
  "ex_db3 = \<lparr>db_jobs = [(new_job ''job'' ex_request 10 (ex_sha [])
         \<lparr>sz_json = ''[1]'', sz_hash = ex_sha [], sz_value = JList [JNum 1]\<rparr> 0)
         \<lparr>jr_revision := 2, jr_status := job_status.RUNNING, jr_count := 2, jr_fencing := 2,
          jr_reason := JOB_RUNNING, jr_attempt := Some ''job:attempt:2'', jr_worker := Some ''w2'',
          jr_acquired := Some 500, jr_heartbeat := Some 500, jr_expires := Some 600,
          jr_cancel := NOT_REQUESTED, jr_requested := None, jr_resolved := None,
          jr_updated := 500, jr_transition := 500, jr_started := Some 10\<rparr>],
     db_attempts = ex_attempts, db_checkpoints = [], db_commands = [], db_closed = False\<rparr>"
  by code_simp

definition ex_ref :: lease_reference where
  "ex_ref = \<lparr>lr_jobId = ''job'', lr_attemptId = ''job:attempt:2'', lr_workerId = ''w2'', lr_fencingToken = 2\<rparr>"

definition ex_request_cancel :: "store_error + job_db \<times> cancellation_outcome \<times> job_record" where
  "ex_request_cancel = requestCancellation ex_sha ''job'' (Some 510) ex_db3"

definition ex_db4 :: job_db where "ex_db4 = db_of ex_db3 ex_request_cancel"

definition ex_reject :: "store_error + job_db \<times> job_record" where
  "ex_reject = rejectCancellation ex_sha ex_ref (Some 520) ex_db4"

definition ex_db5 :: job_db where "ex_db5 = db_of ex_db4 ex_reject"

lemma ex_db5_value [code]:
  "ex_db5 = \<lparr>db_jobs = [(new_job ''job'' ex_request 10 (ex_sha [])
         \<lparr>sz_json = ''[1]'', sz_hash = ex_sha [], sz_value = JList [JNum 1]\<rparr> 0)
         \<lparr>jr_revision := 4, jr_status := job_status.RUNNING, jr_count := 2, jr_fencing := 2,
          jr_reason := JOB_RUNNING, jr_attempt := Some ''job:attempt:2'', jr_worker := Some ''w2'',
          jr_acquired := Some 500, jr_heartbeat := Some 500, jr_expires := Some 600,
          jr_cancel := REJECTED, jr_requested := Some 510, jr_resolved := Some 520,
          jr_updated := 520, jr_transition := 500, jr_started := Some 10\<rparr>],
     db_attempts = ex_attempts, db_checkpoints = [], db_commands = [], db_closed = False\<rparr>"
  by code_simp

definition ex_succeed :: "store_error + job_db \<times> job_record" where
  "ex_succeed = succeed ex_sha ex_ref (Some 530) ex_db5"

definition ex_db6 :: job_db where "ex_db6 = db_of ex_db5 ex_succeed"

lemma db_of_Inr: "is_ok r \<Longrightarrow> \<exists>x. r = Inr (db_of db r, x)"
  by (cases r) (auto simp: is_ok_def db_of_def)

lemma ex_enqueue_ok: "is_ok ex_enqueue"
  by code_simp

lemma ex_claim1_ok: "is_ok ex_claim1"
  by code_simp

lemma ex_claim2_ok: "is_ok ex_claim2"
  by code_simp

lemma ex_request_cancel_ok: "is_ok ex_request_cancel"
  by code_simp

lemma ex_reject_ok: "is_ok ex_reject"
  by code_simp

lemma ex_succeed_ok: "is_ok ex_succeed"
  by code_simp

lemma ex_step1: "store_step ex_sha empty_db ex_db1"
  using db_of_Inr[OF ex_enqueue_ok, of empty_db] unfolding ex_db1_def[symmetric]
  by (auto simp: ex_enqueue_def intro: store_step.Enqueue)

lemma ex_step2: "store_step ex_sha ex_db1 ex_db2"
  using db_of_Inr[OF ex_claim1_ok, of ex_db1] unfolding ex_db2_def[symmetric]
  by (auto simp: ex_claim1_def intro: store_step.ClaimNext)

lemma ex_step3: "store_step ex_sha ex_db2 ex_db3"
  using db_of_Inr[OF ex_claim2_ok, of ex_db2] unfolding ex_db3_def[symmetric]
  by (auto simp: ex_claim2_def intro: store_step.ClaimNext)

lemma ex_step4: "store_step ex_sha ex_db3 ex_db4"
  using db_of_Inr[OF ex_request_cancel_ok, of ex_db3] unfolding ex_db4_def[symmetric]
  by (auto simp: ex_request_cancel_def intro: store_step.RequestCancellation)

lemma ex_step5: "store_step ex_sha ex_db4 ex_db5"
  using db_of_Inr[OF ex_reject_ok, of ex_db4] unfolding ex_db5_def[symmetric]
  by (auto simp: ex_reject_def intro: store_step.Reject)

lemma ex_step6: "store_step ex_sha ex_db5 ex_db6"
  using db_of_Inr[OF ex_succeed_ok, of ex_db5] unfolding ex_db6_def[symmetric]
  by (auto simp: ex_succeed_def intro: store_step.Succeed)

lemmas ex_reachable1 = reachable_step[OF reachable_empty ex_step1]
lemmas ex_reachable2 = reachable_step[OF ex_reachable1 ex_step2]
lemmas ex_reachable3 = reachable_step[OF ex_reachable2 ex_step3]
lemmas ex_reachable4 = reachable_step[OF ex_reachable3 ex_step4]
lemmas ex_reachable5 = reachable_step[OF ex_reachable4 ex_step5]

end
