(* ===== verification/JobProps.thy ===== *)
theory JobProps
  imports JobExample
begin

text \<open>The properties of the durable job store.\<close>

section \<open>Every operation changes statuses along the transition table\<close>

lemma clear_lease_status [simp]: "jr_status (clear_lease r) = jr_status r"
  by (simp add: clear_lease_def)

lemma row_update_status [simp]:
  "jr_status (acknowledge_row now s) = job_status.CANCELLED"
  "jr_status (succeed_row now r s) = job_status.SUCCEEDED"
  "jr_status (retry_row now due code s) = job_status.RETRY_WAIT"
  "jr_status (failed_row now code b s) = job_status.FAILED"
  "jr_status (request_row now s) = jr_status s"
  "jr_status (cancel_waiting_row now s) = job_status.CANCELLED"
  "jr_status (requeue_row m now s) = job_status.QUEUED"
  "jr_status (reject_row now s) = jr_status s"
  by (simp_all add: row_update_defs)

lemma activeLease_row: "activeLease ref now db = Inr r \<Longrightarrow> jobRow db (jr_id r) = Some r"
proof -
  assume a: "activeLease ref now db = Inr r"
  then have "jobRow db (lr_jobId ref) = Some r" by (auto simp: activeLease_def split: option.splits if_splits)
  then show "jobRow db (jr_id r) = Some r" using activeLeaseD[OF a] by simp
qed

lemma lease_op_guarded:
  assumes "activeLease ref now db = Inr r" and "db_jobs db1 = db_jobs db"
    and "update_job (jr_id r) f db1 = Inr db2" and "\<And>s. jr_id (f s) = jr_id s"
    and "canTransition jobTransitions job_status.RUNNING (jr_status (f r))"
  shows "guarded db db2"
proof -
  have "jobRow db1 (jr_id r) = Some r" using activeLease_row[OF assms(1)] jobRow_cong[OF assms(2)] by simp
  moreover have "jr_status r = job_status.RUNNING" using activeLeaseD[OF assms(1)] by simp
  ultimately have "guarded db1 db2" using update_guarded[OF assms(3,4)] assms(5) by simp
  then show ?thesis by (rule guarded_jobs_left[OF assms(2)])
qed

lemma running_moves:
  "canTransition jobTransitions job_status.RUNNING s \<longleftrightarrow> s \<in> {job_status.RUNNING, job_status.SUCCEEDED,
     job_status.FAILED, job_status.RETRY_WAIT, job_status.CANCELLED}"
  by (auto simp: canTransition_def)

lemma succeed_guarded: "succeed sha ref clock db = Inr (db', rec) \<Longrightarrow> guarded db db'"
  by (auto simp: succeed_def running_moves dest!: finish_with_db
      intro: lease_op_guarded other_tables(5))

lemma acknowledge_guarded: "acknowledgeCancellation sha ref clock db = Inr (db', rec) \<Longrightarrow> guarded db db'"
  by (auto simp: acknowledgeCancellation_def running_moves dest!: finish_with_db
      intro: lease_op_guarded other_tables(5))

lemma reject_guarded:
  assumes "rejectCancellation sha ref clock db = Inr (db', rec)"
  shows "guarded db db'"
proof -
  from assms obtain now r where l: "activeLease ref now db = Inr r"
    and u: "update_job (jr_id r) (reject_row now) db = Inr db'"
    by (auto simp: rejectCancellation_def dest!: finish_with_db)
  show ?thesis
    by (rule lease_op_guarded[OF l refl u]) (use activeLeaseD[OF l] in \<open>simp_all add: running_moves\<close>)
qed

lemma heartbeat_guarded:
  assumes "heartbeat cfg ref lease clock db = Inr (db', h)"
  shows "guarded db db'"
proof -
  from assms obtain now r ex db1 where l: "activeLease ref now db = Inr r"
    and u: "update_job (jr_id r) (\<lambda>r. r\<lparr>jr_heartbeat := Some now, jr_expires := Some ex, jr_updated := now\<rparr>) db = Inr db1"
    and a: "db_jobs db1 = db_jobs db'"
    by (auto simp: heartbeat_def dest: other_tables(1))
  have "guarded db db1"
    by (rule lease_op_guarded[OF l refl u]) (use activeLeaseD[OF l] in \<open>simp_all add: running_moves\<close>)
  then show ?thesis by (rule guarded_jobs_right[OF a])
qed

lemma saveCheckpoint_guarded:
  assumes "saveCheckpoint sha ref data p clock db = Inr (db', k)"
  shows "guarded db db'"
proof -
  from assms obtain now r q cp n db1 db2 where l: "activeLease ref now db = Inr r"
    and cp: "upsert_checkpoint cp db = Inr db1"
    and u: "update_job (jr_id r) (\<lambda>r. r\<lparr>jr_revision := jr_revision r + 1, jr_progress := q, jr_updated := now\<rparr>) db1 = Inr db2"
    and at: "update_attempts (\<lambda>a. ar_id a = lr_attemptId ref) (\<lambda>a. a\<lparr>ar_checkpoint := n\<rparr>) db2 = Inr db'"
    unfolding saveCheckpoint_def Let_def and_then_Inr_iff by blast
  note c = other_tables(3)[OF cp] and a = other_tables(1)[OF at, symmetric]
  have "guarded db db2"
    by (rule lease_op_guarded[OF l c u]) (use activeLeaseD[OF l] in \<open>simp_all add: running_moves\<close>)
  then show ?thesis by (rule guarded_jobs_right[OF a])
qed

lemma fail_guarded:
  assumes "fail_job sha cfg ref code retryable sample clock db = Inr (db', rec)"
  shows "guarded db db'"
proof -
  from assms obtain now r where l: "activeLease ref now db = Inr r"
    and u: "fail_update cfg ref code retryable sample now r db = Inr db'"
    by (auto simp: fail_job_def dest!: finish_with_db)
  have t: "guarded db db'" if "finishAttempt ref st now failure db = Inr db1"
    "update_job (jr_id r) f db1 = Inr db'" "\<And>s. jr_id (f s) = jr_id s"
    "jr_status (f r) \<in> {job_status.FAILED, job_status.RETRY_WAIT, job_status.CANCELLED}" for st failure db1 f
    using lease_op_guarded[OF l other_tables(5)[OF that(1)] that(2,3)] that(4) by (auto simp: running_moves)
  show ?thesis using u unfolding fail_update_def
    by (auto split: if_splits intro: t)
qed

lemma record_command_jobs:
  "record_command action req fp now row db1 d = Inr (db', co) \<Longrightarrow> db_jobs db' = db_jobs db1"
  by (auto simp: record_command_def dest: other_tables(4))

lemma operator_guarded:
  assumes "operatorCommand sha action req clock f db = Inr (db', co)"
    and "\<And>row now db1 d. jobRow db (jr_id row) = Some row \<Longrightarrow> f row now db = Inr (db1, d) \<Longrightarrow> guarded db db1"
  shows "guarded db db'"
proof (cases "commandRow db (cq_key req)")
  case (Some c)
  then show ?thesis using assms(1)
    by (auto simp: operatorCommand_def replay_command_def)
next
  case None
  then obtain row fp now db1 d where row: "jobRow db (cq_jobId req) = Some row"
    and f: "f row now db = Inr (db1, d)"
    and r: "record_command action req fp now row db1 d = Inr (db', co)"
    using assms(1) unfolding operatorCommand_def record_command_def[symmetric]
    by (auto split: option.splits)
  have "jobRow db (jr_id row) = Some row" using row jobRow_SomeD[OF row] by simp
  then have "guarded db db1" using f by (rule assms(2))
  then show ?thesis using guarded_jobs_right[of db1 db'] record_command_jobs[OF r] by simp
qed

lemma cancel_guarded:
  assumes "cancel sha req clock db = Inr (db', co)"
  shows "guarded db db'"
  using assms unfolding cancel_def
proof (rule operator_guarded)
  fix row now db1 d
  assume row: "jobRow db (jr_id row) = Some row" and f: "cancel_apply row now db = Inr (db1, d)"
  have t: "canTransition jobTransitions (jr_status row) job_status.CANCELLED"
    if "\<not> terminal (jr_status row)"
    using that by (cases "jr_status row") (auto simp: terminal_def canTransition_def)
  have "canTransition jobTransitions (jr_status row) (jr_status row)" by (simp add: canTransition_def)
  with f row t show "guarded db db1"
    by (auto simp: cancel_apply_def split: if_splits intro: update_guarded)
qed

lemma retry_guarded:
  assumes "manualRetry sha req clock db = Inr (db', co)"
  shows "guarded db db'"
  using assms unfolding manualRetry_def
proof (rule operator_guarded)
  fix row now db1 d
  assume row: "jobRow db (jr_id row) = Some row" and f: "retry_apply row now db = Inr (db1, d)"
  then have "jr_status row = job_status.RETRY_WAIT \<or> jr_status row = job_status.FAILED"
    by (auto simp: retry_apply_def Let_def split: if_splits)
  then have t: "canTransition jobTransitions (jr_status row) job_status.QUEUED" by (auto simp: canTransition_def)
  from f obtain m where "update_job (jr_id row) (requeue_row m now) db = Inr db1"
    by (auto simp: retry_apply_def Let_def split: if_splits)
  then show "guarded db db1" using row t by (auto intro: update_guarded)
qed

lemma requestCancellation_guarded:
  assumes "requestCancellation sha i clock db = Inr (db', out)"
  shows "guarded db db'"
proof -
  from assms obtain row where row: "jobRow db i = Some row"
    by (cases "jobRow db i") (simp_all add: requestCancellation_def)
  then obtain now where c: "db' = db \<or> (\<not> terminal (jr_status row)
       \<and> (update_job (jr_id row) (request_row now) db = Inr db' \<or> update_job (jr_id row) (cancel_waiting_row now) db = Inr db'))"
    using assms unfolding requestCancellation_def Let_def
    by (cases "terminal (jr_status row)"; cases "jr_cancel row"; cases "jr_status row = job_status.RUNNING")
       (auto dest!: finish_with_db)
  have own: "jobRow db (jr_id row) = Some row" using row jobRow_SomeD[OF row] by simp
  have "canTransition jobTransitions (jr_status row) job_status.CANCELLED" if "\<not> terminal (jr_status row)"
    using that by (cases "jr_status row") (auto simp: terminal_def canTransition_def)
  moreover have "canTransition jobTransitions (jr_status row) (jr_status row)" by (simp add: canTransition_def)
  ultimately show ?thesis using c own by (auto intro: update_guarded)
qed

lemma enqueue_guarded:
  assumes "enqueue sha req clock jobId db = Inr (db', x)"
  shows "guarded db db'"
proof (cases "jobRowByKey db (eq_key req)")
  case None
  then obtain r where "db' = db\<lparr>db_jobs := db_jobs db @ [r]\<rparr>"
    using assms by (auto simp: enqueue_def Let_def insert_job_def dest!: finish_with_db)
  then show ?thesis using jobRow_append by (fastforce simp: guarded_def canTransition_def)
next
  case (Some r)
  then obtain fp p now where e: "enqueue_existing sha r fp p now db = Inr (db', x)"
    using assms by (auto simp: enqueue_def Let_def)
  then consider "db' = db"
    | "update_job (jr_id r) (\<lambda>r. r\<lparr>jr_priority := p, jr_updated := now\<rparr>) db = Inr db'"
    by (auto simp: enqueue_existing_def split: if_splits dest!: finish_with_db)
  then show ?thesis
  proof cases
    case 2
    have "guarded db db'" unfolding guarded_def
    proof (intro allI impI)
      fix j s assume "jobRow db j = Some s"
      then show "\<exists>r'. jobRow db' j = Some r' \<and> canTransition jobTransitions (jr_status s) (jr_status r')"
        using jobRow_update[OF 2, of j] by (auto simp: canTransition_def)
    qed
    then show ?thesis .
  qed simp
qed

lemma claimNext_guarded:
  "claimNext sha cfg w lease clock db = Inr (db', c) \<Longrightarrow> distinct (map jr_id (db_jobs db)) \<Longrightarrow> guarded db db'"
  by (auto simp: claimNext_def intro: claim_loop_guarded)

lemma step_guarded:
  assumes "store_step sha db db'" and "store_inv sha db"
  shows "guarded db db'"
  using assms(1)
proof (cases rule: store_step.cases)
  case (ClaimNext cfg w lease clock c)
  then show ?thesis using claimNext_guarded assms(2) by (auto simp: store_inv_def)
next
  case Close
  then show ?thesis by (auto simp: close_def intro: guarded_jobs)
qed (auto intro: enqueue_guarded heartbeat_guarded saveCheckpoint_guarded succeed_guarded fail_guarded
    cancel_guarded retry_guarded requestCancellation_guarded acknowledge_guarded reject_guarded)

section \<open>Lemmas behind the properties\<close>

lemma claimNextD:
  assumes "claimNext sha cfg w lease clock db = Inr (db', out)"
  obtains now where "clock = Some now" "valid_date now" "safeId 200 w"
    "claim_loop 100 sha w (lease_or_default cfg lease) now db = Inr (db', out)"
    "10 \<le> lease_or_default cfg lease"
  using assms unfolding claimNext_def
  by (auto simp: clock_now_def validateLeaseMs_def split: option.splits if_splits
      dest: validIdentifier_safeId)

lemma claim_token:
  assumes "store_inv sha db" and "claimNext sha cfg w lease clock db = Inr (db', Some c)"
  shows "\<exists>r r'. jobRow db (cl_jobId c) = Some r \<and> jr_fencing r < cl_fencingToken c
      \<and> jobRow db' (cl_jobId c) = Some r' \<and> jr_fencing r' = cl_fencingToken c"
proof -
  from assms(2) obtain now where "claim_loop 100 sha w (lease_or_default cfg lease) now db = Inr (db', Some c)"
    by (rule claimNextD)
  from claim_loop_acquired[OF this] assms(1) show ?thesis by (auto simp: store_inv_def claim_row_def)
qed

lemma fencing_lost:
  assumes "jobRow db (lr_jobId ref) = Some r" and "lr_fencingToken ref < jr_fencing r"
  shows "activeLease ref now db = Inl LeaseLost"
  using assms by (simp add: activeLease_def)

text \<open>A reference whose lease is lost can do nothing: every operation that takes one refuses.\<close>

definition lease_refused :: "(string \<Rightarrow> string) \<Rightarrow> lease_reference \<Rightarrow> job_db \<Rightarrow> bool" where
  "lease_refused sha ref db \<longleftrightarrow>
     (\<forall>cfg lease clock data p code retryable sample.
        \<not> is_ok (heartbeat cfg ref lease clock db)
      \<and> \<not> is_ok (saveCheckpoint sha ref data p clock db)
      \<and> \<not> is_ok (isCancellationRequested ref clock db)
      \<and> \<not> is_ok (succeed sha ref clock db)
      \<and> \<not> is_ok (fail_job sha cfg ref code retryable sample clock db)
      \<and> \<not> is_ok (acknowledgeCancellation sha ref clock db)
      \<and> \<not> is_ok (rejectCancellation sha ref clock db))"

lemma lost_refused:
  assumes "\<And>now. activeLease ref now db = Inl LeaseLost"
  shows "lease_refused sha ref db"
  using assms
  by (auto simp: lease_refused_def is_ok_iff heartbeat_def saveCheckpoint_def isCancellationRequested_def
      succeed_def fail_job_def acknowledgeCancellation_def rejectCancellation_def)

lemma jobRowByKey_unique:
  assumes "store_inv sha db" "r \<in> set (db_jobs db)"
  shows "jobRowByKey db (jr_key r) = Some r"
  unfolding jobRowByKey_def using assms by (intro find_unique) (auto simp: store_inv_def)

lemma record_jobId: "record_of sha db r = Inr rec \<Longrightarrow> js_jobId (rc_snapshot rec) = jr_id r"
  by (auto simp: record_of_def snapshot_def snapshot_value_def Let_def)

lemma finish_jobId:
  "finish_with sha db i = Inr (db', rec) \<Longrightarrow> db' = db \<and> js_jobId (rc_snapshot rec) = i"
  by (auto simp: finish_with_def require_job_def split: option.splits dest!: record_jobId jobRow_SomeD)

lemma enqueue_existingD:
  assumes "enqueue sha req clock i db = Inr (db', st, rec)" and "jobRowByKey db (eq_key req) = Some r"
  shows "st = EXISTING \<and> js_jobId (rc_snapshot rec) = jr_id r
      \<and> map jr_id (db_jobs db') = map jr_id (db_jobs db) \<and> db_attempts db' = db_attempts db"
proof -
  obtain fp p now where e: "enqueue_existing sha r fp p now db = Inr (db', st, rec)"
    using assms by (auto simp: enqueue_def Let_def)
  then show ?thesis
    by (auto simp: enqueue_existing_def update_job_def split: if_splits
        dest!: finish_jobId record_jobId)
qed

lemma enqueue_createdD:
  assumes "enqueue sha req clock i db = Inr (db', CREATED, rec)"
  shows "js_jobId (rc_snapshot rec) = i \<and> (\<exists>r. r \<in> set (db_jobs db') \<and> jr_id r = i \<and> jr_key r = eq_key req)"
proof (cases "jobRowByKey db (eq_key req)")
  case (Some r)
  then show ?thesis using enqueue_existingD[OF assms Some] by simp
next
  case None
  with assms obtain p fp z now db1 where
    "insert_job (new_job i req p fp z now) db = Inr db1" "finish_with sha db1 i = Inr (db', rec)"
    by (auto simp: enqueue_def Let_def)
  then show ?thesis using finish_jobId
    by (fastforce simp: insert_job_def new_job_def)
qed

lemma operator_recorded:
  assumes "operatorCommand sha action req clock f db = Inr (db', co)"
  shows "\<exists>c fp. commandRow db' (cq_key req) = Some c \<and> cm_fingerprint c = fp
      \<and> command_fingerprint sha action req = Inr fp"
proof (cases "commandRow db (cq_key req)")
  case (Some c)
  then show ?thesis using assms by (auto simp: operatorCommand_def replay_command_def)
next
  case None
  from None assms obtain row fp now db1 d where fp: "command_fingerprint sha action req = Inr fp"
    and r: "record_command action req fp now row db1 d = Inr (db', co)"
    unfolding operatorCommand_def record_command_def[symmetric] by (auto split: option.splits)
  from r obtain n where ins: "insert_command \<lparr>cm_key = cq_key req, cm_fingerprint = fp, cm_job = jr_id row,
      cm_action = action, cm_disposition = d, cm_expected = cq_expectedRevision req,
      cm_revision_after = n, cm_created = now\<rparr> db1 = Inr db'" (is "insert_command ?c db1 = _")
    by (auto simp: record_command_def)
  have "find P (xs @ [y]) = Some y" if "P y" "\<forall>x \<in> set xs. \<not> P x" for P and y :: command_row and xs
    using that by (induction xs) auto
  moreover have "\<forall>x \<in> set (db_commands db1). cm_key x \<noteq> cq_key req"
    using ins by (auto simp: insert_command_def image_iff)
  ultimately have "find (\<lambda>c. cm_key c = cq_key req) (db_commands db1 @ [?c]) = Some ?c" by simp
  then have "commandRow db' (cq_key req) = Some ?c"
    using ins by (auto simp: insert_command_def commandRow_def)
  then show ?thesis using fp by auto
qed

lemma operator_replay:
  assumes "operatorCommand sha action req clock f db = Inr (db', co)"
    and "commandRow db (cq_key req) = Some c"
  shows "db' = db \<and> co_disposition co = REPLAYED \<and> co_action co = cm_action c"
  using assms by (auto simp: operatorCommand_def replay_command_def)

lemma operator_conflict:
  assumes "commandRow db (cq_key req) = Some c" and "command_fingerprint sha action req = Inr fp"
    and "cm_fingerprint c \<noteq> fp"
  shows "\<not> is_ok (operatorCommand sha action req clock f db)"
  using assms by (auto simp: operatorCommand_def replay_command_def is_ok_iff)

lemma refines_no_fault: "refines sha db r \<Longrightarrow> no_fault r"
  by (simp add: refines_def)

lemma db_of_eq: "r = Inr (db', x) \<Longrightarrow> db_of db r = db'"
  by (simp add: db_of_def)

lemma claimed_result:
  "value_of None r \<noteq> None \<Longrightarrow> r = Inr (db_of db r, Some (the (value_of None r)))"
  by (cases r) (auto simp: value_of_def db_of_def)

lemma queued_claim:
  assumes "store_reachable sha db" and "hex_hash sha" and "\<not> db_closed db"
    and "safeId 200 w" and "bounded 10 3600000 (lease_or_default cfg lease)"
    and "valid_date now" and "valid_date (now + lease_or_default cfg lease)"
    and "\<forall>r \<in> set (db_jobs db). jr_revision r < max_safe"
    and "\<forall>k \<in> set (db_checkpoints db). cp_revision k \<le> max_safe"
    and "length (lapsed now db) < 100"
    and "q \<in> set (db_jobs db)" and "jr_status q = job_status.QUEUED"
  shows "\<exists>db' c. claimNext sha cfg w lease (Some now) db = Inr (db', Some c)"
proof -
  note inv = reachable_inv[OF assms(1)]
  let ?l = "lease_or_default cfg lease"
  have "validateIdentifier w ArgWorkerId 200 = Inr ()"
    using assms(4) by (auto simp: validateIdentifier_def safeId_def)
  moreover have "validateLeaseMs ?l = Inr ()"
    using assms(5) by (auto simp: validateLeaseMs_def bounded_def)
  ultimately have e: "claimNext sha cfg w lease (Some now) db = claim_loop 100 sha w ?l now db"
    using assms(3,6) by (simp add: claimNext_def assert_open_def clock_now_def)
  have "is_ok (claim_loop 100 sha w ?l now db)"
    using assms(8,9) by (intro claim_loop_total[OF assms(2,7,4) inv]) auto
  then obtain db' out where r: "claim_loop 100 sha w ?l now db = Inr (db', out)" by (auto simp: is_ok_iff)
  show ?thesis
  proof (cases out)
    case None
    have d: "distinct (map jr_id (db_jobs db))" using inv by (simp add: store_inv_def)
    have none: "\<forall>r \<in> set (db_jobs db'). \<not> claimable now r"
      using claim_loop_empty[OF r[unfolded None] assms(10)] by (simp add: next_claimable_None)
    have "jobRow db' (jr_id q) = Some q"
      by (rule claim_loop_none_keeps[OF r[unfolded None] jobRow_distinct[OF d assms(11)] _ d])
         (simp add: assms(12))
    then have "\<not> claimable now q" using none jobRow_SomeD by blast
    then show ?thesis using assms(12) by (simp add: claimable_def)
  qed (use r e in simp)
qed

section \<open>Properties\<close>

text \<open>
  C2: In every store reached from the empty database by any sequence of successful operations, the
  attempt rows of each job are numbered 1, 2, ... up to the job's attempt count, which equals its
  fencing token and never exceeds \<open>max_attempts <= 1000\<close>; an attempt is \<open>RUNNING\<close> exactly when its
  job is and it is the job's latest, under the worker the job row names; and a waiting job has an
  attempt left.
\<close>

theorem attempt_history:
  assumes "store_reachable sha db" and "r \<in> set (db_jobs db)"
  shows "map ar_number (attempts_of (jr_id r) (db_attempts db)) = [1..jr_count r]
    \<and> jr_fencing r = jr_count r \<and> jr_count r \<le> jr_max r \<and> jr_max r \<le> 1000
    \<and> (\<forall>a \<in> set (attempts_of (jr_id r) (db_attempts db)).
         ar_id a = attempt_id (jr_id r) (ar_number a) \<and> ar_fencing a = ar_number a
       \<and> (ar_status a = attempt_status.RUNNING
            \<longleftrightarrow> jr_status r = job_status.RUNNING \<and> ar_number a = jr_count r)
       \<and> (ar_status a = attempt_status.RUNNING \<longrightarrow> jr_worker r = Some (ar_worker a)))
    \<and> (jr_status r \<in> {job_status.QUEUED, job_status.RETRY_WAIT} \<longrightarrow> jr_count r < jr_max r)"
proof -
  note inv = reachable_inv[OF assms(1)]
  have row: "row_inv sha r" and link: "job_link r (db_attempts db)"
    and atts: "\<forall>a \<in> set (db_attempts db). attempt_inv a"
    using store_invD[OF inv assms(2)] by auto
  have "ar_id a = attempt_id (jr_id r) (ar_number a) \<and> ar_fencing a = ar_number a"
    if "a \<in> set (attempts_of (jr_id r) (db_attempts db))" for a
    using that atts by (auto simp: attempt_inv_def)
  then show ?thesis
    using row link by (auto simp: row_inv_def job_check_def schedule_inv_def job_link_def)
qed

lemma attempt_history_witness:
  "map ar_number (attempts_of (jr_id (hd (db_jobs ex_db3))) (db_attempts ex_db3))
     = [1..jr_count (hd (db_jobs ex_db3))]"
proof -
  have "db_jobs ex_db3 \<noteq> []" by code_simp
  then show ?thesis using attempt_history[OF ex_reachable3, of "hd (db_jobs ex_db3)"] by simp
qed

text \<open>
  C3: No operation on a reachable store violates a \<open>CHECK\<close>, \<open>UNIQUE\<close> or foreign-key constraint of the
  schema, finds a row it relies on missing, or fails the integrity check of stored JSON; for
  \<open>enqueue\<close> this supposes that the id factory gives a new job an unused id.
\<close>

theorem no_internal_faults:
  assumes "store_reachable sha db"
    and "jobRowByKey db (eq_key req) = None \<Longrightarrow> i \<notin> jr_id ` set (db_jobs db)"
  shows "no_fault (enqueue sha req clock i db)
    \<and> no_fault (claimNext sha cfg w lease clock db)
    \<and> no_fault (heartbeat cfg ref lease clock db)
    \<and> no_fault (saveCheckpoint sha ref data p clock db)
    \<and> no_fault (succeed sha ref clock db)
    \<and> no_fault (fail_job sha cfg ref code retryable sample clock db)
    \<and> no_fault (cancel sha cq clock db)
    \<and> no_fault (manualRetry sha cq clock db)
    \<and> no_fault (requestCancellation sha j clock db)
    \<and> no_fault (acknowledgeCancellation sha ref clock db)
    \<and> no_fault (rejectCancellation sha ref clock db)"
proof -
  note inv = reachable_inv[OF assms(1)]
  show ?thesis
    by (intro conjI; rule refines_no_fault[of sha db])
       (rule enqueue_refines[OF inv assms(2)], assumption, (rule operation_refines[OF inv])+)
qed

lemma no_internal_faults_witness:
  "no_fault (enqueue ex_sha ex_request (Some 5) ''other'' ex_db3)"
proof (rule no_internal_faults[OF ex_reachable3, THEN conjunct1])
  have "jobRowByKey ex_db3 (eq_key ex_request) \<noteq> None" by code_simp
  then show "jobRowByKey ex_db3 (eq_key ex_request) = None \<Longrightarrow> ''other'' \<notin> jr_id ` set (db_jobs ex_db3)"
    by simp
qed

text \<open>
  C1: Fencing. When a job is claimed a second time, at any later point, the new claim carries a
  strictly larger fencing token, and from then on, whatever happens to the store, the first
  claim's reference is refused by every operation that takes a lease: heartbeat, checkpoint,
  cancellation query, success, failure and both cancellation answers.
\<close>

theorem fencing:
  assumes "store_reachable sha db0"
    and first: "claimNext sha cfg w lease clock db0 = Inr (db1, Some c)"
    and "(store_step sha)\<^sup>*\<^sup>* db1 db2"
    and second: "claimNext sha cfg' w' lease' clock' db2 = Inr (db3, Some c')"
    and same: "cl_jobId c' = cl_jobId c"
    and "(store_step sha)\<^sup>*\<^sup>* db3 db4"
  shows "cl_fencingToken c < cl_fencingToken c' \<and> lease_refused sha (claim_reference c) db4"
proof -
  have inv0: "store_inv sha db0" by (rule reachable_inv[OF assms(1)])
  have inv1: "store_inv sha db1" by (rule step_inv[OF store_step.ClaimNext[OF first] inv0])
  have inv2: "store_inv sha db2" by (rule steps_inv[OF assms(3) inv1])
  have inv3: "store_inv sha db3" by (rule step_inv[OF store_step.ClaimNext[OF second] inv2])
  obtain r1 where r1: "jobRow db1 (cl_jobId c) = Some r1" "jr_fencing r1 = cl_fencingToken c"
    using claim_token[OF inv0 first] by blast
  obtain s2 s3 where s2: "jobRow db2 (cl_jobId c) = Some s2" "jr_fencing s2 < cl_fencingToken c'"
    and s3: "jobRow db3 (cl_jobId c) = Some s3" "jr_fencing s3 = cl_fencingToken c'"
    using claim_token[OF inv2 second] same by auto
  have "jr_fencing r1 \<le> jr_fencing s2"
    using steps_evolve[OF assms(3) inv1 r1(1)] s2(1) by (auto simp: evolves_def)
  then have lt: "cl_fencingToken c < cl_fencingToken c'" using r1 s2 by simp
  obtain r4 where r4: "jobRow db4 (cl_jobId c) = Some r4" "jr_fencing s3 \<le> jr_fencing r4"
    using steps_evolve[OF assms(6) inv3 s3(1)] by (auto simp: evolves_def)
  have "activeLease (claim_reference c) now db4 = Inl LeaseLost" for now
    by (rule fencing_lost[where r = r4]) (use r4 lt s3 in \<open>simp_all add: claim_reference_def\<close>)
  then show ?thesis using lt lost_refused by blast
qed

definition ex_c1 :: job_claim where "ex_c1 = the (value_of None ex_claim1)"

definition ex_c2 :: job_claim where "ex_c2 = the (value_of None ex_claim2)"

lemma fencing_witness:
  "cl_fencingToken ex_c1 < cl_fencingToken ex_c2 \<and> lease_refused ex_sha (claim_reference ex_c1) ex_db5"
proof -
  have "value_of None ex_claim1 \<noteq> None" "value_of None ex_claim2 \<noteq> None" by code_simp+
  then have e1: "ex_claim1 = Inr (ex_db2, Some ex_c1)" and e2: "ex_claim2 = Inr (ex_db3, Some ex_c2)"
    unfolding ex_db2_def ex_db3_def ex_c1_def ex_c2_def by (intro claimed_result; simp)+
  have same: "cl_jobId ex_c2 = cl_jobId ex_c1" by code_simp
  have later: "(store_step ex_sha)\<^sup>*\<^sup>* ex_db3 ex_db5"
    using ex_step4 ex_step5 by (blast intro: converse_rtranclp_into_rtranclp)
  show ?thesis
    by (rule fencing[OF ex_reachable1 e1[unfolded ex_claim1_def] rtranclp.rtrancl_refl
          e2[unfolded ex_claim2_def] same later])
qed

text \<open>
  C4: Every operation moves the status of every job along the control API's transition table:
  after one step a job is still there and its status is unchanged or one the table
  \<open>jobTransitions\<close> allows from the old one.
\<close>

theorem status_follows_table:
  assumes "store_reachable sha db" and "store_step sha db db'" and "jobRow db i = Some r"
  shows "\<exists>r'. jobRow db' i = Some r' \<and> canTransition jobTransitions (jr_status r) (jr_status r')"
  using step_guarded[OF assms(2) reachable_inv[OF assms(1)]] assms(3) by (simp add: guarded_def)

lemma status_follows_table_witness:
  "\<exists>r'. jobRow ex_db6 ''job'' = Some r'
     \<and> canTransition jobTransitions (jr_status (the (jobRow ex_db5 ''job''))) (jr_status r')"
proof -
  have "jobRow ex_db5 ''job'' \<noteq> None" by code_simp
  then show ?thesis using status_follows_table[OF ex_reachable5 ex_step6, of "''job''"] by auto
qed

text \<open>
  A job that has succeeded or been cancelled is never changed again, by any later sequence of
  operations. In any state, a job's identity and input stay fixed and its attempt count, fencing
  token, revision, progress and attempt limit never decrease.
\<close>

theorem rows_only_advance:
  assumes "store_reachable sha db" and "(store_step sha)\<^sup>*\<^sup>* db db'" and "jobRow db i = Some r"
  shows "\<exists>r'. jobRow db' i = Some r'
    \<and> (jr_status r = job_status.SUCCEEDED \<or> jr_status r = job_status.CANCELLED \<longrightarrow> r' = r)
    \<and> jr_id r' = jr_id r \<and> jr_key r' = jr_key r \<and> jr_type r' = jr_type r \<and> jr_input r' = jr_input r
    \<and> jr_count r \<le> jr_count r' \<and> jr_fencing r \<le> jr_fencing r' \<and> jr_revision r \<le> jr_revision r'
    \<and> jr_progress r \<le> jr_progress r' \<and> jr_max r \<le> jr_max r'"
  using steps_evolve[OF assms(2) reachable_inv[OF assms(1)] assms(3)] by (auto simp: evolves_def)

lemma rows_only_advance_witness:
  "\<exists>r'. jobRow ex_db6 ''job'' = Some r' \<and> jr_fencing (the (jobRow ex_db2 ''job'')) \<le> jr_fencing r'"
proof -
  have "jobRow ex_db2 ''job'' \<noteq> None" by code_simp
  moreover have "(store_step ex_sha)\<^sup>*\<^sup>* ex_db2 ex_db6"
    using ex_step3 ex_step4 ex_step5 ex_step6 by (blast intro: converse_rtranclp_into_rtranclp)
  ultimately show ?thesis using rows_only_advance[OF ex_reachable2, of ex_db6 "''job''"] by auto
qed

text \<open>
  What a claim takes. A claim that returns a job returns one that could be claimed when the call
  began (queued, waiting past its due time, or running past its lease), hands out the next fencing
  token and attempt id, and leaves the row running under the caller until \<open>now + leaseMs\<close>; every
  other claimable job the call left alone comes after it in the order: lapsed leases first, then
  priority, then due time, then age, then id.
\<close>

theorem claim_takes_least:
  assumes "store_reachable sha db"
    and "claimNext sha cfg w lease (Some now) db = Inr (db', Some c)"
  shows "\<exists>r. jobRow db (cl_jobId c) = Some r \<and> claimable now r
    \<and> cl_fencingToken c = jr_fencing r + 1 \<and> cl_attemptId c = attempt_id (jr_id r) (jr_count r + 1)
    \<and> jobRow db' (cl_jobId c) = Some (claim_row r w now (now + lease_or_default cfg lease) r)
    \<and> cl_workerId c = w
    \<and> (\<forall>s \<in> set (db_jobs db). claimable now s \<and> jobRow db' (jr_id s) = Some s \<longrightarrow> claim_le r s)"
proof -
  have d: "distinct (map jr_id (db_jobs db))"
    using reachable_inv[OF assms(1)] by (simp add: store_inv_def)
  from assms(2) have "claim_loop 100 sha w (lease_or_default cfg lease) now db = Inr (db', Some c)"
    by (rule claimNextD) simp
  from claim_loop_acquired[OF this d] show ?thesis .
qed

lemma claim_takes_least_witness:
  "\<exists>r. jobRow ex_db2 ''job'' = Some r \<and> claimable 500 r \<and> cl_fencingToken ex_c2 = jr_fencing r + 1"
proof -
  have e: "claimNext ex_sha ex_cfg ''w2'' (Some 100) (Some 500) ex_db2 = Inr (ex_db3, Some ex_c2)"
  proof -
    have "value_of None ex_claim2 \<noteq> None" by code_simp
    then show ?thesis unfolding ex_claim2_def[symmetric] ex_db3_def ex_c2_def by (rule claimed_result)
  qed
  have "cl_jobId ex_c2 = ''job''" by code_simp
  then show ?thesis using claim_takes_least[OF ex_reachable2 e] by auto
qed

text \<open>
  \<open>EMPTY\<close> is not returned while work remains. If fewer than 100 leases have lapsed (the bound of
  the recovery loop) and a claim returns nothing, then no job of the resulting store can be
  claimed; and in particular no queued job and no waiting job that was due existed.
\<close>

theorem empty_means_nothing_claimable:
  assumes "store_reachable sha db"
    and "claimNext sha cfg w lease (Some now) db = Inr (db', None)"
    and "length (lapsed now db) < 100"
  shows "(\<forall>r \<in> set (db_jobs db'). \<not> claimable now r)
    \<and> (\<forall>r \<in> set (db_jobs db). jr_status r \<noteq> job_status.RUNNING \<longrightarrow> \<not> claimable now r)"
proof -
  have d: "distinct (map jr_id (db_jobs db))"
    using reachable_inv[OF assms(1)] by (simp add: store_inv_def)
  from assms(2) have l: "claim_loop 100 sha w (lease_or_default cfg lease) now db = Inr (db', None)"
    by (rule claimNextD) simp
  have none: "\<forall>r \<in> set (db_jobs db'). \<not> claimable now r"
    using claim_loop_empty[OF l assms(3)] by (simp add: next_claimable_None)
  moreover have "\<not> claimable now r" if "r \<in> set (db_jobs db)" "jr_status r \<noteq> job_status.RUNNING" for r
    using claim_loop_none_keeps[OF l jobRow_distinct[OF d that(1)] that(2) d] none jobRow_SomeD by blast
  ultimately show ?thesis by blast
qed

lemma empty_means_nothing_claimable_witness:
  "\<exists>db'. claimNext ex_sha ex_cfg ''w3'' None (Some 510) ex_db3 = Inr (db', None)
     \<and> filter (claimable 510) (db_jobs db') = []"
proof -
  let ?r = "claimNext ex_sha ex_cfg ''w3'' None (Some 510) ex_db3"
  have "(case ?r of Inl _ \<Rightarrow> False | Inr (_, out) \<Rightarrow> out = None)" by code_simp
  then obtain db' where "?r = Inr (db', None)" by (auto split: sum.splits prod.splits)
  moreover have "length (lapsed 510 ex_db3) < 100" by code_simp
  ultimately show ?thesis
    using empty_means_nothing_claimable[OF ex_reachable3] by (auto simp: filter_empty_conv)
qed

text \<open>
  C6: Liveness of claiming. With a queued job in the store, fewer than 100 lapsed leases, a valid
  worker id, lease and clock, and revisions within the safe-integer range the snapshot schema
  admits, a claim always returns a job (the hash function producing 64 lower-case hex digits).
\<close>

theorem queued_job_is_claimed:
  assumes "store_reachable sha db" and "hex_hash sha" and "\<not> db_closed db"
    and "safeId 200 w" and "bounded 10 3600000 (lease_or_default cfg lease)"
    and "valid_date now" and "valid_date (now + lease_or_default cfg lease)"
    and "\<forall>r \<in> set (db_jobs db). jr_revision r < max_safe"
    and "\<forall>k \<in> set (db_checkpoints db). cp_revision k \<le> max_safe"
    and "length (lapsed now db) < 100"
    and "q \<in> set (db_jobs db)" and "jr_status q = job_status.QUEUED"
  shows "\<exists>db' c. claimNext sha cfg w lease (Some now) db = Inr (db', Some c)"
  by (rule queued_claim[OF assms])

lemma queued_job_is_claimed_witness:
  "\<exists>db' c. claimNext ex_sha ex_cfg ''w9'' None (Some 7) ex_db1 = Inr (db', Some c)"
proof (rule queued_job_is_claimed[OF ex_reachable1, where q = "hd (db_jobs ex_db1)"])
  show "hex_hash ex_sha"
  proof -
    have "sha256_ok (ex_sha [])" by code_simp
    then show ?thesis by (simp add: hex_hash_def ex_sha_def)
  qed
  have "db_jobs ex_db1 \<noteq> []" by code_simp
  then show "hd (db_jobs ex_db1) \<in> set (db_jobs ex_db1)" by simp
qed code_simp+

text \<open>
  Enqueueing is idempotent. Once a request has created a job, the same idempotency key never
  creates another: any later successful \<open>enqueue\<close> under that key, however much later and whatever
  id the factory offers, returns \<open>EXISTING\<close> with the same job id and adds neither a job nor an
  attempt.
\<close>

theorem enqueue_once:
  assumes "store_reachable sha db0"
    and "enqueue sha req clock i db0 = Inr (db1, CREATED, rec)"
    and "(store_step sha)\<^sup>*\<^sup>* db1 db2"
    and "enqueue sha req' clock' i' db2 = Inr (db3, st, rec')" and "eq_key req' = eq_key req"
  shows "st = EXISTING \<and> js_jobId (rc_snapshot rec') = js_jobId (rc_snapshot rec)
    \<and> map jr_id (db_jobs db3) = map jr_id (db_jobs db2) \<and> db_attempts db3 = db_attempts db2"
proof -
  have inv1: "store_inv sha db1"
    by (rule step_inv[OF store_step.Enqueue[OF assms(2)] reachable_inv[OF assms(1)]])
  have inv2: "store_inv sha db2" by (rule steps_inv[OF assms(3) inv1])
  obtain r where r: "js_jobId (rc_snapshot rec) = i" "r \<in> set (db_jobs db1)" "jr_id r = i" "jr_key r = eq_key req"
    using enqueue_createdD[OF assms(2)] by blast
  obtain r' where r': "jobRow db2 i = Some r'" "evolves r r'"
    using steps_evolve[OF assms(3) inv1 jobRow_eq[OF inv1 r(2)]] r(3) by auto
  have "jobRowByKey db2 (jr_key r') = Some r'"
    by (rule jobRowByKey_unique[OF inv2]) (use jobRow_SomeD[OF r'(1)] in simp)
  moreover have "jr_key r' = eq_key req'" using r' r(4) assms(5) by (simp add: evolves_def)
  ultimately have "jobRowByKey db2 (eq_key req') = Some r'" by simp
  from enqueue_existingD[OF assms(4) this] show ?thesis using jobRow_SomeD[OF r'(1)] r(1) by simp
qed

definition ex_again :: "store_error + job_db \<times> enqueue_status \<times> job_record" where
  "ex_again = enqueue ex_sha (ex_request\<lparr>eq_priority := Some INTERACTIVE\<rparr>) (Some 600) ''other'' ex_db2"

lemma enqueue_once_witness:
  "\<exists>db3 rec'. ex_again = Inr (db3, EXISTING, rec') \<and> map jr_id (db_jobs db3) = map jr_id (db_jobs ex_db2)"
proof -
  have "(case ex_enqueue of Inl _ \<Rightarrow> False | Inr (_, st, _) \<Rightarrow> st = CREATED)" by code_simp
  then obtain db rec where e: "ex_enqueue = Inr (db, CREATED, rec)" by (auto split: sum.splits prod.splits)
  then have e1: "ex_enqueue = Inr (ex_db1, CREATED, rec)" unfolding ex_db1_def db_of_eq[OF e] .
  have "is_ok ex_again" by code_simp
  then obtain db3 st rec' where e2: "ex_again = Inr (db3, st, rec')" unfolding is_ok_iff by (metis surj_pair)
  have "(store_step ex_sha)\<^sup>*\<^sup>* ex_db1 ex_db2" using ex_step2 by (rule r_into_rtranclp)
  from enqueue_once[OF reachable_empty e1[unfolded ex_enqueue_def] this e2[unfolded ex_again_def]]
  have "st = EXISTING \<and> map jr_id (db_jobs db3) = map jr_id (db_jobs ex_db2)" by simp
  with e2 show ?thesis by blast
qed

text \<open>
  Operator commands are idempotent. After a \<open>cancel\<close> or \<open>manualRetry\<close> has succeeded, sending a
  command with the same idempotency key again, at any later point, changes nothing: it is either
  answered \<open>REPLAYED\<close> or refused, even though the revision it expects is stale by then.
\<close>

theorem command_replay:
  assumes "store_reachable sha db0"
    and "cancel sha req clock db0 = Inr (db1, co) \<or> manualRetry sha req clock db0 = Inr (db1, co)"
    and "(store_step sha)\<^sup>*\<^sup>* db1 db2"
    and "cancel sha req' clock' db2 = Inr (db3, co') \<or> manualRetry sha req' clock' db2 = Inr (db3, co')"
    and "cq_key req' = cq_key req"
  shows "db3 = db2 \<and> co_disposition co' = REPLAYED"
proof -
  have step: "store_step sha db0 db1" using assms(2) by (auto intro: store_step.intros)
  have inv1: "store_inv sha db1" by (rule step_inv[OF step reachable_inv[OF assms(1)]])
  obtain c where "commandRow db1 (cq_key req) = Some c"
    using assms(2) operator_recorded unfolding cancel_def manualRetry_def by blast
  then have "commandRow db2 (cq_key req') = Some c"
    using steps_keep_command[OF assms(3) inv1] assms(5) by simp
  then show ?thesis using assms(4) operator_replay unfolding cancel_def manualRetry_def by blast
qed

definition ex_command :: command_request where
  "ex_command = \<lparr>cq_jobId = ''job'', cq_expectedRevision = 0, cq_key = ''command-00000001''\<rparr>"

lemma command_replay_witness:
  "\<exists>db1 co db3 co'. cancel ex_sha ex_command (Some 5) ex_db1 = Inr (db1, co)
     \<and> cancel ex_sha ex_command (Some 9) db1 = Inr (db3, co') \<and> db3 = db1 \<and> co_disposition co' = REPLAYED"
proof -
  let ?c = "cancel ex_sha ex_command (Some 5) ex_db1"
  let ?d = "cancel ex_sha ex_command (Some 9) (db_of ex_db1 ?c)"
  have "is_ok ?c" "is_ok ?d" by code_simp+
  then obtain co db3 co' where c: "?c = Inr (db_of ex_db1 ?c, co)" and d: "?d = Inr (db3, co')"
    using db_of_Inr by (metis surj_pair is_ok_iff)
  show ?thesis
    using command_replay[OF ex_reachable1 disjI1[OF c] rtranclp.rtrancl_refl disjI1[OF d] refl] c d by blast
qed

text \<open>
  Retry delays. With a policy the constructor accepts and a random sample in [0, 1],
  \<open>retryDelay\<close> returns a delay that is at least 1 ms and at most \<open>maxDelayMs\<close>, and is, up to rounding,
  within the jitter ratio of the capped exponential \<open>min(maxDelayMs, baseDelayMs * 2^(attempt-1))\<close>.
\<close>

theorem retryDelay_bounds:
  assumes "retryPolicy base maxd jitter = Inr p" and "0 \<le> s" and "s \<le> 1"
    and cap: "b = min (rp_max p) (rp_base p * 2 ^ nat (min 52 (max 0 (n - 1))))"
  shows "\<exists>d. retryDelay p n (Some s) = Inr d \<and> 1 \<le> d \<and> d \<le> rp_max p
    \<and> of_int b * (1 - rp_jitter p) - 1 / 2 \<le> (of_int d :: rat)
    \<and> (of_int d :: rat) \<le> of_int b * (1 + rp_jitter p) + 1 / 2"
proof -
  have pb: "10 \<le> rp_base p" "rp_base p \<le> rp_max p" and pj: "0 \<le> rp_jitter p" "rp_jitter p \<le> 1"
    using assms(1) by (auto simp: retryPolicy_def Let_def)
  let ?j = "rp_jitter p" and ?b = "of_int b :: rat"
  let ?f = "1 - ?j + 2 * ?j * s"
  let ?x = "math_round (?b * ?f)"
  define d where "d = max 1 (min (rp_max p) ?x)"
  have ok: "retryDelay p n (Some s) = Inr d"
    using assms(2,3) by (simp add: retryDelay_def Let_def d_def cap)
  have "(1 :: int) \<le> 2 ^ nat (min 52 (max 0 (n - 1)))" by simp
  then have "rp_base p * 1 \<le> rp_base p * 2 ^ nat (min 52 (max 0 (n - 1)))"
    using pb(1) by (intro mult_left_mono) auto
  then have "rp_base p \<le> rp_base p * 2 ^ nat (min 52 (max 0 (n - 1)))" by (simp only: mult_1_right)
  then have b: "10 \<le> b" "b \<le> rp_max p" using pb cap by linarith+
  then have b0: "10 \<le> ?b" by (metis of_int_le_iff of_int_numeral)
  have "2 * ?j * s \<le> 2 * ?j * 1" using pj assms(3) by (intro mult_left_mono) auto
  moreover have "0 \<le> 2 * ?j * s" using pj assms(2) by simp
  ultimately have f: "1 - ?j \<le> ?f" "?f \<le> 1 + ?j" by simp_all
  have lo: "?b * (1 - ?j) \<le> ?b * ?f" and hi: "?b * ?f \<le> ?b * (1 + ?j)"
    using f b0 by (intro mult_left_mono; simp)+
  have "?b * ?f + 1 / 2 - 1 < of_int ?x" "of_int ?x \<le> ?b * ?f + 1 / 2"
    unfolding math_round_def by linarith+
  then have x: "?b * (1 - ?j) - 1 / 2 \<le> of_int ?x" "of_int ?x \<le> ?b * (1 + ?j) + 1 / 2"
    using lo hi by linarith+
  have cap_lo: "?b * (1 - ?j) \<le> of_int (rp_max p)"
  proof -
    have "?b * (1 - ?j) \<le> ?b * 1" using b0 pj by (intro mult_left_mono) auto
    also have "\<dots> \<le> of_int (rp_max p)" using b(2) by simp
    finally show ?thesis .
  qed
  have one: "1 \<le> ?b * (1 + ?j)"
  proof -
    have "?b * 1 \<le> ?b * (1 + ?j)" using b0 pj by (intro mult_left_mono) auto
    then show ?thesis using b0 by linarith
  qed
  have "1 \<le> d" "d \<le> rp_max p" using pb by (auto simp: d_def)
  moreover have "?b * (1 - ?j) - 1 / 2 \<le> of_int d"
  proof -
    have "of_int (min (rp_max p) ?x) \<le> (of_int d :: rat)" by (simp add: d_def)
    moreover have "?b * (1 - ?j) - 1 / 2 \<le> of_int (min (rp_max p) ?x)"
      using x(1) cap_lo by (simp add: of_int_min)
    ultimately show ?thesis by (rule order_trans[rotated])
  qed
  moreover have "of_int d \<le> ?b * (1 + ?j) + 1 / 2"
  proof -
    have "(of_int d :: rat) \<le> max 1 (of_int ?x)" by (simp add: d_def of_int_max of_int_min)
    also have "\<dots> \<le> ?b * (1 + ?j) + 1 / 2" using one x(2) by simp
    finally show ?thesis .
  qed
  ultimately show ?thesis using ok by blast
qed

lemma retryDelay_bounds_witness:
  "\<exists>d. retryDelay \<lparr>rp_base = 1000, rp_max = 300000, rp_jitter = 1 / 5\<rparr> 3 (Some (1 / 2)) = Inr d
     \<and> 1 \<le> d \<and> d \<le> 300000"
proof -
  have p: "retryPolicy None None None = Inr \<lparr>rp_base = 1000, rp_max = 300000, rp_jitter = 1 / 5\<rparr>"
    by (simp add: retryPolicy_def Let_def ensure_def safe_integer_def)
  show ?thesis using retryDelay_bounds[OF p _ _ refl, of "1 / 2" 3] by auto
qed

text \<open>
  C8: A defect. Once a running job has rejected a cancellation request, no operator \<open>cancel\<close>
  with a new idempotency key can succeed while it runs: the update sets \<open>REQUESTED\<close> but keeps the old
  \<open>cancellation_resolved_at\<close>, the snapshot schema refuses that pair, and the transaction rolls back.
\<close>

theorem cancel_fails_after_rejection:
  assumes "store_reachable sha db" and "jobRow db (cq_jobId req) = Some r"
    and "jr_status r = job_status.RUNNING" and "jr_cancel r = REJECTED"
    and "commandRow db (cq_key req) = None"
  shows "\<not> is_ok (cancel sha req clock db)"
proof
  assume "is_ok (cancel sha req clock db)"
  then obtain db' co where "operatorCommand sha CANCEL req clock cancel_apply db = Inr (db', co)"
    by (auto simp: cancel_def is_ok_iff)
  then obtain fp now db1 d where e: "0 \<le> cq_expectedRevision req"
    and a: "cancel_apply r now db = Inr (db1, d)"
    and rc: "record_command CANCEL req fp now r db1 d = Inr (db', co)"
    using assms(2,5) unfolding operatorCommand_def record_command_def[symmetric] by auto
  have "cancel_apply r now db = and_then (update_job (jr_id r) (request_row now) db) (\<lambda>db1. Inr (db1, APPLIED))"
    using assms(3,4) by (simp add: cancel_apply_def terminal_def)
  with a have u: "and_then (update_job (jr_id r) (request_row now) db) (\<lambda>db1. Inr (db1, APPLIED)) = Inr (db1, d)"
    by (simp only:)
  have "record_command CANCEL req fp now r db1 d = Inl SnapshotInvalid"
    using request_after_rejection[OF reachable_inv[OF assms(1)] assms(2,4,3) commandRow_None[OF assms(5)] e,
        of now CANCEL fp] unfolding u by simp
  then show False using rc by simp
qed

lemma cancel_fails_after_rejection_witness:
  "\<not> is_ok (cancel ex_sha (ex_command\<lparr>cq_expectedRevision := jr_revision (the (jobRow ex_db5 ''job''))\<rparr>)
      (Some 525) ex_db5)"
proof -
  let ?q = "ex_command\<lparr>cq_expectedRevision := jr_revision (the (jobRow ex_db5 ''job''))\<rparr>"
  have j: "cq_jobId ?q = ''job''" by (simp add: ex_command_def)
  have "(case jobRow ex_db5 ''job'' of None \<Rightarrow> False
      | Some r \<Rightarrow> jr_status r = job_status.RUNNING \<and> jr_cancel r = REJECTED) \<and> db_commands ex_db5 = []"
    by code_simp
  then obtain row where row: "jobRow ex_db5 (cq_jobId ?q) = Some row"
    and st: "jr_status row = job_status.RUNNING" "jr_cancel row = REJECTED" and c: "db_commands ex_db5 = []"
    unfolding j by (auto split: option.splits)
  from c have "commandRow ex_db5 (cq_key ?q) = None" by (simp add: commandRow_def)
  then show ?thesis by (rule cancel_fails_after_rejection[OF ex_reachable5 row st])
qed

section \<open>Canonical JSON\<close>



text \<open>
  Effect keys identify the effect. If the hash does not collide on the two inputs, two steps
  have the same effect key exactly when job key and step agree: the NUL separators cannot be forged,
  since neither idempotency keys nor accepted steps contain NUL.
\<close>

theorem effect_key_injective:
  assumes "jobEffectKey sha k s = Inr h" and "jobEffectKey sha k' s' = Inr h'"
    and "idempotencyKey_ok k" and "idempotencyKey_ok k'"
    and "\<And>x y. sha x = sha y \<Longrightarrow> x = y"
  shows "h = h' \<longleftrightarrow> k = k' \<and> s = s'"
proof -
  have nul: "CHR 0x00 \<notin> set k" if "idempotencyKey_ok k" for k
    using that by (auto simp: idempotencyKey_ok_def key_char_def id_tail_def text_simps list_all_iff)
  have e: "h = sha (''zhiloop-job-effect-v1'' @ [CHR 0x00] @ k @ [CHR 0x00] @ s)"
    "h' = sha (''zhiloop-job-effect-v1'' @ [CHR 0x00] @ k' @ [CHR 0x00] @ s')"
    using assms(1,2) by (auto simp: jobEffectKey_def split: if_splits)
  have split: "k = k' \<and> s = s'" if "k @ CHR 0x00 # s = k' @ CHR 0x00 # s'"
  proof -
    have "takeWhile (\<lambda>c. c \<noteq> CHR 0x00) (q @ CHR 0x00 # t) = q" if "idempotencyKey_ok q" for q t
      using nul[OF that] by (induction q) auto
    then have "k = k'" using that assms(3,4) by metis
    with that show ?thesis by simp
  qed
  show ?thesis using e assms(5) split by auto
qed

lemma effect_key_injective_witness:
  "jobEffectKey (\<lambda>x. x) ''key-000000000001'' ''a'' \<noteq> jobEffectKey (\<lambda>x. x) ''key-000000000001'' ''b''"
proof -
  have "is_ok (jobEffectKey (\<lambda>x. x) ''key-000000000001'' ''a'')"
    "is_ok (jobEffectKey (\<lambda>x. x) ''key-000000000001'' ''b'')" by code_simp+
  moreover have k: "idempotencyKey_ok ''key-000000000001''" by code_simp
  ultimately show ?thesis using effect_key_injective[OF _ _ k k] by (fastforce simp: is_ok_iff)
qed

end
