(* ===== verification/JobWorker.thy ===== *)
theory JobWorker
  imports JobProps
begin

text \<open>
  The durable job worker (\<^verbatim>\<open>packages/job-runtime/src/worker.ts\<close>): one cycle claims a job, runs its
  handler while a timer extends the lease, and settles the attempt. The store is reached through the
  record of operations the worker calls.

  A handler is what it does while the worker awaits it: the events below, in their order, and how it
  ends. The events are the timer's callbacks, the state-changing calls of the handler's context, the
  caller's abort, and commits of other processes, which replace the state of the store. The context's
  reading methods and the handler's own abort signal change nothing the worker looks at.
\<close>

section \<open>The store the worker calls\<close>

record 's store_port =
  op_claimNext :: "string \<Rightarrow> int \<Rightarrow> int option \<Rightarrow> 's \<Rightarrow> store_error + 's \<times> job_claim option"
  op_heartbeat :: "lease_reference \<Rightarrow> int \<Rightarrow> int option \<Rightarrow> 's \<Rightarrow> store_error + 's \<times> heartbeat_result"
  op_saveCheckpoint ::
    "lease_reference \<Rightarrow> js_value \<Rightarrow> rat option \<Rightarrow> int option \<Rightarrow> 's \<Rightarrow> store_error + 's \<times> checkpoint_record"
  op_succeed :: "lease_reference \<Rightarrow> int option \<Rightarrow> 's \<Rightarrow> store_error + 's \<times> job_record"
  op_fail ::
    "lease_reference \<Rightarrow> string \<Rightarrow> bool \<Rightarrow> rat option \<Rightarrow> int option \<Rightarrow> 's \<Rightarrow> store_error + 's \<times> job_record"
  op_acknowledgeCancellation :: "lease_reference \<Rightarrow> int option \<Rightarrow> 's \<Rightarrow> store_error + 's \<times> job_record"

definition job_store_port :: "(string \<Rightarrow> string) \<Rightarrow> store_config \<Rightarrow> job_db store_port" where
  "job_store_port sha cfg = \<lparr>
     op_claimNext = (\<lambda>w lease. claimNext sha cfg w (Some lease)),
     op_heartbeat = (\<lambda>ref lease. heartbeat cfg ref (Some lease)),
     op_saveCheckpoint = saveCheckpoint sha,
     op_succeed = succeed sha,
     op_fail = fail_job sha cfg,
     op_acknowledgeCancellation = acknowledgeCancellation sha\<rparr>"

section \<open>Options\<close>

datatype worker_option_error = LEASE_MS_INVALID | HEARTBEAT_MS_INVALID

record worker_options =
  wo_workerId :: string
  wo_leaseMs :: int
  wo_heartbeatMs :: int

definition worker_options_of :: "string \<Rightarrow> int option \<Rightarrow> int option \<Rightarrow> worker_option_error + worker_options" where
  "worker_options_of workerId leaseMs heartbeatMs =
    (let lease = (case leaseMs of None \<Rightarrow> 30000 | Some n \<Rightarrow> n);
         beat = (case heartbeatMs of None \<Rightarrow> max 10 (lease div 3) | Some n \<Rightarrow> n) in
     if \<not> safe_integer lease \<or> lease < 10 \<or> lease > 3600000 then Inl LEASE_MS_INVALID
     else if \<not> safe_integer beat \<or> beat < 10 \<or> beat \<ge> lease then Inl HEARTBEAT_MS_INVALID
     else Inr \<lparr>wo_workerId = workerId, wo_leaseMs = lease, wo_heartbeatMs = beat\<rparr>)"

section \<open>While the handler runs\<close>

datatype handler_error =
  ThrewLeaseLost | ThrewCancellation | ThrewRetryable string | ThrewNonRetryable string | ThrewOther

datatype 's worker_event =
  HeartbeatTimer "int option"
| ContextHeartbeat "int option"
| ContextCheckpoint js_value "rat option" "int option"
| SignalAborts
| OtherCommits 's

record 's run_state =
  rs_store :: 's
  rs_checkpoint :: "checkpoint_record option"
  rs_leaseLost :: bool
  rs_heartbeatFailed :: bool
  rs_cancellationRequested :: bool
  rs_aborted :: bool
  rs_timer :: bool

definition start_run :: "job_claim \<Rightarrow> 's \<Rightarrow> 's run_state" where
  "start_run c s = \<lparr>rs_store = s, rs_checkpoint = cl_checkpoint c, rs_leaseLost = False,
     rs_heartbeatFailed = False, rs_cancellationRequested = False, rs_aborted = False, rs_timer = True\<rparr>"

definition worker_event ::
  "'s store_port \<Rightarrow> lease_reference \<Rightarrow> int \<Rightarrow> 's worker_event \<Rightarrow> 's run_state \<Rightarrow> 's run_state" where
  "worker_event port ref leaseMs e rs = (case e of
     HeartbeatTimer clock \<Rightarrow>
       if \<not> rs_timer rs then rs
       else (case op_heartbeat port ref leaseMs clock (rs_store rs) of
         Inr (s, h) \<Rightarrow> if hb_cancellationRequested h
           then rs\<lparr>rs_store := s, rs_cancellationRequested := True, rs_timer := False\<rparr>
           else rs\<lparr>rs_store := s\<rparr>
       | Inl err \<Rightarrow> rs\<lparr>rs_timer := False, rs_leaseLost := (err = LeaseLost),
           rs_heartbeatFailed := (err \<noteq> LeaseLost)\<rparr>)
   | ContextHeartbeat clock \<Rightarrow> (case op_heartbeat port ref leaseMs clock (rs_store rs) of
         Inr (s, h) \<Rightarrow> rs\<lparr>rs_store := s\<rparr> | Inl err \<Rightarrow> rs)
   | ContextCheckpoint data progress clock \<Rightarrow>
       (case op_saveCheckpoint port ref data progress clock (rs_store rs) of
         Inr (s, k) \<Rightarrow> rs\<lparr>rs_store := s, rs_checkpoint := Some k\<rparr> | Inl err \<Rightarrow> rs)
   | SignalAborts \<Rightarrow> rs\<lparr>rs_aborted := True, rs_timer := False\<rparr>
   | OtherCommits s \<Rightarrow> rs\<lparr>rs_store := s\<rparr>)"

definition run_events ::
  "'s store_port \<Rightarrow> lease_reference \<Rightarrow> int \<Rightarrow> 's worker_event list \<Rightarrow> 's run_state \<Rightarrow> 's run_state" where
  "run_events port ref leaseMs es rs = fold (worker_event port ref leaseMs) es rs"

section \<open>Settling\<close>

datatype cycle_status = CYCLE_SUCCEEDED | CYCLE_RETRY_WAIT | CYCLE_FAILED | CYCLE_CANCELLED

datatype worker_result =
  CYCLE_IDLE
| Job_Settled cycle_status job_record
| ABANDONED string string
| LEASE_LOST string string

text \<open>\<open>code(value, fallback)\<close>.\<close>

definition failure_code :: "string \<Rightarrow> string \<Rightarrow> string" where
  "failure_code value fallback = (if upper_code 119 value then value else fallback)"

definition failure_of :: "handler_error \<Rightarrow> string \<times> bool" where
  "failure_of err = (case err of
     ThrewRetryable c \<Rightarrow> (failure_code c ''JOB_HANDLER_FAILED'', True)
   | ThrewNonRetryable c \<Rightarrow> (failure_code c ''JOB_NON_RETRYABLE_FAILURE'', False)
   | _ \<Rightarrow> (''JOB_HANDLER_FAILED'', True))"

text \<open>What the \<open>catch\<close> sees when a settling call of the \<open>try\<close> throws.\<close>

definition caught :: "store_error \<Rightarrow> handler_error" where
  "caught e = (if e = LeaseLost then ThrewLeaseLost else ThrewOther)"

definition failed_status :: "job_record \<Rightarrow> cycle_status" where
  "failed_status job = (if js_status (rc_snapshot job) = job_status.RETRY_WAIT then CYCLE_RETRY_WAIT
     else if js_status (rc_snapshot job) = job_status.CANCELLED then CYCLE_CANCELLED else CYCLE_FAILED)"

definition settle_as ::
  "cycle_status \<Rightarrow> store_error + 's \<times> job_record \<Rightarrow> store_error + 's \<times> worker_result" where
  "settle_as status r = and_then r (\<lambda>(s, job). Inr (s, Job_Settled status job))"

text \<open>The \<open>catch\<close> block; \<open>Inl\<close> is an error that leaves \<open>runOnce\<close>.\<close>

definition settle_caught ::
  "'s store_port \<Rightarrow> lease_reference \<Rightarrow> int option \<Rightarrow> rat option \<Rightarrow> handler_error \<Rightarrow> 's run_state
     \<Rightarrow> store_error + 's \<times> worker_result" where
  "settle_caught port ref clock sample err rs =
    (let s = rs_store rs in
     if rs_leaseLost rs \<or> err = ThrewLeaseLost then Inr (s, LEASE_LOST (lr_jobId ref) (lr_attemptId ref))
     else if rs_cancellationRequested rs then
       settle_as CYCLE_CANCELLED (op_acknowledgeCancellation port ref clock s)
     else if rs_aborted rs \<or> rs_heartbeatFailed rs then Inr (s, ABANDONED (lr_jobId ref) (lr_attemptId ref))
     else if err = ThrewCancellation then
       settle_as CYCLE_CANCELLED (op_acknowledgeCancellation port ref clock s)
     else and_then (op_fail port ref (fst (failure_of err)) (snd (failure_of err)) sample clock s) (\<lambda>(s', job).
       Inr (s', Job_Settled (failed_status job) job)))"

text \<open>The rest of the \<open>try\<close> block after a handler that returned.\<close>

definition settle_returned ::
  "'s store_port \<Rightarrow> lease_reference \<Rightarrow> int option \<Rightarrow> 's run_state \<Rightarrow> store_error + 's \<times> worker_result" where
  "settle_returned port ref clock rs =
    (let s = rs_store rs in
     if rs_cancellationRequested rs then
       settle_as CYCLE_CANCELLED (op_acknowledgeCancellation port ref clock s)
     else if rs_aborted rs \<or> rs_heartbeatFailed rs then Inr (s, ABANDONED (lr_jobId ref) (lr_attemptId ref))
     else if rs_leaseLost rs then Inr (s, LEASE_LOST (lr_jobId ref) (lr_attemptId ref))
     else settle_as CYCLE_SUCCEEDED (op_succeed port ref clock s))"

definition or_caught ::
  "'s store_port \<Rightarrow> lease_reference \<Rightarrow> int option \<Rightarrow> rat option \<Rightarrow> 's run_state
     \<Rightarrow> store_error + 's \<times> worker_result \<Rightarrow> store_error + 's \<times> worker_result" where
  "or_caught port ref clock sample rs r = (case r of
     Inr x \<Rightarrow> Inr x | Inl e \<Rightarrow> settle_caught port ref clock sample (caught e) rs)"

text \<open>
  A handler of a job type: its events and how it ends. \<open>clocks\<close> are the readings of the claim, the
  settling call and a settling call of the \<open>catch\<close>.
\<close>

type_synonym 's handler_run = "'s worker_event list \<times> handler_error option"

definition settle_handler ::
  "'s store_port \<Rightarrow> lease_reference \<Rightarrow> int \<Rightarrow> int option \<Rightarrow> int option \<Rightarrow> rat option
     \<Rightarrow> 's handler_run option \<Rightarrow> 's run_state \<Rightarrow> store_error + 's \<times> worker_result" where
  "settle_handler port ref leaseMs clock1 clock2 sample handler rs0 = (case handler of
     None \<Rightarrow> or_caught port ref clock2 sample rs0
       (settle_as CYCLE_FAILED (op_fail port ref ''JOB_HANDLER_NOT_FOUND'' False sample clock1 (rs_store rs0)))
   | Some (es, ending) \<Rightarrow>
       let rs = run_events port ref leaseMs es rs0 in
       (case ending of
          None \<Rightarrow> or_caught port ref clock2 sample rs (settle_returned port ref clock1 rs)
        | Some err \<Rightarrow> settle_caught port ref clock1 sample err rs))"

definition runOnce ::
  "'s store_port \<Rightarrow> worker_options \<Rightarrow> bool \<Rightarrow> int option \<times> int option \<times> int option \<Rightarrow> rat option
     \<Rightarrow> (string \<Rightarrow> 's handler_run option) \<Rightarrow> 's \<Rightarrow> store_error + 's \<times> worker_result" where
  "runOnce port opts aborted clocks sample handlers s =
    (if aborted then Inr (s, CYCLE_IDLE)
     else case clocks of (clock0, clock1, clock2) \<Rightarrow>
       and_then (op_claimNext port (wo_workerId opts) (wo_leaseMs opts) clock0 s) (\<lambda>(s1, claimed).
       case claimed of
         None \<Rightarrow> Inr (s1, CYCLE_IDLE)
       | Some c \<Rightarrow> settle_handler port (claim_reference c) (wo_leaseMs opts) clock1 clock2 sample
           (handlers (cl_jobType c)) (start_run c s1)))"

section \<open>What other processes do meanwhile\<close>

text \<open>Other processes only commit what the public operations of the store can do.\<close>

fun honest ::
  "'s store_port \<Rightarrow> ('s \<Rightarrow> 's \<Rightarrow> bool) \<Rightarrow> lease_reference \<Rightarrow> int \<Rightarrow> 's worker_event list \<Rightarrow> 's run_state
     \<Rightarrow> bool" where
  "honest port steps ref lease [] rs = True"
| "honest port steps ref lease (e # es) rs =
     ((case e of OtherCommits s \<Rightarrow> steps (rs_store rs) s | _ \<Rightarrow> True)
      \<and> honest port steps ref lease es (worker_event port ref lease e rs))"

text \<open>What the store becomes when only the commits of others take effect.\<close>

fun others :: "'s worker_event list \<Rightarrow> 's \<Rightarrow> 's" where
  "others [] s = s"
| "others (OtherCommits s' # es) s = others es s'"
| "others (e # es) s = others es s"

lemma honest_append:
  "honest port steps ref lease (es @ fs) rs \<longleftrightarrow>
     honest port steps ref lease es rs \<and> honest port steps ref lease fs (run_events port ref lease es rs)"
  by (induction es arbitrary: rs) (auto simp: run_events_def)

lemma run_events_append:
  "run_events port ref lease (es @ fs) rs = run_events port ref lease fs (run_events port ref lease es rs)"
  by (simp add: run_events_def)

section \<open>What a worker may rely on\<close>

text \<open>
  \<open>steps\<close> relates states of the store that public operations lead from one to the other, and
  \<open>refused ref s\<close> says that in \<open>s\<close> the reference no longer holds its job. A refused reference is
  refused by every operation, and stays refused whatever happens to the store.
\<close>

locale leased_store =
  fixes port :: "'s store_port"
    and steps :: "'s \<Rightarrow> 's \<Rightarrow> bool"
    and refused :: "lease_reference \<Rightarrow> 's \<Rightarrow> bool"
  assumes steps_refl: "steps s s"
    and steps_trans: "steps s t \<Longrightarrow> steps t u \<Longrightarrow> steps s u"
    and op_steps:
      "op_heartbeat port ref lease clock s = Inr (s', h) \<Longrightarrow> steps s s'"
      "op_saveCheckpoint port ref data p clock s = Inr (s', k) \<Longrightarrow> steps s s'"
      "op_succeed port ref clock s = Inr (s', job) \<Longrightarrow> steps s s'"
      "op_fail port ref code retryable sample clock s = Inr (s', job) \<Longrightarrow> steps s s'"
      "op_acknowledgeCancellation port ref clock s = Inr (s', job) \<Longrightarrow> steps s s'"
      "op_claimNext port w lease clock s = Inr (s', c) \<Longrightarrow> steps s s'"
    and refusal:
      "refused ref s \<Longrightarrow> \<not> is_ok (op_heartbeat port ref lease clock s)"
      "refused ref s \<Longrightarrow> \<not> is_ok (op_saveCheckpoint port ref data p clock s)"
      "refused ref s \<Longrightarrow> \<not> is_ok (op_succeed port ref clock s)"
      "refused ref s \<Longrightarrow> \<not> is_ok (op_fail port ref code retryable sample clock s)"
      "refused ref s \<Longrightarrow> \<not> is_ok (op_acknowledgeCancellation port ref clock s)"
    and refused_steps: "refused ref s \<Longrightarrow> steps s s' \<Longrightarrow> refused ref s'"
begin

lemma event_steps:
  "(case e of OtherCommits s \<Rightarrow> steps (rs_store rs) s | _ \<Rightarrow> True) \<Longrightarrow>
     steps (rs_store rs) (rs_store (worker_event port ref lease e rs))"
  by (auto simp: worker_event_def steps_refl intro: op_steps split: worker_event.splits sum.splits)

lemma events_steps:
  "honest port steps ref lease es rs \<Longrightarrow> steps (rs_store rs) (rs_store (run_events port ref lease es rs))"
  by (induction es arbitrary: rs) (auto simp: run_events_def steps_refl intro: steps_trans event_steps)

lemma refused_no:
  "refused ref s \<Longrightarrow> op_heartbeat port ref lease clock s \<noteq> Inr h"
  "refused ref s \<Longrightarrow> op_saveCheckpoint port ref data p clock s \<noteq> Inr k"
  "refused ref s \<Longrightarrow> op_succeed port ref clock s \<noteq> Inr job"
  "refused ref s \<Longrightarrow> op_fail port ref code retryable sample clock s \<noteq> Inr job"
  "refused ref s \<Longrightarrow> op_acknowledgeCancellation port ref clock s \<noteq> Inr job"
  using refusal by (metis is_ok_iff)+

lemma refused_event:
  assumes "refused ref (rs_store rs)"
  shows "rs_store (worker_event port ref lease e rs)
      = (case e of OtherCommits s \<Rightarrow> s | _ \<Rightarrow> rs_store rs)"
  using refused_no(1,2)[OF assms]
  by (simp add: worker_event_def split: worker_event.splits sum.splits prod.splits)

lemma refused_events:
  assumes "refused ref (rs_store rs)" and "honest port steps ref lease es rs"
  shows "rs_store (run_events port ref lease es rs) = others es (rs_store rs)
    \<and> refused ref (rs_store (run_events port ref lease es rs))"
  using assms
proof (induction es arbitrary: rs)
  case Nil
  then show ?case by (simp add: run_events_def)
next
  case (Cons e es)
  have st: "rs_store (worker_event port ref lease e rs) = (case e of OtherCommits s \<Rightarrow> s | _ \<Rightarrow> rs_store rs)"
    by (rule refused_event[OF Cons.prems(1)])
  have "steps (rs_store rs) (rs_store (worker_event port ref lease e rs))"
    using Cons.prems(2) by (intro event_steps) simp
  then have "refused ref (rs_store (worker_event port ref lease e rs))"
    by (rule refused_steps[OF Cons.prems(1)])
  from Cons.IH[OF this] Cons.prems(2) st show ?case
    by (cases e) (auto simp: run_events_def)
qed

lemma refused_settles_nothing:
  assumes "refused ref (rs_store rs)"
  shows "settle_caught port ref clock sample err rs = Inr (s, x) \<Longrightarrow>
      s = rs_store rs \<and> (\<forall>status job. x \<noteq> Job_Settled status job)"
    and "or_caught port ref clock sample rs (settle_returned port ref clock' rs) = Inr (s, x) \<Longrightarrow>
      s = rs_store rs \<and> (\<forall>status job. x \<noteq> Job_Settled status job)"
proof -
  have c: "s = rs_store rs \<and> (\<forall>status job. x \<noteq> Job_Settled status job)"
    if "settle_caught port ref clock sample err rs = Inr (s, x)" for err clock s x
    using that refused_no(4,5)[OF assms]
    by (auto simp: settle_caught_def settle_as_def Let_def split: if_splits)
  show "settle_caught port ref clock sample err rs = Inr (s, x) \<Longrightarrow>
      s = rs_store rs \<and> (\<forall>status job. x \<noteq> Job_Settled status job)" by (rule c)
  show "or_caught port ref clock sample rs (settle_returned port ref clock' rs) = Inr (s, x) \<Longrightarrow>
      s = rs_store rs \<and> (\<forall>status job. x \<noteq> Job_Settled status job)"
    using refused_no(3,5)[OF assms] c
    by (auto simp: or_caught_def settle_returned_def settle_as_def Let_def split: if_splits sum.splits)
qed

lemma settle_steps:
  "settle_caught port ref clock sample err rs = Inr (s, x) \<Longrightarrow> steps (rs_store rs) s"
  "or_caught port ref clock sample rs (settle_returned port ref clock' rs) = Inr (s, x) \<Longrightarrow> steps (rs_store rs) s"
  by (auto simp: settle_caught_def settle_returned_def or_caught_def settle_as_def Let_def steps_refl
      intro: op_steps split: if_splits sum.splits)

lemma handler_steps:
  assumes "settle_handler port ref lease clock1 clock2 sample handler rs = Inr (s, x)"
    and "\<And>es ending. handler = Some (es, ending) \<Longrightarrow> honest port steps ref lease es rs"
  shows "steps (rs_store rs) s"
proof (cases handler)
  case None
  then show ?thesis using assms(1) settle_steps(1)
    by (auto simp: settle_handler_def or_caught_def settle_as_def intro: op_steps split: sum.splits)
next
  case (Some h)
  obtain es ending where h: "h = (es, ending)" by fastforce
  let ?rs = "run_events port ref lease es rs"
  have "steps (rs_store ?rs) s"
    using assms(1) Some h settle_steps(1)[of ref clock1 sample _ ?rs s x] settle_steps(2)[of ref clock2 sample ?rs clock1 s x]
    by (auto simp: settle_handler_def Let_def split: option.splits)
  then show ?thesis using events_steps[OF assms(2)[OF Some[unfolded h]]] steps_trans by blast
qed

end

definition superseded :: "(string \<Rightarrow> string) \<Rightarrow> lease_reference \<Rightarrow> job_db \<Rightarrow> bool" where
  "superseded sha ref db \<longleftrightarrow> store_inv sha db
     \<and> (\<exists>r. jobRow db (lr_jobId ref) = Some r \<and> lr_fencingToken ref < jr_fencing r)"

lemma superseded_refused: "superseded sha ref db \<Longrightarrow> lease_refused sha ref db"
  unfolding superseded_def using fencing_lost lost_refused by blast

lemma superseded_steps:
  assumes "superseded sha ref db" and "(store_step sha)\<^sup>*\<^sup>* db db'"
  shows "superseded sha ref db'"
proof -
  obtain r where r: "store_inv sha db" "jobRow db (lr_jobId ref) = Some r" "lr_fencingToken ref < jr_fencing r"
    using assms(1) by (auto simp: superseded_def)
  obtain r' where "jobRow db' (lr_jobId ref) = Some r'" "jr_fencing r \<le> jr_fencing r'"
    using steps_evolve[OF assms(2) r(1,2)] by (auto simp: evolves_def)
  then show ?thesis using r steps_inv[OF assms(2) r(1)] unfolding superseded_def by (meson less_le_trans)
qed

interpretation job_worker: leased_store "job_store_port sha cfg" "(store_step sha)\<^sup>*\<^sup>*" "superseded sha" for sha cfg
proof
  show "superseded sha ref s \<Longrightarrow> \<not> is_ok (op_heartbeat (job_store_port sha cfg) ref lease clock s)"
    "superseded sha ref s \<Longrightarrow> \<not> is_ok (op_saveCheckpoint (job_store_port sha cfg) ref data p clock s)"
    "superseded sha ref s \<Longrightarrow> \<not> is_ok (op_succeed (job_store_port sha cfg) ref clock s)"
    "superseded sha ref s \<Longrightarrow> \<not> is_ok (op_fail (job_store_port sha cfg) ref code retryable sample clock s)"
    "superseded sha ref s \<Longrightarrow> \<not> is_ok (op_acknowledgeCancellation (job_store_port sha cfg) ref clock s)"
    for ref s lease clock data p code retryable sample
    using superseded_refused by (auto simp: job_store_port_def lease_refused_def)
qed (auto simp: job_store_port_def intro: superseded_steps store_step.intros)

end
