(* ===== verification/WorkerProps.thy ===== *)
theory WorkerProps
  imports JobWorker
begin

text \<open>The properties of the job worker on the durable store.\<close>

section \<open>The claimed row\<close>

lemma row_update_cancel [simp]:
  "jr_cancel (acknowledge_row now s) = ACKNOWLEDGED" "jr_cancel (exhaust_row now s) = jr_cancel s"
  by (simp_all add: acknowledge_row_def exhaust_row_def clear_lease_def)

lemma claim_loop_not_requested:
  assumes "claim_loop n sha w lease now db = Inr (db', Some c)" and "distinct (map jr_id (db_jobs db))"
    and "\<And>j r. jobRow db j = Some r \<Longrightarrow> jr_cancel r = REQUESTED \<Longrightarrow> jr_status r = job_status.RUNNING"
  shows "\<exists>r. jobRow db' (cl_jobId c) = Some r \<and> jr_cancel r \<noteq> REQUESTED"
  using assms
proof (induction n arbitrary: db)
  case (Suc n)
  obtain row where row: "next_claimable now db = Some row"
    using Suc.prems(1) by (cases "next_claimable now db") auto
  have mem: "row \<in> set (db_jobs db)" using next_claimable_SomeD[OF row] by simp
  have own: "jobRow db (jr_id row) = Some row" by (rule jobRow_distinct[OF Suc.prems(2) mem])
  have claimed: ?case if "claim_job sha row w lease now db1 = Inr (db', Some c)" "jobRow db1 = jobRow db"
      "jr_cancel row \<noteq> REQUESTED" for db1
    using claim_jobD[OF that(1)] that(2,3) own by (auto simp: claim_row_def)
  have again: ?case
    if e: "expireAttempt row now db = Inr db1" and u: "update_job (jr_id row) f db1 = Inr db2"
      and f: "\<And>s. jr_id (f s) = jr_id s" "jr_cancel (f row) \<noteq> REQUESTED"
      and l: "claim_loop n sha w lease now db2 = Inr (db', Some c)" for db1 db2 f
  proof (rule Suc.IH[OF l])
    show "distinct (map jr_id (db_jobs db2))"
      using update_job_ids[OF u f(1)] other_tables(6)[OF e] Suc.prems(2) by simp
    fix j r assume "jobRow db2 j = Some r" "jr_cancel r = REQUESTED"
    then show "jr_status r = job_status.RUNNING"
      using jobRow_update[OF u f(1), of j] jobRow_cong[OF other_tables(6)[OF e]] own f(2) Suc.prems(3)
      by (auto split: if_splits)
  qed
  show ?case
  proof (cases "jr_status row = job_status.RUNNING")
    case False
    then show ?thesis using Suc.prems(1) row own Suc.prems(3)[OF own] claimed[of db] by auto
  next
    case True
    then obtain db1 where db1: "expireAttempt row now db = Inr db1" using Suc.prems(1) row by auto
    note j = jobRow_cong[OF other_tables(6)[OF db1]]
    show ?thesis
      using Suc.prems(1) row True db1 claimed[of db1] j
        again[OF db1, of "acknowledge_row now"] again[OF db1, of "exhaust_row now"]
      by (auto simp: cancelExpired_def markExhausted_def split: if_splits)
  qed
qed simp

lemma claim_loop_frame:
  "claim_loop n sha w lease now db = Inr (db', out) \<Longrightarrow>
     db_checkpoints db' = db_checkpoints db \<and> db_closed db' = db_closed db"
proof (induction n arbitrary: db)
  case (Suc n)
  have u: "update_job i f d = Inr d' \<Longrightarrow> db_checkpoints d' = db_checkpoints d \<and> db_closed d' = db_closed d" for i f d d'
    by (auto simp: update_job_def split: if_splits)
  have e: "expireAttempt r now d = Inr d' \<Longrightarrow> db_checkpoints d' = db_checkpoints d \<and> db_closed d' = db_closed d" for r d d'
    by (auto simp: expireAttempt_def update_attempts_def split: option.splits if_splits)
  have c: "claim_job sha r w lease now d = Inr (d', out) \<Longrightarrow>
      db_checkpoints d' = db_checkpoints d \<and> db_closed d' = db_closed d" for r d d'
    by (auto simp: claim_job_def insert_attempt_def Let_def split: if_splits dest!: u)
  show ?case
  proof (cases "next_claimable now db")
    case None
    then show ?thesis using Suc.prems by simp
  next
    case (Some row)
    show ?thesis
    proof (cases "jr_status row = job_status.RUNNING")
      case False
      then show ?thesis using Suc.prems Some c by simp
    next
      case True
      then obtain db1 where db1: "expireAttempt row now db = Inr db1" using Suc.prems Some by auto
      have again: ?thesis if "update_job i f db1 = Inr db2" "claim_loop n sha w lease now db2 = Inr (db', out)" for i f db2
        using u[OF that(1)] Suc.IH[OF that(2)] e[OF db1] by simp
      show ?thesis
      proof (cases "jr_cancel row = REQUESTED \<or> jr_count row \<ge> jr_max row")
        case stop: True
        then show ?thesis using Suc.prems Some True db1 again
          by (auto simp: cancelExpired_def markExhausted_def split: if_splits)
      next
        case False
        then show ?thesis using Suc.prems Some True db1 c[of row db1] e[OF db1] by simp
      qed
    qed
  qed
qed simp

section \<open>What a settling call leaves behind\<close>

lemma record_status: "record_of sha db r = Inr rec \<Longrightarrow> js_status (rc_snapshot rec) = jr_status r"
  by (auto simp: record_of_def snapshot_def snapshot_value_def Let_def)

lemma finish_row:
  assumes "finish_with sha db i = Inr (db', job)"
  shows "\<exists>r. jobRow db' i = Some r \<and> js_jobId (rc_snapshot job) = i \<and> js_status (rc_snapshot job) = jr_status r"
  using assms finish_jobId[OF assms]
  by (auto simp: finish_with_def require_job_def record_status split: option.splits)

lemma settled_row:
  assumes "activeLease ref now db = Inr r" and "db_jobs db1 = db_jobs db"
    and "update_job (jr_id r) f db1 = Inr db2" and "\<And>s. jr_id (f s) = jr_id s"
    and "finish_with sha db2 (jr_id r) = Inr (db', job)"
  shows "jobRow db' (lr_jobId ref) = Some (f r) \<and> js_jobId (rc_snapshot job) = lr_jobId ref
    \<and> js_status (rc_snapshot job) = jr_status (f r)"
proof -
  have id: "jr_id r = lr_jobId ref" using activeLeaseD[OF assms(1)] by simp
  have "jobRow db1 (jr_id r) = Some r" using activeLease_row[OF assms(1)] jobRow_cong[OF assms(2)] by simp
  then have "jobRow db2 (jr_id r) = Some (f r)" using jobRow_update[OF assms(3,4), of "jr_id r"] by simp
  then show ?thesis using finish_row[OF assms(5)] finish_with_db[OF assms(5)] id by auto
qed

lemma succeed_row_left:
  assumes "succeed sha ref clock db = Inr (db', job)"
  shows "\<exists>r. jobRow db' (lr_jobId ref) = Some r \<and> jr_status r = job_status.SUCCEEDED
    \<and> js_jobId (rc_snapshot job) = lr_jobId ref \<and> js_status (rc_snapshot job) = job_status.SUCCEEDED"
proof -
  from assms obtain now r db1 db2 where "activeLease ref now db = Inr r"
    "finishAttempt ref attempt_status.SUCCEEDED now None db = Inr db1"
    "update_job (jr_id r) (succeed_row now r) db1 = Inr db2" "finish_with sha db2 (jr_id r) = Inr (db', job)"
    by (auto simp: succeed_def)
  from settled_row[OF this(1) other_tables(5)[OF this(2)] this(3) _ this(4)] show ?thesis by auto
qed

lemma acknowledge_row_left:
  assumes "acknowledgeCancellation sha ref clock db = Inr (db', job)"
  shows "\<exists>r. jobRow db' (lr_jobId ref) = Some r \<and> jr_status r = job_status.CANCELLED
    \<and> js_jobId (rc_snapshot job) = lr_jobId ref \<and> js_status (rc_snapshot job) = job_status.CANCELLED"
proof -
  from assms obtain now r db1 db2 where "activeLease ref now db = Inr r"
    "finishAttempt ref attempt_status.CANCELLED now None db = Inr db1"
    "update_job (jr_id r) (acknowledge_row now) db1 = Inr db2" "finish_with sha db2 (jr_id r) = Inr (db', job)"
    by (auto simp: acknowledgeCancellation_def)
  from settled_row[OF this(1) other_tables(5)[OF this(2)] this(3) _ this(4)] show ?thesis by auto
qed

text \<open>The status a failure leads to: cancelled, waiting for a retry, or failed for good.\<close>

definition failure_status :: "job_row \<Rightarrow> bool \<Rightarrow> job_status" where
  "failure_status r retryable =
    (if jr_cancel r = REQUESTED then job_status.CANCELLED
     else if retryable \<and> jr_count r < jr_max r then job_status.RETRY_WAIT else job_status.FAILED)"

lemma fail_row_left:
  assumes "fail_job sha cfg ref code retryable sample clock db = Inr (db', job)"
  shows "\<exists>r s. jobRow db (lr_jobId ref) = Some r \<and> jobRow db' (lr_jobId ref) = Some s
    \<and> jr_status s = failure_status r retryable
    \<and> js_jobId (rc_snapshot job) = lr_jobId ref \<and> js_status (rc_snapshot job) = jr_status s"
proof -
  from assms obtain now r db1 where l: "activeLease ref now db = Inr r"
    and f: "fail_update cfg ref code retryable sample now r db = Inr db1"
    and e: "finish_with sha db1 (jr_id r) = Inr (db', job)"
    by (auto simp: fail_job_def)
  obtain g db0 where g: "db_jobs db0 = db_jobs db" "update_job (jr_id r) g db0 = Inr db1"
    "\<And>s. jr_id (g s) = jr_id s" "jr_status (g r) = failure_status r retryable"
  proof (cases "jr_cancel r = REQUESTED")
    case True
    then show thesis using f that[of _ "acknowledge_row now"]
      by (auto simp: fail_update_def failure_status_def dest!: other_tables(5))
  next
    case c: False
    show thesis
    proof (cases "retryable \<and> jr_count r < jr_max r")
      case True
      then obtain due db0 where "finishAttempt ref attempt_status.RETRYABLE_FAILED now (Some (code, retryable)) db = Inr db0"
        "update_job (jr_id r) (retry_row now due code) db0 = Inr db1"
        using f c by (auto simp: fail_update_def)
      then show thesis using that[of db0 "retry_row now due code"] True c
        by (auto simp: failure_status_def dest!: other_tables(5))
    next
      case False
      then show thesis using f c that[of _ "failed_row now code retryable"]
        by (auto simp: fail_update_def failure_status_def dest!: other_tables(5))
    qed
  qed
  have "jobRow db (lr_jobId ref) = Some r" using activeLease_row[OF l] activeLeaseD[OF l] by simp
  then show ?thesis using settled_row[OF l g(1,2,3) e] g(4) by auto
qed

fun cycle_job_status :: "cycle_status \<Rightarrow> job_status" where
  "cycle_job_status CYCLE_SUCCEEDED = job_status.SUCCEEDED"
| "cycle_job_status CYCLE_RETRY_WAIT = job_status.RETRY_WAIT"
| "cycle_job_status CYCLE_FAILED = job_status.FAILED"
| "cycle_job_status CYCLE_CANCELLED = job_status.CANCELLED"

definition settled_truly :: "lease_reference \<Rightarrow> job_db \<times> worker_result \<Rightarrow> bool" where
  "settled_truly ref out = (case out of (db', x) \<Rightarrow> (case x of
     Job_Settled status job \<Rightarrow> (\<exists>r. jobRow db' (lr_jobId ref) = Some r \<and> jr_status r = cycle_job_status status
        \<and> js_jobId (rc_snapshot job) = lr_jobId ref \<and> js_status (rc_snapshot job) = jr_status r)
   | _ \<Rightarrow> True))"

lemma port_simps [simp]:
  "op_claimNext (job_store_port sha cfg) w lease = claimNext sha cfg w (Some lease)"
  "op_heartbeat (job_store_port sha cfg) ref lease = heartbeat cfg ref (Some lease)"
  "op_saveCheckpoint (job_store_port sha cfg) = saveCheckpoint sha"
  "op_succeed (job_store_port sha cfg) = succeed sha"
  "op_fail (job_store_port sha cfg) = fail_job sha cfg"
  "op_acknowledgeCancellation (job_store_port sha cfg) = acknowledgeCancellation sha"
  by (simp_all add: job_store_port_def)

lemma settle_caught_truly:
  assumes "settle_caught (job_store_port sha cfg) ref clock sample err rs = Inr out"
  shows "settled_truly ref out"
proof -
  have f: "settled_truly ref (s, Job_Settled (failed_status job) job)"
    if "fail_job sha cfg ref code retryable sample clock (rs_store rs) = Inr (s, job)" for code retryable s job
    using fail_row_left[OF that] by (auto simp: settled_truly_def failed_status_def failure_status_def split: if_splits)
  have a: "settled_truly ref (s, Job_Settled CYCLE_CANCELLED job)"
    if "acknowledgeCancellation sha ref clock (rs_store rs) = Inr (s, job)" for s job
    using acknowledge_row_left[OF that] by (auto simp: settled_truly_def)
  show ?thesis using assms f a
    by (auto simp: settle_caught_def settle_as_def Let_def settled_truly_def [where out = "(_, LEASE_LOST _ _)"]
        settled_truly_def [where out = "(_, ABANDONED _ _)"] split: if_splits)
qed

lemma settle_returned_truly:
  assumes "settle_returned (job_store_port sha cfg) ref clock rs = Inr out"
  shows "settled_truly ref out"
proof -
  have s: "settled_truly ref (s, Job_Settled CYCLE_SUCCEEDED job)"
    if "succeed sha ref clock (rs_store rs) = Inr (s, job)" for s job
    using succeed_row_left[OF that] by (auto simp: settled_truly_def)
  have a: "settled_truly ref (s, Job_Settled CYCLE_CANCELLED job)"
    if "acknowledgeCancellation sha ref clock (rs_store rs) = Inr (s, job)" for s job
    using acknowledge_row_left[OF that] by (auto simp: settled_truly_def)
  show ?thesis using assms s a
    by (auto simp: settle_returned_def settle_as_def Let_def settled_truly_def [where out = "(_, LEASE_LOST _ _)"]
        settled_truly_def [where out = "(_, ABANDONED _ _)"] split: if_splits)
qed

lemma handler_truly:
  assumes "settle_handler (job_store_port sha cfg) ref lease clock1 clock2 sample handler rs = Inr out"
    and "\<exists>r. jobRow (rs_store rs) (lr_jobId ref) = Some r \<and> jr_cancel r \<noteq> REQUESTED"
  shows "settled_truly ref out"
proof (cases handler)
  case None
  have "settled_truly ref (s, Job_Settled CYCLE_FAILED job)"
    if "fail_job sha cfg ref code False sample clock1 (rs_store rs) = Inr (s, job)" for code s job
    using fail_row_left[OF that] assms(2) by (auto simp: settled_truly_def failure_status_def)
  then show ?thesis using assms(1) None settle_caught_truly
    by (auto simp: settle_handler_def or_caught_def settle_as_def and_then_def split: sum.splits prod.splits)
next
  case (Some h)
  obtain es ending where h: "h = (es, ending)" by (cases h)
  let ?rs = "run_events (job_store_port sha cfg) ref lease es rs"
  show ?thesis
  proof (cases ending)
    case None
    then have r: "or_caught (job_store_port sha cfg) ref clock2 sample ?rs
        (settle_returned (job_store_port sha cfg) ref clock1 ?rs) = Inr out"
      using assms(1) Some h by (simp add: settle_handler_def Let_def)
    show ?thesis
    proof (cases "settle_returned (job_store_port sha cfg) ref clock1 ?rs")
      case (Inl e)
      then show ?thesis using r settle_caught_truly by (simp add: or_caught_def)
    next
      case (Inr y)
      then show ?thesis using r settle_returned_truly by (simp add: or_caught_def)
    qed
  next
    case (Some err)
    then show ?thesis using assms(1) \<open>handler = Some h\<close> h settle_caught_truly
      by (simp add: settle_handler_def Let_def)
  qed
qed

lemma claimed_not_requested:
  assumes "store_inv sha db" and "claimNext sha cfg w lease clock db = Inr (db', Some c)"
  shows "\<exists>r. jobRow db' (cl_jobId c) = Some r \<and> jr_cancel r \<noteq> REQUESTED"
proof -
  obtain now where l: "claim_loop 100 sha w (lease_or_default cfg lease) now db = Inr (db', Some c)"
    by (rule claimNextD[OF assms(2)])
  show ?thesis
  proof (rule claim_loop_not_requested[OF l])
    show "distinct (map jr_id (db_jobs db))" using assms(1) by (simp add: store_inv_def)
    fix j r assume "jobRow db j = Some r" "jr_cancel r = REQUESTED"
    then show "jr_status r = job_status.RUNNING"
      using store_invD(1)[OF assms(1)] jobRow_SomeD by (fastforce simp: row_inv_def cancel_inv_def)
  qed
qed

lemma runOnce_cases:
  assumes "runOnce port opts aborted clocks sample handlers s = Inr (s', x)"
  obtains "x = CYCLE_IDLE" "s' = s" | clock0 where "op_claimNext port (wo_workerId opts) (wo_leaseMs opts) clock0 s = Inr (s', None)"
      "x = CYCLE_IDLE"
  | clock0 clock1 clock2 c s1 where "clocks = (clock0, clock1, clock2)"
      "op_claimNext port (wo_workerId opts) (wo_leaseMs opts) clock0 s = Inr (s1, Some c)"
      "settle_handler port (claim_reference c) (wo_leaseMs opts) clock1 clock2 sample
         (handlers (cl_jobType c)) (start_run c s1) = Inr (s', x)"
proof -
  obtain clock0 clock1 clock2 where k: "clocks = (clock0, clock1, clock2)" by (cases clocks)
  show thesis
  proof (cases aborted)
    case True
    then show thesis using assms that(1) by (simp add: runOnce_def)
  next
    case False
    then obtain s1 claimed where c: "op_claimNext port (wo_workerId opts) (wo_leaseMs opts) clock0 s = Inr (s1, claimed)"
      using assms k by (auto simp: runOnce_def)
    show thesis
    proof (cases claimed)
      case None
      then show thesis using assms k c False that(2) by (simp add: runOnce_def)
    next
      case (Some cl)
      then show thesis using assms k c False that(3) by (simp add: runOnce_def)
    qed
  qed
qed

section \<open>A success goes through\<close>

lemma succeed_total:
  assumes inv: "store_inv sha db" and hash: "hex_hash sha" and opened: "\<not> db_closed db" and date: "valid_date now"
    and lease: "activeLease ref now db = Inr r" and rev: "jr_revision r < max_safe"
    and cps: "\<forall>k \<in> set (db_checkpoints db). cp_revision k \<le> max_safe"
  shows "is_ok (succeed sha ref (Some now) db)"
proof -
  let ?g = "release_attempt attempt_status.SUCCEEDED now None" and ?f = "succeed_row now r"
  let ?db2 = "moved db r ?g [] (?f r)"
  have r: "r \<in> set (db_jobs db)" and run: "jr_status r = job_status.RUNNING" using activeLeaseD[OF lease] by auto
  have m: "row_move r ?g [] (?f r)" by (rule row_move.Succeed[OF run])
  have inv2: "store_inv sha ?db2" by (rule store_move_inv[OF moved_is_move[OF r m] inv])
  then have side: "side_inv sha ?db2" by (simp add: store_inv_def)
  have row: "row_inv sha r" by (rule store_invD(1)[OF inv r])
  have row2: "row_inv sha (?f r)" by (rule row_move_inv[OF m row])
  obtain cp where cp: "checkpoint_of sha (checkpointRow ?db2 (jr_id r)) = Inr cp" using checkpoint_of_ok[OF side] by blast
  have "checkpoint_check k \<and> stored_ok sha (cp_payload k) \<and> cp_revision k \<le> max_safe"
    if "checkpointRow ?db2 (jr_id r) = Some k" for k
  proof -
    have "k \<in> set (db_checkpoints ?db2)" using that by (auto simp: checkpointRow_def dest: find_SomeD)
    then show ?thesis using side cps by (auto simp: side_inv_def moved_def)
  qed
  moreover have "jr_revision (?f r) \<le> max_safe" using rev by (simp add: succeed_row_def clear_lease_def)
  ultimately have "jobSnapshot_ok (snapshot_value (?f r) (checkpointRow ?db2 (jr_id r)))"
    by (intro row_snapshot_ok[OF hash row2]) auto
  then have snap: "snapshot (?f r) (checkpointRow ?db2 (jr_id r)) = Inr (snapshot_value (?f r) (checkpointRow ?db2 (jr_id r)))"
    by (simp add: snapshot_def Let_def)
  have parse: "parse_stored sha (jr_input (?f r)) = Inr (sz_value (jr_input (?f r)))"
    using row2 by (simp add: row_inv_def identity_inv_def parse_stored_ok)
  have same: "jr_id (?f r) = jr_id r" by simp
  note e = lease_update(1)[where f = ?f, OF inv lease m, folded finishAttempt_def]
  then obtain db1 where "finishAttempt ref attempt_status.SUCCEEDED now None db = Inr db1"
    "update_job (jr_id r) ?f db1 = Inr ?db2" by auto
  then have "succeed sha ref (Some now) db = finish_with sha ?db2 (jr_id r)"
    using opened date lease by (simp add: succeed_def clock_now_def assert_open_def)
  then show ?thesis
    unfolding finish_with_def require_moved[OF r same] and_then_simps record_of_def Let_def same cp snap parse
    by (simp add: is_ok_def)
qed

lemma claimed_lease:
  assumes "claimNext sha cfg w lease (Some now) db = Inr (db', Some c)" and "distinct (map jr_id (db_jobs db))"
    and "t < now + lease_or_default cfg lease"
  shows "\<exists>r. r \<in> set (db_jobs db) \<and> cl_jobId c = jr_id r
    \<and> activeLease (claim_reference c) t db' = Inr (claim_row r w now (now + lease_or_default cfg lease) r)"
proof -
  have l: "claim_loop 100 sha w (lease_or_default cfg lease) now db = Inr (db', Some c)"
    by (rule claimNextD[OF assms(1)]) simp
  from claim_loop_acquired[OF l assms(2)] obtain r where r: "jobRow db (cl_jobId c) = Some r"
    "cl_fencingToken c = jr_fencing r + 1" "cl_attemptId c = attempt_id (jr_id r) (jr_count r + 1)"
    "jobRow db' (cl_jobId c) = Some (claim_row r w now (now + lease_or_default cfg lease) r)" "cl_workerId c = w"
    by blast
  have "r \<in> set (db_jobs db)" "jr_id r = cl_jobId c" using jobRow_SomeD[OF r(1)] by auto
  then show ?thesis using r assms(3)
    by (intro exI[of _ r]) (simp add: activeLease_def claim_reference_def claim_row_def)
qed

lemma claim_keeps_rest:
  assumes "claimNext sha cfg w lease clock db = Inr (db', out)"
  shows "db_checkpoints db' = db_checkpoints db \<and> db_closed db' = db_closed db"
  by (rule claimNextD[OF assms]) (rule claim_loop_frame)

section \<open>Example\<close>

definition ex_options :: worker_options where
  "ex_options = \<lparr>wo_workerId = ''w1'', wo_leaseMs = 100, wo_heartbeatMs = 33\<rparr>"

abbreviation ex_store_port :: "job_db store_port" where
  "ex_store_port \<equiv> job_store_port ex_sha ex_cfg"

definition ex_cycle :: "(string \<Rightarrow> job_db handler_run option) \<Rightarrow> store_error + job_db \<times> worker_result" where
  "ex_cycle handlers = runOnce ex_store_port ex_options False (Some 10, Some 20, Some 30) (Some (1/2)) handlers ex_db1"

lemma ex_claimed: "ex_claim1 = Inr (ex_db2, Some ex_c1)" "ex_claim2 = Inr (ex_db3, Some ex_c2)"
proof -
  have "value_of None ex_claim1 \<noteq> None" "value_of None ex_claim2 \<noteq> None" by code_simp+
  then show "ex_claim1 = Inr (ex_db2, Some ex_c1)" "ex_claim2 = Inr (ex_db3, Some ex_c2)"
    unfolding ex_db2_def ex_db3_def ex_c1_def ex_c2_def by (intro claimed_result; simp)+
qed

lemma ex_hash: "hex_hash ex_sha"
proof -
  have "sha256_ok (ex_sha [])" by code_simp
  then show ?thesis by (simp add: hex_hash_def ex_sha_def)
qed

section \<open>Properties\<close>

text \<open>
  C5: No split brain. When, while a worker's handler runs, another worker claims the same job (its lease
  having lapsed), then whatever the first worker's handler, timer and settling calls do afterwards, they
  change nothing: the store ends up exactly as the commits of others leave it, and the cycle does not
  report the job as succeeded, failed, cancelled or waiting.
\<close>

theorem superseded_worker_settles_nothing:
  assumes "store_reachable sha db"
    and "claimNext sha cfg (wo_workerId opts) (Some (wo_leaseMs opts)) clock0 db = Inr (db1, Some c)"
    and "handlers (cl_jobType c) = Some (es1 @ OtherCommits db3 # es2, ending)"
    and "honest (job_store_port sha cfg) (store_step sha)\<^sup>*\<^sup>* (claim_reference c) (wo_leaseMs opts)
           (es1 @ OtherCommits db3 # es2) (start_run c db1)"
    and "(store_step sha)\<^sup>*\<^sup>* (rs_store (run_events (job_store_port sha cfg) (claim_reference c) (wo_leaseMs opts)
           es1 (start_run c db1))) db2"
    and "claimNext sha cfg' w' lease' clock' db2 = Inr (db3, Some c')" and "cl_jobId c' = cl_jobId c"
    and "runOnce (job_store_port sha cfg) opts False (clock0, clock1, clock2) sample handlers db = Inr (db', x)"
  shows "db' = others es2 db3 \<and> (\<forall>status job. x \<noteq> Job_Settled status job)"
proof -
  let ?p = "job_store_port sha cfg" and ?ref = "claim_reference c" and ?l = "wo_leaseMs opts"
  let ?run1 = "run_events ?p ?ref ?l es1 (start_run c db1)"
  let ?run3 = "?run1\<lparr>rs_store := db3\<rparr>"
  let ?last = "run_events ?p ?ref ?l (es1 @ OtherCommits db3 # es2) (start_run c db1)"
  have inv1: "store_inv sha db1" by (rule step_inv[OF store_step.ClaimNext[OF assms(2)] reachable_inv[OF assms(1)]])
  have h: "honest ?p (store_step sha)\<^sup>*\<^sup>* ?ref ?l es1 (start_run c db1)"
    "honest ?p (store_step sha)\<^sup>*\<^sup>* ?ref ?l es2 ?run3"
    using assms(4) by (auto simp: honest_append worker_event_def)
  have st: "(store_step sha)\<^sup>*\<^sup>* db1 db2"
    using job_worker.events_steps[OF h(1)] assms(5) by (simp add: start_run_def)
  have inv2: "store_inv sha db2" by (rule steps_inv[OF st inv1])
  have inv3: "store_inv sha db3" by (rule step_inv[OF store_step.ClaimNext[OF assms(6)] inv2])
  obtain r1 where r1: "jobRow db1 (cl_jobId c) = Some r1" "jr_fencing r1 = cl_fencingToken c"
    using claim_token[OF reachable_inv[OF assms(1)] assms(2)] by blast
  obtain s2 s3 where s: "jobRow db2 (cl_jobId c) = Some s2" "jr_fencing s2 < cl_fencingToken c'"
    "jobRow db3 (cl_jobId c) = Some s3" "jr_fencing s3 = cl_fencingToken c'"
    using claim_token[OF inv2 assms(6)] assms(7) by auto
  have "jr_fencing r1 \<le> jr_fencing s2" using steps_evolve[OF st inv1 r1(1)] s(1) by (auto simp: evolves_def)
  then have sup: "superseded sha ?ref (rs_store ?run3)"
    using inv3 r1(2) s by (simp add: superseded_def claim_reference_def)
  have e: "?last = run_events ?p ?ref ?l es2 ?run3"
    by (simp add: run_events_def worker_event_def)
  have last: "rs_store ?last = others es2 db3 \<and> superseded sha ?ref (rs_store ?last)"
  proof
    note f = job_worker.refused_events[OF sup h(2)]
    show "rs_store ?last = others es2 db3" unfolding e using conjunct1[OF f] by simp
    show "superseded sha ?ref (rs_store ?last)" unfolding e by (rule conjunct2[OF f])
  qed
  have "settle_handler ?p ?ref ?l clock1 clock2 sample (Some (es1 @ OtherCommits db3 # es2, ending)) (start_run c db1)
      = Inr (db', x)"
    using assms(2,3,8) by (simp add: runOnce_def)
  then show ?thesis
    using job_worker.refused_settles_nothing[OF conjunct2[OF last]] last
    by (auto simp: settle_handler_def Let_def split: option.splits)
qed

lemma superseded_worker_settles_nothing_witness:
  "\<exists>x. ex_cycle (\<lambda>_. Some ([OtherCommits ex_db3], None)) = Inr (ex_db3, x)"
proof -
  have "is_ok (ex_cycle (\<lambda>_. Some ([OtherCommits ex_db3], None)))" by code_simp
  then obtain db' x where r: "ex_cycle (\<lambda>_. Some ([OtherCommits ex_db3], None)) = Inr (db', x)"
    by (auto simp: is_ok_iff)
  have p: "runOnce ex_store_port ex_options False (Some 10, Some 20, Some 30) (Some (1/2))
      (\<lambda>_. Some ([] @ OtherCommits ex_db3 # [], None)) ex_db1 = Inr (db', x)"
    using r by (simp add: ex_cycle_def)
  have c1: "claimNext ex_sha ex_cfg (wo_workerId ex_options) (Some (wo_leaseMs ex_options)) (Some 10) ex_db1
      = Inr (ex_db2, Some ex_c1)"
    using ex_claimed(1) by (simp add: ex_claim1_def ex_options_def)
  have same: "cl_jobId ex_c2 = cl_jobId ex_c1" by code_simp
  have "db' = others [] ex_db3 \<and> (\<forall>status job. x \<noteq> Job_Settled status job)"
    by (rule superseded_worker_settles_nothing[OF ex_reachable1 c1 refl _ _ ex_claimed(2)[unfolded ex_claim2_def] same p])
      (use ex_step3 in \<open>auto simp: start_run_def run_events_def worker_event_def\<close>)
  then show ?thesis using r by auto
qed

text \<open>
  A cycle reports the truth. When a cycle on a reachable store reports a job as succeeded, waiting for
  a retry, failed or cancelled, the row of that job in the store has exactly that status, and so has the
  snapshot it returns.
\<close>

theorem cycle_reports_truth:
  assumes "store_reachable sha db"
    and "runOnce (job_store_port sha cfg) opts aborted clocks sample handlers db = Inr (db', Job_Settled status job)"
  shows "\<exists>r. jobRow db' (js_jobId (rc_snapshot job)) = Some r \<and> jr_status r = cycle_job_status status
    \<and> js_status (rc_snapshot job) = jr_status r"
proof (rule runOnce_cases[OF assms(2)])
  fix clock0 clock1 clock2 c s1
  assume c: "op_claimNext (job_store_port sha cfg) (wo_workerId opts) (wo_leaseMs opts) clock0 db = Inr (s1, Some c)"
    and h: "settle_handler (job_store_port sha cfg) (claim_reference c) (wo_leaseMs opts) clock1 clock2 sample
      (handlers (cl_jobType c)) (start_run c s1) = Inr (db', Job_Settled status job)"
  have "\<exists>r. jobRow s1 (cl_jobId c) = Some r \<and> jr_cancel r \<noteq> REQUESTED"
    by (rule claimed_not_requested[OF reachable_inv[OF assms(1)] c[simplified]])
  then have "settled_truly (claim_reference c) (db', Job_Settled status job)"
    by (intro handler_truly[OF h]) (simp add: start_run_def claim_reference_def)
  then show ?thesis by (auto simp: settled_truly_def)
qed simp_all

text \<open>
  A cycle keeps the store well formed. As long as other processes only commit store operations while
  the handler runs, a cycle leads from a reachable store to one reachable by further store operations, so
  every invariant of the store survives it, whatever the handler does and however it ends.
\<close>

theorem cycle_keeps_store:
  assumes "store_reachable sha db"
    and "runOnce (job_store_port sha cfg) opts aborted clocks sample handlers db = Inr (db', x)"
    and "\<And>clock c db1 es ending. claimNext sha cfg (wo_workerId opts) (Some (wo_leaseMs opts)) clock db = Inr (db1, Some c)
      \<Longrightarrow> handlers (cl_jobType c) = Some (es, ending) \<Longrightarrow>
      honest (job_store_port sha cfg) (store_step sha)\<^sup>*\<^sup>* (claim_reference c) (wo_leaseMs opts) es (start_run c db1)"
  shows "(store_step sha)\<^sup>*\<^sup>* db db' \<and> store_reachable sha db'"
proof -
  have "(store_step sha)\<^sup>*\<^sup>* db db'"
  proof (rule runOnce_cases[OF assms(2)])
    fix clock0 assume "op_claimNext (job_store_port sha cfg) (wo_workerId opts) (wo_leaseMs opts) clock0 db = Inr (db', None)"
    then show ?thesis by (rule job_worker.op_steps(6))
  next
    fix clock0 clock1 clock2 c s1
    assume c: "op_claimNext (job_store_port sha cfg) (wo_workerId opts) (wo_leaseMs opts) clock0 db = Inr (s1, Some c)"
      and h: "settle_handler (job_store_port sha cfg) (claim_reference c) (wo_leaseMs opts) clock1 clock2 sample
        (handlers (cl_jobType c)) (start_run c s1) = Inr (db', x)"
    have "(store_step sha)\<^sup>*\<^sup>* (rs_store (start_run c s1)) db'"
      by (rule job_worker.handler_steps[OF h]) (rule assms(3)[OF c[simplified]])
    then show ?thesis using job_worker.op_steps(6)[OF c] by (simp add: start_run_def)
  qed simp
  then show ?thesis using assms(1) unfolding store_reachable_def by simp
qed

text \<open>
  Retries. When the handler fails with no cancellation noticed, no abort and a live timer, and the
  attempt is settled, the outcome is decided by the row alone: cancelled if a cancellation is requested,
  else waiting for a retry exactly when the error is not marked non-retryable and an attempt is left,
  else failed.
\<close>

theorem failed_handler_outcome:
  assumes "settle_caught (job_store_port sha cfg) ref clock sample err rs = Inr (db', x)"
    and "\<not> rs_leaseLost rs" and "\<not> rs_cancellationRequested rs" and "\<not> rs_aborted rs"
    and "\<not> rs_heartbeatFailed rs" and "err \<noteq> ThrewLeaseLost" and "err \<noteq> ThrewCancellation"
  shows "\<exists>r status job. jobRow (rs_store rs) (lr_jobId ref) = Some r \<and> x = Job_Settled status job
    \<and> cycle_job_status status = (if jr_cancel r = REQUESTED then job_status.CANCELLED
        else if (\<forall>c. err \<noteq> ThrewNonRetryable c) \<and> jr_count r < jr_max r then job_status.RETRY_WAIT
        else job_status.FAILED)"
proof -
  from assms obtain job where f: "fail_job sha cfg ref (fst (failure_of err)) (snd (failure_of err)) sample clock
      (rs_store rs) = Inr (db', job)" and x: "x = Job_Settled (failed_status job) job"
    by (auto simp: settle_caught_def Let_def)
  have retry: "snd (failure_of err) \<longleftrightarrow> (\<forall>c. err \<noteq> ThrewNonRetryable c)"
    by (cases err) (auto simp: failure_of_def)
  obtain r s where r: "jobRow (rs_store rs) (lr_jobId ref) = Some r"
    "js_status (rc_snapshot job) = failure_status r (snd (failure_of err))"
    using fail_row_left[OF f] by auto
  then have "cycle_job_status (failed_status job) = failure_status r (snd (failure_of err))"
    by (auto simp: failed_status_def failure_status_def)
  then show ?thesis using r(1) x unfolding failure_status_def retry by blast
qed

text \<open>
  A queued job gets done. On a store with a queued job, fewer than 100 lapsed leases, valid clocks
  within the lease, safe revisions and handlers that return, one cycle ends with a job reported as
  succeeded and its row \<open>SUCCEEDED\<close> in the store.
\<close>

theorem queued_job_completes:
  assumes "store_reachable sha db" and "hex_hash sha" and "\<not> db_closed db"
    and "safeId 200 (wo_workerId opts)" and "bounded 10 3600000 (wo_leaseMs opts)"
    and "valid_date now" and "valid_date (now + wo_leaseMs opts)"
    and "valid_date later" and "later < now + wo_leaseMs opts"
    and "\<forall>r \<in> set (db_jobs db). jr_revision r + 1 < max_safe"
    and "\<forall>k \<in> set (db_checkpoints db). cp_revision k \<le> max_safe"
    and "length (lapsed now db) < 100"
    and "q \<in> set (db_jobs db)" and "jr_status q = job_status.QUEUED"
  shows "\<exists>db' job r. runOnce (job_store_port sha cfg) opts False (Some now, Some later, clock2) sample
        (\<lambda>_. Some ([], None)) db = Inr (db', Job_Settled CYCLE_SUCCEEDED job)
    \<and> jobRow db' (js_jobId (rc_snapshot job)) = Some r \<and> jr_status r = job_status.SUCCEEDED"
proof -
  have rev: "\<forall>r \<in> set (db_jobs db). jr_revision r < max_safe" using assms(10) by auto
  have l: "lease_or_default cfg (Some (wo_leaseMs opts)) = wo_leaseMs opts" by (simp add: lease_or_default_def)
  obtain db1 c where c: "claimNext sha cfg (wo_workerId opts) (Some (wo_leaseMs opts)) (Some now) db = Inr (db1, Some c)"
    using queued_claim[of sha db "wo_workerId opts" cfg "Some (wo_leaseMs opts)" now q] assms rev l by auto
  have d: "distinct (map jr_id (db_jobs db))" using reachable_inv[OF assms(1)] by (simp add: store_inv_def)
  obtain r where r: "r \<in> set (db_jobs db)"
    "activeLease (claim_reference c) later db1 = Inr (claim_row r (wo_workerId opts) now (now + wo_leaseMs opts) r)"
    using claimed_lease[OF c d, of later] assms(9) l by auto
  have inv1: "store_inv sha db1" by (rule step_inv[OF store_step.ClaimNext[OF c] reachable_inv[OF assms(1)]])
  have "is_ok (succeed sha (claim_reference c) (Some later) db1)"
    by (rule succeed_total[OF inv1 assms(2) _ assms(8) r(2)])
      (use claim_keeps_rest[OF c] assms(3,10,11) r(1) in \<open>auto simp: claim_row_def\<close>)
  then obtain db' job where s: "succeed sha (claim_reference c) (Some later) db1 = Inr (db', job)"
    by (auto simp: is_ok_iff)
  have "runOnce (job_store_port sha cfg) opts False (Some now, Some later, clock2) sample (\<lambda>_. Some ([], None)) db
      = Inr (db', Job_Settled CYCLE_SUCCEEDED job)"
    using c s by (simp add: runOnce_def settle_handler_def run_events_def settle_returned_def settle_as_def
        or_caught_def start_run_def Let_def)
  then show ?thesis using succeed_row_left[OF s] by auto
qed

definition ex_done_cycle :: "store_error + job_db \<times> worker_result" where
  "ex_done_cycle = ex_cycle (\<lambda>_. Some ([], None))"

fun succeeded_result :: "worker_result \<Rightarrow> bool" where
  "succeeded_result (Job_Settled status job) = (status = CYCLE_SUCCEEDED)"
| "succeeded_result x = False"

lemma ex_done_result:
  obtains db' job where "ex_done_cycle = Inr (db', Job_Settled CYCLE_SUCCEEDED job)"
proof -
  have "is_ok ex_done_cycle" by code_simp
  then obtain db' x where r: "ex_done_cycle = Inr (db', x)" by (auto simp: is_ok_iff)
  have "succeeded_result (value_of CYCLE_IDLE ex_done_cycle)" by code_simp
  then have "succeeded_result x" unfolding value_of_def r by simp
  then show thesis using r that by (cases x) auto
qed

lemma cycle_reports_truth_witness:
  "\<exists>db' job r. ex_done_cycle = Inr (db', Job_Settled CYCLE_SUCCEEDED job)
     \<and> jobRow db' (js_jobId (rc_snapshot job)) = Some r \<and> jr_status r = job_status.SUCCEEDED"
proof (rule ex_done_result)
  fix db' job assume r: "ex_done_cycle = Inr (db', Job_Settled CYCLE_SUCCEEDED job)"
  show ?thesis
    using cycle_reports_truth[OF ex_reachable1 r[unfolded ex_done_cycle_def ex_cycle_def]] r by auto
qed

lemma cycle_keeps_store_witness:
  "\<exists>db' x. ex_done_cycle = Inr (db', x) \<and> store_reachable ex_sha db'"
proof (rule ex_done_result)
  fix db' job assume r: "ex_done_cycle = Inr (db', Job_Settled CYCLE_SUCCEEDED job)"
  have "store_reachable ex_sha db'"
    by (rule conjunct2[OF cycle_keeps_store[OF ex_reachable1 r[unfolded ex_done_cycle_def ex_cycle_def]]]) simp
  then show ?thesis using r by blast
qed

definition ex_failed_run :: "job_db run_state" where
  "ex_failed_run = start_run ex_c1 ex_db2"

lemma failed_handler_outcome_witness:
  "\<exists>db' status job. settle_caught ex_store_port (claim_reference ex_c1) (Some 20) (Some (1/2)) ThrewOther ex_failed_run
       = Inr (db', Job_Settled status job) \<and> cycle_job_status status = job_status.RETRY_WAIT"
proof -
  let ?r = "settle_caught ex_store_port (claim_reference ex_c1) (Some 20) (Some (1/2)) ThrewOther ex_failed_run"
  have "is_ok ?r" by code_simp
  then obtain db' x where r: "?r = Inr (db', x)" by (auto simp: is_ok_iff)
  have row: "case jobRow (rs_store ex_failed_run) (lr_jobId (claim_reference ex_c1)) of None \<Rightarrow> False
      | Some r \<Rightarrow> jr_cancel r \<noteq> REQUESTED \<and> jr_count r < jr_max r" by code_simp
  have flags: "\<not> rs_leaseLost ex_failed_run" "\<not> rs_cancellationRequested ex_failed_run"
    "\<not> rs_aborted ex_failed_run" "\<not> rs_heartbeatFailed ex_failed_run"
    by (simp_all add: ex_failed_run_def start_run_def)
  show ?thesis using failed_handler_outcome[OF r flags] row r by auto
qed

lemma queued_job_completes_witness:
  "\<exists>db' job r. runOnce ex_store_port ex_options False (Some 7, Some 20, None) None (\<lambda>_. Some ([], None)) ex_db1
       = Inr (db', Job_Settled CYCLE_SUCCEEDED job)
     \<and> jobRow db' (js_jobId (rc_snapshot job)) = Some r \<and> jr_status r = job_status.SUCCEEDED"
proof (rule queued_job_completes[OF ex_reachable1 ex_hash, where q = "hd (db_jobs ex_db1)"])
  have "db_jobs ex_db1 \<noteq> []" by code_simp
  then show "hd (db_jobs ex_db1) \<in> set (db_jobs ex_db1)" by simp
qed code_simp+

end
