(* ===== verification/Domain.thy ===== *)
theory Domain
  imports Prelude
begin

text \<open>
  The domain package (\<^verbatim>\<open>packages/domain/src\<close>): knowledge kinds and statuses, scopes and their
  validation, assertions and evidence, candidates and assets, locators, the lifecycle state
  machine and the global-promotion rule.
\<close>

section \<open>Knowledge vocabulary (knowledge.ts, evidence.ts, localization.ts)\<close>

datatype knowledge_kind =
  FACT | REQUIREMENT | DESIGN | DECISION | IMPLEMENTATION | EXPERIENCE | RULE | PREFERENCE
| OPEN_QUESTION

datatype knowledge_status =
  PROPOSED | ACCEPTED | IMPLEMENTED | VERIFIED | REJECTED | STALE | SUPERSEDED

datatype relation_type =
  CONTRADICTS | SUPERSEDES | IMPLEMENTS | DERIVED_FROM | RELATED_TO | DUPLICATE_OF

record knowledge_relation =
  kr_type :: relation_type
  kr_targetId :: string
  kr_targetVersion :: "int option"
  kr_reason :: "string option"

datatype claim_mode = CURRENT_STATE | USER_DECISION | FUTURE_REQUIREMENT

datatype evidence_type =
  USER_STATEMENT | CODE_SYMBOL | CODE_RELATION | CODE_IMPACT | FILE_CONTENT | DEPENDENCY
| CONFIGURATION | COMMAND_RESULT | TEST_RESULT | CROSS_PROJECT

datatype evidence_verdict = SUPPORTS | CONTRADICTS | INCONCLUSIVE

datatype assertion_kind =
  USER_ACCEPTED | USER_REJECTED | SYMBOL_EXISTS | CALL_PATH_EXISTS | IMPACT_CONTAINS
| FILE_CONTAINS | DEPENDENCY_PRESENT | CONFIG_EQUALS | COMMAND_SUCCEEDED | TEST_PASSED
| CROSS_PROJECT_VERIFIED

datatype match_mode = EXACT | REGEX | STRUCTURAL

text \<open>The parameters of each assertion kind, in the order of the interface's fields.\<close>

datatype assertion_body =
  UserAccepted string
| UserRejected string
| SymbolExists string string "string option"
| CallPathExists string string string "int option"
| ImpactContains string string string
| FileContains string string match_mode
| DependencyPresent string "string option" "string option"
| ConfigEquals string string "string option"
| CommandSucceeded string int
| TestPassed string "string option" "string option"
| CrossProjectVerified string int

fun assertion_kind_of :: "assertion_body \<Rightarrow> assertion_kind" where
  "assertion_kind_of (UserAccepted _) = USER_ACCEPTED"
| "assertion_kind_of (UserRejected _) = USER_REJECTED"
| "assertion_kind_of (SymbolExists _ _ _) = SYMBOL_EXISTS"
| "assertion_kind_of (CallPathExists _ _ _ _) = CALL_PATH_EXISTS"
| "assertion_kind_of (ImpactContains _ _ _) = IMPACT_CONTAINS"
| "assertion_kind_of (FileContains _ _ _) = FILE_CONTAINS"
| "assertion_kind_of (DependencyPresent _ _ _) = DEPENDENCY_PRESENT"
| "assertion_kind_of (ConfigEquals _ _ _) = CONFIG_EQUALS"
| "assertion_kind_of (CommandSucceeded _ _) = COMMAND_SUCCEEDED"
| "assertion_kind_of (TestPassed _ _ _) = TEST_PASSED"
| "assertion_kind_of (CrossProjectVerified _ _) = CROSS_PROJECT_VERIFIED"

record knowledge_assertion =
  ka_assertionId :: string
  ka_candidateId :: string
  ka_body :: assertion_body
  ka_createdAt :: timestamp

abbreviation ka_kind :: "knowledge_assertion \<Rightarrow> assertion_kind" where
  "ka_kind a \<equiv> assertion_kind_of (ka_body a)"

record evidence_hint =
  eh_type :: evidence_type
  eh_sourceRef :: string
  eh_projectId :: "string option"
  eh_correlationId :: string

datatype detail_value = DetailText string | DetailNumber rat | DetailFlag bool

record evidence =
  ev_evidenceId :: string
  ev_assertionId :: "string option"
  ev_type :: evidence_type
  ev_verdict :: evidence_verdict
  ev_sourceRef :: string
  ev_projectId :: "string option"
  ev_observedAt :: timestamp
  ev_correlationId :: string
  ev_details :: "(string \<times> detail_value) list option"

record evidence_ref =
  er_evidenceId :: string
  er_verdict :: evidence_verdict

section \<open>Scopes (scope.ts)\<close>

datatype scope_level = TASK | SYMBOL | MODULE | PROJECT | USER | TEAM | GLOBAL

text \<open>Project coordinates are a project id and an optional repository remote.\<close>

datatype knowledge_scope =
  TaskScope string "string option" "string option"
| SymbolScope "string list" string "string option"
| ModuleScope "string list" string "string option"
| ProjectScope string "string option"
| UserScope string
| TeamScope string
| GlobalScope

fun scope_level_of :: "knowledge_scope \<Rightarrow> scope_level" where
  "scope_level_of (TaskScope _ _ _) = TASK"
| "scope_level_of (SymbolScope _ _ _) = SYMBOL"
| "scope_level_of (ModuleScope _ _ _) = MODULE"
| "scope_level_of (ProjectScope _ _) = PROJECT"
| "scope_level_of (UserScope _) = USER"
| "scope_level_of (TeamScope _) = TEAM"
| "scope_level_of GlobalScope = GLOBAL"

text \<open>The \<open>projectId\<close> property of a scope, where it has one.\<close>

fun scope_projectId :: "knowledge_scope \<Rightarrow> string option" where
  "scope_projectId (TaskScope _ p _) = p"
| "scope_projectId (SymbolScope _ p _) = Some p"
| "scope_projectId (ModuleScope _ p _) = Some p"
| "scope_projectId (ProjectScope p _) = Some p"
| "scope_projectId _ = None"

record scope_hint =
  sh_level :: "scope_level option"
  sh_taskId :: "string option"
  sh_projectId :: "string option"
  sh_repositoryRemote :: "string option"
  sh_modulePaths :: "string list option"
  sh_symbols :: "string list option"
  sh_userId :: "string option"
  sh_teamId :: "string option"
  sh_reasonCodes :: "string list"

record project_context =
  pc_projectId :: string
  pc_repositoryRoot :: "string option"
  pc_repositoryRemote :: "string option"
  pc_branch :: "string option"
  pc_revision :: "(string \<times> bool) option"
  pc_portable :: bool

text \<open>\<open>ScopeInput\<close>: every field optional, the level a free string.\<close>

record scope_input =
  si_level :: "string option"
  si_taskId :: "string option"
  si_projectId :: "string option"
  si_repositoryRemote :: "string option"
  si_modulePaths :: "string list option"
  si_symbols :: "string list option"
  si_userId :: "string option"
  si_teamId :: "string option"

datatype scope_field =
  F_taskId | F_projectId | F_repositoryRemote | F_modulePaths | F_symbols | F_userId | F_teamId

datatype scope_error =
  RequiresField scope_level scope_field
| MustNotDefine scope_level scope_field
| UnsupportedLevel "string option"

definition opt_has_text :: "string option \<Rightarrow> bool" where
  "opt_has_text v = (case v of None \<Rightarrow> False | Some s \<Rightarrow> has_text s)"

definition opt_has_items :: "string list option \<Rightarrow> bool" where
  "opt_has_items v = (case v of None \<Rightarrow> False | Some xs \<Rightarrow> xs \<noteq> [] \<and> list_all has_text xs)"

definition defined_fields :: "scope_input \<Rightarrow> scope_field list" where
  "defined_fields i =
     (if si_taskId i = None then [] else [F_taskId])
   @ (if si_projectId i = None then [] else [F_projectId])
   @ (if si_repositoryRemote i = None then [] else [F_repositoryRemote])
   @ (if si_modulePaths i = None then [] else [F_modulePaths])
   @ (if si_symbols i = None then [] else [F_symbols])
   @ (if si_userId i = None then [] else [F_userId])
   @ (if si_teamId i = None then [] else [F_teamId])"

text \<open>\<open>rejectUnexpected\<close>: one error per defined field outside the level's allowed ones.\<close>

definition rejectUnexpected :: "scope_input \<Rightarrow> scope_level \<Rightarrow> scope_field list \<Rightarrow> scope_error list" where
  "rejectUnexpected i level allowed =
     map (MustNotDefine level) (filter (\<lambda>f. f \<notin> set allowed) (defined_fields i))"

definition require_field :: "bool \<Rightarrow> scope_level \<Rightarrow> scope_field \<Rightarrow> scope_error list" where
  "require_field ok level f = (if ok then [] else [RequiresField level f])"

definition parse_level :: "string option \<Rightarrow> scope_level option" where
  "parse_level l =
     (if l = Some ''TASK'' then Some TASK else if l = Some ''SYMBOL'' then Some SYMBOL
      else if l = Some ''MODULE'' then Some MODULE else if l = Some ''PROJECT'' then Some PROJECT
      else if l = Some ''USER'' then Some USER else if l = Some ''TEAM'' then Some TEAM
      else if l = Some ''GLOBAL'' then Some GLOBAL else None)"

definition scope_errors :: "scope_input \<Rightarrow> scope_error list" where
  "scope_errors i = (case parse_level (si_level i) of
     Some TASK \<Rightarrow> require_field (opt_has_text (si_taskId i)) TASK F_taskId
       @ rejectUnexpected i TASK [F_taskId, F_projectId, F_repositoryRemote]
   | Some SYMBOL \<Rightarrow> require_field (opt_has_text (si_projectId i)) SYMBOL F_projectId
       @ require_field (opt_has_items (si_symbols i)) SYMBOL F_symbols
       @ rejectUnexpected i SYMBOL [F_projectId, F_repositoryRemote, F_symbols]
   | Some MODULE \<Rightarrow> require_field (opt_has_text (si_projectId i)) MODULE F_projectId
       @ require_field (opt_has_items (si_modulePaths i)) MODULE F_modulePaths
       @ rejectUnexpected i MODULE [F_projectId, F_repositoryRemote, F_modulePaths]
   | Some PROJECT \<Rightarrow> require_field (opt_has_text (si_projectId i)) PROJECT F_projectId
       @ rejectUnexpected i PROJECT [F_projectId, F_repositoryRemote]
   | Some USER \<Rightarrow> require_field (opt_has_text (si_userId i)) USER F_userId
       @ rejectUnexpected i USER [F_userId]
   | Some TEAM \<Rightarrow> require_field (opt_has_text (si_teamId i)) TEAM F_teamId
       @ rejectUnexpected i TEAM [F_teamId]
   | Some GLOBAL \<Rightarrow> rejectUnexpected i GLOBAL []
   | None \<Rightarrow> [UnsupportedLevel (si_level i)])"

text \<open>
  \<open>input as KnowledgeScope\<close>. The cast is only reached without errors; \<open>None\<close> marks an input
  whose required fields are missing, which \<open>validateKnowledgeScope_total\<close> excludes.
\<close>

definition cast_scope :: "scope_input \<Rightarrow> knowledge_scope option" where
  "cast_scope i = (case parse_level (si_level i) of
     Some TASK \<Rightarrow> map_option (\<lambda>t. TaskScope t (si_projectId i) (si_repositoryRemote i)) (si_taskId i)
   | Some SYMBOL \<Rightarrow> (case (si_symbols i, si_projectId i) of
       (Some s, Some p) \<Rightarrow> Some (SymbolScope s p (si_repositoryRemote i)) | _ \<Rightarrow> None)
   | Some MODULE \<Rightarrow> (case (si_modulePaths i, si_projectId i) of
       (Some m, Some p) \<Rightarrow> Some (ModuleScope m p (si_repositoryRemote i)) | _ \<Rightarrow> None)
   | Some PROJECT \<Rightarrow> map_option (\<lambda>p. ProjectScope p (si_repositoryRemote i)) (si_projectId i)
   | Some USER \<Rightarrow> map_option UserScope (si_userId i)
   | Some TEAM \<Rightarrow> map_option TeamScope (si_teamId i)
   | Some GLOBAL \<Rightarrow> Some GlobalScope
   | None \<Rightarrow> None)"

definition validateKnowledgeScope :: "scope_input \<Rightarrow> scope_error list + knowledge_scope" where
  "validateKnowledgeScope i =
     (if scope_errors i \<noteq> [] then Inl (scope_errors i)
      else case cast_scope i of None \<Rightarrow> Inl [] | Some s \<Rightarrow> Inr s)"

definition hasProjectSpecificScopeFields :: "scope_input \<Rightarrow> bool" where
  "hasProjectSpecificScopeFields i \<longleftrightarrow>
     si_taskId i \<noteq> None \<or> si_projectId i \<noteq> None \<or> si_repositoryRemote i \<noteq> None
     \<or> si_modulePaths i \<noteq> None \<or> si_symbols i \<noteq> None"

section \<open>Locators (localization.ts)\<close>

datatype branch_applicability =
  EXACT_BRANCH string
| BRANCH_LINEAGE string "string option"
| ALL_BRANCHES string

record observed_revision =
  or_branch :: "string option"
  or_commit :: "string option"
  or_dirty :: bool
  or_codegraphRevision :: "string option"

record knowledge_locator =
  kl_schemaVersion :: int
  kl_projectId :: string
  kl_repositoryRemote :: "string option"
  kl_observedRevision :: observed_revision
  kl_branchApplicability :: branch_applicability
  kl_scenarioId :: string
  kl_scenarioKey :: string
  kl_scenarioTitle :: string
  kl_scenarioSummary :: string
  kl_modulePaths :: "string list"
  kl_symbols :: "string list"
  kl_entryPoints :: "string list"
  kl_taskIntents :: "string list"
  kl_applicability :: "string list"
  kl_nonApplicability :: "string list"

definition slug_tail :: "char \<Rightarrow> bool" where [text_simps]:
  "slug_tail c \<longleftrightarrow> ascii_lower c \<or> ascii_digit c \<or> c = CHR ''-''"

text \<open>\<open>[a-z][a-z0-9-]*\<close>, one segment of a dotted key.\<close>

definition slug :: "string \<Rightarrow> bool" where [text_simps]:
  "slug s = (case s of [] \<Rightarrow> False | c # cs \<Rightarrow> ascii_lower c \<and> list_all slug_tail cs)"

text \<open>\<open>/^slug(\.slug){n,}$/\<close>: at least \<open>n + 1\<close> segments.\<close>

definition dotted_key :: "nat \<Rightarrow> string \<Rightarrow> bool" where [text_simps]:
  "dotted_key n s \<longleftrightarrow> (let segs = split_on (CHR ''.'') s in n < length segs \<and> list_all slug segs)"

definition isValidSubjectKey :: "string \<Rightarrow> bool" where
  "isValidSubjectKey s = dotted_key 2 s"

definition isValidScenarioKey :: "string \<Rightarrow> bool" where
  "isValidScenarioKey s \<longleftrightarrow> length s \<le> 500 \<and> dotted_key 1 s"

text \<open>\<open>/^[0-9a-f]{7,64}$/u\<close>.\<close>

definition hex_char :: "char \<Rightarrow> bool" where [text_simps]:
  "hex_char c \<longleftrightarrow> ascii_digit c \<or> 97 \<le> code_of c \<and> code_of c \<le> 102"

definition git_commit :: "string \<Rightarrow> bool" where [text_simps]:
  "git_commit s \<longleftrightarrow> 7 \<le> length s \<and> length s \<le> 64 \<and> list_all hex_char s"

text \<open>\<open>hasText(value, max)\<close> of localization.ts (no trimming here).\<close>

definition locator_text :: "nat \<Rightarrow> string \<Rightarrow> bool" where
  "locator_text n s \<longleftrightarrow> s \<noteq> [] \<and> length s \<le> n \<and> plain_text s"

definition locator_items :: "string list \<Rightarrow> bool" where
  "locator_items xs \<longleftrightarrow> length xs \<le> 100 \<and> list_all (locator_text 4096) xs"

text \<open>\<open>deriveScenarioId\<close>; \<open>None\<close> is the thrown SCENARIO_ID_INPUT_INVALID.\<close>

definition deriveScenarioId :: "string \<Rightarrow> string \<Rightarrow> string option" where
  "deriveScenarioId p k =
     (if \<not> locator_text 500 p \<or> \<not> isValidScenarioKey k then None
      else Some (''scenario:'' @ p @ '':'' @ k))"

definition opt_ok :: "('a \<Rightarrow> bool) \<Rightarrow> 'a option \<Rightarrow> bool" where
  "opt_ok P v = (case v of None \<Rightarrow> True | Some x \<Rightarrow> P x)"

text \<open>The checks of \<open>validateKnowledgeLocator\<close>, each paired with the reason code it adds.\<close>

definition locator_checks :: "knowledge_locator \<Rightarrow> (bool \<times> string) list" where
  "locator_checks l =
    [(kl_schemaVersion l = 1, ''LOCATOR_SCHEMA_UNSUPPORTED''),
     (locator_text 500 (kl_projectId l), ''LOCATOR_PROJECT_MISSING''),
     (opt_ok (locator_text 4096) (kl_repositoryRemote l), ''LOCATOR_REMOTE_INVALID''),
     (locator_text 500 (kl_projectId l) \<and> isValidScenarioKey (kl_scenarioKey l)
        \<and> deriveScenarioId (kl_projectId l) (kl_scenarioKey l) = Some (kl_scenarioId l),
      ''LOCATOR_SCENARIO_INVALID''),
     (locator_text 500 (kl_scenarioTitle l) \<and> locator_text 4000 (kl_scenarioSummary l),
      ''LOCATOR_SCENARIO_DESCRIPTION_INVALID''),
     (opt_ok (locator_text 500) (or_branch (kl_observedRevision l)), ''LOCATOR_BRANCH_INVALID''),
     (opt_ok git_commit (or_commit (kl_observedRevision l)), ''LOCATOR_COMMIT_INVALID''),
     (opt_ok (locator_text 500) (or_codegraphRevision (kl_observedRevision l)),
      ''LOCATOR_CODEGRAPH_REVISION_INVALID''),
     (case kl_branchApplicability l of EXACT_BRANCH b \<Rightarrow> locator_text 500 b | _ \<Rightarrow> True,
      ''LOCATOR_EXACT_BRANCH_INVALID''),
     (case kl_branchApplicability l of BRANCH_LINEAGE c _ \<Rightarrow> git_commit c | _ \<Rightarrow> True,
      ''LOCATOR_LINEAGE_COMMIT_INVALID''),
     (case kl_branchApplicability l of ALL_BRANCHES r \<Rightarrow> locator_text 1000 r | _ \<Rightarrow> True,
      ''LOCATOR_ALL_BRANCHES_REASON_INVALID''),
     (locator_items (kl_modulePaths l), ''LOCATOR_MODULE_PATHS_INVALID''),
     (locator_items (kl_symbols l), ''LOCATOR_SYMBOLS_INVALID''),
     (locator_items (kl_entryPoints l), ''LOCATOR_ENTRY_POINTS_INVALID''),
     (locator_items (kl_taskIntents l), ''LOCATOR_TASK_INTENTS_INVALID''),
     (locator_items (kl_applicability l), ''LOCATOR_APPLICABILITY_INVALID''),
     (locator_items (kl_nonApplicability l), ''LOCATOR_NON_APPLICABILITY_INVALID'')]"

record locator_validation =
  lv_valid :: bool
  lv_reasonCodes :: "string list"

definition validateKnowledgeLocator :: "knowledge_locator \<Rightarrow> locator_validation" where
  "validateKnowledgeLocator l =
     (let reasons = map snd (filter (\<lambda>c. \<not> fst c) (locator_checks l))
      in \<lparr>lv_valid = (reasons = []), lv_reasonCodes = sort reasons\<rparr>)"

definition locatorHasAuthoritativeRevision :: "knowledge_locator \<Rightarrow> bool" where
  "locatorHasAuthoritativeRevision l \<longleftrightarrow>
     or_branch (kl_observedRevision l) \<noteq> None \<and> or_commit (kl_observedRevision l) \<noteq> None"

section \<open>Candidates and assets (knowledge.ts)\<close>

text \<open>Schema 1 carries an optional claim mode and locator, schema 2 requires both.\<close>

datatype candidate_localization =
  Schema1 "claim_mode option" "knowledge_locator option"
| Schema2 claim_mode knowledge_locator

record knowledge_candidate =
  kc_candidateId :: string
  kc_compilerVersion :: string
  kc_status :: knowledge_status
  kc_subjectKey :: string
  kc_kind :: knowledge_kind
  kc_scopeHint :: scope_hint
  kc_title :: string
  kc_summary :: string
  kc_body :: string
  kc_sourceEpisodes :: "string list"
  kc_confidence :: rat
  kc_createdAt :: timestamp
  kc_correlationId :: string
  kc_assertions :: "knowledge_assertion list"
  kc_evidenceHints :: "evidence_hint list"
  kc_localization :: candidate_localization

definition kc_claimMode :: "knowledge_candidate \<Rightarrow> claim_mode option" where
  "kc_claimMode c = (case kc_localization c of Schema1 m _ \<Rightarrow> m | Schema2 m _ \<Rightarrow> Some m)"

record knowledge_asset =
  as_schemaVersion :: int
  as_id :: string
  as_subjectKey :: string
  as_kind :: knowledge_kind
  as_scope :: knowledge_scope
  as_version :: int
  as_status :: knowledge_status
  as_title :: string
  as_summary :: string
  as_body :: string
  as_aliases :: "string list"
  as_keywords :: "string list"
  as_applicability :: "string list"
  as_nonApplicability :: "string list"
  as_symbols :: "string list"
  as_relations :: "knowledge_relation list"
  as_evidence :: "evidence_ref list"
  as_confidence :: rat
  as_sourceEpisodes :: "string list"
  as_contentHash :: string
  as_codeFingerprint :: "string option"
  as_correlationId :: string
  as_createdAt :: timestamp
  as_updatedAt :: timestamp
  as_claimMode :: "claim_mode option"
  as_locator :: "knowledge_locator option"

definition isDefaultRetrievalEligible :: "knowledge_status \<Rightarrow> bool" where
  "isDefaultRetrievalEligible s \<longleftrightarrow> s \<in> {ACCEPTED, IMPLEMENTED, VERIFIED}"

section \<open>The lifecycle state machine (state-machine.ts)\<close>

fun getAllowedStatusTransitions :: "knowledge_status \<Rightarrow> knowledge_status list" where
  "getAllowedStatusTransitions PROPOSED = [ACCEPTED, IMPLEMENTED, REJECTED, SUPERSEDED]"
| "getAllowedStatusTransitions ACCEPTED = [IMPLEMENTED, REJECTED, SUPERSEDED]"
| "getAllowedStatusTransitions IMPLEMENTED = [VERIFIED, STALE, SUPERSEDED]"
| "getAllowedStatusTransitions VERIFIED = [STALE, SUPERSEDED]"
| "getAllowedStatusTransitions REJECTED = []"
| "getAllowedStatusTransitions STALE = [VERIFIED, SUPERSEDED]"
| "getAllowedStatusTransitions SUPERSEDED = []"

datatype status_transition =
  TransitionOk knowledge_status knowledge_status bool
| InvalidStatusTransition knowledge_status knowledge_status

definition transitionKnowledgeStatus :: "knowledge_status \<Rightarrow> knowledge_status \<Rightarrow> status_transition" where
  "transitionKnowledgeStatus from target =
     (if from = target then TransitionOk from target False
      else if target \<in> set (getAllowedStatusTransitions from) then TransitionOk from target True
      else InvalidStatusTransition from target)"

fun transition_ok :: "status_transition \<Rightarrow> bool" where
  "transition_ok (TransitionOk _ _ _) = True"
| "transition_ok (InvalidStatusTransition _ _) = False"

section \<open>Global promotion (promotion.ts)\<close>

record promotion_request =
  pr_kind :: knowledge_kind
  pr_verifiedProjectIds :: "string list"
  pr_hasProjectSpecificMarkers :: bool
  pr_userExplicitlyApprovedGlobal :: bool

datatype promotion_reason =
  USER_EXPLICITLY_APPROVED | CROSS_PROJECT_VERIFIED | EXPLICIT_APPROVAL_REQUIRED
| PROJECT_SPECIFIC_CONTENT | INSUFFICIENT_DISTINCT_PROJECTS

type_synonym promotion_decision = "bool \<times> promotion_reason"

definition evaluateGlobalPromotion :: "promotion_request \<Rightarrow> promotion_decision" where
  "evaluateGlobalPromotion r =
     (if pr_userExplicitlyApprovedGlobal r then (True, USER_EXPLICITLY_APPROVED)
      else if pr_kind r = RULE \<or> pr_kind r = PREFERENCE then (False, EXPLICIT_APPROVAL_REQUIRED)
      else if pr_hasProjectSpecificMarkers r then (False, PROJECT_SPECIFIC_CONTENT)
      else if 2 \<le> length (uniq (filter (\<lambda>p. p \<noteq> []) (map js_trim (pr_verifiedProjectIds r))))
      then (True, CROSS_PROJECT_VERIFIED)
      else (False, INSUFFICIENT_DISTINCT_PROJECTS))"

section \<open>Facts\<close>

subsection \<open>Scopes\<close>

text \<open>What a validated scope guarantees, level by level.\<close>

fun scope_wf :: "knowledge_scope \<Rightarrow> bool" where
  "scope_wf (TaskScope t _ _) = has_text t"
| "scope_wf (SymbolScope ss p _) = (has_text p \<and> ss \<noteq> [] \<and> list_all has_text ss)"
| "scope_wf (ModuleScope ms p _) = (has_text p \<and> ms \<noteq> [] \<and> list_all has_text ms)"
| "scope_wf (ProjectScope p _) = has_text p"
| "scope_wf (UserScope u) = has_text u"
| "scope_wf (TeamScope t) = has_text t"
| "scope_wf GlobalScope = True"

definition blank_input :: "string \<Rightarrow> scope_input" where
  "blank_input level = \<lparr>si_level = Some level, si_taskId = None, si_projectId = None,
     si_repositoryRemote = None, si_modulePaths = None, si_symbols = None, si_userId = None,
     si_teamId = None\<rparr>"

text \<open>The object literal of a scope, as an input of the validator.\<close>

fun scope_to_input :: "knowledge_scope \<Rightarrow> scope_input" where
  "scope_to_input (TaskScope t p r) = (blank_input ''TASK'')
     \<lparr>si_taskId := Some t, si_projectId := p, si_repositoryRemote := r\<rparr>"
| "scope_to_input (SymbolScope ss p r) = (blank_input ''SYMBOL'')
     \<lparr>si_symbols := Some ss, si_projectId := Some p, si_repositoryRemote := r\<rparr>"
| "scope_to_input (ModuleScope ms p r) = (blank_input ''MODULE'')
     \<lparr>si_modulePaths := Some ms, si_projectId := Some p, si_repositoryRemote := r\<rparr>"
| "scope_to_input (ProjectScope p r) = (blank_input ''PROJECT'')
     \<lparr>si_projectId := Some p, si_repositoryRemote := r\<rparr>"
| "scope_to_input (UserScope u) = (blank_input ''USER'')\<lparr>si_userId := Some u\<rparr>"
| "scope_to_input (TeamScope t) = (blank_input ''TEAM'')\<lparr>si_teamId := Some t\<rparr>"
| "scope_to_input GlobalScope = blank_input ''GLOBAL''"

lemmas scope_validation_simps =
  validateKnowledgeScope_def scope_errors_def cast_scope_def parse_level_def require_field_def
  rejectUnexpected_def defined_fields_def opt_has_text_def opt_has_items_def blank_input_def

lemma parse_level_SomeD:
  "parse_level l = Some TASK \<Longrightarrow> l = Some ''TASK''"
  "parse_level l = Some SYMBOL \<Longrightarrow> l = Some ''SYMBOL''"
  "parse_level l = Some MODULE \<Longrightarrow> l = Some ''MODULE''"
  "parse_level l = Some PROJECT \<Longrightarrow> l = Some ''PROJECT''"
  "parse_level l = Some USER \<Longrightarrow> l = Some ''USER''"
  "parse_level l = Some TEAM \<Longrightarrow> l = Some ''TEAM''"
  "parse_level l = Some GLOBAL \<Longrightarrow> l = Some ''GLOBAL''"
  by (auto simp: parse_level_def split: if_splits)

lemma scope_roundtrip_forward: "scope_wf s \<Longrightarrow> validateKnowledgeScope (scope_to_input s) = Inr s"
  by (cases s) (auto simp: scope_validation_simps split: option.splits)

lemma scope_roundtrip_backward:
  assumes "validateKnowledgeScope i = Inr s"
  shows "scope_wf s \<and> scope_to_input s = i"
proof (cases "parse_level (si_level i)")
  case None
  with assms show ?thesis by (simp add: validateKnowledgeScope_def scope_errors_def)
next
  case (Some level)
  with assms show ?thesis
    using parse_level_SomeD[of "si_level i"]
    by (cases level) (auto simp: scope_validation_simps(1-3,5-) split: if_splits option.splits
        intro!: scope_input.equality)
qed

text \<open>The cast is only reached with every required field present.\<close>

lemma validateKnowledgeScope_total: "scope_errors i = [] \<Longrightarrow> \<exists>s. cast_scope i = Some s"
  by (auto simp: scope_validation_simps(2-3,5-) split: if_splits option.splits scope_level.splits)

lemma upward_scope_has_no_project_fields:
  assumes "validateKnowledgeScope i = Inr s" and "scope_level_of s \<in> {USER, TEAM, GLOBAL}"
  shows "\<not> hasProjectSpecificScopeFields i"
proof -
  have "i = scope_to_input s" using scope_roundtrip_backward[OF assms(1)] by simp
  with assms(2) show ?thesis
    by (cases s) (auto simp: hasProjectSpecificScopeFields_def blank_input_def)
qed

subsection \<open>Scenario identity and locators\<close>

lemma slug_no_colon: "slug s \<Longrightarrow> CHR '':'' \<notin> set s"
  by (auto simp: slug_def slug_tail_def list_all_iff ascii_lower_def ascii_digit_def
      split: list.splits)

lemma split_on_chars: "c \<noteq> d \<Longrightarrow> d \<in> set s \<Longrightarrow> \<exists>seg \<in> set (split_on c s). d \<in> set seg"
proof (induction s)
  case (Cons x xs)
  then show ?case by (cases "split_on c xs") auto
qed auto

lemma scenario_key_no_colon: "isValidScenarioKey k \<Longrightarrow> CHR '':'' \<notin> set k"
  using split_on_chars[of "CHR ''.''" "CHR '':''" k] slug_no_colon
  by (fastforce simp: isValidScenarioKey_def dotted_key_def Let_def list_all_iff)

lemma append_sep_unique:
  assumes "a @ c # b = a' @ c # b'" and "c \<notin> set b" and "c \<notin> set b'"
  shows "a = a' \<and> b = b'"
  using assms
proof (induction a arbitrary: a')
  case Nil
  then show ?case by (cases a') auto
next
  case (Cons x xs)
  then show ?case by (cases a') auto
qed

lemma deriveScenarioId_injective_aux:
  assumes "deriveScenarioId p k = Some i" and "deriveScenarioId p' k' = Some i"
  shows "p = p' \<and> k = k'"
proof -
  have "p @ CHR '':'' # k = p' @ CHR '':'' # k'"
    using assms by (auto simp: deriveScenarioId_def split: if_splits)
  moreover have "CHR '':'' \<notin> set k" "CHR '':'' \<notin> set k'"
    using assms scenario_key_no_colon by (auto simp: deriveScenarioId_def split: if_splits)
  ultimately show ?thesis by (rule append_sep_unique)
qed

lemma locator_valid_checks:
  "lv_valid (validateKnowledgeLocator l) \<longleftrightarrow> (\<forall>c \<in> set (locator_checks l). fst c)"
  by (auto simp: validateKnowledgeLocator_def filter_empty_conv)

lemma locator_valid_scenario:
  "lv_valid (validateKnowledgeLocator l)
    \<Longrightarrow> deriveScenarioId (kl_projectId l) (kl_scenarioKey l) = Some (kl_scenarioId l)"
  by (auto simp: locator_valid_checks locator_checks_def)

subsection \<open>Lifecycle\<close>

definition status_step :: "knowledge_status \<Rightarrow> knowledge_status \<Rightarrow> bool" where
  "status_step s t \<longleftrightarrow> t \<in> set (getAllowedStatusTransitions s)"

interpretation lifecycle: transition_table getAllowedStatusTransitions
  rewrites "lifecycle.step = status_step"
proof -
  show t: "transition_table getAllowedStatusTransitions"
  proof
    fix s show "s \<notin> set (getAllowedStatusTransitions s)" by (cases s) auto
  next
    fix s show "distinct (getAllowedStatusTransitions s)" by (cases s) auto
  qed
  show "transition_table.step getAllowedStatusTransitions = status_step"
    by (simp add: fun_eq_iff transition_table.step_def[OF t] status_step_def)
qed

lemma transition_ok_iff:
  "transition_ok (transitionKnowledgeStatus s t) \<longleftrightarrow> s = t \<or> status_step s t"
  by (simp add: transitionKnowledgeStatus_def status_step_def)

lemma status_step_simps:
  "status_step PROPOSED t \<longleftrightarrow> t \<in> {ACCEPTED, IMPLEMENTED, REJECTED, SUPERSEDED}"
  "status_step ACCEPTED t \<longleftrightarrow> t \<in> {IMPLEMENTED, REJECTED, SUPERSEDED}"
  "status_step IMPLEMENTED t \<longleftrightarrow> t \<in> {VERIFIED, STALE, SUPERSEDED}"
  "status_step VERIFIED t \<longleftrightarrow> t \<in> {STALE, SUPERSEDED}"
  "status_step REJECTED t \<longleftrightarrow> False"
  "status_step STALE t \<longleftrightarrow> t \<in> {VERIFIED, SUPERSEDED}"
  "status_step SUPERSEDED t \<longleftrightarrow> False"
  by (auto simp: status_step_def)

subsection \<open>Promotion\<close>

lemma promotion_allowed_iff:
  "fst (evaluateGlobalPromotion r) \<longleftrightarrow> pr_userExplicitlyApprovedGlobal r
     \<or> pr_kind r \<notin> {RULE, PREFERENCE} \<and> \<not> pr_hasProjectSpecificMarkers r
       \<and> 2 \<le> card {p. p \<in> js_trim ` set (pr_verifiedProjectIds r) \<and> p \<noteq> []}"
proof -
  have "length (uniq (filter (\<lambda>p. p \<noteq> []) (map js_trim (pr_verifiedProjectIds r))))
      = card {p. p \<in> js_trim ` set (pr_verifiedProjectIds r) \<and> p \<noteq> []}"
    by (simp add: length_uniq)
  then show ?thesis by (auto simp: evaluateGlobalPromotion_def)
qed

end
