(* ===== verification/DomainProps.thy ===== *)
theory DomainProps
  imports Domain
begin

text \<open>The properties of the domain package.\<close>

section \<open>Scopes\<close>

text \<open>
  Scope validation accepts exactly the well-formed scopes: an input validates to a scope iff
  it is the object literal of that scope with no other field defined, and the scope's required texts
  and lists are non-blank. So validation neither loses nor invents a field, and two inputs never
  validate to one scope.
\<close>

theorem scope_validation_exact:
  "validateKnowledgeScope i = Inr s \<longleftrightarrow> scope_wf s \<and> i = scope_to_input s"
  using scope_roundtrip_forward scope_roundtrip_backward by blast

text \<open>
  Isolation of upward scopes. A scope of level \<open>USER\<close>, \<open>TEAM\<close> or \<open>GLOBAL\<close> that validates came
  from an input that defines no project-specific field, and it names no project.
\<close>

theorem upward_scopes_name_no_project:
  assumes "validateKnowledgeScope i = Inr s" and "scope_level_of s \<in> {USER, TEAM, GLOBAL}"
  shows "\<not> hasProjectSpecificScopeFields i \<and> scope_projectId s = None"
  using upward_scope_has_no_project_fields[OF assms] assms(2) by (cases s) auto

lemma upward_scopes_name_no_project_witness:
  "\<not> hasProjectSpecificScopeFields (scope_to_input (UserScope ''u1''))"
proof -
  have v: "validateKnowledgeScope (scope_to_input (UserScope ''u1'')) = Inr (UserScope ''u1'')" by code_simp
  show ?thesis by (rule upward_scopes_name_no_project[OF v, THEN conjunct1]) simp
qed

section \<open>Scenario identity\<close>

text \<open>
  Scenario ids are injective: two valid locators with the same scenario id have the same project
  and the same scenario key, although a project id may itself contain the separator.
\<close>

theorem scenario_id_identifies:
  assumes "lv_valid (validateKnowledgeLocator l)" and "lv_valid (validateKnowledgeLocator m)"
    and "kl_scenarioId l = kl_scenarioId m"
  shows "kl_projectId l = kl_projectId m \<and> kl_scenarioKey l = kl_scenarioKey m"
  using deriveScenarioId_injective_aux locator_valid_scenario[OF assms(1)]
    locator_valid_scenario[OF assms(2)] assms(3) by metis

definition ex_locator :: "string \<Rightarrow> knowledge_locator" where
  "ex_locator title = \<lparr>kl_schemaVersion = 1, kl_projectId = ''git:a'', kl_repositoryRemote = None,
     kl_observedRevision = \<lparr>or_branch = None, or_commit = None, or_dirty = False,
       or_codegraphRevision = None\<rparr>,
     kl_branchApplicability = EXACT_BRANCH ''main'', kl_scenarioId = ''scenario:git:a:pay.refund'',
     kl_scenarioKey = ''pay.refund'', kl_scenarioTitle = title, kl_scenarioSummary = ''s'',
     kl_modulePaths = [], kl_symbols = [], kl_entryPoints = [], kl_taskIntents = [],
     kl_applicability = [], kl_nonApplicability = []\<rparr>"

lemma scenario_id_identifies_witness:
  "kl_projectId (ex_locator ''a'') = kl_projectId (ex_locator ''b'')
     \<and> lv_valid (validateKnowledgeLocator (ex_locator ''a''))"
proof
  have a: "lv_valid (validateKnowledgeLocator (ex_locator ''a''))" by code_simp
  have b: "lv_valid (validateKnowledgeLocator (ex_locator ''b''))" by code_simp
  have i: "kl_scenarioId (ex_locator ''a'') = kl_scenarioId (ex_locator ''b'')"
    by (simp add: ex_locator_def)
  show "kl_projectId (ex_locator ''a'') = kl_projectId (ex_locator ''b'')"
    using scenario_id_identifies[OF a b i] by blast
  show "lv_valid (validateKnowledgeLocator (ex_locator ''a''))" by (rule a)
qed

section \<open>Lifecycle\<close>

definition lifecycle_history :: "knowledge_status list \<Rightarrow> bool" where
  "lifecycle_history hs \<longleftrightarrow> successively (\<lambda>s t. transition_ok (transitionKnowledgeStatus s t)) hs"

lemma lifecycle_history_step:
  "lifecycle_history (s # t # hs) \<longleftrightarrow> (s = t \<or> status_step s t) \<and> lifecycle_history (t # hs)"
  by (simp add: lifecycle_history_def transition_ok_iff)

lemma lifecycle_closed:
  assumes "lifecycle_history (s # hs)" and "s \<in> S" and "\<And>u v. u \<in> S \<Longrightarrow> status_step u v \<Longrightarrow> v \<in> S"
  shows "set hs \<subseteq> S"
  using assms(1,2)
proof (induction hs arbitrary: s)
  case (Cons t hs)
  have "t \<in> S" using Cons.prems assms(3) by (auto simp: lifecycle_history_step)
  then show ?case using Cons by (auto simp: lifecycle_history_step)
qed simp

lemma verified_needs_implemented:
  assumes "lifecycle_history (s # hs)" and "s \<in> {PROPOSED, ACCEPTED}"
    and "VERIFIED \<in> set hs \<or> STALE \<in> set hs"
  shows "knowledge_status.IMPLEMENTED \<in> set hs"
  using assms
proof (induction hs arbitrary: s)
  case (Cons t hs)
  then consider "t \<in> {PROPOSED, ACCEPTED}" | "t = knowledge_status.IMPLEMENTED"
    | "t \<in> {knowledge_status.REJECTED, SUPERSEDED}"
    by (cases s) (auto simp: lifecycle_history_step status_step_simps)
  then show ?case
  proof cases
    case 1
    then show ?thesis using Cons by (auto simp: lifecycle_history_step)
  next
    case 3
    have "set hs \<subseteq> {knowledge_status.REJECTED, SUPERSEDED}"
      by (rule lifecycle_closed[of t])
         (use Cons.prems(1) 3 in \<open>auto simp: lifecycle_history_step status_step_simps\<close>)
    then show ?thesis using Cons.prems(3) 3 by auto
  qed simp
qed simp

text \<open>
  The knowledge lifecycle. In any history of statuses accepted by \<open>transitionKnowledgeStatus\<close>:
  after \<open>REJECTED\<close> or \<open>SUPERSEDED\<close> the status never changes; knowledge that
  is verified or stale only ever becomes \<open>VERIFIED\<close>, \<open>STALE\<close> or \<open>SUPERSEDED\<close>; and knowledge that starts \<open>PROPOSED\<close> reaches \<open>VERIFIED\<close> or \<open>STALE\<close> only through \<open>IMPLEMENTED\<close>.
\<close>

theorem lifecycle_order:
  assumes "lifecycle_history (s # hs)"
  shows "(s \<in> {knowledge_status.REJECTED, SUPERSEDED} \<longrightarrow> set hs \<subseteq> {s})
    \<and> (s \<in> {VERIFIED, STALE} \<longrightarrow> set hs \<subseteq> {VERIFIED, STALE, SUPERSEDED})
    \<and> (s = PROPOSED \<and> (VERIFIED \<in> set hs \<or> STALE \<in> set hs) \<longrightarrow> knowledge_status.IMPLEMENTED \<in> set hs)"
proof (intro conjI impI)
  assume "s \<in> {knowledge_status.REJECTED, SUPERSEDED}"
  then show "set hs \<subseteq> {s}"
    by (intro lifecycle_closed[OF assms]) (auto simp: status_step_simps)
next
  assume "s \<in> {VERIFIED, STALE}"
  then show "set hs \<subseteq> {VERIFIED, STALE, SUPERSEDED}"
    by (intro lifecycle_closed[OF assms]) (auto simp: status_step_simps)
next
  assume "s = PROPOSED \<and> (VERIFIED \<in> set hs \<or> STALE \<in> set hs)"
  then show "knowledge_status.IMPLEMENTED \<in> set hs"
    by (intro verified_needs_implemented[OF assms]) auto
qed

lemma lifecycle_order_witness:
  "knowledge_status.IMPLEMENTED \<in> set [ACCEPTED, knowledge_status.IMPLEMENTED, VERIFIED, STALE]"
proof -
  have h: "lifecycle_history (PROPOSED # [ACCEPTED, knowledge_status.IMPLEMENTED, VERIFIED, STALE])"
    by code_simp
  have "VERIFIED \<in> set [ACCEPTED, knowledge_status.IMPLEMENTED, VERIFIED, STALE]" by simp
  then show ?thesis using lifecycle_order[OF h] by blast
qed

section \<open>Global promotion\<close>

text \<open>
  Promotion to global scope is allowed exactly when the user explicitly approved it, or the
  knowledge is neither a rule nor a preference, carries no project-specific marker, and was verified
  in at least two projects whose trimmed ids are distinct and non-empty.
\<close>

theorem promotion_exact:
  "fst (evaluateGlobalPromotion r) \<longleftrightarrow> pr_userExplicitlyApprovedGlobal r
     \<or> pr_kind r \<notin> {RULE, PREFERENCE} \<and> \<not> pr_hasProjectSpecificMarkers r
       \<and> 2 \<le> card {p. p \<in> js_trim ` set (pr_verifiedProjectIds r) \<and> p \<noteq> []}"
  by (rule promotion_allowed_iff)

end
