(* ===== verification/EvidenceBase.thy ===== *)
theory EvidenceBase
  imports Domain JobJson "HOL-Library.Word"
begin

text \<open>
  Verification results (\<^verbatim>\<open>packages/evidence-engine/src/types.ts\<close>) and CodeGraph artifacts
  (\<^verbatim>\<open>packages/domain/src/codegraph-artifact.ts\<close>): the facts an artifact carries, its
  content hash and id over canonical JSON, and the decision whether it may be reused. The hash
  works on four 32-bit lanes, so \<open>Math.imul\<close> and \<open>^\<close> are multiplication and xor on 32-bit words.

  The object keys involved are ASCII and differ first in lower-case letters, so sorting them by
  code unit gives the order \<open>localeCompare\<close> gives.
\<close>

unbundle bit_operations_syntax

section \<open>The four-lane hash\<close>

type_synonym lanes = "32 word \<times> 32 word \<times> 32 word \<times> 32 word"

definition hash_lane :: "32 word \<Rightarrow> int \<Rightarrow> 32 word \<Rightarrow> 32 word" where
  "hash_lane s code prime = (s XOR word_of_int code) * prime"

fun hash_char :: "lanes \<Rightarrow> char \<Rightarrow> lanes" where
  "hash_char (a, b, c, d) x =
     (hash_lane a (code_of x) 0x01000193, hash_lane b (code_of x + 1) 0x85ebca6b,
      hash_lane c (code_of x + 2) 0xc2b2ae35, hash_lane d (code_of x + 3) 0x27d4eb2f)"

definition hash_seed :: lanes where
  "hash_seed = (0x811c9dc5, 0x9e3779b9, 0x85ebca6b, 0xc2b2ae35)"

text \<open>\<open>(part >>> 0).toString(16).padStart(8, "0")\<close>: the eight hexadecimal digits of a lane.\<close>

definition hex_lane :: "32 word \<Rightarrow> string" where
  "hex_lane w = map (\<lambda>i. hex_digit (uint w div 16 ^ i mod 16)) [7, 6, 5, 4, 3, 2, 1, 0]"

definition lane_hash :: "string \<Rightarrow> string" where
  "lane_hash s = (case foldl hash_char hash_seed s of
     (a, b, c, d) \<Rightarrow> hex_lane a @ hex_lane b @ hex_lane c @ hex_lane d)"

section \<open>Artifacts\<close>

datatype artifact_operation = SYMBOL_OP | CALL_PATH_OP | IMPACT_OP

text \<open>A fact about one symbol or relation (the flag says which), or about a call path.\<close>

record symbol_fact =
  sf_relation :: bool
  sf_symbol :: string
  sf_relationKind :: "string option"
  sf_qualifiedName :: "string option"
  sf_path :: string
  sf_startLine :: int
  sf_endLine :: "int option"
  sf_language :: "string option"
  sf_exported :: "bool option"

record call_fact =
  cf_from :: string
  cf_to :: string
  cf_symbols :: "string list"
  cf_paths :: "string list"

datatype artifact_fact = SymbolFact symbol_fact | CallPathFact call_fact

datatype artifact_status = ArtifactActive | ArtifactSuspect

record codegraph_artifact =
  ca_artifactId :: string
  ca_projectId :: string
  ca_codeRevision :: string
  ca_graphRevision :: "string option"
  ca_dependencyFingerprint :: "string option"
  ca_operation :: artifact_operation
  ca_query :: string
  ca_facts :: "artifact_fact list"
  ca_bounded :: bool
  ca_sourceRef :: string
  ca_observedAt :: timestamp
  ca_status :: artifact_status
  ca_reasonCodes :: "string list"
  ca_contentHash :: string

section \<open>Canonical JSON\<close>

primrec cg_canonical :: "js_value \<Rightarrow> string" where
  "cg_canonical JNull = ''null''"
| "cg_canonical (JBool b) = (if b then ''true'' else ''false'')"
| "cg_canonical (JNum i) = show_int i"
| "cg_canonical (JText s) = json_quote s"
| "cg_canonical (JList vs) = ''['' @ join_with '','' (map cg_canonical vs) @ '']''"
| "cg_canonical (JObject fs) = ''{'' @ join_with '',''
     (map (\<lambda>(k, s). json_quote k @ '':'' @ s) (sort_key fst (map (map_prod id cg_canonical) fs))) @ ''}''"
| "cg_canonical (JFault w) = []"

definition opt_field :: "string \<Rightarrow> ('a \<Rightarrow> js_value) \<Rightarrow> 'a option \<Rightarrow> (string \<times> js_value) list" where
  "opt_field k f v = (case v of None \<Rightarrow> [] | Some x \<Rightarrow> [(k, f x)])"

definition operation_text :: "artifact_operation \<Rightarrow> string" where
  "operation_text p = (case p of SYMBOL_OP \<Rightarrow> ''SYMBOL'' | CALL_PATH_OP \<Rightarrow> ''CALL_PATH''
     | IMPACT_OP \<Rightarrow> ''IMPACT'')"

fun fact_value :: "artifact_fact \<Rightarrow> js_value" where
  "fact_value (SymbolFact f) = JObject
     ([(''kind'', JText (if sf_relation f then ''RELATION'' else ''SYMBOL'')),
       (''symbol'', JText (sf_symbol f))]
      @ opt_field ''relationKind'' JText (sf_relationKind f)
      @ opt_field ''qualifiedName'' JText (sf_qualifiedName f)
      @ [(''path'', JText (sf_path f)), (''startLine'', JNum (sf_startLine f))]
      @ opt_field ''endLine'' JNum (sf_endLine f)
      @ opt_field ''language'' JText (sf_language f)
      @ opt_field ''exported'' JBool (sf_exported f))"
| "fact_value (CallPathFact f) = JObject
     [(''kind'', JText ''CALL_PATH''), (''from'', JText (cf_from f)), (''to'', JText (cf_to f)),
      (''symbols'', JList (map JText (cf_symbols f))), (''paths'', JList (map JText (cf_paths f)))]"

text \<open>The text of a timestamp is the parameter \<open>ts\<close>.\<close>

definition artifact_value :: "(timestamp \<Rightarrow> string) \<Rightarrow> codegraph_artifact \<Rightarrow> js_value" where
  "artifact_value ts a = JObject
     ([(''schemaVersion'', JNum 1), (''artifactId'', JText (ca_artifactId a)),
       (''projectId'', JText (ca_projectId a)), (''codeRevision'', JText (ca_codeRevision a))]
      @ opt_field ''graphRevision'' JText (ca_graphRevision a)
      @ opt_field ''dependencyFingerprint'' JText (ca_dependencyFingerprint a)
      @ [(''operation'', JText (operation_text (ca_operation a))), (''query'', JText (ca_query a)),
         (''facts'', JList (map fact_value (ca_facts a))), (''bounded'', JBool (ca_bounded a)),
         (''sourceRef'', JText (ca_sourceRef a)), (''observedAt'', JText (ts (ca_observedAt a))),
         (''reasonCodes'', JList (map JText (ca_reasonCodes a)))])"

definition calculateCodeGraphArtifactHash :: "(timestamp \<Rightarrow> string) \<Rightarrow> codegraph_artifact \<Rightarrow> string" where
  "calculateCodeGraphArtifactHash ts a = ''cg_'' @ lane_hash (cg_canonical (artifact_value ts a))"

definition deriveCodeGraphArtifactId ::
  "string \<Rightarrow> string \<Rightarrow> string option \<Rightarrow> string option \<Rightarrow> artifact_operation \<Rightarrow> string \<Rightarrow> string" where
  "deriveCodeGraphArtifactId project code graph dependency operation query =
     ''codegraph-artifact_'' @ lane_hash (cg_canonical (JObject
       ([(''projectId'', JText project), (''codeRevision'', JText code)]
        @ opt_field ''graphRevision'' JText graph @ opt_field ''dependencyFingerprint'' JText dependency
        @ [(''operation'', JText (operation_text operation)), (''query'', JText query)])))"

section \<open>Reuse\<close>

record reuse_context =
  rx_projectId :: string
  rx_codeRevision :: string
  rx_graphRevision :: "string option"
  rx_dependencyFingerprint :: "string option"
  rx_changedPaths :: "string list option"
  rx_changedSymbols :: "string list option"

record reuse_decision =
  rd_reusable :: bool
  rd_markSuspect :: bool
  rd_reasonCodes :: "string list"

definition referencedPaths :: "codegraph_artifact \<Rightarrow> string list" where
  "referencedPaths a = uniq (concat (map
     (\<lambda>f. case f of CallPathFact c \<Rightarrow> cf_paths c | SymbolFact s \<Rightarrow> [sf_path s]) (ca_facts a)))"

definition referencedSymbols :: "codegraph_artifact \<Rightarrow> string list" where
  "referencedSymbols a = uniq (concat (map
     (\<lambda>f. case f of CallPathFact c \<Rightarrow> [cf_from c, cf_to c] @ cf_symbols c
        | SymbolFact s \<Rightarrow> sf_symbol s # (case sf_qualifiedName s of None \<Rightarrow> [] | Some q \<Rightarrow> [q]))
     (ca_facts a)))"

definition or_empty :: "'a list option \<Rightarrow> 'a list" where
  "or_empty v = (case v of None \<Rightarrow> [] | Some xs \<Rightarrow> xs)"

definition reuse_reasons :: "codegraph_artifact \<Rightarrow> reuse_context \<Rightarrow> string list" where
  "reuse_reasons a x =
    (let r1 = add_when (ca_status a \<noteq> ArtifactActive) ''ARTIFACT_ALREADY_SUSPECT'' [];
         r2 = add_when (ca_projectId a \<noteq> rx_projectId x) ''ARTIFACT_PROJECT_MISMATCH'' r1;
         r3 = add_when (ca_codeRevision a \<noteq> rx_codeRevision x) ''ARTIFACT_CODE_REVISION_MISMATCH'' r2;
         r4 = add_when (ca_graphRevision a \<noteq> rx_graphRevision x) ''ARTIFACT_GRAPH_REVISION_MISMATCH'' r3;
         r5 = add_when (ca_dependencyFingerprint a \<noteq> rx_dependencyFingerprint x
                \<and> (ca_dependencyFingerprint a \<noteq> None \<or> rx_dependencyFingerprint x \<noteq> None))
                ''ARTIFACT_DEPENDENCY_FINGERPRINT_MISMATCH'' r4;
         r6 = add_when (list_ex (\<lambda>p. p \<in> set (referencedPaths a)) (or_empty (rx_changedPaths x)))
                ''ARTIFACT_REFERENCED_PATH_CHANGED'' r5
     in add_when (list_ex (\<lambda>s. s \<in> set (referencedSymbols a)) (or_empty (rx_changedSymbols x)))
          ''ARTIFACT_REFERENCED_SYMBOL_CHANGED'' r6)"

definition suspect_reason :: "string \<Rightarrow> bool" where
  "suspect_reason r \<longleftrightarrow> ends_with ''_CHANGED'' r \<or> contains_text ''REVISION_MISMATCH'' r
     \<or> contains_text ''DEPENDENCY_FINGERPRINT_MISMATCH'' r"

definition evaluateCodeGraphArtifactReuse :: "codegraph_artifact \<Rightarrow> reuse_context \<Rightarrow> reuse_decision" where
  "evaluateCodeGraphArtifactReuse a x =
    (let reasons = reuse_reasons a x
     in \<lparr>rd_reusable = (reasons = []), rd_markSuspect = list_ex suspect_reason reasons,
         rd_reasonCodes = (if reasons = [] then [''ARTIFACT_COMPATIBLE''] else sort reasons)\<rparr>)"

section \<open>Verification results\<close>

datatype verification_status = SUPPORTED | REFUTED | UNKNOWN | ERROR

record verification_result =
  vr_assertionId :: string
  vr_assertionKind :: assertion_kind
  vr_verifierId :: "string option"
  vr_status :: verification_status
  vr_target :: string
  vr_observedAt :: timestamp
  vr_reasonCodes :: "string list"
  vr_evidence :: "evidence option"
  vr_codeGraphArtifact :: "codegraph_artifact option"

section \<open>Facts\<close>

lemma length_hex_lane [simp]: "length (hex_lane w) = 8"
  by (simp add: hex_lane_def)

lemma hex_digit_hex: "0 \<le> d \<Longrightarrow> d < 16 \<Longrightarrow> hex_char (hex_digit d)"
proof -
  assume "0 \<le> d" "d < 16"
  then have "d \<in> set [0..15]" by auto
  moreover have "list_all (\<lambda>d. hex_char (hex_digit d)) [0..15]" by code_simp
  ultimately show ?thesis by (simp add: list_all_iff)
qed

lemma hex_lane_hex: "list_all hex_char (hex_lane w)"
  by (simp add: hex_lane_def hex_digit_hex)

lemma lane_hash_shape: "length (lane_hash s) = 32 \<and> list_all hex_char (lane_hash s)"
  by (simp add: lane_hash_def hex_lane_hex split: prod.splits)

lemma suspect_reasons:
  "suspect_reason ''ARTIFACT_CODE_REVISION_MISMATCH''"
  "suspect_reason ''ARTIFACT_GRAPH_REVISION_MISMATCH''"
  "suspect_reason ''ARTIFACT_DEPENDENCY_FINGERPRINT_MISMATCH''"
  "suspect_reason ''ARTIFACT_REFERENCED_PATH_CHANGED''"
  "suspect_reason ''ARTIFACT_REFERENCED_SYMBOL_CHANGED''"
  "\<not> suspect_reason ''ARTIFACT_ALREADY_SUSPECT''"
  "\<not> suspect_reason ''ARTIFACT_PROJECT_MISMATCH''"
  by code_simp+

lemma list_ex_set_iff: "list_ex (\<lambda>p. p \<in> A) xs \<longleftrightarrow> set xs \<inter> A \<noteq> {}"
  by (auto simp: list_ex_iff)

lemma reuse_reasons_set:
  "set (reuse_reasons a x) =
     (if ca_status a \<noteq> ArtifactActive then {''ARTIFACT_ALREADY_SUSPECT''} else {})
   \<union> (if ca_projectId a \<noteq> rx_projectId x then {''ARTIFACT_PROJECT_MISMATCH''} else {})
   \<union> (if ca_codeRevision a \<noteq> rx_codeRevision x then {''ARTIFACT_CODE_REVISION_MISMATCH''} else {})
   \<union> (if ca_graphRevision a \<noteq> rx_graphRevision x then {''ARTIFACT_GRAPH_REVISION_MISMATCH''} else {})
   \<union> (if ca_dependencyFingerprint a \<noteq> rx_dependencyFingerprint x
      then {''ARTIFACT_DEPENDENCY_FINGERPRINT_MISMATCH''} else {})
   \<union> (if set (or_empty (rx_changedPaths x)) \<inter> set (referencedPaths a) \<noteq> {}
      then {''ARTIFACT_REFERENCED_PATH_CHANGED''} else {})
   \<union> (if set (or_empty (rx_changedSymbols x)) \<inter> set (referencedSymbols a) \<noteq> {}
      then {''ARTIFACT_REFERENCED_SYMBOL_CHANGED''} else {})"
proof -
  have "(ca_dependencyFingerprint a \<noteq> rx_dependencyFingerprint x
      \<and> (ca_dependencyFingerprint a \<noteq> None \<or> rx_dependencyFingerprint x \<noteq> None))
    = (ca_dependencyFingerprint a \<noteq> rx_dependencyFingerprint x)" by auto
  then show ?thesis
    unfolding reuse_reasons_def Let_def list_ex_set_iff set_add_when by (auto split: if_splits)
qed

end
