(* ===== verification/EvidencePolicy.thy ===== *)
theory EvidencePolicy
  imports EvidenceBase
begin

text \<open>
  The evidence policy (\<^verbatim>\<open>packages/evidence-policy/src/policy.ts\<close>): from a candidate, its verification
  results and the configured policy to a status transition, a scope and a publication decision.
  Input validation, the breadth-first transition path, global promotion and every branch of
  \<open>evaluateEvidencePolicy\<close> are modelled; freezing is not. Checks of a value against its own
  enumeration hold by typing.
\<close>

section \<open>Inputs and outputs (types.ts)\<close>

record verified_project =
  vp_projectId :: string
  vp_subjectKey :: string
  vp_evidenceId :: string
  vp_sourceRef :: string
  vp_observedAt :: timestamp

text \<open>The verification policy, with the fields the schema fixes to a literal kept open.\<close>

record verification_policy =
  vo_implementationMax :: knowledge_status
  vo_implementationRequired :: "assertion_kind list"
  vo_experienceMax :: knowledge_status
  vo_experienceRequired :: "assertion_kind list"
  vo_minVerifiedProjects :: int
  vo_maxQuestionsPerTurn :: int
  vo_questionWindowTurns :: int
  vo_defaultScope :: scope_level
  vo_unansweredBehavior :: string
  vo_createReviewTasks :: bool

record policy_input =
  pi_candidate :: knowledge_candidate
  pi_currentStatus :: knowledge_status
  pi_resolvedScope :: knowledge_scope
  pi_projectScope :: knowledge_scope
  pi_projectSpecificSignals :: "string list"
  pi_verificationResults :: "verification_result list"
  pi_policy :: verification_policy
  pi_verifiedProjects :: "verified_project list option"
  pi_userExplicitlyApprovedGlobal :: "bool option"
  pi_conflictIds :: "string list option"
  pi_adoptionAmbiguous :: "bool option"
  pi_contentRevisionRequested :: "bool option"

datatype policy_action = APPLY | KEEP | ASK_USER

record policy_decision =
  pd_action :: policy_action
  pd_askUser :: bool
  pd_currentStatus :: knowledge_status
  pd_targetStatus :: knowledge_status
  pd_transitionPath :: "knowledge_status list"
  pd_effectiveScope :: knowledge_scope
  pd_shouldPublish :: bool
  pd_evidenceIds :: "string list"
  pd_reasonCodes :: "string list"

section \<open>Validation\<close>

definition opt_list :: "'a list option \<Rightarrow> 'a list" where
  "opt_list v = (case v of None \<Rightarrow> [] | Some xs \<Rightarrow> xs)"

fun EVIDENCE_TYPE_BY_ASSERTION :: "assertion_kind \<Rightarrow> evidence_type" where
  "EVIDENCE_TYPE_BY_ASSERTION USER_ACCEPTED = USER_STATEMENT"
| "EVIDENCE_TYPE_BY_ASSERTION USER_REJECTED = USER_STATEMENT"
| "EVIDENCE_TYPE_BY_ASSERTION SYMBOL_EXISTS = CODE_SYMBOL"
| "EVIDENCE_TYPE_BY_ASSERTION CALL_PATH_EXISTS = CODE_RELATION"
| "EVIDENCE_TYPE_BY_ASSERTION IMPACT_CONTAINS = CODE_IMPACT"
| "EVIDENCE_TYPE_BY_ASSERTION FILE_CONTAINS = FILE_CONTENT"
| "EVIDENCE_TYPE_BY_ASSERTION DEPENDENCY_PRESENT = DEPENDENCY"
| "EVIDENCE_TYPE_BY_ASSERTION CONFIG_EQUALS = CONFIGURATION"
| "EVIDENCE_TYPE_BY_ASSERTION COMMAND_SUCCEEDED = COMMAND_RESULT"
| "EVIDENCE_TYPE_BY_ASSERTION TEST_PASSED = TEST_RESULT"
| "EVIDENCE_TYPE_BY_ASSERTION assertion_kind.CROSS_PROJECT_VERIFIED = CROSS_PROJECT"

definition policy_ok :: "verification_policy \<Rightarrow> bool" where
  "policy_ok p \<longleftrightarrow>
     \<not> (vo_minVerifiedProjects p < 2 \<or> vo_minVerifiedProjects p > 20)
   \<and> \<not> (vo_implementationMax p \<noteq> knowledge_status.IMPLEMENTED \<or> vo_implementationRequired p = []
      \<or> SYMBOL_EXISTS \<notin> set (vo_implementationRequired p)
      \<or> vo_experienceMax p \<noteq> VERIFIED \<or> vo_experienceRequired p = []
      \<or> TEST_PASSED \<notin> set (vo_experienceRequired p)
      \<or> vo_maxQuestionsPerTurn p \<noteq> 1 \<or> vo_questionWindowTurns p \<noteq> 20
      \<or> vo_defaultScope p \<noteq> PROJECT \<or> vo_unansweredBehavior p \<noteq> ''SAFE_DEFAULT''
      \<or> vo_createReviewTasks p)"

definition scope_input_ok :: "policy_input \<Rightarrow> bool" where
  "scope_input_ok i = (case pi_projectScope i of
     ProjectScope p _ \<Rightarrow>
       has_text p
     \<and> (case sh_projectId (kc_scopeHint (pi_candidate i)) of None \<Rightarrow> True | Some h \<Rightarrow> h = p)
     \<and> (case kc_localization (pi_candidate i) of
          Schema1 _ _ \<Rightarrow> True
        | Schema2 _ l \<Rightarrow> kl_projectId l = p \<and> lv_valid (validateKnowledgeLocator l))
     \<and> (case scope_projectId (pi_resolvedScope i) of None \<Rightarrow> True | Some r \<Rightarrow> r = p)
   | _ \<Rightarrow> False)"

definition assertion_by_id :: "policy_input \<Rightarrow> string \<Rightarrow> knowledge_assertion option" where
  "assertion_by_id i = last_entry ka_assertionId (kc_assertions (pi_candidate i))"

definition evidence_ok :: "policy_input \<Rightarrow> knowledge_assertion \<Rightarrow> evidence \<Rightarrow> bool" where
  "evidence_ok i a e \<longleftrightarrow>
     ev_assertionId e = Some (ka_assertionId a)
   \<and> ev_type e = EVIDENCE_TYPE_BY_ASSERTION (ka_kind a)
   \<and> ev_projectId e = scope_projectId (pi_projectScope i)
   \<and> ev_correlationId e = kc_correlationId (pi_candidate i)
   \<and> has_text (ev_evidenceId e) \<and> length (ev_evidenceId e) \<le> 500
   \<and> has_text (ev_sourceRef e) \<and> length (ev_sourceRef e) \<le> 1000
   \<and> finite_date (ev_observedAt e)"

definition result_ok :: "policy_input \<Rightarrow> verification_result \<Rightarrow> bool" where
  "result_ok i r = (case assertion_by_id i (vr_assertionId r) of
     None \<Rightarrow> False
   | Some a \<Rightarrow>
       ka_kind a = vr_assertionKind r
     \<and> vr_reasonCodes r \<noteq> [] \<and> list_all (upper_code 99) (vr_reasonCodes r)
     \<and> (vr_status r = ERROR \<longrightarrow> vr_evidence r = None)
     \<and> (vr_status r = SUPPORTED \<longrightarrow> map_option ev_verdict (vr_evidence r) = Some SUPPORTS)
     \<and> (vr_status r = REFUTED \<longrightarrow> map_option ev_verdict (vr_evidence r) = Some evidence_verdict.CONTRADICTS)
     \<and> (vr_status r = UNKNOWN \<longrightarrow>
          (case vr_evidence r of None \<Rightarrow> True | Some e \<Rightarrow> ev_verdict e = INCONCLUSIVE))
     \<and> (case vr_evidence r of None \<Rightarrow> True | Some e \<Rightarrow> evidence_ok i a e))"

fun results_ok :: "policy_input \<Rightarrow> string list \<Rightarrow> verification_result list \<Rightarrow> bool" where
  "results_ok i seen [] = True"
| "results_ok i seen (r # rs) =
     (vr_assertionId r \<notin> set seen \<and> result_ok i r \<and> results_ok i (set_add seen (vr_assertionId r)) rs)"

definition bounded_text :: "nat \<Rightarrow> string \<Rightarrow> bool" where
  "bounded_text n s \<longleftrightarrow> has_text s \<and> length s \<le> n \<and> plain_text s"

definition verified_project_ok :: "policy_input \<Rightarrow> verified_project \<Rightarrow> bool" where
  "verified_project_ok i v \<longleftrightarrow>
     vp_subjectKey v = kc_subjectKey (pi_candidate i)
   \<and> list_all (bounded_text 1000) [vp_projectId v, vp_evidenceId v, vp_sourceRef v]
   \<and> finite_date (vp_observedAt v)"

definition validateInput :: "policy_input \<Rightarrow> bool" where
  "validateInput i \<longleftrightarrow>
     kc_status (pi_candidate i) = PROPOSED
   \<and> scope_input_ok i
   \<and> policy_ok (pi_policy i)
   \<and> distinct (map ka_assertionId (kc_assertions (pi_candidate i)))
   \<and> list_all (\<lambda>a. ka_candidateId a = kc_candidateId (pi_candidate i)) (kc_assertions (pi_candidate i))
   \<and> results_ok i [] (pi_verificationResults i)
   \<and> list_all (bounded_text 500) (opt_list (pi_conflictIds i))
   \<and> list_all (upper_code 99) (pi_projectSpecificSignals i)
   \<and> list_all (verified_project_ok i) (opt_list (pi_verifiedProjects i))"

section \<open>The transition path\<close>

type_synonym path_queue = "(knowledge_status \<times> knowledge_status list) list"

text \<open>
  The inner loop over the successors of one status: \<open>Inl\<close> is the early return of a path, \<open>Inr\<close> the
  visited statuses and the queue when the loop ends.
\<close>

fun expand ::
  "knowledge_status \<Rightarrow> knowledge_status list \<Rightarrow> knowledge_status list \<Rightarrow> knowledge_status list \<Rightarrow> path_queue
     \<Rightarrow> knowledge_status list + (knowledge_status list \<times> path_queue)" where
  "expand to path [] visited queue = Inr (visited, queue)"
| "expand to path (n # ns) visited queue =
     (if n \<in> set visited then expand to path ns visited queue
      else if n = to then Inl (path @ [n])
      else expand to path ns (set_add visited n) (queue @ [(n, path @ [n])]))"

instantiation knowledge_status :: finite
begin
instance proof
  have "(UNIV :: knowledge_status set)
      = {PROPOSED, ACCEPTED, knowledge_status.IMPLEMENTED, VERIFIED, knowledge_status.REJECTED, STALE, SUPERSEDED}"
    (is "_ = ?S")
  proof -
    have "s \<in> ?S" for s by (cases s) auto
    then show ?thesis by blast
  qed
  then show "finite (UNIV :: knowledge_status set)" by (metis finite.emptyI finite_insert)
qed
end

lemma expand_measure:
  "expand to path ns visited queue = Inr (visited', queue')
     \<Longrightarrow> card (- set visited') + length queue' \<le> card (- set visited) + length queue"
proof (induction to path ns visited queue rule: expand.induct)
  case (2 to path n ns visited queue)
  show ?case
  proof (cases "n \<in> set visited")
    case False
    with 2(3) have nt: "n \<noteq> to" by auto
    have "card (- set visited) = Suc (card (- set (set_add visited n)))"
    proof -
      have "- set visited = insert n (- set (set_add visited n))" using False by auto
      moreover have "n \<notin> - set (set_add visited n)" by simp
      ultimately show ?thesis by (metis card_insert_disjoint finite)
    qed
    then show ?thesis using 2(2)[OF False nt] 2(3) False nt by simp
  qed (use 2 in auto)
qed simp

function bfs :: "knowledge_status \<Rightarrow> knowledge_status list \<Rightarrow> path_queue \<Rightarrow> knowledge_status list option" where
  "bfs to visited [] = None"
| "bfs to visited ((s, path) # queue) =
     (case expand to path (getAllowedStatusTransitions s) visited queue of
        Inl found \<Rightarrow> Some found
      | Inr (visited', queue') \<Rightarrow> bfs to visited' queue')"
  by pat_completeness auto
termination
proof (relation "measure (\<lambda>(to, visited, queue). card (- set visited) + length queue)")
  fix to s path visited queue x visited' queue'
  assume "expand to path (getAllowedStatusTransitions s) visited queue = Inr x" and "(visited', queue') = x"
  then show "((to, visited', queue'), to, visited, (s, path) # queue)
      \<in> measure (\<lambda>(to, visited, queue). card (- set visited) + length queue)"
    using expand_measure[of to path "getAllowedStatusTransitions s" visited queue visited' queue'] by auto
qed simp

definition transitionPath :: "knowledge_status \<Rightarrow> knowledge_status \<Rightarrow> knowledge_status list option" where
  "transitionPath from to = (if from = to then Some [] else bfs to [from] [(from, [])])"

section \<open>Evidence\<close>

definition result_status :: "policy_input \<Rightarrow> string \<Rightarrow> verification_status option" where
  "result_status i a = map_option vr_status (find (\<lambda>r. vr_assertionId r = a) (pi_verificationResults i))"

definition supported :: "policy_input \<Rightarrow> assertion_kind \<Rightarrow> bool" where
  "supported i k \<longleftrightarrow>
     (let relevant = filter (\<lambda>a. ka_kind a = k) (kc_assertions (pi_candidate i))
      in relevant \<noteq> [] \<and> list_all (\<lambda>a. result_status i (ka_assertionId a) = Some SUPPORTED) relevant)"

definition requiredKinds :: "policy_input \<Rightarrow> assertion_kind list" where
  "requiredKinds i =
     (if kc_claimMode (pi_candidate i) \<notin> {None, Some CURRENT_STATE} then []
      else if kc_kind (pi_candidate i) = IMPLEMENTATION then vo_implementationRequired (pi_policy i)
      else if kc_kind (pi_candidate i) = EXPERIENCE then vo_experienceRequired (pi_policy i)
      else [])"

definition evidenceIds :: "policy_input \<Rightarrow> string list" where
  "evidenceIds i = sort (uniq
     (concat (map (\<lambda>r. case vr_evidence r of None \<Rightarrow> [] | Some e \<Rightarrow> [ev_evidenceId e])
        (pi_verificationResults i))
      @ map vp_evidenceId (opt_list (pi_verifiedProjects i))))"

section \<open>Scope\<close>

fun promotion_reason_text :: "promotion_reason \<Rightarrow> string" where
  "promotion_reason_text USER_EXPLICITLY_APPROVED = ''USER_EXPLICITLY_APPROVED''"
| "promotion_reason_text promotion_reason.CROSS_PROJECT_VERIFIED = ''CROSS_PROJECT_VERIFIED''"
| "promotion_reason_text EXPLICIT_APPROVAL_REQUIRED = ''EXPLICIT_APPROVAL_REQUIRED''"
| "promotion_reason_text PROJECT_SPECIFIC_CONTENT = ''PROJECT_SPECIFIC_CONTENT''"
| "promotion_reason_text INSUFFICIENT_DISTINCT_PROJECTS = ''INSUFFICIENT_DISTINCT_PROJECTS''"

text \<open>The scope, whether to ask the user, and the reasons after the call.\<close>

definition effectiveGlobalScope ::
  "policy_input \<Rightarrow> string list \<Rightarrow> bool \<Rightarrow> knowledge_scope \<times> bool \<times> string list" where
  "effectiveGlobalScope i reasons requestConfirmation =
     (if scope_level_of (pi_resolvedScope i) \<noteq> GLOBAL then (pi_resolvedScope i, False, reasons)
      else let verifiedProjects = uniq (map (\<lambda>v. js_trim (vp_projectId v)) (opt_list (pi_verifiedProjects i))) in
        if pi_userExplicitlyApprovedGlobal i \<noteq> Some True
           \<and> int (length verifiedProjects) < vo_minVerifiedProjects (pi_policy i)
        then (pi_projectScope i, requestConfirmation,
              set_add (set_add reasons ''GLOBAL_INSUFFICIENT_VERIFIED_PROJECTS'') ''GLOBAL_FALLBACK_PROJECT'')
        else let promotion = evaluateGlobalPromotion
                  \<lparr>pr_kind = kc_kind (pi_candidate i), pr_verifiedProjectIds = verifiedProjects,
                   pr_hasProjectSpecificMarkers = (pi_projectSpecificSignals i \<noteq> []),
                   pr_userExplicitlyApprovedGlobal = (pi_userExplicitlyApprovedGlobal i = Some True)\<rparr>;
                 reason = ''GLOBAL_'' @ promotion_reason_text (snd promotion)
          in if fst promotion then (pi_resolvedScope i, False, set_add reasons reason)
             else (pi_projectScope i, requestConfirmation,
                   set_add (set_add reasons reason) ''GLOBAL_FALLBACK_PROJECT''))"

section \<open>Decisions\<close>

definition PUBLISHABLE :: "knowledge_status list" where
  "PUBLISHABLE = [ACCEPTED, knowledge_status.IMPLEMENTED, VERIFIED]"

fun STATUS_RANK :: "knowledge_status \<Rightarrow> int option" where
  "STATUS_RANK PROPOSED = Some 0"
| "STATUS_RANK ACCEPTED = Some 1"
| "STATUS_RANK knowledge_status.IMPLEMENTED = Some 2"
| "STATUS_RANK VERIFIED = Some 3"
| "STATUS_RANK _ = None"

definition invalidInput :: "policy_input \<Rightarrow> policy_decision" where
  "invalidInput i = \<lparr>pd_action = KEEP, pd_askUser = False, pd_currentStatus = pi_currentStatus i,
     pd_targetStatus = pi_currentStatus i, pd_transitionPath = [], pd_effectiveScope = pi_projectScope i,
     pd_shouldPublish = False, pd_evidenceIds = [],
     pd_reasonCodes = [''INVALID_EVIDENCE_POLICY_INPUT'', ''SAFE_PROJECT_FALLBACK'']\<rparr>"

text \<open>A decision without a transition, the shape most branches return.\<close>

definition no_transition ::
  "policy_input \<Rightarrow> policy_action \<Rightarrow> bool \<Rightarrow> knowledge_status \<Rightarrow> knowledge_scope \<Rightarrow> string list \<Rightarrow> policy_decision" where
  "no_transition i action ask target scope reasons =
     \<lparr>pd_action = action, pd_askUser = ask, pd_currentStatus = pi_currentStatus i,
      pd_targetStatus = target, pd_transitionPath = [], pd_effectiveScope = scope,
      pd_shouldPublish = False, pd_evidenceIds = evidenceIds i, pd_reasonCodes = reasons\<rparr>"

fun path_allowed :: "knowledge_status \<Rightarrow> knowledge_status list \<Rightarrow> bool" where
  "path_allowed from [] = True"
| "path_allowed from (to # path) = (transition_ok (transitionKnowledgeStatus from to) \<and> path_allowed to path)"

definition applyTarget ::
  "policy_input \<Rightarrow> knowledge_status \<Rightarrow> string list \<Rightarrow> knowledge_scope \<Rightarrow> bool \<Rightarrow> bool \<Rightarrow> policy_decision" where
  "applyTarget i target reasons scope ask contentRevisionAllowed =
     (case transitionPath (pi_currentStatus i) target of
        None \<Rightarrow> no_transition i KEEP True (pi_currentStatus i) scope
                 (set_add reasons ''INVALID_POLICY_STATUS_TRANSITION'')
      | Some path \<Rightarrow>
          if \<not> path_allowed (pi_currentStatus i) path then invalidInput i
          else \<lparr>pd_action = (if path = [] \<and> \<not> contentRevisionAllowed then KEEP else APPLY),
                pd_askUser = ask, pd_currentStatus = pi_currentStatus i, pd_targetStatus = target,
                pd_transitionPath = path, pd_effectiveScope = scope,
                pd_shouldPublish = (target \<in> set PUBLISHABLE \<and> (path \<noteq> [] \<or> contentRevisionAllowed)),
                pd_evidenceIds = evidenceIds i, pd_reasonCodes = reasons\<rparr>)"

definition has_status :: "policy_input \<Rightarrow> verification_status \<Rightarrow> bool" where
  "has_status i s = list_ex (\<lambda>r. vr_status r = s) (pi_verificationResults i)"

definition futureMode :: "policy_input \<Rightarrow> bool" where
  "futureMode i \<longleftrightarrow> kc_claimMode (pi_candidate i) = Some USER_DECISION
     \<or> kc_claimMode (pi_candidate i) = Some FUTURE_REQUIREMENT"

definition kind_of_result :: "policy_input \<Rightarrow> verification_result \<Rightarrow> assertion_kind option" where
  "kind_of_result i r = map_option ka_kind (assertion_by_id i (vr_assertionId r))"

definition codeAssertionKinds :: "assertion_kind list" where
  "codeAssertionKinds = [SYMBOL_EXISTS, CALL_PATH_EXISTS, IMPACT_CONTAINS, FILE_CONTAINS,
     DEPENDENCY_PRESENT, CONFIG_EQUALS]"

definition pendingImplementation :: "policy_input \<Rightarrow> bool" where
  "pendingImplementation i \<longleftrightarrow> futureMode i \<and> list_ex (\<lambda>r. vr_status r = REFUTED
     \<and> (case kind_of_result i r of None \<Rightarrow> False | Some k \<Rightarrow> k \<in> set codeAssertionKinds))
     (pi_verificationResults i)"

definition refuted :: "policy_input \<Rightarrow> bool" where
  "refuted i = list_ex (\<lambda>r. vr_status r = REFUTED
     \<and> (\<not> futureMode i \<or> kind_of_result i r = Some USER_ACCEPTED \<or> kind_of_result i r = Some USER_REJECTED))
     (pi_verificationResults i)"

definition all_required :: "policy_input \<Rightarrow> bool" where
  "all_required i \<longleftrightarrow> requiredKinds i \<noteq> [] \<and> list_all (supported i) (requiredKinds i)"

text \<open>The target status and reasons up to the rank comparison (lines 318 to 347).\<close>

definition policy_target :: "policy_input \<Rightarrow> string list \<Rightarrow> knowledge_status \<times> string list" where
  "policy_target i reasons =
    (let accepted = supported i USER_ACCEPTED;
         t1 = (if accepted then ACCEPTED else PROPOSED);
         r1 = add_when accepted ''USER_ACCEPTANCE_SUPPORTED'' reasons;
         (t2, r2) =
          (if all_required i then
             (if kc_kind (pi_candidate i) = IMPLEMENTATION
              then (knowledge_status.IMPLEMENTED,
                    set_add (set_add r1 ''IMPLEMENTATION_ASSERTIONS_SUPPORTED'') ''CODE_EVIDENCE_CAPPED_IMPLEMENTED'')
              else if kc_kind (pi_candidate i) = EXPERIENCE
              then (VERIFIED, set_add r1 ''EXPERIENCE_TEST_ASSERTIONS_SUPPORTED'')
              else (t1, r1))
           else if requiredKinds i \<noteq> [] then
             (t1, add_when (has_status i UNKNOWN) ''VERIFICATION_UNKNOWN''
                   (add_when (has_status i ERROR) ''VERIFIER_ERROR_NOT_EVIDENCE''
                     (set_add r1 ''AUTO_PUBLISH_ASSERTIONS_INCOMPLETE'')))
           else (t1, r1));
         r3 = add_when (has_status i ERROR) ''VERIFIER_ERROR_NOT_EVIDENCE'' r2;
         r4 = add_when (list_ex (\<lambda>r. ''INVALID_ASSERTION'' \<in> set (vr_reasonCodes r)) (pi_verificationResults i))
                ''INVALID_ASSERTION'' r3;
         r5 = add_when (has_status i UNKNOWN) ''VERIFICATION_UNKNOWN'' r4;
         exceeds = (case (STATUS_RANK (pi_currentStatus i), STATUS_RANK t2) of
             (Some c, Some t) \<Rightarrow> c > t | _ \<Rightarrow> False);
         t3 = (if exceeds then pi_currentStatus i else t2);
         r6 = add_when exceeds ''STATUS_ALREADY_EXCEEDS_POLICY_TARGET'' r5
     in (t3, add_when (t3 = PROPOSED) ''MODEL_ONLY_REMAINS_PROPOSED'' r6))"

definition contentRevisionAllowed :: "policy_input \<Rightarrow> bool" where
  "contentRevisionAllowed i \<longleftrightarrow> pi_contentRevisionRequested i = Some True
     \<and> (supported i USER_ACCEPTED \<or> all_required i)"

definition locator_unresolved :: "policy_input \<Rightarrow> bool" where
  "locator_unresolved i = (case kc_localization (pi_candidate i) of
     Schema1 _ _ \<Rightarrow> False
   | Schema2 m l \<Rightarrow> m = CURRENT_STATE \<and> \<not> locatorHasAuthoritativeRevision l)"

definition evaluateEvidencePolicy :: "policy_input \<Rightarrow> policy_decision" where
  "evaluateEvidencePolicy i =
    (let accepted = supported i USER_ACCEPTED;
         rejected = supported i USER_REJECTED;
         current = pi_currentStatus i in
     if \<not> validateInput i then invalidInput i
     else if locator_unresolved i then
       no_transition i KEEP False current (pi_resolvedScope i)
         [''LOCATOR_REVISION_UNRESOLVED'', ''CURRENT_STATE_PUBLICATION_BLOCKED'']
     else if current = knowledge_status.REJECTED \<or> current = SUPERSEDED then
       no_transition i KEEP False current (pi_resolvedScope i) [''TERMINAL_STATUS_RETAINED'']
     else if opt_list (pi_conflictIds i) \<noteq> [] \<or> accepted \<and> rejected then
       (case effectiveGlobalScope i [] False of (scope, ask, reasons) \<Rightarrow>
          no_transition i ASK_USER True current scope (set_add reasons
            (if accepted \<and> rejected then ''CONFLICTING_USER_DECISIONS''
             else ''KNOWLEDGE_CONFLICT_REQUIRES_CONFIRMATION'')))
     else if rejected then
       (case effectiveGlobalScope i [] False of (scope, ask, reasons) \<Rightarrow>
          applyTarget i knowledge_status.REJECTED (set_add reasons ''USER_REJECTION_SUPPORTED'') scope ask False)
     else let reasons0 = add_when (pendingImplementation i) ''PENDING_IMPLEMENTATION'' [] in
     if refuted i then
       (case effectiveGlobalScope i reasons0 False of (scope, ask, reasons) \<Rightarrow>
          no_transition i (if current = PROPOSED then KEEP else ASK_USER)
            (if current = PROPOSED then ask else True) current scope (set_add reasons ''ASSERTION_REFUTED''))
     else (case policy_target i reasons0 of (target, reasons1) \<Rightarrow>
       if current = STALE \<and> target \<noteq> VERIFIED then
         (case effectiveGlobalScope i (set_add reasons1 ''STALE_REQUIRES_REVERIFICATION'') False of
            (scope, ask, reasons) \<Rightarrow> no_transition i KEEP False STALE scope reasons)
       else let reasons2 = (if pi_contentRevisionRequested i = Some True
              then set_add reasons1 (if contentRevisionAllowed i then ''CONTENT_REVISION_EVIDENCE_SUPPORTED''
                                     else ''CONTENT_REVISION_EVIDENCE_INCOMPLETE'')
              else reasons1) in
       if pi_adoptionAmbiguous i = Some True \<and> target = PROPOSED then
         (case effectiveGlobalScope i reasons2 False of (scope, ask, reasons) \<Rightarrow>
            no_transition i ASK_USER True target scope (set_add reasons ''ADOPTION_REQUIRES_CONFIRMATION''))
       else (case effectiveGlobalScope i reasons2 (target \<in> set PUBLISHABLE) of (scope, ask, reasons) \<Rightarrow>
          applyTarget i target reasons scope ask (contentRevisionAllowed i))))"

end
