(* ===== verification/PolicyProps.thy ===== *)
theory PolicyProps
  imports EvidencePolicy
begin

text \<open>
  The properties of CodeGraph artifact reuse and of the evidence policy. The case analysis of
  \<open>evaluateEvidencePolicy\<close> is done once, in \<open>policy_cases\<close>.
\<close>

section \<open>Transition paths\<close>

lemma transitionPath_cases:
  "transitionPath from target = (if from = target then Some [] else
     if target \<in> set (getAllowedStatusTransitions from) then Some [target]
     else if from \<in> {PROPOSED, ACCEPTED} \<and> target \<in> {VERIFIED, STALE}
     then Some [knowledge_status.IMPLEMENTED, target] else None)"
  by (cases "from"; cases target; simp add: transitionPath_def set_add_def)

text \<open>\<open>follows s path t\<close>: the path leads from \<open>s\<close> to \<open>t\<close> along lifecycle steps.\<close>

fun follows :: "knowledge_status \<Rightarrow> knowledge_status list \<Rightarrow> knowledge_status \<Rightarrow> bool" where
  "follows s [] t = (s = t)"
| "follows s (u # path) t = (status_step s u \<and> follows u path t)"

lemma transitionPath_follows: "transitionPath s t = Some path \<Longrightarrow> follows s path t \<and> length path \<le> 2"
  by (auto simp: transitionPath_cases status_step_def split: if_splits)

lemma follows_reach: "follows s path t \<Longrightarrow> status_step\<^sup>*\<^sup>* s t"
  by (induction s path t rule: follows.induct) (auto intro: converse_rtranclp_into_rtranclp)

lemma transitionPath_complete: "status_step\<^sup>*\<^sup>* s t \<Longrightarrow> transitionPath s t \<noteq> None"
proof (induction rule: converse_rtranclp_induct)
  case (step u v)
  then show ?case
    by (cases u; cases v) (auto simp: transitionPath_cases status_step_def split: if_splits)
qed (simp add: transitionPath_cases)

lemma path_allowed_follows: "follows s path t \<Longrightarrow> path_allowed s path"
  by (induction s path t rule: follows.induct) (auto simp: transition_ok_iff)

lemma transitionPath_Nil_iff: "transitionPath s t = Some [] \<longleftrightarrow> s = t"
  by (auto simp: transitionPath_cases)

section \<open>The branches of the policy\<close>

lemma no_transition_simps [simp]:
  "pd_action (no_transition i a k t s r) = a"
  "pd_currentStatus (no_transition i a k t s r) = pi_currentStatus i"
  "pd_targetStatus (no_transition i a k t s r) = t"
  "pd_transitionPath (no_transition i a k t s r) = []"
  "pd_shouldPublish (no_transition i a k t s r) = False"
  "pd_effectiveScope (no_transition i a k t s r) = s"
  by (simp_all add: no_transition_def)

lemma invalidInput_simps [simp]:
  "pd_action (invalidInput i) = KEEP"
  "pd_currentStatus (invalidInput i) = pi_currentStatus i"
  "pd_targetStatus (invalidInput i) = pi_currentStatus i"
  "pd_transitionPath (invalidInput i) = []"
  "pd_shouldPublish (invalidInput i) = False"
  by (simp_all add: invalidInput_def)

lemma applyTarget_cases:
  obtains (no_path) r where "transitionPath (pi_currentStatus i) t = None"
      "applyTarget i t reasons scope ask c = no_transition i KEEP True (pi_currentStatus i) scope r"
  | (path) path where "transitionPath (pi_currentStatus i) t = Some path"
      "follows (pi_currentStatus i) path t" "length path \<le> 2"
      "pd_currentStatus (applyTarget i t reasons scope ask c) = pi_currentStatus i"
      "pd_targetStatus (applyTarget i t reasons scope ask c) = t"
      "pd_transitionPath (applyTarget i t reasons scope ask c) = path"
      "pd_effectiveScope (applyTarget i t reasons scope ask c) = scope"
      "pd_action (applyTarget i t reasons scope ask c) = (if path = [] \<and> \<not> c then KEEP else APPLY)"
      "pd_shouldPublish (applyTarget i t reasons scope ask c)
        = (t \<in> set PUBLISHABLE \<and> (path \<noteq> [] \<or> c))"
      "pd_evidenceIds (applyTarget i t reasons scope ask c) = evidenceIds i"
proof (cases "transitionPath (pi_currentStatus i) t")
  case None
  then show ?thesis using no_path by (simp add: applyTarget_def)
next
  case (Some path)
  then have f: "follows (pi_currentStatus i) path t" "length path \<le> 2"
    using transitionPath_follows by blast+
  then have "path_allowed (pi_currentStatus i) path" by (simp add: path_allowed_follows)
  then show ?thesis using path[OF Some f] Some by (simp add: applyTarget_def)
qed

definition base_target :: "policy_input \<Rightarrow> knowledge_status" where
  "base_target i =
     (if all_required i then
        if kc_kind (pi_candidate i) = IMPLEMENTATION then knowledge_status.IMPLEMENTED else VERIFIED
      else if supported i USER_ACCEPTED then ACCEPTED else PROPOSED)"

definition exceeds :: "policy_input \<Rightarrow> bool" where
  "exceeds i = (case (STATUS_RANK (pi_currentStatus i), STATUS_RANK (base_target i)) of
     (Some c, Some t) \<Rightarrow> c > t | _ \<Rightarrow> False)"

lemma required_kind: "requiredKinds i \<noteq> [] \<Longrightarrow> kc_kind (pi_candidate i) \<in> {IMPLEMENTATION, EXPERIENCE}
    \<and> \<not> futureMode i"
  by (auto simp: requiredKinds_def futureMode_def split: if_splits)

lemma policy_target_eq:
  "fst (policy_target i r) = (if exceeds i then pi_currentStatus i else base_target i)"
proof -
  have k: "all_required i \<Longrightarrow> kc_kind (pi_candidate i) \<in> {IMPLEMENTATION, EXPERIENCE}"
    using required_kind by (auto simp: all_required_def)
  show ?thesis
    by (simp add: policy_target_def exceeds_def base_target_def Let_def split: prod.splits if_splits)
       (use k in auto)
qed

text \<open>With no rejection or terminal status, the target of the policy is always reachable.\<close>

lemma target_bounds:
  assumes "pi_currentStatus i \<notin> {knowledge_status.REJECTED, SUPERSEDED}"
    and "t = fst (policy_target i r)"
  shows "t = pi_currentStatus i \<or> t = base_target i"
    and "pi_currentStatus i \<noteq> STALE \<Longrightarrow> t \<in> {PROPOSED, ACCEPTED, knowledge_status.IMPLEMENTED, VERIFIED}"
    and "t = PROPOSED \<Longrightarrow> pi_currentStatus i \<in> {PROPOSED, STALE}"
    and "pi_currentStatus i = STALE \<Longrightarrow> t = base_target i"
    and "pi_currentStatus i \<noteq> STALE \<Longrightarrow> transitionPath (pi_currentStatus i) t \<noteq> None"
  using assms
  by (cases "pi_currentStatus i"; auto simp: policy_target_eq exceeds_def base_target_def
      transitionPath_cases split: if_splits)+

lemma policy_cases:
  obtains (invalid) "evaluateEvidencePolicy i = invalidInput i"
  | (keep) a k s r where "evaluateEvidencePolicy i = no_transition i a k (pi_currentStatus i) s r"
  | (reject) r s k where "validateInput i" "supported i USER_REJECTED" "\<not> supported i USER_ACCEPTED"
      "evaluateEvidencePolicy i = applyTarget i knowledge_status.REJECTED r s k False"
  | (target) r0 r1 t r s k where "validateInput i" "\<not> locator_unresolved i"
      "pi_currentStatus i \<notin> {knowledge_status.REJECTED, SUPERSEDED}"
      "opt_list (pi_conflictIds i) = []" "\<not> supported i USER_REJECTED" "\<not> refuted i"
      "t = fst (policy_target i r0)" "pi_currentStatus i = STALE \<longrightarrow> t = VERIFIED"
      "effectiveGlobalScope i r1 (t \<in> set PUBLISHABLE) = (s, k, r)"
      "evaluateEvidencePolicy i = applyTarget i t r s k (contentRevisionAllowed i)"
proof -
  let ?current = "pi_currentStatus i"
  let ?r0 = "add_when (pendingImplementation i) ''PENDING_IMPLEMENTATION'' []"
  let ?rejected = "supported i USER_REJECTED" and ?accepted = "supported i USER_ACCEPTED"
  note ev = evaluateEvidencePolicy_def Let_def
  obtain s0 k0 q0 where g0: "effectiveGlobalScope i [] False = (s0, k0, q0)" by (cases "effectiveGlobalScope i [] False")
  obtain s1 k1 q1 where g1: "effectiveGlobalScope i ?r0 False = (s1, k1, q1)" by (cases "effectiveGlobalScope i ?r0 False")
  consider (a) "\<not> validateInput i"
    | (b1) "validateInput i" "locator_unresolved i"
    | (b2) "validateInput i" "\<not> locator_unresolved i" "?current = knowledge_status.REJECTED \<or> ?current = SUPERSEDED"
    | (b3) "validateInput i" "\<not> locator_unresolved i" "?current \<noteq> knowledge_status.REJECTED" "?current \<noteq> SUPERSEDED"
        "opt_list (pi_conflictIds i) \<noteq> [] \<or> ?accepted \<and> ?rejected"
    | (c) "validateInput i" "\<not> locator_unresolved i" "?current \<notin> {knowledge_status.REJECTED, SUPERSEDED}"
        "opt_list (pi_conflictIds i) = []" "?rejected" "\<not> ?accepted"
    | (d) "validateInput i" "\<not> locator_unresolved i" "?current \<notin> {knowledge_status.REJECTED, SUPERSEDED}"
        "opt_list (pi_conflictIds i) = []" "\<not> ?rejected" "refuted i"
    | (e) "validateInput i" "\<not> locator_unresolved i" "?current \<notin> {knowledge_status.REJECTED, SUPERSEDED}"
        "opt_list (pi_conflictIds i) = []" "\<not> ?rejected" "\<not> refuted i"
    by blast
  then show thesis
  proof cases
    case a
    then show ?thesis using invalid by (simp add: ev)
  next
    case b1
    then have "evaluateEvidencePolicy i = no_transition i KEEP False ?current (pi_resolvedScope i)
        [''LOCATOR_REVISION_UNRESOLVED'', ''CURRENT_STATE_PUBLICATION_BLOCKED'']" by (simp only: ev) simp
    then show ?thesis by (rule keep)
  next
    case b2
    then have "evaluateEvidencePolicy i
        = no_transition i KEEP False ?current (pi_resolvedScope i) [''TERMINAL_STATUS_RETAINED'']"
      by (simp only: ev) simp
    then show ?thesis by (rule keep)
  next
    case b3
    then have "evaluateEvidencePolicy i = no_transition i ASK_USER True ?current s0 (set_add q0
        (if ?accepted \<and> ?rejected then ''CONFLICTING_USER_DECISIONS''
         else ''KNOWLEDGE_CONFLICT_REQUIRES_CONFIRMATION''))"
      unfolding ev g0 by (simp only: if_False if_True prod.case not_True_eq_False simp_thms)
    then show ?thesis by (rule keep)
  next
    case c
    then show ?thesis using reject[OF c(1,5,6)] g0 by (simp add: ev)
  next
    case d
    then have "evaluateEvidencePolicy i = no_transition i (if ?current = PROPOSED then KEEP else ASK_USER)
        (if ?current = PROPOSED then k1 else True) ?current s1 (set_add q1 ''ASSERTION_REFUTED'')"
      unfolding ev g1 by (simp only: if_False if_True prod.case not_True_eq_False simp_thms insert_iff empty_iff de_Morgan_disj)
    then show ?thesis by (rule keep)
  next
    case e
    obtain t q where pt: "policy_target i ?r0 = (t, q)" by (cases "policy_target i ?r0")
    have tq: "t = fst (policy_target i ?r0)" using pt by simp
    let ?q = "if pi_contentRevisionRequested i = Some True
       then set_add q (if contentRevisionAllowed i then ''CONTENT_REVISION_EVIDENCE_SUPPORTED''
                       else ''CONTENT_REVISION_EVIDENCE_INCOMPLETE'') else q"
    obtain s2 k2 q2 where g2: "effectiveGlobalScope i (set_add q ''STALE_REQUIRES_REVERIFICATION'') False = (s2, k2, q2)"
      by (cases "effectiveGlobalScope i (set_add q ''STALE_REQUIRES_REVERIFICATION'') False")
    obtain s3 k3 q3 where g3: "effectiveGlobalScope i ?q False = (s3, k3, q3)"
      by (cases "effectiveGlobalScope i ?q False")
    obtain s4 k4 q4 where g4: "effectiveGlobalScope i ?q (t \<in> set PUBLISHABLE) = (s4, k4, q4)"
      by (cases "effectiveGlobalScope i ?q (t \<in> set PUBLISHABLE)")
    have n: "validateInput i" "\<not> locator_unresolved i" "?current \<noteq> knowledge_status.REJECTED"
      "?current \<noteq> SUPERSEDED" "opt_list (pi_conflictIds i) = []" "\<not> ?rejected" "\<not> refuted i" using e by auto
    consider (stale) "?current = STALE" "t \<noteq> VERIFIED"
      | (ask) "\<not> (?current = STALE \<and> t \<noteq> VERIFIED)" "pi_adoptionAmbiguous i = Some True \<and> t = PROPOSED"
      | (go) "\<not> (?current = STALE \<and> t \<noteq> VERIFIED)" "\<not> (pi_adoptionAmbiguous i = Some True \<and> t = PROPOSED)"
      by blast
    then show ?thesis
    proof cases
      case stale
      then have "evaluateEvidencePolicy i = no_transition i KEEP False ?current s2 q2"
        using n g2 pt by (simp add: ev)
      then show ?thesis by (rule keep)
    next
      case ask
      then have "?current = PROPOSED" using target_bounds(3)[OF e(3) tq] by auto
      moreover have "evaluateEvidencePolicy i
          = no_transition i ASK_USER True t s3 (set_add q3 ''ADOPTION_REQUIRES_CONFIRMATION'')"
        using n g3 pt ask by (simp add: ev)
      ultimately have "evaluateEvidencePolicy i
          = no_transition i ASK_USER True ?current s3 (set_add q3 ''ADOPTION_REQUIRES_CONFIRMATION'')"
        using ask by simp
      then show ?thesis by (rule keep)
    next
      case go
      have "evaluateEvidencePolicy i = applyTarget i t q4 s4 k4 (contentRevisionAllowed i)"
        using n g4 pt go unfolding ev by (simp only: if_False if_True prod.case) auto
      then show ?thesis using target[OF e tq _ g4] go by blast
    qed
  qed
qed

section \<open>What a valid input guarantees\<close>

lemma results_ok_all: "results_ok i seen rs \<Longrightarrow> r \<in> set rs \<Longrightarrow> result_ok i r"
  by (induction i seen rs rule: results_ok.induct) auto

lemma supported_evidence:
  assumes "validateInput i" and "supported i k"
  obtains r e where "r \<in> set (pi_verificationResults i)" "vr_assertionKind r = k"
    "vr_evidence r = Some e" "ev_verdict e = SUPPORTS" "ev_assertionId e = Some (vr_assertionId r)"
    "ev_projectId e = scope_projectId (pi_projectScope i)" "ev_evidenceId e \<in> set (evidenceIds i)"
proof -
  from assms(2) obtain a where a: "a \<in> set (kc_assertions (pi_candidate i))" "ka_kind a = k"
    "result_status i (ka_assertionId a) = Some SUPPORTED"
    by (auto simp: supported_def Let_def filter_empty_conv list_all_iff)
  then obtain r where f: "find (\<lambda>r. vr_assertionId r = ka_assertionId a) (pi_verificationResults i) = Some r"
    and st: "vr_status r = SUPPORTED" by (auto simp: result_status_def)
  have r: "r \<in> set (pi_verificationResults i)" "vr_assertionId r = ka_assertionId a"
    using find_SomeD[OF f] by auto
  have ok: "result_ok i r" using assms(1) results_ok_all r(1) by (auto simp: validateInput_def)
  have "distinct (map ka_assertionId (kc_assertions (pi_candidate i)))"
    using assms(1) by (simp add: validateInput_def)
  then have by_id: "assertion_by_id i (vr_assertionId r) = Some a"
    using a(1) r(2) by (simp add: assertion_by_id_def last_entry_unique)
  obtain e where e: "vr_evidence r = Some e" "ev_verdict e = SUPPORTS"
    using ok st by_id by (auto simp: result_ok_def)
  have "evidence_ok i a e" "ka_kind a = vr_assertionKind r"
    using ok by_id e(1) by (auto simp: result_ok_def)
  moreover have "ev_evidenceId e \<in> set (evidenceIds i)"
    using r(1) e(1) by (force simp: evidenceIds_def)
  ultimately show thesis using that[OF r(1) _ e] a(2) r(2) by (auto simp: evidence_ok_def)
qed

lemma required_contains:
  assumes "validateInput i" and "all_required i"
  shows "kc_kind (pi_candidate i) = IMPLEMENTATION \<and> supported i SYMBOL_EXISTS
    \<or> kc_kind (pi_candidate i) = EXPERIENCE \<and> supported i TEST_PASSED"
proof -
  have p: "SYMBOL_EXISTS \<in> set (vo_implementationRequired (pi_policy i))"
    "TEST_PASSED \<in> set (vo_experienceRequired (pi_policy i))"
    using assms(1) by (auto simp: validateInput_def policy_ok_def)
  have "requiredKinds i \<noteq> []" "\<forall>k \<in> set (requiredKinds i). supported i k"
    using assms(2) by (auto simp: all_required_def list_all_iff)
  then show ?thesis using p by (auto simp: requiredKinds_def split: if_splits)
qed

lemma base_target_supported:
  assumes "validateInput i" and "base_target i \<noteq> PROPOSED"
  shows "supported i USER_ACCEPTED \<or> all_required i"
  using assms by (auto simp: base_target_def split: if_splits)

lemma support_gives_evidence:
  assumes "validateInput i" and "supported i USER_ACCEPTED \<or> all_required i"
  shows "\<exists>r \<in> set (pi_verificationResults i). \<exists>e. vr_evidence r = Some e \<and> ev_verdict e = SUPPORTS
    \<and> vr_assertionKind r \<in> {USER_ACCEPTED, SYMBOL_EXISTS, TEST_PASSED}
    \<and> ev_projectId e = scope_projectId (pi_projectScope i) \<and> ev_evidenceId e \<in> set (evidenceIds i)"
proof -
  have "\<exists>k \<in> {USER_ACCEPTED, SYMBOL_EXISTS, TEST_PASSED}. supported i k"
    using assms required_contains[OF assms(1)] by blast
  then obtain k where k: "k \<in> {USER_ACCEPTED, SYMBOL_EXISTS, TEST_PASSED}" "supported i k" by blast
  show ?thesis by (rule supported_evidence[OF assms(1) k(2)]) (use k(1) in blast)
qed

lemma effective_scope_cases:
  assumes "effectiveGlobalScope i r b = (s, k, r')"
  shows "s = pi_resolvedScope i \<or> s = pi_projectScope i"
    and "scope_level_of (pi_projectScope i) = PROJECT \<Longrightarrow> scope_level_of s = GLOBAL
      \<Longrightarrow> pi_userExplicitlyApprovedGlobal i = Some True
        \<or> kc_kind (pi_candidate i) \<notin> {RULE, PREFERENCE} \<and> pi_projectSpecificSignals i = []
          \<and> vo_minVerifiedProjects (pi_policy i)
             \<le> int (card (set (map (\<lambda>v. js_trim (vp_projectId v)) (opt_list (pi_verifiedProjects i)))))"
  using assms by (auto simp: effectiveGlobalScope_def evaluateGlobalPromotion_def Let_def length_uniq
      split: if_splits)

section \<open>An example\<close>

text \<open>An experience whose test passed, verified in two projects, resolved to global scope.\<close>

definition ex_candidate :: knowledge_candidate where
  "ex_candidate = \<lparr>kc_candidateId = ''c1'', kc_compilerVersion = ''v1'', kc_status = PROPOSED,
     kc_subjectKey = ''design.evidence.policy'', kc_kind = EXPERIENCE,
     kc_scopeHint = \<lparr>sh_level = None, sh_taskId = None, sh_projectId = Some ''p1'',
       sh_repositoryRemote = None, sh_modulePaths = None, sh_symbols = None, sh_userId = None,
       sh_teamId = None, sh_reasonCodes = []\<rparr>,
     kc_title = ''t'', kc_summary = ''s'', kc_body = ''b'', kc_sourceEpisodes = [''e1''],
     kc_confidence = 1, kc_createdAt = Iso 0, kc_correlationId = ''r1'',
     kc_assertions = [\<lparr>ka_assertionId = ''a1'', ka_candidateId = ''c1'',
       ka_body = TestPassed ''t1'' None None, ka_createdAt = Iso 0\<rparr>],
     kc_evidenceHints = [], kc_localization = Schema1 None None\<rparr>"

definition ex_policy :: verification_policy where
  "ex_policy = \<lparr>vo_implementationMax = knowledge_status.IMPLEMENTED,
     vo_implementationRequired = [SYMBOL_EXISTS], vo_experienceMax = VERIFIED,
     vo_experienceRequired = [TEST_PASSED], vo_minVerifiedProjects = 2, vo_maxQuestionsPerTurn = 1,
     vo_questionWindowTurns = 20, vo_defaultScope = PROJECT, vo_unansweredBehavior = ''SAFE_DEFAULT'',
     vo_createReviewTasks = False\<rparr>"

definition ex_result :: verification_result where
  "ex_result = \<lparr>vr_assertionId = ''a1'', vr_assertionKind = TEST_PASSED, vr_verifierId = None,
     vr_status = SUPPORTED, vr_target = ''t1'', vr_observedAt = Iso 1,
     vr_reasonCodes = [''TEST_PASSED''],
     vr_evidence = Some \<lparr>ev_evidenceId = ''evidence-1'', ev_assertionId = Some ''a1'', ev_type = TEST_RESULT,
       ev_verdict = SUPPORTS, ev_sourceRef = ''run-1'', ev_projectId = Some ''p1'', ev_observedAt = Iso 1,
       ev_correlationId = ''r1'', ev_details = None\<rparr>,
     vr_codeGraphArtifact = None\<rparr>"

definition ex_verified_project :: "string \<Rightarrow> verified_project" where
  "ex_verified_project p = \<lparr>vp_projectId = p, vp_subjectKey = ''design.evidence.policy'',
     vp_evidenceId = ''v-'' @ p, vp_sourceRef = ''s'', vp_observedAt = Iso 0\<rparr>"

definition ex_policy_input :: policy_input where
  "ex_policy_input = \<lparr>pi_candidate = ex_candidate, pi_currentStatus = PROPOSED,
     pi_resolvedScope = GlobalScope, pi_projectScope = ProjectScope ''p1'' None,
     pi_projectSpecificSignals = [], pi_verificationResults = [ex_result], pi_policy = ex_policy,
     pi_verifiedProjects = Some [ex_verified_project ''p1'', ex_verified_project ''p2''],
     pi_userExplicitlyApprovedGlobal = None, pi_conflictIds = None, pi_adoptionAmbiguous = None,
     pi_contentRevisionRequested = None\<rparr>"

lemma ex_policy_publishes: "pd_shouldPublish (evaluateEvidencePolicy ex_policy_input)"
  by code_simp

lemma ex_policy_target: "pd_targetStatus (evaluateEvidencePolicy ex_policy_input) = VERIFIED"
  by code_simp

lemma ex_policy_scope: "pd_effectiveScope (evaluateEvidencePolicy ex_policy_input) = GlobalScope"
  by code_simp

section \<open>Properties\<close>

text \<open>
  Artifact reuse. An artifact is reused exactly when it is active, was taken at the same project,
  code revision, graph revision and dependency fingerprint, and mentions no changed path or symbol;
  it is marked suspect exactly when a revision or the dependency fingerprint differs or something it
  mentions changed, so another project's query never makes it suspect.
\<close>

theorem artifact_reuse_exact:
  "(rd_reusable (evaluateCodeGraphArtifactReuse a x) \<longleftrightarrow>
      ca_status a = ArtifactActive \<and> ca_projectId a = rx_projectId x
    \<and> ca_codeRevision a = rx_codeRevision x \<and> ca_graphRevision a = rx_graphRevision x
    \<and> ca_dependencyFingerprint a = rx_dependencyFingerprint x
    \<and> set (or_empty (rx_changedPaths x)) \<inter> set (referencedPaths a) = {}
    \<and> set (or_empty (rx_changedSymbols x)) \<inter> set (referencedSymbols a) = {})
 \<and> (rd_markSuspect (evaluateCodeGraphArtifactReuse a x) \<longleftrightarrow>
      \<not> (ca_codeRevision a = rx_codeRevision x \<and> ca_graphRevision a = rx_graphRevision x
    \<and> ca_dependencyFingerprint a = rx_dependencyFingerprint x
    \<and> set (or_empty (rx_changedPaths x)) \<inter> set (referencedPaths a) = {}
    \<and> set (or_empty (rx_changedSymbols x)) \<inter> set (referencedSymbols a) = {}))"
proof -
  have e: "reuse_reasons a x = [] \<longleftrightarrow> set (reuse_reasons a x) = {}" by simp
  show ?thesis
    unfolding evaluateCodeGraphArtifactReuse_def Let_def reuse_decision.simps e list_ex_iff
    unfolding reuse_reasons_set
    by (intro conjI) (auto simp: suspect_reasons)
qed

text \<open>
  C32: The breadth-first search for a transition path is a complete decision of reachability in the
  lifecycle: it finds a path exactly when the target can be reached at all, the path it returns is a
  run of lifecycle steps from the one status to the other, and it has at most two steps.
\<close>

theorem transition_path_complete:
  "(transitionPath s t \<noteq> None \<longleftrightarrow> status_step\<^sup>*\<^sup>* s t)
   \<and> (case transitionPath s t of None \<Rightarrow> True | Some path \<Rightarrow> follows s path t \<and> length path \<le> 2)"
  using transitionPath_follows[of s t] transitionPath_complete[of s t] follows_reach[of s _ t]
  by (auto split: option.splits)

text \<open>
  Whatever its input, the policy's decision is a run of the lifecycle: its transition path leads
  from the current status to the target along allowed transitions, and is empty unless the action is
  \<open>APPLY\<close>.
\<close>

theorem policy_transitions_legal:
  "pd_currentStatus (evaluateEvidencePolicy i) = pi_currentStatus i
   \<and> follows (pi_currentStatus i) (pd_transitionPath (evaluateEvidencePolicy i))
       (pd_targetStatus (evaluateEvidencePolicy i))
   \<and> (pd_action (evaluateEvidencePolicy i) = APPLY \<or> pd_transitionPath (evaluateEvidencePolicy i) = [])"
proof (rule policy_cases[of i])
  fix r s k
  assume e: "evaluateEvidencePolicy i = applyTarget i knowledge_status.REJECTED r s k False"
  show ?thesis unfolding e
    by (rule applyTarget_cases[of i knowledge_status.REJECTED r s k False]) auto
next
  fix t r s k
  assume e: "evaluateEvidencePolicy i = applyTarget i t r s k (contentRevisionAllowed i)"
  show ?thesis unfolding e
    by (rule applyTarget_cases[of i t r s k "contentRevisionAllowed i"]) auto
qed simp_all

lemma published_evidence:
  assumes "pd_shouldPublish (evaluateEvidencePolicy i)"
  shows "validateInput i \<and> opt_list (pi_conflictIds i) = [] \<and> \<not> supported i USER_REJECTED \<and> \<not> refuted i
    \<and> \<not> locator_unresolved i
    \<and> pd_targetStatus (evaluateEvidencePolicy i) \<in> {ACCEPTED, knowledge_status.IMPLEMENTED, VERIFIED}
    \<and> (\<exists>r \<in> set (pi_verificationResults i). \<exists>e. vr_evidence r = Some e \<and> ev_verdict e = SUPPORTS
        \<and> vr_assertionKind r \<in> {USER_ACCEPTED, SYMBOL_EXISTS, TEST_PASSED}
        \<and> ev_projectId e = scope_projectId (pi_projectScope i)
        \<and> ev_evidenceId e \<in> set (pd_evidenceIds (evaluateEvidencePolicy i)))"
proof (rule policy_cases[of i])
  fix r s k
  assume e: "evaluateEvidencePolicy i = applyTarget i knowledge_status.REJECTED r s k False"
  show ?thesis using assms unfolding e
    by (rule_tac applyTarget_cases[of i knowledge_status.REJECTED r s k False]) (auto simp: PUBLISHABLE_def)
next
  fix r0 r1 t r s k
  assume h: "validateInput i" "\<not> locator_unresolved i"
      "pi_currentStatus i \<notin> {knowledge_status.REJECTED, SUPERSEDED}" "opt_list (pi_conflictIds i) = []"
      "\<not> supported i USER_REJECTED" "\<not> refuted i" and t: "t = fst (policy_target i r0)"
    and e: "evaluateEvidencePolicy i = applyTarget i t r s k (contentRevisionAllowed i)"
  show ?thesis
  proof (rule applyTarget_cases[of i t r s k "contentRevisionAllowed i"])
    fix path
    assume p: "transitionPath (pi_currentStatus i) t = Some path"
      and ids: "pd_evidenceIds (applyTarget i t r s k (contentRevisionAllowed i)) = evidenceIds i"
      and tgt: "pd_targetStatus (applyTarget i t r s k (contentRevisionAllowed i)) = t"
      and pub: "pd_shouldPublish (applyTarget i t r s k (contentRevisionAllowed i))
        = (t \<in> set PUBLISHABLE \<and> (path \<noteq> [] \<or> contentRevisionAllowed i))"
    have pb: "t \<in> set PUBLISHABLE" "path \<noteq> [] \<or> contentRevisionAllowed i"
      using assms e pub by auto
    have "supported i USER_ACCEPTED \<or> all_required i"
    proof (cases "contentRevisionAllowed i")
      case False
      then have "t \<noteq> pi_currentStatus i" using pb(2) p by (auto simp: transitionPath_cases)
      then have "t = base_target i" using target_bounds(1)[OF h(3) t] by blast
      moreover have "t \<noteq> PROPOSED" using pb(1) by (auto simp: PUBLISHABLE_def)
      ultimately show ?thesis using base_target_supported[OF h(1)] by simp
    qed (simp add: contentRevisionAllowed_def)
    then show ?thesis using support_gives_evidence[OF h(1)] h pb(1) unfolding e ids tgt
      by (simp add: PUBLISHABLE_def)
  qed (use assms e in auto)
qed (use assms in auto)

text \<open>
  Nothing is published on a model's word. When the policy publishes, the input was valid, no
  conflict was reported, no user rejection is supported, nothing relevant is refuted, the code
  revision of a current-state claim is known, the target is publishable, and a verification result
  carries evidence with verdict \<open>SUPPORTS\<close>, observed in this project, for a user acceptance or a
  required symbol or test assertion, whose id is among the decision's evidence ids.
\<close>

theorem publication_needs_evidence:
  assumes "pd_shouldPublish (evaluateEvidencePolicy i)"
  shows "validateInput i \<and> opt_list (pi_conflictIds i) = [] \<and> \<not> supported i USER_REJECTED \<and> \<not> refuted i
    \<and> \<not> locator_unresolved i
    \<and> pd_targetStatus (evaluateEvidencePolicy i) \<in> {ACCEPTED, knowledge_status.IMPLEMENTED, VERIFIED}
    \<and> (\<exists>r \<in> set (pi_verificationResults i). \<exists>e. vr_evidence r = Some e \<and> ev_verdict e = SUPPORTS
        \<and> vr_assertionKind r \<in> {USER_ACCEPTED, SYMBOL_EXISTS, TEST_PASSED}
        \<and> ev_projectId e = scope_projectId (pi_projectScope i)
        \<and> ev_evidenceId e \<in> set (pd_evidenceIds (evaluateEvidencePolicy i)))"
  using assms by (rule published_evidence)

lemma publication_needs_evidence_witness:
  "\<not> refuted ex_policy_input \<and> pd_targetStatus (evaluateEvidencePolicy ex_policy_input) = VERIFIED"
  using publication_needs_evidence[OF ex_policy_publishes] ex_policy_target by blast

text \<open>
  Code never proves more than it can. The policy raises knowledge to \<open>VERIFIED\<close> only for an
  experience with a supported test, to \<open>IMPLEMENTED\<close> only for an implementation with a supported
  symbol, to \<open>REJECTED\<close> only on a supported user rejection without an acceptance, and to \<open>ACCEPTED\<close>
  only on a supported user acceptance; otherwise the status stays as it is.
\<close>

theorem status_changes_need_evidence:
  assumes "pd_targetStatus (evaluateEvidencePolicy i) \<noteq> pi_currentStatus i"
  shows "case pd_targetStatus (evaluateEvidencePolicy i) of
      VERIFIED \<Rightarrow> kc_kind (pi_candidate i) = EXPERIENCE \<and> supported i TEST_PASSED
    | knowledge_status.IMPLEMENTED \<Rightarrow> kc_kind (pi_candidate i) = IMPLEMENTATION \<and> supported i SYMBOL_EXISTS
    | knowledge_status.REJECTED \<Rightarrow> supported i USER_REJECTED \<and> \<not> supported i USER_ACCEPTED
    | ACCEPTED \<Rightarrow> supported i USER_ACCEPTED
    | _ \<Rightarrow> False"
proof (rule policy_cases[of i])
  fix r s k
  assume "supported i USER_REJECTED" "\<not> supported i USER_ACCEPTED"
    and e: "evaluateEvidencePolicy i = applyTarget i knowledge_status.REJECTED r s k False"
  then show ?thesis using assms unfolding e
    by (rule_tac applyTarget_cases[of i knowledge_status.REJECTED r s k False]) auto
next
  fix r0 r1 t r s k
  assume h: "validateInput i" "pi_currentStatus i \<notin> {knowledge_status.REJECTED, SUPERSEDED}"
    and t: "t = fst (policy_target i r0)"
    and e: "evaluateEvidencePolicy i = applyTarget i t r s k (contentRevisionAllowed i)"
  have "pd_targetStatus (evaluateEvidencePolicy i) = t"
    using assms unfolding e by (rule_tac applyTarget_cases[of i t r s k "contentRevisionAllowed i"]) auto
  moreover have "t = base_target i" using calculation assms target_bounds(1)[OF h(2) t] by auto
  moreover have "t \<noteq> PROPOSED"
    using calculation assms target_bounds(3,4)[OF h(2) t] transitionPath_cases[of STALE PROPOSED]
      applyTarget_cases[of i t r s k "contentRevisionAllowed i"] e by fastforce
  ultimately show ?thesis using required_contains[OF h(1)]
    by (auto simp: base_target_def split: if_splits)
qed (use assms in auto)

lemma status_changes_need_evidence_witness: "supported ex_policy_input TEST_PASSED"
proof -
  have "pi_currentStatus ex_policy_input = PROPOSED" by (simp add: ex_policy_input_def)
  then show ?thesis using status_changes_need_evidence[of ex_policy_input] ex_policy_target by simp
qed

text \<open>
  Nothing project-specific becomes global. When the policy publishes, the effective scope is the
  resolved scope or the project scope; and if it is global, the user approved it, or the knowledge is
  neither a rule nor a preference, no project-specific signal was found, and it was verified in at
  least the configured number of distinct projects.
\<close>

theorem global_publication_guarded:
  assumes "pd_shouldPublish (evaluateEvidencePolicy i)"
  shows "pd_effectiveScope (evaluateEvidencePolicy i) \<in> {pi_resolvedScope i, pi_projectScope i}
    \<and> (scope_level_of (pd_effectiveScope (evaluateEvidencePolicy i)) = GLOBAL
       \<longrightarrow> pi_userExplicitlyApprovedGlobal i = Some True
        \<or> kc_kind (pi_candidate i) \<notin> {RULE, PREFERENCE} \<and> pi_projectSpecificSignals i = []
          \<and> vo_minVerifiedProjects (pi_policy i)
             \<le> int (card (set (map (\<lambda>v. js_trim (vp_projectId v)) (opt_list (pi_verifiedProjects i))))))"
proof (rule policy_cases[of i])
  fix r s k
  assume e: "evaluateEvidencePolicy i = applyTarget i knowledge_status.REJECTED r s k False"
  show ?thesis using assms unfolding e
    by (rule_tac applyTarget_cases[of i knowledge_status.REJECTED r s k False]) (auto simp: PUBLISHABLE_def)
next
  fix r0 r1 t r s k
  assume v: "validateInput i" and g: "effectiveGlobalScope i r1 (t \<in> set PUBLISHABLE) = (s, k, r)"
    and e: "evaluateEvidencePolicy i = applyTarget i t r s k (contentRevisionAllowed i)"
  have "scope_level_of (pi_projectScope i) = PROJECT"
    using v by (auto simp: validateInput_def scope_input_ok_def split: knowledge_scope.splits)
  moreover have "pd_effectiveScope (evaluateEvidencePolicy i) = s"
    using assms unfolding e by (rule_tac applyTarget_cases[of i t r s k "contentRevisionAllowed i"]) auto
  ultimately show ?thesis using effective_scope_cases[OF g] by auto
qed (use assms in auto)

lemma global_publication_guarded_witness:
  "2 \<le> card (set (map (\<lambda>v. js_trim (vp_projectId v)) (opt_list (pi_verifiedProjects ex_policy_input))))"
proof -
  have "scope_level_of (pd_effectiveScope (evaluateEvidencePolicy ex_policy_input)) = GLOBAL"
    by (simp add: ex_policy_scope)
  moreover have "pi_userExplicitlyApprovedGlobal ex_policy_input = None"
    and "vo_minVerifiedProjects (pi_policy ex_policy_input) = 2"
    by (simp_all add: ex_policy_input_def ex_policy_def)
  ultimately show ?thesis using global_publication_guarded[OF ex_policy_publishes] by simp
qed

end
