(* ===== verification/ScopeResolver.thy ===== *)
theory ScopeResolver
  imports Domain
begin

text \<open>
  The scope resolver (\<^verbatim>\<open>packages/scope-resolver/src/resolver.ts\<close>): from a candidate's hints, its
  assertions and texts and the trusted identities of the run to the narrowest scope that can be
  proved. The regular expressions are written out on Latin-1, where \<open>\p{L}\<close>, \<open>\p{N}\<close> and lower-casing
  are the tables below. A thrown error is a value.
\<close>

section \<open>Data (types.ts)\<close>

record resolution_input =
  ci_candidate :: knowledge_candidate
  ci_projectContext :: project_context
  ci_taskId :: "string option"
  ci_userId :: "string option"
  ci_teamId :: "string option"
  ci_allowGlobal :: "bool option"
  ci_projectTerms :: "string list option"

record scope_resolution =
  so_scope :: knowledge_scope
  so_confidence :: rat
  so_reasonCodes :: "string list"
  so_signals :: "string list"

datatype resolver_error =
  InvalidField string | PROJECT_ID_REQUIRED | CANDIDATE_PROJECT_CONFLICT | CANDIDATE_REMOTE_CONFLICT
| PROJECT_TERMS_INVALID

definition PROJECT_ASSERTIONS :: "assertion_kind list" where
  "PROJECT_ASSERTIONS = [SYMBOL_EXISTS, CALL_PATH_EXISTS, IMPACT_CONTAINS, FILE_CONTAINS, DEPENDENCY_PRESENT,
     CONFIG_EQUALS, COMMAND_SUCCEEDED, TEST_PASSED]"

definition PROJECT_EVIDENCE :: "evidence_type list" where
  "PROJECT_EVIDENCE = [CODE_SYMBOL, CODE_RELATION, CODE_IMPACT, FILE_CONTENT, DEPENDENCY, CONFIGURATION,
     COMMAND_RESULT, TEST_RESULT]"

section \<open>Characters\<close>

text \<open>\<open>\p{L}\<close> and \<open>\p{N}\<close> on Latin-1.\<close>

definition latin_letter :: "char \<Rightarrow> bool" where
  "latin_letter c \<longleftrightarrow> ascii_upper c \<or> ascii_lower c \<or> code_of c \<in> {170, 181, 186}
     \<or> (192 \<le> code_of c \<and> code_of c \<noteq> 215 \<and> code_of c \<noteq> 247)"

definition latin_number :: "char \<Rightarrow> bool" where
  "latin_number c \<longleftrightarrow> ascii_digit c \<or> code_of c \<in> {178, 179, 185, 188, 189, 190}"

text \<open>\<open>toLocaleLowerCase("en-US")\<close> on Latin-1.\<close>

definition lower_char :: "char \<Rightarrow> char" where
  "lower_char c = (if ascii_upper c \<or> (192 \<le> code_of c \<and> code_of c \<le> 222 \<and> code_of c \<noteq> 215)
     then char_of (code_of c + 32) else c)"

definition lower_case :: "string \<Rightarrow> string" where
  "lower_case s = map lower_char s"

text \<open>\<open>/^[\p{L}_$][\p{L}\p{N}_$.:#-]{0,499}$/u\<close>.\<close>

definition symbol_head :: "char \<Rightarrow> bool" where
  "symbol_head c \<longleftrightarrow> latin_letter c \<or> c \<in> set ''_$''"

definition symbol_tail :: "char \<Rightarrow> bool" where
  "symbol_tail c \<longleftrightarrow> latin_letter c \<or> latin_number c \<or> c \<in> set ''_$.:#-''"

definition SAFE_SYMBOL :: "string \<Rightarrow> bool" where
  "SAFE_SYMBOL s = head_tail symbol_head symbol_tail 499 s"

text \<open>
  \<open>PATH_SIGNAL\<close>: at the start of the text, or after white space or one of the delimiters, a relative or
  absolute path; letters match in either case.
\<close>

definition path_prefixes :: "string list" where
  "path_prefixes = [''./'', ''src/'', ''packages/'', ''apps/'', ''module/'', ''modules/'', ''lib/'', ''test/'']"

definition path_here :: "string \<Rightarrow> bool" where
  "path_here s \<longleftrightarrow> list_ex (\<lambda>p. starts_with p (lower_case s)) path_prefixes
     \<or> (case s of a # b # c # _ \<Rightarrow> (ascii_upper a \<or> ascii_lower a) \<and> b = CHR '':'' \<and> code_of c = 92 | _ \<Rightarrow> False)
     \<or> (case s of a # b # _ \<Rightarrow> a = CHR ''/'' \<and> \<not> js_space b | _ \<Rightarrow> False)"

definition path_delimiter :: "char \<Rightarrow> bool" where
  "path_delimiter c \<longleftrightarrow> js_space c \<or> code_of c \<in> {96, 39, 34, 40}"

fun path_after_delimiter :: "string \<Rightarrow> bool" where
  "path_after_delimiter [] = False"
| "path_after_delimiter (c # cs) \<longleftrightarrow> path_delimiter c \<and> path_here cs \<or> path_after_delimiter cs"

definition PATH_SIGNAL :: "string \<Rightarrow> bool" where
  "PATH_SIGNAL s \<longleftrightarrow> path_here s \<or> path_after_delimiter s"

section \<open>Inputs\<close>

definition assertText :: "string option \<Rightarrow> string \<Rightarrow> resolver_error + unit" where
  "assertText value field = (case value of
     None \<Rightarrow> Inr ()
   | Some s \<Rightarrow> ensure (\<not> (\<not> has_text s \<or> length s > 500 \<or> \<not> plain_text s)) (InvalidField field))"

text \<open>A hint that is given and differs from the context's value.\<close>

definition hint_conflicts :: "'a option \<Rightarrow> 'a option \<Rightarrow> bool" where
  "hint_conflicts hint actual \<longleftrightarrow> hint \<noteq> None \<and> hint \<noteq> actual"

definition assertProject :: "knowledge_candidate \<Rightarrow> project_context \<Rightarrow> resolver_error + unit" where
  "assertProject c p =
     and_then (assertText (Some (pc_projectId p)) ''projectId'') (\<lambda>_.
     and_then (ensure (has_text (pc_projectId p)) PROJECT_ID_REQUIRED) (\<lambda>_.
     and_then (assertText (pc_repositoryRemote p) ''repositoryRemote'') (\<lambda>_.
     and_then (assertText (pc_branch p) ''branch'') (\<lambda>_.
     and_then (ensure (\<not> hint_conflicts (sh_projectId (kc_scopeHint c)) (Some (pc_projectId p))) CANDIDATE_PROJECT_CONFLICT) (\<lambda>_.
     ensure (\<not> hint_conflicts (sh_repositoryRemote (kc_scopeHint c)) (pc_repositoryRemote p)) CANDIDATE_REMOTE_CONFLICT)))))"

text \<open>The project id and symbol of each assertion about symbols.\<close>

definition symbol_assertions :: "knowledge_candidate \<Rightarrow> (string \<times> string) list" where
  "symbol_assertions c = concat (map (\<lambda>a. case ka_body a of
       SymbolExists p s _ \<Rightarrow> [(p, s)]
     | CallPathExists p f t _ \<Rightarrow> [(p, f), (p, t)]
     | ImpactContains p s t \<Rightarrow> [(p, s), (p, t)]
     | _ \<Rightarrow> []) (kc_assertions c))"

definition or_none :: "'a list option \<Rightarrow> 'a list" where
  "or_none v = (case v of None \<Rightarrow> [] | Some xs \<Rightarrow> xs)"

definition symbol_values :: "knowledge_candidate \<Rightarrow> string list" where
  "symbol_values c = or_none (sh_symbols (kc_scopeHint c)) @ map snd (symbol_assertions c)"

text \<open>The symbols, whether one is invalid, and whether an assertion is of another project.\<close>

definition symbolInputs :: "knowledge_candidate \<Rightarrow> project_context \<Rightarrow> string list \<times> bool \<times> bool" where
  "symbolInputs c p = (let values = symbol_values c; normalized = map js_trim values in
     (uniq (filter SAFE_SYMBOL normalized),
      (sh_level (kc_scopeHint c) = Some SYMBOL \<and> values = []) \<or> list_ex (\<lambda>s. \<not> SAFE_SYMBOL s) normalized,
      list_ex (\<lambda>a. fst a \<noteq> pc_projectId p) (symbol_assertions c)))"

definition to_slashes :: "string \<Rightarrow> string" where
  "to_slashes s = map (\<lambda>c. if code_of c = 92 then CHR ''/'' else c) s"

definition drive_path :: "string \<Rightarrow> bool" where
  "drive_path s = (case s of a # b # c # _ \<Rightarrow> (ascii_upper a \<or> ascii_lower a) \<and> b = CHR '':'' \<and> c = CHR ''/'' | _ \<Rightarrow> False)"

definition module_safe :: "string \<Rightarrow> bool" where
  "module_safe s \<longleftrightarrow> length s > 0 \<and> length s \<le> 1000 \<and> \<not> starts_with ''/'' s \<and> \<not> drive_path s
     \<and> \<not> list_ex (\<lambda>part. part = ''..'' \<or> part = []) (split_on (CHR ''/'') s)"

definition moduleInputs :: "knowledge_candidate \<Rightarrow> string list \<times> bool" where
  "moduleInputs c = (let values = or_none (sh_modulePaths (kc_scopeHint c)); normalized = map (\<lambda>s. to_slashes (js_trim s)) values in
     (uniq (filter module_safe normalized),
      (sh_level (kc_scopeHint c) = Some MODULE \<and> values = []) \<or> list_ex (\<lambda>s. \<not> module_safe s) normalized))"

section \<open>Project signals\<close>

text \<open>\<open>value.replace(/\.git$/i, "")\<close>, and the last non-empty path segment.\<close>

definition strip_git :: "string \<Rightarrow> string" where
  "strip_git s = (if ends_with ''.git'' (lower_case s) then take (length s - 4) s else s)"

definition last_segment :: "string \<Rightarrow> string" where
  "last_segment s = (case rev (filter (\<lambda>p. p \<noteq> []) (split_on (CHR ''/'') (to_slashes s))) of [] \<Rightarrow> [] | x # _ \<Rightarrow> x)"

definition derivedProjectTerms :: "project_context \<Rightarrow> string list" where
  "derivedProjectTerms p =
    (let values = (case pc_repositoryRemote p of None \<Rightarrow> [] | Some r \<Rightarrow> [r])
                @ (case pc_repositoryRoot p of None \<Rightarrow> [] | Some r \<Rightarrow> [r]) in
     uniq (filter (\<lambda>v. length v \<ge> 3 \<and> length v \<le> 200) (map (\<lambda>v. js_trim (strip_git (last_segment v))) values)))"

definition candidate_text :: "knowledge_candidate \<Rightarrow> string" where
  "candidate_text c = kc_subjectKey c @ [char_of (10 :: nat)] @ kc_title c @ [char_of (10 :: nat)]
     @ kc_summary c @ [char_of (10 :: nat)] @ kc_body c"

definition names_project :: "string \<Rightarrow> string \<Rightarrow> bool" where
  "names_project content term_text = contains_text (lower_case (js_trim term_text)) (lower_case content)"

definition signal_set :: "resolution_input \<Rightarrow> string list \<Rightarrow> string list \<Rightarrow> string list" where
  "signal_set i symbols modules = (let c = ci_candidate i in
     add_when (list_ex (names_project (candidate_text c))
        (derivedProjectTerms (ci_projectContext i) @ or_none (ci_projectTerms i))) ''PROJECT_TERM''
    (add_when (PATH_SIGNAL (candidate_text c)) ''PATH_REFERENCE''
    (add_when (list_ex (\<lambda>h. eh_type h \<in> set PROJECT_EVIDENCE) (kc_evidenceHints c)) ''PROJECT_EVIDENCE''
    (add_when (list_ex (\<lambda>a. ka_kind a \<in> set PROJECT_ASSERTIONS) (kc_assertions c)) ''PROJECT_ASSERTION''
    (add_when (kc_kind c = IMPLEMENTATION) ''IMPLEMENTATION_KIND''
    (add_when (modules \<noteq> []) ''MODULE_PATH''
    (add_when (symbols \<noteq> []) ''SYMBOL_REFERENCE'' [])))))))"

definition term_ok :: "string \<Rightarrow> bool" where
  "term_ok t \<longleftrightarrow> \<not> (length (js_trim t) < 3 \<or> length (js_trim t) > 200)"

definition projectSpecificSignals ::
  "resolution_input \<Rightarrow> string list \<Rightarrow> string list \<Rightarrow> resolver_error + string list" where
  "projectSpecificSignals i symbols modules =
     and_then (ensure (list_all term_ok (or_none (ci_projectTerms i))) PROJECT_TERMS_INVALID)
       (\<lambda>_. Inr (sort (signal_set i symbols modules)))"

section \<open>resolveKnowledgeScope\<close>

definition scope_result :: "knowledge_scope \<Rightarrow> rat \<Rightarrow> string list \<Rightarrow> string list \<Rightarrow> scope_resolution" where
  "scope_result scope confidence reasons signals =
     \<lparr>so_scope = scope, so_confidence = confidence, so_reasonCodes = reasons, so_signals = signals\<rparr>"

definition projectFallback :: "project_context \<Rightarrow> string \<Rightarrow> string list \<Rightarrow> scope_resolution" where
  "projectFallback p reason signals =
     scope_result (ProjectScope (pc_projectId p) (pc_repositoryRemote p)) (7 / 10) [reason, ''SAFE_PROJECT_FALLBACK''] signals"

text \<open>The last part: the levels above the project, and the project itself.\<close>

definition resolve_upward :: "resolution_input \<Rightarrow> string list \<Rightarrow> scope_resolution" where
  "resolve_upward i signals = (let hint = kc_scopeHint (ci_candidate i); p = ci_projectContext i in
     case sh_level hint of
       Some USER \<Rightarrow>
         (if signals \<noteq> [] then projectFallback p ''USER_SCOPE_REJECTED_PROJECT_SPECIFIC'' signals
          else (case ci_userId i of
             Some u \<Rightarrow> (if sh_userId hint = Some u
                then scope_result (UserScope u) (9 / 10) [''TRUSTED_USER_ID'', ''EXPLICIT_UPWARD_SCOPE''] signals
                else projectFallback p ''UNTRUSTED_USER_HINT'' signals)
           | None \<Rightarrow> projectFallback p ''UNTRUSTED_USER_HINT'' signals))
     | Some TEAM \<Rightarrow>
         (if signals \<noteq> [] then projectFallback p ''TEAM_SCOPE_REJECTED_PROJECT_SPECIFIC'' signals
          else (case ci_teamId i of
             Some t \<Rightarrow> (if sh_teamId hint = Some t
                then scope_result (TeamScope t) (9 / 10) [''TRUSTED_TEAM_ID'', ''EXPLICIT_UPWARD_SCOPE''] signals
                else projectFallback p ''UNTRUSTED_TEAM_HINT'' signals)
           | None \<Rightarrow> projectFallback p ''UNTRUSTED_TEAM_HINT'' signals))
     | Some GLOBAL \<Rightarrow>
         (if signals \<noteq> [] then projectFallback p ''GLOBAL_REJECTED_PROJECT_SPECIFIC'' signals
          else if ci_allowGlobal i = Some True
          then scope_result GlobalScope (85 / 100) [''TRUSTED_GLOBAL_AUTHORIZATION''] signals
          else projectFallback p ''GLOBAL_REQUIRES_POLICY_AUTHORIZATION'' signals)
     | level \<Rightarrow>
         scope_result (ProjectScope (pc_projectId p) (pc_repositoryRemote p))
           (if level = Some PROJECT then 9 / 10 else 8 / 10)
           [if level = Some PROJECT then ''EXPLICIT_PROJECT_SCOPE'' else ''UNCERTAIN_SCOPE_DEFAULT_PROJECT''] signals)"

definition resolve_task :: "resolution_input \<Rightarrow> string list \<Rightarrow> scope_resolution" where
  "resolve_task i signals = (let hint = kc_scopeHint (ci_candidate i); p = ci_projectContext i in
     case ci_taskId i of
       Some t \<Rightarrow> (if sh_taskId hint = None \<or> sh_taskId hint = Some t
          then scope_result (TaskScope t (Some (pc_projectId p)) (pc_repositoryRemote p)) 1
                 [''TRUSTED_TASK_ID'', ''MINIMUM_PROVABLE_SCOPE''] signals
          else projectFallback p ''UNTRUSTED_TASK_HINT'' signals)
     | None \<Rightarrow> projectFallback p ''UNTRUSTED_TASK_HINT'' signals)"

definition resolve_with :: "resolution_input \<Rightarrow> string list \<times> bool \<times> bool \<Rightarrow> string list \<times> bool \<Rightarrow> string list
    \<Rightarrow> scope_resolution" where
  "resolve_with i symbolResolution moduleResolution signals =
    (let hint = kc_scopeHint (ci_candidate i); p = ci_projectContext i;
         (symbols, invalid, conflict) = symbolResolution; (modules, badModules) = moduleResolution in
     if sh_level hint = Some TASK \<or> sh_taskId hint \<noteq> None then resolve_task i signals
     else if conflict then projectFallback p ''SYMBOL_ASSERTION_PROJECT_CONFLICT'' signals
     else if invalid then projectFallback p ''INVALID_SYMBOL_HINT'' signals
     else if symbols \<noteq> [] then
       scope_result (SymbolScope symbols (pc_projectId p) (pc_repositoryRemote p)) (95 / 100)
         [''VALIDATED_SYMBOLS'', ''MINIMUM_PROVABLE_SCOPE''] signals
     else if badModules then projectFallback p ''INVALID_MODULE_HINT'' signals
     else if modules \<noteq> [] then
       scope_result (ModuleScope modules (pc_projectId p) (pc_repositoryRemote p)) (9 / 10)
         [''VALIDATED_MODULE_PATHS'', ''MINIMUM_PROVABLE_SCOPE''] signals
     else resolve_upward i signals)"

definition resolveKnowledgeScope :: "resolution_input \<Rightarrow> resolver_error + scope_resolution" where
  "resolveKnowledgeScope i =
     and_then (assertProject (ci_candidate i) (ci_projectContext i)) (\<lambda>_.
     and_then (assertText (ci_taskId i) ''taskId'') (\<lambda>_.
     and_then (assertText (ci_userId i) ''userId'') (\<lambda>_.
     and_then (assertText (ci_teamId i) ''teamId'') (\<lambda>_.
     let symbolResolution = symbolInputs (ci_candidate i) (ci_projectContext i);
         moduleResolution = moduleInputs (ci_candidate i) in
     and_then (projectSpecificSignals i (fst symbolResolution) (fst moduleResolution)) (\<lambda>signals.
     Inr (resolve_with i symbolResolution moduleResolution signals))))))"

end
