(* ===== verification/ScopeProps.thy ===== *)
theory ScopeProps
  imports ScopeResolver
begin

text \<open>What a resolved scope rests on.\<close>

section \<open>Texts\<close>

lemma trimmed_has_char: "js_trim s \<noteq> [] \<Longrightarrow> \<exists>c \<in> set (js_trim s). \<not> js_space c"
proof -
  assume ne: "js_trim s \<noteq> []"
  let ?x = "dropWhile js_space (rev (dropWhile js_space s))"
  have "?x \<noteq> []" using ne by (simp add: js_trim_def)
  then have "\<not> js_space (hd ?x)" "hd ?x \<in> set ?x" using hd_dropWhile[of js_space] by (blast, simp)
  then show ?thesis unfolding js_trim_def by (metis set_rev)
qed

lemma has_text_iff: "has_text s \<longleftrightarrow> (\<exists>c \<in> set s. \<not> js_space c)"
proof -
  have "has_text s \<longleftrightarrow> \<not> (\<forall>c \<in> set (dropWhile js_space s). js_space c)"
    by (simp only: has_text_def js_trim_def rev_is_Nil_conv dropWhile_eq_Nil_conv set_rev)
  also have "\<dots> \<longleftrightarrow> dropWhile js_space s \<noteq> []"
    using hd_dropWhile[of js_space s] by (cases "dropWhile js_space s") (auto dest: set_dropWhileD)
  finally show ?thesis by (simp add: dropWhile_eq_Nil_conv)
qed

lemma symbol_head_text: "symbol_head c \<Longrightarrow> \<not> js_space c"
  by (auto simp: symbol_head_def latin_letter_def ascii_upper_def ascii_lower_def js_space_def)

lemma safe_symbol_text: "SAFE_SYMBOL s \<Longrightarrow> has_text s"
  by (auto simp: SAFE_SYMBOL_def head_tail_def has_text_iff symbol_head_text split: list.splits)

lemma slashes_text: "to_slashes (js_trim v) \<noteq> [] \<Longrightarrow> has_text (to_slashes (js_trim v))"
proof -
  assume "to_slashes (js_trim v) \<noteq> []"
  then obtain c where c: "c \<in> set (js_trim v)" "\<not> js_space c" using trimmed_has_char by (auto simp: to_slashes_def)
  have "\<not> js_space (if code_of c = 92 then CHR ''/'' else c)" using c(2) by (simp add: js_space_def)
  moreover have "(if code_of c = 92 then CHR ''/'' else c) \<in> set (to_slashes (js_trim v))"
    unfolding to_slashes_def set_map using c(1) by (rule imageI[of c _ "\<lambda>c. if code_of c = 92 then CHR ''/'' else c"])
  ultimately show ?thesis unfolding has_text_iff by blast
qed

section \<open>Inputs and signals\<close>

lemma assertText_Inr: "assertText v f = Inr u \<longleftrightarrow> (case v of None \<Rightarrow> True | Some s \<Rightarrow> valid_text 500 s)"
  by (auto simp: assertText_def valid_text_def split: option.splits)

lemma assertProject_text: "assertProject c p = Inr u \<Longrightarrow> has_text (pc_projectId p)"
  by (auto simp: assertProject_def)

lemma sort_Nil_iff: "sort (xs :: string list) = [] \<longleftrightarrow> xs = []"
  by (metis set_empty set_sort)

lemma signal_set_Nil:
  "signal_set i symbols modules = [] \<longleftrightarrow> symbols = [] \<and> modules = [] \<and> kc_kind (ci_candidate i) \<noteq> IMPLEMENTATION
     \<and> \<not> list_ex (\<lambda>a. ka_kind a \<in> set PROJECT_ASSERTIONS) (kc_assertions (ci_candidate i))
     \<and> \<not> list_ex (\<lambda>h. eh_type h \<in> set PROJECT_EVIDENCE) (kc_evidenceHints (ci_candidate i))
     \<and> \<not> PATH_SIGNAL (candidate_text (ci_candidate i))
     \<and> \<not> list_ex (names_project (candidate_text (ci_candidate i)))
          (derivedProjectTerms (ci_projectContext i) @ or_none (ci_projectTerms i))"
  by (auto simp: signal_set_def Let_def)

text \<open>Nothing in the candidate ties it to the project.\<close>

definition project_free :: "resolution_input \<Rightarrow> bool" where
  "project_free i \<longleftrightarrow> (let c = ci_candidate i in kc_kind c \<noteq> IMPLEMENTATION
     \<and> \<not> list_ex (\<lambda>a. ka_kind a \<in> set PROJECT_ASSERTIONS) (kc_assertions c)
     \<and> \<not> list_ex (\<lambda>h. eh_type h \<in> set PROJECT_EVIDENCE) (kc_evidenceHints c)
     \<and> \<not> PATH_SIGNAL (candidate_text c)
     \<and> \<not> list_ex (names_project (candidate_text c)) (derivedProjectTerms (ci_projectContext i) @ or_none (ci_projectTerms i)))"

lemma resolve_cases:
  assumes "resolveKnowledgeScope i = Inr res"
  obtains signals where "res = resolve_with i (symbolInputs (ci_candidate i) (ci_projectContext i)) (moduleInputs (ci_candidate i)) signals"
    "signals = [] \<Longrightarrow> project_free i" "has_text (pc_projectId (ci_projectContext i))"
    "\<And>t. ci_taskId i = Some t \<Longrightarrow> has_text t" "\<And>t. ci_userId i = Some t \<Longrightarrow> has_text t" "\<And>t. ci_teamId i = Some t \<Longrightarrow> has_text t"
proof -
  obtain signals where s: "res = resolve_with i (symbolInputs (ci_candidate i) (ci_projectContext i)) (moduleInputs (ci_candidate i)) signals"
    "projectSpecificSignals i (fst (symbolInputs (ci_candidate i) (ci_projectContext i))) (fst (moduleInputs (ci_candidate i))) = Inr signals"
    and ok: "assertProject (ci_candidate i) (ci_projectContext i) = Inr ()" "assertText (ci_taskId i) ''taskId'' = Inr ()"
    "assertText (ci_userId i) ''userId'' = Inr ()" "assertText (ci_teamId i) ''teamId'' = Inr ()"
    using assms by (auto simp: resolveKnowledgeScope_def Let_def)
  have "signals = [] \<Longrightarrow> project_free i"
    using s(2) by (auto simp: projectSpecificSignals_def sort_Nil_iff signal_set_Nil project_free_def Let_def)
  then show thesis
    by (rule that[OF s(1)]) (use ok assertProject_text in \<open>auto simp: assertText_Inr valid_text_def\<close>)
qed

section \<open>The scope\<close>

text \<open>What a scope of each level rests on.\<close>

definition scope_earned :: "resolution_input \<Rightarrow> scope_resolution \<Rightarrow> bool" where
  "scope_earned i res = (let c = ci_candidate i; hint = kc_scopeHint c; p = ci_projectContext i;
       own = (\<lambda>q m. q = pc_projectId p \<and> m = pc_repositoryRemote p) in
     case so_scope res of
       TaskScope t q m \<Rightarrow> ci_taskId i = Some t \<and> q = Some (pc_projectId p) \<and> m = pc_repositoryRemote p
     | SymbolScope ss q m \<Rightarrow> own q m \<and> list_all SAFE_SYMBOL ss \<and> set ss = js_trim ` set (symbol_values c)
         \<and> list_all (\<lambda>a. fst a = pc_projectId p) (symbol_assertions c)
     | ModuleScope ms q m \<Rightarrow> own q m \<and> list_all module_safe ms \<and> symbol_values c = []
     | ProjectScope q m \<Rightarrow> own q m
     | UserScope u \<Rightarrow> ci_userId i = Some u \<and> sh_level hint = Some USER \<and> sh_userId hint = Some u \<and> project_free i
     | TeamScope t \<Rightarrow> ci_teamId i = Some t \<and> sh_level hint = Some TEAM \<and> sh_teamId hint = Some t \<and> project_free i
     | GlobalScope \<Rightarrow> ci_allowGlobal i = Some True \<and> sh_level hint = Some GLOBAL \<and> project_free i)"

lemma fallback_scope [simp]:
  "so_scope (projectFallback p r s) = ProjectScope (pc_projectId p) (pc_repositoryRemote p)"
  "so_scope (scope_result sc q rs s) = sc"
  by (simp_all add: projectFallback_def scope_result_def)

lemma symbol_inputs_facts:
  assumes "symbolInputs c p = (symbols, False, conflict)"
  shows "list_all SAFE_SYMBOL symbols \<and> set symbols = js_trim ` set (symbol_values c)
    \<and> (\<not> conflict \<longrightarrow> list_all (\<lambda>a. fst a = pc_projectId p) (symbol_assertions c))"
  using assms by (auto simp: symbolInputs_def Let_def list_all_iff list_ex_iff)

lemma module_inputs_facts:
  assumes "moduleInputs c = (modules, bad)"
  shows "list_all (\<lambda>m. module_safe m \<and> has_text m) modules"
  using assms slashes_text by (auto simp: moduleInputs_def Let_def list_all_iff module_safe_def)

lemma upward_earned:
  assumes "signals = [] \<Longrightarrow> project_free i" and "has_text (pc_projectId (ci_projectContext i))"
    and "\<And>t. ci_userId i = Some t \<Longrightarrow> has_text t" and "\<And>t. ci_teamId i = Some t \<Longrightarrow> has_text t"
  shows "scope_wf (so_scope (resolve_upward i signals)) \<and> scope_earned i (resolve_upward i signals)"
  using assms by (auto simp: resolve_upward_def scope_earned_def Let_def split: option.splits scope_level.splits)

lemma task_earned:
  assumes "has_text (pc_projectId (ci_projectContext i))" and "\<And>t. ci_taskId i = Some t \<Longrightarrow> has_text t"
  shows "scope_wf (so_scope (resolve_task i signals)) \<and> scope_earned i (resolve_task i signals)"
  using assms by (auto simp: resolve_task_def scope_earned_def Let_def split: option.splits)

lemma resolved_scope_earned:
  assumes "resolveKnowledgeScope i = Inr res"
  shows "scope_wf (so_scope res) \<and> scope_earned i res"
proof -
  obtain signals where r: "res = resolve_with i (symbolInputs (ci_candidate i) (ci_projectContext i)) (moduleInputs (ci_candidate i)) signals"
    and free: "signals = [] \<Longrightarrow> project_free i" and p: "has_text (pc_projectId (ci_projectContext i))"
    and ids: "\<And>t. ci_taskId i = Some t \<Longrightarrow> has_text t" "\<And>t. ci_userId i = Some t \<Longrightarrow> has_text t"
      "\<And>t. ci_teamId i = Some t \<Longrightarrow> has_text t"
    using assms by (rule resolve_cases) blast
  obtain symbols invalid conflict where s: "symbolInputs (ci_candidate i) (ci_projectContext i) = (symbols, invalid, conflict)"
    by (metis prod_cases3)
  obtain modules bad where m: "moduleInputs (ci_candidate i) = (modules, bad)" by fastforce
  note up = upward_earned[OF free p ids(2,3)] and task = task_earned[OF p ids(1)]
  have "scope_wf (so_scope res) \<and> scope_earned i res" if "symbols \<noteq> []" "\<not> invalid" "\<not> conflict"
    "res = scope_result (SymbolScope symbols (pc_projectId (ci_projectContext i)) (pc_repositoryRemote (ci_projectContext i))) q rs signals" for q rs
    using that s symbol_inputs_facts[of "ci_candidate i" "ci_projectContext i" symbols conflict] p safe_symbol_text
    by (auto simp: scope_earned_def Let_def list_all_iff)
  moreover have "scope_wf (so_scope res) \<and> scope_earned i res" if "symbols = []" "\<not> invalid" "modules \<noteq> []"
    "res = scope_result (ModuleScope modules (pc_projectId (ci_projectContext i)) (pc_repositoryRemote (ci_projectContext i))) q rs signals" for q rs
    using that s symbol_inputs_facts[of "ci_candidate i" "ci_projectContext i" symbols conflict] module_inputs_facts[OF m] p
    by (auto simp: scope_earned_def Let_def list_all_iff)
  moreover have "scope_wf (so_scope res) \<and> scope_earned i res" if "res = projectFallback (ci_projectContext i) q signals" for q
    using that p by (simp add: scope_earned_def)
  moreover note up task
  ultimately show ?thesis unfolding r resolve_with_def s m Let_def by (simp split: prod.splits)
qed

text \<open>
  C28: A scope is only resolved from what can be trusted. Whatever is resolved is a well-formed scope; a
  task, user or team scope carries the trusted id of the run, a user, team or global scope was asked for
  by the hint, is of a candidate that nothing ties to the project and, for global, needs the run's
  authorisation; a symbol scope holds exactly the given symbols, all of them safe and of this project; a
  module scope holds safe relative paths; and every project-bound scope is of the run's project.
\<close>
theorem scope_is_proven:
  assumes "resolveKnowledgeScope i = Inr res"
  shows "scope_wf (so_scope res) \<and> scope_earned i res"
  using assms by (rule resolved_scope_earned)

definition scope_input :: "scope_level \<Rightarrow> string list option \<Rightarrow> resolution_input" where
  "scope_input level symbols =
     \<lparr>ci_candidate = \<lparr>kc_candidateId = ''c'', kc_compilerVersion = ''v'', kc_status = PROPOSED, kc_subjectKey = ''a.b.c'',
        kc_kind = RULE,
        kc_scopeHint = \<lparr>sh_level = Some level, sh_taskId = None, sh_projectId = None, sh_repositoryRemote = None,
          sh_modulePaths = None, sh_symbols = symbols, sh_userId = None, sh_teamId = None, sh_reasonCodes = []\<rparr>,
        kc_title = ''T'', kc_summary = ''S'', kc_body = ''B'', kc_sourceEpisodes = [''e''], kc_confidence = 1,
        kc_createdAt = Iso 1, kc_correlationId = ''k'', kc_assertions = [], kc_evidenceHints = [],
        kc_localization = Schema1 None None\<rparr>,
      ci_projectContext = \<lparr>pc_projectId = ''p'', pc_repositoryRoot = None, pc_repositoryRemote = None, pc_branch = None,
        pc_revision = None, pc_portable = False\<rparr>,
      ci_taskId = None, ci_userId = None, ci_teamId = None, ci_allowGlobal = Some True, ci_projectTerms = None\<rparr>"

lemma scope_examples:
  "case resolveKnowledgeScope (scope_input SYMBOL (Some ['' run ''])) of
     Inr res \<Rightarrow> so_scope res = SymbolScope [''run''] ''p'' None | Inl _ \<Rightarrow> False"
  "case resolveKnowledgeScope (scope_input GLOBAL None) of Inr res \<Rightarrow> so_scope res = GlobalScope | Inl _ \<Rightarrow> False"
  by code_simp+

theorem scope_is_proven_witness:
  "(\<exists>res. resolveKnowledgeScope (scope_input SYMBOL (Some ['' run ''])) = Inr res
      \<and> so_scope res = SymbolScope [''run''] ''p'' None \<and> SAFE_SYMBOL ''run'')
   \<and> project_free (scope_input GLOBAL None)"
proof -
  obtain res where r: "resolveKnowledgeScope (scope_input SYMBOL (Some ['' run ''])) = Inr res"
    "so_scope res = SymbolScope [''run''] ''p'' None" using scope_examples(1) by (auto split: sum.splits)
  obtain global where g: "resolveKnowledgeScope (scope_input GLOBAL None) = Inr global" "so_scope global = GlobalScope"
    using scope_examples(2) by (auto split: sum.splits)
  show ?thesis using r g scope_is_proven[OF r(1)] scope_is_proven[OF g(1)] by (auto simp: scope_earned_def Let_def)
qed

end
