(* ===== verification/Evolution.thy ===== *)
theory Evolution
  imports Domain
begin

text \<open>
  How a candidate relates to published knowledge (\<^verbatim>\<open>packages/knowledge-evolution/src/evolution.ts\<close>): the
  deterministic classification, and the optional semantic judge that may resolve what the rules leave
  open. \<open>normalize("NFKC")\<close> with case folding and stripping (\<open>ee_normalized\<close>) and \<open>localeCompare\<close>
  (\<open>ee_collate\<close>) are given; \<open>canonical\<close> texts are compared as the values they render. A decision is
  decided when it carries an action and pending when it carries none.
\<close>

section \<open>Data (types.ts)\<close>

datatype evolution_action = STORE | SUPPLEMENT | SUPERSEDE | CONTRADICT | SCOPE_SPLIT | SKIP

fun action_name :: "evolution_action \<Rightarrow> string" where
  "action_name STORE = ''STORE''"
| "action_name SUPPLEMENT = ''SUPPLEMENT''"
| "action_name SUPERSEDE = ''SUPERSEDE''"
| "action_name CONTRADICT = ''CONTRADICT''"
| "action_name SCOPE_SPLIT = ''SCOPE_SPLIT''"
| "action_name SKIP = ''SKIP''"

definition EVOLUTION_ACTIONS :: "evolution_action list" where
  "EVOLUTION_ACTIONS = [STORE, SUPPLEMENT, SUPERSEDE, CONTRADICT, SCOPE_SPLIT, SKIP]"

text \<open>A target version is an id and a version.\<close>

type_synonym target_version = "string \<times> int"

record evolution_decision =
  ed_candidateId :: string
  ed_action :: "evolution_action option"
  ed_targets :: "target_version list"
  ed_proposedScope :: knowledge_scope
  ed_reasons :: "string list"
  ed_confidence :: rat
  ed_requiresConfirmation :: bool
  ed_semanticReason :: "string option"

record correction_ref =
  cr_candidateId :: string
  cr_relationHint :: string
  cr_originalRef :: string
  cr_correctedRef :: string

record match_input =
  mi_candidate :: knowledge_candidate
  mi_proposedScope :: knowledge_scope
  mi_exactTarget :: "knowledge_asset option"
  mi_retrievedTargets :: "knowledge_asset list"
  mi_correctionRefs :: "correction_ref list option"

record semantic_request =
  sq_candidate :: knowledge_candidate
  sq_proposedScope :: knowledge_scope
  sq_targets :: "knowledge_asset list"
  sq_reasons :: "string list"

text \<open>What a judge answers is not trusted: its action is any text, its confidence may not be finite.\<close>

record semantic_judgment =
  sj_action :: string
  sj_targets :: "target_version list"
  sj_confidence :: "rat option"
  sj_reason :: string

type_synonym semantic_port = "semantic_request \<Rightarrow> unit + semantic_judgment"

record evolution_env =
  ee_normalized :: "string \<Rightarrow> string"
  ee_collate :: "string \<Rightarrow> string \<Rightarrow> int"

datatype evolution_error =
  EVOLUTION_CANDIDATE_INVALID | EVOLUTION_TARGET_LIMIT_EXCEEDED | EVOLUTION_CORRECTION_INVALID
| EVOLUTION_TARGET_INVALID | EVOLUTION_TARGET_COLLISION | EVOLUTION_EXACT_TARGET_MISMATCH

section \<open>Scopes\<close>

fun project_rank :: "scope_level \<Rightarrow> nat option" where
  "project_rank TASK = Some 0"
| "project_rank SYMBOL = Some 1"
| "project_rank MODULE = Some 2"
| "project_rank PROJECT = Some 3"
| "project_rank _ = None"

fun organization_rank :: "scope_level \<Rightarrow> nat option" where
  "organization_rank USER = Some 0"
| "organization_rank TEAM = Some 1"
| "organization_rank _ = None"

definition scopeCanSplit :: "knowledge_scope \<Rightarrow> knowledge_scope \<Rightarrow> bool" where
  "scopeCanSplit proposed existing = (let p = scope_level_of proposed; x = scope_level_of existing in
     if p = x then True
     else if x = GLOBAL then p \<noteq> GLOBAL
     else if p = GLOBAL then False
     else (case (project_rank p, project_rank x) of
        (Some a, Some b) \<Rightarrow> a < b
      | _ \<Rightarrow> (case (organization_rank p, organization_rank x) of (Some a, Some b) \<Rightarrow> a < b | _ \<Rightarrow> False)))"

section \<open>Targets\<close>

definition targetVersion :: "knowledge_asset \<Rightarrow> target_version" where
  "targetVersion a = (as_id a, as_version a)"

text \<open>The loop that fills the Map of targets by id, kept in insertion order.\<close>

fun unique_targets :: "knowledge_asset list \<Rightarrow> knowledge_asset list \<Rightarrow> evolution_error + knowledge_asset list" where
  "unique_targets [] seen = Inr seen"
| "unique_targets (t # ts) seen =
    (if \<not> has_text (as_id t) \<or> \<not> safe_integer (as_version t) \<or> as_version t < 1 then Inl EVOLUTION_TARGET_INVALID
     else (case find (\<lambda>s. as_id s = as_id t) seen of
        None \<Rightarrow> unique_targets ts (seen @ [t])
      | Some s \<Rightarrow> if s \<noteq> t then Inl EVOLUTION_TARGET_COLLISION else unique_targets ts seen))"

definition target_le :: "evolution_env \<Rightarrow> knowledge_asset \<Rightarrow> knowledge_asset \<Rightarrow> bool" where
  "target_le e l r = (let c = ee_collate e (as_id l) (as_id r) in
     (if c \<noteq> 0 then c else as_version l - as_version r) \<le> 0)"

definition stableTargets :: "evolution_env \<Rightarrow> knowledge_asset list \<Rightarrow> evolution_error + knowledge_asset list" where
  "stableTargets e targets = and_then (unique_targets targets []) (\<lambda>unique. Inr (sort_by (target_le e) unique))"

definition supplied_targets :: "match_input \<Rightarrow> knowledge_asset list" where
  "supplied_targets i = (case mi_exactTarget i of None \<Rightarrow> [] | Some x \<Rightarrow> [x]) @ mi_retrievedTargets i"

section \<open>Content\<close>

text \<open>The elements of the Set of normalised symbols.\<close>

definition candidateSymbols :: "evolution_env \<Rightarrow> knowledge_candidate \<Rightarrow> string list" where
  "candidateSymbols e c = uniq (concat (map (\<lambda>a. case ka_body a of
       SymbolExists _ s _ \<Rightarrow> [ee_normalized e s]
     | CallPathExists _ f t _ \<Rightarrow> [ee_normalized e f, ee_normalized e t]
     | ImpactContains _ s t \<Rightarrow> [ee_normalized e s, ee_normalized e t]
     | _ \<Rightarrow> []) (kc_assertions c)))"

definition sameContent :: "evolution_env \<Rightarrow> knowledge_candidate \<Rightarrow> knowledge_asset \<Rightarrow> bool" where
  "sameContent e c t \<longleftrightarrow> ee_normalized e (kc_title c) = ee_normalized e (as_title t)
     \<and> ee_normalized e (kc_summary c) = ee_normalized e (as_summary t)
     \<and> ee_normalized e (kc_body c) = ee_normalized e (as_body t)"

text \<open>\<open>longer.length > shorter.length && longer.includes(shorter)\<close>.\<close>

definition strictly_extends :: "string \<Rightarrow> string \<Rightarrow> bool" where
  "strictly_extends longer shorter \<longleftrightarrow> length longer > length shorter \<and> contains_text shorter longer"

definition supplement :: "evolution_env \<Rightarrow> knowledge_candidate \<Rightarrow> knowledge_asset \<Rightarrow> bool" where
  "supplement e c t \<longleftrightarrow> strictly_extends (ee_normalized e (kc_body c)) (ee_normalized e (as_body t))
     \<or> strictly_extends (ee_normalized e (kc_summary c)) (ee_normalized e (as_summary t))"

definition user_accepted :: "knowledge_candidate \<Rightarrow> bool" where
  "user_accepted c = list_ex (\<lambda>a. ka_kind a = USER_ACCEPTED) (kc_assertions c)"

definition user_rejected :: "knowledge_candidate \<Rightarrow> bool" where
  "user_rejected c = list_ex (\<lambda>a. ka_kind a = USER_REJECTED) (kc_assertions c)"

definition related_target :: "evolution_env \<Rightarrow> knowledge_candidate \<Rightarrow> knowledge_asset \<Rightarrow> bool" where
  "related_target e c t =
    (if kc_kind c \<noteq> as_kind t then False
     else if kc_subjectKey c = as_subjectKey t then True
     else if list_ex (\<lambda>v. ee_normalized e v \<in> {ee_normalized e (kc_subjectKey c), ee_normalized e (kc_title c)})
            (as_subjectKey t # as_title t # as_aliases t) then True
     else list_ex (\<lambda>s. ee_normalized e s \<in> set (candidateSymbols e c)) (as_symbols t))"

section \<open>Decisions\<close>

definition decided :: "match_input \<Rightarrow> evolution_action \<Rightarrow> knowledge_asset list \<Rightarrow> string list \<Rightarrow> rat \<Rightarrow> bool
    \<Rightarrow> string option \<Rightarrow> evolution_decision" where
  "decided i action targets reasons confidence confirm semantic =
     \<lparr>ed_candidateId = kc_candidateId (mi_candidate i), ed_action = Some action,
      ed_targets = map targetVersion targets, ed_proposedScope = mi_proposedScope i,
      ed_reasons = sort (uniq reasons), ed_confidence = confidence, ed_requiresConfirmation = confirm,
      ed_semanticReason = semantic\<rparr>"

definition pending :: "match_input \<Rightarrow> knowledge_asset list \<Rightarrow> string list \<Rightarrow> evolution_decision" where
  "pending i targets reasons =
     \<lparr>ed_candidateId = kc_candidateId (mi_candidate i), ed_action = None,
      ed_targets = map targetVersion targets, ed_proposedScope = mi_proposedScope i,
      ed_reasons = sort (uniq reasons), ed_confidence = 0, ed_requiresConfirmation = True,
      ed_semanticReason = None\<rparr>"

definition correction_ok :: "match_input \<Rightarrow> correction_ref \<Rightarrow> bool" where
  "correction_ok i r \<longleftrightarrow> \<not> (cr_candidateId r \<noteq> kc_candidateId (mi_candidate i) \<or> cr_relationHint r \<noteq> ''CONTRADICTS''
     \<or> \<not> has_text (cr_originalRef r) \<or> \<not> has_text (cr_correctedRef r))"

definition corrections :: "match_input \<Rightarrow> correction_ref list" where
  "corrections i = (case mi_correctionRefs i of None \<Rightarrow> [] | Some rs \<Rightarrow> rs)"

definition exact_matches :: "match_input \<Rightarrow> bool" where
  "exact_matches i = (case mi_exactTarget i of None \<Rightarrow> True
   | Some x \<Rightarrow> \<not> (as_subjectKey x \<noteq> kc_subjectKey (mi_candidate i) \<or> as_kind x \<noteq> kc_kind (mi_candidate i)
       \<or> as_scope x \<noteq> mi_proposedScope i))"

definition validate_match :: "evolution_env \<Rightarrow> match_input \<Rightarrow> evolution_error + knowledge_asset list" where
  "validate_match e i =
    (if \<not> has_text (kc_candidateId (mi_candidate i)) then Inl EVOLUTION_CANDIDATE_INVALID
     else if length (mi_retrievedTargets i) > 5 then Inl EVOLUTION_TARGET_LIMIT_EXCEEDED
     else if list_ex (\<lambda>r. \<not> correction_ok i r) (corrections i) then Inl EVOLUTION_CORRECTION_INVALID
     else and_then (stableTargets e (supplied_targets i)) (\<lambda>targets.
       if \<not> exact_matches i then Inl EVOLUTION_EXACT_TARGET_MISMATCH else Inr targets))"

definition correction_reason :: "match_input \<Rightarrow> string" where
  "correction_reason i = (if corrections i \<noteq> [] then ''TRUSTED_CORRECTION'' else ''USER_REJECTED_TARGET'')"

definition contradicted :: "match_input \<Rightarrow> bool" where
  "contradicted i \<longleftrightarrow> corrections i \<noteq> [] \<or> user_rejected (mi_candidate i)"

definition AUTHORITATIVE_STATUSES :: "knowledge_status list" where
  "AUTHORITATIVE_STATUSES = [IMPLEMENTED, VERIFIED]"

text \<open>The branch of \<open>deterministic\<close> for an exact target, and the one for related targets.\<close>

definition exact_decision :: "evolution_env \<Rightarrow> match_input \<Rightarrow> knowledge_asset \<Rightarrow> evolution_decision" where
  "exact_decision e i x =
    (if sameContent e (mi_candidate i) x then
       decided i SKIP [x] [''EXACT_IDENTITY'', ''NORMALIZED_CONTENT_EQUAL''] 1 False None
     else if contradicted i then
       decided i CONTRADICT [x] [''EXACT_IDENTITY'', correction_reason i] 1 True None
     else if supplement e (mi_candidate i) x then
       (let authoritative = (as_status x = VERIFIED) in
        decided i SUPPLEMENT [x] ([''EXACT_IDENTITY'', ''CONTENT_STRICTLY_EXTENDS'']
          @ (if authoritative then [''AUTHORITATIVE_TARGET''] else [])) (99 / 100) authoritative None)
     else if user_accepted (mi_candidate i) then
       (let authoritative = (as_status x \<in> set AUTHORITATIVE_STATUSES) in
        decided i SUPERSEDE [x] ([''EXACT_IDENTITY'', ''USER_ACCEPTED_REPLACEMENT'']
          @ (if authoritative then [''AUTHORITATIVE_TARGET''] else [])) (98 / 100) authoritative None)
     else pending i [x] [''EXACT_IDENTITY'', ''CONTENT_RELATION_UNRESOLVED''])"

definition related_decision :: "evolution_env \<Rightarrow> match_input \<Rightarrow> knowledge_asset list \<Rightarrow> evolution_decision" where
  "related_decision e i targets =
    (let relatedTargets = filter (related_target e (mi_candidate i)) targets;
         sameScope = filter (\<lambda>t. as_scope t = mi_proposedScope i) relatedTargets;
         duplicates = filter (sameContent e (mi_candidate i)) sameScope;
         otherScopes = filter (\<lambda>t. as_scope t \<noteq> mi_proposedScope i) relatedTargets in
     if relatedTargets = [] then decided i STORE [] [''NO_DETERMINISTIC_TARGET''] 1 False None
     else if duplicates \<noteq> [] then
       decided i SKIP duplicates [''DETERMINISTIC_RELATED_TARGET'', ''NORMALIZED_CONTENT_EQUAL''] (99 / 100) False None
     else if sameScope = [] \<and> otherScopes \<noteq> [] then
       (if list_all (\<lambda>t. scopeCanSplit (mi_proposedScope i) (as_scope t)) otherScopes
        then decided i SCOPE_SPLIT otherScopes [''RELATED_CONTENT_DIFFERENT_SCOPE''] (97 / 100) False None
        else pending i otherScopes [''SCOPE_WIDENING_REQUIRES_CONFIRMATION''])
     else if contradicted i then
       decided i CONTRADICT sameScope [''DETERMINISTIC_RELATED_TARGET'', correction_reason i] (97 / 100) True None
     else pending i relatedTargets [''DETERMINISTIC_RELATED_TARGET'', ''CONTENT_RELATION_UNRESOLVED''])"

definition classifyKnowledgeEvolution :: "evolution_env \<Rightarrow> match_input \<Rightarrow> evolution_error + evolution_decision" where
  "classifyKnowledgeEvolution e i = and_then (validate_match e i) (\<lambda>targets.
     Inr (case mi_exactTarget i of Some x \<Rightarrow> exact_decision e i x | None \<Rightarrow> related_decision e i targets))"

section \<open>The semantic judge\<close>

definition judged_action :: "semantic_judgment \<Rightarrow> evolution_action option" where
  "judged_action j = find (\<lambda>a. action_name a = sj_action j) EVOLUTION_ACTIONS"

definition validSemanticJudgment :: "semantic_judgment \<Rightarrow> target_version list \<Rightarrow> bool" where
  "validSemanticJudgment j targets \<longleftrightarrow>
     judged_action j \<noteq> None \<and> judged_action j \<noteq> Some STORE
   \<and> (case sj_confidence j of None \<Rightarrow> False | Some c \<Rightarrow> 0 \<le> c \<and> c \<le> 1)
   \<and> has_text (sj_reason j) \<and> length (sj_reason j) \<le> 1000 \<and> plain_text (sj_reason j)
   \<and> length (sj_targets j) > 0 \<and> length (sj_targets j) \<le> 5 \<and> distinct (sj_targets j)
   \<and> list_all (\<lambda>t. t \<in> set targets) (sj_targets j)"

definition semantic_confirmation :: "evolution_action \<Rightarrow> knowledge_asset list \<Rightarrow> bool" where
  "semantic_confirmation action chosen \<longleftrightarrow> action = CONTRADICT
     \<or> action = SUPERSEDE \<and> list_ex (\<lambda>t. as_status t \<in> set AUTHORITATIVE_STATUSES) chosen"

definition apply_judgment :: "match_input \<Rightarrow> evolution_decision \<Rightarrow> knowledge_asset list \<Rightarrow> unit + semantic_judgment
    \<Rightarrow> evolution_decision" where
  "apply_judgment i initial supplied answer = (case answer of
     Inl _ \<Rightarrow> pending i supplied (ed_reasons initial @ [''SEMANTIC_ARBITRATION_FAILED''])
   | Inr j \<Rightarrow>
      (if \<not> validSemanticJudgment j (ed_targets initial)
       then pending i supplied (ed_reasons initial @ [''SEMANTIC_JUDGMENT_INVALID''])
       else (case (judged_action j, sj_confidence j) of
          (Some action, Some confidence) \<Rightarrow>
            (let chosen = filter (\<lambda>t. targetVersion t \<in> set (sj_targets j)) supplied in
             decided i action chosen (ed_reasons initial @ [''SEMANTIC_ARBITRATION_APPLIED'']) confidence
               (semantic_confirmation action chosen) (Some (sj_reason j)))
        | _ \<Rightarrow> pending i supplied (ed_reasons initial @ [''SEMANTIC_JUDGMENT_INVALID'']))))"

definition decideKnowledgeEvolution ::
  "evolution_env \<Rightarrow> match_input \<Rightarrow> semantic_port option \<Rightarrow> evolution_error + evolution_decision" where
  "decideKnowledgeEvolution e i semantic = and_then (classifyKnowledgeEvolution e i) (\<lambda>initial.
     case semantic of
       None \<Rightarrow> Inr initial
     | Some arbitrate \<Rightarrow>
        (if ed_action initial \<noteq> None then Inr initial
         else and_then (stableTargets e (supplied_targets i)) (\<lambda>targets.
           let supplied = filter (\<lambda>t. targetVersion t \<in> set (ed_targets initial)) targets in
           Inr (apply_judgment i initial supplied
             (arbitrate \<lparr>sq_candidate = mi_candidate i, sq_proposedScope = mi_proposedScope i,
                sq_targets = supplied, sq_reasons = ed_reasons initial\<rparr>)))))"

end
