(* ===== verification/EvolutionProps.thy ===== *)
theory EvolutionProps
  imports Evolution
begin

text \<open>
  What the evolution decision guarantees: facts about the table of targets and about the shape of a
  classification, then the properties.
\<close>

section \<open>Targets\<close>

lemma unique_targets_facts:
  assumes "unique_targets ts seen = Inr out" and "distinct (map as_id seen)"
  shows "set out = set seen \<union> set ts \<and> distinct (map as_id out)"
  using assms
proof (induction ts arbitrary: seen)
  case (Cons t ts)
  show ?case
  proof (cases "find (\<lambda>s. as_id s = as_id t) seen")
    case None
    then have "as_id t \<notin> as_id ` set seen" by (auto simp: find_None_conv)
    then have "distinct (map as_id (seen @ [t]))" using Cons.prems(2) by auto
    with None Cons.prems(1) Cons.IH[of "seen @ [t]"] show ?thesis by (auto split: if_splits)
  next
    case (Some s)
    with Cons.prems(1) have s: "s = t" "unique_targets ts seen = Inr out" by (auto split: if_splits)
    with Some have "t \<in> set seen" by (auto dest: find_SomeD)
    then show ?thesis using Cons.IH[OF s(2) Cons.prems(2)] by auto
  qed
qed simp

lemma stableTargets_facts:
  assumes "stableTargets e ts = Inr out"
  shows "set out = set ts \<and> distinct (map as_id out)"
  using assms unique_targets_facts[of ts "[]"] by (auto simp: stableTargets_def)

lemma targets_distinct_filter: "distinct (map as_id xs) \<Longrightarrow> distinct (map as_id (filter P xs))"
  by (induction xs) auto

lemma target_version_inj:
  assumes "distinct (map as_id xs)" and "x \<in> set xs" and "y \<in> set xs" and "targetVersion x = targetVersion y"
  shows "x = y"
  using assms by (auto simp: targetVersion_def distinct_map inj_on_def)

lemma target_version_id: "fst \<circ> targetVersion = as_id"
  by (simp add: targetVersion_def fun_eq_iff)

section \<open>Classifications\<close>

lemmas decision_shape = decided_def pending_def

lemma decision_fields:
  "ed_action (decided i a ts rs q b s) = Some a" "ed_requiresConfirmation (decided i a ts rs q b s) = b"
  "ed_targets (decided i a ts rs q b s) = map targetVersion ts" "ed_reasons (decided i a ts rs q b s) = sort (uniq rs)"
  "ed_action (pending i ts rs) = None" "ed_requiresConfirmation (pending i ts rs)"
  "ed_targets (pending i ts rs) = map targetVersion ts" "ed_reasons (pending i ts rs) = sort (uniq rs)"
  by (simp_all add: decision_shape)

lemma sorted_reasons [simp]: "set (sort (uniq rs)) = set rs"
  by simp

text \<open>What every decision of the rules is: its targets are among the supplied ones.\<close>

definition shaped :: "match_input \<Rightarrow> evolution_decision \<Rightarrow> knowledge_asset list \<Rightarrow> bool" where
  "shaped i d chosen \<longleftrightarrow> ed_targets d = map targetVersion chosen \<and> set chosen \<subseteq> set (supplied_targets i)
     \<and> distinct (map as_id chosen) \<and> ed_proposedScope d = mi_proposedScope i
     \<and> ed_candidateId d = kc_candidateId (mi_candidate i)"

lemma exact_decision_facts:
  assumes "mi_exactTarget i = Some x"
  shows "shaped i (exact_decision e i x) [x]"
    and "ed_action (exact_decision e i x) = Some SUPERSEDE
      \<Longrightarrow> ed_requiresConfirmation (exact_decision e i x) \<longleftrightarrow> as_status x \<in> set AUTHORITATIVE_STATUSES"
    and "ed_action (exact_decision e i x) = Some SUPPLEMENT
      \<Longrightarrow> ed_requiresConfirmation (exact_decision e i x) \<longleftrightarrow> as_status x = VERIFIED"
    and "ed_action (exact_decision e i x) \<in> {None, Some CONTRADICT} \<Longrightarrow> ed_requiresConfirmation (exact_decision e i x)"
    and "ed_action (exact_decision e i x) \<noteq> Some STORE" and "ed_action (exact_decision e i x) \<noteq> Some SCOPE_SPLIT"
  using assms by (auto simp: exact_decision_def decision_shape shaped_def supplied_targets_def Let_def split: if_splits)

lemma related_decision_shaped:
  assumes "mi_exactTarget i = None" and "set targets = set (mi_retrievedTargets i)" and "distinct (map as_id targets)"
  shows "\<exists>chosen. shaped i (related_decision e i targets) chosen
    \<and> (ed_action (related_decision e i targets) = Some SCOPE_SPLIT \<longrightarrow>
        list_all (\<lambda>t. scopeCanSplit (mi_proposedScope i) (as_scope t)) chosen)"
proof -
  have s: "shaped i d (filter P targets)" if "ed_targets d = map targetVersion (filter P targets)"
    and "ed_proposedScope d = mi_proposedScope i" and "ed_candidateId d = kc_candidateId (mi_candidate i)" for d P
    using that assms by (auto simp: shaped_def supplied_targets_def targets_distinct_filter)
  have s0: "shaped i d []" if "ed_targets d = []"
    and "ed_proposedScope d = mi_proposedScope i" and "ed_candidateId d = kc_candidateId (mi_candidate i)" for d
    using that by (simp add: shaped_def)
  show ?thesis
    by (simp add: related_decision_def Let_def filter_filter)
      (intro conjI impI; (rule exI, rule conjI, rule s s0; simp add: decision_shape filter_filter))
qed

lemma related_decision_facts:
  shows "ed_action (related_decision e i targets) = Some STORE \<longleftrightarrow> \<not> list_ex (related_target e (mi_candidate i)) targets"
    and "ed_action (related_decision e i targets) \<in> {None, Some CONTRADICT}
      \<Longrightarrow> ed_requiresConfirmation (related_decision e i targets)"
    and "ed_action (related_decision e i targets) \<notin> {Some SUPERSEDE, Some SUPPLEMENT}"
  by (auto simp: related_decision_def Let_def decision_shape filter_empty_conv list_ex_iff split: if_splits)

lemma classify_cases:
  assumes "classifyKnowledgeEvolution e i = Inr d"
  obtains (Exact) x where "mi_exactTarget i = Some x" "d = exact_decision e i x" "as_scope x = mi_proposedScope i"
  | (Related) targets where "mi_exactTarget i = None" "d = related_decision e i targets"
      "set targets = set (mi_retrievedTargets i)" "distinct (map as_id targets)"
proof -
  obtain targets where t: "validate_match e i = Inr targets"
    "d = (case mi_exactTarget i of Some x \<Rightarrow> exact_decision e i x | None \<Rightarrow> related_decision e i targets)"
    using assms by (auto simp: classifyKnowledgeEvolution_def)
  then have st: "stableTargets e (supplied_targets i) = Inr targets" "exact_matches i"
    by (auto simp: validate_match_def split: if_splits)
  show thesis
  proof (cases "mi_exactTarget i")
    case None
    then show thesis using Related[OF None] t stableTargets_facts[OF st(1)] by (simp add: supplied_targets_def)
  next
    case (Some x)
    then show thesis using Exact[OF Some] t(2) st(2) by (simp add: exact_matches_def)
  qed
qed

lemma classify_shaped:
  assumes "classifyKnowledgeEvolution e i = Inr d"
  obtains chosen where "shaped i d chosen"
    "ed_action d = Some SCOPE_SPLIT \<Longrightarrow> list_all (\<lambda>t. scopeCanSplit (mi_proposedScope i) (as_scope t)) chosen"
    "ed_action d = Some SUPERSEDE \<Longrightarrow> list_ex (\<lambda>t. as_status t \<in> set AUTHORITATIVE_STATUSES) chosen \<Longrightarrow> ed_requiresConfirmation d"
  using assms
proof (cases rule: classify_cases)
  case (Exact x)
  then show thesis using that[of "[x]"] exact_decision_facts[OF Exact(1), of e] by auto
next
  case (Related targets)
  then show thesis using that related_decision_shaped[OF Related(1,3,4), of e] related_decision_facts(3)[of e i targets] by auto
qed

text \<open>The two ways a decision is reached.\<close>

lemma decide_cases:
  assumes "decideKnowledgeEvolution e i semantic = Inr d"
  obtains (Rules) "classifyKnowledgeEvolution e i = Inr d" "semantic = None \<or> ed_action d \<noteq> None"
  | (Judge) initial arbitrate targets supplied where "classifyKnowledgeEvolution e i = Inr initial"
      "ed_action initial = None" "semantic = Some arbitrate" "stableTargets e (supplied_targets i) = Inr targets"
      "supplied = filter (\<lambda>t. targetVersion t \<in> set (ed_targets initial)) targets"
      "d = apply_judgment i initial supplied (arbitrate \<lparr>sq_candidate = mi_candidate i,
         sq_proposedScope = mi_proposedScope i, sq_targets = supplied, sq_reasons = ed_reasons initial\<rparr>)"
proof -
  obtain initial where c: "classifyKnowledgeEvolution e i = Inr initial"
    using assms by (auto simp: decideKnowledgeEvolution_def)
  show thesis
  proof (cases "semantic = None \<or> ed_action initial \<noteq> None")
    case True
    then have "d = initial" using assms c by (auto simp: decideKnowledgeEvolution_def split: option.splits)
    then show thesis using Rules c True by simp
  next
    case False
    then obtain arbitrate where a: "semantic = Some arbitrate" "ed_action initial = None" by auto
    then show thesis using assms c by (auto simp: decideKnowledgeEvolution_def Let_def intro: Judge[OF c])
  qed
qed

lemma apply_judgment_cases:
  obtains (Refused) rs where "apply_judgment i initial supplied answer = pending i supplied rs"
      "\<not> (\<exists>j. answer = Inr j \<and> validSemanticJudgment j (ed_targets initial))"
  | (Accepted) j a q where "answer = Inr j" "validSemanticJudgment j (ed_targets initial)"
      "judged_action j = Some a" "a \<noteq> STORE"
      "apply_judgment i initial supplied answer
        = decided i a (filter (\<lambda>t. targetVersion t \<in> set (sj_targets j)) supplied)
            (ed_reasons initial @ [''SEMANTIC_ARBITRATION_APPLIED'']) q
            (semantic_confirmation a (filter (\<lambda>t. targetVersion t \<in> set (sj_targets j)) supplied)) (Some (sj_reason j))"
proof (cases answer)
  case (Inl u)
  then show thesis by (intro Refused) (simp_all add: apply_judgment_def)
next
  case (Inr j)
  show thesis
  proof (cases "validSemanticJudgment j (ed_targets initial)")
    case False
    then show thesis using Inr by (intro Refused) (simp_all add: apply_judgment_def)
  next
    case True
    then obtain a q where v: "judged_action j = Some a" "a \<noteq> STORE" "sj_confidence j = Some q"
      by (auto simp: validSemanticJudgment_def split: option.splits)
    then show thesis using True Inr by (intro Accepted[of j a q]) (simp_all add: apply_judgment_def Let_def)
  qed
qed

lemma apply_judgment_shaped:
  assumes "distinct (map as_id supplied)" and "set supplied \<subseteq> set (supplied_targets i)"
  shows "\<exists>chosen. shaped i (apply_judgment i initial supplied answer) chosen
    \<and> (ed_action (apply_judgment i initial supplied answer) = Some SUPERSEDE
        \<longrightarrow> list_ex (\<lambda>t. as_status t \<in> set AUTHORITATIVE_STATUSES) chosen
        \<longrightarrow> ed_requiresConfirmation (apply_judgment i initial supplied answer))"
proof (cases rule: apply_judgment_cases[of i initial supplied answer])
  case (Refused rs)
  have "shaped i (pending i supplied rs) supplied" using assms by (simp add: shaped_def pending_def)
  then show ?thesis using Refused(1) by (auto simp: decision_fields)
next
  case (Accepted j a q)
  let ?c = "filter (\<lambda>t. targetVersion t \<in> set (sj_targets j)) supplied"
  have "shaped i (decided i a ?c rs q b s) ?c" for rs b s
    using assms by (auto simp: shaped_def decided_def targets_distinct_filter)
  then show ?thesis unfolding Accepted(5) by (intro exI[of _ ?c]) (simp add: decision_fields semantic_confirmation_def)
qed

lemma apply_judgment_action:
  "ed_action (apply_judgment i initial supplied answer) \<in> {None, Some CONTRADICT}
    \<Longrightarrow> ed_requiresConfirmation (apply_judgment i initial supplied answer)"
  "ed_action (apply_judgment i initial supplied answer) \<noteq> Some STORE"
  by (cases rule: apply_judgment_cases[of i initial supplied answer];
    simp add: decision_fields semantic_confirmation_def)+

lemma decide_judged:
  assumes "classifyKnowledgeEvolution e i = Inr initial" and "ed_action initial = None"
  obtains supplied where "decideKnowledgeEvolution e i (Some arbitrate) = Inr (apply_judgment i initial supplied
      (arbitrate \<lparr>sq_candidate = mi_candidate i, sq_proposedScope = mi_proposedScope i,
        sq_targets = supplied, sq_reasons = ed_reasons initial\<rparr>))"
    "distinct (map as_id supplied)" "set supplied \<subseteq> set (supplied_targets i)"
proof -
  obtain targets where t: "stableTargets e (supplied_targets i) = Inr targets"
    using assms(1) by (auto simp: classifyKnowledgeEvolution_def validate_match_def split: if_splits)
  let ?s = "filter (\<lambda>t. targetVersion t \<in> set (ed_targets initial)) targets"
  show thesis
    by (rule that[of ?s]) (use t assms stableTargets_facts[OF t] in
      \<open>auto simp: decideKnowledgeEvolution_def Let_def targets_distinct_filter\<close>)
qed

lemma decide_shaped:
  assumes "decideKnowledgeEvolution e i semantic = Inr d"
  obtains chosen where "shaped i d chosen"
    "ed_action d = Some SUPERSEDE \<Longrightarrow> list_ex (\<lambda>t. as_status t \<in> set AUTHORITATIVE_STATUSES) chosen \<Longrightarrow> ed_requiresConfirmation d"
  using assms
proof (cases rule: decide_cases)
  case Rules
  then show thesis using that by (auto elim: classify_shaped)
next
  case (Judge initial arbitrate targets supplied)
  have "distinct (map as_id supplied)" "set supplied \<subseteq> set (supplied_targets i)"
    using stableTargets_facts[OF Judge(4)] Judge(5) by (auto simp: targets_distinct_filter)
  then show thesis using apply_judgment_shaped that Judge(6) by blast
qed

lemma decide_action:
  assumes "decideKnowledgeEvolution e i semantic = Inr d"
  shows "ed_action d \<in> {None, Some CONTRADICT} \<Longrightarrow> ed_requiresConfirmation d"
    and "ed_action d = Some STORE \<Longrightarrow> classifyKnowledgeEvolution e i = Inr d"
proof -
  show "ed_requiresConfirmation d" if "ed_action d \<in> {None, Some CONTRADICT}"
    using assms
  proof (cases rule: decide_cases)
    case Rules
    from Rules(1) show ?thesis
    proof (cases rule: classify_cases)
      case (Exact x) then show ?thesis using that exact_decision_facts(4) by metis
    next
      case (Related ts) then show ?thesis using that related_decision_facts(2) by metis
    qed
  next
    case Judge then show ?thesis using that apply_judgment_action(1) by metis
  qed
  show "classifyKnowledgeEvolution e i = Inr d" if "ed_action d = Some STORE"
    using assms by (cases rule: decide_cases) (use that apply_judgment_action(2) in metis)+
qed

lemma store_unrelated:
  assumes "classifyKnowledgeEvolution e i = Inr d" and "ed_action d = Some STORE"
  shows "mi_exactTarget i = None \<and> \<not> list_ex (related_target e (mi_candidate i)) (mi_retrievedTargets i)"
  using assms(1)
proof (cases rule: classify_cases)
  case (Exact x)
  then show ?thesis using exact_decision_facts(5)[OF Exact(1), of e] assms(2) by simp
next
  case (Related targets)
  then show ?thesis using related_decision_facts(1)[of e i targets] assms(2) by (simp add: list_ex_iff)
qed

section \<open>An example\<close>

definition ev_env :: evolution_env where
  "ev_env = \<lparr>ee_normalized = (\<lambda>s. s), ee_collate = (\<lambda>l r. if l = r then 0 else if l < r then -1 else 1)\<rparr>"

definition ev_asset :: "knowledge_scope \<Rightarrow> knowledge_status \<Rightarrow> knowledge_asset" where
  "ev_asset scope status =
     \<lparr>as_schemaVersion = 1, as_id = ''a1'', as_subjectKey = ''api.users.list'', as_kind = FACT, as_scope = scope,
      as_version = 2, as_status = status, as_title = ''Users'', as_summary = ''Sorted.'', as_body = ''old'', as_aliases = [],
      as_keywords = [], as_applicability = [], as_nonApplicability = [], as_symbols = [], as_relations = [],
      as_evidence = [], as_confidence = 1, as_sourceEpisodes = [''e0''], as_contentHash = [], as_codeFingerprint = None,
      as_correlationId = ''k'', as_createdAt = Iso 0, as_updatedAt = Iso 0, as_claimMode = None, as_locator = None\<rparr>"

definition ev_candidate :: knowledge_candidate where
  "ev_candidate =
     \<lparr>kc_candidateId = ''c1'', kc_compilerVersion = ''v'', kc_status = PROPOSED, kc_subjectKey = ''api.users.list'',
      kc_kind = FACT,
      kc_scopeHint = \<lparr>sh_level = Some PROJECT, sh_taskId = None, sh_projectId = None, sh_repositoryRemote = None,
        sh_modulePaths = None, sh_symbols = None, sh_userId = None, sh_teamId = None, sh_reasonCodes = []\<rparr>,
      kc_title = ''Users'', kc_summary = ''Sorted.'', kc_body = ''new'', kc_sourceEpisodes = [''e1''], kc_confidence = 1,
      kc_createdAt = Iso 1, kc_correlationId = ''k'', kc_assertions = [], kc_evidenceHints = [],
      kc_localization = Schema1 None None\<rparr>"

definition ev_input :: "knowledge_asset option \<Rightarrow> knowledge_asset list \<Rightarrow> match_input" where
  "ev_input exact retrieved = \<lparr>mi_candidate = ev_candidate, mi_proposedScope = ProjectScope ''p'' None,
     mi_exactTarget = exact, mi_retrievedTargets = retrieved, mi_correctionRefs = None\<rparr>"

definition ev_judgment :: "string \<Rightarrow> semantic_judgment" where
  "ev_judgment action = \<lparr>sj_action = action, sj_targets = [(''a1'', 2)], sj_confidence = Some 1, sj_reason = ''same topic''\<rparr>"

text \<open>A verified exact target, and a verified target of a narrower scope.\<close>

abbreviation ev_exact :: match_input where
  "ev_exact \<equiv> ev_input (Some (ev_asset (ProjectScope ''p'' None) VERIFIED)) []"

abbreviation ev_narrow :: match_input where
  "ev_narrow \<equiv> ev_input None [ev_asset (SymbolScope [''f''] ''p'' None) VERIFIED]"

lemma ev_exact_pending: "classifyKnowledgeEvolution ev_env ev_exact
    = Inr (pending ev_exact [ev_asset (ProjectScope ''p'' None) VERIFIED] [''EXACT_IDENTITY'', ''CONTENT_RELATION_UNRESOLVED''])"
  by code_simp

lemma ev_narrow_pending: "classifyKnowledgeEvolution ev_env ev_narrow
    = Inr (pending ev_narrow [ev_asset (SymbolScope [''f''] ''p'' None) VERIFIED] [''SCOPE_WIDENING_REQUIRES_CONFIRMATION''])"
  by code_simp

lemma ev_judgment_valid: "validSemanticJudgment (ev_judgment ''SUPPLEMENT'') [(''a1'', 2)]"
    "validSemanticJudgment (ev_judgment ''SUPERSEDE'') [(''a1'', 2)]"
  by code_simp+

lemma ev_judged_supersede: "case decideKnowledgeEvolution ev_env ev_exact (Some (\<lambda>_. Inr (ev_judgment ''SUPERSEDE''))) of
    Inr d \<Rightarrow> ed_action d = Some SUPERSEDE \<and> ed_targets d = [(''a1'', 2)] | Inl _ \<Rightarrow> False"
  by code_simp

section \<open>Properties\<close>



text \<open>
  What the rules leave for a confirmation, a judge can settle without one: whenever the rules are
  undecided and the judge answers validly with an action other than CONTRADICT and SUPERSEDE, that
  action is decided and asks for no confirmation, whatever the status of its targets and even where the
  rules recorded that a wider scope requires confirmation.
\<close>
theorem judge_settles_without_confirmation:
  assumes "classifyKnowledgeEvolution e i = Inr initial" and "ed_action initial = None"
    and "validSemanticJudgment j (ed_targets initial)" and "judged_action j = Some a"
    and "a \<noteq> CONTRADICT" and "a \<noteq> SUPERSEDE"
  shows "\<exists>d. decideKnowledgeEvolution e i (Some (\<lambda>_. Inr j)) = Inr d \<and> ed_action d = Some a
    \<and> \<not> ed_requiresConfirmation d \<and> set (ed_reasons initial) \<subseteq> set (ed_reasons d)"
proof -
  obtain supplied where s: "decideKnowledgeEvolution e i (Some (\<lambda>_. Inr j)) = Inr (apply_judgment i initial supplied (Inr j))"
    using decide_judged[OF assms(1,2), of "\<lambda>_. Inr j"] by metis
  show ?thesis unfolding s
    by (cases rule: apply_judgment_cases[of i initial supplied "Inr j"])
      (use assms in \<open>auto simp: decision_fields semantic_confirmation_def\<close>)
qed

theorem judge_settles_without_confirmation_witness:
  "(\<exists>d. decideKnowledgeEvolution ev_env ev_exact (Some (\<lambda>_. Inr (ev_judgment ''SUPPLEMENT''))) = Inr d
      \<and> ed_action d = Some SUPPLEMENT \<and> \<not> ed_requiresConfirmation d)
   \<and> (\<exists>d. decideKnowledgeEvolution ev_env ev_narrow (Some (\<lambda>_. Inr (ev_judgment ''SUPPLEMENT''))) = Inr d
      \<and> ed_action d = Some SUPPLEMENT \<and> \<not> ed_requiresConfirmation d
      \<and> ''SCOPE_WIDENING_REQUIRES_CONFIRMATION'' \<in> set (ed_reasons d))"
proof -
  have j: "judged_action (ev_judgment ''SUPPLEMENT'') = Some SUPPLEMENT" by code_simp
  have t: "ed_targets (pending i [ev_asset s v] rs) = [(''a1'', 2)]" for i s v rs
    by (simp add: decision_fields targetVersion_def ev_asset_def)
  show ?thesis
    using judge_settles_without_confirmation[OF ev_exact_pending _ _ j] judge_settles_without_confirmation[OF ev_narrow_pending _ _ j]
      ev_judgment_valid(1) by (simp add: t) (fastforce simp: decision_fields)
qed

end
