(* ===== verification/ScenarioEvolution.thy ===== *)
theory ScenarioEvolution
  imports Domain
begin

text \<open>
  How the scenario of a located candidate is reconciled with the scenarios already defined
  (\<^verbatim>\<open>packages/knowledge-evolution/src/scenario-evolution.ts\<close>, the definition of \<^verbatim>\<open>domain/localization.ts\<close>).
  The same given text functions as in the evolution of knowledge are used. A decision without an action
  is pending.
\<close>

section \<open>Data\<close>

datatype scenario_relation_type = CHILD_OF | OVERLAPS | ALIAS_OF | MERGED_INTO | SPLIT_FROM

record scenario_relation =
  rl_type :: scenario_relation_type
  rl_targetScenarioId :: string
  rl_reasonCodes :: "string list"

record scenario_definition =
  sd_scenarioId :: string
  sd_projectId :: string
  sd_scenarioKey :: string
  sd_version :: int
  sd_title :: string
  sd_summary :: string
  sd_taskIntents :: "string list"
  sd_entryPoints :: "string list"
  sd_applicability :: "string list"
  sd_nonApplicability :: "string list"
  sd_aliases :: "string list"
  sd_relations :: "scenario_relation list"
  sd_sourceKnowledgeVersions :: "string list"
  sd_createdAt :: timestamp
  sd_updatedAt :: timestamp

datatype scenario_action =
  CREATE | UPDATE_VERSION | MERGE_VERSION | KEEP_SEPARATE | SUPERSEDE | CONTRADICT | SKIP

record scenario_decision =
  sn_action :: "scenario_action option"
  sn_scenarioId :: string
  sn_targetScenarioIds :: "string list"
  sn_reasonCodes :: "string list"

record scenario_target =
  st_definition :: scenario_definition
  st_locators :: "knowledge_locator list"

record scenario_input =
  ri_candidate :: knowledge_candidate
  ri_knowledgeVersion :: string
  ri_current :: "scenario_target option"
  ri_related :: "scenario_target list"
  ri_now :: timestamp

record scenario_result =
  rs_decision :: scenario_decision
  rs_next :: "scenario_definition option"

record scenario_env =
  se_normalized :: "string \<Rightarrow> string"
  se_collate :: "string \<Rightarrow> string \<Rightarrow> int"

datatype scenario_error =
  SCENARIO_RECONCILIATION_REQUIRES_LOCATED_CANDIDATE | SCENARIO_RECONCILIATION_INPUT_INVALID
| SCENARIO_RECONCILIATION_LOCATOR_INVALID | SCENARIO_ID_INPUT_INVALID | SCENARIO_RECONCILIATION_CURRENT_MISMATCH

section \<open>Comparisons\<close>

definition normalizedSet :: "scenario_env \<Rightarrow> string list \<Rightarrow> string list" where
  "normalizedSet e vs = uniq (filter (\<lambda>v. v \<noteq> []) (map (se_normalized e) vs))"

definition equalSet :: "scenario_env \<Rightarrow> string list \<Rightarrow> string list \<Rightarrow> bool" where
  "equalSet e l r = (let a = normalizedSet e l; b = normalizedSet e r in
     length a = length b \<and> list_all (\<lambda>x. x \<in> set b) a)"

definition overlap :: "scenario_env \<Rightarrow> string list \<Rightarrow> string list \<Rightarrow> rat" where
  "overlap e l r = (let a = normalizedSet e l; b = normalizedSet e r in
     if a = [] \<or> b = [] then 0
     else of_nat (length (filter (\<lambda>x. x \<in> set b) a)) / of_nat (max (length a) (length b)))"

definition branchIdentity :: "knowledge_locator \<Rightarrow> string" where
  "branchIdentity l = (case kl_branchApplicability l of
     EXACT_BRANCH b \<Rightarrow> ''branch:'' @ b | BRANCH_LINEAGE c _ \<Rightarrow> ''commit:'' @ c | ALL_BRANCHES r \<Rightarrow> ''all:'' @ r)"

definition boundaryConflict :: "scenario_env \<Rightarrow> knowledge_locator \<Rightarrow> scenario_target \<Rightarrow> bool" where
  "boundaryConflict e l t \<longleftrightarrow>
     (st_locators t \<noteq> [] \<and> branchIdentity l \<notin> set (map branchIdentity (st_locators t)))
   \<or> \<not> equalSet e (kl_nonApplicability l) (sd_nonApplicability (st_definition t))"

definition relatedScore :: "scenario_env \<Rightarrow> knowledge_locator \<Rightarrow> scenario_target \<Rightarrow> rat" where
  "relatedScore e l t = (let d = st_definition t in
     max (overlap e (kl_entryPoints l) (sd_entryPoints d))
    (max (overlap e (kl_taskIntents l) (sd_taskIntents d))
         (if se_normalized e (kl_scenarioTitle l) = se_normalized e (sd_title d) then 1 else 0)))"

section \<open>Results\<close>

definition scenario_decided :: "scenario_action \<Rightarrow> string \<Rightarrow> string list \<Rightarrow> string list \<Rightarrow> scenario_decision" where
  "scenario_decided action i targets reasons = \<lparr>sn_action = Some action, sn_scenarioId = i,
     sn_targetScenarioIds = sort (uniq targets), sn_reasonCodes = sort (uniq reasons)\<rparr>"

definition scenario_pending :: "string \<Rightarrow> string list \<Rightarrow> string list \<Rightarrow> scenario_decision" where
  "scenario_pending i targets reasons = \<lparr>sn_action = None, sn_scenarioId = i,
     sn_targetScenarioIds = sort (uniq targets), sn_reasonCodes = sort (uniq reasons)\<rparr>"

definition overlaps_relation :: "scenario_target \<Rightarrow> scenario_relation" where
  "overlaps_relation t = \<lparr>rl_type = OVERLAPS, rl_targetScenarioId = sd_scenarioId (st_definition t),
     rl_reasonCodes = sort (uniq [''SEMANTIC_OVERLAP'', ''BOUNDARY_CONFLICT''])\<rparr>"

definition relation_key :: "scenario_relation \<Rightarrow> scenario_relation_type \<times> string" where
  "relation_key r = (rl_type r, rl_targetScenarioId r)"

text \<open>\<open>[...new Set([...(old ?? []), ...new])].sort()\<close>.\<close>

definition merged :: "(scenario_definition \<Rightarrow> string list) \<Rightarrow> scenario_definition option \<Rightarrow> string list \<Rightarrow> string list" where
  "merged f current new = sort (uniq ((case current of None \<Rightarrow> [] | Some c \<Rightarrow> f c) @ new))"

definition nextDefinition :: "scenario_input \<Rightarrow> knowledge_locator \<Rightarrow> scenario_definition option \<Rightarrow> scenario_relation list
    \<Rightarrow> scenario_definition" where
  "nextDefinition i l current relations =
     \<lparr>sd_scenarioId = kl_scenarioId l, sd_projectId = kl_projectId l, sd_scenarioKey = kl_scenarioKey l,
      sd_version = (case current of None \<Rightarrow> 0 | Some c \<Rightarrow> sd_version c) + 1,
      sd_title = kl_scenarioTitle l, sd_summary = kl_scenarioSummary l,
      sd_taskIntents = merged sd_taskIntents current (kl_taskIntents l),
      sd_entryPoints = merged sd_entryPoints current (kl_entryPoints l),
      sd_applicability = merged sd_applicability current (kl_applicability l),
      sd_nonApplicability = merged sd_nonApplicability current (kl_nonApplicability l),
      sd_aliases = merged sd_aliases current [kl_scenarioTitle l],
      sd_relations = map_values relation_key ((case current of None \<Rightarrow> [] | Some c \<Rightarrow> sd_relations c) @ relations),
      sd_sourceKnowledgeVersions = merged sd_sourceKnowledgeVersions current [ri_knowledgeVersion i],
      sd_createdAt = (case current of None \<Rightarrow> ri_now i | Some c \<Rightarrow> sd_createdAt c),
      sd_updatedAt = ri_now i\<rparr>"

section \<open>reconcileScenario\<close>

definition reconcile_current :: "scenario_env \<Rightarrow> scenario_input \<Rightarrow> knowledge_locator \<Rightarrow> scenario_target
    \<Rightarrow> scenario_error + scenario_result" where
  "reconcile_current e i l t = (let c = st_definition t in
    if sd_scenarioId c \<noteq> kl_scenarioId l \<or> sd_projectId c \<noteq> kl_projectId l then
      Inl SCENARIO_RECONCILIATION_CURRENT_MISMATCH
    else if ri_knowledgeVersion i \<in> set (sd_sourceKnowledgeVersions c) then
      Inr \<lparr>rs_decision = scenario_decided SKIP (kl_scenarioId l) [sd_scenarioId c] [''KNOWLEDGE_ALREADY_BOUND''],
           rs_next = None\<rparr>
    else if boundaryConflict e l t then
      Inr \<lparr>rs_decision = scenario_pending (kl_scenarioId l) [sd_scenarioId c]
             [''STABLE_KEY_BOUNDARY_CONFLICT'', ''AUTOMATIC_UPDATE_BLOCKED''], rs_next = None\<rparr>
    else
      Inr \<lparr>rs_decision = scenario_decided UPDATE_VERSION (kl_scenarioId l) [sd_scenarioId c]
             [''STABLE_SCENARIO_KEY'', ''KNOWLEDGE_BINDING_ADDED''],
           rs_next = Some (nextDefinition i l (Some c) [])\<rparr>)"

definition score_le :: "scenario_env \<Rightarrow> knowledge_locator \<Rightarrow> scenario_target \<Rightarrow> scenario_target \<Rightarrow> bool" where
  "score_le e l x y = (let d = relatedScore e l y - relatedScore e l x in
     if d \<noteq> 0 then d \<le> 0
     else se_collate e (sd_scenarioId (st_definition x)) (sd_scenarioId (st_definition y)) \<le> 0)"

definition relevant_targets :: "scenario_env \<Rightarrow> scenario_input \<Rightarrow> knowledge_locator \<Rightarrow> scenario_target list" where
  "relevant_targets e i l = sort_by (score_le e l)
     (filter (\<lambda>t. relatedScore e l t \<ge> 1 / 2)
       (filter (\<lambda>t. sd_projectId (st_definition t) = kl_projectId l) (ri_related i)))"

definition reconcile_related :: "scenario_env \<Rightarrow> scenario_input \<Rightarrow> knowledge_locator \<Rightarrow> scenario_result" where
  "reconcile_related e i l =
    (let relevant = relevant_targets e i l;
         ids = map (\<lambda>t. sd_scenarioId (st_definition t));
         conflicts = filter (boundaryConflict e l) relevant in
     if conflicts \<noteq> [] then
       \<lparr>rs_decision = scenario_decided KEEP_SEPARATE (kl_scenarioId l) (ids conflicts)
          [''BOUNDARY_CONFLICT'', ''OVERLAP_RECORDED''],
        rs_next = Some (nextDefinition i l None (map overlaps_relation conflicts))\<rparr>
     else (case relevant of
       a # b # _ \<Rightarrow>
        (if relatedScore e l a = relatedScore e l b then
           \<lparr>rs_decision = scenario_pending (kl_scenarioId l) (ids relevant) [''AMBIGUOUS_SCENARIO_MATCH''], rs_next = None\<rparr>
         else
           \<lparr>rs_decision = scenario_decided CREATE (kl_scenarioId l) [] [''NO_COMPATIBLE_SCENARIO''],
            rs_next = Some (nextDefinition i l None [])\<rparr>)
     | [a] \<Rightarrow>
        (if relatedScore e l a = 1 then
           \<lparr>rs_decision = scenario_pending (kl_scenarioId l) (ids [a])
              [''POSSIBLE_SCENARIO_ALIAS'', ''MERGE_REQUIRES_CONFIRMATION''], rs_next = None\<rparr>
         else
           \<lparr>rs_decision = scenario_decided CREATE (kl_scenarioId l) [] [''NO_COMPATIBLE_SCENARIO''],
            rs_next = Some (nextDefinition i l None [])\<rparr>)
     | [] \<Rightarrow>
         \<lparr>rs_decision = scenario_decided CREATE (kl_scenarioId l) [] [''NO_COMPATIBLE_SCENARIO''],
          rs_next = Some (nextDefinition i l None [])\<rparr>))"

definition reconcileScenario :: "scenario_env \<Rightarrow> scenario_input \<Rightarrow> scenario_error + scenario_result" where
  "reconcileScenario e i = (case kc_localization (ri_candidate i) of
     Schema1 _ _ \<Rightarrow> Inl SCENARIO_RECONCILIATION_REQUIRES_LOCATED_CANDIDATE
   | Schema2 _ l \<Rightarrow>
      (if \<not> finite_date (ri_now i) \<or> length (ri_related i) > 20 \<or> \<not> has_text (ri_knowledgeVersion i)
          \<or> length (ri_knowledgeVersion i) > 1000
       then Inl SCENARIO_RECONCILIATION_INPUT_INVALID
       else (case deriveScenarioId (kl_projectId l) (kl_scenarioKey l) of
          None \<Rightarrow> Inl SCENARIO_ID_INPUT_INVALID
        | Some s \<Rightarrow>
           (if kl_scenarioId l \<noteq> s then Inl SCENARIO_RECONCILIATION_LOCATOR_INVALID
            else (case ri_current i of
               Some t \<Rightarrow> reconcile_current e i l t
             | None \<Rightarrow> Inr (reconcile_related e i l))))))"

end
