(* ===== verification/ScenarioProps.thy ===== *)
theory ScenarioProps
  imports ScenarioEvolution
begin

text \<open>What reconciling a scenario keeps, and where it loses a likely alias.\<close>

section \<open>Facts\<close>

lemma set_merged [simp]: "set (merged f current new) = (case current of None \<Rightarrow> {} | Some c \<Rightarrow> set (f c)) \<union> set new"
  by (simp add: merged_def split: option.splits)

lemma next_fields [simp]:
  "sd_scenarioId (nextDefinition i l c rs) = kl_scenarioId l" "sd_projectId (nextDefinition i l c rs) = kl_projectId l"
  "sd_scenarioKey (nextDefinition i l c rs) = kl_scenarioKey l"
  "sd_sourceKnowledgeVersions (nextDefinition i l c rs) = merged sd_sourceKnowledgeVersions c [ri_knowledgeVersion i]"
  by (simp_all add: nextDefinition_def)

lemma reconcile_located:
  assumes "reconcileScenario e i = Inr r"
  obtains m l where "kc_localization (ri_candidate i) = Schema2 m l"
    "deriveScenarioId (kl_projectId l) (kl_scenarioKey l) = Some (kl_scenarioId l)"
    "case ri_current i of Some t \<Rightarrow> reconcile_current e i l t = Inr r | None \<Rightarrow> r = reconcile_related e i l"
  using assms by (auto simp: reconcileScenario_def split: candidate_localization.splits if_splits option.splits)

lemma reconcile_current_next:
  assumes "reconcile_current e i l t = Inr r" and "rs_next r = Some n"
  shows "n = nextDefinition i l (Some (st_definition t)) [] \<and> \<not> boundaryConflict e l t
    \<and> sd_scenarioId (st_definition t) = kl_scenarioId l \<and> sd_projectId (st_definition t) = kl_projectId l
    \<and> sn_action (rs_decision r) = Some UPDATE_VERSION"
  using assms by (auto simp: reconcile_current_def Let_def scenario_decided_def split: if_splits)

text \<open>What is created beside other scenarios: alone, or with a relation to each that conflicts.\<close>

lemma reconcile_related_next:
  assumes "rs_next (reconcile_related e i l) = Some n"
  shows "n = nextDefinition i l None (map overlaps_relation (filter (boundaryConflict e l) (relevant_targets e i l)))"
  using assms by (auto simp: reconcile_related_def Let_def filter_empty_conv split: if_splits list.splits)

text \<open>Reconciling knowledge that is already bound leaves the scenario as it is.\<close>

lemma bound_knowledge_skipped:
  assumes "reconcileScenario e i = Inr r" and "kc_localization (ri_candidate i) = Schema2 m l"
    and "sd_scenarioId n = kl_scenarioId l" and "sd_projectId n = kl_projectId l"
    and "ri_knowledgeVersion i \<in> set (sd_sourceKnowledgeVersions n)"
  shows "\<exists>r'. reconcileScenario e (i\<lparr>ri_current := Some \<lparr>st_definition = n, st_locators = ls\<rparr>\<rparr>) = Inr r'
    \<and> sn_action (rs_decision r') = Some SKIP \<and> rs_next r' = None"
  using assms by (auto simp: reconcileScenario_def reconcile_current_def Let_def scenario_decided_def
      split: if_splits option.splits)

definition extends_scenario :: "scenario_definition \<Rightarrow> scenario_definition \<Rightarrow> bool" where
  "extends_scenario c n \<longleftrightarrow> sd_version n = sd_version c + 1 \<and> sd_scenarioId n = sd_scenarioId c
     \<and> sd_projectId n = sd_projectId c \<and> sd_createdAt n = sd_createdAt c
     \<and> list_all (\<lambda>f. set (f c) \<subseteq> set (f n)) [sd_taskIntents, sd_entryPoints, sd_applicability, sd_nonApplicability,
         sd_aliases, sd_sourceKnowledgeVersions]
     \<and> relation_key ` set (sd_relations c) \<subseteq> relation_key ` set (sd_relations n)"

lemma next_extends:
  assumes "sd_scenarioId c = kl_scenarioId l" and "sd_projectId c = kl_projectId l"
  shows "extends_scenario c (nextDefinition i l (Some c) rs)"
proof -
  have "relation_key ` set xs \<subseteq> relation_key ` set (map_values relation_key (xs @ ys))" for xs ys
    using arg_cong[OF map_values_keys[of relation_key "xs @ ys"], of set] by auto
  then show ?thesis using assms by (auto simp: extends_scenario_def nextDefinition_def)
qed

section \<open>Properties\<close>

text \<open>
  C29: Scenario knowledge only accumulates. Whenever a reconciliation yields a definition, that definition
  carries the id derived from its project and key and binds the given knowledge version. With a current
  scenario it is that scenario's next version: same id, project and creation date, nothing it listed is
  lost, and its boundaries did not conflict. Without one it is version 1 and records an overlap with
  every relevant scenario whose boundaries conflict. Reconciling the same knowledge again with the new
  definition as the current one is skipped and changes nothing.
\<close>
theorem scenario_knowledge_accumulates:
  assumes "reconcileScenario e i = Inr r" and "rs_next r = Some n"
  shows "deriveScenarioId (sd_projectId n) (sd_scenarioKey n) = Some (sd_scenarioId n)
    \<and> ri_knowledgeVersion i \<in> set (sd_sourceKnowledgeVersions n)
    \<and> (\<exists>m l. kc_localization (ri_candidate i) = Schema2 m l \<and>
        (case ri_current i of
           Some t \<Rightarrow> extends_scenario (st_definition t) n \<and> \<not> boundaryConflict e l t
         | None \<Rightarrow> sd_version n = 1 \<and> (\<forall>t \<in> set (relevant_targets e i l). boundaryConflict e l t \<longrightarrow>
             (OVERLAPS, sd_scenarioId (st_definition t)) \<in> relation_key ` set (sd_relations n))))
    \<and> (\<forall>ls. \<exists>r'. reconcileScenario e (i\<lparr>ri_current := Some \<lparr>st_definition = n, st_locators = ls\<rparr>\<rparr>) = Inr r'
         \<and> sn_action (rs_decision r') = Some SKIP \<and> rs_next r' = None)"
proof -
  obtain m l where l: "kc_localization (ri_candidate i) = Schema2 m l"
    "deriveScenarioId (kl_projectId l) (kl_scenarioKey l) = Some (kl_scenarioId l)"
    and c: "case ri_current i of Some t \<Rightarrow> reconcile_current e i l t = Inr r | None \<Rightarrow> r = reconcile_related e i l"
    using assms(1) by (rule reconcile_located)
  have n: "\<exists>cur rs. n = nextDefinition i l cur rs"
    using c assms(2) reconcile_current_next reconcile_related_next by (fastforce split: option.splits)
  then have ids: "sd_scenarioId n = kl_scenarioId l" "sd_projectId n = kl_projectId l" "sd_scenarioKey n = kl_scenarioKey l"
    "ri_knowledgeVersion i \<in> set (sd_sourceKnowledgeVersions n)" by auto
  have "case ri_current i of
      Some t \<Rightarrow> extends_scenario (st_definition t) n \<and> \<not> boundaryConflict e l t
    | None \<Rightarrow> sd_version n = 1 \<and> (\<forall>t \<in> set (relevant_targets e i l). boundaryConflict e l t \<longrightarrow>
        (OVERLAPS, sd_scenarioId (st_definition t)) \<in> relation_key ` set (sd_relations n))"
  proof (cases "ri_current i")
    case (Some t)
    then show ?thesis using c reconcile_current_next[of e i l t r n] assms(2) next_extends by simp
  next
    case None
    let ?cs = "map overlaps_relation (filter (boundaryConflict e l) (relevant_targets e i l))"
    have n': "n = nextDefinition i l None ?cs" using c None assms(2) reconcile_related_next by simp
    have "(OVERLAPS, sd_scenarioId (st_definition t)) \<in> relation_key ` set (sd_relations n)"
      if t: "t \<in> set (relevant_targets e i l)" "boundaryConflict e l t" for t
    proof -
      have "overlaps_relation t \<in> set ?cs" using t by simp
      from map_values_covers[OF this, of relation_key] show ?thesis
        by (auto simp: n' nextDefinition_def relation_key_def overlaps_relation_def image_iff) metis
    qed
    then show ?thesis using None n' by (simp add: nextDefinition_def)
  qed
  then show ?thesis using l ids bound_knowledge_skipped[OF assms(1) l(1) ids(1,2,4)] by auto
qed

text \<open>
  C30: A likely alias is lost when a second, weaker match is found. A candidate without a current scenario
  that matches exactly one relevant scenario, completely, waits for a confirmation to merge; when another
  relevant scenario matches less well beside it, a new scenario is created as if nothing were compatible.
\<close>
theorem weaker_match_hides_alias:
  assumes "relatedScore e l a = 1" and "relatedScore e l b < 1"
    and "relevant_targets e i l = [a]" and "relevant_targets e i' l = [a, b]"
    and "\<not> boundaryConflict e l a" and "\<not> boundaryConflict e l b"
  shows "sn_action (rs_decision (reconcile_related e i l)) = None
    \<and> ''MERGE_REQUIRES_CONFIRMATION'' \<in> set (sn_reasonCodes (rs_decision (reconcile_related e i l)))
    \<and> sn_action (rs_decision (reconcile_related e i' l)) = Some CREATE
    \<and> sn_reasonCodes (rs_decision (reconcile_related e i' l)) = [''NO_COMPATIBLE_SCENARIO'']
    \<and> rs_next (reconcile_related e i' l) = Some (nextDefinition i' l None [])"
  using assms by (simp add: reconcile_related_def scenario_pending_def scenario_decided_def uniq_def)

section \<open>An example\<close>

definition sc_env :: scenario_env where
  "sc_env = \<lparr>se_normalized = (\<lambda>s. s), se_collate = (\<lambda>l r. if l = r then 0 else if l < r then -1 else 1)\<rparr>"

definition sc_locator :: knowledge_locator where
  "sc_locator =
     \<lparr>kl_schemaVersion = 1, kl_projectId = ''p'', kl_repositoryRemote = None,
      kl_observedRevision = \<lparr>or_branch = Some ''main'', or_commit = None, or_dirty = False, or_codegraphRevision = None\<rparr>,
      kl_branchApplicability = ALL_BRANCHES ''any'', kl_scenarioId = ''scenario:p:a.b'', kl_scenarioKey = ''a.b'',
      kl_scenarioTitle = ''Login'', kl_scenarioSummary = ''S'', kl_modulePaths = [], kl_symbols = [],
      kl_entryPoints = [''x'', ''y''], kl_taskIntents = [''fix''], kl_applicability = [], kl_nonApplicability = []\<rparr>"

definition sc_target :: "string \<Rightarrow> string \<Rightarrow> string list \<Rightarrow> scenario_target" where
  "sc_target key title entries = \<lparr>st_definition =
     \<lparr>sd_scenarioId = ''scenario:p:'' @ key, sd_projectId = ''p'', sd_scenarioKey = key, sd_version = 3, sd_title = title,
      sd_summary = ''S'', sd_taskIntents = [''add''], sd_entryPoints = entries, sd_applicability = [],
      sd_nonApplicability = [], sd_aliases = [], sd_relations = [], sd_sourceKnowledgeVersions = [''k@1''],
      sd_createdAt = Iso 5, sd_updatedAt = Iso 5\<rparr>, st_locators = []\<rparr>"

definition sc_input :: "scenario_target option \<Rightarrow> scenario_target list \<Rightarrow> scenario_input" where
  "sc_input current related =
     \<lparr>ri_candidate = \<lparr>kc_candidateId = ''c'', kc_compilerVersion = ''v'', kc_status = PROPOSED, kc_subjectKey = ''a.b.c'',
        kc_kind = RULE,
        kc_scopeHint = \<lparr>sh_level = None, sh_taskId = None, sh_projectId = None, sh_repositoryRemote = None,
          sh_modulePaths = None, sh_symbols = None, sh_userId = None, sh_teamId = None, sh_reasonCodes = []\<rparr>,
        kc_title = ''T'', kc_summary = ''S'', kc_body = ''B'', kc_sourceEpisodes = [''e''], kc_confidence = 1,
        kc_createdAt = Iso 1, kc_correlationId = ''k'', kc_assertions = [], kc_evidenceHints = [],
        kc_localization = Schema2 CURRENT_STATE sc_locator\<rparr>,
      ri_knowledgeVersion = ''k@2'', ri_current = current, ri_related = related, ri_now = Iso 9\<rparr>"

lemma sc_updates: "case reconcileScenario sc_env (sc_input (Some (sc_target ''a.b'' ''Login'' [''z''])) []) of
    Inr r \<Rightarrow> (case rs_next r of Some n \<Rightarrow> sd_version n = 4 \<and> sd_entryPoints n = [''x'', ''y'', ''z''] | None \<Rightarrow> False) | Inl _ \<Rightarrow> False"
  by code_simp

lemma sc_scores:
  "relatedScore sc_env sc_locator (sc_target ''c.d'' ''Login'' []) = 1"
  "relatedScore sc_env sc_locator (sc_target ''e.f'' ''Other'' [''x'']) = 1 / 2"
  by code_simp+

lemma sc_boundaries:
  "\<not> boundaryConflict sc_env sc_locator (sc_target ''c.d'' ''Login'' [])"
  "\<not> boundaryConflict sc_env sc_locator (sc_target ''e.f'' ''Other'' [''x''])"
  by code_simp+

lemma sc_relevant:
  "relevant_targets sc_env (sc_input None [sc_target ''c.d'' ''Login'' []]) sc_locator = [sc_target ''c.d'' ''Login'' []]"
  "relevant_targets sc_env (sc_input None [sc_target ''e.f'' ''Other'' [''x''], sc_target ''c.d'' ''Login'' []]) sc_locator
    = [sc_target ''c.d'' ''Login'' [], sc_target ''e.f'' ''Other'' [''x'']]"
  by code_simp+

theorem scenario_knowledge_accumulates_witness:
  "\<exists>r n. reconcileScenario sc_env (sc_input (Some (sc_target ''a.b'' ''Login'' [''z''])) []) = Inr r \<and> rs_next r = Some n
    \<and> sd_version n = 4 \<and> extends_scenario (st_definition (sc_target ''a.b'' ''Login'' [''z''])) n"
proof -
  obtain r n where r: "reconcileScenario sc_env (sc_input (Some (sc_target ''a.b'' ''Login'' [''z''])) []) = Inr r"
    "rs_next r = Some n" "sd_version n = 4" using sc_updates by (auto split: sum.splits option.splits)
  then show ?thesis using scenario_knowledge_accumulates[OF r(1,2)] by (auto simp: sc_input_def)
qed

theorem weaker_match_hides_alias_witness:
  "sn_action (rs_decision (reconcile_related sc_env
     (sc_input None [sc_target ''e.f'' ''Other'' [''x''], sc_target ''c.d'' ''Login'' []]) sc_locator)) = Some CREATE"
  using weaker_match_hides_alias[OF sc_scores(1) _ sc_relevant sc_boundaries] by (simp add: sc_scores)

end
