(* ===== verification/KnowledgePlan.thy ===== *)
theory KnowledgePlan
  imports EvidencePolicy Evolution ScopeResolver
begin

text \<open>
  How the knowledge worker decides what to publish
  (\<^verbatim>\<open>packages/knowledge-worker-runtime/src/runtime.ts\<close>, the stages EVOLUTION_MATCH and CANDIDATE_POLICY):
  each candidate is given a scope, matched with published knowledge, judged by the evidence policy and,
  when all three allow it, turned into the next version of an asset in the outbox.

  The Markdown repository, the search index, the verifier and the judge are ports; the \<open>k\<close>-th reading
  of the repository may answer differently from the others. The SHA-256 identity of an asset and the hash
  of its content are given. A thrown error is its code and whether it may be retried.
\<close>

section \<open>Data (types.ts, errors.ts)\<close>

type_synonym worker_error = "string \<times> bool"

text \<open>What a port throws: a code where it has one, and whether \<open>retryable !== false\<close>.\<close>

record port_failure =
  pf_code :: "string option"
  pf_retryable :: bool

datatype read_result = ReadMissing | ReadInvalid | ReadOk knowledge_asset

text \<open>Of an episode and a correction draft, what these stages read.\<close>

record episode =
  ep_episodeId :: string
  ep_projectContext :: project_context

record evolution_record =
  er_candidate :: knowledge_candidate
  er_scope :: scope_resolution
  er_decision :: evolution_decision

record policy_record =
  po_candidate :: knowledge_candidate
  po_currentStatus :: knowledge_status
  po_scope :: scope_resolution
  po_results :: "verification_result list"
  po_decision :: policy_decision

record planned_asset =
  pa_candidateId :: string
  pa_asset :: knowledge_asset
  pa_expectedCurrentVersion :: "int option"

record worker_request =
  wr_project :: project_context
  wr_verificationPolicy :: verification_policy
  wr_allowGlobal :: "bool option"
  wr_projectTerms :: "string list option"
  wr_maxEvolutionCandidates :: int
  wr_maxPublishItems :: int

record worker_ports =
  wp_read :: "nat \<Rightarrow> string \<Rightarrow> port_failure + read_result"
  wp_search :: "nat \<Rightarrow> string list \<Rightarrow> int \<Rightarrow> port_failure + knowledge_asset list"
  wp_verify :: "nat \<Rightarrow> knowledge_candidate \<Rightarrow> project_context \<Rightarrow> port_failure + verification_result list"
  wp_semantic :: "(nat \<Rightarrow> semantic_port) option"

record worker_env =
  we_evolution :: evolution_env
  we_identity :: "string \<Rightarrow> knowledge_kind \<Rightarrow> knowledge_scope \<Rightarrow> string"
  we_contentHash :: "knowledge_asset \<Rightarrow> string"

section \<open>Errors\<close>

definition external :: "string \<Rightarrow> port_failure + 'a \<Rightarrow> worker_error + 'a" where
  "external code r = map_error
     (\<lambda>f. (case pf_code f of Some c \<Rightarrow> c | None \<Rightarrow> code, pf_retryable f)) r"

text \<open>An error that is not a worker error is recorded as unexpected (\<open>errorDetails\<close>).\<close>

definition unexpected :: worker_error where
  "unexpected = (''UNEXPECTED_WORKER_FAILURE'', False)"

section \<open>Helpers\<close>

text \<open>\<open>candidateSymbols\<close>, sorted.\<close>

definition asserted_symbols :: "knowledge_candidate \<Rightarrow> string list" where
  "asserted_symbols c = sort (uniq (concat (map (\<lambda>a. case ka_body a of
       SymbolExists _ s _ \<Rightarrow> [s] | CallPathExists _ f t _ \<Rightarrow> [f, t] | ImpactContains _ s t \<Rightarrow> [s, t] | _ \<Rightarrow> [])
     (kc_assertions c))))"

definition assetIdentity :: "worker_env \<Rightarrow> knowledge_candidate \<Rightarrow> knowledge_scope \<Rightarrow> string" where
  "assetIdentity e c s = we_identity e (kc_subjectKey c) (kc_kind c) s"

text \<open>\<open>/[\p{L}\p{N}_.$:-]/u.test(value)\<close> with a value that is not blank.\<close>

definition query_text :: "string \<Rightarrow> bool" where
  "query_text s \<longleftrightarrow> has_text s \<and> list_ex (\<lambda>c. latin_letter c \<or> latin_number c \<or> c \<in> set ''_.$:-'') s"

definition evolutionQueries :: "knowledge_candidate \<Rightarrow> string list" where
  "evolutionQueries c =
     map (take 512) (take 5 (filter query_text (uniq (kc_subjectKey c # kc_title c # asserted_symbols c))))"

definition context_key :: "project_context \<Rightarrow> string \<times> string option \<times> string option \<times> string option" where
  "context_key p = (pc_projectId p, pc_repositoryRoot p, pc_repositoryRemote p, pc_branch p)"

definition source_contexts :: "knowledge_candidate \<Rightarrow> episode list \<Rightarrow> project_context option list" where
  "source_contexts c episodes =
     map (\<lambda>i. map_option ep_projectContext (last_entry ep_episodeId episodes i)) (kc_sourceEpisodes c)"

definition projectForCandidate ::
  "knowledge_candidate \<Rightarrow> episode list \<Rightarrow> project_context \<Rightarrow> worker_error + project_context" where
  "projectForCandidate c episodes fallback = (let contexts = source_contexts c episodes in
     if None \<in> set contexts then Inl (''CANDIDATE_EPISODE_MISSING'', False)
     else (case map_values context_key (map the contexts) of
        [] \<Rightarrow> Inr fallback
      | [x] \<Rightarrow> Inr x
      | _ \<Rightarrow> Inl (''CANDIDATE_PROJECT_AMBIGUOUS'', False)))"

definition evolutionTargetIds :: "evolution_decision \<Rightarrow> string list" where
  "evolutionTargetIds d = sort (uniq (map fst (ed_targets d)))"

definition evolutionAllowsPublication :: "evolution_decision \<Rightarrow> bool" where
  "evolutionAllowsPublication d \<longleftrightarrow> (case ed_action d of
     None \<Rightarrow> False
   | Some a \<Rightarrow> \<not> ed_requiresConfirmation d \<and> a \<in> set [STORE, SUPPLEMENT, SUPERSEDE, SCOPE_SPLIT])"

definition collate_le :: "worker_env \<Rightarrow> string \<Rightarrow> string \<Rightarrow> bool" where
  "collate_le e l r \<longleftrightarrow> ee_collate (we_evolution e) l r \<le> 0"

definition mergeEvidence :: "worker_env \<Rightarrow> evidence_ref list \<Rightarrow> evidence_ref list \<Rightarrow> evidence_ref list" where
  "mergeEvidence e base fresh = sort_by (\<lambda>l r. collate_le e (er_evidenceId l) (er_evidenceId r))
     (map_values er_evidenceId (base @ fresh))"

definition evidenceRefs :: "worker_env \<Rightarrow> verification_result list \<Rightarrow> evidence_ref list" where
  "evidenceRefs e results = sort_by (\<lambda>l r. collate_le e (er_evidenceId l) (er_evidenceId r))
     (concat (map (\<lambda>r. case vr_evidence r of
        None \<Rightarrow> [] | Some v \<Rightarrow> [\<lparr>er_evidenceId = ev_evidenceId v, er_verdict = ev_verdict v\<rparr>]) results))"

fun relation_type_name :: "relation_type \<Rightarrow> string" where
  "relation_type_name relation_type.CONTRADICTS = ''CONTRADICTS''"
| "relation_type_name SUPERSEDES = ''SUPERSEDES''"
| "relation_type_name IMPLEMENTS = ''IMPLEMENTS''"
| "relation_type_name DERIVED_FROM = ''DERIVED_FROM''"
| "relation_type_name RELATED_TO = ''RELATED_TO''"
| "relation_type_name DUPLICATE_OF = ''DUPLICATE_OF''"

text \<open>\<open>canonical(relation)\<close>: the defined properties by collated name.\<close>

definition relation_text :: "worker_env \<Rightarrow> knowledge_relation \<Rightarrow> string" where
  "relation_text e r = ''{'' @ join_with '','' (map (\<lambda>(k, v). json_quote k @ '':'' @ v)
     (sort_by (\<lambda>a b. collate_le e (fst a) (fst b))
       ([(''type'', json_quote (relation_type_name (kr_type r))), (''targetId'', json_quote (kr_targetId r))]
        @ (case kr_targetVersion r of None \<Rightarrow> [] | Some n \<Rightarrow> [(''targetVersion'', show_int n)])
        @ (case kr_reason r of None \<Rightarrow> [] | Some t \<Rightarrow> [(''reason'', json_quote t)])))) @ ''}''"

definition evolution_relation_type :: "evolution_action \<Rightarrow> relation_type option" where
  "evolution_relation_type a = (if a = SUPERSEDE then Some SUPERSEDES else if a = SUPPLEMENT then Some DERIVED_FROM
     else if a = SCOPE_SPLIT then Some RELATED_TO else None)"

definition evolutionRelations :: "worker_env \<Rightarrow> evolution_decision \<Rightarrow> knowledge_asset option \<Rightarrow> knowledge_relation list" where
  "evolutionRelations e d base = (let relations = (case base of None \<Rightarrow> [] | Some b \<Rightarrow> as_relations b) in
     case ed_action d of None \<Rightarrow> relations
   | Some a \<Rightarrow> (case evolution_relation_type a of None \<Rightarrow> relations
     | Some t \<Rightarrow>
        (let added = map (\<lambda>(i, v). \<lparr>kr_type = t, kr_targetId = i, kr_targetVersion = Some v,
               kr_reason = Some (''EVOLUTION_'' @ action_name a)\<rparr>) (ed_targets d) in
         sort_by (\<lambda>l r. collate_le e (relation_text e l) (relation_text e r))
           (map_values (relation_text e) (relations @ added)))))"

text \<open>\<open>deduplicateCandidates\<close>: one candidate per id, and a conflict of payloads is an error.\<close>

fun unique_candidates :: "knowledge_candidate list \<Rightarrow> knowledge_candidate list \<Rightarrow> worker_error + knowledge_candidate list" where
  "unique_candidates [] seen = Inr seen"
| "unique_candidates (c # cs) seen = (case find (\<lambda>s. kc_candidateId s = kc_candidateId c) seen of
     None \<Rightarrow> unique_candidates cs (seen @ [c])
   | Some s \<Rightarrow> if s \<noteq> c then Inl (''CANDIDATE_ID_COLLISION'', False) else unique_candidates cs seen)"

definition deduplicateCandidates :: "worker_env \<Rightarrow> knowledge_candidate list \<Rightarrow> worker_error + knowledge_candidate list" where
  "deduplicateCandidates e candidates = and_then (unique_candidates candidates []) (\<lambda>unique.
     Inr (sort_by (\<lambda>l r. collate_le e (kc_candidateId l) (kc_candidateId r)) unique))"

section \<open>The asset\<close>

definition from_previous :: "(knowledge_asset \<Rightarrow> 'a list) \<Rightarrow> knowledge_asset option \<Rightarrow> 'a list" where
  "from_previous f previous = (case previous of None \<Rightarrow> [] | Some p \<Rightarrow> f p)"

definition kc_locator :: "knowledge_candidate \<Rightarrow> knowledge_locator option" where
  "kc_locator c = (case kc_localization c of Schema1 _ l \<Rightarrow> l | Schema2 _ l \<Rightarrow> Some l)"

definition from_locator :: "(knowledge_locator \<Rightarrow> string list) \<Rightarrow> knowledge_candidate \<Rightarrow> string list" where
  "from_locator f c = (case kc_locator c of None \<Rightarrow> [] | Some l \<Rightarrow> f l)"

definition asset_draft :: "worker_env \<Rightarrow> policy_record \<Rightarrow> evolution_record \<Rightarrow> knowledge_asset option \<Rightarrow> string \<Rightarrow> int
    \<Rightarrow> timestamp \<Rightarrow> timestamp \<Rightarrow> knowledge_asset" where
  "asset_draft e po ev previous assetId version createdAt updatedAt = (let c = po_candidate po in
     \<lparr>as_schemaVersion = (case kc_localization c of Schema1 _ _ \<Rightarrow> 1 | Schema2 _ _ \<Rightarrow> 2),
      as_id = assetId, as_subjectKey = kc_subjectKey c, as_kind = kc_kind c,
      as_scope = pd_effectiveScope (po_decision po), as_version = version,
      as_status = pd_targetStatus (po_decision po), as_title = kc_title c, as_summary = kc_summary c,
      as_body = kc_body c, as_aliases = from_previous as_aliases previous,
      as_keywords = sort (uniq (from_previous as_keywords previous @ split_on (CHR ''.'') (kc_subjectKey c))),
      as_applicability = sort (uniq (from_previous as_applicability previous @ from_locator kl_applicability c)),
      as_nonApplicability = sort (uniq (from_previous as_nonApplicability previous @ from_locator kl_nonApplicability c)),
      as_symbols = sort (uniq (from_previous as_symbols previous @ asserted_symbols c @ from_locator kl_symbols c)),
      as_relations = evolutionRelations e (er_decision ev) previous,
      as_evidence = mergeEvidence e (from_previous as_evidence previous) (evidenceRefs e (po_results po)),
      as_confidence = kc_confidence c,
      as_sourceEpisodes = sort (uniq (from_previous as_sourceEpisodes previous @ kc_sourceEpisodes c)),
      as_contentHash = [], as_codeFingerprint = None, as_correlationId = kc_correlationId c,
      as_createdAt = createdAt, as_updatedAt = updatedAt,
      as_claimMode = kc_claimMode c, as_locator = kc_locator c\<rparr>)"

definition buildAsset :: "worker_env \<Rightarrow> policy_record \<Rightarrow> evolution_record \<Rightarrow> knowledge_asset option \<Rightarrow> string \<Rightarrow> int
    \<Rightarrow> timestamp \<Rightarrow> timestamp \<Rightarrow> knowledge_asset" where
  "buildAsset e po ev previous assetId version createdAt updatedAt =
    (let draft = asset_draft e po ev previous assetId version createdAt updatedAt in
     draft\<lparr>as_contentHash := we_contentHash e draft\<rparr>)"

section \<open>EVOLUTION_MATCH\<close>

definition corrections_for :: "knowledge_candidate \<Rightarrow> correction_ref list \<Rightarrow> correction_ref list" where
  "corrections_for c drafts = filter (\<lambda>d. cr_candidateId d = kc_candidateId c) drafts"

definition resolution_request :: "worker_request \<Rightarrow> knowledge_candidate \<Rightarrow> project_context \<Rightarrow> resolution_input" where
  "resolution_request r c project = \<lparr>ci_candidate = c, ci_projectContext = project, ci_taskId = None,
     ci_userId = None, ci_teamId = None, ci_allowGlobal = wr_allowGlobal r, ci_projectTerms = wr_projectTerms r\<rparr>"

definition exact_target :: "read_result \<Rightarrow> worker_error + knowledge_asset option" where
  "exact_target x = (case x of
     ReadOk a \<Rightarrow> Inr (Some a) | ReadMissing \<Rightarrow> Inr None | ReadInvalid \<Rightarrow> Inl (''EVOLUTION_EXACT_READ_INVALID'', False))"

definition match_candidate :: "worker_env \<Rightarrow> worker_ports \<Rightarrow> worker_request \<Rightarrow> episode list \<Rightarrow> correction_ref list \<Rightarrow> nat
    \<Rightarrow> knowledge_candidate \<Rightarrow> worker_error + evolution_record" where
  "match_candidate e p r episodes drafts k c =
     and_then (projectForCandidate c episodes (wr_project r)) (\<lambda>project.
     and_then (map_error (\<lambda>_. unexpected) (resolveKnowledgeScope (resolution_request r c project))) (\<lambda>scope.
     and_then (external ''EVOLUTION_EXACT_READ_FAILED'' (wp_read p k (assetIdentity e c (so_scope scope)))) (\<lambda>x.
     and_then (exact_target x) (\<lambda>exact.
     and_then (external ''EVOLUTION_LOOKUP_FAILED'' (wp_search p k (evolutionQueries c) (wr_maxEvolutionCandidates r)))
       (\<lambda>retrieved.
     and_then (map_error (\<lambda>_. (''EVOLUTION_DECISION_INVALID'', False))
         (decideKnowledgeEvolution (we_evolution e)
           \<lparr>mi_candidate = c, mi_proposedScope = so_scope scope, mi_exactTarget = exact, mi_retrievedTargets = retrieved,
            mi_correctionRefs = Some (corrections_for c drafts)\<rparr>
           (map_option (\<lambda>j. j k) (wp_semantic p)))) (\<lambda>d.
     Inr \<lparr>er_candidate = c, er_scope = scope, er_decision = d\<rparr>))))))"

fun match_loop :: "worker_env \<Rightarrow> worker_ports \<Rightarrow> worker_request \<Rightarrow> episode list \<Rightarrow> correction_ref list \<Rightarrow> nat
    \<Rightarrow> knowledge_candidate list \<Rightarrow> worker_error + evolution_record list" where
  "match_loop e p r episodes drafts k [] = Inr []"
| "match_loop e p r episodes drafts k (c # cs) =
     and_then (match_candidate e p r episodes drafts k c) (\<lambda>x.
     and_then (match_loop e p r episodes drafts (Suc k) cs) (\<lambda>xs. Inr (x # xs)))"

definition evolution_match :: "worker_env \<Rightarrow> worker_ports \<Rightarrow> worker_request \<Rightarrow> episode list \<Rightarrow> correction_ref list
    \<Rightarrow> knowledge_candidate list \<Rightarrow> worker_error + evolution_record list" where
  "evolution_match e p r episodes drafts candidates =
     and_then (match_loop e p r episodes drafts 0 candidates) (\<lambda>records.
     Inr (sort_by (\<lambda>x y. collate_le e (kc_candidateId (er_candidate x)) (kc_candidateId (er_candidate y))) records))"

section \<open>CANDIDATE_POLICY\<close>

definition read_target :: "worker_ports \<Rightarrow> nat \<Rightarrow> evolution_decision \<Rightarrow> worker_error + knowledge_asset option" where
  "read_target p k d = (case ed_targets d of
     [] \<Rightarrow> Inr None
   | (i, v) # _ \<Rightarrow>
       and_then (external ''EVOLUTION_TARGET_READ_FAILED'' (wp_read p k i)) (\<lambda>x. case x of
         ReadMissing \<Rightarrow> Inl (''EVOLUTION_TARGET_STALE'', True)
       | ReadInvalid \<Rightarrow> Inl (''EVOLUTION_TARGET_READ_INVALID'', False)
       | ReadOk a \<Rightarrow> if as_version a \<noteq> v then Inl (''EVOLUTION_TARGET_STALE'', True) else Inr (Some a)))"

definition continuesLineage :: "evolution_decision \<Rightarrow> bool" where
  "continuesLineage d \<longleftrightarrow> ed_action d \<in> Some ` {SUPPLEMENT, SUPERSEDE, CONTRADICT, SKIP}"

definition extendsLineage :: "evolution_decision \<Rightarrow> bool" where
  "extendsLineage d \<longleftrightarrow> ed_action d \<in> Some ` {SUPPLEMENT, SUPERSEDE}"

definition supportedRejection :: "knowledge_candidate \<Rightarrow> verification_result list \<Rightarrow> bool" where
  "supportedRejection c results = list_ex (\<lambda>a. ka_kind a = USER_REJECTED
     \<and> list_ex (\<lambda>r. vr_assertionId r = ka_assertionId a \<and> vr_status r = SUPPORTED) results) (kc_assertions c)"

definition restrictiveTargetIds :: "knowledge_candidate \<Rightarrow> evolution_decision \<Rightarrow> verification_result list \<Rightarrow> string list" where
  "restrictiveTargetIds c d results =
    (if ed_action d = None \<or> (ed_requiresConfirmation d \<and> \<not> supportedRejection c results)
        \<or> (ed_action d = Some CONTRADICT \<and> \<not> supportedRejection c results)
     then (if length (evolutionTargetIds d) > 0 then evolutionTargetIds d else [''evolution:'' @ kc_candidateId c])
     else [])"

definition current_status :: "evolution_decision \<Rightarrow> knowledge_asset option \<Rightarrow> knowledge_status" where
  "current_status d target = (case target of
     Some t \<Rightarrow> (if continuesLineage d then as_status t else PROPOSED) | None \<Rightarrow> PROPOSED)"

definition policy_request :: "worker_request \<Rightarrow> project_context \<Rightarrow> evolution_record \<Rightarrow> knowledge_asset option
    \<Rightarrow> verification_result list \<Rightarrow> policy_input" where
  "policy_request r project ev target results = (let c = er_candidate ev; d = er_decision ev;
       conflicts = restrictiveTargetIds c d results in
     \<lparr>pi_candidate = c, pi_currentStatus = current_status d target, pi_resolvedScope = so_scope (er_scope ev),
      pi_projectScope = ProjectScope (pc_projectId project) (pc_repositoryRemote project),
      pi_projectSpecificSignals = so_signals (er_scope ev), pi_verificationResults = results,
      pi_policy = wr_verificationPolicy r, pi_verifiedProjects = None, pi_userExplicitlyApprovedGlobal = None,
      pi_conflictIds = (if length conflicts = 0 then None else Some conflicts),
      pi_adoptionAmbiguous = (if ed_action d = None then Some True else None),
      pi_contentRevisionRequested = (if extendsLineage d then Some True else None)\<rparr>)"

definition policy_of :: "worker_request \<Rightarrow> project_context \<Rightarrow> evolution_record \<Rightarrow> knowledge_asset option
    \<Rightarrow> verification_result list \<Rightarrow> policy_record" where
  "policy_of r project ev target results =
     \<lparr>po_candidate = er_candidate ev, po_currentStatus = current_status (er_decision ev) target,
      po_scope = er_scope ev, po_results = results,
      po_decision = evaluateEvidencePolicy (policy_request r project ev target results)\<rparr>"

text \<open>Whether the record is to be published, and under which identity.\<close>

definition publishes :: "evolution_record \<Rightarrow> policy_record \<Rightarrow> bool" where
  "publishes ev po \<longleftrightarrow> pd_shouldPublish (po_decision po)
     \<and> pd_effectiveScope (po_decision po) = ed_proposedScope (er_decision ev)
     \<and> evolutionAllowsPublication (er_decision ev)"

definition planned_id :: "worker_env \<Rightarrow> evolution_record \<Rightarrow> policy_record \<Rightarrow> knowledge_asset option \<Rightarrow> string" where
  "planned_id e ev po target = (case target of
     Some t \<Rightarrow> (if extendsLineage (er_decision ev) then as_id t
                else assetIdentity e (er_candidate ev) (pd_effectiveScope (po_decision po)))
   | None \<Rightarrow> assetIdentity e (er_candidate ev) (pd_effectiveScope (po_decision po)))"

definition current_asset :: "read_result \<Rightarrow> worker_error + knowledge_asset option" where
  "current_asset x = (case x of
     ReadOk a \<Rightarrow> Inr (Some a) | ReadMissing \<Rightarrow> Inr None | ReadInvalid \<Rightarrow> Inl (''MARKDOWN_CURRENT_INVALID'', False))"

text \<open>\<open>extendsLineage && (!current.ok || target === undefined || current.value.asset.version !== target.version)\<close>.\<close>

definition lineage_moved :: "evolution_record \<Rightarrow> knowledge_asset option \<Rightarrow> knowledge_asset option \<Rightarrow> bool" where
  "lineage_moved ev target current \<longleftrightarrow> extendsLineage (er_decision ev) \<and> (case (current, target) of
     (Some c, Some t) \<Rightarrow> as_version c \<noteq> as_version t | _ \<Rightarrow> True)"

definition next_item :: "worker_env \<Rightarrow> timestamp \<Rightarrow> evolution_record \<Rightarrow> policy_record \<Rightarrow> knowledge_asset option \<Rightarrow> string
    \<Rightarrow> knowledge_asset option \<Rightarrow> planned_asset" where
  "next_item e createdAt ev po target assetId current =
     \<lparr>pa_candidateId = kc_candidateId (er_candidate ev),
      pa_asset = buildAsset e po ev (if extendsLineage (er_decision ev) then target else None) assetId
        (case current of Some c \<Rightarrow> as_version c + 1 | None \<Rightarrow> 1)
        (case current of Some c \<Rightarrow> as_createdAt c | None \<Rightarrow> kc_createdAt (er_candidate ev)) createdAt,
      pa_expectedCurrentVersion = map_option as_version current\<rparr>"

type_synonym claims = "(string \<times> string) list"

definition claim_asset :: "string \<Rightarrow> string \<Rightarrow> claims \<Rightarrow> worker_error + claims" where
  "claim_asset assetId candidateId claimed = (case map_of claimed assetId of
     None \<Rightarrow> Inr ((assetId, candidateId) # claimed)
   | Some other \<Rightarrow> if other \<noteq> candidateId then Inl (''ASSET_IDENTITY_COLLISION'', False)
                  else Inr ((assetId, candidateId) # claimed))"

definition plan_item :: "worker_env \<Rightarrow> worker_ports \<Rightarrow> timestamp \<Rightarrow> nat \<Rightarrow> evolution_record \<Rightarrow> policy_record
    \<Rightarrow> knowledge_asset option \<Rightarrow> claims \<Rightarrow> worker_error + claims \<times> planned_asset" where
  "plan_item e p createdAt k ev po target claimed = (let assetId = planned_id e ev po target in
     and_then (claim_asset assetId (kc_candidateId (er_candidate ev)) claimed) (\<lambda>claimed'.
     and_then (external ''MARKDOWN_CURRENT_READ_FAILED'' (wp_read p k assetId)) (\<lambda>x.
     and_then (current_asset x) (\<lambda>current.
     and_then (ensure (\<not> lineage_moved ev target current) (''EVOLUTION_TARGET_STALE'', True)) (\<lambda>_.
     Inr (claimed', next_item e createdAt ev po target assetId current))))))"

text \<open>One pass of the loop: the policy record, the claims and what is added to the outbox.\<close>

definition plan_candidate :: "worker_env \<Rightarrow> worker_ports \<Rightarrow> worker_request \<Rightarrow> episode list \<Rightarrow> timestamp \<Rightarrow> nat
    \<Rightarrow> evolution_record \<Rightarrow> claims \<Rightarrow> worker_error + policy_record \<times> claims \<times> planned_asset list" where
  "plan_candidate e p r episodes createdAt k ev claimed =
     and_then (projectForCandidate (er_candidate ev) episodes (wr_project r)) (\<lambda>project.
     and_then (external ''EVIDENCE_VERIFICATION_FAILED'' (wp_verify p k (er_candidate ev) project)) (\<lambda>results.
     and_then (read_target p k (er_decision ev)) (\<lambda>target.
     let po = policy_of r project ev target results in
     if publishes ev po then
       and_then (plan_item e p createdAt (Suc k) ev po target claimed) (\<lambda>(claimed', item). Inr (po, claimed', [item]))
     else Inr (po, claimed, []))))"

fun plan_loop :: "worker_env \<Rightarrow> worker_ports \<Rightarrow> worker_request \<Rightarrow> episode list \<Rightarrow> timestamp \<Rightarrow> nat \<Rightarrow> evolution_record list
    \<Rightarrow> claims \<Rightarrow> worker_error + (policy_record list \<times> planned_asset list)" where
  "plan_loop e p r episodes createdAt k [] claimed = Inr ([], [])"
| "plan_loop e p r episodes createdAt k (ev # evs) claimed =
     and_then (plan_candidate e p r episodes createdAt k ev claimed) (\<lambda>(po, claimed', items).
     and_then (plan_loop e p r episodes createdAt (k + 2) evs claimed') (\<lambda>(pos, outbox).
     Inr (po # pos, items @ outbox)))"

definition candidate_policy :: "worker_env \<Rightarrow> worker_ports \<Rightarrow> worker_request \<Rightarrow> episode list \<Rightarrow> timestamp \<Rightarrow> nat
    \<Rightarrow> evolution_record list \<Rightarrow> worker_error + (policy_record list \<times> planned_asset list)" where
  "candidate_policy e p r episodes createdAt k records =
     and_then (plan_loop e p r episodes createdAt k records []) (\<lambda>(policies, outbox).
     and_then (ensure (\<not> int (length outbox) > wr_maxPublishItems r) (''PUBLISH_BATCH_LIMIT_EXCEEDED'', False)) (\<lambda>_.
     Inr (policies, outbox)))"

end
