(* ===== verification/PlanProps.thy ===== *)
theory PlanProps
  imports KnowledgePlan EvolutionProps ScopeProps PolicyProps
begin

text \<open>What the knowledge worker puts into its outbox: facts about the two stages, then the properties.\<close>

section \<open>Candidates\<close>

lemma unique_candidates_facts:
  assumes "unique_candidates cs seen = Inr out" and "distinct (map kc_candidateId seen)"
  shows "set out = set seen \<union> set cs \<and> distinct (map kc_candidateId out)"
  using assms
proof (induction cs arbitrary: seen)
  case (Cons c cs)
  show ?case
  proof (cases "find (\<lambda>s. kc_candidateId s = kc_candidateId c) seen")
    case None
    then have "distinct (map kc_candidateId (seen @ [c]))" using Cons.prems(2) by (auto simp: find_None_conv)
    with None Cons.prems(1) Cons.IH[of "seen @ [c]"] show ?thesis by auto
  next
    case (Some s)
    with Cons.prems(1) have s: "s = c" "unique_candidates cs seen = Inr out" by (auto split: if_splits)
    with Some have "c \<in> set seen" by (auto dest: find_SomeD)
    then show ?thesis using Cons.IH[OF s(2) Cons.prems(2)] by auto
  qed
qed simp

lemma deduplicated_distinct:
  assumes "deduplicateCandidates e cs = Inr out"
  shows "distinct (map kc_candidateId out) \<and> set out = set cs"
  using assms unique_candidates_facts[of cs "[]"] by (auto simp: deduplicateCandidates_def)

section \<open>The match stage\<close>

lemma external_Inr: "external code r = Inr x \<longleftrightarrow> r = Inr x"
  by (auto simp: external_def map_error_def split: sum.splits)

lemma map_error_Inr: "map_error f r = Inr x \<longleftrightarrow> r = Inr x"
  by (auto simp: map_error_def split: sum.splits)

text \<open>What a record of the match stage was made from.\<close>

definition matched :: "worker_env \<Rightarrow> worker_request \<Rightarrow> episode list \<Rightarrow> evolution_record \<Rightarrow> bool" where
  "matched e r episodes ev \<longleftrightarrow> (\<exists>project i semantic.
     projectForCandidate (er_candidate ev) episodes (wr_project r) = Inr project
   \<and> resolveKnowledgeScope (resolution_request r (er_candidate ev) project) = Inr (er_scope ev)
   \<and> mi_candidate i = er_candidate ev \<and> mi_proposedScope i = so_scope (er_scope ev)
   \<and> decideKnowledgeEvolution (we_evolution e) i semantic = Inr (er_decision ev))"

lemma match_candidate_matched:
  assumes "match_candidate e p r episodes drafts k c = Inr ev"
  shows "matched e r episodes ev \<and> er_candidate ev = c"
proof -
  obtain project scope exact retrieved d where m: "projectForCandidate c episodes (wr_project r) = Inr project"
    "resolveKnowledgeScope (resolution_request r c project) = Inr scope"
    "decideKnowledgeEvolution (we_evolution e)
       \<lparr>mi_candidate = c, mi_proposedScope = so_scope scope, mi_exactTarget = exact, mi_retrievedTargets = retrieved,
        mi_correctionRefs = Some (corrections_for c drafts)\<rparr> (map_option (\<lambda>j. j k) (wp_semantic p)) = Inr d"
    "ev = \<lparr>er_candidate = c, er_scope = scope, er_decision = d\<rparr>"
    using assms by (auto simp: match_candidate_def external_Inr map_error_Inr)
  show ?thesis unfolding matched_def
    by (rule conjI, rule exI[of _ project], rule exI, rule exI) (use m in auto)
qed

lemma match_loop_facts:
  "match_loop e p r episodes drafts k cs = Inr evs \<Longrightarrow> map er_candidate evs = cs \<and> list_all (matched e r episodes) evs"
  by (induction cs arbitrary: k evs) (auto dest!: match_candidate_matched)

lemma evolution_match_facts:
  assumes "evolution_match e p r episodes drafts cs = Inr evs"
  shows "set (map er_candidate evs) = set cs" and "\<And>ev. ev \<in> set evs \<Longrightarrow> matched e r episodes ev"
    and "distinct (map kc_candidateId cs) \<Longrightarrow> distinct (map (\<lambda>ev. kc_candidateId (er_candidate ev)) evs)"
proof -
  obtain xs where x: "match_loop e p r episodes drafts 0 cs = Inr xs" "set evs = set xs"
    "distinct (map (\<lambda>ev. kc_candidateId (er_candidate ev)) evs) = distinct (map (\<lambda>ev. kc_candidateId (er_candidate ev)) xs)"
    using assms by (auto simp: evolution_match_def)
  note f = match_loop_facts[OF x(1)]
  show "set (map er_candidate evs) = set cs" using f x(2) by auto
  show "matched e r episodes ev" if "ev \<in> set evs" for ev using f x(2) that by (auto simp: list_all_iff)
  have "map (\<lambda>ev. kc_candidateId (er_candidate ev)) xs = map kc_candidateId cs" using f by auto
  then show "distinct (map kc_candidateId cs) \<Longrightarrow> distinct (map (\<lambda>ev. kc_candidateId (er_candidate ev)) evs)"
    using x(3) by simp
qed

section \<open>The policy stage\<close>

text \<open>How an item of the outbox came about.\<close>

lemma plan_candidate_item:
  assumes "plan_candidate e p r episodes createdAt k ev claimed = Inr (po, claimed', items)" and "x \<in> set items"
  obtains project results target current where "items = [x]"
    "projectForCandidate (er_candidate ev) episodes (wr_project r) = Inr project"
    "wp_verify p k (er_candidate ev) project = Inr results"
    "read_target p k (er_decision ev) = Inr target" "po = policy_of r project ev target results" "publishes ev po"
    "claim_asset (planned_id e ev po target) (kc_candidateId (er_candidate ev)) claimed = Inr claimed'"
    "\<not> lineage_moved ev target current"
    "x = next_item e createdAt ev po target (planned_id e ev po target) current"
    "wp_read p (Suc k) (planned_id e ev po target) = Inr (case current of Some a \<Rightarrow> ReadOk a | None \<Rightarrow> ReadMissing)"
proof -
  obtain project results target where c: "projectForCandidate (er_candidate ev) episodes (wr_project r) = Inr project"
    "wp_verify p k (er_candidate ev) project = Inr results" "read_target p k (er_decision ev) = Inr target"
    "po = policy_of r project ev target results" "publishes ev po"
    "plan_item e p createdAt (Suc k) ev po target claimed = Inr (claimed', x)" "items = [x]"
    using assms by (auto simp: plan_candidate_def external_Inr Let_def split: if_splits)
  then obtain y current where i: "claim_asset (planned_id e ev po target) (kc_candidateId (er_candidate ev)) claimed = Inr claimed'"
    "wp_read p (Suc k) (planned_id e ev po target) = Inr y" "current_asset y = Inr current"
    "\<not> lineage_moved ev target current" "x = next_item e createdAt ev po target (planned_id e ev po target) current"
    by (auto simp: plan_item_def external_Inr Let_def)
  have "y = (case current of Some a \<Rightarrow> ReadOk a | None \<Rightarrow> ReadMissing)"
    using i(3) by (auto simp: current_asset_def split: read_result.splits)
  then show thesis using that c i by blast
qed

lemma plan_candidate_idle:
  "plan_candidate e p r episodes createdAt k ev claimed = Inr (po, claimed', []) \<Longrightarrow> claimed' = claimed"
  by (auto simp: plan_candidate_def external_Inr Let_def split: if_splits)

lemma plan_candidate_items:
  "plan_candidate e p r episodes createdAt k ev claimed = Inr (po, claimed', items) \<Longrightarrow> items = [] \<or> (\<exists>x. items = [x])"
  by (auto simp: plan_candidate_def external_Inr Let_def split: if_splits)

lemma plan_loop_item:
  assumes "plan_loop e p r episodes createdAt k evs claimed = Inr (pos, outbox)" and "x \<in> set outbox"
  shows "\<exists>ev \<in> set evs. \<exists>po \<in> set pos. \<exists>j before after. plan_candidate e p r episodes createdAt j ev before = Inr (po, after, [x])"
  using assms
proof (induction evs arbitrary: k claimed pos outbox)
  case (Cons ev evs)
  then obtain po claimed' items pos' outbox' where
    c: "plan_candidate e p r episodes createdAt k ev claimed = Inr (po, claimed', items)"
    and l: "plan_loop e p r episodes createdAt (k + 2) evs claimed' = Inr (pos', outbox')"
    and o': "pos = po # pos'" "outbox = items @ outbox'" by auto
  show ?case
  proof (cases "x \<in> set items")
    case True
    then have "items = [x]" using plan_candidate_items[OF c] by auto
    then show ?thesis using c o' by auto
  next
    case False
    then have "x \<in> set outbox'" using Cons.prems(2) o' by simp
    then show ?thesis using Cons.IH[OF l] o' by fastforce
  qed
qed simp

lemma item_id: "as_id (pa_asset (next_item e t ev po target i current)) = i"
  by (simp add: next_item_def buildAsset_def asset_draft_def Let_def)

lemma claim_fresh:
  assumes "claim_asset i c claimed = Inr claimed'" and "c \<notin> snd ` set claimed"
  shows "i \<notin> fst ` set claimed \<and> claimed' = (i, c) # claimed"
proof (cases "map_of claimed i")
  case None
  then show ?thesis using assms(1) by (simp add: claim_asset_def) (simp add: map_of_eq_None_iff)
next
  case (Some other)
  then have "(i, other) \<in> set claimed" by (rule map_of_SomeD)
  then show ?thesis using assms Some by (force simp: claim_asset_def split: if_splits)
qed

lemma plan_loop_distinct:
  assumes "plan_loop e p r episodes createdAt k evs claimed = Inr (pos, outbox)"
    and "distinct (map (\<lambda>ev. kc_candidateId (er_candidate ev)) evs)"
    and "snd ` set claimed \<inter> (\<lambda>ev. kc_candidateId (er_candidate ev)) ` set evs = {}"
  shows "distinct (map (\<lambda>x. as_id (pa_asset x)) outbox) \<and> fst ` set claimed \<inter> (\<lambda>x. as_id (pa_asset x)) ` set outbox = {}"
  using assms
proof (induction evs arbitrary: k claimed pos outbox)
  case (Cons ev evs)
  then obtain po claimed' items pos' outbox' where
    c: "plan_candidate e p r episodes createdAt k ev claimed = Inr (po, claimed', items)"
    and l: "plan_loop e p r episodes createdAt (k + 2) evs claimed' = Inr (pos', outbox')"
    and o': "pos = po # pos'" "outbox = items @ outbox'" by auto
  show ?case
  proof (cases items)
    case Nil
    then show ?thesis using Cons.IH[OF l] Cons.prems(2,3) plan_candidate_idle[of e p r episodes createdAt k ev claimed po claimed'] c o'
      by auto
  next
    case (Cons x xs)
    have i: "items = [x]" using plan_candidate_items[OF c] Cons by auto
    obtain a where a: "as_id (pa_asset x) = a" "claim_asset a (kc_candidateId (er_candidate ev)) claimed = Inr claimed'"
      by (rule plan_candidate_item[OF c, of x]) (use i item_id in auto)
    have f: "a \<notin> fst ` set claimed" "claimed' = (a, kc_candidateId (er_candidate ev)) # claimed"
      using claim_fresh[OF a(2)] Cons.prems(3) by auto
    then show ?thesis using Cons.IH[OF l] Cons.prems(2,3) i o' a(1) by auto
  qed
qed simp

lemma candidate_policy_plan:
  assumes "candidate_policy e p r episodes createdAt k evs = Inr (pos, outbox)"
  shows "plan_loop e p r episodes createdAt k evs [] = Inr (pos, outbox) \<and> int (length outbox) \<le> wr_maxPublishItems r"
  using assms by (auto simp: candidate_policy_def)

section \<open>What an item carries\<close>

lemma item_fields:
  "pa_candidateId (next_item e t ev po target i current) = kc_candidateId (er_candidate ev)"
  "pa_expectedCurrentVersion (next_item e t ev po target i current) = map_option as_version current"
  "as_version (pa_asset (next_item e t ev po target i current)) = (case current of Some c \<Rightarrow> as_version c + 1 | None \<Rightarrow> 1)"
  "as_status (pa_asset (next_item e t ev po target i current)) = pd_targetStatus (po_decision po)"
  "as_scope (pa_asset (next_item e t ev po target i current)) = pd_effectiveScope (po_decision po)"
  "as_createdAt (pa_asset (next_item e t ev po target i current))
    = (case current of Some c \<Rightarrow> as_createdAt c | None \<Rightarrow> kc_createdAt (er_candidate ev))"
  by (simp_all add: next_item_def buildAsset_def asset_draft_def Let_def)

lemma matched_scope:
  assumes "matched e r episodes ev"
  obtains project where "projectForCandidate (er_candidate ev) episodes (wr_project r) = Inr project"
    "ed_proposedScope (er_decision ev) = so_scope (er_scope ev)"
    "scope_earned (resolution_request r (er_candidate ev) project) (er_scope ev)"
proof -
  obtain project i semantic where m: "projectForCandidate (er_candidate ev) episodes (wr_project r) = Inr project"
    "resolveKnowledgeScope (resolution_request r (er_candidate ev) project) = Inr (er_scope ev)"
    "mi_proposedScope i = so_scope (er_scope ev)"
    "decideKnowledgeEvolution (we_evolution e) i semantic = Inr (er_decision ev)"
    using assms by (auto simp: matched_def)
  obtain chosen where "shaped i (er_decision ev) chosen" using m(4) by (rule decide_shaped) blast
  then show thesis using that m resolved_scope_earned[OF m(2)] by (simp add: shaped_def)
qed

text \<open>What the policy lets through is bound to the project and rests on its evidence.\<close>

lemma published_policy:
  assumes "publishes ev (policy_of r project ev target results)"
  shows "pd_targetStatus (po_decision (policy_of r project ev target results)) \<in> {ACCEPTED, knowledge_status.IMPLEMENTED, VERIFIED}"
    and "scope_level_of (pd_effectiveScope (po_decision (policy_of r project ev target results))) \<noteq> GLOBAL"
    and "\<exists>v \<in> set results. \<exists>x. vr_evidence v = Some x \<and> ev_verdict x = SUPPORTS
      \<and> vr_assertionKind v \<in> {USER_ACCEPTED, SYMBOL_EXISTS, TEST_PASSED} \<and> ev_projectId x = Some (pc_projectId project)"
proof -
  let ?i = "policy_request r project ev target results"
  have d: "po_decision (policy_of r project ev target results) = evaluateEvidencePolicy ?i" by (simp add: policy_of_def)
  have p: "pd_shouldPublish (evaluateEvidencePolicy ?i)" using assms by (simp add: publishes_def d)
  have f: "pi_userExplicitlyApprovedGlobal ?i = None" "pi_verifiedProjects ?i = None"
    "scope_projectId (pi_projectScope ?i) = Some (pc_projectId project)" "pi_verificationResults ?i = results"
    by (simp_all add: policy_request_def Let_def)
  note ev = published_evidence[OF p]
  have "vo_minVerifiedProjects (pi_policy ?i) \<ge> 2" using ev by (auto simp: validateInput_def policy_ok_def)
  then show "scope_level_of (pd_effectiveScope (po_decision (policy_of r project ev target results))) \<noteq> GLOBAL"
    using global_publication_guarded[OF p] unfolding d by (auto simp: f opt_list_def)
  show "pd_targetStatus (po_decision (policy_of r project ev target results)) \<in> {ACCEPTED, knowledge_status.IMPLEMENTED, VERIFIED}"
    using ev unfolding d by blast
  show "\<exists>v \<in> set results. \<exists>x. vr_evidence v = Some x \<and> ev_verdict x = SUPPORTS
      \<and> vr_assertionKind v \<in> {USER_ACCEPTED, SYMBOL_EXISTS, TEST_PASSED} \<and> ev_projectId x = Some (pc_projectId project)"
    using ev unfolding f by blast
qed

lemma request_scope_levels:
  assumes "scope_earned (resolution_request r c project) res" and "scope_level_of (so_scope res) \<noteq> GLOBAL"
  shows "scope_level_of (so_scope res) \<in> {SYMBOL, MODULE, PROJECT} \<and> scope_projectId (so_scope res) = Some (pc_projectId project)"
  using assms by (cases "so_scope res") (auto simp: scope_earned_def Let_def resolution_request_def)

lemma item_origin:
  assumes "candidate_policy e p r episodes createdAt k records = Inr (policies, outbox)" and "x \<in> set outbox"
  obtains ev po j project results target current where "ev \<in> set records"
    "read_target p j (er_decision ev) = Inr target" "po = policy_of r project ev target results"
    "\<not> lineage_moved ev target current"
    "x = next_item e createdAt ev po target (planned_id e ev po target) current"
    "wp_read p (Suc j) (planned_id e ev po target) = Inr (case current of Some a \<Rightarrow> ReadOk a | None \<Rightarrow> ReadMissing)"
proof -
  obtain ev po j before after where ev: "ev \<in> set records" "plan_candidate e p r episodes createdAt j ev before = Inr (po, after, [x])"
    using plan_loop_item[of e p r episodes createdAt k records "[]" policies outbox x] candidate_policy_plan[OF assms(1)] assms(2) by blast
  show thesis by (rule plan_candidate_item[OF ev(2), of x]) (use that ev(1) in auto)
qed

lemma read_target_Some:
  assumes "read_target p j d = Inr (Some t)"
  shows "\<exists>i rest. ed_targets d = (i, as_version t) # rest \<and> wp_read p j i = Inr (ReadOk t)"
proof -
  obtain i v rest y where y: "ed_targets d = (i, v) # rest" "wp_read p j i = Inr y"
    and c: "(case y of ReadMissing \<Rightarrow> Inl (''EVOLUTION_TARGET_STALE'', True)
       | ReadInvalid \<Rightarrow> Inl (''EVOLUTION_TARGET_READ_INVALID'', False)
       | ReadOk a \<Rightarrow> if as_version a \<noteq> v then Inl (''EVOLUTION_TARGET_STALE'', True) else Inr (Some a)) = Inr (Some t)"
    using assms by (auto simp: read_target_def external_Inr split: list.splits)
  show ?thesis using c y by (cases y) (auto split: if_splits)
qed

text \<open>The asset keeps what the version before it held.\<close>

definition keeps_asset :: "worker_env \<Rightarrow> knowledge_asset \<Rightarrow> knowledge_asset \<Rightarrow> bool" where
  "keeps_asset e t a \<longleftrightarrow> as_aliases a = as_aliases t
     \<and> list_all (\<lambda>f. set (f t) \<subseteq> set (f a)) [as_keywords, as_applicability, as_nonApplicability, as_symbols, as_sourceEpisodes]
     \<and> er_evidenceId ` set (as_evidence t) \<subseteq> er_evidenceId ` set (as_evidence a)
     \<and> relation_text e ` set (as_relations t) \<subseteq> relation_text e ` set (as_relations a)"

lemma map_values_key_set: "key ` set (map_values key xs) = key ` set xs"
  using arg_cong[OF map_values_keys[of key xs], of set] by simp

lemma relations_kept: "relation_text e ` set (from_previous as_relations base) \<subseteq> relation_text e ` set (evolutionRelations e d base)"
  by (auto simp: evolutionRelations_def Let_def from_previous_def map_values_key_set image_Un split: option.splits)

lemma relation_added:
  assumes "ed_action d = Some a" and "evolution_relation_type a = Some t" and "(i, v) \<in> set (ed_targets d)"
  shows "relation_text e \<lparr>kr_type = t, kr_targetId = i, kr_targetVersion = Some v, kr_reason = Some (''EVOLUTION_'' @ action_name a)\<rparr>
    \<in> relation_text e ` set (evolutionRelations e d base)"
  using assms by (force simp: evolutionRelations_def Let_def map_values_key_set image_Un)

lemma built_keeps: "keeps_asset e t (buildAsset e po ev (Some t) i v c u)"
proof -
  have "er_evidenceId ` set xs \<subseteq> er_evidenceId ` set (mergeEvidence e xs ys)" for xs ys
    by (simp add: mergeEvidence_def map_values_key_set image_Un)
  then show ?thesis using relations_kept[of e "Some t"]
    by (simp add: keeps_asset_def buildAsset_def asset_draft_def Let_def from_previous_def)
qed

section \<open>Properties\<close>

text \<open>
  C11: Everything the worker plans to publish is earned by all three judges. An item of the outbox comes
  from one of the candidates; the evolution decision stores, supplements, supersedes or splits and needs
  no confirmation; its scope is the resolved one, bound to the candidate's own project and never a task,
  user, team or global scope; its status is publishable; and among the verification results of that
  candidate is supporting evidence, observed in that project, for a user acceptance or a required symbol
  or test.
\<close>
theorem published_knowledge_is_earned:
  assumes "evolution_match e p r episodes drafts candidates = Inr records"
    and "candidate_policy e p r episodes createdAt k records = Inr (policies, outbox)" and "x \<in> set outbox"
  shows "\<exists>ev \<in> set records. \<exists>project results j. er_candidate ev \<in> set candidates
    \<and> pa_candidateId x = kc_candidateId (er_candidate ev)
    \<and> projectForCandidate (er_candidate ev) episodes (wr_project r) = Inr project
    \<and> ed_action (er_decision ev) \<in> Some ` {STORE, SUPPLEMENT, SUPERSEDE, SCOPE_SPLIT}
    \<and> \<not> ed_requiresConfirmation (er_decision ev)
    \<and> as_scope (pa_asset x) = so_scope (er_scope ev)
    \<and> scope_level_of (as_scope (pa_asset x)) \<in> {SYMBOL, MODULE, PROJECT}
    \<and> scope_projectId (as_scope (pa_asset x)) = Some (pc_projectId project)
    \<and> as_status (pa_asset x) \<in> {ACCEPTED, knowledge_status.IMPLEMENTED, VERIFIED}
    \<and> wp_verify p j (er_candidate ev) project = Inr results
    \<and> (\<exists>v \<in> set results. \<exists>y. vr_evidence v = Some y \<and> ev_verdict y = SUPPORTS
        \<and> vr_assertionKind v \<in> {USER_ACCEPTED, SYMBOL_EXISTS, TEST_PASSED} \<and> ev_projectId y = Some (pc_projectId project))"
proof -
  note m = evolution_match_facts[OF assms(1)]
  obtain ev po j before after where ev: "ev \<in> set records" "plan_candidate e p r episodes createdAt j ev before = Inr (po, after, [x])"
    using plan_loop_item[of e p r episodes createdAt k records "[]" policies outbox x] candidate_policy_plan[OF assms(2)] assms(3) by blast
  obtain project results target current where c: "projectForCandidate (er_candidate ev) episodes (wr_project r) = Inr project"
    "wp_verify p j (er_candidate ev) project = Inr results" "po = policy_of r project ev target results" "publishes ev po"
    "x = next_item e createdAt ev po target (planned_id e ev po target) current"
    by (rule plan_candidate_item[OF ev(2), of x]) auto
  obtain project' where s: "projectForCandidate (er_candidate ev) episodes (wr_project r) = Inr project'"
    "ed_proposedScope (er_decision ev) = so_scope (er_scope ev)"
    "scope_earned (resolution_request r (er_candidate ev) project') (er_scope ev)"
    using m(2)[OF ev(1)] by (rule matched_scope)
  have scope: "as_scope (pa_asset x) = so_scope (er_scope ev)" using c(4) s(2) by (simp add: c(5) item_fields publishes_def)
  note pub = published_policy[OF c(4)[unfolded c(3)], folded c(3)]
  have "scope_level_of (so_scope (er_scope ev)) \<noteq> GLOBAL" using pub(2) scope by (simp add: c(5) item_fields)
  then have lv: "scope_level_of (so_scope (er_scope ev)) \<in> {SYMBOL, MODULE, PROJECT}"
    "scope_projectId (so_scope (er_scope ev)) = Some (pc_projectId project)"
    using request_scope_levels[OF s(3)] s(1) c(1) by auto
  have act: "ed_action (er_decision ev) \<in> Some ` {STORE, SUPPLEMENT, SUPERSEDE, SCOPE_SPLIT} \<and> \<not> ed_requiresConfirmation (er_decision ev)"
    using c(4) by (auto simp: publishes_def evolutionAllowsPublication_def split: option.splits)
  have "er_candidate ev \<in> set candidates" using m(1) ev(1) by force
  moreover have "pa_candidateId x = kc_candidateId (er_candidate ev)" "as_status (pa_asset x) \<in> {ACCEPTED, knowledge_status.IMPLEMENTED, VERIFIED}"
    using pub(1) by (simp_all add: c(5) item_fields)
  ultimately show ?thesis using ev(1) c(1,2) act lv pub(3) scope by metis
qed

text \<open>
  C12: The outbox never forks an asset. For candidates with distinct ids, no two items share an asset id
  and there are at most as many as the limit allows; each item is version 1 of an id that was read as
  missing, or one version after the asset that was read, keeping its creation date, and in both cases it
  expects to replace exactly what was read.
\<close>
theorem outbox_never_forks:
  assumes "evolution_match e p r episodes drafts candidates = Inr records"
    and "candidate_policy e p r episodes createdAt k records = Inr (policies, outbox)"
    and "distinct (map kc_candidateId candidates)"
  shows "distinct (map (\<lambda>x. as_id (pa_asset x)) outbox) \<and> int (length outbox) \<le> wr_maxPublishItems r
    \<and> (\<forall>x \<in> set outbox. \<exists>j. case pa_expectedCurrentVersion x of
         None \<Rightarrow> as_version (pa_asset x) = 1 \<and> wp_read p j (as_id (pa_asset x)) = Inr ReadMissing
       | Some v \<Rightarrow> as_version (pa_asset x) = v + 1 \<and> (\<exists>a. wp_read p j (as_id (pa_asset x)) = Inr (ReadOk a)
           \<and> as_version a = v \<and> as_createdAt (pa_asset x) = as_createdAt a))"
proof -
  note l = candidate_policy_plan[OF assms(2)]
  have d: "distinct (map (\<lambda>x. as_id (pa_asset x)) outbox)"
    using plan_loop_distinct[of e p r episodes createdAt k records "[]" policies outbox] l evolution_match_facts(3)[OF assms(1,3)] by simp
  have "\<exists>j. case pa_expectedCurrentVersion x of
       None \<Rightarrow> as_version (pa_asset x) = 1 \<and> wp_read p j (as_id (pa_asset x)) = Inr ReadMissing
     | Some v \<Rightarrow> as_version (pa_asset x) = v + 1 \<and> (\<exists>a. wp_read p j (as_id (pa_asset x)) = Inr (ReadOk a)
         \<and> as_version a = v \<and> as_createdAt (pa_asset x) = as_createdAt a)" if x: "x \<in> set outbox" for x
  proof (rule item_origin[OF assms(2) x])
    fix ev po j target current
    assume "x = next_item e createdAt ev po target (planned_id e ev po target) current"
      and "wp_read p (Suc j) (planned_id e ev po target) = Inr (case current of Some a \<Rightarrow> ReadOk a | None \<Rightarrow> ReadMissing)"
    then show ?thesis by (intro exI[of _ "Suc j"]) (simp add: item_fields item_id split: option.splits)
  qed
  then show ?thesis using d l by blast
qed

text \<open>
  C27: A revision continues its lineage. For candidates with distinct ids, an item whose decision
  supplements or supersedes is the version after its target, which was read at the version the decision
  names and still is the current one; it keeps the target's id, aliases, keywords, boundaries, symbols,
  source episodes, evidence and relations, and adds a relation to every target version.
\<close>
theorem revision_keeps_lineage:
  assumes "evolution_match e p r episodes drafts candidates = Inr records"
    and "candidate_policy e p r episodes createdAt k records = Inr (policies, outbox)"
    and "distinct (map kc_candidateId candidates)" and "x \<in> set outbox"
    and "ev \<in> set records" and "kc_candidateId (er_candidate ev) = pa_candidateId x"
    and "ed_action (er_decision ev) = Some a" and "a \<in> {SUPPLEMENT, SUPERSEDE}"
  shows "\<exists>t j i rest. ed_targets (er_decision ev) = (i, as_version t) # rest \<and> wp_read p j i = Inr (ReadOk t)
    \<and> as_id (pa_asset x) = as_id t \<and> as_version (pa_asset x) = as_version t + 1
    \<and> pa_expectedCurrentVersion x = Some (as_version t) \<and> keeps_asset e t (pa_asset x)
    \<and> (\<forall>(i', v) \<in> set (ed_targets (er_decision ev)).
         relation_text e \<lparr>kr_type = (if a = SUPERSEDE then SUPERSEDES else DERIVED_FROM), kr_targetId = i',
             kr_targetVersion = Some v, kr_reason = Some (''EVOLUTION_'' @ action_name a)\<rparr>
           \<in> relation_text e ` set (as_relations (pa_asset x)))"
proof (rule item_origin[OF assms(2,4)])
  fix ev' po j project results target current
  assume ev': "ev' \<in> set records" and t: "read_target p j (er_decision ev') = Inr target"
    and still: "\<not> lineage_moved ev' target current"
    and x: "x = next_item e createdAt ev' po target (planned_id e ev' po target) current"
  have "ev' = ev"
    using evolution_match_facts(3)[OF assms(1,3)] ev' assms(5,6) x by (auto simp: item_fields distinct_map inj_on_def)
  note t = t[unfolded this] and still = still[unfolded this] and x = x[unfolded this]
  have ext: "extendsLineage (er_decision ev)" using assms(7,8) by (auto simp: extendsLineage_def)
  obtain c u where c: "current = Some c" "target = Some u" "as_version c = as_version u"
    using still ext by (auto simp: lineage_moved_def split: option.splits)
  have id: "planned_id e ev po target = as_id u" using c ext by (simp add: planned_id_def)
  have ru: "\<exists>i rest. ed_targets (er_decision ev) = (i, as_version u) # rest \<and> wp_read p j i = Inr (ReadOk u)"
    using read_target_Some t c(2) by blast
  have asset: "pa_asset x = buildAsset e po ev (Some u) (as_id u) (as_version u + 1) (as_createdAt c) createdAt"
    using ext by (simp add: x next_item_def c id[unfolded c(2)])
  have type: "evolution_relation_type a = Some (if a = SUPERSEDE then SUPERSEDES else DERIVED_FROM)"
    using assms(8) by (auto simp: evolution_relation_type_def)
  have "as_relations (pa_asset x) = evolutionRelations e (er_decision ev) (Some u)"
    by (simp add: asset buildAsset_def asset_draft_def Let_def)
  then have "\<forall>(i', v) \<in> set (ed_targets (er_decision ev)).
      relation_text e \<lparr>kr_type = (if a = SUPERSEDE then SUPERSEDES else DERIVED_FROM), kr_targetId = i',
        kr_targetVersion = Some v, kr_reason = Some (''EVOLUTION_'' @ action_name a)\<rparr>
      \<in> relation_text e ` set (as_relations (pa_asset x))"
    using relation_added[OF assms(7) type] by auto
  moreover have "as_id (pa_asset x) = as_id u" "as_version (pa_asset x) = as_version u + 1"
    "pa_expectedCurrentVersion x = Some (as_version u)"
    by (simp_all add: x item_id item_fields id c(1,3))
  ultimately show ?thesis using ru built_keeps[of e u po ev "as_id u"] asset by metis
qed

section \<open>An example\<close>

text \<open>A user-accepted fact of the project, and a verified asset about the same subject for one symbol.\<close>

definition pl_candidate :: knowledge_candidate where
  "pl_candidate = ev_candidate\<lparr>kc_assertions := [\<lparr>ka_assertionId = ''q1'', ka_candidateId = ''c1'',
     ka_body = UserAccepted ''m1'', ka_createdAt = Iso 1\<rparr>]\<rparr>"

definition pl_narrow :: knowledge_asset where
  "pl_narrow = ev_asset (SymbolScope [''f''] ''p'' None) VERIFIED"

definition pl_result :: verification_result where
  "pl_result = \<lparr>vr_assertionId = ''q1'', vr_assertionKind = USER_ACCEPTED, vr_verifierId = None,
     vr_status = SUPPORTED, vr_target = ''m1'', vr_observedAt = Iso 1, vr_reasonCodes = [''USER_ACCEPTED''],
     vr_evidence = Some \<lparr>ev_evidenceId = ''v1'', ev_assertionId = Some ''q1'', ev_type = USER_STATEMENT,
       ev_verdict = SUPPORTS, ev_sourceRef = ''m1'', ev_projectId = Some ''p'', ev_observedAt = Iso 1,
       ev_correlationId = ''k'', ev_details = None\<rparr>,
     vr_codeGraphArtifact = None\<rparr>"

definition pl_env :: worker_env where
  "pl_env = \<lparr>we_evolution = ev_env, we_identity = (\<lambda>s k sc. ''new''), we_contentHash = (\<lambda>_. ''hash'')\<rparr>"

definition pl_ports :: "(nat \<Rightarrow> semantic_port) option \<Rightarrow> worker_ports" where
  "pl_ports judge = \<lparr>wp_read = (\<lambda>_ i. Inr (if i = ''a1'' then ReadOk pl_narrow else ReadMissing)),
     wp_search = (\<lambda>_ _ _. Inr [pl_narrow]), wp_verify = (\<lambda>_ _ _. Inr [pl_result]), wp_semantic = judge\<rparr>"

definition pl_request :: worker_request where
  "pl_request = \<lparr>wr_project = \<lparr>pc_projectId = ''p'', pc_repositoryRoot = None, pc_repositoryRemote = None,
       pc_branch = None, pc_revision = None, pc_portable = False\<rparr>,
     wr_verificationPolicy = ex_policy, wr_allowGlobal = None, wr_projectTerms = None,
     wr_maxEvolutionCandidates = 5, wr_maxPublishItems = 50\<rparr>"

definition pl_episodes :: "episode list" where
  "pl_episodes = [\<lparr>ep_episodeId = ''e1'', ep_projectContext = wr_project pl_request\<rparr>]"

abbreviation pl_judge :: "(nat \<Rightarrow> semantic_port) option" where
  "pl_judge \<equiv> Some (\<lambda>_ _. Inr (ev_judgment ''SUPPLEMENT''))"

definition pl_match :: "(nat \<Rightarrow> semantic_port) option \<Rightarrow> worker_error + evolution_record list" where
  "pl_match judge = evolution_match pl_env (pl_ports judge) pl_request pl_episodes [] [pl_candidate]"

definition pl_plan :: "(nat \<Rightarrow> semantic_port) option \<Rightarrow> evolution_record list \<Rightarrow> worker_error + policy_record list \<times> planned_asset list" where
  "pl_plan judge records = candidate_policy pl_env (pl_ports judge) pl_request pl_episodes (Iso 9) 1 records"

text \<open>The decisions and what is planned, with and without the judge.\<close>

definition planned_summary :: "(nat \<Rightarrow> semantic_port) option
    \<Rightarrow> ((string \<times> evolution_action option) list \<times> (string \<times> int \<times> knowledge_scope) list) option" where
  "planned_summary judge = (case pl_match judge of Inl _ \<Rightarrow> None | Inr records \<Rightarrow>
     (case pl_plan judge records of Inl _ \<Rightarrow> None | Inr (_, outbox) \<Rightarrow>
        Some (map (\<lambda>ev. (kc_candidateId (er_candidate ev), ed_action (er_decision ev))) records,
              map (\<lambda>x. (as_id (pa_asset x), as_version (pa_asset x), as_scope (pa_asset x))) outbox)))"

lemma planned_with_judge:
  "planned_summary pl_judge = Some ([(''c1'', Some SUPPLEMENT)], [(''a1'', 3, ProjectScope ''p'' None)])"
  by code_simp

lemma planned_without_judge: "planned_summary None = Some ([(''c1'', None)], [])"
  by code_simp

lemma planned_obtain:
  obtains records policies x ev where "pl_match pl_judge = Inr records" "pl_plan pl_judge records = Inr (policies, [x])"
    "as_id (pa_asset x) = ''a1''" "as_version (pa_asset x) = 3" "as_scope (pa_asset x) = ProjectScope ''p'' None"
    "records = [ev]" "kc_candidateId (er_candidate ev) = ''c1''" "ed_action (er_decision ev) = Some SUPPLEMENT"
proof -
  obtain records policies outbox where r: "pl_match pl_judge = Inr records" "pl_plan pl_judge records = Inr (policies, outbox)"
    "map (\<lambda>ev. (kc_candidateId (er_candidate ev), ed_action (er_decision ev))) records = [(''c1'', Some SUPPLEMENT)]"
    "map (\<lambda>x. (as_id (pa_asset x), as_version (pa_asset x), as_scope (pa_asset x))) outbox = [(''a1'', 3, ProjectScope ''p'' None)]"
    using planned_with_judge by (auto simp: planned_summary_def split: sum.splits)
  show thesis using that[OF r(1)] r(2-4) by (auto simp: map_eq_Cons_conv)
qed

lemma pl_distinct: "distinct (map kc_candidateId [pl_candidate])"
  by simp

section \<open>The properties at the example\<close>

theorem published_knowledge_is_earned_witness:
  "\<exists>records policies x. pl_match pl_judge = Inr records \<and> pl_plan pl_judge records = Inr (policies, [x])
    \<and> scope_projectId (as_scope (pa_asset x)) = Some ''p'' \<and> pa_candidateId x = ''c1''"
proof -
  obtain records policies x ev where a: "pl_match pl_judge = Inr records" "pl_plan pl_judge records = Inr (policies, [x])"
    "as_scope (pa_asset x) = ProjectScope ''p'' None" by (rule planned_obtain)
  have "pa_candidateId x = ''c1''"
    using published_knowledge_is_earned[OF a(1)[unfolded pl_match_def] a(2)[unfolded pl_plan_def], of x]
    by (auto simp: pl_candidate_def ev_candidate_def)
  then show ?thesis using a by auto
qed

theorem outbox_never_forks_witness:
  "\<exists>records policies x. pl_match pl_judge = Inr records \<and> pl_plan pl_judge records = Inr (policies, [x])
    \<and> pa_expectedCurrentVersion x = Some 2"
proof -
  obtain records policies x ev where a: "pl_match pl_judge = Inr records" "pl_plan pl_judge records = Inr (policies, [x])"
    "as_version (pa_asset x) = 3" by (rule planned_obtain)
  have "pa_expectedCurrentVersion x = Some 2"
    using outbox_never_forks[OF a(1)[unfolded pl_match_def] a(2)[unfolded pl_plan_def] pl_distinct] a(3)
    by (auto split: option.splits)
  then show ?thesis using a by auto
qed

theorem revision_keeps_lineage_witness:
  "\<exists>records policies x. pl_match pl_judge = Inr records \<and> pl_plan pl_judge records = Inr (policies, [x])
    \<and> keeps_asset pl_env pl_narrow (pa_asset x) \<and> pa_expectedCurrentVersion x = Some 2"
proof -
  obtain records policies x ev where a: "pl_match pl_judge = Inr records" "pl_plan pl_judge records = Inr (policies, [x])"
    "as_version (pa_asset x) = 3" "records = [ev]" "kc_candidateId (er_candidate ev) = ''c1''"
    "ed_action (er_decision ev) = Some SUPPLEMENT" by (rule planned_obtain)
  have "pa_candidateId x = ''c1''"
    using plan_loop_item[of pl_env "pl_ports pl_judge" pl_request pl_episodes "Iso 9" 1 records "[]" policies "[x]" x]
      candidate_policy_plan[OF a(2)[unfolded pl_plan_def]] a(4,5) plan_candidate_item item_fields(1)
    by (auto elim!: plan_candidate_item simp: item_fields)
  then obtain t j i where t: "wp_read (pl_ports pl_judge) j i = Inr (ReadOk t)" "keeps_asset pl_env t (pa_asset x)"
    "as_version (pa_asset x) = as_version t + 1" "pa_expectedCurrentVersion x = Some (as_version t)"
    using revision_keeps_lineage[OF a(1)[unfolded pl_match_def] a(2)[unfolded pl_plan_def] pl_distinct, of x ev SUPPLEMENT]
      a(4,5,6) by auto
  then have "t = pl_narrow" by (auto simp: pl_ports_def split: if_splits)
  then show ?thesis using a t by auto
qed


end
