(* ===== verification/Commitments.thy ===== *)
theory Commitments
  imports KnowledgePlan
begin

text \<open>
  What the user said about a candidate (\<^verbatim>\<open>packages/knowledge-compiler/src/commitment-detector.ts\<close>, and
  \<open>compileUserCommitments\<close> of \<^verbatim>\<open>packages/knowledge-worker-runtime/src/runtime.ts\<close>): acceptances,
  rejections and corrections are detected in the statements of an episode, resolved to candidates, and
  put into them as assertions; what the model itself asserted of the user is dropped first.

  Given are the hash of a text, the two regular expressions that recognise an acceptance and a rejection
  (they match Chinese phrases) and \<open>normalize\<close>, which applies NFKC and strips punctuation. The Chinese
  stop words have two code units and are dropped by length already. A thrown error is the worker's error, or
  \<open>None\<close> for a plain \<open>Error\<close>.
\<close>

section \<open>Episodes (domain/src/episode.ts)\<close>

text \<open>Of an episode and its parts, what extraction and detection read.\<close>

datatype episode_status = OPEN | COMPLETED | ABANDONED

datatype statement_kind = GOAL | CONTINUATION | SUBGOAL | CORRECTION

record user_statement =
  us_turnId :: string
  us_sourceEventId :: string
  us_kind :: statement_kind
  us_statement :: string
  us_occurredAt :: timestamp

record correction =
  cn_correctionId :: string
  cn_turnId :: string
  cn_originalRef :: string
  cn_originalStatement :: string
  cn_correctedRef :: string
  cn_correctedStatement :: string
  cn_occurredAt :: timestamp

record episode_subgoal =
  gl_sourceEventId :: string
  gl_statement :: string

datatype action_kind = TOOL | COMMAND | FILE_CHANGE | DECISION

record action_record =
  ac_kind :: action_kind
  ac_summary :: string
  ac_sourceEventIds :: "string list"
  ac_occurredAt :: timestamp

datatype artifact_kind = FILE | DIFF | DOCUMENT | URL

record artifact_ref =
  af_kind :: artifact_kind
  af_uri :: string
  af_contentHash :: "string option"

datatype outcome_kind = SUCCESS | FAILURE | PARTIAL | UNKNOWN

record episode_outcome =
  oc_kind :: outcome_kind
  oc_summary :: string
  oc_evidenceRefs :: "string list"

record built_episode = episode +
  be_builderVersion :: string
  be_goal :: string
  be_goalRef :: string
  be_subgoals :: "episode_subgoal list"
  be_userStatements :: "user_statement list"
  be_userCorrections :: "correction list"
  be_actions :: "action_record list"
  be_artifacts :: "artifact_ref list"
  be_outcomes :: "episode_outcome list"
  be_evidenceRefs :: "string list"
  be_status :: episode_status

section \<open>Signals\<close>

datatype commitment_kind = USER_ACCEPTED | USER_REJECTED | CORRECTION

datatype commitment_reason =
  EXPLICIT_SOURCE_REFERENCE | EXPLICIT_TOPIC_MATCH | SINGLE_PROPOSAL | FOLLOWED_BY_IMPLEMENTATION | TARGET_UNRESOLVED

record commitment_signal =
  sg_signalId :: string
  sg_episodeId :: string
  sg_kind :: commitment_kind
  sg_candidateIds :: "string list"
  sg_turnId :: string
  sg_statementRef :: string
  sg_statement :: string
  sg_occurredAt :: timestamp
  sg_originalRef :: "string option"
  sg_originalStatement :: "string option"
  sg_correctedRef :: "string option"
  sg_correctedStatement :: "string option"
  sg_reasonCodes :: "commitment_reason list"

record commitment_ambiguity =
  am_kind :: commitment_kind
  am_turnId :: string
  am_statementRef :: string
  am_statement :: string
  am_candidateIds :: "string list"

record detection =
  dt_signals :: "commitment_signal list"
  dt_ambiguities :: "commitment_ambiguity list"

record target_resolution =
  tr_candidateIds :: "string list"
  tr_reasonCode :: "commitment_reason option"
  tr_ambiguousCandidateIds :: "string list"

record commitment_env =
  cv_worker :: worker_env
  cv_sha :: "string \<Rightarrow> string"
  cv_accepts :: "string \<Rightarrow> bool"
  cv_rejects :: "string \<Rightarrow> bool"
  cv_normalized :: "string \<Rightarrow> string"
  cv_ambiguityKey :: "string \<Rightarrow> commitment_ambiguity \<Rightarrow> string"
  cv_draftId :: "string \<Rightarrow> string \<Rightarrow> string"

type_synonym commitment_error = "worker_error option"

definition by_id :: "commitment_env \<Rightarrow> string \<Rightarrow> string \<Rightarrow> bool" where
  "by_id v = collate_le (cv_worker v)"

definition hash_parts :: "commitment_env \<Rightarrow> string list \<Rightarrow> string" where
  "hash_parts v parts = cv_sha v (join_with [CHR 0x00] parts)"

section \<open>Which candidate a statement speaks of\<close>

definition STOP_WORDS :: "string list" where
  "STOP_WORDS = [''the'', ''this'', ''that'', ''with'', ''from'', ''into'', ''use'', ''using'', ''used'', ''cache'',
     ''design'', ''approach'', ''solution'', ''proposal'', ''project'', ''apply'', ''proposed'']"

definition compact :: "commitment_env \<Rightarrow> string \<Rightarrow> string" where
  "compact v s = filter (\<lambda>c. \<not> js_space c) (cv_normalized v s)"

text \<open>The matches of \<open>/[\p{L}\p{N}][\p{L}\p{N}_-]*/gu\<close>.\<close>

definition word_start :: "char \<Rightarrow> bool" where
  "word_start c \<longleftrightarrow> latin_letter c \<or> latin_number c"

definition word_part :: "char \<Rightarrow> bool" where
  "word_part c \<longleftrightarrow> word_start c \<or> c = CHR ''_'' \<or> c = CHR ''-''"

function words_of :: "string \<Rightarrow> string list" where
  "words_of [] = []"
| "words_of (c # cs) = (if word_start c
     then (c # takeWhile word_part cs) # words_of (dropWhile word_part cs) else words_of cs)"
  by pat_completeness auto
termination
  by (relation "measure length") (auto simp: le_imp_less_Suc length_dropWhile_le)

definition topicTokens :: "commitment_env \<Rightarrow> knowledge_candidate \<Rightarrow> string list" where
  "topicTokens v c = uniq (filter (\<lambda>t. 3 \<le> length t \<and> t \<notin> set STOP_WORDS)
     (words_of (cv_normalized v (kc_title c @ '' ''
        @ map (\<lambda>x. if x = CHR ''.'' \<or> x = CHR ''-'' then CHR '' '' else x) (kc_subjectKey c) @ '' '' @ kc_summary c))))"

definition lexicalScore :: "commitment_env \<Rightarrow> string \<Rightarrow> knowledge_candidate \<Rightarrow> nat" where
  "lexicalScore v statement c = (let title = compact v (kc_title c) in
     fold (\<lambda>t score. if contains_text t (cv_normalized v statement) then max score (length t) else score)
       (topicTokens v c)
       (if 4 \<le> length title \<and> contains_text title (compact v statement) then 1000 + length title else 0))"

definition sortedIds :: "commitment_env \<Rightarrow> knowledge_candidate list \<Rightarrow> string list" where
  "sortedIds v cs = sort_by (by_id v) (map kc_candidateId cs)"

definition proposals :: "knowledge_candidate list \<Rightarrow> knowledge_candidate list" where
  "proposals cs = filter (\<lambda>c. kc_kind c \<in> {knowledge_kind.REQUIREMENT, knowledge_kind.DESIGN, knowledge_kind.DECISION}) cs"

definition lexicalTargets :: "commitment_env \<Rightarrow> string \<Rightarrow> knowledge_candidate list \<Rightarrow> knowledge_candidate list" where
  "lexicalTargets v statement cs = (let scored = filter (\<lambda>c. 0 < lexicalScore v statement c) cs in
     filter (\<lambda>c. lexicalScore v statement c = fold max (map (lexicalScore v statement) scored) 0) scored)"

definition resolved_to :: "string list \<Rightarrow> commitment_reason \<Rightarrow> target_resolution" where
  "resolved_to ids reason = \<lparr>tr_candidateIds = ids, tr_reasonCode = Some reason, tr_ambiguousCandidateIds = []\<rparr>"

definition unresolved :: "string list \<Rightarrow> target_resolution" where
  "unresolved ids = \<lparr>tr_candidateIds = [], tr_reasonCode = None, tr_ambiguousCandidateIds = ids\<rparr>"

definition resolveByText :: "commitment_env \<Rightarrow> string \<Rightarrow> knowledge_candidate list \<Rightarrow> target_resolution" where
  "resolveByText v statement cs =
    (let targets = lexicalTargets v statement cs in
     if length targets = 1 then resolved_to (sortedIds v targets) EXPLICIT_TOPIC_MATCH
     else if length targets > 1 then unresolved (sortedIds v targets)
     else if length (proposals cs) = 1 then resolved_to (sortedIds v (proposals cs)) SINGLE_PROPOSAL
     else unresolved (if length (proposals cs) > 1 then sortedIds v (proposals cs) else []))"

fun commitment_ref :: "assertion_body \<Rightarrow> string option" where
  "commitment_ref (UserAccepted r) = Some r"
| "commitment_ref (UserRejected r) = Some r"
| "commitment_ref _ = None"

definition sourceTargets :: "string \<Rightarrow> knowledge_candidate list \<Rightarrow> knowledge_candidate list" where
  "sourceTargets reference cs = filter (\<lambda>c.
       list_ex (\<lambda>h. eh_sourceRef h = reference) (kc_evidenceHints c)
     \<or> list_ex (\<lambda>a. commitment_ref (ka_body a) = Some reference) (kc_assertions c)) cs"

definition markerKind :: "commitment_env \<Rightarrow> string \<Rightarrow> commitment_kind option" where
  "markerKind v s = (if cv_rejects v s then Some commitment_kind.USER_REJECTED
     else if cv_accepts v s then Some commitment_kind.USER_ACCEPTED else None)"

definition hasLaterImplementation :: "built_episode \<Rightarrow> user_statement \<Rightarrow> bool" where
  "hasLaterImplementation ep s \<longleftrightarrow> list_ex (\<lambda>a. case (date_parse (ac_occurredAt a), date_parse (us_occurredAt s)) of
     (Some x, Some y) \<Rightarrow> y < x | _ \<Rightarrow> False) (be_actions ep)"

section \<open>Detection\<close>

fun commitment_name :: "commitment_kind \<Rightarrow> string" where
  "commitment_name commitment_kind.USER_ACCEPTED = ''USER_ACCEPTED''"
| "commitment_name commitment_kind.USER_REJECTED = ''USER_REJECTED''"
| "commitment_name commitment_kind.CORRECTION = ''CORRECTION''"

definition createSignal :: "commitment_env \<Rightarrow> built_episode \<Rightarrow> commitment_kind \<Rightarrow> user_statement \<Rightarrow> string list
    \<Rightarrow> commitment_reason list \<Rightarrow> correction option \<Rightarrow> commitment_signal" where
  "createSignal v ep kind s ids reasons k = (let stable = sort_by (by_id v) ids in
     \<lparr>sg_signalId = hash_parts v ([''user-commitment-signal-v1'', ep_episodeId ep, commitment_name kind,
        us_sourceEventId s, (case k of None \<Rightarrow> [] | Some c \<Rightarrow> cn_originalRef c)] @ stable),
      sg_episodeId = ep_episodeId ep, sg_kind = kind, sg_candidateIds = stable,
      sg_turnId = us_turnId s, sg_statementRef = us_sourceEventId s, sg_statement = us_statement s,
      sg_occurredAt = us_occurredAt s,
      sg_originalRef = map_option cn_originalRef k, sg_originalStatement = map_option cn_originalStatement k,
      sg_correctedRef = map_option cn_correctedRef k, sg_correctedStatement = map_option cn_correctedStatement k,
      sg_reasonCodes = reasons\<rparr>)"

definition createAmbiguity :: "commitment_kind \<Rightarrow> user_statement \<Rightarrow> string list \<Rightarrow> commitment_ambiguity" where
  "createAmbiguity kind s ids = \<lparr>am_kind = kind, am_turnId = us_turnId s, am_statementRef = us_sourceEventId s,
     am_statement = us_statement s, am_candidateIds = ids\<rparr>"

definition statement_ok :: "built_episode \<Rightarrow> user_statement \<Rightarrow> bool" where
  "statement_ok ep s \<longleftrightarrow> has_text (us_turnId s) \<and> has_text (us_statement s) \<and> date_parse (us_occurredAt s) \<noteq> None
     \<and> us_sourceEventId s \<in> set (be_evidenceRefs ep)"

definition correction_traceable :: "built_episode \<Rightarrow> correction \<Rightarrow> bool" where
  "correction_traceable ep k \<longleftrightarrow> cn_originalRef k \<in> set (be_evidenceRefs ep) \<and> cn_correctedRef k \<in> set (be_evidenceRefs ep)
     \<and> (case find (\<lambda>s. us_sourceEventId s = cn_correctedRef k) (be_userStatements ep) of
          None \<Rightarrow> True
        | Some s \<Rightarrow> us_turnId s = cn_turnId k \<and> us_statement s = cn_correctedStatement k \<and> us_occurredAt s = cn_occurredAt k)"

definition assertEpisodeTraceability :: "built_episode \<Rightarrow> bool" where
  "assertEpisodeTraceability ep \<longleftrightarrow> be_status ep \<noteq> OPEN \<and> distinct (be_evidenceRefs ep)
     \<and> distinct (map us_sourceEventId (be_userStatements ep)) \<and> list_all (statement_ok ep) (be_userStatements ep)
     \<and> distinct (map cn_correctedRef (be_userCorrections ep)) \<and> list_all (correction_traceable ep) (be_userCorrections ep)"

definition correction_statement :: "built_episode \<Rightarrow> correction \<Rightarrow> user_statement" where
  "correction_statement ep k = (case last_entry us_sourceEventId (be_userStatements ep) (cn_correctedRef k) of
     Some s \<Rightarrow> s
   | None \<Rightarrow> \<lparr>us_turnId = cn_turnId k, us_sourceEventId = cn_correctedRef k, us_kind = statement_kind.CORRECTION,
              us_statement = cn_correctedStatement k, us_occurredAt = cn_occurredAt k\<rparr>)"

definition correction_detection :: "commitment_env \<Rightarrow> built_episode \<Rightarrow> knowledge_candidate list \<Rightarrow> correction \<Rightarrow> detection" where
  "correction_detection v ep local k =
    (let s = correction_statement ep k;
         referenced = sourceTargets (cn_originalRef k) local;
         r = (if length referenced > 0 then resolved_to (sortedIds v referenced) EXPLICIT_SOURCE_REFERENCE
              else resolveByText v (cn_originalStatement k) local);
         reasons = (case tr_reasonCode r of None \<Rightarrow> [TARGET_UNRESOLVED] | Some c \<Rightarrow> [c]) in
     \<lparr>dt_signals = createSignal v ep commitment_kind.CORRECTION s (tr_candidateIds r) reasons (Some k)
        # (if markerKind v (cn_correctedStatement k) = Some commitment_kind.USER_REJECTED \<and> tr_candidateIds r \<noteq> []
           then [createSignal v ep commitment_kind.USER_REJECTED s (tr_candidateIds r) reasons (Some k)] else []),
      dt_ambiguities = (if tr_ambiguousCandidateIds r \<noteq> []
        then [createAmbiguity commitment_kind.CORRECTION s (tr_ambiguousCandidateIds r)] else [])\<rparr>)"

definition statement_resolution :: "commitment_env \<Rightarrow> knowledge_candidate list \<Rightarrow> user_statement \<Rightarrow> target_resolution" where
  "statement_resolution v local s = (let referenced = sourceTargets (us_sourceEventId s) local in
     if length referenced = 1 then resolved_to (sortedIds v referenced) EXPLICIT_SOURCE_REFERENCE
     else if length referenced > 1 then unresolved (sortedIds v referenced)
     else resolveByText v (us_statement s) local)"

definition statement_reasons :: "built_episode \<Rightarrow> user_statement \<Rightarrow> commitment_kind \<Rightarrow> target_resolution \<Rightarrow> commitment_reason list" where
  "statement_reasons ep s kind r = (case tr_reasonCode r of None \<Rightarrow> [] | Some c \<Rightarrow> [c])
     @ (if kind = commitment_kind.USER_ACCEPTED \<and> hasLaterImplementation ep s then [FOLLOWED_BY_IMPLEMENTATION] else [])"

definition statement_detection :: "commitment_env \<Rightarrow> built_episode \<Rightarrow> knowledge_candidate list \<Rightarrow> user_statement \<Rightarrow> detection" where
  "statement_detection v ep local s =
    (if us_sourceEventId s \<in> cn_correctedRef ` set (be_userCorrections ep) then \<lparr>dt_signals = [], dt_ambiguities = []\<rparr>
     else (case markerKind v (us_statement s) of
       None \<Rightarrow> \<lparr>dt_signals = [], dt_ambiguities = []\<rparr>
     | Some kind \<Rightarrow> (let r = statement_resolution v local s in
         if tr_candidateIds r = [] then \<lparr>dt_signals = [], dt_ambiguities =
           (if tr_ambiguousCandidateIds r \<noteq> [] then [createAmbiguity kind s (tr_ambiguousCandidateIds r)] else [])\<rparr>
         else \<lparr>dt_signals = [createSignal v ep kind s (tr_candidateIds r) (statement_reasons ep s kind r) None],
               dt_ambiguities = []\<rparr>)))"

definition local_candidates :: "built_episode \<Rightarrow> knowledge_candidate list \<Rightarrow> knowledge_candidate list" where
  "local_candidates ep cs = filter (\<lambda>c. ep_episodeId ep \<in> set (kc_sourceEpisodes c)) cs"

definition detectUserCommitments :: "commitment_env \<Rightarrow> built_episode \<Rightarrow> knowledge_candidate list
    \<Rightarrow> commitment_error + detection" where
  "detectUserCommitments v ep candidates =
     and_then (ensure (assertEpisodeTraceability ep) None) (\<lambda>_.
     and_then (ensure (distinct (map kc_candidateId candidates)) None) (\<lambda>_.
     let ds = map (correction_detection v ep (local_candidates ep candidates)) (be_userCorrections ep)
            @ map (statement_detection v ep (local_candidates ep candidates)) (be_userStatements ep) in
     Inr \<lparr>dt_signals = concat (map dt_signals ds), dt_ambiguities = concat (map dt_ambiguities ds)\<rparr>))"

section \<open>Application\<close>

fun commitment_body :: "commitment_kind \<Rightarrow> string \<Rightarrow> assertion_body option" where
  "commitment_body commitment_kind.USER_ACCEPTED r = Some (UserAccepted r)"
| "commitment_body commitment_kind.USER_REJECTED r = Some (UserRejected r)"
| "commitment_body commitment_kind.CORRECTION r = None"

definition commitment_assertion :: "commitment_env \<Rightarrow> commitment_signal \<Rightarrow> assertion_body \<Rightarrow> string \<Rightarrow> knowledge_assertion" where
  "commitment_assertion v g body i =
     \<lparr>ka_assertionId = hash_parts v [''user-commitment-assertion-v1'', i, commitment_name (sg_kind g), sg_statementRef g],
      ka_candidateId = i, ka_body = body, ka_createdAt = sg_occurredAt g\<rparr>"

fun add_assertions :: "commitment_env \<Rightarrow> knowledge_candidate list \<Rightarrow> commitment_signal \<Rightarrow> assertion_body \<Rightarrow> string list
    \<Rightarrow> knowledge_assertion list \<Rightarrow> commitment_error + knowledge_assertion list" where
  "add_assertions v cs g body [] added = Inr added"
| "add_assertions v cs g body (i # is) added = (case last_entry kc_candidateId cs i of
     None \<Rightarrow> Inl None
   | Some c \<Rightarrow>
      (if list_ex (\<lambda>a. ka_body a = body) (kc_assertions c)
          \<or> list_ex (\<lambda>a. ka_candidateId a = i \<and> ka_body a = body) added
       then add_assertions v cs g body is added
       else add_assertions v cs g body is (added @ [commitment_assertion v g body i])))"

definition signal_ok :: "commitment_signal \<Rightarrow> bool" where
  "signal_ok g \<longleftrightarrow> has_text (sg_statementRef g) \<and> date_parse (sg_occurredAt g) \<noteq> None \<and> distinct (sg_candidateIds g)"

fun apply_signals :: "commitment_env \<Rightarrow> knowledge_candidate list \<Rightarrow> commitment_signal list \<Rightarrow> knowledge_assertion list
    \<Rightarrow> commitment_error + knowledge_assertion list" where
  "apply_signals v cs [] added = Inr added"
| "apply_signals v cs (g # gs) added = and_then (ensure (signal_ok g) None) (\<lambda>_.
     case commitment_body (sg_kind g) (sg_statementRef g) of
       None \<Rightarrow> apply_signals v cs gs added
     | Some body \<Rightarrow> and_then (add_assertions v cs g body (sg_candidateIds g) added) (apply_signals v cs gs))"

definition applyUserCommitments :: "commitment_env \<Rightarrow> knowledge_candidate list \<Rightarrow> commitment_signal list
    \<Rightarrow> commitment_error + knowledge_candidate list" where
  "applyUserCommitments v candidates signals = and_then (apply_signals v candidates signals []) (\<lambda>added.
     Inr (map (\<lambda>c. c\<lparr>kc_assertions := kc_assertions c @ filter (\<lambda>a. ka_candidateId a = kc_candidateId c) added\<rparr>) candidates))"

section \<open>compileUserCommitments (runtime.ts)\<close>

record correction_draft =
  dr_draftId :: string
  dr_signalId :: string
  dr_candidateId :: string
  dr_originalRef :: string
  dr_originalStatement :: string
  dr_correctedRef :: string
  dr_correctedStatement :: string
  dr_occurredAt :: timestamp

record user_commitments =
  uc_signals :: "commitment_signal list"
  uc_ambiguities :: "commitment_ambiguity list"
  uc_correctionDrafts :: "correction_draft list"

definition of_the_model :: "knowledge_assertion \<Rightarrow> bool" where
  "of_the_model a \<longleftrightarrow> ka_kind a \<noteq> assertion_kind.USER_ACCEPTED \<and> ka_kind a \<noteq> assertion_kind.USER_REJECTED"

definition neutral :: "knowledge_candidate \<Rightarrow> knowledge_candidate" where
  "neutral c = c\<lparr>kc_assertions := filter of_the_model (kc_assertions c)\<rparr>"

fun add_signals :: "commitment_signal list \<Rightarrow> commitment_signal list \<Rightarrow> commitment_error + commitment_signal list" where
  "add_signals [] known = Inr known"
| "add_signals (g # gs) known = (case find (\<lambda>x. sg_signalId x = sg_signalId g) known of
     None \<Rightarrow> add_signals gs (known @ [g])
   | Some x \<Rightarrow> if x \<noteq> g then Inl (Some (''USER_COMMITMENT_COLLISION'', False)) else add_signals gs known)"

fun collect_commitments :: "commitment_env \<Rightarrow> built_episode list \<Rightarrow> knowledge_candidate list \<Rightarrow> commitment_signal list
    \<Rightarrow> (string \<times> commitment_ambiguity) list
    \<Rightarrow> commitment_error + commitment_signal list \<times> (string \<times> commitment_ambiguity) list" where
  "collect_commitments v [] cs signals ambiguities = Inr (signals, ambiguities)"
| "collect_commitments v (ep # eps) cs signals ambiguities =
     and_then (detectUserCommitments v ep cs) (\<lambda>d.
     and_then (add_signals (dt_signals d) signals) (\<lambda>signals'.
     collect_commitments v eps cs signals'
       (ambiguities @ map (\<lambda>a. (cv_ambiguityKey v (ep_episodeId ep) a, a)) (dt_ambiguities d))))"

definition signal_drafts :: "commitment_env \<Rightarrow> commitment_signal \<Rightarrow> commitment_error + correction_draft list" where
  "signal_drafts v g = (case (sg_originalRef g, sg_originalStatement g, sg_correctedRef g, sg_correctedStatement g) of
     (Some r, Some t, Some r', Some t') \<Rightarrow>
       Inr (map (\<lambda>i. \<lparr>dr_draftId = cv_draftId v (sg_signalId g) i, dr_signalId = sg_signalId g, dr_candidateId = i,
         dr_originalRef = r, dr_originalStatement = t, dr_correctedRef = r', dr_correctedStatement = t',
         dr_occurredAt = sg_occurredAt g\<rparr>) (sort (sg_candidateIds g)))
   | _ \<Rightarrow> Inl (Some (''USER_COMMITMENT_INVALID'', False)))"

fun all_drafts :: "commitment_env \<Rightarrow> commitment_signal list \<Rightarrow> commitment_error + correction_draft list" where
  "all_drafts v [] = Inr []"
| "all_drafts v (g # gs) = and_then (signal_drafts v g) (\<lambda>ds. and_then (all_drafts v gs) (\<lambda>rest. Inr (ds @ rest)))"

definition compileUserCommitments :: "commitment_env \<Rightarrow> built_episode list \<Rightarrow> knowledge_candidate list
    \<Rightarrow> commitment_error + knowledge_candidate list \<times> user_commitments" where
  "compileUserCommitments v episodes candidates =
    (let cs = map neutral candidates in
     and_then (collect_commitments v (sort_by (\<lambda>l r. by_id v (ep_episodeId l) (ep_episodeId r)) episodes) cs [] [])
       (\<lambda>(signals, ambiguities).
     let stable = sort_by (\<lambda>l r. by_id v (sg_signalId l) (sg_signalId r)) signals in
     and_then (applyUserCommitments v cs stable) (\<lambda>enriched.
     and_then (ensure (\<not> list_ex (\<lambda>c. kc_assertions c = [] \<and> kc_evidenceHints c = []) enriched)
       (Some (''CANDIDATE_GROUNDING_REMOVED'', False))) (\<lambda>_.
     and_then (all_drafts v (filter (\<lambda>g. sg_kind g = commitment_kind.CORRECTION) stable)) (\<lambda>drafts.
     Inr (enriched, \<lparr>uc_signals = stable,
       uc_ambiguities = map snd (sort_by (\<lambda>l r. by_id v (fst l) (fst r)) (map_values fst ambiguities)),
       uc_correctionDrafts = drafts\<rparr>))))))"

end
