(* ===== verification/CommitmentProps.thy ===== *)
theory CommitmentProps
  imports Commitments EvolutionProps
begin

text \<open>What compiling the user's commitments puts into a candidate, and where it comes from.\<close>

section \<open>Detection\<close>

text \<open>The user's own words, in a statement or a correction of the episode.\<close>

definition user_said :: "commitment_env \<Rightarrow> built_episode \<Rightarrow> string \<Rightarrow> commitment_kind \<Rightarrow> bool" where
  "user_said v ep r kind \<longleftrightarrow> r \<in> set (be_evidenceRefs ep) \<and>
     ((\<exists>s \<in> set (be_userStatements ep). us_sourceEventId s = r \<and> markerKind v (us_statement s) = Some kind)
    \<or> (\<exists>k \<in> set (be_userCorrections ep). cn_correctedRef k = r \<and> kind = commitment_kind.USER_REJECTED
         \<and> markerKind v (cn_correctedStatement k) = Some commitment_kind.USER_REJECTED))"

definition corrects :: "built_episode \<Rightarrow> string \<Rightarrow> string \<Rightarrow> string \<Rightarrow> string \<Rightarrow> bool" where
  "corrects ep r t r' t' \<longleftrightarrow> (\<exists>k \<in> set (be_userCorrections ep).
     cn_originalRef k = r \<and> cn_originalStatement k = t \<and> cn_correctedRef k = r' \<and> cn_correctedStatement k = t')"

definition signal_grounded :: "commitment_env \<Rightarrow> built_episode \<Rightarrow> knowledge_candidate list \<Rightarrow> commitment_signal \<Rightarrow> bool" where
  "signal_grounded v ep cs g \<longleftrightarrow> distinct (map kc_candidateId cs)
   \<and> set (sg_candidateIds g) \<subseteq> kc_candidateId ` set (local_candidates ep cs)
   \<and> (sg_kind g = commitment_kind.CORRECTION \<or> user_said v ep (sg_statementRef g) (sg_kind g))
   \<and> (\<forall>r t r' t'. sg_originalRef g = Some r \<and> sg_originalStatement g = Some t \<and> sg_correctedRef g = Some r'
        \<and> sg_correctedStatement g = Some t' \<longrightarrow> corrects ep r t r' t')"

lemma set_sortedIds [simp]: "set (sortedIds v cs) = kc_candidateId ` set cs"
  by (simp add: sortedIds_def)

lemma resolve_ids: "set (tr_candidateIds (resolveByText v s cs)) \<subseteq> kc_candidateId ` set cs"
  by (auto simp: resolveByText_def resolved_to_def unresolved_def lexicalTargets_def proposals_def Let_def)

lemma source_ids: "set (sourceTargets r cs) \<subseteq> set cs"
  by (auto simp: sourceTargets_def)

lemma created_fields [simp]:
  "sg_kind (createSignal v ep kind s ids reasons k) = kind"
  "set (sg_candidateIds (createSignal v ep kind s ids reasons k)) = set ids"
  "sg_statementRef (createSignal v ep kind s ids reasons k) = us_sourceEventId s"
  "sg_originalRef (createSignal v ep kind s ids reasons k) = map_option cn_originalRef k"
  "sg_originalStatement (createSignal v ep kind s ids reasons k) = map_option cn_originalStatement k"
  "sg_correctedRef (createSignal v ep kind s ids reasons k) = map_option cn_correctedRef k"
  "sg_correctedStatement (createSignal v ep kind s ids reasons k) = map_option cn_correctedStatement k"
  by (simp_all add: createSignal_def Let_def)

lemma correction_statement_ref: "us_sourceEventId (correction_statement ep k) = cn_correctedRef k"
  by (auto simp: correction_statement_def split: option.splits dest: last_entry_SomeD)

lemma correction_grounded:
  assumes "g \<in> set (dt_signals (correction_detection v ep (local_candidates ep cs) k))"
    and k: "k \<in> set (be_userCorrections ep)" and t: "assertEpisodeTraceability ep" and d: "distinct (map kc_candidateId cs)"
  shows "signal_grounded v ep cs g"
proof -
  define r where "r = (if length (sourceTargets (cn_originalRef k) (local_candidates ep cs)) > 0
     then resolved_to (sortedIds v (sourceTargets (cn_originalRef k) (local_candidates ep cs))) EXPLICIT_SOURCE_REFERENCE
     else resolveByText v (cn_originalStatement k) (local_candidates ep cs))"
  have ids: "set (tr_candidateIds r) \<subseteq> kc_candidateId ` set (local_candidates ep cs)"
    using resolve_ids[of v "cn_originalStatement k" "local_candidates ep cs"]
      source_ids[of "cn_originalRef k" "local_candidates ep cs"]
    by (auto simp: r_def resolved_to_def)
  have ref: "cn_correctedRef k \<in> set (be_evidenceRefs ep)"
    using t k by (auto simp: assertEpisodeTraceability_def correction_traceable_def list_all_iff)
  obtain kind reasons where g: "g = createSignal v ep kind (correction_statement ep k) (tr_candidateIds r) reasons (Some k)"
    and kind: "kind = commitment_kind.CORRECTION \<or> kind = commitment_kind.USER_REJECTED
      \<and> markerKind v (cn_correctedStatement k) = Some commitment_kind.USER_REJECTED"
    using assms(1) by (auto simp: correction_detection_def r_def Let_def split: if_splits)
  have "corrects ep (cn_originalRef k) (cn_originalStatement k) (cn_correctedRef k) (cn_correctedStatement k)"
    using k by (auto simp: corrects_def)
  then show ?thesis using ids ref kind k d
    by (auto simp: signal_grounded_def g user_said_def correction_statement_ref)
qed

lemma statement_grounded:
  assumes "g \<in> set (dt_signals (statement_detection v ep (local_candidates ep cs) s))"
    and s: "s \<in> set (be_userStatements ep)" and t: "assertEpisodeTraceability ep" and d: "distinct (map kc_candidateId cs)"
  shows "signal_grounded v ep cs g"
proof -
  define r where "r = statement_resolution v (local_candidates ep cs) s"
  have ids: "set (tr_candidateIds r) \<subseteq> kc_candidateId ` set (local_candidates ep cs)"
    using resolve_ids[of v "us_statement s" "local_candidates ep cs"]
      source_ids[of "us_sourceEventId s" "local_candidates ep cs"]
    by (auto simp: r_def statement_resolution_def resolved_to_def unresolved_def Let_def)
  have ref: "us_sourceEventId s \<in> set (be_evidenceRefs ep)"
    using t s by (auto simp: assertEpisodeTraceability_def statement_ok_def list_all_iff)
  obtain kind reasons where "g = createSignal v ep kind s (tr_candidateIds r) reasons None"
    and "markerKind v (us_statement s) = Some kind"
    using assms(1) by (auto simp: statement_detection_def r_def Let_def split: if_splits option.splits)
  then show ?thesis using ids ref s d by (auto simp: signal_grounded_def user_said_def)
qed

lemma detected_grounded:
  assumes "detectUserCommitments v ep cs = Inr d" and "g \<in> set (dt_signals d)"
  shows "signal_grounded v ep cs g"
  using assms
  by (auto simp: detectUserCommitments_def Let_def intro: correction_grounded statement_grounded)

lemma add_signals_set: "add_signals gs known = Inr out \<Longrightarrow> set out \<subseteq> set known \<union> set gs"
  by (induction gs known rule: add_signals.induct) (auto split: option.splits if_splits)

lemma collected_grounded:
  assumes "collect_commitments v eps cs gs ms = Inr (out, ms')"
    and "\<And>g. g \<in> set gs \<Longrightarrow> \<exists>ep \<in> E. signal_grounded v ep cs g" and "set eps \<subseteq> E" and "g \<in> set out"
  shows "\<exists>ep \<in> E. signal_grounded v ep cs g"
  using assms
proof (induction v eps cs gs ms rule: collect_commitments.induct)
  case (2 v ep eps cs gs ms)
  then obtain d gs' where d: "detectUserCommitments v ep cs = Inr d" "add_signals (dt_signals d) gs = Inr gs'"
    "collect_commitments v eps cs gs' (ms @ map (\<lambda>a. (cv_ambiguityKey v (ep_episodeId ep) a, a)) (dt_ambiguities d)) = Inr (out, ms')"
    by auto
  have "\<exists>ep \<in> E. signal_grounded v ep cs g" if g: "g \<in> set gs'" for g
  proof (cases "g \<in> set gs")
    case False
    then have "g \<in> set (dt_signals d)" using add_signals_set[OF d(2)] g by auto
    then show ?thesis using detected_grounded[OF d(1)] 2(4) by auto
  qed (use 2(3) in auto)
  moreover have "set eps \<subseteq> E" using 2(4) by auto
  ultimately show ?case using 2(1)[OF d(3)] 2(5) by blast
qed simp

section \<open>Application\<close>

text \<open>An assertion added for a signal.\<close>

definition added_for :: "commitment_signal list \<Rightarrow> knowledge_assertion \<Rightarrow> bool" where
  "added_for gs a \<longleftrightarrow> (\<exists>g \<in> set gs. ka_candidateId a \<in> set (sg_candidateIds g)
     \<and> commitment_body (sg_kind g) (sg_statementRef g) = Some (ka_body a))"

lemma add_assertions_added:
  assumes "add_assertions v cs g body is added = Inr out" and "a \<in> set out"
  shows "a \<in> set added \<or> ka_candidateId a \<in> set is \<and> ka_body a = body"
  using assms
proof (induction v cs g body "is" added rule: add_assertions.induct)
  case (2 v cs g body i "is" added)
  then show ?case by (fastforce simp: commitment_assertion_def split: option.splits if_splits)
qed simp

lemma apply_signals_added:
  assumes "apply_signals v cs gs added = Inr out" and "a \<in> set out"
  shows "a \<in> set added \<or> added_for gs a"
  using assms
proof (induction v cs gs added rule: apply_signals.induct)
  case (2 v cs g gs added)
  show ?case
  proof (cases "commitment_body (sg_kind g) (sg_statementRef g)")
    case None
    then show ?thesis using 2 by (auto simp: added_for_def)
  next
    case (Some body)
    then obtain mid where m: "add_assertions v cs g body (sg_candidateIds g) added = Inr mid" "apply_signals v cs gs mid = Inr out"
      using 2(3) by auto
    then have "a \<in> set mid \<or> added_for gs a" using 2 Some by auto
    then show ?thesis using add_assertions_added[OF m(1)] Some by (fastforce simp: added_for_def)
  qed
qed simp

lemma commitment_body_kind:
  "commitment_body kind r = Some b \<Longrightarrow> assertion_kind_of b \<in> {assertion_kind.USER_ACCEPTED, assertion_kind.USER_REJECTED}
     \<and> kind \<noteq> commitment_kind.CORRECTION"
  by (cases kind) auto

text \<open>A candidate before and after: the same but for what the user committed to.\<close>

definition same_but_commitments :: "knowledge_candidate \<Rightarrow> knowledge_candidate \<Rightarrow> bool" where
  "same_but_commitments c c' \<longleftrightarrow> c'\<lparr>kc_assertions := []\<rparr> = c\<lparr>kc_assertions := []\<rparr>
     \<and> filter of_the_model (kc_assertions c') = filter of_the_model (kc_assertions c)"

lemma applied_candidates:
  assumes "applyUserCommitments v (map neutral cs) gs = Inr out"
  obtains added where "\<And>a. a \<in> set added \<Longrightarrow> added_for gs a"
    "out = map (\<lambda>c. (neutral c)\<lparr>kc_assertions := filter of_the_model (kc_assertions c)
        @ filter (\<lambda>a. ka_candidateId a = kc_candidateId c) added\<rparr>) cs"
proof -
  obtain added where "apply_signals v (map neutral cs) gs [] = Inr added"
    "out = map (\<lambda>c. c\<lparr>kc_assertions := kc_assertions c @ filter (\<lambda>a. ka_candidateId a = kc_candidateId c) added\<rparr>) (map neutral cs)"
    using assms by (auto simp: applyUserCommitments_def)
  then show ?thesis using that[of added] apply_signals_added[of v "map neutral cs" gs "[]" added]
    by (auto simp: neutral_def)
qed

lemma drafts_from:
  assumes "all_drafts v gs = Inr ds" and "d \<in> set ds"
  shows "\<exists>g \<in> set gs. sg_originalRef g = Some (dr_originalRef d) \<and> sg_originalStatement g = Some (dr_originalStatement d)
     \<and> sg_correctedRef g = Some (dr_correctedRef d) \<and> sg_correctedStatement g = Some (dr_correctedStatement d)
     \<and> dr_candidateId d \<in> set (sg_candidateIds g)"
  using assms
proof (induction gs arbitrary: ds)
  case (Cons g gs)
  then obtain xs ys where d: "signal_drafts v g = Inr xs" "all_drafts v gs = Inr ys" "ds = xs @ ys" by auto
  show ?case
  proof (cases "d \<in> set xs")
    case True
    then show ?thesis using d(1) by (auto simp: signal_drafts_def split: option.splits prod.splits)
  next
    case False
    then show ?thesis using Cons.IH[OF d(2)] Cons.prems(2) d(3) by auto
  qed
qed simp

lemma compiled_parts:
  assumes "compileUserCommitments v episodes candidates = Inr (out, uc)"
  obtains signals where "applyUserCommitments v (map neutral candidates) signals = Inr out"
    "\<And>g. g \<in> set signals \<Longrightarrow> \<exists>ep \<in> set episodes. signal_grounded v ep (map neutral candidates) g"
    "\<forall>c \<in> set out. kc_assertions c \<noteq> [] \<or> kc_evidenceHints c \<noteq> []"
    "all_drafts v (filter (\<lambda>g. sg_kind g = commitment_kind.CORRECTION) signals) = Inr (uc_correctionDrafts uc)"
proof -
  obtain gs ms where c: "collect_commitments v (sort_by (\<lambda>l r. by_id v (ep_episodeId l) (ep_episodeId r)) episodes)
      (map neutral candidates) [] [] = Inr (gs, ms)"
    and a: "applyUserCommitments v (map neutral candidates) (sort_by (\<lambda>l r. by_id v (sg_signalId l) (sg_signalId r)) gs) = Inr out"
    and e: "\<not> list_ex (\<lambda>c. kc_assertions c = [] \<and> kc_evidenceHints c = []) out"
    and d: "all_drafts v (filter (\<lambda>g. sg_kind g = commitment_kind.CORRECTION)
      (sort_by (\<lambda>l r. by_id v (sg_signalId l) (sg_signalId r)) gs)) = Inr (uc_correctionDrafts uc)"
    using assms by (auto simp: compileUserCommitments_def Let_def)
  have "\<exists>ep \<in> set episodes. signal_grounded v ep (map neutral candidates) g" if "g \<in> set gs" for g
    by (rule collected_grounded[OF c _ _ that]) auto
  then show ?thesis using that[OF a _ _ d] e by (auto simp: list_ex_iff)
qed

lemma neutral_fields [simp]: "kc_candidateId (neutral c) = kc_candidateId c" "kc_sourceEpisodes (neutral c) = kc_sourceEpisodes c"
  by (simp_all add: neutral_def)

lemma local_neutral: "kc_candidateId ` set (local_candidates ep (map neutral cs))
    = kc_candidateId ` {c \<in> set cs. ep_episodeId ep \<in> set (kc_sourceEpisodes c)}"
  by (simp add: local_candidates_def filter_map comp_def image_image)

lemma added_is_said:
  assumes g: "\<And>g. g \<in> set gs \<Longrightarrow> \<exists>ep \<in> E. signal_grounded v ep (map neutral cs) g"
    and a: "added_for gs a" and c: "c \<in> set cs" "ka_candidateId a = kc_candidateId c"
  shows "\<exists>ep \<in> E. \<exists>kind r. ep_episodeId ep \<in> set (kc_sourceEpisodes c)
     \<and> commitment_body kind r = Some (ka_body a) \<and> user_said v ep r kind"
proof -
  obtain s where n: "s \<in> set gs" "kc_candidateId c \<in> set (sg_candidateIds s)"
    "commitment_body (sg_kind s) (sg_statementRef s) = Some (ka_body a)"
    using a c(2) by (auto simp: added_for_def)
  obtain ep where "ep \<in> E" "signal_grounded v ep (map neutral cs) s" using g[OF n(1)] by blast
  note s = n this
  have d: "distinct (map kc_candidateId cs)" using s(5) by (simp add: signal_grounded_def comp_def)
  obtain c' where "c' \<in> set cs" "kc_candidateId c' = kc_candidateId c" "ep_episodeId ep \<in> set (kc_sourceEpisodes c')"
    using s(2,5) unfolding signal_grounded_def local_neutral by fastforce
  then have "ep_episodeId ep \<in> set (kc_sourceEpisodes c)" using d c(1) by (metis inj_on_contraD distinct_map)
  then show ?thesis using s commitment_body_kind[OF s(3)] by (auto simp: signal_grounded_def)
qed

section \<open>An example\<close>

text \<open>The model says the user accepted a candidate; the user approved another turn's event, in an episode of it.\<close>

definition cx_episode :: built_episode where
  "cx_episode = \<lparr>ep_episodeId = ''e1'', ep_projectContext = \<lparr>pc_projectId = ''p'', pc_repositoryRoot = None,
       pc_repositoryRemote = None, pc_branch = None, pc_revision = None, pc_portable = False\<rparr>,
     be_builderVersion = ''1'', be_goal = ''goal'', be_goalRef = ''m0'', be_subgoals = [],
     be_userStatements = [\<lparr>us_turnId = ''t1'', us_sourceEventId = ''m1'', us_kind = CONTINUATION,
       us_statement = ''approved'', us_occurredAt = Iso 1\<rparr>],
     be_userCorrections = [], be_actions = [], be_artifacts = [], be_outcomes = [],
     be_evidenceRefs = [''m0'', ''m1''], be_status = episode_status.COMPLETED\<rparr>"

definition cx_candidate :: knowledge_candidate where
  "cx_candidate = ev_candidate\<lparr>kc_assertions := [\<lparr>ka_assertionId = ''q1'', ka_candidateId = ''c1'',
     ka_body = UserAccepted ''m0'', ka_createdAt = Iso 1\<rparr>],
     kc_evidenceHints := [\<lparr>eh_type = USER_STATEMENT, eh_sourceRef = ''m1'', eh_projectId = None, eh_correlationId = ''k''\<rparr>]\<rparr>"

definition cx_env :: commitment_env where
  "cx_env = \<lparr>cv_worker = \<lparr>we_evolution = ev_env, we_identity = (\<lambda>s k sc. ''new''), we_contentHash = (\<lambda>_. ''hash'')\<rparr>,
     cv_sha = id, cv_accepts = starts_with ''approve'', cv_rejects = starts_with ''reject'', cv_normalized = id,
     cv_ambiguityKey = (\<lambda>e a. e @ am_statementRef a), cv_draftId = (\<lambda>g i. g @ i)\<rparr>"

lemma cx_compiled:
  "(case compileUserCommitments cx_env [cx_episode] [cx_candidate] of Inl _ \<Rightarrow> False
    | Inr (out, uc) \<Rightarrow> map (\<lambda>c. map ka_body (kc_assertions c)) out = [[UserAccepted ''m1'']])"
  by code_simp

section \<open>The property\<close>

text \<open>
  C13: No candidate is accepted on the model's word. Compiling the user's commitments keeps every candidate as
  it was, except for its assertions that the user accepted or rejected it: those the model wrote are
  dropped, and each of those found afterwards names an event in the evidence of one of the candidate's own
  episodes in which the user said so. Every correction draft quotes a correction of an episode, and a
  candidate left with neither assertion nor evidence hint is refused.
\<close>

theorem commitments_are_the_users:
  assumes "compileUserCommitments v episodes candidates = Inr (out, uc)"
  shows "list_all2 same_but_commitments candidates out
    \<and> (\<forall>c \<in> set out. \<forall>a \<in> set (kc_assertions c). of_the_model a
         \<or> (\<exists>ep \<in> set episodes. \<exists>kind r. ep_episodeId ep \<in> set (kc_sourceEpisodes c)
              \<and> commitment_body kind r = Some (ka_body a) \<and> user_said v ep r kind))
    \<and> (\<forall>d \<in> set (uc_correctionDrafts uc). \<exists>ep \<in> set episodes. corrects ep (dr_originalRef d) (dr_originalStatement d)
         (dr_correctedRef d) (dr_correctedStatement d))
    \<and> (\<forall>c \<in> set out. kc_assertions c \<noteq> [] \<or> kc_evidenceHints c \<noteq> [])"
proof -
  obtain gs where gs: "applyUserCommitments v (map neutral candidates) gs = Inr out"
    and g: "\<And>g. g \<in> set gs \<Longrightarrow> \<exists>ep \<in> set episodes. signal_grounded v ep (map neutral candidates) g"
    and e: "\<forall>c \<in> set out. kc_assertions c \<noteq> [] \<or> kc_evidenceHints c \<noteq> []"
    and d: "all_drafts v (filter (\<lambda>g. sg_kind g = commitment_kind.CORRECTION) gs) = Inr (uc_correctionDrafts uc)"
    using compiled_parts[OF assms] by blast
  obtain added where a: "\<And>a. a \<in> set added \<Longrightarrow> added_for gs a"
    and out: "out = map (\<lambda>c. (neutral c)\<lparr>kc_assertions := filter of_the_model (kc_assertions c)
        @ filter (\<lambda>a. ka_candidateId a = kc_candidateId c) added\<rparr>) candidates"
    using applied_candidates[OF gs] by blast
  have n: "\<not> of_the_model x" if "x \<in> set added" for x
    using a[OF that] commitment_body_kind by (fastforce simp: added_for_def of_the_model_def)
  have "list_all2 same_but_commitments candidates out"
    using n by (auto simp: out list_all2_map2 same_but_commitments_def neutral_def filter_empty_conv intro!: list_all2_refl)
  moreover have "\<forall>c \<in> set out. \<forall>x \<in> set (kc_assertions c). of_the_model x
         \<or> (\<exists>ep \<in> set episodes. \<exists>kind r. ep_episodeId ep \<in> set (kc_sourceEpisodes c)
              \<and> commitment_body kind r = Some (ka_body x) \<and> user_said v ep r kind)"
    using added_is_said[OF g a] by (auto simp: out)
  moreover have "\<forall>d \<in> set (uc_correctionDrafts uc). \<exists>ep \<in> set episodes. corrects ep (dr_originalRef d)
      (dr_originalStatement d) (dr_correctedRef d) (dr_correctedStatement d)"
    using drafts_from[OF d] g by (fastforce simp: signal_grounded_def)
  ultimately show ?thesis using e by blast
qed

theorem commitments_are_the_users_witness:
  "\<exists>c. map ka_body (kc_assertions c) = [UserAccepted ''m1''] \<and> same_but_commitments cx_candidate c
    \<and> user_said cx_env cx_episode ''m1'' commitment_kind.USER_ACCEPTED"
proof -
  obtain out uc where c: "compileUserCommitments cx_env [cx_episode] [cx_candidate] = Inr (out, uc)"
    "map (\<lambda>c. map ka_body (kc_assertions c)) out = [[UserAccepted ''m1'']]"
    using cx_compiled by (auto split: sum.splits prod.splits)
  note facts = commitments_are_the_users[OF c(1)]
  obtain c where o: "out = [c]" "map ka_body (kc_assertions c) = [UserAccepted ''m1'']" using c(2) by auto
  then obtain a where a: "kc_assertions c = [a]" "ka_body a = UserAccepted ''m1''" by auto
  then obtain kind r where k: "commitment_body kind r = Some (UserAccepted ''m1'')" "user_said cx_env cx_episode r kind"
    using facts o(1) by (fastforce simp: of_the_model_def)
  then have "user_said cx_env cx_episode ''m1'' commitment_kind.USER_ACCEPTED" by (cases kind) auto
  moreover have "same_but_commitments cx_candidate c" using facts o(1) by simp
  ultimately show ?thesis by (intro exI[of _ c] conjI o(2))
qed

end
