(* ===== verification/KnowledgeExtraction.thy ===== *)
theory KnowledgeExtraction
  imports Commitments
begin

text \<open>
  Extracting candidates from an episode (\<^verbatim>\<open>packages/knowledge-compiler/src/input.ts\<close>, \<open>runner.ts\<close>): the
  input made of an episode, the attempts to get an output from the adapter, and the candidates made of an output
  that is grounded in the input. An attempt is what its race between the adapter, the timer and the caller's
  abort is settled with, a pause what the scheduler's sleep does. Given are the texts of canonical JSON,
  SHA-256, and the two JSON schemas: a parsed output is a list of drafts, and \<open>xe_candidateOk\<close> says whether
  a candidate is valid. A thrown \<open>Error\<close> is \<open>Inl ()\<close>.
\<close>

section \<open>Input (input.ts)\<close>

record extraction_project =
  xj_projectId :: string
  xj_repositoryRemote :: "string option"
  xj_branch :: "string option"
  xj_commit :: "string option"
  xj_dirty :: "bool option"
  xj_portable :: bool

record extraction_input =
  xi_schemaVersion :: int
  xi_episodeId :: string
  xi_builderVersion :: string
  xi_projectContext :: extraction_project
  xi_goal :: string
  xi_goalRef :: string
  xi_subgoals :: "(string \<times> string) list"
  xi_corrections :: "(string \<times> string \<times> string \<times> string) list"
  xi_actions :: "(action_kind \<times> string \<times> string list) list"
  xi_artifacts :: "artifact_ref list"
  xi_outcomes :: "episode_outcome list"
  xi_evidenceRefs :: "string list"

definition extraction_context :: "project_context \<Rightarrow> extraction_project" where
  "extraction_context p = \<lparr>xj_projectId = pc_projectId p, xj_repositoryRemote = pc_repositoryRemote p,
     xj_branch = pc_branch p, xj_commit = map_option fst (pc_revision p), xj_dirty = map_option snd (pc_revision p),
     xj_portable = pc_portable p\<rparr>"

text \<open>The references given to \<open>addEvidence\<close>, in order.\<close>

definition referenced_events :: "built_episode \<Rightarrow> string list" where
  "referenced_events ep = be_goalRef ep # map gl_sourceEventId (be_subgoals ep)
     @ concat (map (\<lambda>k. [cn_originalRef k, cn_correctedRef k]) (be_userCorrections ep))
     @ concat (map ac_sourceEventIds (be_actions ep)) @ concat (map oc_evidenceRefs (be_outcomes ep))"

definition toKnowledgeExtractionInput :: "built_episode \<Rightarrow> unit + extraction_input" where
  "toKnowledgeExtractionInput ep =
     and_then (ensure (be_status ep \<noteq> OPEN) ()) (\<lambda>_.
     and_then (ensure (list_all (\<lambda>r. r \<in> set (be_evidenceRefs ep)) (referenced_events ep)) ()) (\<lambda>_.
     and_then (ensure (list_all (\<lambda>a. ac_sourceEventIds a \<noteq> []) (be_actions ep)) ()) (\<lambda>_.
     and_then (ensure (list_all (\<lambda>x. oc_evidenceRefs x \<noteq> []) (be_outcomes ep)) ()) (\<lambda>_.
     Inr \<lparr>xi_schemaVersion = 1, xi_episodeId = ep_episodeId ep, xi_builderVersion = be_builderVersion ep,
       xi_projectContext = extraction_context (ep_projectContext ep), xi_goal = be_goal ep, xi_goalRef = be_goalRef ep,
       xi_subgoals = map (\<lambda>g. (gl_statement g, gl_sourceEventId g)) (be_subgoals ep),
       xi_corrections = map (\<lambda>k. (cn_originalRef k, cn_originalStatement k, cn_correctedRef k, cn_correctedStatement k))
         (be_userCorrections ep),
       xi_actions = map (\<lambda>a. (ac_kind a, ac_summary a, ac_sourceEventIds a)) (be_actions ep),
       xi_artifacts = be_artifacts ep, xi_outcomes = be_outcomes ep,
       xi_evidenceRefs = uniq (referenced_events ep)\<rparr>))))"

section \<open>Requests, outputs and results (types.ts)\<close>

record extraction_request =
  xq_input :: extraction_input
  xq_compilerVersion :: string
  xq_promptVersion :: string
  xq_requestedAt :: timestamp
  xq_correlationId :: string

record scenario_hint =
  sn_scenarioKey :: string
  sn_title :: string
  sn_summary :: string
  sn_taskIntents :: "string list"
  sn_entryPoints :: "string list"
  sn_applicability :: "string list"
  sn_nonApplicability :: "string list"

record hint_draft =
  hd_type :: evidence_type
  hd_sourceRef :: string
  hd_projectId :: "string option"

record candidate_draft =
  cd_subjectKey :: string
  cd_kind :: knowledge_kind
  cd_scopeHint :: scope_hint
  cd_title :: string
  cd_summary :: string
  cd_body :: string
  cd_confidence :: rat
  cd_claimMode :: "claim_mode option"
  cd_scenarioHint :: "scenario_hint option"
  cd_assertions :: "assertion_body list"
  cd_evidenceHints :: "hint_draft list"

datatype diagnostic_code = SCHEMA_INVALID | UNREFERENCED_SOURCE | PROJECT_MISMATCH | GENERATED_CANDIDATE_INVALID

type_synonym diagnostic = "diagnostic_code \<times> string"

datatype failure_reason =
  TIMEOUT | ADAPTER_UNAVAILABLE | INVALID_OUTPUT | RETRY_SCHEDULER_FAILED | ADAPTER_REJECTED | ABORTED

datatype extraction_outcome =
  Succeeded "knowledge_candidate list"
| Retryable failure_reason "diagnostic list"
| Failed failure_reason "diagnostic list"

record extraction_result =
  xr_extractionKey :: string
  xr_inputHash :: string
  xr_episodeId :: string
  xr_builderVersion :: string
  xr_compilerVersion :: string
  xr_promptVersion :: string
  xr_attempts :: int
  xr_outcome :: extraction_outcome

datatype adapter_code = UNAVAILABLE | RATE_LIMITED | INVALID_ADAPTER_OUTPUT | REJECTED

text \<open>A \<open>KnowledgeExtractionAdapterError\<close>, or any other error.\<close>

datatype adapter_error = AdapterError adapter_code bool | OtherError

datatype attempt_result = Output string | AttemptError adapter_error | TimedOut | AttemptAborted bool

datatype pause_result = Slept | PauseAborted | PauseFailed

record extraction_port =
  xp_attempt :: "extraction_request \<Rightarrow> nat \<Rightarrow> attempt_result"
  xp_pause :: "nat \<Rightarrow> pause_result"

record extraction_options =
  xo_perAttemptTimeoutMs :: "int option"
  xo_maxAttempts :: "int option"
  xo_retryDelayMs :: "int option"

record extraction_env =
  xe_sha :: "string \<Rightarrow> string"
  xe_inputJson :: "extraction_input \<Rightarrow> string"
  xe_draftJson :: "candidate_draft \<Rightarrow> string"
  xe_assertionJson :: "assertion_body \<Rightarrow> string"
  xe_isoDateTime :: "timestamp \<Rightarrow> bool"
  xe_parse :: "string \<Rightarrow> (bool \<times> string list) + candidate_draft list"
  xe_candidateOk :: "knowledge_candidate \<Rightarrow> bool"

definition hash_text :: "extraction_env \<Rightarrow> string list \<Rightarrow> string" where
  "hash_text x parts = xe_sha x (join_with [CHR 0x00] parts)"

section \<open>Validation (runner.ts)\<close>

definition non_empty_text :: "int \<Rightarrow> string \<Rightarrow> bool" where
  "non_empty_text n s \<longleftrightarrow> has_text s \<and> int (length s) \<le> n"

text \<open>\<open>/^[A-Za-z0-9._-]{1,100}$/\<close>.\<close>

definition safe_version :: "string \<Rightarrow> bool" where
  "safe_version s \<longleftrightarrow> 1 \<le> length s \<and> length s \<le> 100
     \<and> list_all (\<lambda>c. ascii_lower c \<or> ascii_upper c \<or> ascii_digit c \<or> c \<in> set ''._-'') s"

definition assertRequest :: "extraction_env \<Rightarrow> extraction_request \<Rightarrow> bool" where
  "assertRequest x q \<longleftrightarrow> (let i = xq_input q in
     xi_schemaVersion i = 1 \<and> non_empty_text 200 (xi_episodeId i) \<and> non_empty_text 32000 (xi_goal i)
   \<and> non_empty_text 500 (xi_goalRef i) \<and> non_empty_text 500 (xj_projectId (xi_projectContext i))
   \<and> safe_version (xi_builderVersion i) \<and> safe_version (xq_compilerVersion q) \<and> safe_version (xq_promptVersion q)
   \<and> non_empty_text 200 (xq_correlationId q) \<and> xe_isoDateTime x (xq_requestedAt q)
   \<and> length (xi_evidenceRefs i) \<noteq> 0 \<and> distinct (xi_evidenceRefs i) \<and> list_all (non_empty_text 500) (xi_evidenceRefs i)
   \<and> xi_goalRef i \<in> set (xi_evidenceRefs i))"

definition within_limits :: "int \<Rightarrow> int \<Rightarrow> int \<Rightarrow> bool" where
  "within_limits low high n \<longleftrightarrow> safe_integer n \<and> low \<le> n \<and> n \<le> high"

definition default_to :: "'a \<Rightarrow> 'a option \<Rightarrow> 'a" where
  "default_to d v = (case v of None \<Rightarrow> d | Some y \<Rightarrow> y)"

text \<open>The attempts allowed and whether there is a pause between them.\<close>

definition validateOptions :: "extraction_options \<Rightarrow> unit + (nat \<times> bool)" where
  "validateOptions opts =
    (let timeout = default_to 30000 (xo_perAttemptTimeoutMs opts);
         attempts = default_to 3 (xo_maxAttempts opts); delay = default_to 250 (xo_retryDelayMs opts) in
     and_then (ensure (within_limits 1 300000 timeout) ()) (\<lambda>_.
     and_then (ensure (within_limits 1 10 attempts) ()) (\<lambda>_.
     and_then (ensure (within_limits 0 60000 delay) ()) (\<lambda>_.
     Inr (nat attempts, delay > 0)))))"

definition knowledgeExtractionInputHash :: "extraction_env \<Rightarrow> extraction_request \<Rightarrow> unit + string" where
  "knowledgeExtractionInputHash x q = (let serialized = xe_inputJson x (xq_input q) in
     and_then (ensure (int (length serialized) \<le> 4000000) ()) (\<lambda>_.
     Inr (hash_text x [''knowledge-extraction-input-v1'', serialized])))"

definition extractionKey :: "extraction_env \<Rightarrow> extraction_request \<Rightarrow> string \<Rightarrow> string" where
  "extractionKey x q inputHash = hash_text x [''knowledge-extraction-v1'', xi_episodeId (xq_input q),
     xi_builderVersion (xq_input q), inputHash, xq_compilerVersion q, xq_promptVersion q]"

definition knowledgeExtractionKey :: "extraction_env \<Rightarrow> extraction_request \<Rightarrow> unit + string" where
  "knowledgeExtractionKey x q = and_then (knowledgeExtractionInputHash x q) (\<lambda>h. Inr (extractionKey x q h))"

section \<open>Grounding\<close>

definition at_path :: "string \<Rightarrow> nat \<Rightarrow> string" where
  "at_path base n = base @ show_int (int n)"

definition mismatch :: "string \<Rightarrow> string option \<Rightarrow> string option \<Rightarrow> diagnostic list" where
  "mismatch path value expected = (if value \<noteq> None \<and> value \<noteq> expected then [(PROJECT_MISMATCH, path)] else [])"

fun assertion_project :: "assertion_body \<Rightarrow> string option" where
  "assertion_project (SymbolExists p _ _) = Some p"
| "assertion_project (CallPathExists p _ _ _) = Some p"
| "assertion_project (ImpactContains p _ _) = Some p"
| "assertion_project _ = None"

definition assertion_diagnostics :: "extraction_input \<Rightarrow> string \<Rightarrow> assertion_body \<Rightarrow> diagnostic list" where
  "assertion_diagnostics i path a =
     (case commitment_ref a of Some r \<Rightarrow>
        (if r \<notin> set (xi_evidenceRefs i) then [(UNREFERENCED_SOURCE, path @ ''/parameters/statementRef'')] else [])
      | None \<Rightarrow> [])
     @ mismatch (path @ ''/parameters/projectId'') (assertion_project a) (Some (xj_projectId (xi_projectContext i)))"

definition hint_diagnostics :: "extraction_input \<Rightarrow> string \<Rightarrow> hint_draft \<Rightarrow> diagnostic list" where
  "hint_diagnostics i path h =
     (if hd_sourceRef h \<notin> set (xi_evidenceRefs i) then [(UNREFERENCED_SOURCE, path @ ''/sourceRef'')] else [])
     @ mismatch (path @ ''/projectId'') (hd_projectId h) (Some (xj_projectId (xi_projectContext i)))"

definition draft_diagnostics :: "extraction_input \<Rightarrow> nat \<Rightarrow> candidate_draft \<Rightarrow> diagnostic list" where
  "draft_diagnostics i n d = (let base = at_path ''/candidates/'' n; p = xi_projectContext i in
     mismatch (base @ ''/scopeHint/projectId'') (sh_projectId (cd_scopeHint d)) (Some (xj_projectId p))
     @ mismatch (base @ ''/scopeHint/repositoryRemote'') (sh_repositoryRemote (cd_scopeHint d)) (xj_repositoryRemote p)
     @ concat (map (\<lambda>(k, a). assertion_diagnostics i (at_path (base @ ''/assertions/'') k) a) (enumerate 0 (cd_assertions d)))
     @ concat (map (\<lambda>(k, h). hint_diagnostics i (at_path (base @ ''/evidenceHints/'') k) h) (enumerate 0 (cd_evidenceHints d))))"

definition validateGrounding :: "extraction_input \<Rightarrow> candidate_draft list \<Rightarrow> diagnostic list" where
  "validateGrounding i ds = concat (map (\<lambda>(n, d). draft_diagnostics i n d) (enumerate 0 ds))"

section \<open>Candidates\<close>

definition draft_applicability :: "extraction_project \<Rightarrow> branch_applicability" where
  "draft_applicability p = (case xj_commit p of
     Some c \<Rightarrow> BRANCH_LINEAGE c (xj_branch p)
   | None \<Rightarrow> (case xj_branch p of Some b \<Rightarrow> EXACT_BRANCH b | None \<Rightarrow> ALL_BRANCHES ''NO_AUTHORITATIVE_BRANCH''))"

text \<open>The locator of a scenario hint; \<open>None\<close> when \<open>deriveScenarioId\<close> throws.\<close>

definition draft_locator :: "extraction_project \<Rightarrow> candidate_draft \<Rightarrow> scenario_hint \<Rightarrow> knowledge_locator option" where
  "draft_locator p d s = map_option (\<lambda>scenarioId.
     \<lparr>kl_schemaVersion = 1, kl_projectId = xj_projectId p, kl_repositoryRemote = xj_repositoryRemote p,
      kl_observedRevision = \<lparr>or_branch = xj_branch p, or_commit = xj_commit p, or_dirty = default_to False (xj_dirty p),
        or_codegraphRevision = None\<rparr>,
      kl_branchApplicability = draft_applicability p, kl_scenarioId = scenarioId, kl_scenarioKey = sn_scenarioKey s,
      kl_scenarioTitle = sn_title s, kl_scenarioSummary = sn_summary s,
      kl_modulePaths = default_to [] (sh_modulePaths (cd_scopeHint d)), kl_symbols = default_to [] (sh_symbols (cd_scopeHint d)),
      kl_entryPoints = sn_entryPoints s, kl_taskIntents = sn_taskIntents s,
      kl_applicability = sn_applicability s, kl_nonApplicability = sn_nonApplicability s\<rparr>)
     (deriveScenarioId (xj_projectId p) (sn_scenarioKey s))"

definition draft_assertion :: "extraction_env \<Rightarrow> extraction_request \<Rightarrow> string \<Rightarrow> nat \<Rightarrow> assertion_body \<Rightarrow> knowledge_assertion" where
  "draft_assertion x q candidateId n a =
     \<lparr>ka_assertionId = hash_text x [candidateId, ''assertion'', show_int (int n), xe_assertionJson x a],
      ka_candidateId = candidateId, ka_body = a, ka_createdAt = xq_requestedAt q\<rparr>"

definition draft_candidate :: "extraction_env \<Rightarrow> extraction_request \<Rightarrow> string \<Rightarrow> nat \<Rightarrow> candidate_draft
    \<Rightarrow> candidate_localization \<Rightarrow> knowledge_candidate" where
  "draft_candidate x q key n d localization =
    (let candidateId = hash_text x [key, ''candidate'', show_int (int n), xe_draftJson x d] in
     \<lparr>kc_candidateId = candidateId, kc_compilerVersion = xq_compilerVersion q, kc_status = PROPOSED,
      kc_subjectKey = cd_subjectKey d, kc_kind = cd_kind d, kc_scopeHint = cd_scopeHint d, kc_title = cd_title d,
      kc_summary = cd_summary d, kc_body = cd_body d, kc_sourceEpisodes = [xi_episodeId (xq_input q)],
      kc_confidence = cd_confidence d, kc_createdAt = xq_requestedAt q, kc_correlationId = xq_correlationId q,
      kc_assertions = map (\<lambda>(k, a). draft_assertion x q candidateId k a) (enumerate 0 (cd_assertions d)),
      kc_evidenceHints = map (\<lambda>h. \<lparr>eh_type = hd_type h, eh_sourceRef = hd_sourceRef h, eh_projectId = hd_projectId h,
        eh_correlationId = xq_correlationId q\<rparr>) (cd_evidenceHints d),
      kc_localization = localization\<rparr>)"

text \<open>What is thrown (\<open>None\<close>, by \<open>deriveScenarioId\<close>) or diagnosed, or the localization of the candidate.\<close>

definition draft_localization :: "extraction_project \<Rightarrow> nat \<Rightarrow> candidate_draft \<Rightarrow> diagnostic option + candidate_localization" where
  "draft_localization p n d = (let invalid = (\<lambda>field. Inl (Some (GENERATED_CANDIDATE_INVALID, at_path ''/candidates/'' n @ field))) in
     case (cd_claimMode d, cd_scenarioHint d) of
       (None, None) \<Rightarrow> Inr (Schema1 None None)
     | (Some mode, Some s) \<Rightarrow>
         (if \<not> isValidScenarioKey (sn_scenarioKey s) then invalid ''/scenarioHint''
          else (case draft_locator p d s of
              None \<Rightarrow> Inl None
            | Some l \<Rightarrow> if \<not> lv_valid (validateKnowledgeLocator l) then invalid ''/locator'' else Inr (Schema2 mode l)))
     | _ \<Rightarrow> invalid ''/localization'')"

fun materialize :: "extraction_env \<Rightarrow> extraction_request \<Rightarrow> string \<Rightarrow> nat \<Rightarrow> candidate_draft list
    \<Rightarrow> diagnostic option + knowledge_candidate list" where
  "materialize x q key n [] = Inr []"
| "materialize x q key n (d # ds) =
     and_then (draft_localization (xi_projectContext (xq_input q)) n d) (\<lambda>localization.
     let c = draft_candidate x q key n d localization in
     and_then (ensure (xe_candidateOk x c) (Some (GENERATED_CANDIDATE_INVALID, at_path ''/candidates/'' n))) (\<lambda>_.
     and_then (materialize x q key (Suc n) ds) (\<lambda>cs. Inr (c # cs))))"

definition materializeCandidates :: "extraction_env \<Rightarrow> extraction_request \<Rightarrow> string \<Rightarrow> candidate_draft list
    \<Rightarrow> diagnostic list option + knowledge_candidate list" where
  "materializeCandidates x q key ds = (let diagnostics = validateGrounding (xq_input q) ds in
     if diagnostics \<noteq> [] then Inl (Some diagnostics)
     else map_error (map_option (\<lambda>d. [d])) (materialize x q key 0 ds))"

definition invalidOutput :: "extraction_env \<Rightarrow> extraction_request \<Rightarrow> string \<Rightarrow> string
    \<Rightarrow> diagnostic list option + knowledge_candidate list" where
  "invalidOutput x q key out = (case xe_parse x out of
     Inl (unsupported, paths) \<Rightarrow> Inl (Some (map (\<lambda>p. (SCHEMA_INVALID, p)) (take 100
       (if paths = [] then [if unsupported then ''/schemaVersion'' else ''''] else paths))))
   | Inr ds \<Rightarrow> materializeCandidates x q key ds)"

section \<open>Attempts\<close>

definition failureReason :: "adapter_error \<Rightarrow> failure_reason \<times> bool" where
  "failureReason e = (case e of
     AdapterError code retryable \<Rightarrow>
       (if code = INVALID_ADAPTER_OUTPUT then INVALID_OUTPUT else if retryable then ADAPTER_UNAVAILABLE else ADAPTER_REJECTED,
        retryable)
   | OtherError \<Rightarrow> (ADAPTER_UNAVAILABLE, True))"

definition extraction_base :: "extraction_request \<Rightarrow> string \<Rightarrow> string \<Rightarrow> nat \<Rightarrow> extraction_outcome \<Rightarrow> extraction_result" where
  "extraction_base q key inputHash attempts out =
     \<lparr>xr_extractionKey = key, xr_inputHash = inputHash, xr_episodeId = xi_episodeId (xq_input q),
      xr_builderVersion = xi_builderVersion (xq_input q), xr_compilerVersion = xq_compilerVersion q,
      xr_promptVersion = xq_promptVersion q, xr_attempts = int attempts, xr_outcome = out\<rparr>"

text \<open>
  One attempt: done with a number of attempts and an outcome, or a reason to try again; \<open>Inl ()\<close> when
  \<open>materializeCandidates\<close> throws.
\<close>

datatype attempt_step = Done nat extraction_outcome | Again failure_reason "diagnostic list"

definition attempt_step :: "extraction_env \<Rightarrow> extraction_request \<Rightarrow> string \<Rightarrow> nat \<Rightarrow> attempt_result \<Rightarrow> unit + attempt_step" where
  "attempt_step x q key n r = (case r of
     Output out \<Rightarrow> (case invalidOutput x q key out of
         Inr cs \<Rightarrow> Inr (Done n (Succeeded cs))
       | Inl (Some ds) \<Rightarrow> Inr (Again INVALID_OUTPUT ds)
       | Inl None \<Rightarrow> Inl ())
   | TimedOut \<Rightarrow> Inr (Again TIMEOUT [])
   | AttemptAborted started \<Rightarrow> Inr (Done (if started then n else n - 1) (Failed ABORTED []))
   | AttemptError e \<Rightarrow> (case failureReason e of
         (reason, True) \<Rightarrow> Inr (Again reason [])
       | (reason, False) \<Rightarrow> Inr (Done n (Failed reason []))))"

fun attempts_from :: "extraction_env \<Rightarrow> extraction_request \<Rightarrow> extraction_port \<Rightarrow> string \<Rightarrow> bool \<Rightarrow> nat \<Rightarrow> nat
    \<Rightarrow> failure_reason \<Rightarrow> diagnostic list \<Rightarrow> unit + nat \<times> extraction_outcome" where
  "attempts_from x q port key pausing 0 n reason ds = Inr (n - 1, Retryable reason ds)"
| "attempts_from x q port key pausing (Suc left) n reason ds =
     and_then (attempt_step x q key n (xp_attempt port q n)) (\<lambda>s. case s of
       Done k out \<Rightarrow> Inr (k, out)
     | Again reason' ds' \<Rightarrow>
         (if 0 < left \<and> pausing then (case xp_pause port n of
              Slept \<Rightarrow> attempts_from x q port key pausing left (Suc n) reason' ds'
            | PauseAborted \<Rightarrow> Inr (n, Failed ABORTED [])
            | PauseFailed \<Rightarrow> Inr (n, Retryable RETRY_SCHEDULER_FAILED []))
          else attempts_from x q port key pausing left (Suc n) reason' ds'))"

definition runKnowledgeExtraction :: "extraction_env \<Rightarrow> extraction_request \<Rightarrow> extraction_port \<Rightarrow> extraction_options
    \<Rightarrow> unit + extraction_result" where
  "runKnowledgeExtraction x q port opts =
     and_then (ensure (assertRequest x q) ()) (\<lambda>_.
     and_then (validateOptions opts) (\<lambda>(maxAttempts, pausing).
     and_then (knowledgeExtractionInputHash x q) (\<lambda>inputHash.
     let key = extractionKey x q inputHash in
     and_then (attempts_from x q port key pausing maxAttempts 1 ADAPTER_UNAVAILABLE []) (\<lambda>(attempts, out).
     Inr (extraction_base q key inputHash attempts out)))))"

end
