(* ===== verification/KnowledgeExtractionProps.thy ===== *)
theory KnowledgeExtractionProps
  imports KnowledgeExtraction CommitmentProps
begin

text \<open>What an extraction that succeeds has shown of its candidates, and how long it tries.\<close>

section \<open>Grounding\<close>

lemma set_map_enumerate: "set (map (\<lambda>(n, y). f n y) (enumerate k ys)) = {f (k + n) (ys ! n) | n. n < length ys}"
  by (auto simp: in_set_enumerate_eq image_iff) (metis add_diff_inverse_nat less_diff_conv2 not_le)+

lemma in_enumerate: "y \<in> set ys \<Longrightarrow> \<exists>n. (n, y) \<in> set (enumerate k ys)"
  by (metis enumerate_eq_zip in_set_impl_in_set_zip2 length_upt add_diff_cancel_left')

lemma mismatch_Nil: "mismatch path value expected = [] \<longleftrightarrow> value = None \<or> value = expected"
  by (simp add: mismatch_def)

text \<open>What no diagnostic says of a draft.\<close>

definition draft_grounded :: "extraction_input \<Rightarrow> candidate_draft \<Rightarrow> bool" where
  "draft_grounded i d \<longleftrightarrow> (let p = Some (xj_projectId (xi_projectContext i)) in
     sh_projectId (cd_scopeHint d) \<in> {None, p}
   \<and> sh_repositoryRemote (cd_scopeHint d) \<in> {None, xj_repositoryRemote (xi_projectContext i)}
   \<and> (\<forall>a \<in> set (cd_assertions d). assertion_project a \<in> {None, p}
        \<and> (\<forall>r. commitment_ref a = Some r \<longrightarrow> r \<in> set (xi_evidenceRefs i)))
   \<and> (\<forall>h \<in> set (cd_evidenceHints d). hd_sourceRef h \<in> set (xi_evidenceRefs i) \<and> hd_projectId h \<in> {None, p}))"

lemma no_diagnostics:
  assumes "draft_diagnostics i n d = []"
  shows "draft_grounded i d"
proof -
  have a: "assertion_diagnostics i (at_path (at_path ''/candidates/'' n @ ''/assertions/'') k) b = []"
    if "(k, b) \<in> set (enumerate 0 (cd_assertions d))" for k b
    using assms that by (fastforce simp: draft_diagnostics_def Let_def)
  have h: "hint_diagnostics i (at_path (at_path ''/candidates/'' n @ ''/evidenceHints/'') k) b = []"
    if "(k, b) \<in> set (enumerate 0 (cd_evidenceHints d))" for k b
    using assms that by (fastforce simp: draft_diagnostics_def Let_def)
  have "assertion_project b \<in> {None, Some (xj_projectId (xi_projectContext i))}
      \<and> (\<forall>r. commitment_ref b = Some r \<longrightarrow> r \<in> set (xi_evidenceRefs i))" if "b \<in> set (cd_assertions d)" for b
    using in_enumerate[OF that, of 0] a by (fastforce simp: assertion_diagnostics_def mismatch_Nil split: option.splits if_splits)
  moreover have "hd_sourceRef b \<in> set (xi_evidenceRefs i) \<and> hd_projectId b \<in> {None, Some (xj_projectId (xi_projectContext i))}"
    if "b \<in> set (cd_evidenceHints d)" for b
    using in_enumerate[OF that, of 0] h by (fastforce simp: hint_diagnostics_def mismatch_Nil split: if_splits)
  ultimately show ?thesis using assms by (auto simp: draft_grounded_def draft_diagnostics_def Let_def mismatch_Nil)
qed

lemma grounding_ok: "validateGrounding i ds = [] \<Longrightarrow> d \<in> set ds \<Longrightarrow> draft_grounded i d"
  using in_enumerate[of d ds 0] by (fastforce simp: validateGrounding_def intro: no_diagnostics)

section \<open>Candidates\<close>

text \<open>What is true of a candidate made of the input of a request.\<close>

definition candidate_grounded :: "extraction_env \<Rightarrow> extraction_request \<Rightarrow> knowledge_candidate \<Rightarrow> bool" where
  "candidate_grounded x q c \<longleftrightarrow> (let i = xq_input q; p = Some (xj_projectId (xi_projectContext i)) in
     xe_candidateOk x c \<and> kc_status c = PROPOSED \<and> kc_sourceEpisodes c = [xi_episodeId i]
   \<and> kc_createdAt c = xq_requestedAt q \<and> kc_correlationId c = xq_correlationId q
   \<and> sh_projectId (kc_scopeHint c) \<in> {None, p}
   \<and> sh_repositoryRemote (kc_scopeHint c) \<in> {None, xj_repositoryRemote (xi_projectContext i)}
   \<and> (\<forall>a \<in> set (kc_assertions c). ka_candidateId a = kc_candidateId c \<and> assertion_project (ka_body a) \<in> {None, p}
        \<and> (\<forall>r. commitment_ref (ka_body a) = Some r \<longrightarrow> r \<in> set (xi_evidenceRefs i)))
   \<and> (\<forall>h \<in> set (kc_evidenceHints c). eh_sourceRef h \<in> set (xi_evidenceRefs i) \<and> eh_projectId h \<in> {None, p})
   \<and> (\<forall>l. kc_locator c = Some l \<longrightarrow> lv_valid (validateKnowledgeLocator l) \<and> Some (kl_projectId l) = p))"

lemma localized:
  assumes "draft_localization p n d = Inr (Schema1 m (Some l)) \<or> draft_localization p n d = Inr (Schema2 m' l)"
  shows "lv_valid (validateKnowledgeLocator l) \<and> kl_projectId l = xj_projectId p"
  using assms by (auto simp: draft_localization_def draft_locator_def Let_def split: option.splits if_splits)

lemma made_grounded:
  assumes "draft_grounded (xq_input q) d" and "draft_localization (xi_projectContext (xq_input q)) n d = Inr loc"
    and "xe_candidateOk x (draft_candidate x q key k d loc)"
  shows "candidate_grounded x q (draft_candidate x q key k d loc)"
proof -
  have "lv_valid (validateKnowledgeLocator l) \<and> kl_projectId l = xj_projectId (xi_projectContext (xq_input q))"
    if "kc_locator (draft_candidate x q key k d loc) = Some l" for l
    using that assms(2) localized[of "xi_projectContext (xq_input q)" n d]
    by (auto simp: kc_locator_def draft_candidate_def Let_def split: candidate_localization.splits)
  then show ?thesis using assms(1,3)
    by (auto simp: candidate_grounded_def draft_grounded_def draft_candidate_def draft_assertion_def Let_def
        in_set_enumerate_eq)
qed

lemma materialized_grounded:
  assumes "materialize x q key n ds = Inr cs" and "\<forall>d \<in> set ds. draft_grounded (xq_input q) d" and "c \<in> set cs"
  shows "candidate_grounded x q c"
  using assms
proof (induction ds arbitrary: n cs)
  case (Cons d ds)
  then obtain loc rest where m: "draft_localization (xi_projectContext (xq_input q)) n d = Inr loc"
    "xe_candidateOk x (draft_candidate x q key n d loc)" "materialize x q key (Suc n) ds = Inr rest"
    "cs = draft_candidate x q key n d loc # rest"
    by (auto simp: Let_def)
  have "draft_grounded (xq_input q) d" using Cons.prems(2) by simp
  note made_grounded[OF this m(1,2)]
  moreover have "\<forall>d \<in> set ds. draft_grounded (xq_input q) d" using Cons.prems(2) by simp
  note Cons.IH[OF m(3) this]
  ultimately show ?case using Cons.prems(3) m(4) by auto
qed simp

lemma output_grounded:
  assumes "invalidOutput x q key out = Inr cs" and "c \<in> set cs"
  shows "candidate_grounded x q c"
proof -
  obtain ds where "validateGrounding (xq_input q) ds = []" "materialize x q key 0 ds = Inr cs"
    using assms(1) by (auto simp: invalidOutput_def materializeCandidates_def Let_def split: sum.splits if_splits)
  then show ?thesis using materialized_grounded[OF _ _ assms(2)] grounding_ok by blast
qed

section \<open>Attempts\<close>

definition outcome_grounded :: "extraction_env \<Rightarrow> extraction_request \<Rightarrow> extraction_outcome \<Rightarrow> bool" where
  "outcome_grounded x q out \<longleftrightarrow> (case out of Succeeded cs \<Rightarrow> (\<forall>c \<in> set cs. candidate_grounded x q c) | _ \<Rightarrow> True)"

definition attempts_needed :: "extraction_outcome \<Rightarrow> nat" where
  "attempts_needed out = (if out = Failed ABORTED [] then 0 else 1)"

lemma attempt_done:
  assumes "attempt_step x q key n r = Inr (Done k out)" and "1 \<le> n"
  shows "outcome_grounded x q out \<and> attempts_needed out \<le> k \<and> k \<le> n"
  using assms output_grounded
  by (auto simp: attempt_step_def outcome_grounded_def attempts_needed_def
      split: attempt_result.splits sum.splits option.splits prod.splits bool.splits if_splits)

lemma attempts_facts:
  assumes "attempts_from x q port key pausing left n reason ds = Inr (k, out)" and "1 \<le> n" and "left > 0 \<or> 1 < n"
  shows "outcome_grounded x q out \<and> attempts_needed out \<le> k \<and> k < n + left"
  using assms
proof (induction left arbitrary: n reason ds)
  case (Suc left)
  obtain s where s: "attempt_step x q key n (xp_attempt port q n) = Inr s"
    using Suc.prems(1) by auto
  show ?case
  proof (cases s)
    case (Done j out')
    then have "j = k \<and> out' = out" using Suc.prems(1) s by auto
    then show ?thesis using attempt_done[OF s[unfolded Done] Suc.prems(2)] by auto
  next
    case (Again reason' ds')
    have r: "(out = Failed ABORTED [] \<or> out = Retryable RETRY_SCHEDULER_FAILED []) \<and> k = n
        \<or> attempts_from x q port key pausing left (Suc n) reason' ds' = Inr (k, out)"
      using Suc.prems(1) s Again by (auto split: if_splits pause_result.splits)
    then show ?thesis using Suc.prems(2) Suc.IH[of "Suc n" reason' ds']
      by (auto simp: outcome_grounded_def attempts_needed_def)
  qed
qed (auto simp: outcome_grounded_def attempts_needed_def)


lemma input_of_episode:
  assumes "toKnowledgeExtractionInput ep = Inr i"
  shows "xi_episodeId i = ep_episodeId ep \<and> set (xi_evidenceRefs i) \<subseteq> set (be_evidenceRefs ep)
    \<and> xj_projectId (xi_projectContext i) = pc_projectId (ep_projectContext ep)
    \<and> xj_repositoryRemote (xi_projectContext i) = pc_repositoryRemote (ep_projectContext ep)"
  using assms by (auto simp: toKnowledgeExtractionInput_def extraction_context_def list_all_iff)

section \<open>An example\<close>

text \<open>The first attempt times out, the second brings a draft that cites a statement of the episode.\<close>

definition kx_draft :: candidate_draft where
  "kx_draft = \<lparr>cd_subjectKey = ''api.users.list'', cd_kind = FACT, cd_scopeHint = kc_scopeHint ev_candidate,
     cd_title = ''Users'', cd_summary = ''Sorted.'', cd_body = ''new'', cd_confidence = 1, cd_claimMode = None,
     cd_scenarioHint = None, cd_assertions = [UserAccepted ''m0''],
     cd_evidenceHints = [\<lparr>hd_type = USER_STATEMENT, hd_sourceRef = ''m0'', hd_projectId = Some ''p''\<rparr>]\<rparr>"

definition kx_env :: extraction_env where
  "kx_env = \<lparr>xe_sha = (\<lambda>s. ''h:'' @ s), xe_inputJson = xi_goal, xe_draftJson = cd_title, xe_assertionJson = (\<lambda>_. ''a''),
     xe_isoDateTime = (\<lambda>t. case t of Iso _ \<Rightarrow> True | NonIso _ \<Rightarrow> False), xe_parse = (\<lambda>_. Inr [kx_draft]),
     xe_candidateOk = (\<lambda>_. True)\<rparr>"

definition kx_port :: extraction_port where
  "kx_port = \<lparr>xp_attempt = (\<lambda>_ n. if n = 1 then TimedOut else Output ''{}''), xp_pause = (\<lambda>_. Slept)\<rparr>"

definition kx_options :: extraction_options where
  "kx_options = \<lparr>xo_perAttemptTimeoutMs = None, xo_maxAttempts = None, xo_retryDelayMs = None\<rparr>"

definition kx_request :: extraction_request where
  "kx_request = \<lparr>xq_input = projr (toKnowledgeExtractionInput cx_episode), xq_compilerVersion = ''v'',
     xq_promptVersion = ''1'', xq_requestedAt = Iso 5, xq_correlationId = ''w:e1''\<rparr>"

lemma kx_input: "toKnowledgeExtractionInput cx_episode = Inr (xq_input kx_request)"
  by (simp add: kx_request_def toKnowledgeExtractionInput_def referenced_events_def cx_episode_def)

lemma kx_extracted: "(case runKnowledgeExtraction kx_env kx_request kx_port kx_options of Inl _ \<Rightarrow> False
    | Inr r \<Rightarrow> xr_attempts r = 2 \<and> (case xr_outcome r of Succeeded cs \<Rightarrow> length cs = 1 | _ \<Rightarrow> False))"
  by code_simp

section \<open>The property\<close>

text \<open>
  C14: What is extracted is grounded in its episode. An extraction of an episode's input reports between one and
  the allowed number of attempts, at most ten (none at all only when it was aborted), under the key that the
  request alone determines. Every candidate it returns is proposed, comes from that episode, is valid, claims no
  other project or remote than the episode's, cites only events in the episode's evidence, in its hints as in
  what it says the user accepted or rejected, and has a locator, if any, that is valid and of the project.
\<close>

theorem extracted_knowledge_is_grounded:
  assumes "toKnowledgeExtractionInput ep = Inr (xq_input q)" and "runKnowledgeExtraction x q port opts = Inr r"
  shows "xr_attempts r \<le> default_to 3 (xo_maxAttempts opts) \<and> default_to 3 (xo_maxAttempts opts) \<le> 10
    \<and> (1 \<le> xr_attempts r \<or> xr_attempts r = 0 \<and> xr_outcome r = Failed ABORTED [])
    \<and> knowledgeExtractionKey x q = Inr (xr_extractionKey r)
    \<and> (\<forall>cs. xr_outcome r = Succeeded cs \<longrightarrow> (\<forall>c \<in> set cs.
         xe_candidateOk x c \<and> kc_status c = PROPOSED \<and> kc_sourceEpisodes c = [ep_episodeId ep]
       \<and> sh_projectId (kc_scopeHint c) \<in> {None, Some (pc_projectId (ep_projectContext ep))}
       \<and> sh_repositoryRemote (kc_scopeHint c) \<in> {None, pc_repositoryRemote (ep_projectContext ep)}
       \<and> (\<forall>a \<in> set (kc_assertions c). ka_candidateId a = kc_candidateId c
            \<and> assertion_project (ka_body a) \<in> {None, Some (pc_projectId (ep_projectContext ep))}
            \<and> (\<forall>e. commitment_ref (ka_body a) = Some e \<longrightarrow> e \<in> set (be_evidenceRefs ep)))
       \<and> (\<forall>h \<in> set (kc_evidenceHints c). eh_sourceRef h \<in> set (be_evidenceRefs ep)
            \<and> eh_projectId h \<in> {None, Some (pc_projectId (ep_projectContext ep))})
       \<and> (\<forall>l. kc_locator c = Some l \<longrightarrow> lv_valid (validateKnowledgeLocator l)
            \<and> kl_projectId l = pc_projectId (ep_projectContext ep))))"
proof -
  obtain n pausing h k out where v: "validateOptions opts = Inr (n, pausing)"
    "knowledgeExtractionInputHash x q = Inr h"
    "attempts_from x q port (extractionKey x q h) pausing n 1 ADAPTER_UNAVAILABLE [] = Inr (k, out)"
    "r = extraction_base q (extractionKey x q h) h k out"
    using assms(2) by (auto simp: runKnowledgeExtraction_def Let_def)
  have n: "0 < n" "int n = default_to 3 (xo_maxAttempts opts)" "default_to 3 (xo_maxAttempts opts) \<le> 10"
    using v(1) by (auto simp: validateOptions_def Let_def within_limits_def)
  note f = attempts_facts[OF v(3)]
  have k: "attempts_needed out \<le> k" "int k \<le> int n" "outcome_grounded x q out" using f n(1) by auto
  have o: "xr_outcome r = out" "xr_attempts r = int k" "xr_extractionKey r = extractionKey x q h"
    by (simp_all add: v(4) extraction_base_def)
  note i = input_of_episode[OF assms(1)]
  show ?thesis
  proof (intro conjI allI impI ballI)
    show "1 \<le> xr_attempts r \<or> xr_attempts r = 0 \<and> xr_outcome r = Failed ABORTED []"
      using k(1) o by (auto simp: attempts_needed_def split: if_splits)
  qed (use k n v(2) o i in \<open>auto simp: knowledgeExtractionKey_def outcome_grounded_def candidate_grounded_def Let_def\<close>)
qed

theorem extracted_knowledge_is_grounded_witness:
  "\<exists>c :: knowledge_candidate. kc_sourceEpisodes c = [''e1''] \<and> (\<forall>h \<in> set (kc_evidenceHints c). eh_sourceRef h \<in> {''m0'', ''m1''})"
proof -
  obtain r cs where r: "runKnowledgeExtraction kx_env kx_request kx_port kx_options = Inr r"
    "xr_outcome r = Succeeded cs" "length cs = 1"
    using kx_extracted by (auto split: sum.splits extraction_outcome.splits)
  obtain c where "c \<in> set cs" using r(3) by (cases cs) auto
  then show ?thesis using extracted_knowledge_is_grounded[OF kx_input r(1)] r(2)
    by (intro exI[of _ c]) (auto simp: cx_episode_def)
qed

end
