(* ===== verification/Invalidation.thy ===== *)
theory Invalidation
  imports EvidenceBase
begin

text \<open>
  Fingerprints of knowledge and their invalidation by changes
  (\<^verbatim>\<open>packages/invalidation-engine/src/invalidation.ts\<close>). The text of a timestamp (\<open>ts\<close>) and the order
  of \<open>String.prototype.localeCompare\<close> (\<open>loc\<close>, for \<open>localeCompare(x, y) <= 0\<close>) are parameters.
\<close>

section \<open>Data (types.ts)\<close>

datatype target_kind = PATH | SYMBOL | CONFIG | DEPENDENCY

record fingerprint_target =
  ft_assertionId :: string
  ft_kind :: target_kind
  ft_key :: string
  ft_path :: "string option"

record fingerprint_observation = fingerprint_target +
  fo_digest :: string
  fo_sourceRef :: string
  fo_observedAt :: timestamp

record knowledge_fingerprint =
  fp_candidateId :: string
  fp_projectId :: string
  fp_entries :: "fingerprint_observation list"
  fp_fingerprint :: string

record change_set =
  ch_projectId :: string
  ch_changedPaths :: "string list"
  ch_changedSymbols :: "string list"
  ch_changedConfigs :: "string list"
  ch_changedDependencies :: "string list"
  ch_sourceRef :: string
  ch_observedAt :: timestamp

record invalidation_input =
  in_candidate :: knowledge_candidate
  in_currentStatus :: knowledge_status
  in_fingerprint :: knowledge_fingerprint
  in_changes :: change_set
  in_revalidationResults :: "verification_result list option"

datatype invalidation_action = UNCHANGED | REFRESH_FINGERPRINT | MARK_STALE | REVALIDATE

record invalidation_decision =
  id_action :: invalidation_action
  id_currentStatus :: knowledge_status
  id_targetStatus :: knowledge_status
  id_affectedAssertionIds :: "string list"
  id_reasonCodes :: "string list"

section \<open>Text checks\<close>

text \<open>\<open>/^[^\0\r\n]{1,1000}$/\<close> and \<open>/^[A-Za-z0-9:_-]{8,256}$/\<close>.\<close>

definition SAFE_TEXT :: "string \<Rightarrow> bool" where
  "SAFE_TEXT s \<longleftrightarrow> 1 \<le> length s \<and> length s \<le> 1000 \<and> plain_text s"

definition digest_char :: "char \<Rightarrow> bool" where
  "digest_char c \<longleftrightarrow> ascii_alnum c \<or> c = CHR '':'' \<or> c = CHR ''_'' \<or> c = CHR ''-''"

definition SAFE_DIGEST :: "string \<Rightarrow> bool" where
  "SAFE_DIGEST s \<longleftrightarrow> 8 \<le> length s \<and> length s \<le> 256 \<and> list_all digest_char s"

text \<open>\<open>/^[A-Za-z]:[\\/]/\<close>.\<close>

definition drive_prefix :: "string \<Rightarrow> bool" where
  "drive_prefix s = (case s of
     c # d # e # _ \<Rightarrow> (ascii_upper c \<or> ascii_lower c) \<and> d = CHR '':'' \<and> (e = CHR 0x5C \<or> e = CHR ''/'')
   | _ \<Rightarrow> False)"

definition safePath :: "string \<Rightarrow> bool" where
  "safePath s \<longleftrightarrow> SAFE_TEXT s \<and> \<not> starts_with ''/'' s \<and> \<not> drive_prefix s
     \<and> CHR 0x5C \<notin> set s \<and> list_all (\<lambda>p. p \<notin> {'''', ''.'', ''..''}) (split_on (CHR ''/'') s)"

section \<open>Targets\<close>

definition mk_target :: "string \<Rightarrow> target_kind \<Rightarrow> string \<Rightarrow> string option \<Rightarrow> fingerprint_target" where
  "mk_target i k key path = \<lparr>ft_assertionId = i, ft_kind = k, ft_key = key, ft_path = path\<rparr>"

definition targets :: "knowledge_assertion \<Rightarrow> fingerprint_target list" where
  "targets a = (let i = ka_assertionId a in case ka_body a of
     SymbolExists _ symbol path \<Rightarrow> [mk_target i SYMBOL symbol path]
   | CallPathExists _ from to _ \<Rightarrow> [mk_target i SYMBOL from None, mk_target i SYMBOL to None]
   | ImpactContains _ symbol impacted \<Rightarrow> [mk_target i SYMBOL symbol None, mk_target i SYMBOL impacted None]
   | FileContains path _ _ \<Rightarrow> [mk_target i PATH path (Some path)]
   | ConfigEquals key _ path \<Rightarrow> [mk_target i CONFIG key path]
   | DependencyPresent name _ manifest \<Rightarrow> [mk_target i DEPENDENCY name manifest]
   | _ \<Rightarrow> [])"

definition validateTarget :: "'a fingerprint_target_scheme \<Rightarrow> bool" where
  "validateTarget t \<longleftrightarrow> SAFE_TEXT (ft_assertionId t) \<and> SAFE_TEXT (ft_key t)
     \<and> (case ft_path t of None \<Rightarrow> True | Some p \<Rightarrow> safePath p)"

definition kind_text :: "target_kind \<Rightarrow> string" where
  "kind_text k = (case k of PATH \<Rightarrow> ''PATH'' | SYMBOL \<Rightarrow> ''SYMBOL'' | CONFIG \<Rightarrow> ''CONFIG''
     | DEPENDENCY \<Rightarrow> ''DEPENDENCY'')"

text \<open>\<open>JSON.stringify\<close> of an array, and of an object literal with its keys in the written order.\<close>

definition json_array :: "string list \<Rightarrow> string" where
  "json_array xs = ''['' @ join_with '','' xs @ '']''"

definition json_object :: "(string \<times> string) list \<Rightarrow> string" where
  "json_object fs = ''{'' @ join_with '','' (map (\<lambda>(k, v). json_quote k @ '':'' @ v) fs) @ ''}''"

definition targetIdentity :: "'a fingerprint_target_scheme \<Rightarrow> string" where
  "targetIdentity t = json_array [json_quote (ft_assertionId t), json_quote (kind_text (ft_kind t)),
     json_quote (ft_key t), (case ft_path t of None \<Rightarrow> ''null'' | Some p \<Rightarrow> json_quote p)]"

definition target_json :: "'a fingerprint_target_scheme \<Rightarrow> (string \<times> string) list" where
  "target_json t = [(''assertionId'', json_quote (ft_assertionId t)),
     (''kind'', json_quote (kind_text (ft_kind t))), (''key'', json_quote (ft_key t))]
   @ (case ft_path t of None \<Rightarrow> [] | Some p \<Rightarrow> [(''path'', json_quote p)])"

datatype fingerprint_error =
  TARGETS_INVALID | FINGERPRINT_INCOMPLETE | OBSERVATIONS_NOT_UNIQUE | OBSERVATION_MISMATCH

definition deriveFingerprintTargets ::
  "(string \<Rightarrow> string \<Rightarrow> bool) \<Rightarrow> knowledge_candidate \<Rightarrow> fingerprint_error + fingerprint_target list" where
  "deriveFingerprintTargets loc c =
    (let resolved = concat (map targets (kc_assertions c)) in
     if list_ex (\<lambda>t. \<not> validateTarget t) resolved \<or> \<not> distinct (map targetIdentity resolved)
     then Inl TARGETS_INVALID
     else Inr (sort_by (\<lambda>x y. loc (json_object (target_json x)) (json_object (target_json y))) resolved))"

section \<open>Fingerprints\<close>

definition entry_for ::
  "fingerprint_observation list \<Rightarrow> fingerprint_target \<Rightarrow> fingerprint_error + fingerprint_observation" where
  "entry_for observations expected =
    (case last_entry targetIdentity observations (targetIdentity expected) of
       None \<Rightarrow> Inl OBSERVATION_MISMATCH
     | Some item \<Rightarrow>
         if ft_kind item \<noteq> ft_kind expected \<or> ft_key item \<noteq> ft_key expected \<or> ft_path item \<noteq> ft_path expected
          \<or> \<not> SAFE_DIGEST (fo_digest item) \<or> \<not> SAFE_TEXT (fo_sourceRef item) \<or> \<not> finite_date (fo_observedAt item)
         then Inl OBSERVATION_MISMATCH else Inr item)"

definition entry_json :: "(timestamp \<Rightarrow> string) \<Rightarrow> fingerprint_observation \<Rightarrow> string" where
  "entry_json ts e = json_object (target_json e @
     [(''digest'', json_quote (fo_digest e)), (''sourceRef'', json_quote (fo_sourceRef e)),
      (''observedAt'', json_quote (ts (fo_observedAt e)))])"

definition fingerprint_identity ::
  "(timestamp \<Rightarrow> string) \<Rightarrow> string \<Rightarrow> string \<Rightarrow> fingerprint_observation list \<Rightarrow> string" where
  "fingerprint_identity ts candidateId projectId entries =
     json_array [json_quote ''knowledge-fingerprint-v1'', json_quote candidateId, json_quote projectId,
                 json_array (map (entry_json ts) entries)]"

definition createKnowledgeFingerprint ::
  "(timestamp \<Rightarrow> string) \<Rightarrow> (string \<Rightarrow> string \<Rightarrow> bool) \<Rightarrow> knowledge_candidate \<Rightarrow> string
     \<Rightarrow> fingerprint_observation list \<Rightarrow> fingerprint_error + knowledge_fingerprint" where
  "createKnowledgeFingerprint ts loc c projectId observations =
     and_then (deriveFingerprintTargets loc c) (\<lambda>expected.
     and_then (ensure (\<not> (\<not> SAFE_TEXT projectId \<or> length observations \<noteq> length expected))
                FINGERPRINT_INCOMPLETE) (\<lambda>_.
     and_then (ensure (distinct (map targetIdentity observations)) OBSERVATIONS_NOT_UNIQUE) (\<lambda>_.
     and_then (sequence (map (entry_for observations) expected)) (\<lambda>entries.
     Inr \<lparr>fp_candidateId = kc_candidateId c, fp_projectId = projectId, fp_entries = entries,
          fp_fingerprint = ''fp_'' @ lane_hash (fingerprint_identity ts (kc_candidateId c) projectId entries)\<rparr>))))"

section \<open>Invalidation\<close>

definition affected :: "change_set \<Rightarrow> fingerprint_observation \<Rightarrow> bool" where
  "affected ch e \<longleftrightarrow>
     (case ft_path e of None \<Rightarrow> False | Some p \<Rightarrow> p \<in> set (ch_changedPaths ch))
   \<or> (case ft_kind e of
        SYMBOL \<Rightarrow> ft_key e \<in> set (ch_changedSymbols ch)
      | CONFIG \<Rightarrow> ft_key e \<in> set (ch_changedConfigs ch)
      | DEPENDENCY \<Rightarrow> ft_key e \<in> set (ch_changedDependencies ch)
      | PATH \<Rightarrow> False)"

definition validChangeSet :: "change_set \<Rightarrow> bool" where
  "validChangeSet ch \<longleftrightarrow> SAFE_TEXT (ch_projectId ch) \<and> SAFE_TEXT (ch_sourceRef ch)
     \<and> finite_date (ch_observedAt ch) \<and> list_all safePath (ch_changedPaths ch)
     \<and> list_all SAFE_TEXT (ch_changedSymbols ch @ ch_changedConfigs ch @ ch_changedDependencies ch)"

definition validFingerprint ::
  "(timestamp \<Rightarrow> string) \<Rightarrow> (string \<Rightarrow> string \<Rightarrow> bool) \<Rightarrow> invalidation_input \<Rightarrow> bool" where
  "validFingerprint ts loc i =
    (case createKnowledgeFingerprint ts loc (in_candidate i) (fp_projectId (in_fingerprint i))
            (fp_entries (in_fingerprint i)) of
       Inl _ \<Rightarrow> False
     | Inr f \<Rightarrow> fp_fingerprint f = fp_fingerprint (in_fingerprint i))"

definition supportedRevalidation :: "invalidation_input \<Rightarrow> string \<Rightarrow> bool" where
  "supportedRevalidation i a =
    (case filter (\<lambda>r. vr_assertionId r = a) (or_empty (in_revalidationResults i)) of
       [r] \<Rightarrow> (case find (\<lambda>x. ka_assertionId x = a) (kc_assertions (in_candidate i)) of
           None \<Rightarrow> False
         | Some x \<Rightarrow> vr_status r = SUPPORTED \<and> vr_assertionKind r = ka_kind x
             \<and> (case vr_evidence r of None \<Rightarrow> False
                | Some e \<Rightarrow> ev_verdict e = SUPPORTS \<and> ev_assertionId e = Some a
                    \<and> ev_projectId e = Some (fp_projectId (in_fingerprint i))
                    \<and> ev_correlationId e = kc_correlationId (in_candidate i)))
     | _ \<Rightarrow> False)"

definition invalidation_output ::
  "invalidation_input \<Rightarrow> invalidation_action \<Rightarrow> knowledge_status \<Rightarrow> string list \<Rightarrow> string list \<Rightarrow> invalidation_decision" where
  "invalidation_output i action target ids reasons =
     \<lparr>id_action = action, id_currentStatus = in_currentStatus i, id_targetStatus = target,
      id_affectedAssertionIds = ids, id_reasonCodes = reasons\<rparr>"

definition affectedIds :: "invalidation_input \<Rightarrow> string list" where
  "affectedIds i = sort (uniq (map ft_assertionId
     (filter (affected (in_changes i)) (fp_entries (in_fingerprint i)))))"

definition evaluateInvalidation ::
  "(timestamp \<Rightarrow> string) \<Rightarrow> (string \<Rightarrow> string \<Rightarrow> bool) \<Rightarrow> invalidation_input \<Rightarrow> invalidation_decision" where
  "evaluateInvalidation ts loc i =
    (if fp_candidateId (in_fingerprint i) \<noteq> kc_candidateId (in_candidate i)
      \<or> fp_projectId (in_fingerprint i) \<noteq> ch_projectId (in_changes i)
      \<or> \<not> validChangeSet (in_changes i) \<or> \<not> validFingerprint ts loc i
     then invalidation_output i UNCHANGED (in_currentStatus i) [] [''INVALID_CHANGESET_OR_FINGERPRINT'']
     else let ids = affectedIds i in
     if ids = [] then invalidation_output i UNCHANGED (in_currentStatus i) [] [''NO_RELEVANT_CHANGE'']
     else if list_all (supportedRevalidation i) ids
     then invalidation_output i REFRESH_FINGERPRINT (in_currentStatus i) ids [''AFFECTED_TARGETS_REVALIDATED'']
     else if (in_currentStatus i = knowledge_status.IMPLEMENTED \<or> in_currentStatus i = VERIFIED)
           \<and> transition_ok (transitionKnowledgeStatus (in_currentStatus i) STALE)
     then invalidation_output i MARK_STALE STALE ids
            [''AFFECTED_TARGET_REVALIDATION_INCOMPLETE'', ''BODY_PRESERVED'']
     else invalidation_output i REVALIDATE (in_currentStatus i) ids [''AFFECTED_TARGET_REQUIRES_REVALIDATION''])"

section \<open>Facts\<close>

lemma sequence_Inr_iff: "sequence rs = Inr xs \<longleftrightarrow> rs = map Inr xs"
  using sequence_InrD by auto

lemma sequence_map_Inr_iff:
  "sequence (map f xs) = Inr ys \<longleftrightarrow> length ys = length xs \<and> (\<forall>i < length xs. f (xs ! i) = Inr (ys ! i))"
  unfolding sequence_Inr_iff by (auto simp: list_eq_iff_nth_eq)

lemma derive_targets_distinct:
  "deriveFingerprintTargets loc c = Inr ts \<Longrightarrow> distinct (map targetIdentity ts)"
  by (auto simp: deriveFingerprintTargets_def Let_def split: if_splits)

lemma entry_forD:
  assumes "entry_for obs t = Inr e"
  shows "e \<in> set obs" and "targetIdentity e = targetIdentity t" and "ft_kind e = ft_kind t"
    and "ft_key e = ft_key t" and "ft_path e = ft_path t" and "SAFE_DIGEST (fo_digest e)"
    and "SAFE_TEXT (fo_sourceRef e)" and "finite_date (fo_observedAt e)"
  using assms by (auto simp: entry_for_def split: option.splits if_splits dest: last_entry_SomeD)

lemma entry_for_again:
  assumes "entry_for obs t = Inr e" and "e \<in> set es" and "distinct (map targetIdentity es)"
  shows "entry_for es t = Inr e"
proof -
  have "last_entry targetIdentity es (targetIdentity t) = Some e"
    using last_entry_unique[OF assms(3,2)] entry_forD(2)[OF assms(1)] by simp
  then show ?thesis using entry_forD[OF assms(1)] by (simp add: entry_for_def)
qed

text \<open>The entries of a fingerprint are themselves observations that give the same fingerprint.\<close>

lemma fingerprint_again:
  assumes "createKnowledgeFingerprint ts loc c p obs = Inr f"
  shows "createKnowledgeFingerprint ts loc c p (fp_entries f) = Inr f"
proof -
  obtain expected where d: "deriveFingerprintTargets loc c = Inr expected"
    and p: "SAFE_TEXT p" and es: "sequence (map (entry_for obs) expected) = Inr (fp_entries f)"
    and f: "f = \<lparr>fp_candidateId = kc_candidateId c, fp_projectId = p, fp_entries = fp_entries f,
        fp_fingerprint = ''fp_'' @ lane_hash (fingerprint_identity ts (kc_candidateId c) p (fp_entries f))\<rparr>"
    using assms by (auto simp: createKnowledgeFingerprint_def)
  have len: "length (fp_entries f) = length expected"
    and nth: "\<And>i. i < length expected \<Longrightarrow> entry_for obs (expected ! i) = Inr (fp_entries f ! i)"
    using es by (auto simp: sequence_map_Inr_iff)
  have ids: "targetIdentity (fp_entries f ! k) = targetIdentity (expected ! k)" if "k < length expected" for k
    by (rule entry_forD(2)[OF nth[OF that]])
  have "map targetIdentity (fp_entries f) = map targetIdentity expected"
    by (rule nth_equalityI) (simp_all add: len ids)
  then have dist: "distinct (map targetIdentity (fp_entries f))" using derive_targets_distinct[OF d] by simp
  have "entry_for (fp_entries f) (expected ! k) = Inr (fp_entries f ! k)" if "k < length expected" for k
    by (rule entry_for_again[OF nth[OF that] nth_mem dist]) (use that len in simp)
  then have "sequence (map (entry_for (fp_entries f)) expected) = Inr (fp_entries f)"
    unfolding sequence_map_Inr_iff using len by blast
  then show ?thesis using d p len dist f by (simp add: createKnowledgeFingerprint_def)
qed

lemma fingerprint_ids:
  "createKnowledgeFingerprint ts loc c p obs = Inr f \<Longrightarrow> fp_candidateId f = kc_candidateId c \<and> fp_projectId f = p"
  by (auto simp: createKnowledgeFingerprint_def)

lemma affectedIds_set:
  "set (affectedIds i) = ft_assertionId ` {e \<in> set (fp_entries (in_fingerprint i)). affected (in_changes i) e}"
  by (simp add: affectedIds_def)

lemma affectedIds_Nil_iff:
  "affectedIds i = [] \<longleftrightarrow> (\<forall>e \<in> set (fp_entries (in_fingerprint i)). \<not> affected (in_changes i) e)"
proof -
  have "affectedIds i = [] \<longleftrightarrow> set (affectedIds i) = {}" by simp
  then show ?thesis unfolding affectedIds_set by blast
qed

definition invalidation_input_ok ::
  "(timestamp \<Rightarrow> string) \<Rightarrow> (string \<Rightarrow> string \<Rightarrow> bool) \<Rightarrow> invalidation_input \<Rightarrow> bool" where
  "invalidation_input_ok ts loc i \<longleftrightarrow> fp_candidateId (in_fingerprint i) = kc_candidateId (in_candidate i)
      \<and> fp_projectId (in_fingerprint i) = ch_projectId (in_changes i)
      \<and> validChangeSet (in_changes i) \<and> validFingerprint ts loc i"

lemma invalidation_cases:
  obtains (invalid) "\<not> invalidation_input_ok ts loc i"
      "evaluateInvalidation ts loc i
        = invalidation_output i UNCHANGED (in_currentStatus i) [] [''INVALID_CHANGESET_OR_FINGERPRINT'']"
  | (irrelevant) "invalidation_input_ok ts loc i" "affectedIds i = []"
      "evaluateInvalidation ts loc i
        = invalidation_output i UNCHANGED (in_currentStatus i) [] [''NO_RELEVANT_CHANGE'']"
  | (refresh) "invalidation_input_ok ts loc i" "affectedIds i \<noteq> []"
      "list_all (supportedRevalidation i) (affectedIds i)"
      "evaluateInvalidation ts loc i = invalidation_output i REFRESH_FINGERPRINT (in_currentStatus i)
         (affectedIds i) [''AFFECTED_TARGETS_REVALIDATED'']"
  | (stale) "invalidation_input_ok ts loc i" "affectedIds i \<noteq> []"
      "\<not> list_all (supportedRevalidation i) (affectedIds i)"
      "in_currentStatus i \<in> {knowledge_status.IMPLEMENTED, VERIFIED}"
      "evaluateInvalidation ts loc i = invalidation_output i MARK_STALE STALE (affectedIds i)
            [''AFFECTED_TARGET_REVALIDATION_INCOMPLETE'', ''BODY_PRESERVED'']"
  | (revalidate) "invalidation_input_ok ts loc i" "affectedIds i \<noteq> []"
      "\<not> list_all (supportedRevalidation i) (affectedIds i)"
      "in_currentStatus i \<notin> {knowledge_status.IMPLEMENTED, VERIFIED}"
      "evaluateInvalidation ts loc i = invalidation_output i REVALIDATE (in_currentStatus i) (affectedIds i)
          [''AFFECTED_TARGET_REQUIRES_REVALIDATION'']"
proof -
  have st: "transition_ok (transitionKnowledgeStatus s STALE)"
    if "s \<in> {knowledge_status.IMPLEMENTED, VERIFIED}" for s
    using that by (auto simp: transition_ok_iff status_step_simps)
  consider (1) "\<not> invalidation_input_ok ts loc i" | (2) "invalidation_input_ok ts loc i" "affectedIds i = []"
    | (3) "invalidation_input_ok ts loc i" "affectedIds i \<noteq> []" "list_all (supportedRevalidation i) (affectedIds i)"
    | (4) "invalidation_input_ok ts loc i" "affectedIds i \<noteq> []" "\<not> list_all (supportedRevalidation i) (affectedIds i)"
        "in_currentStatus i \<in> {knowledge_status.IMPLEMENTED, VERIFIED}"
    | (5) "invalidation_input_ok ts loc i" "affectedIds i \<noteq> []" "\<not> list_all (supportedRevalidation i) (affectedIds i)"
        "in_currentStatus i \<notin> {knowledge_status.IMPLEMENTED, VERIFIED}"
    by blast
  then show thesis
  proof cases
    case 1
    then show ?thesis using invalid by (auto simp: evaluateInvalidation_def invalidation_input_ok_def)
  next
    case 2
    then show ?thesis using irrelevant by (auto simp: evaluateInvalidation_def invalidation_input_ok_def)
  next
    case 3
    then show ?thesis using refresh by (simp add: evaluateInvalidation_def invalidation_input_ok_def Let_def)
  next
    case 4
    then show ?thesis using stale[OF 4] st[OF 4(4)]
      by (simp add: evaluateInvalidation_def invalidation_input_ok_def Let_def)
  next
    case 5
    then show ?thesis using revalidate[OF 5]
      by (simp add: evaluateInvalidation_def invalidation_input_ok_def Let_def)
  qed
qed

lemma invalidation_output_simps [simp]:
  "id_action (invalidation_output i a t xs rs) = a"
  "id_currentStatus (invalidation_output i a t xs rs) = in_currentStatus i"
  "id_targetStatus (invalidation_output i a t xs rs) = t"
  "id_affectedAssertionIds (invalidation_output i a t xs rs) = xs"
  "id_reasonCodes (invalidation_output i a t xs rs) = rs"
  by (simp_all add: invalidation_output_def)

end
