(* ===== verification/Freshness.thy ===== *)
theory Freshness
  imports Invalidation
begin

text \<open>
  Freshness of published knowledge (\<^verbatim>\<open>packages/knowledge-freshness/src\<close>): the projection record
  built when an asset is published and the plan made when code changes (freshness.ts), and the two
  gates that decide at retrieval time whether an asset may be used (gate.ts).

  The ports of the gate are functions of the number of assets already handled, so a port may answer
  differently over time; a port that throws is \<open>Inl ()\<close>. The \<open>k\<close>-th reading of the clock is
  \<open>ge_clock k\<close>. The race between a targeted verification and its timer is the port's outcome.
\<close>

section \<open>Records and plans (types.ts, freshness.ts)\<close>

datatype freshness_status = FRESH | REVALIDATE | CONFLICT | UNKNOWN

record freshness_record =
  fr_assetId :: string
  fr_assetVersion :: int
  fr_assetContentHash :: string
  fr_projectId :: string
  fr_lifecycleStatus :: knowledge_status
  fr_freshnessStatus :: freshness_status
  fr_freshnessRevision :: "int option"
  fr_codeRevision :: "string option"
  fr_graphRevision :: "string option"
  fr_candidate :: knowledge_candidate
  fr_fingerprint :: knowledge_fingerprint
  fr_anchors :: "fingerprint_target list"
  fr_updatedAt :: timestamp

record projection_input =
  px_asset :: knowledge_asset
  px_candidate :: knowledge_candidate
  px_verificationResults :: "verification_result list"
  px_projectId :: string
  px_observedAt :: timestamp

datatype freshness_error = FRESHNESS_PROJECTION_INPUT_INVALID | FINGERPRINT fingerprint_error

definition evidenceFor :: "string \<Rightarrow> verification_result list \<Rightarrow> verification_result option" where
  "evidenceFor a rs = (case filter (\<lambda>r. vr_assertionId r = a) rs of [r] \<Rightarrow> Some r | _ \<Rightarrow> None)"

definition projection_input_ok :: "projection_input \<Rightarrow> bool" where
  "projection_input_ok x \<longleftrightarrow>
     \<not> (\<not> has_text (as_id (px_asset x)) \<or> as_version (px_asset x) < 1 \<or> \<not> has_text (px_projectId x)
      \<or> \<not> finite_date (px_observedAt x)
      \<or> as_subjectKey (px_asset x) \<noteq> kc_subjectKey (px_candidate x)
      \<or> as_kind (px_asset x) \<noteq> kc_kind (px_candidate x)
      \<or> as_correlationId (px_asset x) \<noteq> kc_correlationId (px_candidate x)
      \<or> list_ex (\<lambda>e. e \<notin> set (as_sourceEpisodes (px_asset x))) (kc_sourceEpisodes (px_candidate x)))"

definition observation_for ::
  "(string \<Rightarrow> string) \<Rightarrow> projection_input \<Rightarrow> fingerprint_target \<Rightarrow> fingerprint_observation" where
  "observation_for sha x t =
    (let e = (case evidenceFor (ft_assertionId t) (px_verificationResults x) of
                None \<Rightarrow> None | Some r \<Rightarrow> vr_evidence r) in
     \<lparr>ft_assertionId = ft_assertionId t, ft_kind = ft_kind t, ft_key = ft_key t, ft_path = ft_path t,
      fo_digest = (case e of Some v \<Rightarrow> ev_evidenceId v
        | None \<Rightarrow> ''missing_'' @ sha (kc_candidateId (px_candidate x) @ '':'' @ ft_assertionId t)),
      fo_sourceRef = (case e of Some v \<Rightarrow> ev_sourceRef v
        | None \<Rightarrow> ''candidate:'' @ kc_candidateId (px_candidate x)),
      fo_observedAt = (case e of Some v \<Rightarrow> ev_observedAt v | None \<Rightarrow> px_observedAt x)\<rparr>)"

definition buildFreshnessRecord ::
  "(string \<Rightarrow> string) \<Rightarrow> (timestamp \<Rightarrow> string) \<Rightarrow> (string \<Rightarrow> string \<Rightarrow> bool) \<Rightarrow> projection_input
     \<Rightarrow> freshness_error + freshness_record" where
  "buildFreshnessRecord sha ts loc x =
     and_then (ensure (projection_input_ok x) FRESHNESS_PROJECTION_INPUT_INVALID) (\<lambda>_.
     and_then (map_error FINGERPRINT (deriveFingerprintTargets loc (px_candidate x))) (\<lambda>anchors.
     and_then (map_error FINGERPRINT (createKnowledgeFingerprint ts loc (px_candidate x) (px_projectId x)
                (map (observation_for sha x) anchors))) (\<lambda>fingerprint.
     Inr \<lparr>fr_assetId = as_id (px_asset x), fr_assetVersion = as_version (px_asset x),
          fr_assetContentHash = as_contentHash (px_asset x), fr_projectId = px_projectId x,
          fr_lifecycleStatus = as_status (px_asset x), fr_freshnessStatus = FRESH,
          fr_freshnessRevision = None, fr_codeRevision = None, fr_graphRevision = None,
          fr_candidate = px_candidate x, fr_fingerprint = fingerprint, fr_anchors = anchors,
          fr_updatedAt = px_observedAt x\<rparr>)))"

datatype plan_action = PLAN_NONE | PLAN_REFRESH_FINGERPRINT | REQUEST_REVALIDATION | PLAN_MARK_STALE

record freshness_plan =
  fl_assetId :: string
  fl_expectedAssetVersion :: int
  fl_freshnessStatus :: freshness_status
  fl_currentLifecycleStatus :: knowledge_status
  fl_targetLifecycleStatus :: knowledge_status
  fl_action :: plan_action
  fl_affectedAssertionIds :: "string list"
  fl_reasonCodes :: "string list"

definition hasUnknown :: "verification_result list option \<Rightarrow> bool" where
  "hasUnknown rs = (case rs of None \<Rightarrow> False
     | Some xs \<Rightarrow> list_ex (\<lambda>r. vr_status r = verification_status.UNKNOWN \<or> vr_status r = ERROR) xs)"

definition plan_input ::
  "freshness_record \<Rightarrow> change_set \<Rightarrow> verification_result list option \<Rightarrow> invalidation_input" where
  "plan_input rec ch rs = \<lparr>in_candidate = fr_candidate rec, in_currentStatus = fr_lifecycleStatus rec,
     in_fingerprint = fr_fingerprint rec, in_changes = ch, in_revalidationResults = rs\<rparr>"

definition plan_outcome ::
  "invalidation_decision \<Rightarrow> verification_result list option \<Rightarrow> freshness_status \<times> plan_action" where
  "plan_outcome d rs =
     (if ''INVALID_CHANGESET_OR_FINGERPRINT'' \<in> set (id_reasonCodes d) then (UNKNOWN, PLAN_NONE)
      else case id_action d of
        REFRESH_FINGERPRINT \<Rightarrow> (FRESH, PLAN_REFRESH_FINGERPRINT)
      | MARK_STALE \<Rightarrow>
          let status = (if rs = None then REVALIDATE else if hasUnknown rs then UNKNOWN else CONFLICT)
          in (status, if status = CONFLICT then PLAN_MARK_STALE else REQUEST_REVALIDATION)
      | invalidation_action.REVALIDATE \<Rightarrow>
          (if hasUnknown rs then UNKNOWN else REVALIDATE, REQUEST_REVALIDATION)
      | UNCHANGED \<Rightarrow> (FRESH, PLAN_NONE))"

definition planKnowledgeFreshness ::
  "(timestamp \<Rightarrow> string) \<Rightarrow> (string \<Rightarrow> string \<Rightarrow> bool) \<Rightarrow> freshness_record \<Rightarrow> change_set
     \<Rightarrow> verification_result list option \<Rightarrow> freshness_plan" where
  "planKnowledgeFreshness ts loc rec ch rs =
    (let d = evaluateInvalidation ts loc (plan_input rec ch rs);
         (status, action) = plan_outcome d rs
     in \<lparr>fl_assetId = fr_assetId rec, fl_expectedAssetVersion = fr_assetVersion rec,
         fl_freshnessStatus = status, fl_currentLifecycleStatus = fr_lifecycleStatus rec,
         fl_targetLifecycleStatus =
           (if action = PLAN_MARK_STALE then id_targetStatus d else fr_lifecycleStatus rec),
         fl_action = action, fl_affectedAssertionIds = id_affectedAssertionIds d,
         fl_reasonCodes = id_reasonCodes d\<rparr>)"

section \<open>The gates (gate.ts)\<close>

datatype gate_reason =
  FRESHNESS_NOT_REQUIRED | FRESHNESS_CONFIRMED | FRESHNESS_PROJECTION_MISSING
| FRESHNESS_PROJECTION_MISMATCH | FRESHNESS_REVALIDATION_REQUIRED | FRESHNESS_CONFLICT
| FRESHNESS_UNKNOWN | FRESHNESS_CURRENT_REVISION_UNAVAILABLE | FRESHNESS_CODE_REVISION_MISMATCH
| FRESHNESS_GRAPH_REVISION_MISMATCH | FRESHNESS_TARGETED_CONFIRMED | FRESHNESS_TARGETED_TIMEOUT
| FRESHNESS_TARGETED_FAILED | FRESHNESS_GATE_DEGRADED

record live_revision =
  lv_projectId :: string
  lv_codeRevision :: string
  lv_graphRevision :: "string option"

record targeted_request =
  tq_projectId :: string
  tq_asset :: knowledge_asset
  tq_codeRevision :: string
  tq_graphRevision :: "string option"

record targeted_value =
  tv_assetId :: string
  tv_assetVersion :: int
  tv_status :: freshness_status
  tv_codeRevision :: string
  tv_graphRevision :: "string option"

text \<open>The race settles with the port's value, with an \<open>Error\<close> of some message, or otherwise.\<close>

datatype race = Resolved targeted_value | RejectedError string | RejectedOther

datatype targeted_outcome = RESULT targeted_value | TIMEOUT | FAILED

record compensation_request =
  cq_projectId :: string
  cq_assetId :: string
  cq_assetVersion :: int
  cq_reasonCode :: gate_reason
  cq_requiredCodeRevision :: "string option"
  cq_requiredGraphRevision :: "string option"

record gate_env =
  ge_records :: "nat \<Rightarrow> string \<Rightarrow> int \<Rightarrow> unit + freshness_record option"
  ge_revisions :: "string \<Rightarrow> unit + live_revision option"
  ge_targeted :: "(nat \<Rightarrow> targeted_request \<Rightarrow> int \<Rightarrow> race) option"
  ge_compensation :: "(nat \<Rightarrow> compensation_request \<Rightarrow> unit + string) option"
  ge_aborted :: "nat \<Rightarrow> bool"
  ge_clock :: "nat \<Rightarrow> rat"

record gate_options =
  go_maxItems :: int
  go_maxTargetedItems :: int
  go_deadlineMs :: int
  go_minimumTargetedBudgetMs :: int

record ensure_decision =
  ed_assetId :: string
  ed_assetVersion :: int
  ed_eligible :: bool
  ed_codeFact :: bool
  ed_reasonCode :: gate_reason
  ed_compensationJobId :: "string option"

record ensure_result =
  ew_eligibleAssetVersions :: "string list"
  ew_decisions :: "ensure_decision list"
  ew_durationMs :: rat
  ew_timedOut :: bool

datatype gate_error = FRESHNESS_GATE_OPTIONS_INVALID | FRESHNESS_GATE_INPUT_INVALID

definition requiresFreshness :: "knowledge_asset \<Rightarrow> bool" where
  "requiresFreshness a \<longleftrightarrow> as_kind a = IMPLEMENTATION \<or> as_symbols a \<noteq> []"

definition validAsset :: "knowledge_asset \<Rightarrow> bool" where
  "validAsset a \<longleftrightarrow> 0 < length (as_id a) \<and> length (as_id a) \<le> 1000 \<and> plain_text (as_id a)
     \<and> safe_integer (as_version a) \<and> 0 < as_version a
     \<and> 0 < length (as_contentHash a) \<and> length (as_contentHash a) \<le> 1000"

fun freshness_reason :: "freshness_status \<Rightarrow> gate_reason" where
  "freshness_reason FRESH = FRESHNESS_CONFIRMED"
| "freshness_reason REVALIDATE = FRESHNESS_REVALIDATION_REQUIRED"
| "freshness_reason CONFLICT = FRESHNESS_CONFLICT"
| "freshness_reason UNKNOWN = FRESHNESS_UNKNOWN"

definition exactReason :: "freshness_record \<Rightarrow> live_revision \<Rightarrow> gate_reason" where
  "exactReason r v =
     (if fr_freshnessStatus r \<noteq> FRESH then freshness_reason (fr_freshnessStatus r)
      else if fr_codeRevision r \<noteq> Some (lv_codeRevision v) then FRESHNESS_CODE_REVISION_MISMATCH
      else if fr_graphRevision r \<noteq> None \<and> fr_graphRevision r \<noteq> lv_graphRevision v
      then FRESHNESS_GRAPH_REVISION_MISMATCH
      else FRESHNESS_CONFIRMED)"

definition verifyWithin :: "(targeted_request \<Rightarrow> int \<Rightarrow> race) \<Rightarrow> targeted_request \<Rightarrow> bool \<Rightarrow> int \<Rightarrow> targeted_outcome" where
  "verifyWithin port request aborted timeoutMs =
     (if timeoutMs \<le> 0 \<or> aborted then TIMEOUT
      else case port request timeoutMs of
        Resolved v \<Rightarrow> RESULT v
      | RejectedError message \<Rightarrow> (if message = ''FRESHNESS_TARGETED_TIMEOUT'' then TIMEOUT else FAILED)
      | RejectedOther \<Rightarrow> FAILED)"

definition gate_options_of ::
  "int option \<Rightarrow> int option \<Rightarrow> int option \<Rightarrow> int option \<Rightarrow> gate_error + gate_options" where
  "gate_options_of maxItems maxTargeted deadline minimum =
    (let m = (case maxItems of None \<Rightarrow> 100 | Some v \<Rightarrow> v);
         t = (case maxTargeted of None \<Rightarrow> 3 | Some v \<Rightarrow> v);
         d = (case deadline of None \<Rightarrow> 150 | Some v \<Rightarrow> v);
         b = (case minimum of None \<Rightarrow> min 20 d | Some v \<Rightarrow> v) in
     if \<not> bounded 1 1000 m \<or> \<not> bounded 0 20 t \<or> \<not> bounded 1 200 d
      \<or> \<not> safe_integer b \<or> b < 1 \<or> b > d
     then Inl FRESHNESS_GATE_OPTIONS_INVALID
     else Inr \<lparr>go_maxItems = m, go_maxTargetedItems = t, go_deadlineMs = d, go_minimumTargetedBudgetMs = b\<rparr>)"

record gate_state =
  gs_clock :: nat
  gs_targeted :: int
  gs_timedOut :: bool
  gs_decisions :: "ensure_decision list"

definition projection_matches :: "string \<Rightarrow> knowledge_asset \<Rightarrow> freshness_record \<Rightarrow> bool" where
  "projection_matches project a r \<longleftrightarrow> fr_assetVersion r = as_version a
     \<and> fr_assetContentHash r = as_contentHash a \<and> fr_projectId r = project"

text \<open>The reason before a targeted verification is tried, from the read and the live revision.\<close>

definition read_reason ::
  "string \<Rightarrow> knowledge_asset \<Rightarrow> live_revision option \<Rightarrow> unit + freshness_record option \<Rightarrow> gate_reason" where
  "read_reason project a revision reading = (case reading of
     Inl _ \<Rightarrow> FRESHNESS_GATE_DEGRADED
   | Inr record \<Rightarrow> (case revision of
       None \<Rightarrow> FRESHNESS_CURRENT_REVISION_UNAVAILABLE
     | Some v \<Rightarrow> (case record of
         None \<Rightarrow> FRESHNESS_PROJECTION_MISSING
       | Some r \<Rightarrow> if \<not> projection_matches project a r then FRESHNESS_PROJECTION_MISMATCH else exactReason r v)))"

definition targeted_confirms :: "knowledge_asset \<Rightarrow> live_revision \<Rightarrow> targeted_outcome \<Rightarrow> bool" where
  "targeted_confirms a v out = (case out of
     RESULT x \<Rightarrow> tv_assetId x = as_id a \<and> tv_assetVersion x = as_version a \<and> tv_status x = FRESH
       \<and> tv_codeRevision x = lv_codeRevision v \<and> tv_graphRevision x = lv_graphRevision v
   | _ \<Rightarrow> False)"

text \<open>Lines 218 to 236: the new state with the eligibility and reason of the asset.\<close>

definition try_targeted ::
  "gate_env \<Rightarrow> gate_options \<Rightarrow> string \<Rightarrow> rat \<Rightarrow> nat \<Rightarrow> knowledge_asset \<Rightarrow> live_revision option
     \<Rightarrow> bool \<Rightarrow> gate_reason \<Rightarrow> gate_state \<Rightarrow> gate_state \<times> bool \<times> gate_reason" where
  "try_targeted env opts project deadline n a revision matches reason st =
    (let eligible = (reason = FRESHNESS_CONFIRMED) in
     case (revision, ge_targeted env) of
       (Some v, Some port) \<Rightarrow>
         if \<not> eligible \<and> matches \<and> gs_targeted st < go_maxTargetedItems opts \<and> \<not> ge_aborted env n then
           let remaining = \<lfloor>deadline - ge_clock env (gs_clock st)\<rfloor>;
               st1 = st\<lparr>gs_clock := gs_clock st + 1\<rparr> in
           if remaining \<ge> go_minimumTargetedBudgetMs opts then
             let st2 = st1\<lparr>gs_targeted := gs_targeted st1 + 1\<rparr>;
                 out = verifyWithin (port n) \<lparr>tq_projectId = project, tq_asset = a,
                   tq_codeRevision = lv_codeRevision v, tq_graphRevision = lv_graphRevision v\<rparr>
                   (ge_aborted env n) remaining in
             if targeted_confirms a v out then (st2, True, FRESHNESS_TARGETED_CONFIRMED)
             else (st2\<lparr>gs_timedOut := gs_timedOut st2 \<or> out = TIMEOUT\<rparr>, False,
                   if out = TIMEOUT then FRESHNESS_TARGETED_TIMEOUT else FRESHNESS_TARGETED_FAILED)
           else (st1\<lparr>gs_timedOut := True\<rparr>, False, FRESHNESS_TARGETED_TIMEOUT)
         else (st, eligible, reason)
     | _ \<Rightarrow> (st, eligible, reason))"

definition compensate ::
  "gate_env \<Rightarrow> string \<Rightarrow> nat \<Rightarrow> knowledge_asset \<Rightarrow> live_revision option \<Rightarrow> bool \<Rightarrow> gate_reason \<Rightarrow> string option" where
  "compensate env project n a revision eligible reason =
    (case ge_compensation env of
       None \<Rightarrow> None
     | Some schedule \<Rightarrow>
         if eligible then None
         else case schedule n \<lparr>cq_projectId = project, cq_assetId = as_id a, cq_assetVersion = as_version a,
             cq_reasonCode = reason, cq_requiredCodeRevision = map_option lv_codeRevision revision,
             cq_requiredGraphRevision = (case revision of None \<Rightarrow> None | Some v \<Rightarrow> lv_graphRevision v)\<rparr> of
           Inl _ \<Rightarrow> None | Inr i \<Rightarrow> Some i)"

definition ensure_asset ::
  "gate_env \<Rightarrow> gate_options \<Rightarrow> string \<Rightarrow> rat \<Rightarrow> live_revision option \<Rightarrow> nat \<Rightarrow> knowledge_asset
     \<Rightarrow> gate_state \<Rightarrow> gate_state" where
  "ensure_asset env opts project deadline revision n a st =
    (if \<not> requiresFreshness a
     then st\<lparr>gs_decisions := gs_decisions st @ [\<lparr>ed_assetId = as_id a, ed_assetVersion = as_version a,
            ed_eligible = True, ed_codeFact = False, ed_reasonCode = FRESHNESS_NOT_REQUIRED,
            ed_compensationJobId = None\<rparr>]\<rparr>
     else let reading = ge_records env n (as_id a) (as_version a);
              matches = (case reading of Inr (Some r) \<Rightarrow> projection_matches project a r | _ \<Rightarrow> False) in
       case try_targeted env opts project deadline n a revision matches
              (read_reason project a revision reading) st of
         (st', eligible, reason) \<Rightarrow>
           st'\<lparr>gs_decisions := gs_decisions st' @ [\<lparr>ed_assetId = as_id a, ed_assetVersion = as_version a,
             ed_eligible = eligible, ed_codeFact = True, ed_reasonCode = reason,
             ed_compensationJobId = compensate env project n a revision eligible reason\<rparr>]\<rparr>)"

fun ensure_assets ::
  "gate_env \<Rightarrow> gate_options \<Rightarrow> string \<Rightarrow> rat \<Rightarrow> live_revision option \<Rightarrow> nat \<Rightarrow> knowledge_asset list
     \<Rightarrow> gate_state \<Rightarrow> gate_state" where
  "ensure_assets env opts project deadline revision n [] st = st"
| "ensure_assets env opts project deadline revision n (a # as) st =
     ensure_assets env opts project deadline revision (Suc n) as
       (ensure_asset env opts project deadline revision n a st)"

definition live_revision_of :: "gate_env \<Rightarrow> string \<Rightarrow> live_revision option" where
  "live_revision_of env project = (case ge_revisions env project of
     Inr (Some v) \<Rightarrow>
       if lv_projectId v \<noteq> project \<or> length (lv_codeRevision v) < 1 \<or> length (lv_codeRevision v) > 4096
        \<or> (case lv_graphRevision v of None \<Rightarrow> False | Some g \<Rightarrow> length g > 4096)
       then None else Some v
   | _ \<Rightarrow> None)"

definition version_key :: "string \<Rightarrow> int \<Rightarrow> string" where
  "version_key i v = i @ ''@'' @ show_int v"

definition gate_input_ok :: "gate_options \<Rightarrow> string \<Rightarrow> knowledge_asset list \<Rightarrow> bool" where
  "gate_input_ok opts project assets \<longleftrightarrow>
     \<not> (length project < 1 \<or> length project > 1000 \<or> \<not> plain_text project
      \<or> int (length assets) > go_maxItems opts \<or> list_ex (\<lambda>a. \<not> validAsset a) assets
      \<or> \<not> distinct (map (\<lambda>a. as_id a @ [CHR 0x00] @ show_int (as_version a)) assets))"

definition ensureFresh ::
  "gate_env \<Rightarrow> gate_options \<Rightarrow> string \<Rightarrow> knowledge_asset list \<Rightarrow> gate_error + ensure_result" where
  "ensureFresh env opts project assets =
    (if \<not> gate_input_ok opts project assets then Inl FRESHNESS_GATE_INPUT_INVALID
     else let started = ge_clock env 0;
              deadline = started + of_int (go_deadlineMs opts);
              st = ensure_assets env opts project deadline (live_revision_of env project) 0 assets
                \<lparr>gs_clock = 1, gs_targeted = 0, gs_timedOut = False, gs_decisions = []\<rparr> in
       Inr \<lparr>ew_eligibleAssetVersions = map (\<lambda>d. version_key (ed_assetId d) (ed_assetVersion d))
              (filter ed_eligible (gs_decisions st)),
            ew_decisions = gs_decisions st,
            ew_durationMs = max 0 (ge_clock env (gs_clock st) - started),
            ew_timedOut = gs_timedOut st\<rparr>)"

subsection \<open>The projection gate\<close>

record gate_decision =
  gd_assetId :: string
  gd_assetVersion :: int
  gd_eligible :: bool
  gd_freshness :: "freshness_status option"
  gd_reasonCode :: gate_reason

record gate_result =
  gr_eligibleAssetIds :: "string list"
  gr_eligibleAssetVersions :: "string list"
  gr_decisions :: "gate_decision list"

text \<open>\<open>None\<close> is the freshness \<open>NOT_REQUIRED\<close>.\<close>

definition inspect_asset :: "(string \<Rightarrow> freshness_record option) \<Rightarrow> string \<Rightarrow> knowledge_asset \<Rightarrow> gate_decision" where
  "inspect_asset get project a =
    (let decide = (\<lambda>e f r. \<lparr>gd_assetId = as_id a, gd_assetVersion = as_version a, gd_eligible = e,
                            gd_freshness = f, gd_reasonCode = r\<rparr>) in
     if \<not> requiresFreshness a then decide True None FRESHNESS_NOT_REQUIRED
     else case get (as_id a) of
       None \<Rightarrow> decide False (Some UNKNOWN) FRESHNESS_PROJECTION_MISSING
     | Some r \<Rightarrow>
         if \<not> projection_matches project a r then decide False (Some UNKNOWN) FRESHNESS_PROJECTION_MISMATCH
         else decide (fr_freshnessStatus r = FRESH) (Some (fr_freshnessStatus r))
                (freshness_reason (fr_freshnessStatus r)))"

definition inspect ::
  "(string \<Rightarrow> freshness_record option) \<Rightarrow> string \<Rightarrow> knowledge_asset list \<Rightarrow> gate_error + gate_result" where
  "inspect get project assets =
    (if \<not> has_text project \<or> length project > 1000 \<or> length assets > 1000
     then Inl FRESHNESS_GATE_INPUT_INVALID
     else let ds = map (inspect_asset get project) assets in
       Inr \<lparr>gr_eligibleAssetIds = map gd_assetId (filter gd_eligible ds),
            gr_eligibleAssetVersions = map (\<lambda>d. version_key (gd_assetId d) (gd_assetVersion d))
              (filter gd_eligible ds),
            gr_decisions = ds\<rparr>)"

end
