(* ===== verification/FreshnessProps.thy ===== *)
theory FreshnessProps
  imports Freshness
begin

text \<open>The properties of knowledge invalidation and of the freshness gate.\<close>

section \<open>The gate, asset by asset\<close>

lemma try_targeted_frame:
  "try_targeted env opts project deadline n a revision m reason st = (st', e, r)
     \<Longrightarrow> gs_decisions st' = gs_decisions st"
  by (auto simp: try_targeted_def Let_def split: option.splits if_splits)

definition asset_decision ::
  "gate_env \<Rightarrow> gate_options \<Rightarrow> string \<Rightarrow> rat \<Rightarrow> live_revision option \<Rightarrow> nat \<Rightarrow> knowledge_asset
     \<Rightarrow> gate_state \<Rightarrow> ensure_decision" where
  "asset_decision env opts project deadline revision n a st =
     last (gs_decisions (ensure_asset env opts project deadline revision n a st))"

lemma ensure_asset_decisions:
  "gs_decisions (ensure_asset env opts project deadline revision n a st)
     = gs_decisions st @ [asset_decision env opts project deadline revision n a st]"
  by (auto simp: ensure_asset_def asset_decision_def Let_def try_targeted_frame split: prod.splits)

lemma ensure_assets_decisions:
  "\<exists>ds. gs_decisions (ensure_assets env opts project deadline revision n as st) = gs_decisions st @ ds
     \<and> length ds = length as
     \<and> (\<forall>k < length as. \<exists>st'. ds ! k = asset_decision env opts project deadline revision (n + k) (as ! k) st')"
proof (induction as arbitrary: n st)
  case (Cons a as)
  let ?st = "ensure_asset env opts project deadline revision n a st"
  obtain ds where ds: "gs_decisions (ensure_assets env opts project deadline revision (Suc n) as ?st)
      = gs_decisions ?st @ ds" "length ds = length as"
      "\<And>k. k < length as \<Longrightarrow> \<exists>st'. ds ! k = asset_decision env opts project deadline revision (Suc n + k) (as ! k) st'"
    using Cons.IH[of "Suc n" ?st] by auto
  let ?d = "asset_decision env opts project deadline revision n a st"
  have "\<exists>st'. (?d # ds) ! k = asset_decision env opts project deadline revision (n + k) ((a # as) ! k) st'"
    if "k < length (a # as)" for k
    using that ds(3) by (cases k) auto
  then show ?case using ds(1,2) by (intro exI[of _ "?d # ds"]) (simp add: ensure_asset_decisions)
qed simp

definition confirmed_by_record :: "gate_env \<Rightarrow> string \<Rightarrow> nat \<Rightarrow> knowledge_asset \<Rightarrow> live_revision \<Rightarrow> bool" where
  "confirmed_by_record env project n a v \<longleftrightarrow>
     (\<exists>r. ge_records env n (as_id a) (as_version a) = Inr (Some r) \<and> projection_matches project a r
        \<and> fr_freshnessStatus r = FRESH \<and> fr_codeRevision r = Some (lv_codeRevision v)
        \<and> (fr_graphRevision r = None \<or> fr_graphRevision r = lv_graphRevision v))"

definition confirmed_by_port :: "gate_env \<Rightarrow> string \<Rightarrow> nat \<Rightarrow> knowledge_asset \<Rightarrow> live_revision \<Rightarrow> bool" where
  "confirmed_by_port env project n a v \<longleftrightarrow>
     (\<exists>r. ge_records env n (as_id a) (as_version a) = Inr (Some r) \<and> projection_matches project a r)
   \<and> (\<exists>port request ms x. ge_targeted env = Some port \<and> tq_asset request = a
        \<and> tq_projectId request = project \<and> tq_codeRevision request = lv_codeRevision v
        \<and> port n request ms = Resolved x \<and> tv_assetId x = as_id a \<and> tv_assetVersion x = as_version a
        \<and> tv_status x = FRESH \<and> tv_codeRevision x = lv_codeRevision v \<and> tv_graphRevision x = lv_graphRevision v)"

lemma exactReason_confirmed:
  "exactReason r v = FRESHNESS_CONFIRMED \<longleftrightarrow> fr_freshnessStatus r = FRESH
     \<and> fr_codeRevision r = Some (lv_codeRevision v)
     \<and> (fr_graphRevision r = None \<or> fr_graphRevision r = lv_graphRevision v)"
  by (cases "fr_freshnessStatus r") (auto simp: exactReason_def)

lemma read_reason_confirmed:
  "read_reason project a revision (ge_records env n (as_id a) (as_version a)) = FRESHNESS_CONFIRMED
     \<Longrightarrow> \<exists>v. revision = Some v \<and> confirmed_by_record env project n a v"
  by (auto simp: read_reason_def confirmed_by_record_def exactReason_confirmed
      split: sum.splits option.splits if_splits)

lemma verifyWithin_RESULT: "verifyWithin port q ab ms = RESULT x \<Longrightarrow> port q ms = Resolved x"
  by (auto simp: verifyWithin_def split: if_splits race.splits)

lemma targeted_confirmsD:
  "targeted_confirms a v out \<Longrightarrow> \<exists>x. out = RESULT x \<and> tv_assetId x = as_id a
     \<and> tv_assetVersion x = as_version a \<and> tv_status x = FRESH \<and> tv_codeRevision x = lv_codeRevision v
     \<and> tv_graphRevision x = lv_graphRevision v"
  by (auto simp: targeted_confirms_def split: targeted_outcome.splits)

lemma try_targeted_eligible:
  assumes "try_targeted env opts project deadline n a revision m reason st = (st', True, r)"
  shows "reason = FRESHNESS_CONFIRMED \<or>
    (\<exists>v port ms x. revision = Some v \<and> m \<and> ge_targeted env = Some port
       \<and> port n \<lparr>tq_projectId = project, tq_asset = a, tq_codeRevision = lv_codeRevision v,
             tq_graphRevision = lv_graphRevision v\<rparr> ms = Resolved x
       \<and> tv_assetId x = as_id a \<and> tv_assetVersion x = as_version a \<and> tv_status x = FRESH
       \<and> tv_codeRevision x = lv_codeRevision v \<and> tv_graphRevision x = lv_graphRevision v)"
  using assms
  by (fastforce simp: try_targeted_def Let_def split: option.splits if_splits
      dest!: targeted_confirmsD verifyWithin_RESULT)

lemma decision_identity:
  "ed_assetId (asset_decision env opts project deadline revision n a st) = as_id a"
  "ed_assetVersion (asset_decision env opts project deadline revision n a st) = as_version a"
  "ed_codeFact (asset_decision env opts project deadline revision n a st) = requiresFreshness a"
  by (auto simp: asset_decision_def ensure_asset_def Let_def split: prod.splits)

lemma decision_eligible:
  assumes "ed_eligible (asset_decision env opts project deadline revision n a st)"
    and "ed_codeFact (asset_decision env opts project deadline revision n a st)"
  shows "\<exists>v. revision = Some v \<and> (confirmed_by_record env project n a v \<or> confirmed_by_port env project n a v)"
proof -
  let ?reading = "ge_records env n (as_id a) (as_version a)"
  let ?m = "case ?reading of Inr (Some r) \<Rightarrow> projection_matches project a r | _ \<Rightarrow> False"
  obtain st' e r where t: "try_targeted env opts project deadline n a revision ?m
      (read_reason project a revision ?reading) st = (st', e, r)" by (metis prod_cases3)
  have req: "requiresFreshness a" using assms(2) by (simp add: decision_identity)
  have e using assms(1) req t by (auto simp: asset_decision_def ensure_asset_def Let_def)
  then have t': "try_targeted env opts project deadline n a revision ?m
      (read_reason project a revision ?reading) st = (st', True, r)" using t by simp
  from try_targeted_eligible[OF t'] consider "read_reason project a revision ?reading = FRESHNESS_CONFIRMED"
    | v port ms x where "revision = Some v" "?m" "ge_targeted env = Some port"
       "port n \<lparr>tq_projectId = project, tq_asset = a, tq_codeRevision = lv_codeRevision v,
             tq_graphRevision = lv_graphRevision v\<rparr> ms = Resolved x"
       "tv_assetId x = as_id a" "tv_assetVersion x = as_version a" "tv_status x = FRESH"
       "tv_codeRevision x = lv_codeRevision v" "tv_graphRevision x = lv_graphRevision v"
    by blast
  then show ?thesis
  proof cases
    case 1
    then show ?thesis using read_reason_confirmed by blast
  next
    case 2
    have "\<exists>r. ?reading = Inr (Some r) \<and> projection_matches project a r"
      using 2(2) by (auto split: sum.splits option.splits)
    then show ?thesis using 2 unfolding confirmed_by_port_def
      by (metis targeted_request.select_convs(1,2,3))
  qed
qed

section \<open>Accounting of targeted verifications\<close>

definition targeted_reason :: "gate_reason \<Rightarrow> bool" where
  "targeted_reason r \<longleftrightarrow> r = FRESHNESS_TARGETED_CONFIRMED \<or> r = FRESHNESS_TARGETED_FAILED"

definition gate_inv :: "gate_options \<Rightarrow> gate_state \<Rightarrow> bool" where
  "gate_inv opts st \<longleftrightarrow>
     int (length (filter (\<lambda>d. targeted_reason (ed_reasonCode d)) (gs_decisions st))) \<le> gs_targeted st
   \<and> gs_targeted st \<le> max 0 (go_maxTargetedItems opts)
   \<and> (gs_timedOut st \<longleftrightarrow> (\<exists>d \<in> set (gs_decisions st). ed_reasonCode d = FRESHNESS_TARGETED_TIMEOUT))"

lemma read_reason_not_targeted:
  "\<not> targeted_reason (read_reason project a revision x) \<and> read_reason project a revision x \<noteq> FRESHNESS_TARGETED_TIMEOUT"
proof -
  have e: "\<not> targeted_reason (exactReason r v) \<and> exactReason r v \<noteq> FRESHNESS_TARGETED_TIMEOUT" for r v
    by (cases "fr_freshnessStatus r") (auto simp: exactReason_def targeted_reason_def)
  show ?thesis
    using e by (auto simp: read_reason_def targeted_reason_def split: sum.splits option.splits)
qed

lemma try_targeted_accounts:
  assumes "try_targeted env opts project deadline n a revision m reason st = (st', e, r)"
    and "\<not> targeted_reason reason" and "reason \<noteq> FRESHNESS_TARGETED_TIMEOUT"
  shows "gs_targeted st' = gs_targeted st \<and> \<not> targeted_reason r
      \<or> gs_targeted st' = gs_targeted st + 1 \<and> gs_targeted st < go_maxTargetedItems opts"
    and "gs_timedOut st' \<longleftrightarrow> gs_timedOut st \<or> r = FRESHNESS_TARGETED_TIMEOUT"
  using assms
  by (auto simp: try_targeted_def targeted_reason_def Let_def split: option.splits if_splits)

lemma ensure_asset_inv:
  assumes "gate_inv opts st"
  shows "gate_inv opts (ensure_asset env opts project deadline revision n a st)"
proof (cases "requiresFreshness a")
  case False
  then show ?thesis using assms by (auto simp: gate_inv_def ensure_asset_def targeted_reason_def)
next
  case True
  let ?reading = "ge_records env n (as_id a) (as_version a)"
  let ?m = "case ?reading of Inr (Some r) \<Rightarrow> projection_matches project a r | _ \<Rightarrow> False"
  let ?q = "read_reason project a revision ?reading"
  obtain st' e r where t: "try_targeted env opts project deadline n a revision ?m ?q st = (st', e, r)"
    by (metis prod_cases3)
  note q = read_reason_not_targeted[of project a revision ?reading]
  note acc = try_targeted_accounts[OF t conjunct1[OF q] conjunct2[OF q]]
  have "gs_decisions st' = gs_decisions st" by (rule try_targeted_frame[OF t])
  then show ?thesis using assms True t acc
    by (auto simp: gate_inv_def ensure_asset_def Let_def)
qed

lemma ensure_assets_inv:
  "gate_inv opts st \<Longrightarrow> gate_inv opts (ensure_assets env opts project deadline revision n as st)"
  by (induction as arbitrary: n st) (auto intro: ensure_asset_inv)

lemma ensureFreshD:
  assumes "ensureFresh env opts project assets = Inr res"
  obtains st deadline where "gate_inv opts st" "ew_decisions res = gs_decisions st"
    "ew_timedOut res = gs_timedOut st" "0 \<le> ew_durationMs res"
    "ew_eligibleAssetVersions res = map (\<lambda>d. version_key (ed_assetId d) (ed_assetVersion d))
       (filter ed_eligible (gs_decisions st))"
    "length (gs_decisions st) = length assets"
    "\<forall>k < length assets. \<exists>st'. gs_decisions st ! k = asset_decision env opts project deadline
       (live_revision_of env project) k (assets ! k) st'"
proof -
  let ?init = "\<lparr>gs_clock = 1, gs_targeted = 0, gs_timedOut = False, gs_decisions = []\<rparr>"
  let ?d = "ge_clock env 0 + of_int (go_deadlineMs opts)"
  let ?st = "ensure_assets env opts project ?d (live_revision_of env project) 0 assets ?init"
  have "gate_inv opts ?init" by (simp add: gate_inv_def)
  then have "gate_inv opts ?st" by (rule ensure_assets_inv)
  moreover have "ew_decisions res = gs_decisions ?st" "ew_timedOut res = gs_timedOut ?st"
    "0 \<le> ew_durationMs res"
    "ew_eligibleAssetVersions res = map (\<lambda>d. version_key (ed_assetId d) (ed_assetVersion d))
       (filter ed_eligible (gs_decisions ?st))"
    using assms by (auto simp: ensureFresh_def Let_def simp del: One_nat_def split: if_splits)
  moreover obtain ds where "gs_decisions ?st = ds" "length ds = length assets"
    "\<forall>k < length assets. \<exists>st'. ds ! k = asset_decision env opts project ?d
       (live_revision_of env project) k (assets ! k) st'"
    using ensure_assets_decisions[of env opts project ?d "live_revision_of env project" 0 assets ?init] by auto
  ultimately show thesis using that[of ?st ?d] by metis
qed

section \<open>Plans\<close>

definition invalid_reason :: string where
  "invalid_reason = ''INVALID_CHANGESET_OR_FINGERPRINT''"

lemma reason_texts:
  "invalid_reason \<noteq> ''NO_RELEVANT_CHANGE''" "invalid_reason \<noteq> ''AFFECTED_TARGETS_REVALIDATED''"
  "invalid_reason \<noteq> ''AFFECTED_TARGET_REVALIDATION_INCOMPLETE''" "invalid_reason \<noteq> ''BODY_PRESERVED''"
  "invalid_reason \<noteq> ''AFFECTED_TARGET_REQUIRES_REVALIDATION''"
  by (simp_all add: invalid_reason_def)

lemma plan_fields:
  "fl_freshnessStatus (planKnowledgeFreshness ts loc rec ch rs)
     = fst (plan_outcome (evaluateInvalidation ts loc (plan_input rec ch rs)) rs)"
  "fl_action (planKnowledgeFreshness ts loc rec ch rs)
     = snd (plan_outcome (evaluateInvalidation ts loc (plan_input rec ch rs)) rs)"
  "fl_targetLifecycleStatus (planKnowledgeFreshness ts loc rec ch rs)
     = (if snd (plan_outcome (evaluateInvalidation ts loc (plan_input rec ch rs)) rs) = PLAN_MARK_STALE
        then id_targetStatus (evaluateInvalidation ts loc (plan_input rec ch rs)) else fr_lifecycleStatus rec)"
  "fl_reasonCodes (planKnowledgeFreshness ts loc rec ch rs)
     = id_reasonCodes (evaluateInvalidation ts loc (plan_input rec ch rs))"
  by (simp_all add: planKnowledgeFreshness_def Let_def split: prod.splits)

lemma plan_input_simps [simp]:
  "in_candidate (plan_input rec ch rs) = fr_candidate rec"
  "in_currentStatus (plan_input rec ch rs) = fr_lifecycleStatus rec"
  "in_fingerprint (plan_input rec ch rs) = fr_fingerprint rec"
  "in_changes (plan_input rec ch rs) = ch"
  "in_revalidationResults (plan_input rec ch rs) = rs"
  by (simp_all add: plan_input_def)

lemmas outcome_simps = plan_outcome_def reason_texts [unfolded invalid_reason_def] invalid_reason_def

text \<open>What a plan says, by the cases of the invalidation decision.\<close>

lemma plan_cases:
  fixes rec ch rs ts loc
  defines "i \<equiv> plan_input rec ch rs" and "d \<equiv> evaluateInvalidation ts loc (plan_input rec ch rs)"
  obtains (invalid) "\<not> invalidation_input_ok ts loc i" "plan_outcome d rs = (UNKNOWN, PLAN_NONE)"
      "invalid_reason \<in> set (id_reasonCodes d)"
  | (irrelevant) "invalidation_input_ok ts loc i" "affectedIds i = []" "plan_outcome d rs = (FRESH, PLAN_NONE)"
      "invalid_reason \<notin> set (id_reasonCodes d)"
  | (refresh) "invalidation_input_ok ts loc i" "affectedIds i \<noteq> []" "list_all (supportedRevalidation i) (affectedIds i)"
      "plan_outcome d rs = (FRESH, PLAN_REFRESH_FINGERPRINT)" "invalid_reason \<notin> set (id_reasonCodes d)"
  | (stale) "invalidation_input_ok ts loc i" "\<not> list_all (supportedRevalidation i) (affectedIds i)"
      "fr_lifecycleStatus rec \<in> {knowledge_status.IMPLEMENTED, VERIFIED}" "id_targetStatus d = STALE"
      "plan_outcome d rs = (let status = (if rs = None then REVALIDATE else if hasUnknown rs then UNKNOWN else CONFLICT)
          in (status, if status = CONFLICT then PLAN_MARK_STALE else REQUEST_REVALIDATION))"
      "invalid_reason \<notin> set (id_reasonCodes d)"
  | (revalidate) "invalidation_input_ok ts loc i" "\<not> list_all (supportedRevalidation i) (affectedIds i)"
      "plan_outcome d rs = (if hasUnknown rs then UNKNOWN else REVALIDATE, REQUEST_REVALIDATION)"
      "invalid_reason \<notin> set (id_reasonCodes d)"
proof -
  show thesis unfolding d_def i_def
  proof (rule invalidation_cases[of ts loc "plan_input rec ch rs"])
  qed (use invalid irrelevant refresh stale revalidate in
      \<open>auto simp: d_def i_def outcome_simps Let_def\<close>)
qed

section \<open>An example\<close>

text \<open>An implementation fact about one file, published, then refuted after the file changed.\<close>

definition ex_fact :: knowledge_candidate where
  "ex_fact = \<lparr>kc_candidateId = ''c1'', kc_compilerVersion = ''v1'', kc_status = PROPOSED,
     kc_subjectKey = ''impl.a.b'', kc_kind = IMPLEMENTATION,
     kc_scopeHint = \<lparr>sh_level = None, sh_taskId = None, sh_projectId = None, sh_repositoryRemote = None,
       sh_modulePaths = None, sh_symbols = None, sh_userId = None, sh_teamId = None, sh_reasonCodes = []\<rparr>,
     kc_title = ''t'', kc_summary = ''s'', kc_body = ''b'', kc_sourceEpisodes = [], kc_confidence = 1,
     kc_createdAt = Iso 0, kc_correlationId = ''r1'',
     kc_assertions = [\<lparr>ka_assertionId = ''a1'', ka_candidateId = ''c1'',
       ka_body = FileContains ''f'' ''x'' EXACT, ka_createdAt = Iso 0\<rparr>],
     kc_evidenceHints = [], kc_localization = Schema1 None None\<rparr>"

definition ex_asset :: knowledge_asset where
  "ex_asset = \<lparr>as_schemaVersion = 1, as_id = ''k1'', as_subjectKey = ''impl.a.b'', as_kind = IMPLEMENTATION,
     as_scope = ProjectScope ''p1'' None, as_version = 1, as_status = VERIFIED, as_title = ''t'',
     as_summary = ''s'', as_body = ''b'', as_aliases = [], as_keywords = [], as_applicability = [],
     as_nonApplicability = [], as_symbols = [], as_relations = [], as_evidence = [], as_confidence = 1,
     as_sourceEpisodes = [], as_contentHash = ''h'', as_codeFingerprint = None, as_correlationId = ''r1'',
     as_createdAt = Iso 0, as_updatedAt = Iso 0, as_claimMode = None, as_locator = None\<rparr>"

definition ex_projection :: projection_input where
  "ex_projection = \<lparr>px_asset = ex_asset, px_candidate = ex_fact, px_verificationResults = [],
     px_projectId = ''p1'', px_observedAt = Iso 0\<rparr>"

definition ex_build :: "freshness_error + freshness_record" where
  "ex_build = buildFreshnessRecord (\<lambda>_. ''x'') (\<lambda>_. []) (\<le>) ex_projection"

definition ex_record :: freshness_record where
  "ex_record = (case ex_build of Inr r \<Rightarrow> r
     | Inl _ \<Rightarrow> \<lparr>fr_assetId = [], fr_assetVersion = 0, fr_assetContentHash = [], fr_projectId = [],
         fr_lifecycleStatus = PROPOSED, fr_freshnessStatus = UNKNOWN, fr_freshnessRevision = None,
         fr_codeRevision = None, fr_graphRevision = None, fr_candidate = ex_fact,
         fr_fingerprint = \<lparr>fp_candidateId = [], fp_projectId = [], fp_entries = [], fp_fingerprint = []\<rparr>,
         fr_anchors = [], fr_updatedAt = Iso 0\<rparr>)"

definition ex_changes :: change_set where
  "ex_changes = \<lparr>ch_projectId = ''p1'', ch_changedPaths = [''f''], ch_changedSymbols = [],
     ch_changedConfigs = [], ch_changedDependencies = [], ch_sourceRef = ''g'', ch_observedAt = Iso 1\<rparr>"

lemma ex_build_ok: "is_ok ex_build"
  by code_simp

lemma ex_build_Inr: "buildFreshnessRecord (\<lambda>_. ''x'') (\<lambda>_. []) (\<le>) ex_projection = Inr ex_record"
  using ex_build_ok by (auto simp: is_ok_iff ex_record_def ex_build_def)

lemma ex_plan_stale:
  "fl_targetLifecycleStatus (planKnowledgeFreshness (\<lambda>_. []) (\<le>) ex_record ex_changes (Some [])) = STALE"
  by code_simp

definition ex_env :: gate_env where
  "ex_env = \<lparr>ge_records = (\<lambda>_ _ _. Inr (Some (ex_record\<lparr>fr_codeRevision := Some ''rev''\<rparr>))),
     ge_revisions = (\<lambda>_. Inr (Some \<lparr>lv_projectId = ''p1'', lv_codeRevision = ''rev'', lv_graphRevision = None\<rparr>)),
     ge_targeted = None, ge_compensation = None, ge_aborted = (\<lambda>_. False), ge_clock = (\<lambda>_. 0)\<rparr>"

definition ex_gate_options :: gate_options where
  "ex_gate_options = \<lparr>go_maxItems = 100, go_maxTargetedItems = 3, go_deadlineMs = 150,
     go_minimumTargetedBudgetMs = 20\<rparr>"

lemma ex_ensure:
  "ensureFresh ex_env ex_gate_options ''p1'' [ex_asset] = Inr \<lparr>ew_eligibleAssetVersions = [''k1@1''],
     ew_decisions = [\<lparr>ed_assetId = ''k1'', ed_assetVersion = 1, ed_eligible = True, ed_codeFact = True,
       ed_reasonCode = FRESHNESS_CONFIRMED, ed_compensationJobId = None\<rparr>],
     ew_durationMs = 0, ew_timedOut = False\<rparr>"
  by code_simp

section \<open>Properties\<close>

text \<open>
  A projection is accepted by its own planner. When \<open>buildFreshnessRecord\<close> gives a record, then
  for every valid change set of its project and any revalidation results the plan does not report an
  invalid fingerprint: rebuilding the fingerprint from the stored entries reproduces it. So as long as
  no entry is affected the record stays \<open>FRESH\<close> and nothing is done.
\<close>

theorem fresh_record_is_accepted:
  assumes "buildFreshnessRecord sha ts loc x = Inr rec" and "validChangeSet ch"
    and "ch_projectId ch = px_projectId x"
  shows "''INVALID_CHANGESET_OR_FINGERPRINT'' \<notin> set (fl_reasonCodes (planKnowledgeFreshness ts loc rec ch rs))
    \<and> (list_all (\<lambda>e. \<not> affected ch e) (fp_entries (fr_fingerprint rec))
       \<longrightarrow> fl_freshnessStatus (planKnowledgeFreshness ts loc rec ch rs) = FRESH
         \<and> fl_action (planKnowledgeFreshness ts loc rec ch rs) = PLAN_NONE)"
proof -
  obtain anchors where f: "createKnowledgeFingerprint ts loc (px_candidate x) (px_projectId x)
      (map (observation_for sha x) anchors) = Inr (fr_fingerprint rec)"
    and c: "fr_candidate rec = px_candidate x"
    using assms(1) by (auto simp: buildFreshnessRecord_def)
  have ok: "invalidation_input_ok ts loc (plan_input rec ch rs)"
    using fingerprint_again[OF f] fingerprint_ids[OF f] c assms(2,3)
    by (simp add: invalidation_input_ok_def validFingerprint_def)
  have empty: "affectedIds (plan_input rec ch rs) = []"
    if "list_all (\<lambda>e. \<not> affected ch e) (fp_entries (fr_fingerprint rec))"
    using that by (simp add: affectedIds_Nil_iff list_all_iff)
  show ?thesis
    by (rule plan_cases[of ts loc rec ch rs]) (use ok empty in \<open>auto simp: plan_fields invalid_reason_def\<close>)
qed

lemma fresh_record_is_accepted_witness:
  "''INVALID_CHANGESET_OR_FINGERPRINT''
     \<notin> set (fl_reasonCodes (planKnowledgeFreshness (\<lambda>_. []) (\<le>) ex_record ex_changes None))"
proof -
  have v: "validChangeSet ex_changes" by code_simp
  have p: "ch_projectId ex_changes = px_projectId ex_projection"
    by (simp add: ex_changes_def ex_projection_def)
  show ?thesis using fresh_record_is_accepted[OF ex_build_Inr v p] by blast
qed

text \<open>
  Knowledge is never marked stale without a conflict. A plan changes the lifecycle status only
  from \<open>IMPLEMENTED\<close> or \<open>VERIFIED\<close> to \<open>STALE\<close>, only with the freshness \<open>CONFLICT\<close>, only when
  revalidation was carried out and left no result unknown or in error, and only when some affected
  assertion was not supported by it.
\<close>

theorem stale_needs_conflict:
  assumes "fl_targetLifecycleStatus (planKnowledgeFreshness ts loc rec ch rs) \<noteq> fr_lifecycleStatus rec"
  shows "fr_lifecycleStatus rec \<in> {knowledge_status.IMPLEMENTED, VERIFIED}
    \<and> fl_targetLifecycleStatus (planKnowledgeFreshness ts loc rec ch rs) = STALE
    \<and> fl_freshnessStatus (planKnowledgeFreshness ts loc rec ch rs) = CONFLICT
    \<and> rs \<noteq> None \<and> \<not> hasUnknown rs
    \<and> (\<exists>a \<in> set (affectedIds (plan_input rec ch rs)). \<not> supportedRevalidation (plan_input rec ch rs) a)"
  by (rule plan_cases[of ts loc rec ch rs])
     (use assms in \<open>auto simp: plan_fields list_all_iff Let_def split: if_splits\<close>)

lemma stale_needs_conflict_witness:
  "fl_freshnessStatus (planKnowledgeFreshness (\<lambda>_. []) (\<le>) ex_record ex_changes (Some [])) = CONFLICT"
proof -
  have "fr_lifecycleStatus ex_record = VERIFIED" by code_simp
  then show ?thesis
    using stale_needs_conflict[of "\<lambda>_. []" "(\<le>)" ex_record ex_changes "Some []"] ex_plan_stale by simp
qed

text \<open>
  No relevant change is missed. A plan reports \<open>FRESH\<close> exactly when the change set and the
  fingerprint are valid and every entry that the change affects (its path, symbol, configuration key
  or dependency changed) belongs to an assertion that revalidation supports.
\<close>

theorem fresh_iff_changes_revalidated:
  "fl_freshnessStatus (planKnowledgeFreshness ts loc rec ch rs) = FRESH \<longleftrightarrow>
     invalidation_input_ok ts loc (plan_input rec ch rs)
   \<and> list_all (\<lambda>e. supportedRevalidation (plan_input rec ch rs) (ft_assertionId e))
       (filter (affected ch) (fp_entries (fr_fingerprint rec)))"
proof -
  have a: "list_all (\<lambda>e. supportedRevalidation (plan_input rec ch rs) (ft_assertionId e))
       (filter (affected ch) (fp_entries (fr_fingerprint rec)))
     \<longleftrightarrow> list_all (supportedRevalidation (plan_input rec ch rs)) (affectedIds (plan_input rec ch rs))"
    by (auto simp: list_all_iff affectedIds_set)
  show ?thesis unfolding a
    by (rule plan_cases[of ts loc rec ch rs]) (auto simp: plan_fields Let_def split: if_splits)
qed

text \<open>
  C33: The gate admits only fresh code facts. When \<open>ensureFresh\<close> marks a code fact eligible, a valid
  live revision of the project was read, and the asset's projection (same version, content hash and
  project) either is \<open>FRESH\<close> at exactly that code revision and at no other graph revision, or was
  confirmed \<open>FRESH\<close> at exactly that code and graph revision by the targeted verification of that very
  asset. Missing, failing or mismatching reads never admit.
\<close>

theorem gate_admits_only_fresh:
  assumes "ensureFresh env opts project assets = Inr res" and "k < length (ew_decisions res)"
    and "ed_eligible (ew_decisions res ! k)" and "ed_codeFact (ew_decisions res ! k)"
  shows "k < length assets \<and> ed_assetId (ew_decisions res ! k) = as_id (assets ! k)
    \<and> ed_assetVersion (ew_decisions res ! k) = as_version (assets ! k)
    \<and> (\<exists>v. live_revision_of env project = Some v
        \<and> (confirmed_by_record env project k (assets ! k) v \<or> confirmed_by_port env project k (assets ! k) v))"
proof (rule ensureFreshD[OF assms(1)])
  fix st deadline
  assume d: "ew_decisions res = gs_decisions st" and l: "length (gs_decisions st) = length assets"
    and all: "\<forall>k < length assets. \<exists>st'. gs_decisions st ! k = asset_decision env opts project deadline
       (live_revision_of env project) k (assets ! k) st'"
  have k: "k < length assets" using assms(2) d l by simp
  then obtain st' where e: "ew_decisions res ! k = asset_decision env opts project deadline
       (live_revision_of env project) k (assets ! k) st'" using all d by auto
  show ?thesis using k decision_eligible[OF assms(3)[unfolded e] assms(4)[unfolded e]]
    unfolding e by (simp add: decision_identity)
qed

lemma gate_admits_only_fresh_witness:
  "\<exists>v. live_revision_of ex_env ''p1'' = Some v \<and>
     (confirmed_by_record ex_env ''p1'' 0 ex_asset v \<or> confirmed_by_port ex_env ''p1'' 0 ex_asset v)"
  using gate_admits_only_fresh[OF ex_ensure, of 0] by simp

text \<open>
  The gate accounts for every asset and stays within its budget: it returns one decision per asset
  in order, admits exactly the versions it lists, makes at most \<open>maxTargetedItems\<close> targeted
  verifications that end in a confirmation or a failure, sets \<open>timedOut\<close> exactly when some decision
  says so, and reports a non-negative duration.
\<close>

theorem gate_accounting:
  assumes "ensureFresh env opts project assets = Inr res"
  shows "map (\<lambda>d. (ed_assetId d, ed_assetVersion d)) (ew_decisions res)
      = map (\<lambda>a. (as_id a, as_version a)) assets
    \<and> ew_eligibleAssetVersions res
      = map (\<lambda>d. version_key (ed_assetId d) (ed_assetVersion d)) (filter ed_eligible (ew_decisions res))
    \<and> int (length (filter (\<lambda>d. targeted_reason (ed_reasonCode d)) (ew_decisions res)))
        \<le> max 0 (go_maxTargetedItems opts)
    \<and> (ew_timedOut res \<longleftrightarrow> (\<exists>d \<in> set (ew_decisions res). ed_reasonCode d = FRESHNESS_TARGETED_TIMEOUT))
    \<and> 0 \<le> ew_durationMs res"
proof (rule ensureFreshD[OF assms])
  fix st deadline
  assume inv: "gate_inv opts st" and d: "ew_decisions res = gs_decisions st" "ew_timedOut res = gs_timedOut st"
    "0 \<le> ew_durationMs res"
    "ew_eligibleAssetVersions res = map (\<lambda>d. version_key (ed_assetId d) (ed_assetVersion d))
       (filter ed_eligible (gs_decisions st))"
    and l: "length (gs_decisions st) = length assets"
    and all: "\<forall>k < length assets. \<exists>st'. gs_decisions st ! k = asset_decision env opts project deadline
       (live_revision_of env project) k (assets ! k) st'"
  have "map (\<lambda>d. (ed_assetId d, ed_assetVersion d)) (gs_decisions st) = map (\<lambda>a. (as_id a, as_version a)) assets"
  proof (rule nth_equalityI)
    fix k assume "k < length (map (\<lambda>d. (ed_assetId d, ed_assetVersion d)) (gs_decisions st))"
    then have k: "k < length assets" using l by simp
    then obtain st' where "gs_decisions st ! k = asset_decision env opts project deadline
       (live_revision_of env project) k (assets ! k) st'" using all by auto
    then show "map (\<lambda>d. (ed_assetId d, ed_assetVersion d)) (gs_decisions st) ! k
        = map (\<lambda>a. (as_id a, as_version a)) assets ! k"
      using k l by (simp add: decision_identity)
  qed (simp add: l)
  then show ?thesis using inv d by (auto simp: gate_inv_def)
qed

lemma gate_accounting_witness:
  "map (\<lambda>a. (as_id a, as_version a)) [ex_asset] = [(''k1'', 1)]"
  using gate_accounting[OF ex_ensure] by simp

end
