(* ===== verification/Closure.thy ===== *)
theory Closure
  imports Invalidation
begin

text \<open>
  The closure verifier (\<^verbatim>\<open>packages/closure-verifier/src/verifier.ts\<close>): whether a task may end,
  from its declared gates, boundaries and required knowledge and from what was observed. The semantic
  verifier is a port: its race with the timer is settled with gate results, a timeout or a failure.
  Of the context envelope only what the verifier reads is kept. The result is checked against its
  JSON schema (\<^verbatim>\<open>packages/schemas/src/json/closure-verification-result.schema.json\<close>).
\<close>

section \<open>Data (domain/closure.ts, types.ts)\<close>

datatype closure_decision = PASS | RETRY_WITH_CONTEXT | RETRY_WITH_CORRECTION | ASK_USER

datatype gate_status = SATISFIED | UNSATISFIED | UNKNOWN

record gate_outcome =
  go_gateId :: string
  go_status :: gate_status
  go_reasonCodes :: "string list"
  go_evidenceRefs :: "string list"

record closure_result =
  cv_verificationId :: string
  cv_taskId :: string
  cv_decision :: closure_decision
  cv_reasonCodes :: "string list"
  cv_missingKnowledgeIds :: "string list"
  cv_unmetGateIds :: "string list"
  cv_violatedBoundaryIds :: "string list"
  cv_gateResults :: "gate_outcome list"

datatype gate_type =
  TEST_PASSED string
| ARTIFACT_PRESENT string
| PATH_CHANGED string
| TOOL_SUCCEEDED string
| NO_OPEN_ISSUES
| SEMANTIC

record closure_gate =
  cg_gateId :: string
  cg_description :: string
  cg_type :: gate_type

record closure_boundary =
  cb_boundaryId :: string
  cb_pathPrefix :: string

datatype detail_level = L0_NONE | L1_POINTER | L2_COMPACT | L3_EVIDENCED | L4_EPISODE

record knowledge_requirement =
  kq_knowledgeId :: string
  kq_minimumDetailLevel :: detail_level

record context_item =
  ci_id :: string
  ci_detailLevel :: detail_level

record tool_result =
  to_toolCallId :: string
  to_toolName :: string
  to_succeeded :: bool
  to_artifactIds :: "string list"

datatype test_status = PASSED | FAILED | NOT_RUN

record test_result =
  te_testId :: string
  te_status :: test_status

record closure_input =
  cx_verificationId :: string
  cx_taskId :: string
  cx_objective :: string
  cx_gates :: "closure_gate list"
  cx_boundaries :: "closure_boundary list"
  cx_requiredKnowledge :: "knowledge_requirement list"
  cx_contextTaskId :: "string option"
  cx_contextItems :: "context_item list"
  cx_changedPaths :: "string list"
  cx_toolResults :: "tool_result list"
  cx_tests :: "test_result list"
  cx_claimedComplete :: bool
  cx_openIssues :: "string list"

fun LEVEL :: "detail_level \<Rightarrow> int" where
  "LEVEL L0_NONE = 0"
| "LEVEL L1_POINTER = 1"
| "LEVEL L2_COMPACT = 2"
| "LEVEL L3_EVIDENCED = 3"
| "LEVEL L4_EPISODE = 4"

datatype closure_error = METADATA_INVALID | COLLECTIONS_INVALID | EVIDENCE_INVALID | RESULT_SCHEMA_FAILED

section \<open>The result schema\<close>

definition short_text :: "nat \<Rightarrow> string \<Rightarrow> bool" where
  "short_text n s \<longleftrightarrow> 1 \<le> length s \<and> length s \<le> n"

definition id_list_ok :: "string list \<Rightarrow> bool" where
  "id_list_ok xs \<longleftrightarrow> length xs \<le> 100 \<and> distinct xs \<and> list_all (short_text 500) xs"

definition gate_schema_ok :: "gate_outcome \<Rightarrow> bool" where
  "gate_schema_ok g \<longleftrightarrow> short_text 500 (go_gateId g)
     \<and> 1 \<le> length (go_reasonCodes g) \<and> length (go_reasonCodes g) \<le> 10
     \<and> distinct (go_reasonCodes g) \<and> list_all (upper_code 99) (go_reasonCodes g)
     \<and> length (go_evidenceRefs g) \<le> 100 \<and> distinct (go_evidenceRefs g)
     \<and> list_all (short_text 1000) (go_evidenceRefs g)"

definition result_schema_ok :: "closure_result \<Rightarrow> bool" where
  "result_schema_ok r \<longleftrightarrow> short_text 500 (cv_verificationId r) \<and> short_text 500 (cv_taskId r)
     \<and> 1 \<le> length (cv_reasonCodes r) \<and> length (cv_reasonCodes r) \<le> 20
     \<and> distinct (cv_reasonCodes r) \<and> list_all (upper_code 99) (cv_reasonCodes r)
     \<and> id_list_ok (cv_missingKnowledgeIds r) \<and> id_list_ok (cv_unmetGateIds r)
     \<and> id_list_ok (cv_violatedBoundaryIds r)
     \<and> 1 \<le> length (cv_gateResults r) \<and> length (cv_gateResults r) \<le> 100
     \<and> list_all gate_schema_ok (cv_gateResults r)"

definition unsatisfied_ids :: "gate_outcome list \<Rightarrow> string list" where
  "unsatisfied_ids gs = map go_gateId (filter (\<lambda>g. go_status g = UNSATISFIED) gs)"

definition buildResult ::
  "closure_input \<Rightarrow> closure_decision \<Rightarrow> string list \<Rightarrow> gate_outcome list \<Rightarrow> string list \<Rightarrow> string list
     \<Rightarrow> closure_error + closure_result" where
  "buildResult x decision reasons gates missing violated =
    (let value = \<lparr>cv_verificationId = cx_verificationId x, cv_taskId = cx_taskId x, cv_decision = decision,
        cv_reasonCodes = uniq reasons, cv_missingKnowledgeIds = uniq missing,
        cv_unmetGateIds = unsatisfied_ids gates,
        cv_violatedBoundaryIds = uniq violated, cv_gateResults = gates\<rparr>
     in and_then (ensure (result_schema_ok value) RESULT_SCHEMA_FAILED) (\<lambda>_. Inr value))"

section \<open>Validation\<close>

definition closure_path :: "string \<Rightarrow> bool" where
  "closure_path s \<longleftrightarrow> 0 < length s \<and> length s \<le> 4096 \<and> \<not> starts_with ''/'' s \<and> CHR 0x5C \<notin> set s
     \<and> list_all (\<lambda>p. p \<notin> {'''', ''.'', ''..''}) (split_on (CHR ''/'') s) \<and> plain_text s"

definition ids_ok :: "string list \<Rightarrow> bool" where
  "ids_ok xs \<longleftrightarrow> distinct xs \<and> list_all safe_id xs"

definition validate :: "closure_input \<Rightarrow> closure_error + unit" where
  "validate x =
     and_then (ensure (\<not> (\<not> safe_id (cx_verificationId x) \<or> \<not> safe_id (cx_taskId x)
        \<or> cx_contextTaskId x \<noteq> Some (cx_taskId x)
        \<or> \<not> has_text (cx_objective x) \<or> length (cx_objective x) > 5000
        \<or> length (cx_gates x) < 1 \<or> length (cx_gates x) > 100
        \<or> length (cx_boundaries x) > 100 \<or> length (cx_requiredKnowledge x) > 100)) METADATA_INVALID) (\<lambda>_.
     and_then (ensure (\<not> (\<not> ids_ok (map cg_gateId (cx_gates x)) \<or> \<not> ids_ok (map cb_boundaryId (cx_boundaries x))
        \<or> \<not> ids_ok (map kq_knowledgeId (cx_requiredKnowledge x))
        \<or> list_ex (\<lambda>g. \<not> has_text (cg_description g) \<or> length (cg_description g) > 2000) (cx_gates x)
        \<or> length (cx_changedPaths x) > 10000 \<or> length (cx_toolResults x) > 10000
        \<or> length (cx_tests x) > 10000)) COLLECTIONS_INVALID) (\<lambda>_.
     ensure (\<not> (\<not> list_all closure_path (cx_changedPaths x)
        \<or> \<not> list_all (\<lambda>b. closure_path (cb_pathPrefix b)) (cx_boundaries x)
        \<or> \<not> list_all (\<lambda>g. case cg_type g of PATH_CHANGED p \<Rightarrow> closure_path p | _ \<Rightarrow> True) (cx_gates x)
        \<or> \<not> distinct (map te_testId (cx_tests x))
        \<or> \<not> distinct (map to_toolCallId (cx_toolResults x)))) EVIDENCE_INVALID))"

section \<open>Gates\<close>

definition test_text :: "test_status \<Rightarrow> string" where
  "test_text s = (case s of PASSED \<Rightarrow> ''PASSED'' | FAILED \<Rightarrow> ''FAILED'' | NOT_RUN \<Rightarrow> ''NOT_RUN'')"

text \<open>Whether a deterministic gate is satisfied, and its evidence references; \<open>None\<close> for \<open>SEMANTIC\<close>.\<close>

definition gate_observation :: "gate_type \<Rightarrow> closure_input \<Rightarrow> (bool \<times> string list) option" where
  "gate_observation t x = (case t of
     TEST_PASSED i \<Rightarrow> (case find (\<lambda>r. te_testId r = i) (cx_tests x) of
         None \<Rightarrow> Some (False, [])
       | Some r \<Rightarrow> Some (te_status r = PASSED, [''test:'' @ te_testId r @ '':'' @ test_text (te_status r)]))
   | ARTIFACT_PRESENT a \<Rightarrow> (case find (\<lambda>r. to_succeeded r \<and> a \<in> set (to_artifactIds r)) (cx_toolResults x) of
         None \<Rightarrow> Some (False, [])
       | Some r \<Rightarrow> Some (True, [''tool:'' @ to_toolCallId r @ '':artifact:'' @ a]))
   | PATH_CHANGED p \<Rightarrow> (if p \<in> set (cx_changedPaths x) then Some (True, [''diff:'' @ p]) else Some (False, []))
   | TOOL_SUCCEEDED n \<Rightarrow> (case find (\<lambda>r. to_toolName r = n \<and> to_succeeded r) (cx_toolResults x) of
         None \<Rightarrow> Some (False, [])
       | Some r \<Rightarrow> Some (True, [''tool:'' @ to_toolCallId r @ '':SUCCEEDED'']))
   | NO_OPEN_ISSUES \<Rightarrow> (if cx_openIssues x = [] then Some (True, [''conclusion:open-issues:none''])
                        else Some (False, []))
   | SEMANTIC \<Rightarrow> None)"

definition deterministicGate :: "closure_gate \<Rightarrow> closure_input \<Rightarrow> gate_outcome" where
  "deterministicGate g x = (case gate_observation (cg_type g) x of
     None \<Rightarrow> \<lparr>go_gateId = cg_gateId g, go_status = UNKNOWN,
        go_reasonCodes = [''SEMANTIC_VERIFICATION_REQUIRED''], go_evidenceRefs = []\<rparr>
   | Some (satisfied, refs) \<Rightarrow> \<lparr>go_gateId = cg_gateId g,
        go_status = (if satisfied then SATISFIED else UNSATISFIED),
        go_reasonCodes = [if satisfied then ''DETERMINISTIC_GATE_SATISFIED'' else ''DETERMINISTIC_GATE_UNSATISFIED''],
        go_evidenceRefs = refs\<rparr>)"

definition semantic_gates :: "closure_input \<Rightarrow> closure_gate list" where
  "semantic_gates x = filter (\<lambda>g. cg_type g = SEMANTIC) (cx_gates x)"

text \<open>\<open>None\<close> is the thrown "expanded requirements or returned invalid results".\<close>

definition validateSemantic :: "gate_outcome list \<Rightarrow> closure_gate list \<Rightarrow> gate_outcome list option" where
  "validateSemantic value gates =
    (let expected = map cg_gateId (filter (\<lambda>g. cg_type g = SEMANTIC) gates);
         ids = map go_gateId value in
     if length ids \<noteq> length expected \<or> \<not> distinct ids
      \<or> list_ex (\<lambda>i. i \<notin> set ids) expected \<or> list_ex (\<lambda>i. i \<notin> set expected) ids
      \<or> list_ex (\<lambda>g. length (go_reasonCodes g) < 1 \<or> length (go_reasonCodes g) > 10
           \<or> \<not> list_all (upper_code 99) (go_reasonCodes g)) value
     then None else Some value)"

section \<open>Verification\<close>

datatype semantic_outcome = SemanticValue "gate_outcome list" | SemanticTimedOut | SemanticFailed

text \<open>The port: absent, present but unavailable (\<open>False\<close>), or present with its outcome.\<close>

type_synonym semantic_port = "(bool \<times> (closure_input \<Rightarrow> semantic_outcome)) option"

definition crosses :: "closure_input \<Rightarrow> closure_boundary \<Rightarrow> bool" where
  "crosses x b = list_ex (\<lambda>p. p = cb_pathPrefix b \<or> starts_with (cb_pathPrefix b @ ''/'') p) (cx_changedPaths x)"

definition missing_knowledge :: "closure_input \<Rightarrow> string list" where
  "missing_knowledge x = map kq_knowledgeId (filter
     (\<lambda>q. case last_entry ci_id (cx_contextItems x) (kq_knowledgeId q) of
        None \<Rightarrow> True | Some i \<Rightarrow> LEVEL (ci_detailLevel i) < LEVEL (kq_minimumDetailLevel q))
     (cx_requiredKnowledge x))"

definition combine :: "gate_outcome list \<Rightarrow> gate_outcome list \<Rightarrow> gate_outcome list" where
  "combine gates semantic = map (\<lambda>g. case last_entry go_gateId semantic (go_gateId g) of
     None \<Rightarrow> g | Some s \<Rightarrow> s) gates"

text \<open>
  The block guarded by \<open>try\<close>: whatever fails in it, a rejected semantic answer or a result that
  breaks the schema, is turned into \<open>ASK_USER\<close> by the \<open>catch\<close>.
\<close>

definition semantic_decision ::
  "closure_input \<Rightarrow> gate_outcome list \<Rightarrow> semantic_outcome \<Rightarrow> closure_error + closure_result" where
  "semantic_decision x gates outcome =
    (let ask = (\<lambda>reason. buildResult x ASK_USER [reason] gates [] []) in
     case outcome of
       SemanticTimedOut \<Rightarrow> ask ''SEMANTIC_VERIFICATION_TIMEOUT''
     | SemanticFailed \<Rightarrow> ask ''SEMANTIC_VERIFICATION_FAILED''
     | SemanticValue value \<Rightarrow> (case validateSemantic value (semantic_gates x) of
         None \<Rightarrow> ask ''SEMANTIC_VERIFICATION_FAILED''
       | Some semantic \<Rightarrow>
           let combined = combine gates semantic in
           case (if list_ex (\<lambda>g. go_status g = UNSATISFIED) combined
                 then buildResult x RETRY_WITH_CORRECTION [''SEMANTIC_GATE_FAILED''] combined [] []
                 else if list_ex (\<lambda>g. go_status g = UNKNOWN) combined
                 then buildResult x ASK_USER [''SEMANTIC_GATE_UNKNOWN''] combined [] []
                 else buildResult x PASS [''ALL_DECLARED_GATES_SATISFIED''] combined [] []) of
             Inr r \<Rightarrow> Inr r | Inl _ \<Rightarrow> ask ''SEMANTIC_VERIFICATION_FAILED''))"

definition verify :: "semantic_port \<Rightarrow> closure_input \<Rightarrow> closure_error + closure_result" where
  "verify semantic x =
     and_then (validate x) (\<lambda>_.
     let gates = map (\<lambda>g. deterministicGate g x) (cx_gates x);
         violations = filter (crosses x) (cx_boundaries x);
         missing = missing_knowledge x in
     if violations \<noteq> [] then
       buildResult x RETRY_WITH_CORRECTION [''DECLARED_BOUNDARY_VIOLATED''] gates [] (map cb_boundaryId violations)
     else if list_ex (\<lambda>g. go_status g = UNSATISFIED) gates then
       buildResult x RETRY_WITH_CORRECTION (''DETERMINISTIC_GATE_FAILED''
         # (if \<not> cx_claimedComplete x then [''FINAL_CONCLUSION_INCOMPLETE''] else [])) gates [] []
     else if \<not> cx_claimedComplete x then buildResult x ASK_USER [''FINAL_CONCLUSION_INCOMPLETE''] gates [] []
     else if missing \<noteq> [] then
       buildResult x RETRY_WITH_CONTEXT [''REQUIRED_KNOWLEDGE_MISSING''] gates missing []
     else if semantic_gates x = [] then buildResult x PASS [''ALL_DECLARED_GATES_SATISFIED''] gates [] []
     else case semantic of
       None \<Rightarrow> buildResult x ASK_USER [''SEMANTIC_VERIFICATION_UNAVAILABLE''] gates [] []
     | Some (available, port) \<Rightarrow>
         if \<not> available then buildResult x ASK_USER [''SEMANTIC_VERIFICATION_UNAVAILABLE''] gates [] []
         else semantic_decision x gates (port x))"

end
