(* ===== verification/StopContinuation.thy ===== *)
theory StopContinuation
  imports Closure
begin

text \<open>
  The stop hook (\<^verbatim>\<open>packages/stop-continuation/src/\<close>): whether an agent that wants to stop is sent back,
  and the continuation counters that bound how often. A handler runs in two synchronous parts, before
  and after it awaits its ports: \<open>stop_begin\<close> reads the counter and computes the outcome of the awaited
  calls, \<open>stop_finish\<close> claims a continuation. Other handlers may run in between, so a system state
  carries the handlers that have begun.

  A port call is the value it settles with, the error text it throws, or expiry of the timer it is
  raced with; it may depend on the time it is given. \<open>performance.now\<close> is a clock, read once per call.
  A counter key, the JSON text of a pair of strings, is the pair.
\<close>

section \<open>Data (types.ts)\<close>

datatype impact_level = LOW | MEDIUM | HIGH

record closure_policy =
  cp_defaultMaxContinuations :: int
  cp_highRiskMaxContinuations :: int
  cp_deterministicDeadlineMs :: int
  cp_semanticVerificationDeadlineMs :: int

record stop_hook =
  sh_hook_event_name :: string
  sh_session_id :: string
  sh_turn_id :: string
  sh_cwd :: string
  sh_stop_hook_active :: bool
  sh_last_assistant_message :: "string option"

record stop_request =
  sr_hook :: stop_hook
  sr_closureInput :: closure_input
  sr_risk :: "impact_level option"

datatype stop_status =
  STOP_PASS | CONTINUED_WITH_CONTEXT | CONTINUED_WITH_CORRECTION | STOP_ASK_USER
| HOOK_ALREADY_ACTIVE | LIMIT_REACHED | INVALID_INPUT | STOP_UNKNOWN

text \<open>Of the output \<open>{ decision: "block", reason }\<close> the reason is kept.\<close>

record stop_result =
  sp_status :: stop_status
  sp_decision :: "closure_decision option"
  sp_continuationCount :: int
  sp_output :: "string option"
  sp_diagnostic :: "string option"

text \<open>A knowledge expansion delta, with its JSON text.\<close>

record delta_item =
  dl_id :: string
  dl_toDetailLevel :: detail_level
  dl_json :: string

record context_delta =
  cd_traceId :: string
  cd_items :: "delta_item list"

type_synonym counter_key = "string \<times> string"

section \<open>Counters (counter.ts and active-knowledge-runtime/src/closure-runtime.ts)\<close>

type_synonym memory_counter = "counter_key \<rightharpoonup> int"

definition memory_get :: "memory_counter \<Rightarrow> counter_key \<Rightarrow> int \<times> memory_counter" where
  "memory_get counts k = ((case counts k of None \<Rightarrow> 0 | Some n \<Rightarrow> n), counts)"

definition memory_claim :: "memory_counter \<Rightarrow> counter_key \<Rightarrow> int \<Rightarrow> bool \<times> memory_counter" where
  "memory_claim counts k maximum =
    (let current = fst (memory_get counts k) in
     if current \<ge> maximum then (False, counts) else (True, counts(k \<mapsto> current + 1)))"

text \<open>The audit-backed counter starts from the closure runs kept for the session, newest first.\<close>

record closure_run =
  cr_sessionId :: string
  cr_turnId :: string
  cr_continuationCount :: int

record audit_counter =
  ac_runs :: "closure_run list"
  ac_counts :: memory_counter

definition persisted_count :: "closure_run list \<Rightarrow> counter_key \<Rightarrow> int" where
  "persisted_count runs k = foldl (\<lambda>m r. max m (cr_continuationCount r)) 0
     (filter (\<lambda>r. cr_turnId r = snd k) (take 100 (filter (\<lambda>r. cr_sessionId r = fst k) runs)))"

definition audit_get :: "audit_counter \<Rightarrow> counter_key \<Rightarrow> int \<times> audit_counter" where
  "audit_get s k = (case ac_counts s k of
     Some n \<Rightarrow> (n, s)
   | None \<Rightarrow> let n = persisted_count (ac_runs s) k in (n, s\<lparr>ac_counts := (ac_counts s)(k \<mapsto> n)\<rparr>))"

definition audit_claim :: "audit_counter \<Rightarrow> counter_key \<Rightarrow> int \<Rightarrow> bool \<times> audit_counter" where
  "audit_claim s k maximum =
    (let (current, s') = audit_get s k in
     if current \<ge> maximum then (False, s')
     else (True, s'\<lparr>ac_counts := (ac_counts s')(k \<mapsto> current + 1)\<rparr>))"

section \<open>Awaiting a port (service.ts)\<close>

datatype 'a settled = Settled 'a | Threw string | Expired

definition safe_char :: "char \<Rightarrow> char" where
  "safe_char c = (if plain_char c then c else CHR '' '')"

definition safeError :: "string \<Rightarrow> string" where
  "safeError e = take 500 (map safe_char e)"

definition deadline :: "(int \<Rightarrow> 'a settled) \<Rightarrow> int \<Rightarrow> string + 'a" where
  "deadline operation timeoutMs =
    (if timeoutMs < 1 then Inl ''Error: Stop Hook deadline exhausted''
     else case operation timeoutMs of
       Settled x \<Rightarrow> Inr x
     | Threw e \<Rightarrow> Inl e
     | Expired \<Rightarrow> Inl ''Error: Stop Hook operation timed out'')"

section \<open>Validation\<close>

definition validInput :: "stop_request \<Rightarrow> bool" where
  "validInput r \<longleftrightarrow> (let hook = sr_hook r in
     sh_hook_event_name hook = ''Stop'' \<and> valid_text 500 (sh_session_id hook)
   \<and> valid_text 500 (sh_turn_id hook) \<and> valid_text 4096 (sh_cwd hook)
   \<and> (case sh_last_assistant_message hook of None \<Rightarrow> True
      | Some m \<Rightarrow> length m \<le> 100000 \<and> CHR 0x00 \<notin> set m)
   \<and> cx_taskId (sr_closureInput r) = sh_turn_id hook)"

definition target_shape_valid :: "closure_result \<Rightarrow> bool" where
  "target_shape_valid r = (let actualUnmet = unsatisfied_ids (cv_gateResults r) in
    case cv_decision r of
      PASS \<Rightarrow> cv_missingKnowledgeIds r = [] \<and> actualUnmet = [] \<and> cv_violatedBoundaryIds r = []
        \<and> list_all (\<lambda>g. go_status g = SATISFIED) (cv_gateResults r)
    | RETRY_WITH_CONTEXT \<Rightarrow> cv_missingKnowledgeIds r \<noteq> [] \<and> actualUnmet = [] \<and> cv_violatedBoundaryIds r = []
    | RETRY_WITH_CORRECTION \<Rightarrow> cv_missingKnowledgeIds r = []
        \<and> (cv_unmetGateIds r \<noteq> [] \<or> cv_violatedBoundaryIds r \<noteq> [])
    | ASK_USER \<Rightarrow> True)"

definition validVerification :: "closure_result \<Rightarrow> closure_input \<Rightarrow> bool" where
  "validVerification r x \<longleftrightarrow>
    (let gateIds = map cg_gateId (cx_gates x); boundaryIds = map cb_boundaryId (cx_boundaries x);
         knowledgeIds = map kq_knowledgeId (cx_requiredKnowledge x);
         resultGateIds = map go_gateId (cv_gateResults r);
         actualUnmet = unsatisfied_ids (cv_gateResults r) in
     cv_verificationId r = cx_verificationId x \<and> cv_taskId r = cx_taskId x
   \<and> distinct resultGateIds \<and> distinct (cv_missingKnowledgeIds r) \<and> distinct (cv_unmetGateIds r)
   \<and> distinct (cv_violatedBoundaryIds r)
   \<and> length resultGateIds = length gateIds \<and> list_all (\<lambda>i. i \<in> set resultGateIds) gateIds
   \<and> list_all (\<lambda>i. i \<in> set knowledgeIds) (cv_missingKnowledgeIds r)
   \<and> list_all (\<lambda>i. i \<in> set gateIds) (cv_unmetGateIds r)
   \<and> list_all (\<lambda>i. i \<in> set boundaryIds) (cv_violatedBoundaryIds r)
   \<and> length (cv_unmetGateIds r) = length actualUnmet
   \<and> list_all (\<lambda>i. i \<in> set (cv_unmetGateIds r)) actualUnmet
   \<and> target_shape_valid r)"

section \<open>What the agent is told\<close>

definition optional_field :: "string \<Rightarrow> string option \<Rightarrow> (string \<times> string) list" where
  "optional_field k v = (case v of None \<Rightarrow> [] | Some s \<Rightarrow> [(k, json_quote s)])"

definition correctionReason :: "closure_result \<Rightarrow> closure_input \<Rightarrow> string" where
  "correctionReason r x = join_with [CHR 0x0A]
    [''Continue only to correct the declared unmet gates or boundaries. Do not expand the original task.'',
     json_object [(''closureVerificationId'', json_quote (cv_verificationId r)),
       (''unmetGates'', json_array (map (\<lambda>i. json_object ((''gateId'', json_quote i)
           # optional_field ''description'' (map_option cg_description (last_entry cg_gateId (cx_gates x) i))))
          (cv_unmetGateIds r))),
       (''violatedBoundaries'', json_array (map (\<lambda>i. json_object ((''boundaryId'', json_quote i)
           # optional_field ''pathPrefix'' (map_option cb_pathPrefix (last_entry cb_boundaryId (cx_boundaries x) i))))
          (cv_violatedBoundaryIds r))),
       (''reasonCodes'', json_array (map json_quote (cv_reasonCodes r)))]]"

definition contextReason :: "closure_result \<Rightarrow> context_delta \<Rightarrow> string" where
  "contextReason r d = join_with [CHR 0x0A]
    [''Continue using only this requested knowledge delta. Do not repeat completed work or expand the original task.'',
     json_object [(''closureVerificationId'', json_quote (cv_verificationId r)),
       (''retrievalTraceId'', json_quote (cd_traceId d)),
       (''requestedKnowledgeIds'', json_array (map json_quote (cv_missingKnowledgeIds r))),
       (''knowledgeDelta'', json_array (map dl_json (cd_items d)))]]"

section \<open>The handler\<close>

record stop_env =
  se_deterministic :: "closure_input \<Rightarrow> int \<Rightarrow> closure_result settled"
  se_semantic :: "(closure_input \<Rightarrow> int \<Rightarrow> closure_result settled) option"
  se_contextDelta :: "string list \<Rightarrow> int \<Rightarrow> context_delta settled"
  se_clock :: "nat \<Rightarrow> rat"

definition outer_timeout_ok :: "int \<Rightarrow> bool" where
  "outer_timeout_ok ms \<longleftrightarrow> safe_integer ms \<and> \<not> (ms < 1 \<or> ms > 600000)"

definition remaining :: "int \<Rightarrow> stop_env \<Rightarrow> nat \<Rightarrow> int" where
  "remaining outer env n = \<lfloor>of_int outer - (se_clock env n - se_clock env 0)\<rfloor>"

definition maximum_of :: "closure_policy \<Rightarrow> stop_request \<Rightarrow> int" where
  "maximum_of policy r = (if sr_risk r = Some HIGH then cp_highRiskMaxContinuations policy
     else cp_defaultMaxContinuations policy)"

text \<open>The verification that counts, and the number of clock readings taken.\<close>

definition obtain_verification ::
  "closure_policy \<Rightarrow> int \<Rightarrow> stop_env \<Rightarrow> closure_input \<Rightarrow> string + closure_result \<times> nat" where
  "obtain_verification policy outer env x =
     and_then (deadline (se_deterministic env x) (min (cp_deterministicDeadlineMs policy) (remaining outer env 1))) (\<lambda>v.
     and_then (ensure (validVerification v x) ''Error: closure verifier returned expanded or mismatched targets'') (\<lambda>_.
     case (if cv_decision v = ASK_USER \<and> ''SEMANTIC_VERIFICATION_UNAVAILABLE'' \<in> set (cv_reasonCodes v)
           then se_semantic env else None) of
       None \<Rightarrow> Inr (v, 2)
     | Some semantic \<Rightarrow>
         and_then (deadline (semantic x) (min (cp_semanticVerificationDeadlineMs policy) (remaining outer env 2))) (\<lambda>w.
         and_then (ensure (validVerification w x)
           ''Error: semantic closure verifier returned expanded or mismatched targets'') (\<lambda>_. Inr (w, 3)))))"

definition delta_covers :: "closure_result \<Rightarrow> context_delta \<Rightarrow> bool" where
  "delta_covers r d = (let returned = map dl_id (cd_items d) in
     \<not> (cv_missingKnowledgeIds r = [] \<or> \<not> distinct returned
       \<or> list_ex (\<lambda>i. i \<notin> set returned) (cv_missingKnowledgeIds r)
       \<or> list_ex (\<lambda>i. dl_id i \<notin> set (cv_missingKnowledgeIds r) \<or> dl_toDetailLevel i \<noteq> L3_EVIDENCED) (cd_items d)))"

datatype stop_outcome =
  Ends stop_status closure_decision
| Continues stop_status closure_decision string

definition decide_stop ::
  "closure_policy \<Rightarrow> int \<Rightarrow> stop_env \<Rightarrow> closure_input \<Rightarrow> string + stop_outcome" where
  "decide_stop policy outer env x =
     and_then (obtain_verification policy outer env x) (\<lambda>(v, n).
     case cv_decision v of
       PASS \<Rightarrow> Inr (Ends STOP_PASS PASS)
     | ASK_USER \<Rightarrow> Inr (Ends STOP_ASK_USER ASK_USER)
     | RETRY_WITH_CONTEXT \<Rightarrow>
         and_then (deadline (se_contextDelta env (cv_missingKnowledgeIds v)) (remaining outer env n)) (\<lambda>d.
         and_then (ensure (valid_text 500 (cd_traceId d)) ''Error: context delta traceId is invalid'') (\<lambda>_.
         and_then (ensure (delta_covers v d)
           ''Error: context delta does not exactly cover requested knowledge IDs'') (\<lambda>_.
         Inr (Continues CONTINUED_WITH_CONTEXT RETRY_WITH_CONTEXT (contextReason v d)))))
     | RETRY_WITH_CORRECTION \<Rightarrow>
         and_then (ensure (\<not> (cv_unmetGateIds v = [] \<and> cv_violatedBoundaryIds v = []))
           ''Error: correction decision contains no declared correction target'') (\<lambda>_.
         Inr (Continues CONTINUED_WITH_CORRECTION RETRY_WITH_CORRECTION (correctionReason v x))))"

definition plain_stop :: "stop_status \<Rightarrow> int \<Rightarrow> stop_result" where
  "plain_stop status count = \<lparr>sp_status = status, sp_decision = None, sp_continuationCount = count,
     sp_output = None, sp_diagnostic = None\<rparr>"

record pending_stop =
  pn_key :: counter_key
  pn_count :: int
  pn_maximum :: int
  pn_outcome :: "string + stop_outcome"

definition stop_key :: "stop_request \<Rightarrow> counter_key" where
  "stop_key r = (sh_session_id (sr_hook r), sh_turn_id (sr_hook r))"

definition stop_begin ::
  "('s \<Rightarrow> counter_key \<Rightarrow> int \<times> 's) \<Rightarrow> closure_policy \<Rightarrow> int \<Rightarrow> stop_env \<Rightarrow> stop_request \<Rightarrow> 's
     \<Rightarrow> (stop_result + pending_stop) \<times> 's" where
  "stop_begin get policy outer env r s =
    (let (count, s') = get s (stop_key r) in
     (if \<not> validInput r then Inl (plain_stop INVALID_INPUT count)
      else if sh_stop_hook_active (sr_hook r) then Inl (plain_stop HOOK_ALREADY_ACTIVE count)
      else if count \<ge> maximum_of policy r then Inl (plain_stop LIMIT_REACHED count)
      else Inr \<lparr>pn_key = stop_key r, pn_count = count, pn_maximum = maximum_of policy r,
        pn_outcome = decide_stop policy outer env (sr_closureInput r)\<rparr>, s'))"

definition stop_finish ::
  "('s \<Rightarrow> counter_key \<Rightarrow> int \<times> 's) \<Rightarrow> ('s \<Rightarrow> counter_key \<Rightarrow> int \<Rightarrow> bool \<times> 's)
     \<Rightarrow> pending_stop \<Rightarrow> 's \<Rightarrow> stop_result \<times> 's" where
  "stop_finish get claim p s = (case pn_outcome p of
     Inl e \<Rightarrow> (let (count, s') = get s (pn_key p) in
       ((plain_stop STOP_UNKNOWN count)\<lparr>sp_diagnostic := Some (safeError e)\<rparr>, s'))
   | Inr (Ends status decision) \<Rightarrow> ((plain_stop status (pn_count p))\<lparr>sp_decision := Some decision\<rparr>, s)
   | Inr (Continues status decision reason) \<Rightarrow>
       (let (claimed, s') = claim s (pn_key p) (pn_maximum p); (count, s'') = get s' (pn_key p) in
        if \<not> claimed then ((plain_stop LIMIT_REACHED count)\<lparr>sp_decision := Some decision\<rparr>, s'')
        else ((plain_stop status count)\<lparr>sp_decision := Some decision, sp_output := Some reason\<rparr>, s'')))"

definition handle_stop ::
  "('s \<Rightarrow> counter_key \<Rightarrow> int \<times> 's) \<Rightarrow> ('s \<Rightarrow> counter_key \<Rightarrow> int \<Rightarrow> bool \<times> 's) \<Rightarrow> closure_policy \<Rightarrow> int
     \<Rightarrow> stop_env \<Rightarrow> stop_request \<Rightarrow> 's \<Rightarrow> stop_result \<times> 's" where
  "handle_stop get claim policy outer env r s = (case stop_begin get policy outer env r s of
     (Inl result, s') \<Rightarrow> (result, s') | (Inr p, s') \<Rightarrow> stop_finish get claim p s')"

definition serializeStopHookResult :: "stop_result \<Rightarrow> string" where
  "serializeStopHookResult r = (case sp_output r of
     None \<Rightarrow> ''{}''
   | Some reason \<Rightarrow> json_object [(''decision'', json_quote ''block''), (''reason'', json_quote reason)])"

section \<open>Concurrent handlers\<close>

record 's stop_system =
  sy_counter :: 's
  sy_pending :: "pending_stop list"
  sy_results :: "(counter_key \<times> stop_result) list"

inductive stop_step ::
  "('s \<Rightarrow> counter_key \<Rightarrow> int \<times> 's) \<Rightarrow> ('s \<Rightarrow> counter_key \<Rightarrow> int \<Rightarrow> bool \<times> 's) \<Rightarrow> closure_policy \<Rightarrow> int
     \<Rightarrow> 's stop_system \<Rightarrow> 's stop_system \<Rightarrow> bool"
  for get claim policy outer where
  answers: "stop_begin get policy outer env r s = (Inl result, s') \<Longrightarrow>
     stop_step get claim policy outer \<lparr>sy_counter = s, sy_pending = ps, sy_results = rs\<rparr>
       \<lparr>sy_counter = s', sy_pending = ps, sy_results = rs @ [(stop_key r, result)]\<rparr>"
| suspends: "stop_begin get policy outer env r s = (Inr p, s') \<Longrightarrow>
     stop_step get claim policy outer \<lparr>sy_counter = s, sy_pending = ps, sy_results = rs\<rparr>
       \<lparr>sy_counter = s', sy_pending = p # ps, sy_results = rs\<rparr>"
| resumes: "stop_finish get claim p s = (result, s') \<Longrightarrow>
     stop_step get claim policy outer \<lparr>sy_counter = s, sy_pending = ps @ p # qs, sy_results = rs\<rparr>
       \<lparr>sy_counter = s', sy_pending = ps @ qs, sy_results = rs @ [(pn_key p, result)]\<rparr>"

inductive_cases stop_stepE: "stop_step get claim policy outer y z"

definition stop_runs ::
  "('s \<Rightarrow> counter_key \<Rightarrow> int \<times> 's) \<Rightarrow> ('s \<Rightarrow> counter_key \<Rightarrow> int \<Rightarrow> bool \<times> 's) \<Rightarrow> closure_policy \<Rightarrow> int
     \<Rightarrow> 's \<Rightarrow> 's stop_system \<Rightarrow> bool" where
  "stop_runs get claim policy outer s0 y \<longleftrightarrow>
     (stop_step get claim policy outer)\<^sup>*\<^sup>* \<lparr>sy_counter = s0, sy_pending = [], sy_results = []\<rparr> y"

definition blocks :: "counter_key \<Rightarrow> (counter_key \<times> stop_result) list \<Rightarrow> nat" where
  "blocks k rs = length (filter (\<lambda>(k', r). k' = k \<and> sp_output r \<noteq> None) rs)"

section \<open>The interface of a counter\<close>

text \<open>
  \<open>count\<close> is what a counter state says of a key. Reading does not change it; a claim below the maximum
  raises that key alone by one, and a claim at the maximum is refused and changes nothing.
\<close>

locale continuation_counter =
  fixes get :: "'s \<Rightarrow> counter_key \<Rightarrow> int \<times> 's"
    and claim :: "'s \<Rightarrow> counter_key \<Rightarrow> int \<Rightarrow> bool \<times> 's"
    and count :: "'s \<Rightarrow> counter_key \<Rightarrow> int"
  assumes get_count: "fst (get s k) = count s k"
    and get_frame: "count (snd (get s k)) = count s"
    and claim_refused: "m \<le> count s k \<Longrightarrow> \<not> fst (claim s k m) \<and> count (snd (claim s k m)) = count s"
    and claim_granted: "count s k < m \<Longrightarrow>
      fst (claim s k m) \<and> count (snd (claim s k m)) = (count s)(k := count s k + 1)"
begin

lemma begin_frame: "stop_begin get policy outer env r s = (x, s') \<Longrightarrow> count s' = count s"
  using get_frame[of s "stop_key r"] by (auto simp: stop_begin_def Let_def split: prod.splits)

lemma begin_answer: "stop_begin get policy outer env r s = (Inl result, s') \<Longrightarrow> sp_output result = None"
  by (auto simp: stop_begin_def plain_stop_def Let_def split: prod.splits if_splits)

lemma begin_maximum:
  "stop_begin get policy outer env r s = (Inr p, s') \<Longrightarrow>
     pn_key p = stop_key r \<and> pn_maximum p = maximum_of policy r"
  by (auto simp: stop_begin_def Let_def split: prod.splits if_splits)

lemma finish_cases:
  assumes "stop_finish get claim p s = (result, s')"
  shows "sp_output result = None \<and> count s' = count s
    \<or> sp_output result \<noteq> None \<and> count s (pn_key p) < pn_maximum p
      \<and> count s' = (count s)(pn_key p := count s (pn_key p) + 1)
      \<and> sp_continuationCount result = count s' (pn_key p)"
proof (cases "pn_outcome p")
  case (Inl e)
  then show ?thesis using assms get_frame[of s "pn_key p"]
    by (auto simp: stop_finish_def plain_stop_def split: prod.splits)
next
  case (Inr o')
  show ?thesis
  proof (cases o')
    case (Ends st d)
    then show ?thesis using assms Inr by (auto simp: stop_finish_def plain_stop_def)
  next
    case (Continues st d reason)
    obtain b s1 where c: "claim s (pn_key p) (pn_maximum p) = (b, s1)" by fastforce
    obtain n s2 where g: "get s1 (pn_key p) = (n, s2)" by fastforce
    have n: "n = count s1 (pn_key p)" "count s2 = count s1"
      using g get_count[of s1 "pn_key p"] get_frame[of s1 "pn_key p"] by auto
    show ?thesis
    proof (cases "count s (pn_key p) < pn_maximum p")
      case True
      then show ?thesis using claim_granted[OF True] assms Inr Continues c g n
        by (auto simp: stop_finish_def plain_stop_def)
    next
      case False
      then show ?thesis using claim_refused[of "pn_maximum p" s "pn_key p"] assms Inr Continues c g n
        by (auto simp: stop_finish_def plain_stop_def)
    qed
  qed
qed

text \<open>
  The invariant of a run: the blocks of each key are the growth of its count, and no count grows past
  the larger of the two maxima.
\<close>

definition run_inv :: "closure_policy \<Rightarrow> 's \<Rightarrow> 's stop_system \<Rightarrow> bool" where
  "run_inv policy s0 y \<longleftrightarrow>
     (\<forall>k. count (sy_counter y) k = count s0 k + int (blocks k (sy_results y)))
   \<and> (\<forall>k. count (sy_counter y) k \<le> max (count s0 k)
        (max (cp_defaultMaxContinuations policy) (cp_highRiskMaxContinuations policy)))
   \<and> (\<forall>p \<in> set (sy_pending y). pn_maximum p
        \<le> max (cp_defaultMaxContinuations policy) (cp_highRiskMaxContinuations policy))"

lemma blocks_append:
  "blocks k (rs @ [(k', r)]) = blocks k rs + (if k' = k \<and> sp_output r \<noteq> None then 1 else 0)"
  by (simp add: blocks_def)

lemma maximum_le:
  "maximum_of policy r \<le> max (cp_defaultMaxContinuations policy) (cp_highRiskMaxContinuations policy)"
  by (simp add: maximum_of_def)

lemma run_step_inv:
  assumes "stop_step get claim policy outer y z" and "run_inv policy s0 y"
  shows "run_inv policy s0 z"
  using assms
proof (cases rule: stop_step.cases)
  case (answers env r s result s' ps rs)
  then show ?thesis using assms(2) begin_frame[OF answers(3)] begin_answer[OF answers(3)]
    by (simp add: run_inv_def blocks_append del: split_paired_All) metis
next
  case (suspends env r s p s' ps rs)
  then show ?thesis using assms(2) begin_frame[OF suspends(3)] begin_maximum[OF suspends(3)]
      maximum_le[of policy r]
    by (simp add: run_inv_def del: split_paired_All) metis
next
  case (resumes p s result s' ps qs rs)
  have m: "pn_maximum p \<le> max (cp_defaultMaxContinuations policy) (cp_highRiskMaxContinuations policy)"
    using assms(2) resumes(1) by (simp add: run_inv_def)
  from finish_cases[OF resumes(3)] show ?thesis
  proof
    assume "sp_output result = None \<and> count s' = count s"
    then show ?thesis using assms(2) resumes by (auto simp: run_inv_def blocks_append)
  next
    assume c: "sp_output result \<noteq> None \<and> count s (pn_key p) < pn_maximum p
      \<and> count s' = (count s)(pn_key p := count s (pn_key p) + 1)
      \<and> sp_continuationCount result = count s' (pn_key p)"
    note inv = assms(2)[unfolded run_inv_def resumes(1), simplified stop_system.simps]
    have e: "count s k = count s0 k + int (blocks k rs)" for k using inv by metis
    have l: "count s k \<le> max (count s0 k) (max (cp_defaultMaxContinuations policy) (cp_highRiskMaxContinuations policy))" for k
      using inv by metis
    have e': "count s' k = count s0 k + int (blocks k (rs @ [(pn_key p, result)]))" for k
      using c e[of k] by (auto simp: blocks_append)
    have l': "count s' k \<le> max (count s0 k) (max (cp_defaultMaxContinuations policy) (cp_highRiskMaxContinuations policy))" for k
      using c m l[of k] by auto
    show ?thesis using inv unfolding run_inv_def resumes(2) stop_system.simps
      by (intro conjI allI e' l') simp
  qed
qed

lemma runs_inv: "stop_runs get claim policy outer s0 y \<Longrightarrow> run_inv policy s0 y"
  unfolding stop_runs_def
  by (induction rule: rtranclp_induct) (simp add: run_inv_def blocks_def, rule run_step_inv)

lemma blocks_bounded:
  assumes "stop_runs get claim policy outer s0 y"
  shows "count s0 k + int (blocks k (sy_results y)) \<le> max (count s0 k)
    (max (cp_defaultMaxContinuations policy) (cp_highRiskMaxContinuations policy))"
  using runs_inv[OF assms] unfolding run_inv_def by metis

lemma handle_cases:
  assumes "handle_stop get claim policy outer env r s = (result, s')"
  shows "sp_output result = None \<and> count s' = count s
    \<or> sp_output result \<noteq> None \<and> count s' = (count s)(stop_key r := count s (stop_key r) + 1)
      \<and> count s (stop_key r) < maximum_of policy r \<and> sp_continuationCount result = count s' (stop_key r)"
proof -
  obtain b s1 where b: "stop_begin get policy outer env r s = (b, s1)" by fastforce
  note frame = begin_frame[OF b]
  show ?thesis
  proof (cases b)
    case (Inl x)
    then show ?thesis using assms b frame begin_answer by (auto simp: handle_stop_def)
  next
    case (Inr p)
    then have "stop_finish get claim p s1 = (result, s')" using assms b by (simp add: handle_stop_def)
    then show ?thesis using finish_cases[of p s1 result s'] frame begin_maximum[of policy outer env r s p s1] b Inr by auto
  qed
qed

end

definition memory_count :: "memory_counter \<Rightarrow> counter_key \<Rightarrow> int" where
  "memory_count counts k = (case counts k of None \<Rightarrow> 0 | Some n \<Rightarrow> n)"

definition audit_count :: "audit_counter \<Rightarrow> counter_key \<Rightarrow> int" where
  "audit_count s k = (case ac_counts s k of None \<Rightarrow> persisted_count (ac_runs s) k | Some n \<Rightarrow> n)"

interpretation memory: continuation_counter memory_get memory_claim memory_count
  by unfold_locales (auto simp: memory_get_def memory_claim_def memory_count_def Let_def split: option.splits)

interpretation audited: continuation_counter audit_get audit_claim audit_count
  by unfold_locales (auto simp: audit_get_def audit_claim_def audit_count_def Let_def fun_eq_iff split: option.splits)

end
