(* ===== verification/Interaction.thy ===== *)
theory Interaction
  imports StopContinuation EvidencePolicy "HOL-Library.Multiset"
begin

text \<open>
  Asking the user (\<^verbatim>\<open>packages/interaction-policy/src/\<close>, \<^verbatim>\<open>packages/domain/src/confirmation.ts\<close>): from
  what came up in a turn and the questions already asked, at most one question, and a safe default for
  everything else. Text that holds more than Latin-1 (labels, questions) is kept as its UTF-16 code
  units. \<open>sha\<close> is the hexadecimal SHA-256 of a text, given by its code units; freezing is not modelled, and checks of a value
  against its own enumeration hold by typing.
\<close>

section \<open>Data (confirmation.ts and types.ts)\<close>

type_synonym utf16 = "nat list"

definition units :: "string \<Rightarrow> utf16" where
  "units s = map of_char s"

datatype confirmation_kind =
  KNOWLEDGE_CONFLICT | SCOPE_PROMOTION | RULE_OVERRIDE | CLOSURE_ASK_USER | LOW_IMPACT_UNKNOWN

datatype confirmation_effect =
  KEEP_PROPOSED | KEEP_CURRENT | REJECT_CANDIDATE | ACCEPT_CANDIDATE | KEEP_PROJECT | PROMOTE_GLOBAL
| KEEP_RULE | APPLY_OVERRIDE | STOP_WITHOUT_EXPANSION | CONTINUE_ORIGINAL_SCOPE

fun SAFE_CONFIRMATION_EFFECT_BY_KIND :: "confirmation_kind \<Rightarrow> confirmation_effect option" where
  "SAFE_CONFIRMATION_EFFECT_BY_KIND KNOWLEDGE_CONFLICT = Some KEEP_PROPOSED"
| "SAFE_CONFIRMATION_EFFECT_BY_KIND SCOPE_PROMOTION = Some KEEP_PROJECT"
| "SAFE_CONFIRMATION_EFFECT_BY_KIND RULE_OVERRIDE = Some KEEP_RULE"
| "SAFE_CONFIRMATION_EFFECT_BY_KIND CLOSURE_ASK_USER = Some STOP_WITHOUT_EXPANSION"
| "SAFE_CONFIRMATION_EFFECT_BY_KIND LOW_IMPACT_UNKNOWN = None"

fun CONFIRMATION_EFFECTS_BY_KIND :: "confirmation_kind \<Rightarrow> confirmation_effect list" where
  "CONFIRMATION_EFFECTS_BY_KIND KNOWLEDGE_CONFLICT = [KEEP_PROPOSED, REJECT_CANDIDATE, ACCEPT_CANDIDATE]"
| "CONFIRMATION_EFFECTS_BY_KIND SCOPE_PROMOTION = [KEEP_PROJECT, PROMOTE_GLOBAL]"
| "CONFIRMATION_EFFECTS_BY_KIND RULE_OVERRIDE = [KEEP_RULE, APPLY_OVERRIDE]"
| "CONFIRMATION_EFFECTS_BY_KIND CLOSURE_ASK_USER = [STOP_WITHOUT_EXPANSION, CONTINUE_ORIGINAL_SCOPE]"
| "CONFIRMATION_EFFECTS_BY_KIND LOW_IMPACT_UNKNOWN = []"

record confirmation_option =
  op_optionId :: string
  op_label :: utf16
  op_effect :: confirmation_effect

record confirmation_request =
  cq_confirmationId :: string
  cq_sessionId :: string
  cq_turnId :: string
  cq_turnOrdinal :: int
  cq_triggerId :: string
  cq_kind :: confirmation_kind
  cq_subjectIds :: "string list"
  cq_question :: utf16
  cq_options :: "confirmation_option list"
  cq_safeDefaultOptionId :: string
  cq_createdAt :: timestamp

record interaction_trigger =
  it_triggerId :: string
  it_sessionId :: string
  it_turnId :: string
  it_turnOrdinal :: int
  it_kind :: confirmation_kind
  it_impact :: impact_level
  it_irreversible :: bool
  it_subjectIds :: "string list"
  it_summary :: string

record history_entry =
  he_confirmationId :: string
  he_triggerId :: string
  he_sessionId :: string
  he_turnId :: string
  he_turnOrdinal :: int

text \<open>The policy is the configuration's verification policy, of which the interaction part is read.\<close>

record interaction_input =
  ii_sessionId :: string
  ii_turnId :: string
  ii_turnOrdinal :: int
  ii_now :: timestamp
  ii_triggers :: "interaction_trigger list"
  ii_history :: "history_entry list"
  ii_policy :: verification_policy

datatype default_reason =
  BY_LOW_IMPACT | QUESTION_BUDGET_EXHAUSTED | LOWER_PRIORITY_DEFERRED | TRIGGER_ALREADY_ASKED

record safe_default =
  sd_triggerId :: string
  sd_subjectIds :: "string list"
  sd_effect :: confirmation_effect
  sd_reasonCode :: default_reason

datatype interaction_action = ASK_NOTHING | ASK_ONE | DEFER

record interaction_decision =
  de_action :: interaction_action
  de_request :: "confirmation_request option"
  de_defaults :: "safe_default list"
  de_deferredTriggerIds :: "string list"
  de_reasonCodes :: "string list"

section \<open>Validation (policy.ts)\<close>

definition trigger_ok :: "interaction_input \<Rightarrow> interaction_trigger \<Rightarrow> bool" where
  "trigger_ok i t \<longleftrightarrow> \<not> (\<not> safe_id (it_triggerId t)
     \<or> it_sessionId t \<noteq> ii_sessionId i \<or> it_turnId t \<noteq> ii_turnId i \<or> it_turnOrdinal t \<noteq> ii_turnOrdinal i
     \<or> \<not> valid_text 500 (it_summary t) \<or> length (it_subjectIds t) < 1 \<or> length (it_subjectIds t) > 20
     \<or> \<not> distinct (it_subjectIds t) \<or> \<not> list_all safe_id (it_subjectIds t)
     \<or> it_kind t = LOW_IMPACT_UNKNOWN \<and> (it_impact t \<noteq> LOW \<or> it_irreversible t))"

definition history_ok :: "interaction_input \<Rightarrow> history_entry \<Rightarrow> bool" where
  "history_ok i h \<longleftrightarrow> safe_id (he_confirmationId h) \<and> safe_id (he_triggerId h)
     \<and> he_sessionId h = ii_sessionId i \<and> safe_id (he_turnId h)
     \<and> safe_integer (he_turnOrdinal h) \<and> he_turnOrdinal h \<ge> 0 \<and> he_turnOrdinal h \<le> ii_turnOrdinal i"

definition valid_interaction :: "interaction_input \<Rightarrow> bool" where
  "valid_interaction i \<longleftrightarrow>
     \<not> (\<not> safe_id (ii_sessionId i) \<or> \<not> safe_id (ii_turnId i)
       \<or> \<not> safe_integer (ii_turnOrdinal i) \<or> ii_turnOrdinal i < 0
       \<or> \<not> canonical_date (ii_now i)
       \<or> length (ii_triggers i) > 100 \<or> length (ii_history i) > 10000
       \<or> vo_maxQuestionsPerTurn (ii_policy i) \<noteq> 1 \<or> vo_questionWindowTurns (ii_policy i) \<noteq> 20
       \<or> vo_defaultScope (ii_policy i) \<noteq> PROJECT \<or> vo_unansweredBehavior (ii_policy i) \<noteq> ''SAFE_DEFAULT''
       \<or> vo_createReviewTasks (ii_policy i))
   \<and> distinct (map it_triggerId (ii_triggers i)) \<and> distinct (map he_confirmationId (ii_history i))
   \<and> list_all (trigger_ok i) (ii_triggers i) \<and> list_all (history_ok i) (ii_history i)"

section \<open>One question (policy.ts)\<close>

definition mk_option :: "string \<Rightarrow> utf16 \<Rightarrow> confirmation_effect \<Rightarrow> confirmation_option" where
  "mk_option i l e = \<lparr>op_optionId = i, op_label = l, op_effect = e\<rparr>"

fun OPTIONS :: "confirmation_kind \<Rightarrow> confirmation_option list" where
  "OPTIONS KNOWLEDGE_CONFLICT =
     [mk_option ''keep-proposed''
        [20445, 25345, 20505, 36873, 65292, 19981, 35206, 30422, 24403, 21069, 32467, 35770] KEEP_PROPOSED,
      mk_option ''reject-candidate''
        [26126, 30830, 25298, 32477, 35813, 20505, 36873] REJECT_CANDIDATE,
      mk_option ''accept-candidate''
        [37319, 29992, 35813, 20505, 36873] ACCEPT_CANDIDATE]"
| "OPTIONS SCOPE_PROMOTION =
     [mk_option ''keep-project''
        [20165, 20445, 30041, 22312, 24403, 21069, 39033, 30446] KEEP_PROJECT,
      mk_option ''promote-global''
        [25552, 21319, 20026, 20840, 23616, 30693, 35782] PROMOTE_GLOBAL]"
| "OPTIONS RULE_OVERRIDE =
     [mk_option ''keep-rule''
        [20445, 30041, 29616, 26377, 35268, 21017] KEEP_RULE,
      mk_option ''apply-override''
        [24212, 29992, 26412, 27425, 35206, 30422] APPLY_OVERRIDE]"
| "OPTIONS CLOSURE_ASK_USER =
     [mk_option ''stop-safe''
        [20572, 27490, 19988, 19981, 25193, 22823, 21407, 20219, 21153] STOP_WITHOUT_EXPANSION,
      mk_option ''continue-original''
        [21482, 25353, 21407, 20219, 21153, 33539, 22260, 32487, 32493] CONTINUE_ORIGINAL_SCOPE]"
| "OPTIONS LOW_IMPACT_UNKNOWN = []"

fun safeEffect :: "confirmation_kind \<Rightarrow> confirmation_effect" where
  "safeEffect KNOWLEDGE_CONFLICT = KEEP_PROPOSED"
| "safeEffect LOW_IMPACT_UNKNOWN = KEEP_PROPOSED"
| "safeEffect SCOPE_PROMOTION = KEEP_PROJECT"
| "safeEffect RULE_OVERRIDE = KEEP_RULE"
| "safeEffect CLOSURE_ASK_USER = STOP_WITHOUT_EXPANSION"

datatype interaction_error = LOW_IMPACT_QUESTION | NO_SAFE_DEFAULT | ELIGIBLE_EMPTY

text \<open>The sentence around the quoted summary.\<close>

fun question_parts :: "confirmation_kind \<Rightarrow> (utf16 \<times> utf16) option" where
  "question_parts KNOWLEDGE_CONFLICT = Some
     ([20505, 36873, 30693, 35782, 32],
      [32, 19982, 24403, 21069, 32467, 35770, 20914, 31361, 65292, 35201, 26242, 19981, 22788,
      29702, 12289, 26126, 30830, 25298, 32477, 36824, 26159, 37319, 29992, 23427, 65311])"
| "question_parts SCOPE_PROMOTION = Some
     ([26159, 21542, 23558, 32],
      [32, 20174, 24403, 21069, 39033, 30446, 33539, 22260, 25552, 21319, 20026, 20840, 23616,
      30693, 35782, 65311])"
| "question_parts RULE_OVERRIDE = Some
     ([26412, 27425, 35831, 27714, 23558, 35206, 30422, 29616, 26377, 35268, 21017, 32],
      [65292, 26159, 21542, 20801, 35768, 65311])"
| "question_parts CLOSURE_ASK_USER = Some
     ([20219, 21153, 38381, 29615, 20449, 24687, 32],
      [32, 20173, 19981, 30830, 23450, 65292, 26159, 21542, 21482, 25353, 21407, 20219, 21153,
      33539, 22260, 32487, 32493, 65311])"
| "question_parts LOW_IMPACT_UNKNOWN = None"

definition question :: "interaction_trigger \<Rightarrow> interaction_error + utf16" where
  "question t = (case question_parts (it_kind t) of
     None \<Rightarrow> Inl LOW_IMPACT_QUESTION
   | Some (before, after) \<Rightarrow> Inr (before @ units (json_quote (it_summary t)) @ after))"

fun kind_name :: "confirmation_kind \<Rightarrow> string" where
  "kind_name KNOWLEDGE_CONFLICT = ''KNOWLEDGE_CONFLICT''"
| "kind_name SCOPE_PROMOTION = ''SCOPE_PROMOTION''"
| "kind_name RULE_OVERRIDE = ''RULE_OVERRIDE''"
| "kind_name CLOSURE_ASK_USER = ''CLOSURE_ASK_USER''"
| "kind_name LOW_IMPACT_UNKNOWN = ''LOW_IMPACT_UNKNOWN''"

definition sorted_ids :: "string list \<Rightarrow> string list" where
  "sorted_ids = sort_by (\<le>)"

definition confirmation_id :: "(utf16 \<Rightarrow> string) \<Rightarrow> interaction_trigger \<Rightarrow> string" where
  "confirmation_id sha t = ''confirmation-'' @ take 32 (sha (units (json_array
     [json_quote (it_sessionId t), json_quote (it_turnId t), show_int (it_turnOrdinal t),
      json_quote (it_triggerId t), json_quote (kind_name (it_kind t)),
      json_array (map json_quote (sorted_ids (it_subjectIds t)))])))"

definition request :: "(utf16 \<Rightarrow> string) \<Rightarrow> interaction_trigger \<Rightarrow> timestamp
    \<Rightarrow> interaction_error + confirmation_request" where
  "request sha t now =
     and_then (ensure (it_kind t \<noteq> LOW_IMPACT_UNKNOWN) LOW_IMPACT_QUESTION) (\<lambda>_.
     case find (\<lambda>o'. op_effect o' = safeEffect (it_kind t)) (OPTIONS (it_kind t)) of
       None \<Rightarrow> Inl NO_SAFE_DEFAULT
     | Some safe \<Rightarrow> and_then (question t) (\<lambda>q. Inr
         \<lparr>cq_confirmationId = confirmation_id sha t, cq_sessionId = it_sessionId t, cq_turnId = it_turnId t,
          cq_turnOrdinal = it_turnOrdinal t, cq_triggerId = it_triggerId t, cq_kind = it_kind t,
          cq_subjectIds = sorted_ids (it_subjectIds t), cq_question = q, cq_options = OPTIONS (it_kind t),
          cq_safeDefaultOptionId = op_optionId safe, cq_createdAt = now\<rparr>))"

definition fallback :: "interaction_trigger \<Rightarrow> default_reason \<Rightarrow> safe_default" where
  "fallback t reason = \<lparr>sd_triggerId = it_triggerId t, sd_subjectIds = sorted_ids (it_subjectIds t),
     sd_effect = safeEffect (it_kind t), sd_reasonCode = reason\<rparr>"

section \<open>The order of triggers (policy.ts)\<close>

fun IMPACT_RANK :: "impact_level \<Rightarrow> int" where
  "IMPACT_RANK LOW = 0" | "IMPACT_RANK MEDIUM = 1" | "IMPACT_RANK HIGH = 2"

fun KIND_RANK :: "confirmation_kind \<Rightarrow> int" where
  "KIND_RANK LOW_IMPACT_UNKNOWN = 0"
| "KIND_RANK CLOSURE_ASK_USER = 1"
| "KIND_RANK SCOPE_PROMOTION = 2"
| "KIND_RANK KNOWLEDGE_CONFLICT = 3"
| "KIND_RANK RULE_OVERRIDE = 4"

definition js_or :: "int \<Rightarrow> int \<Rightarrow> int" where
  "js_or a b = (if a = 0 then b else a)"

definition compare_text :: "string \<Rightarrow> string \<Rightarrow> int" where
  "compare_text a b = (if a < b then -1 else if a > b then 1 else 0)"

definition priority :: "interaction_trigger \<Rightarrow> interaction_trigger \<Rightarrow> int" where
  "priority l r = js_or (of_bool (it_irreversible r) - of_bool (it_irreversible l))
     (js_or (IMPACT_RANK (it_impact r) - IMPACT_RANK (it_impact l))
     (js_or (KIND_RANK (it_kind r) - KIND_RANK (it_kind l)) (compare_text (it_triggerId l) (it_triggerId r))))"

definition prio_le :: "interaction_trigger \<Rightarrow> interaction_trigger \<Rightarrow> bool" where
  "prio_le l r \<longleftrightarrow> priority l r \<le> 0"

definition byId_le :: "interaction_trigger \<Rightarrow> interaction_trigger \<Rightarrow> bool" where
  "byId_le l r \<longleftrightarrow> compare_text (it_triggerId l) (it_triggerId r) \<le> 0"

lemma js_or_le [simp]: "js_or a b \<le> 0 \<longleftrightarrow> a < 0 \<or> a = 0 \<and> b \<le> 0"
  by (auto simp: js_or_def)

lemma compare_text_le [simp]: "compare_text a b \<le> 0 \<longleftrightarrow> a \<le> b"
  by (auto simp: compare_text_def)

lemma prio_le_iff: "prio_le l r \<longleftrightarrow>
    (of_bool (it_irreversible l) > (of_bool (it_irreversible r) :: int)
   \<or> it_irreversible l = it_irreversible r \<and> (IMPACT_RANK (it_impact l) > IMPACT_RANK (it_impact r)
   \<or> IMPACT_RANK (it_impact l) = IMPACT_RANK (it_impact r) \<and> (KIND_RANK (it_kind l) > KIND_RANK (it_kind r)
   \<or> KIND_RANK (it_kind l) = KIND_RANK (it_kind r) \<and> it_triggerId l \<le> it_triggerId r)))"
  by (auto simp: prio_le_def priority_def)

interpretation priority_order: comparator prio_le
proof
  show "prio_le x y \<or> prio_le y x" for x y
    unfolding prio_le_iff by (cases "it_irreversible x"; cases "it_irreversible y") auto
  show "prio_le x y \<Longrightarrow> prio_le y z \<Longrightarrow> prio_le x z" for x y z
    unfolding prio_le_iff
    by (cases "it_irreversible x"; cases "it_irreversible y"; cases "it_irreversible z") auto
qed

interpretation trigger_id_order: comparator byId_le
  by unfold_locales (auto simp: byId_le_def)

section \<open>The decision (policy.ts)\<close>

definition asked :: "interaction_input \<Rightarrow> string list" where
  "asked i = map he_triggerId (ii_history i)"

definition lowUnknown :: "interaction_input \<Rightarrow> interaction_trigger list" where
  "lowUnknown i = sort_by byId_le (filter (\<lambda>t. it_kind t = LOW_IMPACT_UNKNOWN) (ii_triggers i))"

definition repeated :: "interaction_input \<Rightarrow> interaction_trigger list" where
  "repeated i = sort_by byId_le
     (filter (\<lambda>t. it_kind t \<noteq> LOW_IMPACT_UNKNOWN \<and> it_triggerId t \<in> set (asked i)) (ii_triggers i))"

definition eligible :: "interaction_input \<Rightarrow> interaction_trigger list" where
  "eligible i = sort_by prio_le
     (filter (\<lambda>t. it_kind t \<noteq> LOW_IMPACT_UNKNOWN \<and> it_triggerId t \<notin> set (asked i)) (ii_triggers i))"

definition questionBudgetExhausted :: "interaction_input \<Rightarrow> bool" where
  "questionBudgetExhausted i =
     (let recentFloor = ii_turnOrdinal i - vo_questionWindowTurns (ii_policy i) + 1 in
      list_ex (\<lambda>h. he_turnOrdinal h \<ge> recentFloor) (ii_history i))"

definition early_defaults :: "interaction_input \<Rightarrow> safe_default list" where
  "early_defaults i = map (\<lambda>t. fallback t BY_LOW_IMPACT) (lowUnknown i)
     @ map (\<lambda>t. fallback t TRIGGER_ALREADY_ASKED) (repeated i)"

definition bare_decision :: "interaction_action \<Rightarrow> string list \<Rightarrow> interaction_decision" where
  "bare_decision a rs = \<lparr>de_action = a, de_request = None, de_defaults = [], de_deferredTriggerIds = [],
     de_reasonCodes = rs\<rparr>"

definition evaluateInteractionPolicy ::
  "(utf16 \<Rightarrow> string) \<Rightarrow> interaction_input \<Rightarrow> interaction_error + interaction_decision" where
  "evaluateInteractionPolicy sha i =
    (if \<not> valid_interaction i
     then Inr (bare_decision DEFER [''INVALID_INTERACTION_POLICY_INPUT'', ''SAFE_DEFAULTS_REQUIRED''])
     else if ii_triggers i = [] then Inr (bare_decision ASK_NOTHING [''NO_CONFIRMATION_TRIGGER''])
     else if questionBudgetExhausted i \<or> eligible i = [] then
       let defaults = early_defaults i @ map (\<lambda>t. fallback t QUESTION_BUDGET_EXHAUSTED) (eligible i) in
       Inr \<lparr>de_action = DEFER, de_request = None, de_defaults = defaults,
         de_deferredTriggerIds = map sd_triggerId defaults,
         de_reasonCodes = (if lowUnknown i \<noteq> [] then [''LOW_IMPACT_UNKNOWN_REMAINS_PROPOSED''] else [])
           @ (if questionBudgetExhausted i then [''QUESTION_WINDOW_BUDGET_EXHAUSTED''] else [])
           @ (if repeated i \<noteq> [] then [''TRIGGER_ALREADY_ASKED''] else [])\<rparr>
     else case eligible i of
       [] \<Rightarrow> Inl ELIGIBLE_EMPTY
     | selected # others \<Rightarrow>
       let defaults = early_defaults i @ map (\<lambda>t. fallback t LOWER_PRIORITY_DEFERRED) others in
       and_then (request sha selected (ii_now i)) (\<lambda>q. Inr
         \<lparr>de_action = ASK_ONE, de_request = Some q, de_defaults = defaults,
         de_deferredTriggerIds = map sd_triggerId defaults,
         de_reasonCodes = ''ONE_MICRO_CONFIRMATION_SELECTED''
           # (if lowUnknown i \<noteq> [] then [''LOW_IMPACT_UNKNOWN_REMAINS_PROPOSED''] else [])
           @ (if length (eligible i) > 1 then [''LOWER_PRIORITY_TRIGGERS_DEFERRED''] else [])\<rparr>))"

section \<open>Where triggers come from (adapters.ts)\<close>

record interaction_identity =
  iy_sessionId :: string
  iy_turnId :: string
  iy_turnOrdinal :: int

definition triggerId :: "(utf16 \<Rightarrow> string) \<Rightarrow> string \<Rightarrow> confirmation_kind \<Rightarrow> string list \<Rightarrow> string" where
  "triggerId sha source kind subjectIds = ''trigger-'' @ take 24 (sha (units (json_array
     [json_quote source, json_quote (kind_name kind), json_array (map json_quote (sorted_ids subjectIds))])))"

definition trigger :: "(utf16 \<Rightarrow> string) \<Rightarrow> interaction_identity \<Rightarrow> string \<Rightarrow> confirmation_kind
    \<Rightarrow> string list \<Rightarrow> string \<Rightarrow> impact_level \<Rightarrow> bool \<Rightarrow> interaction_trigger" where
  "trigger sha y source kind subjectIds summary impact irreversible =
     \<lparr>it_triggerId = triggerId sha source kind subjectIds, it_sessionId = iy_sessionId y,
      it_turnId = iy_turnId y, it_turnOrdinal = iy_turnOrdinal y, it_kind = kind, it_impact = impact,
      it_irreversible = irreversible, it_subjectIds = sorted_ids subjectIds, it_summary = summary\<rparr>"

definition evidencePolicyTriggers :: "(utf16 \<Rightarrow> string) \<Rightarrow> interaction_identity \<Rightarrow> string \<Rightarrow> string
    \<Rightarrow> policy_decision \<Rightarrow> interaction_trigger list" where
  "evidencePolicyTriggers sha y subjectId summary d =
    (let reasons = set (pd_reasonCodes d);
         conflict = ''CONFLICTING_USER_DECISIONS'' \<in> reasons
           \<or> ''KNOWLEDGE_CONFLICT_REQUIRES_CONFIRMATION'' \<in> reasons
           \<or> ''ADOPTION_REQUIRES_CONFIRMATION'' \<in> reasons
           \<or> ''INVALID_POLICY_STATUS_TRANSITION'' \<in> reasons in
     (if pd_askUser d \<and> conflict
      then [trigger sha y ''evidence'' KNOWLEDGE_CONFLICT [subjectId] summary HIGH False] else [])
   @ (if pd_askUser d \<and> ''GLOBAL_FALLBACK_PROJECT'' \<in> reasons
      then [trigger sha y ''evidence'' SCOPE_PROMOTION [subjectId] summary MEDIUM False] else [])
   @ (if pd_targetStatus d = knowledge_status.PROPOSED \<and> ''VERIFICATION_UNKNOWN'' \<in> reasons
      then [trigger sha y ''evidence'' LOW_IMPACT_UNKNOWN [subjectId] summary LOW False] else []))"

definition closureInteractionTrigger :: "(utf16 \<Rightarrow> string) \<Rightarrow> interaction_identity \<Rightarrow> string
    \<Rightarrow> closure_result \<Rightarrow> interaction_trigger option" where
  "closureInteractionTrigger sha y summary r =
    (if cv_decision r \<noteq> closure_decision.ASK_USER then None
     else Some (trigger sha y ''closure'' CLOSURE_ASK_USER [cv_verificationId r] summary MEDIUM False))"

definition ruleOverrideTrigger :: "(utf16 \<Rightarrow> string) \<Rightarrow> interaction_identity \<Rightarrow> string \<Rightarrow> string
    \<Rightarrow> bool \<Rightarrow> interaction_trigger" where
  "ruleOverrideTrigger sha y ruleId summary irreversible =
     trigger sha y ''rule'' RULE_OVERRIDE [ruleId] summary (if irreversible then HIGH else MEDIUM) irreversible"

section \<open>Facts about the decision\<close>

lemma sorted_ids_set [simp]: "set (sorted_ids xs) = set xs"
  by (simp add: sorted_ids_def)

lemma length_sorted_ids [simp]: "length (sorted_ids xs) = length xs"
  by (simp add: sorted_ids_def)

lemma distinct_sorted_ids [simp]: "distinct (sorted_ids xs) = distinct xs"
  using distinct_map_sort_by[of "\<lambda>x. x" "(\<le>)" xs] by (simp add: sorted_ids_def)

lemma mset_sort_by [simp]: "mset (sort_by le xs) = mset xs"
proof (induction xs)
  case (Cons x xs)
  have "mset (insert_by le x ys) = add_mset x (mset ys)" for ys by (induction ys) auto
  with Cons show ?case by simp
qed simp

text \<open>A question can be put for every kind but the low-impact one, and its default is safe.\<close>

lemma request_total:
  assumes "it_kind t \<noteq> LOW_IMPACT_UNKNOWN"
  obtains q where "request sha t now = Inr q"
  using assms by (cases "it_kind t") (auto simp: request_def question_def mk_option_def)

lemma request_fields:
  assumes "request sha t now = Inr q"
  shows "it_kind t \<noteq> LOW_IMPACT_UNKNOWN" "cq_triggerId q = it_triggerId t" "cq_kind q = it_kind t"
    "cq_sessionId q = it_sessionId t" "cq_turnId q = it_turnId t" "cq_turnOrdinal q = it_turnOrdinal t"
    "cq_subjectIds q = sorted_ids (it_subjectIds t)" "cq_options q = OPTIONS (it_kind t)" "cq_createdAt q = now"
    "cq_confirmationId q = confirmation_id sha t"
  using assms by (auto simp: request_def split: option.splits)

lemma eligible_member:
  "t \<in> set (eligible i) \<longleftrightarrow> t \<in> set (ii_triggers i) \<and> it_kind t \<noteq> LOW_IMPACT_UNKNOWN \<and> it_triggerId t \<notin> set (asked i)"
  by (auto simp: eligible_def)

lemma split_triggers:
  "mset (lowUnknown i) + mset (repeated i) + mset (eligible i) = mset (ii_triggers i)"
proof -
  have "mset (filter (\<lambda>t. it_kind t = LOW_IMPACT_UNKNOWN) xs)
      + mset (filter (\<lambda>t. it_kind t \<noteq> LOW_IMPACT_UNKNOWN \<and> it_triggerId t \<in> A) xs)
      + mset (filter (\<lambda>t. it_kind t \<noteq> LOW_IMPACT_UNKNOWN \<and> it_triggerId t \<notin> A) xs) = mset xs" for A xs
    by (induction xs) auto
  then show ?thesis by (simp add: lowUnknown_def repeated_def eligible_def del: mset_filter)
qed

text \<open>A decision is one of four; the other outcomes of the code do not arise.\<close>

lemma decision_cases [consumes 1, case_names invalid nothing defers asks]:
  assumes "evaluateInteractionPolicy sha i = r"
  obtains (invalid) "\<not> valid_interaction i"
      "r = Inr (bare_decision DEFER [''INVALID_INTERACTION_POLICY_INPUT'', ''SAFE_DEFAULTS_REQUIRED''])"
  | (nothing) "valid_interaction i" "ii_triggers i = []"
      "r = Inr (bare_decision ASK_NOTHING [''NO_CONFIRMATION_TRIGGER''])"
  | (defers) d where "valid_interaction i" "r = Inr d" "de_action d = DEFER" "de_request d = None"
      "questionBudgetExhausted i \<or> eligible i = []"
      "de_defaults d = early_defaults i @ map (\<lambda>t. fallback t QUESTION_BUDGET_EXHAUSTED) (eligible i)"
      "de_deferredTriggerIds d = map sd_triggerId (de_defaults d)"
  | (asks) d t ts q where "valid_interaction i" "r = Inr d" "de_action d = ASK_ONE" "de_request d = Some q"
      "\<not> questionBudgetExhausted i" "eligible i = t # ts" "request sha t (ii_now i) = Inr q"
      "de_defaults d = early_defaults i @ map (\<lambda>t. fallback t LOWER_PRIORITY_DEFERRED) ts"
      "de_deferredTriggerIds d = map sd_triggerId (de_defaults d)"
proof (cases "valid_interaction i \<and> ii_triggers i \<noteq> []")
  case False
  then consider "\<not> valid_interaction i" | "valid_interaction i" "ii_triggers i = []" by auto
  then show thesis
  proof cases
    case 1
    then show thesis using assms invalid by (simp add: evaluateInteractionPolicy_def)
  next
    case 2
    then have "r = Inr (bare_decision ASK_NOTHING [''NO_CONFIRMATION_TRIGGER''])"
      using assms by (simp add: evaluateInteractionPolicy_def)
    with 2 show thesis by (rule nothing)
  qed
next
  case True
  show thesis
  proof (cases "questionBudgetExhausted i \<or> eligible i = []")
    case b: True
    then show thesis using assms True
      by (intro defers[of "projr r"]) (auto simp: evaluateInteractionPolicy_def Let_def)
  next
    case False
    then obtain t ts where e: "eligible i = t # ts" by (cases "eligible i") auto
    then have "it_kind t \<noteq> LOW_IMPACT_UNKNOWN" using eligible_member[of t i] by simp
    then obtain q where q: "request sha t (ii_now i) = Inr q" by (rule request_total)
    show thesis using assms True False e q
      by (intro asks[of "projr r" q t ts]) (auto simp: evaluateInteractionPolicy_def Let_def)
  qed
qed

lemma evaluate_total: obtains d where "evaluateInteractionPolicy sha i = Inr d"
  by (cases rule: decision_cases[of sha i, OF refl]) auto

section \<open>A session that records its questions\<close>

text \<open>
  The history of a session is the questions asked in it; a turn is evaluated against the history so
  far, and a question it raises is recorded.
\<close>

definition entry_of :: "confirmation_request \<Rightarrow> history_entry" where
  "entry_of q = \<lparr>he_confirmationId = cq_confirmationId q, he_triggerId = cq_triggerId q,
     he_sessionId = cq_sessionId q, he_turnId = cq_turnId q, he_turnOrdinal = cq_turnOrdinal q\<rparr>"

inductive session_step :: "(utf16 \<Rightarrow> string) \<Rightarrow> history_entry list \<Rightarrow> history_entry list \<Rightarrow> bool" for sha where
  "evaluateInteractionPolicy sha i = Inr d \<Longrightarrow> ii_history i = h \<Longrightarrow>
     h' = h @ (case de_request d of None \<Rightarrow> [] | Some q \<Rightarrow> [entry_of q]) \<Longrightarrow> session_step sha h h'"

inductive_cases session_stepE: "session_step sha h h'"

text \<open>Any two entries are at least twenty turns apart, and concern different triggers.\<close>

definition spaced :: "history_entry list \<Rightarrow> bool" where
  "spaced h \<longleftrightarrow> sorted_wrt (\<lambda>a b. he_turnOrdinal a + 20 \<le> he_turnOrdinal b) h \<and> distinct (map he_triggerId h)"

lemma asking_decision:
  assumes "evaluateInteractionPolicy sha i = Inr d" and "de_request d = Some q"
  obtains t ts where "valid_interaction i" "\<not> questionBudgetExhausted i" "eligible i = t # ts"
    "request sha t (ii_now i) = Inr q" "de_action d = ASK_ONE"
    "de_defaults d = early_defaults i @ map (\<lambda>t. fallback t LOWER_PRIORITY_DEFERRED) ts"
    "de_deferredTriggerIds d = map sd_triggerId (de_defaults d)"
  using assms(1)
proof (cases rule: decision_cases)
  case (asks d' t ts q')
  then show thesis using that[of t ts] assms(2) by simp
qed (use assms(2) in \<open>simp_all add: bare_decision_def\<close>)

lemma asking_conditions:
  assumes "evaluateInteractionPolicy sha i = Inr d" and "de_request d = Some q"
  shows "valid_interaction i" "\<forall>h \<in> set (ii_history i). he_turnOrdinal h + 20 \<le> cq_turnOrdinal q"
    "cq_triggerId q \<notin> set (asked i)" "cq_kind q \<noteq> LOW_IMPACT_UNKNOWN"
    "\<exists>t \<in> set (ii_triggers i). request sha t (ii_now i) = Inr q"
proof -
  obtain t ts where v: "valid_interaction i" and b: "\<not> questionBudgetExhausted i"
    and e: "eligible i = t # ts" and q: "request sha t (ii_now i) = Inr q"
    by (rule asking_decision[OF assms])
  note f = request_fields[OF q]
  have t: "t \<in> set (ii_triggers i)" "it_triggerId t \<notin> set (asked i)"
    using eligible_member[of t i] e by auto
  have w: "vo_questionWindowTurns (ii_policy i) = 20" "it_turnOrdinal t = ii_turnOrdinal i"
    using v t(1) by (auto simp: valid_interaction_def list_all_iff trigger_ok_def)
  show "valid_interaction i" by (rule v)
  show "\<forall>h \<in> set (ii_history i). he_turnOrdinal h + 20 \<le> cq_turnOrdinal q"
    using b w f by (auto simp: questionBudgetExhausted_def list_ex_iff Let_def)
  show "cq_triggerId q \<notin> set (asked i)" "cq_kind q \<noteq> LOW_IMPACT_UNKNOWN" using t f by auto
  show "\<exists>t \<in> set (ii_triggers i). request sha t (ii_now i) = Inr q" using t q by auto
qed

lemma session_step_spaced:
  assumes "session_step sha h h'" and "spaced h"
  shows "spaced h'"
  using assms(1)
proof (cases rule: session_step.cases)
  case (1 i d)
  show ?thesis
  proof (cases "de_request d")
    case None
    then show ?thesis using 1 assms(2) by simp
  next
    case (Some q)
    from asking_conditions[OF 1(1) Some] show ?thesis using 1 Some assms(2)
      by (auto simp: spaced_def sorted_wrt_append entry_of_def asked_def)
  qed
qed

lemma session_spaced: "(session_step sha)\<^sup>*\<^sup>* [] h \<Longrightarrow> spaced h"
  by (induction rule: rtranclp_induct) (simp add: spaced_def, blast intro: session_step_spaced)

lemma session_asks:
  assumes "valid_interaction i" and "\<not> questionBudgetExhausted i" and "eligible i = t # ts"
  shows "session_step sha (ii_history i) (ii_history i @ [\<lparr>he_confirmationId = confirmation_id sha t,
    he_triggerId = it_triggerId t, he_sessionId = it_sessionId t, he_turnId = it_turnId t,
    he_turnOrdinal = it_turnOrdinal t\<rparr>])"
proof -
  obtain q where q: "request sha t (ii_now i) = Inr q"
    using assms(3) eligible_member[of t i] request_total[of t sha "ii_now i"] by auto
  obtain d where d: "evaluateInteractionPolicy sha i = Inr d" by (rule evaluate_total)
  have "de_request d = Some q"
    using d
  proof (cases rule: decision_cases)
    case (nothing)
    then show ?thesis using assms(3) by (simp add: eligible_def)
  qed (use assms q in auto)
  then show ?thesis
    by (intro session_step.intros[OF d refl]) (simp add: entry_of_def request_fields[OF q])
qed

text \<open>A default accounts for its trigger.\<close>

lemma early_default_ids:
  "map sd_triggerId (early_defaults i) = map it_triggerId (lowUnknown i) @ map it_triggerId (repeated i)"
  by (simp add: early_defaults_def fallback_def comp_def)

definition accounts :: "interaction_input \<Rightarrow> safe_default \<Rightarrow> bool" where
  "accounts i s \<longleftrightarrow> list_ex (\<lambda>t. it_triggerId t = sd_triggerId s \<and> sd_effect s = safeEffect (it_kind t)
     \<and> sd_subjectIds s = sorted_ids (it_subjectIds t)) (ii_triggers i)"

lemma fallback_accounts: "t \<in> set (ii_triggers i) \<Longrightarrow> accounts i (fallback t r)"
  by (auto simp: accounts_def fallback_def list_ex_iff)

lemma early_accounts: "list_all (accounts i) (early_defaults i)"
  by (auto simp: list_all_iff early_defaults_def lowUnknown_def repeated_def intro!: fallback_accounts)

lemma late_accounts: "set ts \<subseteq> set (eligible i) \<Longrightarrow> list_all (accounts i) (map (\<lambda>t. fallback t r) ts)"
  by (auto simp: list_all_iff eligible_member intro!: fallback_accounts)

lemma request_default:
  assumes "request sha t now = Inr q"
  shows "map_option op_effect (find (\<lambda>p. op_optionId p = cq_safeDefaultOptionId q) (cq_options q))
    = SAFE_CONFIRMATION_EFFECT_BY_KIND (cq_kind q)"
  using assms by (cases "it_kind t") (auto simp: request_def question_def mk_option_def)

end
