(* ===== verification/Confirmation.thy ===== *)
theory Confirmation
  imports Interaction
begin

text \<open>
  Durable confirmations (\<^verbatim>\<open>packages/confirmation-writeback/src/repository.ts\<close>), with the schemas of a
  confirmation request and resolution (\<^verbatim>\<open>packages/schemas/src/\<close>). The table is a list of rows; a JSON
  column is the value it parses to, its text the canonical one the code writes. Transactions roll back
  by leaving the table as it was. The SHA-256 of a text, the text of a timestamp, the schema's
  date-time format and the Unicode normalization of a reply are given by a platform.
\<close>

section \<open>The platform\<close>

record platform =
  pf_sha :: "utf16 \<Rightarrow> string"
  pf_iso :: "timestamp \<Rightarrow> utf16"
  pf_date_time :: "timestamp \<Rightarrow> bool"
  pf_normalize :: "utf16 \<Rightarrow> utf16"

section \<open>Data (domain/src/confirmation.ts, types.ts)\<close>

datatype confirmation_relation = RETAINS | CONFIRMS | REJECTS | CORRECTS | PROMOTES | OVERRIDES | CONTINUES

fun CONFIRMATION_RELATION_BY_EFFECT :: "confirmation_effect \<Rightarrow> confirmation_relation" where
  "CONFIRMATION_RELATION_BY_EFFECT KEEP_PROPOSED = RETAINS"
| "CONFIRMATION_RELATION_BY_EFFECT KEEP_CURRENT = RETAINS"
| "CONFIRMATION_RELATION_BY_EFFECT REJECT_CANDIDATE = REJECTS"
| "CONFIRMATION_RELATION_BY_EFFECT ACCEPT_CANDIDATE = CONFIRMS"
| "CONFIRMATION_RELATION_BY_EFFECT KEEP_PROJECT = RETAINS"
| "CONFIRMATION_RELATION_BY_EFFECT PROMOTE_GLOBAL = PROMOTES"
| "CONFIRMATION_RELATION_BY_EFFECT KEEP_RULE = RETAINS"
| "CONFIRMATION_RELATION_BY_EFFECT APPLY_OVERRIDE = OVERRIDES"
| "CONFIRMATION_RELATION_BY_EFFECT STOP_WITHOUT_EXPANSION = RETAINS"
| "CONFIRMATION_RELATION_BY_EFFECT CONTINUE_ORIGINAL_SCOPE = CONTINUES"

record version_relation =
  vl_subjectId :: string
  vl_relation :: confirmation_relation
  vl_beforeRevision :: string
  vl_afterRevision :: string

datatype response_kind = OPTION | CORRECTION

record confirmation_resolution =
  cn_resolutionId :: string
  cn_confirmationId :: string
  cn_sessionId :: string
  cn_requestTurnId :: string
  cn_responseTurnId :: string
  cn_responseEventId :: string
  cn_responseKind :: response_kind
  cn_responseTextHash :: string
  cn_selectedOptionId :: string
  cn_effect :: confirmation_effect
  cn_subjectIds :: "string list"
  cn_correctionStatementRef :: "string option"
  cn_relations :: "version_relation list"
  cn_resolvedAt :: timestamp

record target_snapshot =
  tg_subjectId :: string
  tg_expectedRevision :: string

datatype claim_result = CLAIMED | RETRY | RESOLVED | CONFLICT

section \<open>Schemas\<close>

definition revision_tail :: "char \<Rightarrow> bool" where
  "revision_tail c \<longleftrightarrow> id_tail c \<or> c = CHR ''@''"

definition SAFE_REVISION :: "string \<Rightarrow> bool" where
  "SAFE_REVISION s = head_tail ascii_alnum revision_tail 499 s"

definition hex_char :: "char \<Rightarrow> bool" where
  "hex_char c \<longleftrightarrow> ascii_digit c \<or> 97 \<le> code_of c \<and> code_of c \<le> 102"

definition hash64 :: "string \<Rightarrow> bool" where
  "hash64 s \<longleftrightarrow> length s = 64 \<and> list_all hex_char s"

text \<open>The length a schema bounds: a surrogate pair counts once.\<close>

fun code_points :: "utf16 \<Rightarrow> nat" where
  "code_points [] = 0"
| "code_points [u] = 1"
| "code_points (u # v # us) =
     (if 55296 \<le> u \<and> u \<le> 56319 \<and> 56320 \<le> v \<and> v \<le> 57343 then Suc (code_points us)
      else Suc (code_points (v # us)))"

definition schema_text :: "nat \<Rightarrow> utf16 \<Rightarrow> bool" where
  "schema_text n u \<longleftrightarrow> 1 \<le> code_points u \<and> code_points u \<le> n \<and> list_all (\<lambda>c. c \<noteq> 0 \<and> c \<noteq> 13 \<and> c \<noteq> 10) u"

definition subject_list_ok :: "string list \<Rightarrow> bool" where
  "subject_list_ok xs \<longleftrightarrow> 1 \<le> length xs \<and> length xs \<le> 20 \<and> distinct xs \<and> list_all safe_id xs"

definition request_schema :: "platform \<Rightarrow> confirmation_request \<Rightarrow> bool" where
  "request_schema pf q \<longleftrightarrow>
     list_all safe_id [cq_confirmationId q, cq_sessionId q, cq_turnId q, cq_triggerId q, cq_safeDefaultOptionId q]
   \<and> 0 \<le> cq_turnOrdinal q \<and> cq_turnOrdinal q \<le> 9007199254740991
   \<and> cq_kind q \<noteq> LOW_IMPACT_UNKNOWN \<and> subject_list_ok (cq_subjectIds q) \<and> schema_text 1000 (cq_question q)
   \<and> 2 \<le> length (cq_options q) \<and> length (cq_options q) \<le> 3
   \<and> list_all (\<lambda>p. safe_id (op_optionId p) \<and> schema_text 200 (op_label p)) (cq_options q)
   \<and> pf_date_time pf (cq_createdAt q)"

definition parseConfirmationRequest :: "platform \<Rightarrow> confirmation_request \<Rightarrow> bool" where
  "parseConfirmationRequest pf q \<longleftrightarrow> request_schema pf q
   \<and> (let optionIds = map op_optionId (cq_options q); effects = map op_effect (cq_options q);
          allowedEffects = CONFIRMATION_EFFECTS_BY_KIND (cq_kind q);
          selected = find (\<lambda>p. op_optionId p = cq_safeDefaultOptionId q) (cq_options q) in
      \<not> (\<not> distinct optionIds \<or> \<not> distinct effects \<or> length effects \<noteq> length allowedEffects
        \<or> list_ex (\<lambda>e. e \<notin> set effects) allowedEffects
        \<or> map_option op_effect selected \<noteq> SAFE_CONFIRMATION_EFFECT_BY_KIND (cq_kind q)))"

definition resolution_schema :: "platform \<Rightarrow> confirmation_resolution \<Rightarrow> bool" where
  "resolution_schema pf r \<longleftrightarrow>
     list_all safe_id [cn_resolutionId r, cn_confirmationId r, cn_sessionId r, cn_requestTurnId r,
       cn_responseTurnId r, cn_responseEventId r, cn_selectedOptionId r]
   \<and> hash64 (cn_responseTextHash r) \<and> subject_list_ok (cn_subjectIds r)
   \<and> 1 \<le> length (cn_relations r) \<and> length (cn_relations r) \<le> 20
   \<and> list_all (\<lambda>l. safe_id (vl_subjectId l) \<and> SAFE_REVISION (vl_beforeRevision l)
       \<and> SAFE_REVISION (vl_afterRevision l)) (cn_relations r)
   \<and> pf_date_time pf (cn_resolvedAt r)
   \<and> (case cn_correctionStatementRef r of
        None \<Rightarrow> cn_responseKind r \<noteq> CORRECTION
      | Some s \<Rightarrow> cn_responseKind r = CORRECTION \<and> safe_id s)"

definition parseConfirmationResolution :: "platform \<Rightarrow> confirmation_resolution \<Rightarrow> bool" where
  "parseConfirmationResolution pf r \<longleftrightarrow> resolution_schema pf r
   \<and> (let relationIds = map vl_subjectId (cn_relations r);
          expectedRelation = (if cn_responseKind r = CORRECTION then CORRECTS
            else CONFIRMATION_RELATION_BY_EFFECT (cn_effect r)) in
      \<not> (\<not> distinct relationIds \<or> length relationIds \<noteq> length (cn_subjectIds r)
        \<or> list_ex (\<lambda>i. i \<notin> set relationIds) (cn_subjectIds r)
        \<or> list_ex (\<lambda>l. vl_relation l \<noteq> expectedRelation) (cn_relations r)
        \<or> cn_responseKind r = CORRECTION \<and> (cn_effect r \<noteq> REJECT_CANDIDATE
            \<or> cn_correctionStatementRef r \<noteq> Some (cn_responseEventId r))
        \<or> cn_requestTurnId r = cn_responseTurnId r))"

section \<open>Canonical JSON\<close>

datatype stored_value =
  StoredInt int
| StoredText utf16
| StoredArray "stored_value list"
| StoredObject "(string \<times> stored_value) list"

definition hex4 :: "nat \<Rightarrow> utf16" where
  "hex4 u = map (\<lambda>d. if d < 10 then 48 + d else 87 + d) [u div 4096 mod 16, u div 256 mod 16, u div 16 mod 16, u mod 16]"

text \<open>\<open>JSON.stringify\<close> of a text: lone surrogates and control characters are escaped.\<close>

definition escape_unit :: "nat \<Rightarrow> utf16" where
  "escape_unit u =
    (if u = 34 then [92, 34] else if u = 92 then [92, 92] else if u = 8 then [92, 98]
     else if u = 9 then [92, 116] else if u = 10 then [92, 110] else if u = 12 then [92, 102]
     else if u = 13 then [92, 114] else if u < 32 then [92, 117] @ hex4 u else [u])"

fun escape_units :: "utf16 \<Rightarrow> utf16" where
  "escape_units [] = []"
| "escape_units [u] = (if 55296 \<le> u \<and> u \<le> 57343 then [92, 117] @ hex4 u else escape_unit u)"
| "escape_units (u # v # us) =
     (if 55296 \<le> u \<and> u \<le> 56319 \<and> 56320 \<le> v \<and> v \<le> 57343 then u # v # escape_units us
      else (if 55296 \<le> u \<and> u \<le> 57343 then [92, 117] @ hex4 u else escape_unit u) @ escape_units (v # us))"

definition quote_units :: "utf16 \<Rightarrow> utf16" where
  "quote_units u = [34] @ escape_units u @ [34]"

fun join_units :: "utf16 list \<Rightarrow> utf16" where
  "join_units [] = []"
| "join_units [x] = x"
| "join_units (x # y # zs) = x @ [44] @ join_units (y # zs)"

fun canonical_units :: "stored_value \<Rightarrow> utf16" where
  "canonical_units (StoredInt n) = units (show_int n)"
| "canonical_units (StoredText u) = quote_units u"
| "canonical_units (StoredArray vs) = [91] @ join_units (map canonical_units vs) @ [93]"
| "canonical_units (StoredObject fs) = [123] @ join_units (map snd (sort_by (\<lambda>x y. fst x \<le> fst y)
     (map (\<lambda>(k, v). (k, quote_units (units k) @ [58] @ canonical_units v)) fs))) @ [125]"

abbreviation stored_string :: "string \<Rightarrow> stored_value" where
  "stored_string s \<equiv> StoredText (units s)"

fun effect_name :: "confirmation_effect \<Rightarrow> string" where
  "effect_name KEEP_PROPOSED = ''KEEP_PROPOSED''"
| "effect_name KEEP_CURRENT = ''KEEP_CURRENT''"
| "effect_name REJECT_CANDIDATE = ''REJECT_CANDIDATE''"
| "effect_name ACCEPT_CANDIDATE = ''ACCEPT_CANDIDATE''"
| "effect_name KEEP_PROJECT = ''KEEP_PROJECT''"
| "effect_name PROMOTE_GLOBAL = ''PROMOTE_GLOBAL''"
| "effect_name KEEP_RULE = ''KEEP_RULE''"
| "effect_name APPLY_OVERRIDE = ''APPLY_OVERRIDE''"
| "effect_name STOP_WITHOUT_EXPANSION = ''STOP_WITHOUT_EXPANSION''"
| "effect_name CONTINUE_ORIGINAL_SCOPE = ''CONTINUE_ORIGINAL_SCOPE''"

fun relation_name :: "confirmation_relation \<Rightarrow> string" where
  "relation_name RETAINS = ''RETAINS''" | "relation_name CONFIRMS = ''CONFIRMS''"
| "relation_name REJECTS = ''REJECTS''" | "relation_name CORRECTS = ''CORRECTS''"
| "relation_name PROMOTES = ''PROMOTES''" | "relation_name OVERRIDES = ''OVERRIDES''"
| "relation_name CONTINUES = ''CONTINUES''"

fun response_name :: "response_kind \<Rightarrow> string" where
  "response_name OPTION = ''OPTION''" | "response_name CORRECTION = ''CORRECTION''"

definition request_text :: "platform \<Rightarrow> confirmation_request \<Rightarrow> utf16" where
  "request_text pf q = canonical_units (StoredObject
     [(''schemaVersion'', StoredInt 1), (''confirmationId'', stored_string (cq_confirmationId q)),
      (''sessionId'', stored_string (cq_sessionId q)), (''turnId'', stored_string (cq_turnId q)),
      (''turnOrdinal'', StoredInt (cq_turnOrdinal q)), (''triggerId'', stored_string (cq_triggerId q)),
      (''kind'', stored_string (kind_name (cq_kind q))),
      (''subjectIds'', StoredArray (map stored_string (cq_subjectIds q))),
      (''question'', StoredText (cq_question q)),
      (''options'', StoredArray (map (\<lambda>p. StoredObject [(''optionId'', stored_string (op_optionId p)),
         (''label'', StoredText (op_label p)), (''effect'', stored_string (effect_name (op_effect p)))])
         (cq_options q))),
      (''safeDefaultOptionId'', stored_string (cq_safeDefaultOptionId q)),
      (''createdAt'', StoredText (pf_iso pf (cq_createdAt q)))])"

definition targets_text :: "target_snapshot list \<Rightarrow> utf16" where
  "targets_text ts = canonical_units (StoredArray (map (\<lambda>t. StoredObject
     [(''subjectId'', stored_string (tg_subjectId t)),
      (''expectedRevision'', stored_string (tg_expectedRevision t))]) ts))"

definition resolution_text :: "platform \<Rightarrow> confirmation_resolution \<Rightarrow> utf16" where
  "resolution_text pf r = canonical_units (StoredObject
     ([(''schemaVersion'', StoredInt 1), (''resolutionId'', stored_string (cn_resolutionId r)),
      (''confirmationId'', stored_string (cn_confirmationId r)), (''sessionId'', stored_string (cn_sessionId r)),
      (''requestTurnId'', stored_string (cn_requestTurnId r)),
      (''responseTurnId'', stored_string (cn_responseTurnId r)),
      (''responseEventId'', stored_string (cn_responseEventId r)),
      (''responseKind'', stored_string (response_name (cn_responseKind r))),
      (''responseTextHash'', stored_string (cn_responseTextHash r)),
      (''selectedOptionId'', stored_string (cn_selectedOptionId r)),
      (''effect'', stored_string (effect_name (cn_effect r))),
      (''subjectIds'', StoredArray (map stored_string (cn_subjectIds r)))]
     @ (case cn_correctionStatementRef r of None \<Rightarrow> [] | Some s \<Rightarrow> [(''correctionStatementRef'', stored_string s)])
     @ [(''relations'', StoredArray (map (\<lambda>l. StoredObject [(''subjectId'', stored_string (vl_subjectId l)),
         (''relation'', stored_string (relation_name (vl_relation l))),
         (''beforeRevision'', stored_string (vl_beforeRevision l)),
         (''afterRevision'', stored_string (vl_afterRevision l))]) (cn_relations r))),
      (''resolvedAt'', StoredText (pf_iso pf (cn_resolvedAt r)))]))"

section \<open>The table\<close>

datatype confirmation_status = ROW_PENDING | ROW_CLAIMED | ROW_RESOLVED

record confirmation_row =
  cw_confirmationId :: string
  cw_sessionId :: string
  cw_turnId :: string
  cw_turnOrdinal :: int
  cw_status :: confirmation_status
  cw_request :: confirmation_request
  cw_requestHash :: string
  cw_targets :: "target_snapshot list"
  cw_targetsHash :: string
  cw_claimResolutionId :: "string option"
  cw_claimEventId :: "string option"
  cw_claimHash :: "string option"
  cw_resolution :: "confirmation_resolution option"
  cw_resolutionHash :: "string option"
  cw_createdAt :: timestamp
  cw_resolvedAt :: "timestamp option"

text \<open>The table's CHECK constraints.\<close>

definition row_check :: "confirmation_row \<Rightarrow> bool" where
  "row_check r \<longleftrightarrow> cw_turnOrdinal r \<ge> 0
   \<and> (cw_status r = ROW_PENDING) = (cw_claimResolutionId r = None)
   \<and> (cw_status r = ROW_PENDING) = (cw_claimEventId r = None)
   \<and> (cw_status r = ROW_PENDING) = (cw_claimHash r = None)
   \<and> (cw_status r = ROW_RESOLVED) = (cw_resolution r \<noteq> None)
   \<and> (cw_status r = ROW_RESOLVED) = (cw_resolutionHash r \<noteq> None)
   \<and> (cw_status r = ROW_RESOLVED) = (cw_resolvedAt r \<noteq> None)"

record confirmation_db =
  cb_rows :: "confirmation_row list"
  cb_closed :: bool

datatype repository_error =
  REPOSITORY_CLOSED | REQUEST_SCHEMA_INVALID | TARGETS_NOT_COVERING | TARGETS_INVALID
| REQUEST_INTEGRITY string | REQUEST_CORRUPT string | TARGET_INTEGRITY string | IDENTITY_CONFLICT string
| QUERY_INVALID | CLAIM_IDENTITY_INVALID | RESOLUTION_SCHEMA_INVALID | CONFIRMATION_MISSING
| RESOLUTION_CONFLICT | CLAIM_NOT_OWNED | RESOLUTION_EXPANDED | CONFIRMATION_ID_INVALID
| RESOLUTION_INTEGRITY | RESOLUTION_CORRUPT | CHECK_FAILED

definition validateTargets ::
  "confirmation_request \<Rightarrow> target_snapshot list \<Rightarrow> repository_error + target_snapshot list" where
  "validateTargets q ts =
    (if length ts \<noteq> length (cq_subjectIds q) \<or> length ts < 1 \<or> length ts > 20 then Inl TARGETS_NOT_COVERING
     else let normalized = sort_by (\<lambda>x y. tg_subjectId x \<le> tg_subjectId y) ts in
       if \<not> distinct (map tg_subjectId normalized)
         \<or> list_ex (\<lambda>t. \<not> safe_id (tg_subjectId t) \<or> \<not> SAFE_REVISION (tg_expectedRevision t)) normalized
         \<or> list_ex (\<lambda>i. \<not> list_ex (\<lambda>t. tg_subjectId t = i) normalized) (cq_subjectIds q)
       then Inl TARGETS_INVALID else Inr normalized)"

definition parseRequest :: "platform \<Rightarrow> confirmation_row \<Rightarrow> repository_error + confirmation_request" where
  "parseRequest pf row = (let q = cw_request row in
     if pf_sha pf (request_text pf q) \<noteq> cw_requestHash row then Inl (REQUEST_INTEGRITY (cw_confirmationId row))
     else if \<not> parseConfirmationRequest pf q \<or> cq_confirmationId q \<noteq> cw_confirmationId row
       \<or> cq_sessionId q \<noteq> cw_sessionId row \<or> cq_turnId q \<noteq> cw_turnId row \<or> cq_turnOrdinal q \<noteq> cw_turnOrdinal row
     then Inl (REQUEST_CORRUPT (cw_confirmationId row)) else Inr q)"

definition parseTargets ::
  "platform \<Rightarrow> confirmation_row \<Rightarrow> confirmation_request \<Rightarrow> repository_error + target_snapshot list" where
  "parseTargets pf row q =
    (if pf_sha pf (targets_text (cw_targets row)) \<noteq> cw_targetsHash row
     then Inl (TARGET_INTEGRITY (cw_confirmationId row)) else validateTargets q (cw_targets row))"

definition row_of :: "confirmation_db \<Rightarrow> string \<Rightarrow> confirmation_row option" where
  "row_of db c = find (\<lambda>r. cw_confirmationId r = c) (cb_rows db)"

definition insert_row :: "confirmation_row \<Rightarrow> confirmation_db \<Rightarrow> repository_error + confirmation_db" where
  "insert_row r db = (if row_check r then Inr (db\<lparr>cb_rows := cb_rows db @ [r]\<rparr>) else Inl CHECK_FAILED)"

definition update_rows :: "(confirmation_row \<Rightarrow> bool) \<Rightarrow> (confirmation_row \<Rightarrow> confirmation_row)
    \<Rightarrow> confirmation_db \<Rightarrow> repository_error + confirmation_db" where
  "update_rows P f db =
    (if list_all (\<lambda>r. P r \<longrightarrow> row_check (f r)) (cb_rows db)
     then Inr (db\<lparr>cb_rows := map (\<lambda>r. if P r then f r else r) (cb_rows db)\<rparr>) else Inl CHECK_FAILED)"

section \<open>Operations\<close>

datatype save_result = SAVED | SAVE_EXISTING

definition new_row :: "platform \<Rightarrow> confirmation_request \<Rightarrow> target_snapshot list \<Rightarrow> confirmation_row" where
  "new_row pf q ts = \<lparr>cw_confirmationId = cq_confirmationId q, cw_sessionId = cq_sessionId q,
     cw_turnId = cq_turnId q, cw_turnOrdinal = cq_turnOrdinal q, cw_status = ROW_PENDING, cw_request = q,
     cw_requestHash = pf_sha pf (request_text pf q), cw_targets = ts,
     cw_targetsHash = pf_sha pf (targets_text ts), cw_claimResolutionId = None, cw_claimEventId = None,
     cw_claimHash = None, cw_resolution = None, cw_resolutionHash = None, cw_createdAt = cq_createdAt q,
     cw_resolvedAt = None\<rparr>"

definition save_confirmation :: "platform \<Rightarrow> confirmation_request \<Rightarrow> target_snapshot list \<Rightarrow> confirmation_db
    \<Rightarrow> repository_error + save_result \<times> confirmation_db" where
  "save_confirmation pf q ts db =
     and_then (ensure (\<not> cb_closed db) REPOSITORY_CLOSED) (\<lambda>_.
     and_then (ensure (parseConfirmationRequest pf q) REQUEST_SCHEMA_INVALID) (\<lambda>_.
     and_then (validateTargets q ts) (\<lambda>safeTargets.
     case row_of db (cq_confirmationId q) of
       Some existing \<Rightarrow>
         (if cw_requestHash existing \<noteq> pf_sha pf (request_text pf q)
            \<or> cw_targetsHash existing \<noteq> pf_sha pf (targets_text safeTargets)
          then Inl (IDENTITY_CONFLICT (cq_confirmationId q)) else Inr (SAVE_EXISTING, db))
     | None \<Rightarrow> and_then (insert_row (new_row pf q safeTargets) db) (\<lambda>db'. Inr (SAVED, db')))))"

fun map_results :: "('a \<Rightarrow> 'e + 'b) \<Rightarrow> 'a list \<Rightarrow> 'e + 'b list" where
  "map_results f [] = Inr []"
| "map_results f (x # xs) = and_then (f x) (\<lambda>y. and_then (map_results f xs) (\<lambda>ys. Inr (y # ys)))"

definition pending_le :: "confirmation_row \<Rightarrow> confirmation_row \<Rightarrow> bool" where
  "pending_le l r \<longleftrightarrow> cw_turnOrdinal l > cw_turnOrdinal r
     \<or> cw_turnOrdinal l = cw_turnOrdinal r \<and> cw_confirmationId l \<le> cw_confirmationId r"

type_synonym pending_confirmation = "confirmation_request \<times> target_snapshot list"

definition pending_of :: "platform \<Rightarrow> confirmation_row \<Rightarrow> repository_error + pending_confirmation" where
  "pending_of pf row = and_then (parseRequest pf row) (\<lambda>q. and_then (parseTargets pf row q) (\<lambda>ts. Inr (q, ts)))"

definition pending_rows :: "string \<Rightarrow> string option \<Rightarrow> confirmation_db \<Rightarrow> confirmation_row list" where
  "pending_rows sessionId c db = take 100 (sort_by pending_le (filter (\<lambda>r. cw_sessionId r = sessionId
     \<and> (cw_status r = ROW_PENDING \<or> cw_status r = ROW_CLAIMED)
     \<and> (c = None \<or> Some (cw_confirmationId r) = c)) (cb_rows db)))"

definition pending_confirmations :: "platform \<Rightarrow> string \<Rightarrow> string option \<Rightarrow> confirmation_db
    \<Rightarrow> repository_error + pending_confirmation list" where
  "pending_confirmations pf sessionId c db =
     and_then (ensure (\<not> cb_closed db) REPOSITORY_CLOSED) (\<lambda>_.
     and_then (ensure (\<not> (\<not> safe_id sessionId \<or> (case c of None \<Rightarrow> False | Some i \<Rightarrow> \<not> safe_id i))) QUERY_INVALID) (\<lambda>_.
     map_results (pending_of pf) (pending_rows sessionId c db)))"

definition claim_confirmation :: "string \<Rightarrow> string \<Rightarrow> string \<Rightarrow> string \<Rightarrow> confirmation_db
    \<Rightarrow> repository_error + claim_result \<times> confirmation_db" where
  "claim_confirmation c resolutionId eventId hash db =
     and_then (ensure (\<not> cb_closed db) REPOSITORY_CLOSED) (\<lambda>_.
     and_then (ensure (list_all safe_id [c, resolutionId, eventId] \<and> hash64 hash) CLAIM_IDENTITY_INVALID) (\<lambda>_.
     case row_of db c of
       None \<Rightarrow> Inr (CONFLICT, db)
     | Some row \<Rightarrow> (case cw_status row of
         ROW_RESOLVED \<Rightarrow> Inr (if cw_claimResolutionId row = Some resolutionId then RESOLVED else CONFLICT, db)
       | ROW_CLAIMED \<Rightarrow> Inr (if cw_claimResolutionId row = Some resolutionId
             \<and> cw_claimEventId row = Some eventId \<and> cw_claimHash row = Some hash then RETRY else CONFLICT, db)
       | ROW_PENDING \<Rightarrow>
           and_then (update_rows (\<lambda>r. cw_confirmationId r = c \<and> cw_status r = ROW_PENDING)
             (\<lambda>r. r\<lparr>cw_status := ROW_CLAIMED, cw_claimResolutionId := Some resolutionId,
               cw_claimEventId := Some eventId, cw_claimHash := Some hash\<rparr>) db) (\<lambda>db'. Inr (CLAIMED, db')))))"

datatype complete_result = COMPLETED | COMPLETE_EXISTING

definition owns_claim :: "confirmation_resolution \<Rightarrow> confirmation_row \<Rightarrow> bool" where
  "owns_claim r row \<longleftrightarrow> cw_status row = ROW_CLAIMED \<and> cw_claimResolutionId row = Some (cn_resolutionId r)
     \<and> cw_claimEventId row = Some (cn_responseEventId r) \<and> cw_claimHash row = Some (cn_responseTextHash r)"

definition expands :: "confirmation_request \<Rightarrow> target_snapshot list \<Rightarrow> confirmation_resolution \<Rightarrow> bool" where
  "expands q ts r \<longleftrightarrow> cq_sessionId q \<noteq> cn_sessionId r \<or> cq_turnId q \<noteq> cn_requestTurnId r
   \<or> map_option op_effect (find (\<lambda>p. op_optionId p = cn_selectedOptionId r) (cq_options q)) \<noteq> Some (cn_effect r)
   \<or> cn_responseKind r = CORRECTION \<and> (cq_kind q \<noteq> KNOWLEDGE_CONFLICT \<or> cn_effect r \<noteq> REJECT_CANDIDATE)
   \<or> length (cq_subjectIds q) \<noteq> length (cn_subjectIds r)
   \<or> list_ex (\<lambda>i. i \<notin> set (cn_subjectIds r)) (cq_subjectIds q)
   \<or> list_ex (\<lambda>t. map_option vl_beforeRevision (find (\<lambda>l. vl_subjectId l = tg_subjectId t) (cn_relations r))
        \<noteq> Some (tg_expectedRevision t)) ts"

definition complete_confirmation :: "platform \<Rightarrow> confirmation_resolution \<Rightarrow> confirmation_db
    \<Rightarrow> repository_error + complete_result \<times> confirmation_db" where
  "complete_confirmation pf r db =
     and_then (ensure (\<not> cb_closed db) REPOSITORY_CLOSED) (\<lambda>_.
     and_then (ensure (parseConfirmationResolution pf r) RESOLUTION_SCHEMA_INVALID) (\<lambda>_.
     case row_of db (cn_confirmationId r) of
       None \<Rightarrow> Inl CONFIRMATION_MISSING
     | Some row \<Rightarrow>
       (if cw_status row = ROW_RESOLVED then
          (if cw_resolutionHash row \<noteq> Some (pf_sha pf (resolution_text pf r)) then Inl RESOLUTION_CONFLICT
           else Inr (COMPLETE_EXISTING, db))
        else and_then (ensure (owns_claim r row) CLAIM_NOT_OWNED) (\<lambda>_.
          and_then (parseRequest pf row) (\<lambda>q.
          and_then (parseTargets pf row q) (\<lambda>ts.
          and_then (ensure (\<not> expands q ts r) RESOLUTION_EXPANDED) (\<lambda>_.
          and_then (update_rows (\<lambda>x. cw_confirmationId x = cn_confirmationId r \<and> cw_status x = ROW_CLAIMED)
            (\<lambda>x. x\<lparr>cw_status := ROW_RESOLVED, cw_resolution := Some r,
              cw_resolutionHash := Some (pf_sha pf (resolution_text pf r)),
              cw_resolvedAt := Some (cn_resolvedAt r)\<rparr>) db) (\<lambda>db'. Inr (COMPLETED, db')))))))))"

definition stored_resolution :: "platform \<Rightarrow> string \<Rightarrow> confirmation_db
    \<Rightarrow> repository_error + confirmation_resolution option" where
  "stored_resolution pf c db =
     and_then (ensure (\<not> cb_closed db) REPOSITORY_CLOSED) (\<lambda>_.
     and_then (ensure (safe_id c) CONFIRMATION_ID_INVALID) (\<lambda>_.
     case row_of db c of
       None \<Rightarrow> Inr None
     | Some row \<Rightarrow> (case (cw_status row = ROW_RESOLVED, cw_resolution row, cw_resolutionHash row) of
         (True, Some r, Some h) \<Rightarrow>
           (if pf_sha pf (resolution_text pf r) \<noteq> h then Inl RESOLUTION_INTEGRITY
            else if \<not> parseConfirmationResolution pf r \<or> cn_confirmationId r \<noteq> c then Inl RESOLUTION_CORRUPT
            else Inr (Some r))
       | _ \<Rightarrow> Inr None)))"

definition close_repository :: "confirmation_db \<Rightarrow> confirmation_db" where
  "close_repository db = db\<lparr>cb_closed := True\<rparr>"

definition empty_repository :: confirmation_db where
  "empty_repository = \<lparr>cb_rows = [], cb_closed = False\<rparr>"

text \<open>The changes a repository goes through.\<close>

inductive repository_step :: "platform \<Rightarrow> confirmation_db \<Rightarrow> confirmation_db \<Rightarrow> bool" for pf where
  Saves: "save_confirmation pf q ts db = Inr (x, db') \<Longrightarrow> repository_step pf db db'"
| Claims: "claim_confirmation c i e h db = Inr (x, db') \<Longrightarrow> repository_step pf db db'"
| Completes: "complete_confirmation pf r db = Inr (x, db') \<Longrightarrow> repository_step pf db db'"
| Closes: "repository_step pf db (close_repository db)"

end
