(* ===== verification/RuntimeAudit.thy ===== *)
theory RuntimeAudit
  imports Confirmation
begin

text \<open>
  The runtime audit store (\<^verbatim>\<open>packages/runtime-audit-store/src/\<close>): injection attempts with an optimistic
  revision, the expansions that refer to them, and closure runs. A table is a list of rows in insertion
  order; a JSON payload is the record it parses to, and two records are the same text when they are
  equal. A context envelope is its run id and the rest of its JSON text. \<open>bytes\<close> is the size of a
  record's JSON text in UTF-8. Timestamps are compared as the times they write.
\<close>

section \<open>Data (types.ts)\<close>

datatype delivery_status =
  DELIVERY_PENDING | SHADOWED | INJECTED | NO_CONTEXT | ROLLED_BACK | DELIVERY_TIMEOUT | DELIVERY_ERROR

record context_envelope =
  ce_runId :: string
  ce_json :: string

record injection_attempt =
  ia_attemptId :: string
  ia_sessionId :: string
  ia_turnId :: string
  ia_traceId :: string
  ia_runId :: string
  ia_rolloutRevision :: int
  ia_status :: delivery_status
  ia_revision :: int
  ia_envelope :: context_envelope
  ia_reasonCode :: string
  ia_createdAt :: timestamp
  ia_completedAt :: "timestamp option"
  ia_deliveryEvidenceRef :: "string option"
  ia_deliveredAt :: "timestamp option"

record mcp_expansion =
  mx_expansionId :: string
  mx_attemptId :: "string option"
  mx_traceId :: string
  mx_tool :: string
  mx_knowledgeId :: string
  mx_knowledgeVersion :: int
  mx_fromDetailLevel :: detail_level
  mx_toDetailLevel :: detail_level
  mx_latencyMs :: int
  mx_used :: bool
  mx_occurredAt :: timestamp

record task_contract =
  tk_contractId :: string
  tk_objective :: string
  tk_gates :: "string list"
  tk_boundaries :: "string list"

record run_interaction =
  ri_required :: bool
  ri_question :: "utf16 option"
  ri_safeDefault :: "string option"

record closure_run_record =
  cu_closureRunId :: string
  cu_sessionId :: string
  cu_turnId :: string
  cu_taskContract :: task_contract
  cu_gates :: "gate_outcome list"
  cu_decision :: closure_decision
  cu_correctionDelta :: "string option"
  cu_continuationCount :: int
  cu_recursiveStopRejected :: bool
  cu_interaction :: "run_interaction option"
  cu_createdAt :: timestamp

section \<open>Tables (store.ts)\<close>

record injection_row =
  iw_attemptId :: string
  iw_sessionId :: string
  iw_turnId :: string
  iw_traceId :: string
  iw_status :: delivery_status
  iw_revision :: int
  iw_createdAt :: timestamp
  iw_payload :: injection_attempt

record audit_db =
  ad_injections :: "injection_row list"
  ad_expansions :: "mcp_expansion list"
  ad_closures :: "closure_run_record list"

record audit_sizes =
  sz_injection :: "injection_attempt \<Rightarrow> int"
  sz_expansion :: "mcp_expansion \<Rightarrow> int"
  sz_closure :: "closure_run_record \<Rightarrow> int"

datatype audit_error =
  AUDIT_IDENTITY string | LIMIT_OUT_OF_RANGE | NOT_A_NEW_ATTEMPT | ATTEMPT_INVALID | RECORD_TOO_LARGE
| ATTEMPT_EXISTS | COMPLETION_INVALID | ATTEMPT_NOT_FOUND | ATTEMPT_CHANGED | ACKNOWLEDGEMENT_INVALID
| ACKNOWLEDGEMENT_CHANGED | NOT_ACKNOWLEDGEABLE | ACKNOWLEDGED_TOO_EARLY | ATTEMPT_CORRUPT
| ATTEMPT_MISMATCH | EXPANSION_INVALID | EXPANSION_WITHOUT_ATTEMPT | EXPANSION_EXISTS
| CLOSURE_RUN_INVALID | CLOSURE_RUN_EXISTS

section \<open>Validation\<close>

definition audit_tail :: "char \<Rightarrow> bool" where
  "audit_tail c \<longleftrightarrow> id_tail c \<or> c = CHR ''@'' \<or> c = CHR ''/''"

definition audit_id :: "string \<Rightarrow> bool" where
  "audit_id s = head_tail ascii_alnum audit_tail 499 s"

definition MAX_RECORD_BYTES :: int where
  "MAX_RECORD_BYTES = 4 * 1024 * 1024"

definition validateLimit :: "int \<Rightarrow> audit_error + unit" where
  "validateLimit limit = ensure (\<not> (\<not> safe_integer limit \<or> limit < 1 \<or> limit > 100)) LIMIT_OUT_OF_RANGE"

definition assertIdentity :: "string \<Rightarrow> string \<Rightarrow> audit_error + unit" where
  "assertIdentity value name = ensure (audit_id value) (AUDIT_IDENTITY name)"

fun assertIdentities :: "(string \<times> string) list \<Rightarrow> audit_error + unit" where
  "assertIdentities [] = Inr ()"
| "assertIdentities ((name, value) # rest) = and_then (assertIdentity value name) (\<lambda>_. assertIdentities rest)"

definition opt_canonical :: "timestamp option \<Rightarrow> bool" where
  "opt_canonical t = (case t of None \<Rightarrow> True | Some d \<Rightarrow> canonical_date d)"

text \<open>\<open>Date.parse(a) < Date.parse(b)\<close>, where an absent or unparsable time compares as NaN.\<close>

definition date_before :: "timestamp option \<Rightarrow> timestamp option \<Rightarrow> bool" where
  "date_before a b = (case (Option.bind a date_parse, Option.bind b date_parse) of
     (Some x, Some y) \<Rightarrow> x < y | _ \<Rightarrow> False)"

definition attempt_fields_ok :: "injection_attempt \<Rightarrow> bool" where
  "attempt_fields_ok r = (let acknowledged = (ia_deliveryEvidenceRef r \<noteq> None \<or> ia_deliveredAt r \<noteq> None) in
    \<not> (\<not> safe_integer (ia_rolloutRevision r) \<or> ia_rolloutRevision r < 0
      \<or> \<not> safe_integer (ia_revision r) \<or> ia_revision r < 0 \<or> \<not> upper_code 99 (ia_reasonCode r)
      \<or> \<not> canonical_date (ia_createdAt r) \<or> \<not> opt_canonical (ia_completedAt r) \<or> \<not> opt_canonical (ia_deliveredAt r)
      \<or> (ia_status r = DELIVERY_PENDING) \<noteq> (ia_completedAt r = None)
      \<or> acknowledged \<noteq> (ia_deliveryEvidenceRef r \<noteq> None \<and> ia_deliveredAt r \<noteq> None)
      \<or> acknowledged \<and> (ia_status r \<noteq> INJECTED \<or> ia_revision r \<noteq> 2 \<or> ia_completedAt r = None
          \<or> date_before (ia_deliveredAt r) (ia_completedAt r))
      \<or> \<not> acknowledged \<and> ia_status r \<noteq> DELIVERY_PENDING \<and> ia_revision r \<noteq> 1
      \<or> ia_status r = DELIVERY_PENDING \<and> ia_revision r \<noteq> 0
      \<or> ce_runId (ia_envelope r) \<noteq> ia_runId r))"

definition validateAttempt :: "injection_attempt \<Rightarrow> audit_error + unit" where
  "validateAttempt r =
     and_then (assertIdentities [(''attemptId'', ia_attemptId r), (''sessionId'', ia_sessionId r),
       (''turnId'', ia_turnId r), (''traceId'', ia_traceId r), (''runId'', ia_runId r)]) (\<lambda>_.
     and_then (case ia_deliveryEvidenceRef r of None \<Rightarrow> Inr () | Some e \<Rightarrow> assertIdentity e ''deliveryEvidenceRef'') (\<lambda>_.
     ensure (attempt_fields_ok r) ATTEMPT_INVALID))"

definition validateExpansion :: "mcp_expansion \<Rightarrow> audit_error + unit" where
  "validateExpansion r =
     and_then (assertIdentities [(''expansionId'', mx_expansionId r), (''traceId'', mx_traceId r),
       (''knowledgeId'', mx_knowledgeId r)]) (\<lambda>_.
     and_then (case mx_attemptId r of None \<Rightarrow> Inr () | Some i \<Rightarrow> assertIdentity i ''attemptId'') (\<lambda>_.
     ensure (\<not> (\<not> safe_integer (mx_knowledgeVersion r) \<or> mx_knowledgeVersion r < 1
       \<or> \<not> safe_integer (mx_latencyMs r) \<or> mx_latencyMs r < 0 \<or> \<not> canonical_date (mx_occurredAt r)
       \<or> mx_fromDetailLevel r = L2_COMPACT \<and> mx_toDetailLevel r \<noteq> L3_EVIDENCED)) EXPANSION_INVALID))"

definition js_blank :: "utf16 \<Rightarrow> bool" where
  "js_blank u = list_all (\<lambda>c. c \<in> {9, 10, 11, 12, 13, 32, 160, 5760, 8232, 8233, 8239, 8287, 12288, 65279}
     \<or> 8192 \<le> c \<and> c \<le> 8202) u"

definition validateClosure :: "closure_run_record \<Rightarrow> audit_error + unit" where
  "validateClosure r =
     and_then (assertIdentities [(''closureRunId'', cu_closureRunId r), (''sessionId'', cu_sessionId r),
       (''turnId'', cu_turnId r), (''contractId'', tk_contractId (cu_taskContract r))]) (\<lambda>_.
     ensure (\<not> (\<not> safe_integer (cu_continuationCount r) \<or> cu_continuationCount r < 0
       \<or> cu_continuationCount r > 100 \<or> \<not> canonical_date (cu_createdAt r)
       \<or> length (cu_gates r) > 100 \<or> \<not> distinct (map go_gateId (cu_gates r))
       \<or> (case cu_interaction r of None \<Rightarrow> False
          | Some y \<Rightarrow> ri_required y \<and> (case ri_question y of None \<Rightarrow> False | Some q \<Rightarrow> js_blank q)))) CLOSURE_RUN_INVALID)"

section \<open>Injection attempts\<close>

definition row_of_attempt :: "injection_attempt \<Rightarrow> injection_row" where
  "row_of_attempt r = \<lparr>iw_attemptId = ia_attemptId r, iw_sessionId = ia_sessionId r, iw_turnId = ia_turnId r,
     iw_traceId = ia_traceId r, iw_status = ia_status r, iw_revision = ia_revision r,
     iw_createdAt = ia_createdAt r, iw_payload = r\<rparr>"

definition find_injection :: "audit_db \<Rightarrow> string \<Rightarrow> injection_row option" where
  "find_injection db i = find (\<lambda>w. iw_attemptId w = i) (ad_injections db)"

definition decodeInjectionRow :: "audit_sizes \<Rightarrow> injection_row \<Rightarrow> audit_error + injection_attempt" where
  "decodeInjectionRow sz w = (let r = iw_payload w in
     if sz_injection sz r > MAX_RECORD_BYTES \<or> \<not> is_ok (validateAttempt r) then Inl ATTEMPT_CORRUPT
     else if ia_attemptId r \<noteq> iw_attemptId w \<or> ia_sessionId r \<noteq> iw_sessionId w \<or> ia_turnId r \<noteq> iw_turnId w
       \<or> ia_traceId r \<noteq> iw_traceId w \<or> ia_status r \<noteq> iw_status w \<or> ia_revision r \<noteq> iw_revision w
       \<or> ia_createdAt r \<noteq> iw_createdAt w then Inl ATTEMPT_MISMATCH
     else Inr r)"

definition getInjection :: "audit_sizes \<Rightarrow> string \<Rightarrow> audit_db \<Rightarrow> audit_error + injection_attempt option" where
  "getInjection sz i db =
     and_then (assertIdentity i ''attemptId'') (\<lambda>_.
     case find_injection db i of
       None \<Rightarrow> Inr None
     | Some w \<Rightarrow> and_then (decodeInjectionRow sz w) (\<lambda>r. Inr (Some r)))"

definition beginInjection :: "audit_sizes \<Rightarrow> injection_attempt \<Rightarrow> audit_db
    \<Rightarrow> audit_error + injection_attempt \<times> audit_db" where
  "beginInjection sz r db =
     and_then (ensure (\<not> (ia_status r \<noteq> DELIVERY_PENDING \<or> ia_revision r \<noteq> 0 \<or> ia_completedAt r \<noteq> None
       \<or> ia_deliveryEvidenceRef r \<noteq> None \<or> ia_deliveredAt r \<noteq> None)) NOT_A_NEW_ATTEMPT) (\<lambda>_.
     and_then (validateAttempt r) (\<lambda>_.
     and_then (ensure (\<not> sz_injection sz r > MAX_RECORD_BYTES) RECORD_TOO_LARGE) (\<lambda>_.
     case find_injection db (ia_attemptId r) of
       None \<Rightarrow> Inr (r, db\<lparr>ad_injections := ad_injections db @ [row_of_attempt r]\<rparr>)
     | Some _ \<Rightarrow> and_then (getInjection sz (ia_attemptId r) db) (\<lambda>existing.
         case existing of
           Some x \<Rightarrow> (if x = r then Inr (x, db) else Inl ATTEMPT_EXISTS)
         | None \<Rightarrow> Inl ATTEMPT_EXISTS))))"

text \<open>The UPDATE statements: the rows of the attempt at the expected revision and status.\<close>

definition update_injection :: "string \<Rightarrow> int \<Rightarrow> delivery_status \<Rightarrow> (injection_row \<Rightarrow> injection_row) \<Rightarrow> audit_db
    \<Rightarrow> nat \<times> audit_db" where
  "update_injection i revision status f db =
    (let P = (\<lambda>w. iw_attemptId w = i \<and> iw_revision w = revision \<and> iw_status w = status) in
     (length (filter P (ad_injections db)),
      db\<lparr>ad_injections := map (\<lambda>w. if P w then f w else w) (ad_injections db)\<rparr>))"

definition completeInjection :: "audit_sizes \<Rightarrow> string \<Rightarrow> int \<Rightarrow> delivery_status \<Rightarrow> string \<Rightarrow> timestamp \<Rightarrow> audit_db
    \<Rightarrow> audit_error + injection_attempt \<times> audit_db" where
  "completeInjection sz i expectedRevision status reasonCode completedAt db =
     and_then (assertIdentity i ''attemptId'') (\<lambda>_.
     and_then (ensure (\<not> (status = DELIVERY_PENDING \<or> \<not> upper_code 99 reasonCode \<or> \<not> canonical_date completedAt))
       COMPLETION_INVALID) (\<lambda>_.
     and_then (getInjection sz i db) (\<lambda>found.
     case found of
       None \<Rightarrow> Inl ATTEMPT_NOT_FOUND
     | Some current \<Rightarrow>
       (if ia_revision current \<noteq> expectedRevision \<or> ia_status current \<noteq> DELIVERY_PENDING then
          (if (ia_revision current = expectedRevision + 1
              \<or> ia_revision current = expectedRevision + 2 \<and> ia_deliveryEvidenceRef current \<noteq> None)
            \<and> ia_status current = status \<and> ia_reasonCode current = reasonCode
            \<and> ia_completedAt current = Some completedAt
           then Inr (current, db) else Inl ATTEMPT_CHANGED)
        else
          let n = current\<lparr>ia_status := status, ia_reasonCode := reasonCode, ia_completedAt := Some completedAt,
                ia_revision := ia_revision current + 1\<rparr> in
          and_then (ensure (\<not> sz_injection sz n > MAX_RECORD_BYTES) RECORD_TOO_LARGE) (\<lambda>_.
          let (changes, db') = update_injection i expectedRevision DELIVERY_PENDING
            (\<lambda>w. w\<lparr>iw_status := status, iw_revision := ia_revision n, iw_payload := n\<rparr>) db in
          if changes \<noteq> 1 then Inl ATTEMPT_CHANGED else Inr (n, db'))))))"

definition acknowledgeInjectionDelivery :: "audit_sizes \<Rightarrow> string \<Rightarrow> int \<Rightarrow> string \<Rightarrow> timestamp \<Rightarrow> audit_db
    \<Rightarrow> audit_error + injection_attempt \<times> audit_db" where
  "acknowledgeInjectionDelivery sz i expectedRevision evidenceRef deliveredAt db =
     and_then (assertIdentity i ''attemptId'') (\<lambda>_.
     and_then (assertIdentity evidenceRef ''deliveryEvidenceRef'') (\<lambda>_.
     and_then (ensure (\<not> (\<not> safe_integer expectedRevision \<or> expectedRevision < 1 \<or> \<not> canonical_date deliveredAt))
       ACKNOWLEDGEMENT_INVALID) (\<lambda>_.
     and_then (getInjection sz i db) (\<lambda>found.
     case found of
       None \<Rightarrow> Inl ATTEMPT_NOT_FOUND
     | Some current \<Rightarrow>
       (if ia_deliveryEvidenceRef current \<noteq> None \<or> ia_deliveredAt current \<noteq> None then
          (if ia_status current = INJECTED \<and> ia_revision current = expectedRevision + 1
            \<and> ia_deliveryEvidenceRef current = Some evidenceRef \<and> ia_deliveredAt current = Some deliveredAt
           then Inr (current, db) else Inl ACKNOWLEDGEMENT_CHANGED)
        else if ia_status current \<noteq> INJECTED \<or> ia_revision current \<noteq> expectedRevision then Inl NOT_ACKNOWLEDGEABLE
        else if ia_completedAt current = None \<or> date_before (Some deliveredAt) (ia_completedAt current)
        then Inl ACKNOWLEDGED_TOO_EARLY
        else
          let n = current\<lparr>ia_deliveryEvidenceRef := Some evidenceRef, ia_deliveredAt := Some deliveredAt,
                ia_revision := ia_revision current + 1\<rparr> in
          and_then (validateAttempt n) (\<lambda>_.
          and_then (ensure (\<not> sz_injection sz n > MAX_RECORD_BYTES) RECORD_TOO_LARGE) (\<lambda>_.
          let (changes, db') = update_injection i expectedRevision INJECTED
            (\<lambda>w. w\<lparr>iw_revision := ia_revision n, iw_payload := n\<rparr>) db in
          if changes \<noteq> 1 then Inl ACKNOWLEDGEMENT_CHANGED else Inr (n, db'))))))))"

definition created_le :: "(timestamp \<times> string) \<Rightarrow> (timestamp \<times> string) \<Rightarrow> bool" where
  "created_le x y = (let a = case_option 0 id (date_parse (fst x)); b = case_option 0 id (date_parse (fst y)) in
     a > b \<or> a = b \<and> snd x \<le> snd y)"

definition occurred_le :: "(timestamp \<times> string) \<Rightarrow> (timestamp \<times> string) \<Rightarrow> bool" where
  "occurred_le x y = (let a = case_option 0 id (date_parse (fst x)); b = case_option 0 id (date_parse (fst y)) in
     a < b \<or> a = b \<and> snd x \<le> snd y)"

record 'a audit_page =
  pg_items :: "'a list"
  pg_truncated :: bool

definition page_of :: "'a list \<Rightarrow> int \<Rightarrow> 'a audit_page" where
  "page_of rows limit = \<lparr>pg_items = take (nat limit) rows, pg_truncated = (length rows > nat limit)\<rparr>"

definition listInjections :: "audit_sizes \<Rightarrow> string \<Rightarrow> int \<Rightarrow> audit_db \<Rightarrow> audit_error + injection_attempt audit_page" where
  "listInjections sz sessionId limit db =
     and_then (assertIdentity sessionId ''sessionId'') (\<lambda>_.
     and_then (validateLimit limit) (\<lambda>_.
     let rows = sort_by (\<lambda>x y. created_le (iw_createdAt x, iw_attemptId x) (iw_createdAt y, iw_attemptId y))
       (filter (\<lambda>w. iw_sessionId w = sessionId) (ad_injections db)) in
     and_then (map_results (decodeInjectionRow sz) (take (nat limit) rows)) (\<lambda>items.
     Inr \<lparr>pg_items = items, pg_truncated = (length rows > nat limit)\<rparr>)))"

section \<open>Expansions\<close>

definition getMcpExpansion :: "string \<Rightarrow> audit_db \<Rightarrow> mcp_expansion option" where
  "getMcpExpansion i db = find (\<lambda>x. mx_expansionId x = i) (ad_expansions db)"

text \<open>
  The INSERT fails on a taken primary key, on a missing attempt (the foreign key), and on a payload
  that is too large.
\<close>

definition recordMcpExpansion :: "audit_sizes \<Rightarrow> mcp_expansion \<Rightarrow> audit_db
    \<Rightarrow> audit_error + mcp_expansion \<times> audit_db" where
  "recordMcpExpansion sz r db =
     and_then (validateExpansion r) (\<lambda>_.
     and_then (case mx_attemptId r of
         None \<Rightarrow> Inr ()
       | Some i \<Rightarrow> and_then (getInjection sz i db) (\<lambda>a. ensure (a \<noteq> None) EXPANSION_WITHOUT_ATTEMPT)) (\<lambda>_.
     if \<not> sz_expansion sz r > MAX_RECORD_BYTES \<and> getMcpExpansion (mx_expansionId r) db = None
     then Inr (r, db\<lparr>ad_expansions := ad_expansions db @ [r]\<rparr>)
     else case getMcpExpansion (mx_expansionId r) db of
       Some existing \<Rightarrow> (if existing = r then Inr (existing, db) else Inl EXPANSION_EXISTS)
     | None \<Rightarrow> Inl EXPANSION_EXISTS))"

definition listMcpExpansions :: "string \<Rightarrow> int \<Rightarrow> audit_db \<Rightarrow> audit_error + mcp_expansion audit_page" where
  "listMcpExpansions i limit db =
     and_then (assertIdentity i ''attemptId'') (\<lambda>_.
     and_then (validateLimit limit) (\<lambda>_.
     Inr (page_of (sort_by (\<lambda>x y. occurred_le (mx_occurredAt x, mx_expansionId x) (mx_occurredAt y, mx_expansionId y))
       (filter (\<lambda>x. mx_attemptId x = Some i) (ad_expansions db))) limit)))"

section \<open>Closure runs\<close>

definition getClosure :: "string \<Rightarrow> audit_db \<Rightarrow> closure_run_record option" where
  "getClosure i db = find (\<lambda>x. cu_closureRunId x = i) (ad_closures db)"

definition recordClosure :: "audit_sizes \<Rightarrow> closure_run_record \<Rightarrow> audit_db
    \<Rightarrow> audit_error + closure_run_record \<times> audit_db" where
  "recordClosure sz r db =
     and_then (validateClosure r) (\<lambda>_.
     if \<not> sz_closure sz r > MAX_RECORD_BYTES \<and> getClosure (cu_closureRunId r) db = None
     then Inr (r, db\<lparr>ad_closures := ad_closures db @ [r]\<rparr>)
     else case getClosure (cu_closureRunId r) db of
       Some existing \<Rightarrow> (if existing = r then Inr (existing, db) else Inl CLOSURE_RUN_EXISTS)
     | None \<Rightarrow> Inl CLOSURE_RUN_EXISTS)"

definition closures_of :: "string \<Rightarrow> audit_db \<Rightarrow> closure_run_record list" where
  "closures_of sessionId db =
     sort_by (\<lambda>x y. created_le (cu_createdAt x, cu_closureRunId x) (cu_createdAt y, cu_closureRunId y))
       (filter (\<lambda>x. cu_sessionId x = sessionId) (ad_closures db))"

definition listClosures :: "string \<Rightarrow> int \<Rightarrow> audit_db \<Rightarrow> audit_error + closure_run_record audit_page" where
  "listClosures sessionId limit db =
     and_then (assertIdentity sessionId ''sessionId'') (\<lambda>_.
     and_then (validateLimit limit) (\<lambda>_. Inr (page_of (closures_of sessionId db) limit)))"

section \<open>The store as a state machine\<close>

definition empty_audits :: audit_db where
  "empty_audits = \<lparr>ad_injections = [], ad_expansions = [], ad_closures = []\<rparr>"

inductive audit_step :: "audit_sizes \<Rightarrow> audit_db \<Rightarrow> audit_db \<Rightarrow> bool" for sz where
  Begins: "beginInjection sz r db = Inr (x, db') \<Longrightarrow> audit_step sz db db'"
| Completes: "completeInjection sz i n st reason t db = Inr (x, db') \<Longrightarrow> audit_step sz db db'"
| Acknowledges: "acknowledgeInjectionDelivery sz i n e t db = Inr (x, db') \<Longrightarrow> audit_step sz db db'"
| Expands: "recordMcpExpansion sz r db = Inr (y, db') \<Longrightarrow> audit_step sz db db'"
| Closes: "recordClosure sz u db = Inr (z, db') \<Longrightarrow> audit_step sz db db'"

end
