(* ===== verification/Orchestrator.thy ===== *)
theory Orchestrator
  imports RuntimeAudit
begin

text \<open>
  The context orchestrator (\<^verbatim>\<open>packages/context-orchestrator/src/orchestrator.ts\<close>, with the token
  estimate of \<^verbatim>\<open>packages/context-renderer/src/renderer.ts\<close>): which retrieved knowledge is disclosed to
  the agent, in which order and at which level of detail, under a token budget. The byte length of the
  rendered text of an envelope (\<open>oe_bytes\<close>) and \<open>localeCompare\<close> (\<open>oe_collate\<close>) are given. The set of
  reason codes is a list without duplicates, in insertion order; errors are values.
\<close>

section \<open>Data (domain/context.ts, types.ts)\<close>

datatype context_authority = BINDING_RULE | ACCEPTED_DECISION | VERIFIED_FACT | REFERENCE

datatype authority_summary = Single context_authority | MIXED | NO_AUTHORITY

datatype context_depth = DEPTH_NONE | DEPTH_POINTER | DEPTH_COMPACT | DEPTH_EVIDENCED | DEPTH_EPISODE

datatype context_evidence = EVIDENCE_NONE | EVIDENCE_POINTER | EVIDENCE_SUMMARY | EVIDENCE_EPISODE

record envelope_item =
  ei_id :: string
  ei_version :: int
  ei_subjectKey :: string
  ei_kind :: knowledge_kind
  ei_status :: knowledge_status
  ei_scope :: knowledge_scope
  ei_authority :: context_authority
  ei_detailLevel :: detail_level
  ei_title :: string
  ei_summary :: string
  ei_retrievalRank :: int
  ei_claimMode :: "claim_mode option"
  ei_scenarioId :: "string option"
  ei_applicability :: "string list option"
  ei_failurePaths :: "string list option"
  ei_symbols :: "string list option"
  ei_content :: "string option"
  ei_evidencePointers :: "string list option"
  ei_evidenceSummary :: "evidence_ref list option"
  ei_sourceEpisodes :: "string list option"

record envelope =
  en_runId :: string
  en_projectId :: "string option"
  en_taskId :: "string option"
  en_level :: detail_level
  en_breadth :: int
  en_depth :: context_depth
  en_authority :: authority_summary
  en_evidence :: context_evidence
  en_reasonCodes :: "string list"
  en_maxTokens :: int
  en_estimatedTokens :: int
  en_truncated :: bool
  en_disclosedItems :: int
  en_omittedItems :: int
  en_items :: "envelope_item list"
  en_taskContract :: "task_contract option"

text \<open>Of a reranked item and of the query context, what the orchestrator reads.\<close>

record reranked =
  rk_asset :: knowledge_asset
  rk_rank :: int
  rk_scopeMatched :: bool

record query_context =
  qc_project :: "project_context option"
  qc_taskId :: "string option"
  qc_paths :: "string list"
  qc_symbols :: "string list"

record injection_policy =
  ip_defaultLevel :: detail_level
  ip_defaultMaxTokens :: int
  ip_maxItems :: "detail_level \<Rightarrow> nat"
  ip_authorityOrder :: "context_authority list"

record context_signals =
  sg_risk :: "impact_level option"
  sg_ambiguous :: "bool option"
  sg_conflicting :: "bool option"

record feedback_hint =
  fh_scopeKey :: string
  fh_preferredLevel :: detail_level
  fh_sampleCount :: int
  fh_reasonCodes :: "string list"

record context_request =
  oq_runId :: string
  oq_traceId :: string
  oq_queryContext :: query_context
  oq_candidates :: "reranked list"
  oq_policy :: injection_policy
  oq_requestedLevel :: "detail_level option"
  oq_automatic :: "bool option"
  oq_explicitEpisodeExpansion :: "bool option"
  oq_maxTokens :: "int option"
  oq_signals :: "context_signals option"
  oq_taskContract :: "task_contract option"
  oq_feedback :: "feedback_hint option"
  oq_selectedScenarioIds :: "string list option"

record orchestrator_env =
  oe_bytes :: "envelope \<Rightarrow> string \<Rightarrow> int"
  oe_collate :: "string \<Rightarrow> string \<Rightarrow> int"

datatype orchestrator_error =
  RUN_ID_INVALID | TRACE_ID_INVALID | FEEDBACK_INVALID | SCENARIO_IDS_INVALID | MAX_TOKENS_INVALID
| TASK_CONTRACT_INVALID | ESTIMATE_NOT_CONVERGED | METADATA_EXCEEDS_BUDGET | ENVELOPE_SCHEMA_INVALID

section \<open>The token estimate (renderer.ts)\<close>

definition tokenEstimate :: "int \<Rightarrow> int" where
  "tokenEstimate n = max 1 \<lceil>(of_int n :: rat) / 3\<rceil>"

definition estimateAdditionalContextTokens :: "orchestrator_env \<Rightarrow> envelope \<Rightarrow> string \<Rightarrow> int" where
  "estimateAdditionalContextTokens e v traceId = tokenEstimate (oe_bytes e v traceId)"

fun converge :: "nat \<Rightarrow> orchestrator_env \<Rightarrow> envelope \<Rightarrow> string \<Rightarrow> orchestrator_error + envelope" where
  "converge 0 e current traceId = Inl ESTIMATE_NOT_CONVERGED"
| "converge (Suc n) e current traceId =
    (let estimated = estimateAdditionalContextTokens e current traceId in
     if estimated = en_estimatedTokens current then Inr current
     else converge n e (current\<lparr>en_estimatedTokens := estimated\<rparr>) traceId)"

definition withAdditionalContextTokenEstimate ::
  "orchestrator_env \<Rightarrow> envelope \<Rightarrow> string \<Rightarrow> orchestrator_error + envelope" where
  "withAdditionalContextTokenEstimate e v traceId = converge 10 e v traceId"

section \<open>Texts\<close>

definition js_text :: "string \<Rightarrow> nat \<Rightarrow> string" where
  "js_text s n = take n (js_trim s)"

text \<open>The length of the match of \<open>/^(.{1,300}?[.!?])(?:\s|$)/\<close>, \<open>k\<close> characters being behind.\<close>

fun sentence_scan :: "nat \<Rightarrow> string \<Rightarrow> nat option" where
  "sentence_scan k [] = None"
| "sentence_scan k (c # cs) =
    (if 1 \<le> k \<and> k \<le> 300 \<and> c \<in> set ''.!?'' \<and> (case cs of [] \<Rightarrow> True | d # _ \<Rightarrow> js_space d) then Some (Suc k)
     else if code_of c = 10 \<or> code_of c = 13 \<or> 300 \<le> k then None
     else sentence_scan (Suc k) cs)"

definition sentence :: "string \<Rightarrow> string" where
  "sentence s = (let normalized = js_trim s in
     js_trim (take (case sentence_scan 0 normalized of Some n \<Rightarrow> n | None \<Rightarrow> 300) normalized))"

section \<open>Priority\<close>

definition authority_of :: "reranked \<Rightarrow> context_authority" where
  "authority_of x = (let a = rk_asset x in
     if as_kind a = RULE \<or> as_kind a = REQUIREMENT then BINDING_RULE
     else if as_kind a = DECISION then ACCEPTED_DECISION
     else if as_kind a = FACT \<and> as_status a = VERIFIED then VERIFIED_FACT
     else REFERENCE)"

definition scopeScore :: "reranked \<Rightarrow> query_context \<Rightarrow> int" where
  "scopeScore x q = (case as_scope (rk_asset x) of
     TaskScope t _ _ \<Rightarrow> (if Some t = qc_taskId q then 7 else 0)
   | SymbolScope ss _ _ \<Rightarrow> (if list_ex (\<lambda>s. s \<in> set (qc_symbols q)) ss then 6 else 4)
   | ModuleScope ms _ _ \<Rightarrow>
       (if list_ex (\<lambda>m. list_ex (\<lambda>t. t = m \<or> starts_with (m @ ''/'') t) (qc_paths q)) ms then 5 else 4)
   | ProjectScope _ _ \<Rightarrow> 4 | UserScope _ \<Rightarrow> 3 | TeamScope _ \<Rightarrow> 2 | GlobalScope \<Rightarrow> 1)"

definition statusScore :: "knowledge_status \<Rightarrow> int" where
  "statusScore s = (if s = VERIFIED then 3 else if s = IMPLEMENTED then 2 else if s = ACCEPTED then 1 else 0)"

definition authorityScore :: "context_authority list \<Rightarrow> context_authority \<Rightarrow> int" where
  "authorityScore order a = (case find (\<lambda>(i, b). b = a) (rev (enumerate 0 order)) of
     None \<Rightarrow> 0 | Some (i, _) \<Rightarrow> int (length order) - int i)"

definition compare_candidates ::
  "orchestrator_env \<Rightarrow> query_context \<Rightarrow> injection_policy \<Rightarrow> reranked \<Rightarrow> reranked \<Rightarrow> int" where
  "compare_candidates e q p l r =
     js_or (scopeScore r q - scopeScore l q)
    (js_or (authorityScore (ip_authorityOrder p) (authority_of r) - authorityScore (ip_authorityOrder p) (authority_of l))
    (js_or (statusScore (as_status (rk_asset r)) - statusScore (as_status (rk_asset l)))
    (js_or (rk_rank l - rk_rank r)
           (oe_collate e (as_id (rk_asset l)) (as_id (rk_asset r))))))"

text \<open>The first binding rule is moved to the front.\<close>

definition binding_first :: "reranked list \<Rightarrow> reranked list" where
  "binding_first xs = (case dropWhile (\<lambda>x. authority_of x \<noteq> BINDING_RULE) xs of
     [] \<Rightarrow> xs
   | b # rest \<Rightarrow> b # takeWhile (\<lambda>x. authority_of x \<noteq> BINDING_RULE) xs @ rest)"

definition prioritize :: "orchestrator_env \<Rightarrow> reranked list \<Rightarrow> query_context \<Rightarrow> injection_policy \<Rightarrow> reranked list" where
  "prioritize e xs q p = binding_first (sort_by (\<lambda>l r. compare_candidates e q p l r \<le> 0) xs)"

section \<open>Items\<close>

definition common_item :: "reranked \<Rightarrow> detail_level \<Rightarrow> envelope_item" where
  "common_item x level = (let a = rk_asset x in
     \<lparr>ei_id = as_id a, ei_version = as_version a, ei_subjectKey = as_subjectKey a, ei_kind = as_kind a,
      ei_status = as_status a, ei_scope = as_scope a, ei_authority = authority_of x, ei_detailLevel = level,
      ei_title = js_text (as_title a) 500, ei_summary = sentence (as_summary a), ei_retrievalRank = rk_rank x,
      ei_claimMode = as_claimMode a, ei_scenarioId = map_option kl_scenarioId (as_locator a),
      ei_applicability = None, ei_failurePaths = None, ei_symbols = None, ei_content = None,
      ei_evidencePointers = None, ei_evidenceSummary = None, ei_sourceEpisodes = None\<rparr>)"

definition with_boundaries :: "knowledge_asset \<Rightarrow> envelope_item \<Rightarrow> envelope_item" where
  "with_boundaries a i = i\<lparr>
     ei_applicability := Some (map (\<lambda>s. js_text s 1000) (take 50 (as_applicability a))),
     ei_failurePaths := Some (map (\<lambda>s. js_text s 1000) (take 50 (as_nonApplicability a))),
     ei_symbols := Some (map (\<lambda>s. js_text s 1000) (take 100 (as_symbols a)))\<rparr>"

definition with_evidence :: "knowledge_asset \<Rightarrow> envelope_item \<Rightarrow> envelope_item" where
  "with_evidence a i = i\<lparr>ei_content := Some (take 100000 (as_body a)),
     ei_evidenceSummary := Some (take 100 (as_evidence a))\<rparr>"

definition itemFor :: "reranked \<Rightarrow> detail_level \<Rightarrow> envelope_item" where
  "itemFor x level = (let a = rk_asset x; common = common_item x level in
     if level = L1_POINTER then common
     else if level = L2_COMPACT then (with_boundaries a common)
       \<lparr>ei_evidencePointers := Some (uniq (map er_evidenceId (take 100 (as_evidence a))))\<rparr>
     else let evidenced = with_evidence a (with_boundaries a common) in
       if level = L3_EVIDENCED then evidenced
       else evidenced\<lparr>ei_sourceEpisodes := Some (uniq (take 100 (as_sourceEpisodes a)))\<rparr>)"

section \<open>Levels\<close>

fun level_index :: "detail_level \<Rightarrow> nat" where
  "level_index L0_NONE = 0"
| "level_index L1_POINTER = 1"
| "level_index L2_COMPACT = 2"
| "level_index L3_EVIDENCED = 3"
| "level_index L4_EPISODE = 4"

definition maxItems :: "detail_level \<Rightarrow> injection_policy \<Rightarrow> nat" where
  "maxItems level p = (if level = L0_NONE then 0
     else if level = L4_EPISODE then ip_maxItems p L3_EVIDENCED else ip_maxItems p level)"

fun levelProperties :: "detail_level \<Rightarrow> context_depth \<times> context_evidence" where
  "levelProperties L0_NONE = (DEPTH_NONE, EVIDENCE_NONE)"
| "levelProperties L1_POINTER = (DEPTH_POINTER, EVIDENCE_NONE)"
| "levelProperties L2_COMPACT = (DEPTH_COMPACT, EVIDENCE_POINTER)"
| "levelProperties L3_EVIDENCED = (DEPTH_EVIDENCED, EVIDENCE_SUMMARY)"
| "levelProperties L4_EPISODE = (DEPTH_EPISODE, EVIDENCE_EPISODE)"

definition highestDetailLevel :: "envelope_item list \<Rightarrow> detail_level \<Rightarrow> detail_level" where
  "highestDetailLevel items least = (if items = [] then least
     else foldl (\<lambda>highest i. if level_index (ei_detailLevel i) > level_index highest then ei_detailLevel i else highest)
       L0_NONE items)"

definition is_automatic :: "context_request \<Rightarrow> bool" where
  "is_automatic r = (case oq_automatic r of None \<Rightarrow> True | Some b \<Rightarrow> b)"

definition base_level :: "context_request \<Rightarrow> detail_level" where
  "base_level r = (case oq_requestedLevel r of Some l \<Rightarrow> l
   | None \<Rightarrow> (case oq_feedback r of Some h \<Rightarrow> fh_preferredLevel h | None \<Rightarrow> ip_defaultLevel (oq_policy r)))"

definition level_reason :: "context_request \<Rightarrow> string" where
  "level_reason r = (if oq_requestedLevel r \<noteq> None then ''REQUESTED_COMPLEXITY_LEVEL''
     else if oq_feedback r \<noteq> None then ''FEEDBACK_COMPLEXITY_LEVEL'' else ''DEFAULT_COMPLEXITY_LEVEL'')"

definition risky :: "context_request \<Rightarrow> bool" where
  "risky r = (case oq_signals r of None \<Rightarrow> False
     | Some s \<Rightarrow> sg_risk s = Some HIGH \<or> sg_ambiguous s = Some True \<or> sg_conflicting s = Some True)"

definition chooseLevel :: "context_request \<Rightarrow> string list \<Rightarrow> bool \<Rightarrow> detail_level \<times> string list" where
  "chooseLevel r reasons hasEligibleCandidates =
    (if \<not> hasEligibleCandidates then (L0_NONE, set_add reasons ''NO_RETRIEVED_KNOWLEDGE'')
     else
      let level = base_level r;
          reasons = set_add reasons (level_reason r);
          reasons = (case (oq_requestedLevel r, oq_feedback r) of
             (None, Some h) \<Rightarrow> foldl set_add reasons (fh_reasonCodes h) | _ \<Rightarrow> reasons);
          automatic = is_automatic r;
          forbidden = (level = L4_EPISODE \<and> (automatic \<or> oq_explicitEpisodeExpansion r \<noteq> Some True));
          level = (if forbidden then L3_EVIDENCED else level);
          reasons = add_when forbidden ''L4_AUTOMATIC_FORBIDDEN'' reasons;
          progressive = (automatic \<and> oq_requestedLevel r = None \<and> level_index level > level_index L1_POINTER);
          level = (if progressive then L1_POINTER else level);
          reasons = add_when progressive ''AUTOMATIC_PROGRESSIVE_DISCLOSURE'' reasons
      in (level, add_when (risky r) ''RISK_REQUIRES_PROGRESSIVE_EXPANSION'' reasons))"

definition contract_ok :: "task_contract \<Rightarrow> bool" where
  "contract_ok c \<longleftrightarrow> valid_text 500 (tk_contractId c) \<and> valid_text 2000 (tk_objective c)
     \<and> \<not> length (tk_gates c) > 20 \<and> \<not> length (tk_boundaries c) > 20
     \<and> list_all (valid_text 1000) (tk_gates c @ tk_boundaries c)"

definition contract :: "task_contract option \<Rightarrow> orchestrator_error + task_contract option" where
  "contract c = (case c of None \<Rightarrow> Inr None
   | Some x \<Rightarrow> if contract_ok x then Inr (Some x) else Inl TASK_CONTRACT_INVALID)"

definition authoritySummary :: "envelope_item list \<Rightarrow> authority_summary" where
  "authoritySummary items = (case uniq (map ei_authority items) of
     [] \<Rightarrow> NO_AUTHORITY | [a] \<Rightarrow> Single a | _ \<Rightarrow> MIXED)"

section \<open>Drafts\<close>

definition base_envelope :: "context_request \<Rightarrow> detail_level \<Rightarrow> string list \<Rightarrow> int \<Rightarrow> nat \<Rightarrow> envelope_item list
    \<Rightarrow> task_contract option \<Rightarrow> bool \<Rightarrow> envelope" where
  "base_envelope r level reasons maxTokens matching items c truncated =
     \<lparr>en_runId = oq_runId r, en_projectId = map_option pc_projectId (qc_project (oq_queryContext r)),
      en_taskId = qc_taskId (oq_queryContext r), en_level = level, en_breadth = int (length items),
      en_depth = fst (levelProperties level), en_authority = authoritySummary items,
      en_evidence = snd (levelProperties level), en_reasonCodes = reasons, en_maxTokens = maxTokens,
      en_estimatedTokens = 1, en_truncated = truncated, en_disclosedItems = int (length items),
      en_omittedItems = max 0 (int matching - int (length items)), en_items = items, en_taskContract = c\<rparr>"

definition draftEnvelope :: "orchestrator_env \<Rightarrow> context_request \<Rightarrow> detail_level \<Rightarrow> string list \<Rightarrow> int \<Rightarrow> nat
    \<Rightarrow> envelope_item list \<Rightarrow> task_contract option \<Rightarrow> bool \<Rightarrow> orchestrator_error + envelope" where
  "draftEnvelope e r level reasons maxTokens matching items c truncated =
     withAdditionalContextTokenEstimate e (base_envelope r level reasons maxTokens matching items c truncated) (oq_traceId r)"

section \<open>The request\<close>

definition expected_scope_key :: "query_context \<Rightarrow> string" where
  "expected_scope_key q = (case (qc_taskId q, qc_project q) of
     (Some t, p) \<Rightarrow> json_object ((''level'', json_quote ''TASK'')
       # (case p of None \<Rightarrow> [] | Some c \<Rightarrow> [(''projectId'', json_quote (pc_projectId c))]) @ [(''taskId'', json_quote t)])
   | (None, None) \<Rightarrow> json_object [(''level'', json_quote ''GLOBAL'')]
   | (None, Some c) \<Rightarrow> json_object [(''level'', json_quote ''PROJECT''), (''projectId'', json_quote (pc_projectId c))])"

definition feedback_ok :: "query_context \<Rightarrow> feedback_hint \<Rightarrow> bool" where
  "feedback_ok q h \<longleftrightarrow> \<not> (fh_scopeKey h \<noteq> expected_scope_key q
     \<or> fh_preferredLevel h \<notin> {L1_POINTER, L2_COMPACT, L3_EVIDENCED}
     \<or> \<not> safe_integer (fh_sampleCount h) \<or> fh_sampleCount h < 0
     \<or> length (fh_reasonCodes h) < 1 \<or> length (fh_reasonCodes h) > 10
     \<or> \<not> list_all (upper_code 99) (fh_reasonCodes h)
     \<or> fh_preferredLevel h = L1_POINTER
       \<and> (fh_sampleCount h < 2 \<or> ''IRRELEVANT_FEEDBACK_REDUCED_DEPTH'' \<notin> set (fh_reasonCodes h))
     \<or> fh_preferredLevel h = L3_EVIDENCED
       \<and> (fh_sampleCount h < 3 \<or> ''RELEVANT_AND_USED_FEEDBACK_INCREASED_DEPTH'' \<notin> set (fh_reasonCodes h)))"

definition scenario_ids_ok :: "string list \<Rightarrow> bool" where
  "scenario_ids_ok ids \<longleftrightarrow> \<not> (length ids > 20 \<or> \<not> distinct ids
     \<or> list_ex (\<lambda>i. \<not> valid_text 1000 i \<or> \<not> starts_with ''scenario:'' i) ids)"

definition token_limit :: "context_request \<Rightarrow> int" where
  "token_limit r = (let d = ip_defaultMaxTokens (oq_policy r) in
     min (case oq_maxTokens r of None \<Rightarrow> d | Some n \<Rightarrow> n) d)"

definition eligible_candidate :: "reranked \<Rightarrow> bool" where
  "eligible_candidate x \<longleftrightarrow> rk_scopeMatched x \<and> as_status (rk_asset x) \<in> {ACCEPTED, IMPLEMENTED, VERIFIED}"

section \<open>Selection\<close>

text \<open>The level of one item, and whether its scenario would have to be selected to disclose more.\<close>

definition wanted_level :: "context_request \<Rightarrow> detail_level \<Rightarrow> reranked \<Rightarrow> detail_level" where
  "wanted_level r selectedLevel c =
    (if selectedLevel = L1_POINTER \<and> is_automatic r \<and> authority_of c = BINDING_RULE then L2_COMPACT else selectedLevel)"

definition unselected_scenario :: "context_request \<Rightarrow> detail_level \<Rightarrow> reranked \<Rightarrow> bool" where
  "unselected_scenario r selectedLevel c = (case as_locator (rk_asset c) of
     None \<Rightarrow> False
   | Some l \<Rightarrow> wanted_level r selectedLevel c \<noteq> L1_POINTER \<and> kl_scenarioId l \<notin> set (opt_list (oq_selectedScenarioIds r)))"

definition item_level :: "context_request \<Rightarrow> detail_level \<Rightarrow> reranked \<Rightarrow> detail_level" where
  "item_level r selectedLevel c =
    (if unselected_scenario r selectedLevel c then L1_POINTER else wanted_level r selectedLevel c)"

text \<open>The loop: the items selected, the reasons, and whether the budget broke it off.\<close>

fun select_loop :: "orchestrator_env \<Rightarrow> context_request \<Rightarrow> int \<Rightarrow> nat \<Rightarrow> detail_level \<Rightarrow> reranked list \<Rightarrow> envelope_item list
    \<Rightarrow> string list \<Rightarrow> orchestrator_error + envelope_item list \<times> string list \<times> bool" where
  "select_loop e r maxTokens matching level [] output reasons = Inr (output, reasons, False)"
| "select_loop e r maxTokens matching level (c # cs) output reasons =
    (let reasons' = add_when (unselected_scenario r level c) ''SCENARIO_SELECTION_REQUIRED_FOR_EXPANSION'' reasons;
         items = output @ [itemFor c (item_level r level c)] in
     and_then (draftEnvelope e r (highestDetailLevel items level) reasons' maxTokens matching items None False) (\<lambda>trial.
     if en_estimatedTokens trial > maxTokens then Inr (output, reasons', True)
     else select_loop e r maxTokens matching level cs items reasons'))"

definition select_items :: "orchestrator_env \<Rightarrow> context_request \<Rightarrow> int \<Rightarrow> reranked list \<Rightarrow> detail_level \<Rightarrow> string list \<Rightarrow> bool
    \<Rightarrow> orchestrator_error + envelope_item list \<times> string list \<times> bool" where
  "select_items e r maxTokens candidates level reasons truncated =
     and_then (select_loop e r maxTokens (length candidates) level (take (maxItems level (oq_policy r)) candidates) [] reasons)
       (\<lambda>(output, reasons', broke). Inr (output, reasons', truncated \<or> broke \<or> length candidates > length output))"

text \<open>While the envelope exceeds the budget, the last item is dropped.\<close>

function shrink :: "orchestrator_env \<Rightarrow> context_request \<Rightarrow> int \<Rightarrow> nat \<Rightarrow> detail_level \<Rightarrow> envelope_item list \<Rightarrow> string list
    \<Rightarrow> envelope \<Rightarrow> orchestrator_error + envelope" where
  "shrink e r maxTokens matching level selected reasons v =
    (if en_estimatedTokens v > maxTokens \<and> selected \<noteq> [] then
       let selected' = butlast selected; reasons' = set_add reasons ''TOKEN_BUDGET_TRUNCATED'' in
       and_then (draftEnvelope e r (if selected' = [] then L0_NONE else level) reasons' maxTokens matching selected' None True)
         (\<lambda>v'. shrink e r maxTokens matching level selected' reasons' v')
     else Inr v)"
  by pat_completeness auto
termination
  by (relation "measure (\<lambda>(_, _, _, _, _, selected, _, _). length selected)") auto

declare shrink.simps [simp del]

section \<open>The schema of an envelope\<close>

definition scope_schema :: "knowledge_scope \<Rightarrow> bool" where
  "scope_schema s = (case s of
     TaskScope t _ _ \<Rightarrow> t \<noteq> []
   | SymbolScope ss p _ \<Rightarrow> p \<noteq> [] \<and> ss \<noteq> [] \<and> list_all (\<lambda>x. x \<noteq> []) ss
   | ModuleScope ms p _ \<Rightarrow> p \<noteq> [] \<and> ms \<noteq> [] \<and> list_all (\<lambda>x. x \<noteq> []) ms
   | ProjectScope p _ \<Rightarrow> p \<noteq> [] | UserScope u \<Rightarrow> u \<noteq> [] | TeamScope t \<Rightarrow> t \<noteq> [] | GlobalScope \<Rightarrow> True)"

definition texts_schema :: "nat \<Rightarrow> string list option \<Rightarrow> bool" where
  "texts_schema n v = (case v of None \<Rightarrow> True | Some xs \<Rightarrow> length xs \<le> n \<and> list_all (\<lambda>s. length s \<le> 1000) xs)"

definition ids_schema :: "string list option \<Rightarrow> bool" where
  "ids_schema v = (case v of None \<Rightarrow> True | Some xs \<Rightarrow> length xs \<le> 100 \<and> distinct xs \<and> list_all (\<lambda>s. s \<noteq> []) xs)"

definition detail_schema :: "envelope_item \<Rightarrow> bool" where
  "detail_schema i = (let bounds = (ei_applicability i \<noteq> None \<and> ei_failurePaths i \<noteq> None \<and> ei_symbols i \<noteq> None);
       evidenced = (ei_content i \<noteq> None \<and> ei_evidenceSummary i \<noteq> None) in
     case ei_detailLevel i of
       L0_NONE \<Rightarrow> False
     | L1_POINTER \<Rightarrow> ei_applicability i = None \<and> ei_failurePaths i = None \<and> ei_symbols i = None \<and> ei_content i = None
         \<and> ei_evidencePointers i = None \<and> ei_evidenceSummary i = None \<and> ei_sourceEpisodes i = None
     | L2_COMPACT \<Rightarrow> bounds \<and> ei_evidencePointers i \<noteq> None \<and> ei_content i = None \<and> ei_evidenceSummary i = None
         \<and> ei_sourceEpisodes i = None
     | L3_EVIDENCED \<Rightarrow> bounds \<and> evidenced \<and> ei_evidencePointers i = None \<and> ei_sourceEpisodes i = None
     | L4_EPISODE \<Rightarrow> bounds \<and> evidenced \<and> ei_sourceEpisodes i \<noteq> None \<and> ei_evidencePointers i = None)"

definition item_schema :: "envelope_item \<Rightarrow> bool" where
  "item_schema i \<longleftrightarrow> ei_id i \<noteq> [] \<and> 1 \<le> ei_version i \<and> ei_subjectKey i \<noteq> []
     \<and> ei_status i \<in> {ACCEPTED, IMPLEMENTED, VERIFIED} \<and> scope_schema (ei_scope i)
     \<and> ei_title i \<noteq> [] \<and> length (ei_title i) \<le> 500 \<and> ei_summary i \<noteq> [] \<and> length (ei_summary i) \<le> 1000
     \<and> 1 \<le> ei_retrievalRank i \<and> ei_retrievalRank i \<le> 100
     \<and> (case ei_scenarioId i of None \<Rightarrow> True | Some s \<Rightarrow> length s \<le> 1020 \<and> starts_with ''scenario:'' s)
     \<and> texts_schema 50 (ei_applicability i) \<and> texts_schema 50 (ei_failurePaths i) \<and> texts_schema 100 (ei_symbols i)
     \<and> (case ei_content i of None \<Rightarrow> True | Some s \<Rightarrow> length s \<le> 100000)
     \<and> ids_schema (ei_evidencePointers i)
     \<and> (case ei_evidenceSummary i of None \<Rightarrow> True
        | Some xs \<Rightarrow> length xs \<le> 100 \<and> list_all (\<lambda>x. er_evidenceId x \<noteq> []) xs)
     \<and> ids_schema (ei_sourceEpisodes i) \<and> ei_sourceEpisodes i \<noteq> Some [] \<and> detail_schema i"

definition schema_string :: "nat \<Rightarrow> string \<Rightarrow> bool" where
  "schema_string n s \<longleftrightarrow> s \<noteq> [] \<and> length s \<le> n"

definition contract_schema :: "task_contract \<Rightarrow> bool" where
  "contract_schema c \<longleftrightarrow> schema_string 500 (tk_contractId c) \<and> schema_string 2000 (tk_objective c)
     \<and> length (tk_gates c) \<le> 20 \<and> list_all (schema_string 1000) (tk_gates c)
     \<and> length (tk_boundaries c) \<le> 20 \<and> list_all (schema_string 1000) (tk_boundaries c)"

definition id_text_schema :: "string option \<Rightarrow> bool" where
  "id_text_schema v = (case v of None \<Rightarrow> True | Some s \<Rightarrow> s \<noteq> [] \<and> length s \<le> 500)"

definition parseContextEnvelope :: "envelope \<Rightarrow> bool" where
  "parseContextEnvelope v \<longleftrightarrow> en_runId v \<noteq> [] \<and> length (en_runId v) \<le> 500
     \<and> id_text_schema (en_projectId v) \<and> id_text_schema (en_taskId v)
     \<and> 0 \<le> en_breadth v \<and> en_breadth v \<le> 8
     \<and> 1 \<le> length (en_reasonCodes v) \<and> length (en_reasonCodes v) \<le> 20 \<and> distinct (en_reasonCodes v)
     \<and> list_all (upper_code 99) (en_reasonCodes v)
     \<and> 1 \<le> en_maxTokens v \<and> en_maxTokens v \<le> 4000 \<and> 1 \<le> en_estimatedTokens v \<and> en_estimatedTokens v \<le> 4000
     \<and> 0 \<le> en_disclosedItems v \<and> en_disclosedItems v \<le> 8 \<and> 0 \<le> en_omittedItems v
     \<and> length (en_items v) \<le> 8 \<and> list_all item_schema (en_items v)
     \<and> (case en_taskContract v of None \<Rightarrow> True | Some c \<Rightarrow> contract_schema c)"

section \<open>orchestrate\<close>

definition validate_request :: "context_request \<Rightarrow> orchestrator_error + unit" where
  "validate_request r =
     and_then (ensure (valid_text 500 (oq_runId r)) RUN_ID_INVALID) (\<lambda>_.
     and_then (ensure (safe_id (oq_traceId r)) TRACE_ID_INVALID) (\<lambda>_.
     and_then (ensure (case oq_feedback r of None \<Rightarrow> True | Some h \<Rightarrow> feedback_ok (oq_queryContext r) h) FEEDBACK_INVALID) (\<lambda>_.
     and_then (ensure (scenario_ids_ok (opt_list (oq_selectedScenarioIds r))) SCENARIO_IDS_INVALID) (\<lambda>_.
     ensure (\<not> (\<not> safe_integer (token_limit r) \<or> token_limit r < 1 \<or> token_limit r > 4000)) MAX_TOKENS_INVALID))))"

definition ranked_candidates :: "orchestrator_env \<Rightarrow> context_request \<Rightarrow> reranked list" where
  "ranked_candidates e r = prioritize e (filter eligible_candidate (oq_candidates r)) (oq_queryContext r) (oq_policy r)"

text \<open>A level at which the budget admits nothing gives way to pointers, and pointers to nothing.\<close>

definition fit_level :: "orchestrator_env \<Rightarrow> context_request \<Rightarrow> reranked list \<Rightarrow> detail_level
    \<Rightarrow> envelope_item list \<times> string list \<times> bool
    \<Rightarrow> orchestrator_error + detail_level \<times> envelope_item list \<times> string list \<times> bool" where
  "fit_level e r candidates level s =
    (let down = (level \<noteq> L0_NONE \<and> candidates \<noteq> [] \<and> fst s = [] \<and> level \<noteq> L1_POINTER);
         level = (if down then L1_POINTER else level);
         reasons = add_when down ''TOKEN_BUDGET_LEVEL_DOWNGRADE'' (fst (snd s)) in
     and_then (if down then select_items e r (token_limit r) candidates L1_POINTER reasons (snd (snd s)) else Inr s)
       (\<lambda>(selected, reasons, truncated).
     let exhausted = (level \<noteq> L0_NONE \<and> candidates \<noteq> [] \<and> selected = []);
         level = (if exhausted then L0_NONE else level);
         reasons = add_when exhausted ''TOKEN_BUDGET_EXHAUSTED'' reasons in
     Inr (highestDetailLevel selected level, selected, reasons, truncated)))"

text \<open>The items, with the level, the reasons and whether something was left out.\<close>

definition selection :: "orchestrator_env \<Rightarrow> context_request
    \<Rightarrow> orchestrator_error + detail_level \<times> envelope_item list \<times> string list \<times> bool" where
  "selection e r =
    (let (level, reasons) = chooseLevel r [] (filter eligible_candidate (oq_candidates r) \<noteq> []);
         candidates = ranked_candidates e r;
         reasons = add_when (length candidates \<noteq> length (oq_candidates r)) ''INELIGIBLE_CANDIDATE_IGNORED'' reasons in
     and_then (if level \<noteq> L0_NONE then select_items e r (token_limit r) candidates level reasons False
               else Inr ([], reasons, False)) (fit_level e r candidates level))"

text \<open>The task contract gives way to knowledge and to the budget.\<close>

definition place_contract :: "orchestrator_env \<Rightarrow> context_request \<Rightarrow> nat \<Rightarrow> detail_level \<Rightarrow> envelope_item list \<Rightarrow> string list \<Rightarrow> bool
    \<Rightarrow> orchestrator_error + task_contract option \<times> string list \<times> bool" where
  "place_contract e r matching level selected reasons truncated =
     and_then (contract (oq_taskContract r)) (\<lambda>c.
     case c of
       None \<Rightarrow> Inr (None, reasons, truncated)
     | Some x \<Rightarrow>
       (if matching > 0 \<and> selected = []
        then Inr (None, set_add reasons ''TASK_CONTRACT_OMITTED_FOR_DYNAMIC_KNOWLEDGE'', True)
        else and_then (draftEnvelope e r level reasons (token_limit r) matching selected (Some x) truncated) (\<lambda>trial.
          if en_estimatedTokens trial > token_limit r
          then Inr (None, set_add reasons ''TASK_CONTRACT_OMITTED_BY_BUDGET'', True)
          else Inr (Some x, reasons, truncated))))"

text \<open>The draft, without the reason of its level where that brings it under the budget, then shrunk.\<close>

definition fit_budget :: "orchestrator_env \<Rightarrow> context_request \<Rightarrow> detail_level \<Rightarrow> envelope_item list
    \<Rightarrow> task_contract option \<times> string list \<times> bool \<Rightarrow> orchestrator_error + envelope" where
  "fit_budget e r level selected p =
    (let c = fst p; reasons = fst (snd p); truncated = snd (snd p); m = token_limit r; n = length (ranked_candidates e r) in
     and_then (draftEnvelope e r level reasons m n selected c truncated) (\<lambda>v.
     if en_estimatedTokens v > m \<and> c = None \<and> ''TASK_CONTRACT_OMITTED_BY_BUDGET'' \<in> set reasons
     then let reasons = removeAll (level_reason r) reasons in
       and_then (draftEnvelope e r level reasons m n selected None truncated) (shrink e r m n level selected reasons)
     else shrink e r m n level selected reasons v))"

definition orchestrate :: "orchestrator_env \<Rightarrow> context_request \<Rightarrow> orchestrator_error + envelope" where
  "orchestrate e r =
     and_then (validate_request r) (\<lambda>_.
     and_then (selection e r) (\<lambda>(level, selected, reasons, truncated).
     and_then (place_contract e r (length (ranked_candidates e r)) level selected reasons truncated) (\<lambda>p.
     and_then (fit_budget e r level selected p) (\<lambda>v.
     and_then (ensure (\<not> en_estimatedTokens v > token_limit r) METADATA_EXCEEDS_BUDGET) (\<lambda>_.
     and_then (ensure (parseContextEnvelope v) ENVELOPE_SCHEMA_INVALID) (\<lambda>_. Inr v))))))"

end
