(* ===== verification/OrchestratorProps.thy ===== *)
theory OrchestratorProps
  imports Orchestrator
begin

text \<open>
  The properties of the context orchestrator: what is disclosed fits the budget, is taken from the head
  of the ranking of eligible candidates, and is no more detailed than the request allows.
\<close>

section \<open>Drafts\<close>

lemma converge_fixed:
  "converge n e v t = Inr w \<Longrightarrow> (\<exists>k. w = v\<lparr>en_estimatedTokens := k\<rparr>) \<and> estimateAdditionalContextTokens e w t = en_estimatedTokens w"
proof (induction n arbitrary: v)
  case (Suc n)
  show ?case
  proof (cases "estimateAdditionalContextTokens e v t = en_estimatedTokens v")
    case True
    then have "w = v" using Suc.prems by simp
    then show ?thesis using True by (auto intro: exI[of _ "en_estimatedTokens v"])
  next
    case False
    then have "converge n e (v\<lparr>en_estimatedTokens := estimateAdditionalContextTokens e v t\<rparr>) t = Inr w"
      using Suc.prems by (simp add: Let_def)
    from Suc.IH[OF this] show ?thesis by auto
  qed
qed simp

text \<open>An envelope drafted for items none of which is more detailed than its level.\<close>

definition drafted :: "orchestrator_env \<Rightarrow> context_request \<Rightarrow> envelope \<Rightarrow> bool" where
  "drafted e r v \<longleftrightarrow> (\<exists>level rs c t. draftEnvelope e r level rs (token_limit r) (length (ranked_candidates e r)) (en_items v) c t
     = Inr v \<and> list_all (\<lambda>i. level_index (ei_detailLevel i) \<le> level_index level) (en_items v))"

lemma draft_fields:
  assumes "draftEnvelope e r level rs m n items c t = Inr v"
  shows "en_items v = items" "en_level v = level" "en_maxTokens v = m" "en_taskContract v = c"
    "en_disclosedItems v = int (length items)" "en_omittedItems v = max 0 (int n - int (length items))"
    "en_breadth v = int (length items)" "estimateAdditionalContextTokens e v (oq_traceId r) = en_estimatedTokens v"
  using converge_fixed[OF assms[unfolded draftEnvelope_def withAdditionalContextTokenEstimate_def]]
  by (auto simp: base_envelope_def)

lemma draftedI:
  assumes "draftEnvelope e r level rs (token_limit r) (length (ranked_candidates e r)) items c t = Inr v"
    and "list_all (\<lambda>i. level_index (ei_detailLevel i) \<le> level_index level) items"
  shows "drafted e r v"
  using assms draft_fields(1)[OF assms(1)] unfolding drafted_def by blast

lemma draftedD:
  assumes "drafted e r v"
  shows "en_maxTokens v = token_limit r" "en_disclosedItems v = int (length (en_items v))"
    "en_omittedItems v = max 0 (int (length (ranked_candidates e r)) - int (length (en_items v)))"
    "estimateAdditionalContextTokens e v (oq_traceId r) = en_estimatedTokens v"
    "list_all (\<lambda>i. level_index (ei_detailLevel i) \<le> level_index (en_level v)) (en_items v)"
proof -
  obtain level rs c t where d: "draftEnvelope e r level rs (token_limit r) (length (ranked_candidates e r)) (en_items v) c t = Inr v"
    and l: "list_all (\<lambda>i. level_index (ei_detailLevel i) \<le> level_index level) (en_items v)"
    using assms unfolding drafted_def by blast
  note f = draft_fields[OF d]
  show "en_maxTokens v = token_limit r" by (rule f(3))
  show "en_disclosedItems v = int (length (en_items v))" by (rule f(5))
  show "en_omittedItems v = max 0 (int (length (ranked_candidates e r)) - int (length (en_items v)))" by (rule f(6))
  show "estimateAdditionalContextTokens e v (oq_traceId r) = en_estimatedTokens v" by (rule f(8))
  show "list_all (\<lambda>i. level_index (ei_detailLevel i) \<le> level_index (en_level v)) (en_items v)" using l f(2) by simp
qed

section \<open>Levels\<close>

lemma highest_level:
  "level_index (foldl (\<lambda>highest i. if level_index (ei_detailLevel i) > level_index highest then ei_detailLevel i else highest) l items)
     \<ge> level_index l
   \<and> list_all (\<lambda>i. level_index (ei_detailLevel i) \<le> level_index
       (foldl (\<lambda>highest i. if level_index (ei_detailLevel i) > level_index highest then ei_detailLevel i else highest) l items)) items"
proof (induction items arbitrary: l)
  case (Cons i items)
  let ?l = "if level_index (ei_detailLevel i) > level_index l then ei_detailLevel i else l"
  have "level_index l \<le> level_index ?l" "level_index (ei_detailLevel i) \<le> level_index ?l" by auto
  then show ?case using Cons.IH[of ?l] by (auto intro: order_trans)
qed simp

lemma highestDetailLevel_bounds:
  "list_all (\<lambda>i. level_index (ei_detailLevel i) \<le> level_index (highestDetailLevel items l)) items"
  using highest_level[of L0_NONE items] by (cases "items = []") (simp_all add: highestDetailLevel_def)

lemma itemFor_fields:
  "ei_detailLevel (itemFor c l) = l" "ei_authority (itemFor c l) = authority_of c" "ei_status (itemFor c l) = as_status (rk_asset c)"
  by (simp_all add: itemFor_def common_item_def with_boundaries_def with_evidence_def Let_def)

section \<open>Selection\<close>

abbreviation item_at :: "context_request \<Rightarrow> detail_level \<Rightarrow> reranked \<Rightarrow> envelope_item" where
  "item_at r l c \<equiv> itemFor c (item_level r l c)"

lemma select_loop_prefix:
  "select_loop e r m n l cs out rs = Inr (out', rs', b) \<Longrightarrow>
     \<exists>k. out' = out @ map (item_at r l) (take k cs)"
proof (induction cs arbitrary: out rs)
  case (Cons c cs)
  let ?rs = "add_when (unselected_scenario r l c) ''SCENARIO_SELECTION_REQUIRED_FOR_EXPANSION'' rs"
  let ?items = "out @ [item_at r l c]"
  obtain trial where t: "draftEnvelope e r (highestDetailLevel ?items l) ?rs m n ?items None False = Inr trial"
    using Cons.prems by (auto simp: Let_def)
  show ?case
  proof (cases "en_estimatedTokens trial > m")
    case True
    then have "out' = out" using Cons.prems t by (simp add: Let_def)
    then show ?thesis by (intro exI[of _ 0]) simp
  next
    case False
    then have "select_loop e r m n l cs ?items ?rs = Inr (out', rs', b)" using Cons.prems t by (simp add: Let_def)
    from Cons.IH[OF this] obtain k where "out' = ?items @ map (item_at r l) (take k cs)" by blast
    then show ?thesis by (intro exI[of _ "Suc k"]) simp
  qed
qed simp

lemma select_items_prefix:
  assumes "select_items e r m cs l rs t = Inr (output, rs', t')"
  shows "\<exists>k. output = map (item_at r l) (take k cs) \<and> k \<le> maxItems l (oq_policy r)"
proof -
  obtain b rs1 where "select_loop e r m (length cs) l (take (maxItems l (oq_policy r)) cs) [] rs = Inr (output, rs1, b)"
    using assms by (auto simp: select_items_def)
  from select_loop_prefix[OF this] obtain k where "output = map (item_at r l) (take k (take (maxItems l (oq_policy r)) cs))"
    by auto
  then show ?thesis by (intro exI[of _ "min k (maxItems l (oq_policy r))"]) (simp add: take_map)
qed

text \<open>Items that are the head of the ranking at the chosen level, or all at the pointer level.\<close>

definition chosen_level :: "context_request \<Rightarrow> detail_level" where
  "chosen_level r = fst (chooseLevel r [] (filter eligible_candidate (oq_candidates r) \<noteq> []))"

definition head_of_ranking :: "orchestrator_env \<Rightarrow> context_request \<Rightarrow> envelope_item list \<Rightarrow> bool" where
  "head_of_ranking e r items \<longleftrightarrow> (\<exists>l k. items = map (item_at r l) (take k (ranked_candidates e r)) \<and> k \<le> maxItems l (oq_policy r)
     \<and> l \<noteq> L0_NONE \<and> (l = chosen_level r \<or> l = L1_POINTER)) \<or> items = []"

lemma head_of_ranking_take:
  assumes "head_of_ranking e r items"
  shows "head_of_ranking e r (take j items)"
proof (cases "items = []")
  case False
  then obtain l k where i: "items = map (item_at r l) (take k (ranked_candidates e r))" "k \<le> maxItems l (oq_policy r)"
    "l \<noteq> L0_NONE" "l = chosen_level r \<or> l = L1_POINTER" using assms by (auto simp: head_of_ranking_def)
  then have "take j items = map (item_at r l) (take (min j k) (ranked_candidates e r))" by (simp add: take_map)
  moreover have "min j k \<le> maxItems l (oq_policy r)" using i(2) by simp
  ultimately show ?thesis using i(3,4) unfolding head_of_ranking_def by blast
qed (simp add: head_of_ranking_def)

lemma head_of_rankingI:
  assumes "select_items e r m (ranked_candidates e r) l rs t = Inr (output, rs', t')" and "l \<noteq> L0_NONE"
    and "l = chosen_level r \<or> l = L1_POINTER"
  shows "head_of_ranking e r output"
  using select_items_prefix[OF assms(1)] assms(2,3) unfolding head_of_ranking_def by blast

lemma fit_level_items:
  assumes "fit_level e r (ranked_candidates e r) level0 s = Inr (level, selected, rs, t)" and "head_of_ranking e r (fst s)"
  shows "head_of_ranking e r selected \<and> list_all (\<lambda>i. level_index (ei_detailLevel i) \<le> level_index level) selected"
proof -
  have "head_of_ranking e r selected" "\<exists>l. level = highestDetailLevel selected l"
    using assms head_of_rankingI[of e r _ L1_POINTER] by (auto simp: fit_level_def Let_def split: if_splits)
  then show ?thesis using highestDetailLevel_bounds by blast
qed

lemma selection_items:
  assumes "selection e r = Inr (level, selected, rs, t)"
  shows "head_of_ranking e r selected \<and> list_all (\<lambda>i. level_index (ei_detailLevel i) \<le> level_index level) selected"
proof -
  let ?cs = "ranked_candidates e r"
  obtain level0 r0 where cl: "chooseLevel r [] (filter eligible_candidate (oq_candidates r) \<noteq> []) = (level0, r0)" by fastforce
  then have level0: "level0 = chosen_level r" by (simp add: chosen_level_def)
  let ?rs = "add_when (length ?cs \<noteq> length (oq_candidates r)) ''INELIGIBLE_CANDIDATE_IGNORED'' r0"
  obtain s where one: "(if level0 \<noteq> L0_NONE then select_items e r (token_limit r) ?cs level0 ?rs False else Inr ([], ?rs, False)) = Inr s"
    and two: "fit_level e r ?cs level0 s = Inr (level, selected, rs, t)"
    using assms unfolding selection_def cl by (auto simp: Let_def)
  have "head_of_ranking e r (fst s)"
    using one head_of_rankingI[of e r "token_limit r" level0 ?rs False "fst s" "fst (snd s)" "snd (snd s)"] level0
    by (auto simp: head_of_ranking_def split: if_splits)
  then show ?thesis by (rule fit_level_items[OF two])
qed

section \<open>The envelope\<close>

lemma shrink_envelope:
  "shrink e r (token_limit r) (length (ranked_candidates e r)) level selected rs v = Inr w \<Longrightarrow>
     drafted e r v \<Longrightarrow> en_items v = selected \<Longrightarrow> head_of_ranking e r selected \<Longrightarrow>
     list_all (\<lambda>i. level_index (ei_detailLevel i) \<le> level_index level) selected \<Longrightarrow>
     drafted e r w \<and> head_of_ranking e r (en_items w) \<and> (w = v \<or> en_taskContract w = None)"
proof (induction "length selected" arbitrary: selected rs v)
  case 0
  then have "w = v" by (simp add: shrink.simps)
  then show ?case using 0 by simp
next
  case (Suc n)
  show ?case
  proof (cases "en_estimatedTokens v > token_limit r \<and> selected \<noteq> []")
    case False
    then have "w = v" using Suc.prems(1) by (subst (asm) shrink.simps) auto
    then show ?thesis using Suc.prems by simp
  next
    case True
    let ?sel = "butlast selected" and ?rs = "set_add rs ''TOKEN_BUDGET_TRUNCATED''"
    let ?level = "if ?sel = [] then L0_NONE else level"
    obtain v' where v': "draftEnvelope e r ?level ?rs (token_limit r) (length (ranked_candidates e r)) ?sel None True = Inr v'"
      and w: "shrink e r (token_limit r) (length (ranked_candidates e r)) level ?sel ?rs v' = Inr w"
      using Suc.prems(1) True by (subst (asm) shrink.simps) (auto simp: Let_def)
    have bound: "list_all (\<lambda>i. level_index (ei_detailLevel i) \<le> level_index level) ?sel"
      using Suc.prems(5) by (auto simp: list_all_iff dest: in_set_butlastD)
    have d: "drafted e r v'" by (rule draftedI[OF v']) (use bound in auto)
    have "head_of_ranking e r ?sel" using head_of_ranking_take[OF Suc.prems(4)] by (simp add: butlast_conv_take)
    moreover have "n = length ?sel" using Suc.hyps(2) by simp
    ultimately have "drafted e r w \<and> head_of_ranking e r (en_items w) \<and> (w = v' \<or> en_taskContract w = None)"
      by (intro Suc.hyps(1)[OF _ w d draft_fields(1)[OF v'] _ bound])
    then show ?thesis using draft_fields(4)[OF v'] by auto
  qed
qed

lemma place_contract_cases:
  assumes "place_contract e r n level selected rs t = Inr (c, rs', t')"
  shows "c = None \<or> (\<exists>x. c = Some x \<and> oq_taskContract r = Some x \<and> contract_ok x \<and> (n = 0 \<or> selected \<noteq> []))"
  using assms by (auto simp: place_contract_def contract_def split: option.splits if_splits)

lemma fit_budget_envelope:
  assumes "fit_budget e r level selected p = Inr v" and "head_of_ranking e r selected"
    and "list_all (\<lambda>i. level_index (ei_detailLevel i) \<le> level_index level) selected"
  shows "drafted e r v \<and> head_of_ranking e r (en_items v)
    \<and> (en_taskContract v = None \<or> en_taskContract v = fst p \<and> en_items v = selected)"
proof -
  let ?m = "token_limit r" and ?n = "length (ranked_candidates e r)"
  obtain rs c t w where d: "draftEnvelope e r level rs ?m ?n selected c t = Inr w" "c = fst p \<or> c = None"
    and sh: "shrink e r ?m ?n level selected rs w = Inr v"
    using assms(1) by (auto simp: fit_budget_def Let_def split: if_splits)
  have i: "en_items w = selected" "en_taskContract w = c" using draft_fields[OF d(1)] by simp_all
  from shrink_envelope[OF sh draftedI[OF d(1) assms(3)] i(1) assms(2,3)] show ?thesis using d(2) i by auto
qed

lemma orchestrate_shape:
  assumes "orchestrate e r = Inr v"
  shows "drafted e r v" "head_of_ranking e r (en_items v)" "validate_request r = Inr ()" "parseContextEnvelope v"
    "en_estimatedTokens v \<le> token_limit r"
    "\<forall>x. en_taskContract v = Some x \<longrightarrow> oq_taskContract r = Some x \<and> contract_ok x
       \<and> (ranked_candidates e r = [] \<or> en_items v \<noteq> [])"
proof -
  obtain level selected rs t c rs2 t2 where
    s: "selection e r = Inr (level, selected, rs, t)"
    and p: "place_contract e r (length (ranked_candidates e r)) level selected rs t = Inr (c, rs2, t2)"
    and f: "fit_budget e r level selected (c, rs2, t2) = Inr v"
    and fin: "\<not> en_estimatedTokens v > token_limit r" "parseContextEnvelope v" "validate_request r = Inr ()"
    using assms unfolding orchestrate_def by (auto split: prod.splits)
  note sel = selection_items[OF s]
  note b = fit_budget_envelope[OF f conjunct1[OF sel] conjunct2[OF sel]]
  then show "drafted e r v" "head_of_ranking e r (en_items v)" by blast+
  show "validate_request r = Inr ()" "parseContextEnvelope v" "en_estimatedTokens v \<le> token_limit r" using fin by simp_all
  show "\<forall>x. en_taskContract v = Some x \<longrightarrow> oq_taskContract r = Some x \<and> contract_ok x
       \<and> (ranked_candidates e r = [] \<or> en_items v \<noteq> [])"
    using place_contract_cases[OF p] b by auto
qed

section \<open>The ranking\<close>

lemma binding_first_mset: "set (binding_first xs) = set xs \<and> length (binding_first xs) = length xs"
proof (cases "dropWhile (\<lambda>x. authority_of x \<noteq> BINDING_RULE) xs")
  case (Cons b rest)
  let ?P = "\<lambda>x. authority_of x \<noteq> BINDING_RULE"
  have xs: "xs = takeWhile ?P xs @ b # rest" using Cons takeWhile_dropWhile_id[of ?P xs] by simp
  have bf: "binding_first xs = b # takeWhile ?P xs @ rest" using Cons by (simp add: binding_first_def)
  have "set xs = set (takeWhile ?P xs @ b # rest)" "length xs = length (takeWhile ?P xs @ b # rest)" using xs by metis+
  then show ?thesis unfolding bf by auto
next
  case Nil
  show ?thesis unfolding binding_first_def Nil by simp
qed

lemma binding_first_head:
  assumes "x \<in> set xs" and "authority_of x = BINDING_RULE"
  shows "authority_of (hd (binding_first xs)) = BINDING_RULE"
proof -
  let ?P = "\<lambda>x. authority_of x \<noteq> BINDING_RULE"
  have "dropWhile ?P xs \<noteq> []" using assms by (auto simp: dropWhile_eq_Nil_conv)
  then obtain b rest where b: "dropWhile ?P xs = b # rest" by (cases "dropWhile ?P xs") auto
  moreover have "\<not> ?P b" using hd_dropWhile[of ?P xs] b by simp
  ultimately show ?thesis by (simp add: binding_first_def)
qed

lemma ranked_set:
  "set (ranked_candidates e r) = {c \<in> set (oq_candidates r). eligible_candidate c}"
  "length (ranked_candidates e r) = length (filter eligible_candidate (oq_candidates r))"
  by (auto simp: ranked_candidates_def prioritize_def binding_first_mset)

section \<open>The chosen level\<close>

lemma chosen_level_bounds:
  "chosen_level r = L4_EPISODE \<Longrightarrow> \<not> is_automatic r \<and> oq_explicitEpisodeExpansion r = Some True"
  "is_automatic r \<Longrightarrow> oq_requestedLevel r = None \<Longrightarrow> chosen_level r = L0_NONE \<or> chosen_level r = L1_POINTER"
proof -
  have c: "chosen_level r = (if filter eligible_candidate (oq_candidates r) = [] then L0_NONE
    else let l = base_level r; l = (if l = L4_EPISODE \<and> (is_automatic r \<or> oq_explicitEpisodeExpansion r \<noteq> Some True) then L3_EVIDENCED else l)
      in if is_automatic r \<and> oq_requestedLevel r = None \<and> level_index l > level_index L1_POINTER then L1_POINTER else l)"
    by (simp add: chosen_level_def chooseLevel_def Let_def)
  show "chosen_level r = L4_EPISODE \<Longrightarrow> \<not> is_automatic r \<and> oq_explicitEpisodeExpansion r = Some True"
    unfolding c by (auto simp: Let_def split: if_splits)
  show "is_automatic r \<Longrightarrow> oq_requestedLevel r = None \<Longrightarrow> chosen_level r = L0_NONE \<or> chosen_level r = L1_POINTER"
    unfolding c by (cases "base_level r") (auto simp: Let_def)
qed

lemma item_level_cases:
  "item_level r l c = L1_POINTER \<or> item_level r l c = l
     \<or> (item_level r l c = L2_COMPACT \<and> l = L1_POINTER \<and> authority_of c = BINDING_RULE)"
  by (auto simp: item_level_def wanted_level_def)

lemma item_level_scenario:
  "as_locator (rk_asset c) = Some x \<Longrightarrow> item_level r l c \<noteq> L1_POINTER \<Longrightarrow> kl_scenarioId x \<in> set (opt_list (oq_selectedScenarioIds r))"
  by (auto simp: item_level_def unselected_scenario_def split: if_splits)

section \<open>Example\<close>

definition orch_asset :: "string \<Rightarrow> knowledge_kind \<Rightarrow> knowledge_asset" where
  "orch_asset i k = \<lparr>as_schemaVersion = 1, as_id = i, as_subjectKey = i, as_kind = k, as_scope = GlobalScope,
     as_version = 1, as_status = VERIFIED, as_title = i, as_summary = ''Use it. Not'', as_body = ''b'', as_aliases = [],
     as_keywords = [], as_applicability = [], as_nonApplicability = [], as_symbols = [], as_relations = [],
     as_evidence = [], as_confidence = 1, as_sourceEpisodes = [], as_contentHash = ''h'', as_codeFingerprint = None,
     as_correlationId = ''c'', as_createdAt = Iso 0, as_updatedAt = Iso 0, as_claimMode = None, as_locator = None\<rparr>"

definition orch_request :: context_request where
  "orch_request = \<lparr>oq_runId = ''run'', oq_traceId = ''trace'',
     oq_queryContext = \<lparr>qc_project = None, qc_taskId = None, qc_paths = [], qc_symbols = []\<rparr>,
     oq_candidates = [\<lparr>rk_asset = orch_asset ''fact'' FACT, rk_rank = 1, rk_scopeMatched = True\<rparr>,
       \<lparr>rk_asset = orch_asset ''rule'' RULE, rk_rank = 2, rk_scopeMatched = True\<rparr>,
       \<lparr>rk_asset = orch_asset ''design'' DESIGN, rk_rank = 3, rk_scopeMatched = True\<rparr>,
       \<lparr>rk_asset = orch_asset ''other'' RULE, rk_rank = 4, rk_scopeMatched = False\<rparr>],
     oq_policy = \<lparr>ip_defaultLevel = L2_COMPACT, ip_defaultMaxTokens = 300, ip_maxItems = (\<lambda>_. 8),
       ip_authorityOrder = [BINDING_RULE, ACCEPTED_DECISION, VERIFIED_FACT, REFERENCE]\<rparr>,
     oq_requestedLevel = None, oq_automatic = None, oq_explicitEpisodeExpansion = None, oq_maxTokens = None,
     oq_signals = None, oq_taskContract = None, oq_feedback = None, oq_selectedScenarioIds = None\<rparr>"

text \<open>Every item takes a hundred tokens, the rest of the envelope ninety.\<close>

definition orch_env :: orchestrator_env where
  "orch_env = \<lparr>oe_bytes = (\<lambda>v t. 270 + 300 * int (length (en_items v))), oe_collate = (\<lambda>x y. 0)\<rparr>"

definition orch_result :: "(string \<times> detail_level) list \<times> int \<times> int \<times> detail_level" where
  "orch_result = (case orchestrate orch_env orch_request of Inl _ \<Rightarrow> ([], 0, 0, L0_NONE)
     | Inr v \<Rightarrow> (map (\<lambda>i. (ei_id i, ei_detailLevel i)) (en_items v), en_estimatedTokens v, en_omittedItems v, en_level v))"

lemma orch_result: "orch_result = ([(''rule'', L2_COMPACT), (''fact'', L1_POINTER)], 290, 1, L2_COMPACT)"
  by code_simp

lemma orch_returns:
  obtains v where "orchestrate orch_env orch_request = Inr v" "en_estimatedTokens v = 290" "en_omittedItems v = 1"
    "en_level v = L2_COMPACT" "map (\<lambda>i. (ei_id i, ei_detailLevel i)) (en_items v) = [(''rule'', L2_COMPACT), (''fact'', L1_POINTER)]"
  using orch_result by (cases "orchestrate orch_env orch_request") (auto simp: orch_result_def)

section \<open>Properties\<close>

text \<open>
  C26: An envelope that is returned fits its token limit, which is at most 4000, at most the default of
  the policy and at most what the request asks for; the estimate it carries is the estimate of that
  very envelope; it says how many of the eligible candidates it discloses and how many it omits.
\<close>
theorem disclosure_fits_budget:
  assumes "orchestrate e r = Inr v"
  shows "en_estimatedTokens v \<le> en_maxTokens v \<and> en_maxTokens v \<le> 4000
    \<and> en_maxTokens v \<le> ip_defaultMaxTokens (oq_policy r)
    \<and> en_maxTokens v \<le> (case oq_maxTokens r of None \<Rightarrow> 4000 | Some n \<Rightarrow> n)
    \<and> estimateAdditionalContextTokens e v (oq_traceId r) = en_estimatedTokens v
    \<and> en_disclosedItems v = int (length (en_items v)) \<and> length (en_items v) \<le> 8
    \<and> en_disclosedItems v + en_omittedItems v = int (length (filter eligible_candidate (oq_candidates r)))"
proof -
  note o' = orchestrate_shape[OF assms]
  note d = draftedD[OF o'(1)]
  have lim: "token_limit r \<le> 4000" using o'(3) by (auto simp: validate_request_def)
  have "length (en_items v) \<le> length (ranked_candidates e r)" using o'(2) by (auto simp: head_of_ranking_def)
  moreover have "length (en_items v) \<le> 8" using o'(4) by (simp add: parseContextEnvelope_def)
  moreover have "token_limit r \<le> ip_defaultMaxTokens (oq_policy r)"
    "token_limit r \<le> (case oq_maxTokens r of None \<Rightarrow> 4000 | Some n \<Rightarrow> n)"
    using lim by (auto simp: token_limit_def Let_def split: option.splits)
  ultimately show ?thesis using d o'(5) lim ranked_set(2)[of e r] by simp
qed

theorem disclosure_fits_budget_witness:
  "\<exists>v. orchestrate orch_env orch_request = Inr v \<and> length (en_items v) = 2 \<and> en_estimatedTokens v = 290 \<and> en_maxTokens v = 300"
proof -
  obtain v where v: "orchestrate orch_env orch_request = Inr v" "en_estimatedTokens v = 290" "en_omittedItems v = 1" by (rule orch_returns)
  have "length (filter eligible_candidate (oq_candidates orch_request)) = 3"
    by (simp add: orch_request_def eligible_candidate_def orch_asset_def)
  moreover have "en_maxTokens v = 300" using draftedD(1)[OF orchestrate_shape(1)[OF v(1)]]
    by (simp add: token_limit_def orch_request_def)
  ultimately show ?thesis using disclosure_fits_budget[OF v(1)] v by auto
qed

text \<open>
  C25: Everything an envelope discloses is an eligible candidate of the request, at no more detail than
  the level the envelope declares. Episodes are disclosed only to a request that is not automatic and
  asks for them; an automatic request that names no level gets pointers, and compact text of binding
  rules; and what belongs to a scenario is a pointer unless the request selects that scenario.
\<close>
theorem disclosure_is_earned:
  assumes "orchestrate e r = Inr v" and "i \<in> set (en_items v)"
  shows "\<exists>c \<in> set (oq_candidates r). eligible_candidate c \<and> i = itemFor c (ei_detailLevel i)
    \<and> level_index (ei_detailLevel i) \<le> level_index (en_level v)
    \<and> (ei_detailLevel i = L4_EPISODE \<longrightarrow> \<not> is_automatic r \<and> oq_explicitEpisodeExpansion r = Some True)
    \<and> (is_automatic r \<and> oq_requestedLevel r = None \<longrightarrow>
         ei_detailLevel i = L1_POINTER \<or> ei_detailLevel i = L2_COMPACT \<and> authority_of c = BINDING_RULE)
    \<and> (case as_locator (rk_asset c) of None \<Rightarrow> True
       | Some l \<Rightarrow> ei_detailLevel i = L1_POINTER \<or> kl_scenarioId l \<in> set (opt_list (oq_selectedScenarioIds r)))"
proof -
  note o' = orchestrate_shape[OF assms(1)]
  obtain l k where l: "en_items v = map (item_at r l) (take k (ranked_candidates e r))" "l \<noteq> L0_NONE"
    "l = chosen_level r \<or> l = L1_POINTER" using o'(2) assms(2) by (auto simp: head_of_ranking_def)
  then obtain c where c: "c \<in> set (ranked_candidates e r)" "i = item_at r l c"
    using assms(2) by (auto dest: in_set_takeD)
  have d: "ei_detailLevel i = item_level r l c" using c(2) by (simp add: itemFor_fields)
  have "level_index (ei_detailLevel i) \<le> level_index (en_level v)"
    using draftedD(5)[OF o'(1)] assms(2) by (simp add: list_all_iff)
  moreover have "ei_detailLevel i = L4_EPISODE \<longrightarrow> \<not> is_automatic r \<and> oq_explicitEpisodeExpansion r = Some True"
    using d l(3) item_level_cases[of r l c] chosen_level_bounds(1) by auto
  moreover have "is_automatic r \<and> oq_requestedLevel r = None \<longrightarrow>
      ei_detailLevel i = L1_POINTER \<or> ei_detailLevel i = L2_COMPACT \<and> authority_of c = BINDING_RULE"
    using d l(2,3) item_level_cases[of r l c] chosen_level_bounds(2)[of r] by auto
  moreover have "case as_locator (rk_asset c) of None \<Rightarrow> True
      | Some x \<Rightarrow> ei_detailLevel i = L1_POINTER \<or> kl_scenarioId x \<in> set (opt_list (oq_selectedScenarioIds r))"
    using d item_level_scenario[of c _ r l] by (auto split: option.splits)
  ultimately show ?thesis using c d ranked_set(1)[of e r] by (intro bexI[of _ c]) auto
qed

theorem disclosure_is_earned_witness:
  "\<exists>v i c. orchestrate orch_env orch_request = Inr v \<and> i \<in> set (en_items v) \<and> ei_detailLevel i = L2_COMPACT
     \<and> c \<in> set (oq_candidates orch_request) \<and> i = itemFor c L2_COMPACT \<and> authority_of c = BINDING_RULE"
proof -
  obtain v where v: "orchestrate orch_env orch_request = Inr v"
    "map (\<lambda>i. (ei_id i, ei_detailLevel i)) (en_items v) = [(''rule'', L2_COMPACT), (''fact'', L1_POINTER)]" by (rule orch_returns)
  then obtain i where i: "i \<in> set (en_items v)" "ei_detailLevel i = L2_COMPACT" by (cases "en_items v") auto
  have "is_automatic orch_request \<and> oq_requestedLevel orch_request = None" by (simp add: is_automatic_def orch_request_def)
  then show ?thesis using disclosure_is_earned[OF v(1) i(1)] i v(1) by force
qed



end
