(* ===== verification/ClosureProps.thy ===== *)
theory ClosureProps
  imports Closure
begin

text \<open>The properties of the closure verifier.\<close>

section \<open>Gates as facts about the observations\<close>

text \<open>What each deterministic gate asks of the observations, without the search order of the code.\<close>

definition gate_holds :: "gate_type \<Rightarrow> closure_input \<Rightarrow> bool" where
  "gate_holds t x = (case t of
     TEST_PASSED i \<Rightarrow> \<exists>r \<in> set (cx_tests x). te_testId r = i \<and> te_status r = PASSED
   | ARTIFACT_PRESENT a \<Rightarrow> \<exists>r \<in> set (cx_toolResults x). to_succeeded r \<and> a \<in> set (to_artifactIds r)
   | PATH_CHANGED p \<Rightarrow> p \<in> set (cx_changedPaths x)
   | TOOL_SUCCEEDED n \<Rightarrow> \<exists>r \<in> set (cx_toolResults x). to_succeeded r \<and> to_toolName r = n
   | NO_OPEN_ISSUES \<Rightarrow> cx_openIssues x = []
   | SEMANTIC \<Rightarrow> False)"

lemma observation_None [simp]: "gate_observation t x = None \<longleftrightarrow> t = SEMANTIC"
  by (auto simp: gate_observation_def split: gate_type.splits option.splits)

lemma observation_SEMANTIC [simp]: "gate_observation SEMANTIC x = None"
  by simp

lemma observation_holds:
  assumes "distinct (map te_testId (cx_tests x))" and "gate_observation t x = Some (b, refs)"
  shows "b \<longleftrightarrow> gate_holds t x"
proof (cases t)
  case (TEST_PASSED i)
  show ?thesis
  proof (cases "find (\<lambda>r. te_testId r = i) (cx_tests x)")
    case None
    then show ?thesis using assms(2) TEST_PASSED find_NoneD[OF None]
      by (auto simp: gate_observation_def gate_holds_def)
  next
    case (Some r)
    have "r' = r" if "r' \<in> set (cx_tests x)" "te_testId r' = i" for r'
      using find_unique[OF assms(1) that(1)] that(2) Some by simp
    then show ?thesis using assms(2) TEST_PASSED Some find_SomeD[OF Some]
      by (auto simp: gate_observation_def gate_holds_def)
  qed
qed (use assms(2) in \<open>auto simp: gate_observation_def gate_holds_def find_None_conv
       dest: find_SomeD split: option.splits if_splits\<close>)

lemma deterministic_id [simp]: "go_gateId (deterministicGate g x) = cg_gateId g"
  by (simp add: deterministicGate_def split: option.splits prod.splits)

lemma deterministic_status:
  "go_status (deterministicGate g x) = UNKNOWN \<longleftrightarrow> cg_type g = SEMANTIC"
  "distinct (map te_testId (cx_tests x)) \<Longrightarrow>
     go_status (deterministicGate g x) = SATISFIED \<longleftrightarrow> gate_holds (cg_type g) x"
  using observation_holds[of x "cg_type g"]
  by (auto simp: deterministicGate_def gate_holds_def split: option.splits prod.splits)

lemma deterministic_semantic:
  "cg_type g = SEMANTIC \<Longrightarrow> go_evidenceRefs (deterministicGate g x) = []"
  by (simp add: deterministicGate_def gate_observation_def)

section \<open>Combining the semantic answer\<close>

lemma validate_ok:
  assumes "validate x = Inr ()"
  shows "distinct (map cg_gateId (cx_gates x))" "distinct (map cb_boundaryId (cx_boundaries x))"
    "distinct (map kq_knowledgeId (cx_requiredKnowledge x))" "distinct (map te_testId (cx_tests x))"
    "list_all safe_id (map cg_gateId (cx_gates x))" "list_all safe_id (map cb_boundaryId (cx_boundaries x))"
    "list_all safe_id (map kq_knowledgeId (cx_requiredKnowledge x))"
    "safe_id (cx_verificationId x)" "safe_id (cx_taskId x)"
    "1 \<le> length (cx_gates x)" "length (cx_gates x) \<le> 100" "length (cx_boundaries x) \<le> 100"
    "length (cx_requiredKnowledge x) \<le> 100"
  using assms by (simp_all add: validate_def ids_ok_def Suc_le_eq not_less)

abbreviation observed_gates :: "closure_input \<Rightarrow> gate_outcome list" where
  "observed_gates x \<equiv> map (\<lambda>g. deterministicGate g x) (cx_gates x)"

lemma validateSemantic_ids:
  assumes "validateSemantic value (semantic_gates x) = Some s"
  shows "s = value" "set (map go_gateId s) = set (map cg_gateId (semantic_gates x))" "distinct (map go_gateId s)"
  using assms by (auto simp: validateSemantic_def semantic_gates_def Let_def list_ex_iff split: if_splits)

lemma combine_nth:
  assumes "validate x = Inr ()" and "validateSemantic value (semantic_gates x) = Some s"
    and "k < length (cx_gates x)"
  shows "go_gateId (combine (observed_gates x) s ! k) = cg_gateId (cx_gates x ! k)"
    and "cg_type (cx_gates x ! k) \<noteq> SEMANTIC
       \<Longrightarrow> combine (observed_gates x) s ! k = deterministicGate (cx_gates x ! k) x"
    and "cg_type (cx_gates x ! k) = SEMANTIC \<Longrightarrow> combine (observed_gates x) s ! k \<in> set s"
proof -
  let ?g = "cx_gates x ! k"
  note ids = validateSemantic_ids[OF assms(2)]
  have mem: "cg_gateId ?g \<in> go_gateId ` set s \<longleftrightarrow> cg_type ?g = SEMANTIC"
  proof
    assume "cg_gateId ?g \<in> go_gateId ` set s"
    then obtain g where g: "g \<in> set (cx_gates x)" "cg_type g = SEMANTIC" "cg_gateId g = cg_gateId ?g"
      using ids(2) by (auto simp: semantic_gates_def)
    then have "g = ?g" using validate_ok(1)[OF assms(1)] assms(3)
      by (auto simp: distinct_map dest: inj_onD)
    then show "cg_type ?g = SEMANTIC" using g(2) by simp
  next
    assume "cg_type ?g = SEMANTIC"
    then have "cg_gateId ?g \<in> set (map cg_gateId (semantic_gates x))" using assms(3)
      by (auto simp: semantic_gates_def)
    then show "cg_gateId ?g \<in> go_gateId ` set s" using ids(2) by simp
  qed
  show "go_gateId (combine (observed_gates x) s ! k) = cg_gateId ?g"
    using assms(3) by (auto simp: combine_def dest: last_entry_SomeD split: option.splits)
  show "combine (observed_gates x) s ! k = deterministicGate ?g x" if "cg_type ?g \<noteq> SEMANTIC"
    using that mem assms(3) last_entry_None_conv[of go_gateId s "cg_gateId ?g"] by (simp add: combine_def)
  show "combine (observed_gates x) s ! k \<in> set s" if "cg_type ?g = SEMANTIC"
    using that mem assms(3)
    by (auto simp: combine_def last_entry_None_conv dest: last_entry_SomeD split: option.splits)
qed

lemma length_combine [simp]: "length (combine gs s) = length gs"
  by (simp add: combine_def)

section \<open>The cases of a verification\<close>

lemma buildResultD:
  "buildResult x d reasons gates missing violated = Inr r \<Longrightarrow>
     cv_verificationId r = cx_verificationId x \<and> cv_taskId r = cx_taskId x \<and> cv_decision r = d
   \<and> cv_reasonCodes r = uniq reasons \<and> cv_missingKnowledgeIds r = uniq missing
   \<and> cv_unmetGateIds r = unsatisfied_ids gates \<and> cv_violatedBoundaryIds r = uniq violated
   \<and> cv_gateResults r = gates \<and> result_schema_ok r"
  by (auto simp: buildResult_def Let_def)

text \<open>
  The branches of \<open>verify\<close>, with the result each of them returns. \<open>asks\<close> collects the three
  exits that ask the user with the gates as observed.
\<close>

lemma verify_cases:
  assumes "verify port x = Inr r"
  obtains (violated) "filter (crosses x) (cx_boundaries x) \<noteq> []"
      "buildResult x RETRY_WITH_CORRECTION [''DECLARED_BOUNDARY_VIOLATED''] (observed_gates x) []
         (map cb_boundaryId (filter (crosses x) (cx_boundaries x))) = Inr r"
  | (failed) reasons where "list_ex (\<lambda>g. go_status g = UNSATISFIED) (observed_gates x)"
      "buildResult x RETRY_WITH_CORRECTION reasons (observed_gates x) [] [] = Inr r"
  | (asks) reason where "buildResult x ASK_USER [reason] (observed_gates x) [] [] = Inr r"
  | (missing) "\<not> list_ex (\<lambda>g. go_status g = UNSATISFIED) (observed_gates x)" "missing_knowledge x \<noteq> []"
      "buildResult x RETRY_WITH_CONTEXT [''REQUIRED_KNOWLEDGE_MISSING''] (observed_gates x)
         (missing_knowledge x) [] = Inr r"
  | (passed) "filter (crosses x) (cx_boundaries x) = []"
      "\<not> list_ex (\<lambda>g. go_status g = UNSATISFIED) (observed_gates x)" "cx_claimedComplete x"
      "missing_knowledge x = []" "semantic_gates x = []"
      "buildResult x PASS [''ALL_DECLARED_GATES_SATISFIED''] (observed_gates x) [] [] = Inr r"
  | (semantic) f s d reason where "filter (crosses x) (cx_boundaries x) = []" "cx_claimedComplete x"
      "missing_knowledge x = []" "port = Some (True, f)" "f x = SemanticValue s"
      "validateSemantic s (semantic_gates x) = Some s"
      "d = (if list_ex (\<lambda>g. go_status g = UNSATISFIED) (combine (observed_gates x) s)
            then RETRY_WITH_CORRECTION
            else if list_ex (\<lambda>g. go_status g = UNKNOWN) (combine (observed_gates x) s)
            then ASK_USER else PASS)"
      "buildResult x d [reason] (combine (observed_gates x) s) [] [] = Inr r"
proof -
  have "validate x = Inr ()" using assms by (auto simp: verify_def)
  then have v: "Inr r = (case port of
       None \<Rightarrow> buildResult x ASK_USER [''SEMANTIC_VERIFICATION_UNAVAILABLE''] (observed_gates x) [] []
     | Some (available, f) \<Rightarrow>
         if \<not> available then buildResult x ASK_USER [''SEMANTIC_VERIFICATION_UNAVAILABLE''] (observed_gates x) [] []
         else semantic_decision x (observed_gates x) (f x))"
    if "filter (crosses x) (cx_boundaries x) = []" "\<not> list_ex (\<lambda>g. go_status g = UNSATISFIED) (observed_gates x)"
      "cx_claimedComplete x" "missing_knowledge x = []" "semantic_gates x \<noteq> []"
    using assms that by (simp add: verify_def Let_def del: list_ex_iff)
  show thesis
  proof (cases "filter (crosses x) (cx_boundaries x) = []
      \<and> \<not> list_ex (\<lambda>g. go_status g = UNSATISFIED) (observed_gates x)
      \<and> cx_claimedComplete x \<and> missing_knowledge x = [] \<and> semantic_gates x \<noteq> []")
    case False
    then show thesis using assms violated failed asks missing passed
      by (auto simp: verify_def Let_def simp del: filter_empty_conv split: if_splits)
  next
    case True
    then have "(\<exists>f. port = Some (True, f) \<and> Inr r = semantic_decision x (observed_gates x) (f x))
        \<or> Inr r = buildResult x ASK_USER [''SEMANTIC_VERIFICATION_UNAVAILABLE''] (observed_gates x) [] []"
      using v by (simp split: option.splits prod.splits if_splits)
    then show thesis
    proof (elim disjE exE)
      fix f
      assume sem: "port = Some (True, f) \<and> Inr r = semantic_decision x (observed_gates x) (f x)"
      show thesis
      proof (cases "f x")
        case (SemanticValue s)
        show thesis
        proof (cases "validateSemantic s (semantic_gates x)")
          case None
          then show thesis using sem SemanticValue asks
            by (auto simp: semantic_decision_def Let_def)
        next
          case (Some s')
          note vs = Some[unfolded validateSemantic_ids(1)[OF Some]]
          let ?c = "combine (observed_gates x) s"
          define d where "d = (if list_ex (\<lambda>g. go_status g = UNSATISFIED) ?c then RETRY_WITH_CORRECTION
            else if list_ex (\<lambda>g. go_status g = UNKNOWN) ?c then ASK_USER else PASS)"
          have "\<exists>reason. buildResult x d [reason] ?c [] [] = Inr r \<or> buildResult x ASK_USER [reason] (observed_gates x) [] [] = Inr r"
            using sem SemanticValue vs unfolding d_def
            by (auto simp: semantic_decision_def Let_def split: sum.splits if_splits)
          then show thesis using semantic[of f s d] True sem SemanticValue vs asks d_def by blast
        qed
      qed (use sem asks in \<open>auto simp: semantic_decision_def Let_def\<close>)
    qed (metis asks)
  qed
qed

lemma gates_of_result:
  assumes "verify port x = Inr r"
  obtains "cv_gateResults r = observed_gates x"
  | s where "validateSemantic s (semantic_gates x) = Some s" "cv_gateResults r = combine (observed_gates x) s"
  by (rule verify_cases[OF assms]) (auto dest!: buildResultD)

lemma gates_in_order:
  assumes "verify port x = Inr r"
  shows "map go_gateId (cv_gateResults r) = map cg_gateId (cx_gates x)"
    and "k < length (cx_gates x) \<Longrightarrow> cg_type (cx_gates x ! k) \<noteq> SEMANTIC
         \<Longrightarrow> cv_gateResults r ! k = deterministicGate (cx_gates x ! k) x"
proof -
  have v: "validate x = Inr ()" using assms by (auto simp: verify_def)
  have "map go_gateId (cv_gateResults r) = map cg_gateId (cx_gates x)
    \<and> (\<forall>k < length (cx_gates x). cg_type (cx_gates x ! k) \<noteq> SEMANTIC
         \<longrightarrow> cv_gateResults r ! k = deterministicGate (cx_gates x ! k) x)"
  proof (rule gates_of_result[OF assms])
    fix s assume s: "validateSemantic s (semantic_gates x) = Some s" and c: "cv_gateResults r = combine (observed_gates x) s"
    show ?thesis unfolding c using combine_nth[OF v s] by (auto intro!: nth_equalityI)
  qed (auto intro!: nth_equalityI)
  then show "map go_gateId (cv_gateResults r) = map cg_gateId (cx_gates x)"
    and "k < length (cx_gates x) \<Longrightarrow> cg_type (cx_gates x ! k) \<noteq> SEMANTIC
         \<Longrightarrow> cv_gateResults r ! k = deterministicGate (cx_gates x ! k) x" by auto
qed

section \<open>The result schema\<close>

abbreviation short_refs :: "gate_outcome \<Rightarrow> bool" where
  "short_refs g \<equiv> list_all (\<lambda>e. length e \<le> 1000) (go_evidenceRefs g)"

lemma deterministic_schema:
  assumes "safe_id (cg_gateId g)"
  shows "gate_schema_ok (deterministicGate g x) \<longleftrightarrow> short_refs (deterministicGate g x)"
proof -
  have refs: "length refs \<le> 1 \<and> [] \<notin> set refs" if "gate_observation t x = Some (b, refs)" for t b refs
    using that by (auto simp: gate_observation_def split: gate_type.splits option.splits if_splits)
  have codes: "upper_code 99 ''SEMANTIC_VERIFICATION_REQUIRED''" "upper_code 99 ''DETERMINISTIC_GATE_SATISFIED''"
    "upper_code 99 ''DETERMINISTIC_GATE_UNSATISFIED''" by code_simp+
  have "distinct refs \<and> length refs \<le> 100 \<and> (list_all (short_text 1000) refs \<longleftrightarrow> list_all (\<lambda>e. length e \<le> 1000) refs)"
    if "gate_observation (cg_type g) x = Some (b, refs)" for b refs
    using refs[OF that] by (cases refs) (auto simp: short_text_def Suc_le_eq)
  then show ?thesis using safe_id_length[OF assms] codes
    by (auto simp: deterministicGate_def gate_schema_ok_def short_text_def Suc_le_eq split: option.splits prod.splits)
qed

lemma id_list_filter:
  assumes "list_all safe_id (map f xs)" and "distinct (map f xs)" and "length xs \<le> 100"
  shows "id_list_ok (map f (filter P xs))"
proof -
  have "length (filter P xs) \<le> 100" using assms(3) length_filter_le[of P xs] by linarith
  moreover have "distinct (map f (filter P xs))" using assms(2) by (rule distinct_map_filter)
  moreover have "list_all (short_text 500) (map f (filter P xs))"
    using assms(1) by (auto simp: list_all_iff short_text_def Suc_le_eq dest: safe_id_length)
  ultimately show ?thesis by (simp add: id_list_ok_def)
qed

lemma id_list_uniq [simp]: "id_list_ok xs \<Longrightarrow> uniq xs = xs" "id_list_ok []"
  by (simp_all add: id_list_ok_def uniq_distinct)

lemma unsatisfied_observed:
  "unsatisfied_ids (observed_gates x)
     = map cg_gateId (filter (\<lambda>g. go_status (deterministicGate g x) = UNSATISFIED) (cx_gates x))"
  by (simp add: unsatisfied_ids_def filter_map o_def)

lemma build_observed:
  assumes "validate x = Inr ()" and "list_all (upper_code 99) reasons" and "reasons \<noteq> []" and "length reasons \<le> 20"
    and "id_list_ok missing" and "id_list_ok violated"
  shows "is_ok (buildResult x d reasons (observed_gates x) missing violated) \<longleftrightarrow> list_all short_refs (observed_gates x)"
proof -
  note ok = validate_ok[OF assms(1)]
  have gs: "list_all gate_schema_ok (observed_gates x) \<longleftrightarrow> list_all short_refs (observed_gates x)"
    using ok(5) by (auto simp: list_all_iff deterministic_schema)
  have ids: "id_list_ok (unsatisfied_ids (observed_gates x))"
    unfolding unsatisfied_observed by (rule id_list_filter[OF ok(5,1,11)])
  have "length (uniq reasons) \<le> 20" using length_uniq_le[of reasons] assms(4) by linarith
  moreover have "list_all (upper_code 99) (uniq reasons)" using assms(2) by (simp add: list_all_iff)
  moreover have "short_text 500 (cx_verificationId x)" "short_text 500 (cx_taskId x)"
    using ok(8,9) by (auto simp: short_text_def Suc_le_eq dest: safe_id_length)
  moreover have "0 < length (uniq reasons)" using assms(3) by simp
  ultimately show ?thesis using ids assms(5,6) ok(10,11) gs
    by (simp add: buildResult_def result_schema_ok_def Let_def is_ok_def and_then_def ensure_def Suc_le_eq
        del: length_greater_0_conv)
qed

lemma reason_codes:
  "upper_code 99 ''DECLARED_BOUNDARY_VIOLATED''" "upper_code 99 ''DETERMINISTIC_GATE_FAILED''"
  "upper_code 99 ''FINAL_CONCLUSION_INCOMPLETE''" "upper_code 99 ''REQUIRED_KNOWLEDGE_MISSING''"
  "upper_code 99 ''ALL_DECLARED_GATES_SATISFIED''" "upper_code 99 ''SEMANTIC_VERIFICATION_UNAVAILABLE''"
  "upper_code 99 ''SEMANTIC_VERIFICATION_TIMEOUT''" "upper_code 99 ''SEMANTIC_VERIFICATION_FAILED''"
  by code_simp+

lemma missing_ids: "validate x = Inr () \<Longrightarrow> id_list_ok (missing_knowledge x)"
  unfolding missing_knowledge_def by (rule id_list_filter) (rule validate_ok, assumption)+

lemma violated_ids:
  "validate x = Inr () \<Longrightarrow> id_list_ok (map cb_boundaryId (filter (crosses x) (cx_boundaries x)))"
  by (rule id_list_filter) (rule validate_ok, assumption)+

lemma semantic_decision_ok:
  assumes "validate x = Inr ()" and "list_all short_refs (observed_gates x)"
  shows "is_ok (semantic_decision x (observed_gates x) out)"
proof -
  have "is_ok (buildResult x ASK_USER [reason] (observed_gates x) [] [])" if "upper_code 99 reason" for reason
    using build_observed[OF assms(1), of "[reason]" "[]" "[]"] that assms(2) by simp
  then obtain r1 r2 where
    r: "buildResult x ASK_USER [''SEMANTIC_VERIFICATION_FAILED''] (observed_gates x) [] [] = Inr r1"
      "buildResult x ASK_USER [''SEMANTIC_VERIFICATION_TIMEOUT''] (observed_gates x) [] [] = Inr r2"
    using reason_codes(7,8) unfolding is_ok_iff by blast
  show ?thesis unfolding semantic_decision_def Let_def r
    by (auto simp: is_ok_def split: sum.split option.split semantic_outcome.split)
qed

lemma verify_ok:
  assumes "validate x = Inr ()" and "list_all short_refs (observed_gates x)"
  shows "is_ok (verify port x)"
proof -
  have b: "is_ok (buildResult x d reasons (observed_gates x) missing violated)"
    if "list_all (upper_code 99) reasons \<and> reasons \<noteq> [] \<and> length reasons \<le> 20" "id_list_ok missing" "id_list_ok violated"
    for d reasons missing violated
    using build_observed[OF assms(1)] that assms(2) by simp
  note ids = missing_ids[OF assms(1)] violated_ids[OF assms(1)]
  show ?thesis
    unfolding verify_def assms(1) and_then_simps Let_def
    by (auto simp del: id_list_uniq(1) intro!: b semantic_decision_ok[OF assms] ids
        simp: reason_codes split: option.split)
qed

lemma short_refs_of_result:
  assumes "verify port x = Inr r"
  shows "list_all short_refs (observed_gates x)"
proof -
  have v: "validate x = Inr ()" using assms by (auto simp: verify_def)
  have ok: "list_all gate_schema_ok (cv_gateResults r)"
    by (rule verify_cases[OF assms]) (auto dest!: buildResultD simp: result_schema_ok_def)
  have short: "gate_schema_ok g \<Longrightarrow> short_refs g" for g
    by (auto simp: gate_schema_ok_def short_text_def list_all_iff)
  show ?thesis
  proof (rule gates_of_result[OF assms])
    assume "cv_gateResults r = observed_gates x"
    then show ?thesis using ok short by (auto simp: list_all_iff)
  next
    fix s assume s: "validateSemantic s (semantic_gates x) = Some s" and c: "cv_gateResults r = combine (observed_gates x) s"
    have "short_refs (deterministicGate (cx_gates x ! k) x)" if k: "k < length (cx_gates x)" for k
    proof (cases "cg_type (cx_gates x ! k) = SEMANTIC")
      case False
      have "combine (observed_gates x) s ! k \<in> set (cv_gateResults r)" using c k by simp
      then show ?thesis using ok short combine_nth(2)[OF v s k False] by (metis list_all_iff)
    qed (simp add: deterministic_semantic)
    then show ?thesis by (simp add: list_all_length)
  qed
qed

section \<open>Example\<close>

definition ex_closure :: closure_input where
  "ex_closure = \<lparr>cx_verificationId = ''v1'', cx_taskId = ''t1'', cx_objective = ''finish'',
     cx_gates = [\<lparr>cg_gateId = ''g1'', cg_description = ''run a'', cg_type = TEST_PASSED ''a''\<rparr>,
       \<lparr>cg_gateId = ''g2'', cg_description = ''judge'', cg_type = SEMANTIC\<rparr>],
     cx_boundaries = [\<lparr>cb_boundaryId = ''b1'', cb_pathPrefix = ''secrets''\<rparr>],
     cx_requiredKnowledge = [\<lparr>kq_knowledgeId = ''k1'', kq_minimumDetailLevel = L2_COMPACT\<rparr>],
     cx_contextTaskId = Some ''t1'',
     cx_contextItems = [\<lparr>ci_id = ''k1'', ci_detailLevel = L3_EVIDENCED\<rparr>],
     cx_changedPaths = [''src/a.ts''], cx_toolResults = [],
     cx_tests = [\<lparr>te_testId = ''a'', te_status = PASSED\<rparr>],
     cx_claimedComplete = True, cx_openIssues = []\<rparr>"

definition ex_port :: semantic_port where
  "ex_port = Some (True, \<lambda>_. SemanticValue [\<lparr>go_gateId = ''g2'', go_status = SATISFIED,
     go_reasonCodes = [''JUDGED''], go_evidenceRefs = []\<rparr>])"

lemma ex_closure_valid: "validate ex_closure = Inr ()"
  by (simp add: validate_def ex_closure_def ids_ok_def closure_path_def text_simps)

lemma ex_verify_pass:
  "verify ex_port ex_closure = Inr \<lparr>cv_verificationId = ''v1'', cv_taskId = ''t1'', cv_decision = PASS,
     cv_reasonCodes = [''ALL_DECLARED_GATES_SATISFIED''], cv_missingKnowledgeIds = [], cv_unmetGateIds = [],
     cv_violatedBoundaryIds = [],
     cv_gateResults = [\<lparr>go_gateId = ''g1'', go_status = SATISFIED,
         go_reasonCodes = [''DETERMINISTIC_GATE_SATISFIED''], go_evidenceRefs = [''test:a:PASSED'']\<rparr>,
       \<lparr>go_gateId = ''g2'', go_status = SATISFIED, go_reasonCodes = [''JUDGED''], go_evidenceRefs = []\<rparr>]\<rparr>"
  unfolding verify_def ex_closure_valid and_then_simps
  by (simp add: ex_closure_def ex_port_def Let_def deterministicGate_def gate_observation_def crosses_def
      missing_knowledge_def last_entry_def semantic_gates_def semantic_decision_def validateSemantic_def
      combine_def buildResult_def result_schema_ok_def gate_schema_ok_def id_list_ok_def unsatisfied_ids_def
      short_text_def test_text_def text_simps uniq_def)

definition long_path_closure :: closure_input where
  "long_path_closure = ex_closure\<lparr>cx_gates := [\<lparr>cg_gateId = ''g1'', cg_description = ''touch'',
       cg_type = PATH_CHANGED (replicate 1000 (CHR ''a''))\<rparr>],
     cx_changedPaths := [replicate 1000 (CHR ''a'')]\<rparr>"

lemma split_on_absent: "c \<notin> set s \<Longrightarrow> split_on c s = [s]"
  by (induction s) auto

lemma closure_path_replicate:
  "0 < n \<Longrightarrow> n \<le> 4096 \<Longrightarrow> closure_path (replicate n (CHR ''a''))"
  by (cases n) (auto simp: closure_path_def split_on_absent text_simps list_all_iff)

lemma long_path_valid: "validate long_path_closure = Inr ()"
  by (simp add: validate_def long_path_closure_def ex_closure_def ids_ok_def closure_path_replicate)
    (simp add: closure_path_def text_simps)

section \<open>Properties\<close>

text \<open>
  C34: A pass is earned. When the verifier answers \<open>PASS\<close>, the task was claimed complete, no changed path
  lies in a forbidden prefix, every required knowledge item is in the context at its level, every
  deterministic gate holds of the observations, and every semantic gate was judged \<open>SATISFIED\<close> by an
  available semantic verifier.
\<close>

theorem pass_is_earned:
  assumes "verify port x = Inr r" and "cv_decision r = PASS"
  shows "cx_claimedComplete x
    \<and> (\<forall>b \<in> set (cx_boundaries x). \<forall>p \<in> set (cx_changedPaths x).
         p \<noteq> cb_pathPrefix b \<and> \<not> starts_with (cb_pathPrefix b @ ''/'') p)
    \<and> (\<forall>q \<in> set (cx_requiredKnowledge x). \<exists>i \<in> set (cx_contextItems x). ci_id i = kq_knowledgeId q
         \<and> LEVEL (kq_minimumDetailLevel q) \<le> LEVEL (ci_detailLevel i))
    \<and> (\<forall>g \<in> set (cx_gates x). if cg_type g = SEMANTIC
         then \<exists>f s j. port = Some (True, f) \<and> f x = SemanticValue s \<and> j \<in> set s
           \<and> go_gateId j = cg_gateId g \<and> go_status j = SATISFIED
         else gate_holds (cg_type g) x)"
proof -
  have v: "validate x = Inr ()" using assms by (auto simp: verify_def)
  note st = deterministic_status(2)[OF validate_ok(4)[OF v]]
  have b: "(\<forall>b \<in> set (cx_boundaries x). \<forall>p \<in> set (cx_changedPaths x).
         p \<noteq> cb_pathPrefix b \<and> \<not> starts_with (cb_pathPrefix b @ ''/'') p)"
    if "filter (crosses x) (cx_boundaries x) = []"
    using that by (auto simp: filter_empty_conv crosses_def list_ex_iff)
  have k: "(\<forall>q \<in> set (cx_requiredKnowledge x). \<exists>i \<in> set (cx_contextItems x). ci_id i = kq_knowledgeId q
         \<and> LEVEL (kq_minimumDetailLevel q) \<le> LEVEL (ci_detailLevel i))" if "missing_knowledge x = []"
    using that by (fastforce simp: missing_knowledge_def filter_empty_conv not_less
        dest: last_entry_SomeD split: option.splits)
  show ?thesis
  proof (rule verify_cases[OF assms(1)], goal_cases)
    case 5
    have "gate_holds (cg_type g) x" if "g \<in> set (cx_gates x)" "cg_type g \<noteq> SEMANTIC" for g
      using 5(2) that st[of g] deterministic_status(1)[of g x]
      by (cases "go_status (deterministicGate g x)") (auto simp: list_ex_iff)
    then show ?case using 5 b k by (auto simp: semantic_gates_def filter_empty_conv)
  next
    case (6 f s d reason)
    let ?c = "combine (observed_gates x) s"
    have "d = PASS" using buildResultD[OF 6(8)] assms(2) by simp
    then have all: "go_status g = SATISFIED" if "g \<in> set ?c" for g
      using 6(7) that by (cases "go_status g") (auto simp: list_ex_iff split: if_splits)
    have g: "if cg_type g = SEMANTIC then \<exists>j \<in> set s. go_gateId j = cg_gateId g \<and> go_status j = SATISFIED
        else gate_holds (cg_type g) x" if g: "g \<in> set (cx_gates x)" for g
    proof -
      obtain n where n: "n < length (cx_gates x)" "g = cx_gates x ! n" using g by (auto simp: in_set_conv_nth)
      note nth = combine_nth[OF v 6(6) n(1), folded n(2)]
      have "?c ! n \<in> set ?c" using n(1) by simp
      from all[OF this] nth st[of g] show ?thesis by auto
    qed
    show ?case
      by (intro conjI 6(2) b[OF 6(1)] k[OF 6(3)] ballI) (drule g, use 6(4,5) in \<open>auto split: if_splits\<close>)
  qed (use assms(2) in \<open>auto dest!: buildResultD\<close>)
qed

lemma pass_is_earned_witness:
  "gate_holds (TEST_PASSED ''a'') ex_closure \<and> cx_claimedComplete ex_closure"
  using pass_is_earned[OF ex_verify_pass] by (simp add: ex_closure_def)

text \<open>
  The semantic verifier cannot override a deterministic gate. Every result carries one outcome per
  declared gate, in the declared order, and the outcome of each deterministic gate is the one computed
  from the observations, whatever the semantic port answered.
\<close>

theorem semantic_cannot_override:
  assumes "verify port x = Inr r"
  shows "map go_gateId (cv_gateResults r) = map cg_gateId (cx_gates x)
    \<and> (\<forall>k < length (cx_gates x). cg_type (cx_gates x ! k) \<noteq> SEMANTIC
         \<longrightarrow> cv_gateResults r ! k = deterministicGate (cx_gates x ! k) x)"
  using gates_in_order[OF assms] by blast

lemma semantic_cannot_override_witness:
  "deterministicGate (cx_gates ex_closure ! 0) ex_closure = \<lparr>go_gateId = ''g1'', go_status = SATISFIED,
     go_reasonCodes = [''DETERMINISTIC_GATE_SATISFIED''], go_evidenceRefs = [''test:a:PASSED'']\<rparr>"
  using semantic_cannot_override[OF ex_verify_pass] by (auto simp: ex_closure_def)

text \<open>
  C35: When the verifier answers at all. It returns a result exactly when the input is valid and no
  observed gate has an evidence reference of more than 1000 characters; a failing, slow or malformed
  semantic answer never makes it throw.
\<close>

theorem verify_returns_iff:
  "is_ok (verify port x) \<longleftrightarrow> is_ok (validate x)
     \<and> list_all (\<lambda>g. list_all (\<lambda>e. length e \<le> 1000) (go_evidenceRefs (deterministicGate g x))) (cx_gates x)"
proof -
  have "is_ok (validate x) \<longleftrightarrow> validate x = Inr ()" by (auto simp: is_ok_iff)
  moreover have "list_all short_refs (observed_gates x)
      = list_all (\<lambda>g. list_all (\<lambda>e. length e \<le> 1000) (go_evidenceRefs (deterministicGate g x))) (cx_gates x)"
    by (simp add: list_all_iff)
  moreover have "validate x = Inr ()" if "verify port x = Inr r" for r using that by (auto simp: verify_def)
  ultimately show ?thesis using verify_ok short_refs_of_result by (metis is_ok_iff)
qed

text \<open>
  C36: A satisfied gate can make the verifier throw. Paths may have 4096 characters, but the evidence
  reference \<open>diff:<path>\<close> of a satisfied \<open>PATH_CHANGED\<close> gate may only have 1000, so for every valid input
  with such a gate on a changed path of more than 995 characters the result fails its own schema.
\<close>

theorem long_path_fails:
  assumes "validate x = Inr ()" and "g \<in> set (cx_gates x)" and "cg_type g = PATH_CHANGED p"
    and "p \<in> set (cx_changedPaths x)" and "995 < length p"
  shows "verify port x = Inl RESULT_SCHEMA_FAILED"
proof -
  have "go_evidenceRefs (deterministicGate g x) = [''diff:'' @ p]"
    using assms(3,4) by (simp add: deterministicGate_def gate_observation_def)
  then have "\<not> list_all short_refs (observed_gates x)" using assms(2,5)
    by (auto simp: list_all_iff intro!: bexI[of _ g])
  then have no: "verify port x \<noteq> Inr r" for r using short_refs_of_result by blast
  have e: "e = RESULT_SCHEMA_FAILED" if "buildResult x d reasons gates missing violated = Inl e"
    for d reasons gates missing violated e
    using that by (auto simp: buildResult_def Let_def and_then_Inl_iff)
  have s: "e = RESULT_SCHEMA_FAILED" if "semantic_decision x gates out = Inl e" for gates out e
    using that e by (auto simp: semantic_decision_def Let_def split: semantic_outcome.splits option.splits sum.splits)
  have "e = RESULT_SCHEMA_FAILED" if "verify port x = Inl e" for e
    using that e s assms(1) by (auto simp: verify_def Let_def split: if_splits option.splits)
  then show ?thesis using no by (cases "verify port x") auto
qed

lemma long_path_fails_witness: "verify None long_path_closure = Inl RESULT_SCHEMA_FAILED"
  by (rule long_path_fails[OF long_path_valid, of "hd (cx_gates long_path_closure)" "replicate 1000 (CHR ''a'')"])
    (simp_all add: long_path_closure_def)

end
