(* ===== verification/StopProps.thy ===== *)
theory StopProps
  imports StopContinuation ClosureProps
begin

text \<open>The properties of the stop hook, alone and with the closure verifier behind its ports.\<close>

section \<open>The policy schema (packages/config/src/policies.ts)\<close>

definition closure_policy_ok :: "closure_policy \<Rightarrow> bool" where
  "closure_policy_ok p \<longleftrightarrow>
     bounded 0 1 (cp_defaultMaxContinuations p) \<and> bounded 0 2 (cp_highRiskMaxContinuations p)
   \<and> bounded 1 500 (cp_deterministicDeadlineMs p) \<and> bounded 1 3000 (cp_semanticVerificationDeadlineMs p)
   \<and> \<not> cp_defaultMaxContinuations p > cp_highRiskMaxContinuations p
   \<and> \<not> cp_deterministicDeadlineMs p > cp_semanticVerificationDeadlineMs p"

section \<open>The verifier behind the port (closure-runtime.ts)\<close>

text \<open>
  \<open>CapturingClosurePort\<close>: the verifier's answer or error, unless the deadline aborted the call first;
  \<open>late\<close> says when it did.
\<close>

definition verifier_port ::
  "(closure_error \<Rightarrow> string) \<Rightarrow> (closure_input \<Rightarrow> int \<Rightarrow> bool) \<Rightarrow> semantic_port \<Rightarrow> closure_input \<Rightarrow> int
     \<Rightarrow> closure_result settled" where
  "verifier_port error_text late sem x timeoutMs =
    (if late x timeoutMs then Expired
     else case verify sem x of Inl e \<Rightarrow> Threw (error_text e) | Inr r \<Rightarrow> Settled r)"

lemma decision_targets:
  assumes "verify port x = Inr r"
  shows "target_shape_valid r"
proof -
  have sat: "go_status g = SATISFIED" if "go_status g \<noteq> UNSATISFIED" "go_status g \<noteq> UNKNOWN" for g
    using that by (cases "go_status g") auto
  have no: "unsatisfied_ids gs = [] \<longleftrightarrow> \<not> list_ex (\<lambda>g. go_status g = UNSATISFIED) gs" for gs
    by (auto simp: unsatisfied_ids_def filter_empty_conv list_ex_iff)
  show ?thesis
  proof (rule verify_cases[OF assms], goal_cases)
    case 1
    then show ?case using buildResultD[OF 1(2)] by (simp add: target_shape_valid_def Let_def)
  next
    case (2 reasons)
    then show ?case using buildResultD[OF 2(2)] by (simp add: target_shape_valid_def Let_def no)
  next
    case (3 reason)
    then show ?case using buildResultD[OF 3] by (simp add: target_shape_valid_def Let_def)
  next
    case 4
    then show ?case using buildResultD[OF 4(3)] by (simp add: target_shape_valid_def Let_def no)
  next
    case 5
    have "go_status g = SATISFIED" if "g \<in> set (observed_gates x)" for g
      using that 5(2,5) by (intro sat) (auto simp: list_ex_iff semantic_gates_def filter_empty_conv deterministic_status(1))
    then show ?case using 5(2) buildResultD[OF 5(6)]
      by (simp add: target_shape_valid_def Let_def no list_all_iff)
  next
    case (6 f s d reason)
    note b = buildResultD[OF 6(8)]
    show ?case
    proof (cases d)
      case PASS
      have "go_status g = SATISFIED" if "g \<in> set (combine (observed_gates x) s)" for g
        using that 6(7) PASS by (intro sat) (auto simp: list_ex_iff split: if_splits)
      then show ?thesis using b PASS by (simp add: target_shape_valid_def Let_def no list_all_iff list_ex_iff)
    qed (use b 6(7) in \<open>auto simp: target_shape_valid_def Let_def no split: if_splits\<close>)
  qed
qed

lemma result_ids:
  assumes "verify port x = Inr r"
  shows "cv_verificationId r = cx_verificationId x" "cv_taskId r = cx_taskId x"
    "cv_unmetGateIds r = unsatisfied_ids (cv_gateResults r)"
    "distinct (cv_missingKnowledgeIds r)" "distinct (cv_violatedBoundaryIds r)"
    "set (cv_missingKnowledgeIds r) \<subseteq> set (map kq_knowledgeId (cx_requiredKnowledge x))"
    "set (cv_violatedBoundaryIds r) \<subseteq> set (map cb_boundaryId (cx_boundaries x))"
  by (rule verify_cases[OF assms]; auto dest!: buildResultD simp: missing_knowledge_def)+

lemma verify_contract:
  assumes "verify port x = Inr r"
  shows "validVerification r x"
proof -
  have v: "validate x = Inr ()" using assms by (auto simp: verify_def)
  note ids = result_ids[OF assms] and order = gates_in_order(1)[OF assms]
  have d: "distinct (map go_gateId (cv_gateResults r))" using validate_ok(1)[OF v] order by simp
  have l: "length (cv_gateResults r) = length (cx_gates x)" using order by (metis length_map)
  have u: "distinct (unsatisfied_ids (cv_gateResults r))"
    "set (unsatisfied_ids (cv_gateResults r)) \<subseteq> set (map cg_gateId (cx_gates x))"
    unfolding order[symmetric] unsatisfied_ids_def by (auto intro: distinct_map_filter d)
  show ?thesis
    using ids d l u decision_targets[OF assms] order
    by (auto simp: validVerification_def Let_def list_all_iff subset_iff simp del: set_map)
qed

text \<open>What the stop hook may rely on: whatever the port settles with names only declared targets.\<close>

locale closure_contract =
  fixes port :: "closure_input \<Rightarrow> int \<Rightarrow> closure_result settled"
  assumes settles_valid: "port x t = Settled r \<Longrightarrow> validVerification r x"
begin

lemma obtained_first:
  assumes "se_deterministic env = port" and "se_semantic env = None"
    and "obtain_verification policy outer env x = Inr (v, n)"
  shows "\<exists>t. port x t = Settled v"
  using assms by (auto simp: obtain_verification_def deadline_def split: if_splits settled.splits)

lemma accepts:
  assumes "se_deterministic env = port" and "port x t = Settled v"
    and "t = min (cp_deterministicDeadlineMs policy) (remaining outer env 1)" and "1 \<le> t"
    and "\<not> (cv_decision v = ASK_USER \<and> ''SEMANTIC_VERIFICATION_UNAVAILABLE'' \<in> set (cv_reasonCodes v))"
  shows "obtain_verification policy outer env x = Inr (v, 2)"
proof -
  have "deadline (port x) t = Inr v" using assms(2,4) by (simp add: deadline_def)
  then show ?thesis using assms settles_valid[OF assms(2)]
    unfolding obtain_verification_def by (simp del: de_Morgan_conj)
qed

end

interpretation verifier: closure_contract "verifier_port error_text late sem" for error_text late sem
  by unfold_locales (auto simp: verifier_port_def intro: verify_contract split: if_splits sum.splits)

section \<open>The outcome of a verification\<close>

lemma obtained_valid:
  "obtain_verification policy outer env x = Inr (v, n) \<Longrightarrow> validVerification v x"
  by (auto simp: obtain_verification_def split: option.splits if_splits)

lemma decide_continuesD:
  assumes "decide_stop policy outer env x = Inr (Continues status d reason)"
  obtains v n where "obtain_verification policy outer env x = Inr (v, n)" "cv_decision v = d"
      "status = CONTINUED_WITH_CORRECTION" "d = RETRY_WITH_CORRECTION" "reason = correctionReason v x"
  | v n c where "obtain_verification policy outer env x = Inr (v, n)" "cv_decision v = d"
      "status = CONTINUED_WITH_CONTEXT" "d = RETRY_WITH_CONTEXT" "reason = contextReason v c" "delta_covers v c"
proof -
  obtain v n where v: "obtain_verification policy outer env x = Inr (v, n)"
    using assms by (auto simp: decide_stop_def)
  show thesis
    using assms v that by (cases "cv_decision v") (auto simp: decide_stop_def)
qed

lemma handle_output:
  assumes "sp_output (fst (handle_stop get claim policy outer env r s)) = Some reason"
  obtains status d where "validInput r" "\<not> sh_stop_hook_active (sr_hook r)"
    "decide_stop policy outer env (sr_closureInput r) = Inr (Continues status d reason)"
    "sp_status (fst (handle_stop get claim policy outer env r s)) = status"
    "sp_decision (fst (handle_stop get claim policy outer env r s)) = Some d"
  using assms
  by (auto simp: handle_stop_def stop_begin_def stop_finish_def plain_stop_def Let_def
      split: prod.splits if_splits sum.splits stop_outcome.splits)

lemma safeError_plain: "plain_text (safeError e)" "length (safeError e) \<le> 500"
proof -
  have "plain_char (safe_char c)" for c by (simp add: safe_char_def) (simp add: plain_char_def)
  then have "plain_char x" if "x \<in> set (map safe_char e)" for x using that by auto
  then show "plain_text (safeError e)" by (auto simp: safeError_def plain_text_def list_all_iff simp del: set_map dest: in_set_takeD)
qed (simp add: safeError_def)

section \<open>The hook with the verifier behind it\<close>

text \<open>The hook as the runtime wires it: the deterministic port is the verifier without a semantic port.\<close>

definition wired :: "stop_env \<Rightarrow> (closure_error \<Rightarrow> string)
    \<Rightarrow> (closure_input \<Rightarrow> int \<Rightarrow> bool) \<Rightarrow> bool" where
  "wired env error_text late \<longleftrightarrow> se_deterministic env = verifier_port error_text late None"

definition in_time :: "closure_policy \<Rightarrow> int \<Rightarrow> stop_env \<Rightarrow> (closure_input \<Rightarrow> int \<Rightarrow> bool) \<Rightarrow> closure_input \<Rightarrow> bool" where
  "in_time policy outer env late x \<longleftrightarrow>
     (let t = min (cp_deterministicDeadlineMs policy) (remaining outer env 1) in 1 \<le> t \<and> \<not> late x t)"

lemma wired_settles:
  "verify None x = Inr v \<Longrightarrow> wired env error_text late \<Longrightarrow> in_time policy outer env late x
   \<Longrightarrow> \<not> (cv_decision v = ASK_USER \<and> ''SEMANTIC_VERIFICATION_UNAVAILABLE'' \<in> set (cv_reasonCodes v))
   \<Longrightarrow> obtain_verification policy outer env x = Inr (v, 2)"
  by (rule verifier.accepts) (auto simp: wired_def verifier_port_def in_time_def Let_def)

lemma wired_failing:
  assumes "validate x = Inr ()" and "list_all short_refs (observed_gates x)"
    and "list_ex (crosses x) (cx_boundaries x) \<or>
      (\<exists>g \<in> set (cx_gates x). cg_type g \<noteq> SEMANTIC \<and> \<not> gate_holds (cg_type g) x)"
  obtains v where "verify None x = Inr v" "cv_decision v = RETRY_WITH_CORRECTION"
    "cv_unmetGateIds v = unsatisfied_ids (observed_gates x)"
proof -
  obtain v where v: "verify None x = Inr v" using verify_ok[OF assms(1,2)] by (auto simp: is_ok_iff)
  have un: "list_ex (\<lambda>g. go_status g = UNSATISFIED) (observed_gates x)"
    if none: "filter (crosses x) (cx_boundaries x) = []"
  proof -
    obtain g where g: "g \<in> set (cx_gates x)" "cg_type g \<noteq> SEMANTIC" "\<not> gate_holds (cg_type g) x"
      using assms(3) none unfolding filter_empty_conv list_ex_iff by blast
    then have "go_status (deterministicGate g x) = UNSATISFIED"
      using deterministic_status(1)[of g x] deterministic_status(2)[OF validate_ok(4)[OF assms(1)], of g]
      by (cases "go_status (deterministicGate g x)") auto
    then show ?thesis using g(1) by (auto simp: list_ex_iff)
  qed
  have "cv_decision v = RETRY_WITH_CORRECTION \<and> cv_unmetGateIds v = unsatisfied_ids (observed_gates x)"
    using v un assms(1)
    by (auto simp: verify_def Let_def simp del: filter_empty_conv dest!: buildResultD split: if_splits)
  then show thesis using v that by blast
qed

lemma wired_done:
  assumes "verify None x = Inr v" and "list_all (\<lambda>g. gate_holds (cg_type g) x) (cx_gates x)"
    and "\<not> list_ex (crosses x) (cx_boundaries x)" and "missing_knowledge x = []"
  shows "cv_decision v \<in> {PASS, ASK_USER} \<and> ''SEMANTIC_VERIFICATION_UNAVAILABLE'' \<notin> set (cv_reasonCodes v)"
proof -
  have val: "validate x = Inr ()" using assms(1) by (auto simp: verify_def)
  note st = deterministic_status(2)[OF validate_ok(4)[OF val]]
  have "go_status (deterministicGate g x) = SATISFIED" if "g \<in> set (cx_gates x)" for g
    using assms(2) st that by (simp add: list_all_iff)
  then have sat: "\<not> list_ex (\<lambda>g. go_status g = UNSATISFIED) (observed_gates x)"
    by (auto simp: list_ex_iff)
  have sem: "semantic_gates x = []"
    using assms(2) by (auto simp: semantic_gates_def filter_empty_conv list_all_iff gate_holds_def)
  have b: "filter (crosses x) (cx_boundaries x) = []" using assms(3) by (auto simp: filter_empty_conv list_ex_iff)
  show ?thesis using assms(1,4) val
    unfolding verify_def val and_then_simps Let_def b
    by (auto simp: sat sem dest!: buildResultD split: if_splits)
qed

lemma correction_blocks:
  assumes "validInput r" and "\<not> sh_stop_hook_active (sr_hook r)"
    and "audit_count s (stop_key r) < maximum_of policy r"
    and "obtain_verification policy outer env (sr_closureInput r) = Inr (v, n)"
    and "cv_decision v = RETRY_WITH_CORRECTION"
  shows "fst (handle_stop audit_get audit_claim policy outer env r s) =
    \<lparr>sp_status = CONTINUED_WITH_CORRECTION, sp_decision = Some RETRY_WITH_CORRECTION,
      sp_continuationCount = audit_count s (stop_key r) + 1,
      sp_output = Some (correctionReason v (sr_closureInput r)), sp_diagnostic = None\<rparr>"
proof -
  obtain n1 s1 where g: "audit_get s (stop_key r) = (n1, s1)" by fastforce
  have n1: "n1 = audit_count s (stop_key r)" "audit_count s1 = audit_count s"
    using audited.get_count[of s "stop_key r"] audited.get_frame[of s "stop_key r"] g by auto
  obtain b s2 where c: "audit_claim s1 (stop_key r) (maximum_of policy r) = (b, s2)" by fastforce
  have b: b "audit_count s2 (stop_key r) = audit_count s (stop_key r) + 1"
    using audited.claim_granted[of s1 "stop_key r" "maximum_of policy r"] assms(3) n1 c by auto
  obtain n3 s3 where g3: "audit_get s2 (stop_key r) = (n3, s3)" by fastforce
  have n3: "n3 = audit_count s (stop_key r) + 1" using audited.get_count[of s2 "stop_key r"] g3 b by simp
  have "validVerification v (sr_closureInput r)" by (rule obtained_valid[OF assms(4)])
  then have "\<not> (cv_unmetGateIds v = [] \<and> cv_violatedBoundaryIds v = [])"
    using assms(5) by (auto simp: validVerification_def target_shape_valid_def Let_def)
  then have "decide_stop policy outer env (sr_closureInput r)
      = Inr (Continues CONTINUED_WITH_CORRECTION RETRY_WITH_CORRECTION (correctionReason v (sr_closureInput r)))"
    using assms(4,5) by (simp add: decide_stop_def del: de_Morgan_conj)
  then show ?thesis using assms(1-3) g n1 c b g3 n3
    by (simp add: handle_stop_def stop_begin_def stop_finish_def plain_stop_def)
qed

section \<open>Example\<close>

definition ex_policy :: closure_policy where
  "ex_policy = \<lparr>cp_defaultMaxContinuations = 1, cp_highRiskMaxContinuations = 2,
     cp_deterministicDeadlineMs = 500, cp_semanticVerificationDeadlineMs = 3000\<rparr>"

definition ex_failing :: closure_input where
  "ex_failing = ex_closure\<lparr>cx_gates := [\<lparr>cg_gateId = ''g1'', cg_description = ''run a'', cg_type = TEST_PASSED ''b''\<rparr>]\<rparr>"

definition ex_done :: closure_input where
  "ex_done = ex_closure\<lparr>cx_gates := [\<lparr>cg_gateId = ''g1'', cg_description = ''run a'', cg_type = TEST_PASSED ''a''\<rparr>]\<rparr>"

definition ex_stop_env :: stop_env where
  "ex_stop_env = \<lparr>se_deterministic = verifier_port (\<lambda>_. ''Error: closure'') (\<lambda>_ _. False) None,
     se_semantic = None, se_contextDelta = (\<lambda>_ _. Expired), se_clock = (\<lambda>_. 0)\<rparr>"

definition ex_request :: "closure_input \<Rightarrow> stop_request" where
  "ex_request x = \<lparr>sr_hook = \<lparr>sh_hook_event_name = ''Stop'', sh_session_id = ''s1'', sh_turn_id = ''t1'',
     sh_cwd = ''/w'', sh_stop_hook_active = False, sh_last_assistant_message = None\<rparr>,
     sr_closureInput = x, sr_risk = None\<rparr>"

definition ex_counter :: audit_counter where
  "ex_counter = \<lparr>ac_runs = [], ac_counts = (\<lambda>_. None)\<rparr>"

lemma ex_failing_valid: "validate ex_failing = Inr ()"
  by (simp add: validate_def ex_failing_def ex_closure_def ids_ok_def closure_path_def text_simps)

lemma ex_request_valid: "cx_taskId x = ''t1'' \<Longrightarrow> validInput (ex_request x)"
  by (simp add: ex_request_def validInput_def text_simps)

lemma ex_policy_ok: "closure_policy_ok ex_policy"
  by (simp add: closure_policy_ok_def ex_policy_def bounded_def safe_integer_def)

lemma ex_failing_short: "list_all short_refs (observed_gates ex_failing)"
  by (simp add: ex_failing_def ex_closure_def deterministicGate_def gate_observation_def)

lemma ex_failing_open: "\<exists>g \<in> set (cx_gates ex_failing). cg_type g \<noteq> SEMANTIC \<and> \<not> gate_holds (cg_type g) ex_failing"
  by (simp add: ex_failing_def ex_closure_def gate_holds_def)

lemma ex_wired: "wired ex_stop_env (\<lambda>_. ''Error: closure'') (\<lambda>_ _. False)"
  "in_time ex_policy 5000 ex_stop_env (\<lambda>_ _. False) x"
  by (simp_all add: wired_def in_time_def ex_stop_env_def ex_policy_def remaining_def)

lemma ex_counter_zero: "audit_count ex_counter k = 0"
  by (simp add: audit_count_def persisted_count_def ex_counter_def)

lemma ex_blocks:
  obtains v where "fst (handle_stop audit_get audit_claim ex_policy 5000 ex_stop_env (ex_request ex_failing) ex_counter) =
    \<lparr>sp_status = CONTINUED_WITH_CORRECTION, sp_decision = Some RETRY_WITH_CORRECTION, sp_continuationCount = 1,
      sp_output = Some (correctionReason v ex_failing), sp_diagnostic = None\<rparr>"
proof (rule wired_failing[OF ex_failing_valid ex_failing_short disjI2[OF ex_failing_open]])
  fix v assume v: "verify None ex_failing = Inr v" "cv_decision v = RETRY_WITH_CORRECTION"
  have x: "sr_closureInput (ex_request ex_failing) = ex_failing" by (simp add: ex_request_def)
  have "obtain_verification ex_policy 5000 ex_stop_env ex_failing = Inr (v, 2)"
    by (rule wired_settles[OF v(1) ex_wired]) (simp add: v(2))
  from that[of v] correction_blocks[of "ex_request ex_failing" ex_counter ex_policy 5000 ex_stop_env v 2, unfolded x, OF _ _ _ this v(2)]
  show thesis
    by (simp add: ex_counter_zero ex_request_valid ex_failing_def ex_closure_def)
      (simp add: ex_request_def maximum_of_def ex_policy_def)
qed

section \<open>Properties\<close>



text \<open>
  C38: The agent is sent back only for declared targets. When the handler blocks, the request was valid and
  not already inside a stop hook, and a verification of this very task said so: either a correction whose
  text names a non-empty set of declared gates and boundaries, the gates being exactly the unsatisfied
  ones, or a context delta that covers exactly the missing, declared knowledge at level L3.
\<close>

theorem blocks_only_for_declared_targets:
  assumes "handle_stop get claim policy outer env r s = (result, s')" and "sp_output result = Some reason"
  shows "validInput r \<and> \<not> sh_stop_hook_active (sr_hook r)
    \<and> (\<exists>v n. obtain_verification policy outer env (sr_closureInput r) = Inr (v, n)
        \<and> sp_decision result = Some (cv_decision v) \<and> cv_taskId v = sh_turn_id (sr_hook r)
        \<and> (if sp_status result = CONTINUED_WITH_CORRECTION
           then reason = correctionReason v (sr_closureInput r)
             \<and> (cv_unmetGateIds v \<noteq> [] \<or> cv_violatedBoundaryIds v \<noteq> [])
             \<and> set (cv_unmetGateIds v) = set (unsatisfied_ids (cv_gateResults v))
             \<and> set (cv_unmetGateIds v) \<subseteq> cg_gateId ` set (cx_gates (sr_closureInput r))
             \<and> set (cv_violatedBoundaryIds v) \<subseteq> cb_boundaryId ` set (cx_boundaries (sr_closureInput r))
           else sp_status result = CONTINUED_WITH_CONTEXT
             \<and> (\<exists>d. reason = contextReason v d \<and> cv_missingKnowledgeIds v \<noteq> []
               \<and> set (map dl_id (cd_items d)) = set (cv_missingKnowledgeIds v)
               \<and> list_all (\<lambda>i. dl_toDetailLevel i = L3_EVIDENCED) (cd_items d)
               \<and> set (cv_missingKnowledgeIds v) \<subseteq> kq_knowledgeId ` set (cx_requiredKnowledge (sr_closureInput r)))))"
proof -
  let ?x = "sr_closureInput r"
  obtain status d where h: "validInput r" "\<not> sh_stop_hook_active (sr_hook r)"
    "decide_stop policy outer env ?x = Inr (Continues status d reason)"
    "sp_status result = status" "sp_decision result = Some d"
    using handle_output[of get claim policy outer env r s reason] assms by auto
  have task: "cx_taskId ?x = sh_turn_id (sr_hook r)" using h(1) by (simp add: validInput_def Let_def)
  from h(3) show ?thesis
  proof (rule decide_continuesD)
    fix v n
    assume v: "obtain_verification policy outer env ?x = Inr (v, n)" "cv_decision v = d"
      "status = CONTINUED_WITH_CORRECTION" "d = RETRY_WITH_CORRECTION" "reason = correctionReason v ?x"
    note ok = obtained_valid[OF v(1)]
    have "set (cv_unmetGateIds v) = set (unsatisfied_ids (cv_gateResults v))"
    proof (rule card_subset_eq[symmetric])
      show "set (unsatisfied_ids (cv_gateResults v)) \<subseteq> set (cv_unmetGateIds v)"
        using ok by (auto simp: validVerification_def Let_def list_all_iff)
      have "distinct (unsatisfied_ids (cv_gateResults v))"
        unfolding unsatisfied_ids_def by (rule distinct_map_filter) (use ok in \<open>simp add: validVerification_def Let_def\<close>)
      then show "card (set (unsatisfied_ids (cv_gateResults v))) = card (set (cv_unmetGateIds v))"
        using ok by (simp add: validVerification_def Let_def distinct_card)
    qed simp
    moreover have "set (cv_unmetGateIds v) \<subseteq> cg_gateId ` set (cx_gates ?x)"
      "set (cv_violatedBoundaryIds v) \<subseteq> cb_boundaryId ` set (cx_boundaries ?x)"
      "cv_unmetGateIds v \<noteq> [] \<or> cv_violatedBoundaryIds v \<noteq> []" "cv_taskId v = cx_taskId ?x"
      using ok v(2,4) by (auto simp: validVerification_def target_shape_valid_def Let_def list_all_iff)
    ultimately show ?thesis using h v task by auto
  next
    fix v n c
    assume v: "obtain_verification policy outer env ?x = Inr (v, n)" "cv_decision v = d"
      "status = CONTINUED_WITH_CONTEXT" "d = RETRY_WITH_CONTEXT" "reason = contextReason v c" "delta_covers v c"
    note ok = obtained_valid[OF v(1)]
    have "set (map dl_id (cd_items c)) = set (cv_missingKnowledgeIds v)"
      "list_all (\<lambda>i. dl_toDetailLevel i = L3_EVIDENCED) (cd_items c)"
      using v(6) by (auto simp: delta_covers_def Let_def list_ex_iff list_all_iff)
    moreover have "set (cv_missingKnowledgeIds v) \<subseteq> kq_knowledgeId ` set (cx_requiredKnowledge ?x)"
      "cv_missingKnowledgeIds v \<noteq> []" "cv_taskId v = cx_taskId ?x"
      using ok v(2,4) by (auto simp: validVerification_def target_shape_valid_def Let_def list_all_iff)
    ultimately show ?thesis using h v task by auto
  qed
qed

lemma blocks_only_for_declared_targets_witness:
  "\<exists>v n. obtain_verification ex_policy 5000 ex_stop_env ex_failing = Inr (v, n) \<and> cv_decision v = RETRY_WITH_CORRECTION"
proof (rule ex_blocks)
  fix v
  assume h: "fst (handle_stop audit_get audit_claim ex_policy 5000 ex_stop_env (ex_request ex_failing) ex_counter) =
    \<lparr>sp_status = CONTINUED_WITH_CORRECTION, sp_decision = Some RETRY_WITH_CORRECTION, sp_continuationCount = 1,
      sp_output = Some (correctionReason v ex_failing), sp_diagnostic = None\<rparr>"
  show ?thesis
    using blocks_only_for_declared_targets[OF prod.collapse[symmetric], of audit_get audit_claim ex_policy 5000
        ex_stop_env "ex_request ex_failing" ex_counter "correctionReason v ex_failing"]
    unfolding h by (auto simp: ex_request_def)
qed



text \<open>
  The verifier keeps the stop hook's contract. Whatever the closure verifier answers passes the
  hook's own validation: one outcome per declared gate, unmet gates exactly the unsatisfied ones, only
  declared gates, boundaries and knowledge named, and the targets its decision requires.
\<close>

theorem verifier_answers_are_valid:
  assumes "verify sem x = Inr v"
  shows "validVerification v x"
  by (rule verify_contract[OF assms])

lemma verifier_answers_are_valid_witness: "\<exists>v. verify ex_port ex_closure = Inr v \<and> validVerification v ex_closure"
  using verifier_answers_are_valid[OF ex_verify_pass] ex_verify_pass by blast

text \<open>
  A finished task is never sent back. With the closure verifier behind the deterministic port, when
  every gate holds of the observations, no boundary is crossed and no required knowledge is missing, the
  hook does not block, whatever the clock, the counter and the other ports do.
\<close>

theorem finished_task_is_not_blocked:
  assumes "wired env error_text late"
    and "list_all (\<lambda>g. gate_holds (cg_type g) (sr_closureInput r)) (cx_gates (sr_closureInput r))"
    and "\<not> list_ex (crosses (sr_closureInput r)) (cx_boundaries (sr_closureInput r))"
    and "missing_knowledge (sr_closureInput r) = []"
  shows "sp_output (fst (handle_stop get claim policy outer env r s)) = None"
proof (rule ccontr)
  assume "sp_output (fst (handle_stop get claim policy outer env r s)) \<noteq> None"
  then obtain reason where "sp_output (fst (handle_stop get claim policy outer env r s)) = Some reason" by auto
  then show False
  proof (rule handle_output)
    fix status d
    assume "decide_stop policy outer env (sr_closureInput r) = Inr (Continues status d reason)"
    then obtain v n where v: "obtain_verification policy outer env (sr_closureInput r) = Inr (v, n)"
      "cv_decision v = d" "d = RETRY_WITH_CORRECTION \<or> d = RETRY_WITH_CONTEXT"
      by (rule decide_continuesD) auto
    then have "verify None (sr_closureInput r) = Inr v" using wired_done[OF _ assms(2-4)] assms(1)
      by (fastforce simp: obtain_verification_def wired_def deadline_def verifier_port_def
          split: if_splits sum.splits option.splits)
    from wired_done[OF this assms(2-4)] v(2,3) show False by auto
  qed
qed

lemma finished_task_is_not_blocked_witness:
  "sp_output (fst (handle_stop audit_get audit_claim ex_policy 5000 ex_stop_env (ex_request ex_done) ex_counter)) = None"
  by (rule finished_task_is_not_blocked[OF ex_wired(1)])
    (simp_all add: ex_request_def ex_done_def ex_closure_def gate_holds_def crosses_def missing_knowledge_def last_entry_def)

text \<open>
  C40: An unfinished task is sent back. With the closure verifier behind the deterministic port and in time,
  when the input is valid, its evidence references are short and some deterministic gate does not hold or
  some boundary is crossed, a first handler of the turn that is not already inside a stop hook blocks
  with the correction that names exactly the gates observed as unsatisfied, and counts it.
\<close>

theorem unfinished_task_is_sent_back:
  assumes "wired env error_text late" and "in_time policy outer env late (sr_closureInput r)"
    and "validInput r" and "\<not> sh_stop_hook_active (sr_hook r)"
    and "audit_count s (stop_key r) < maximum_of policy r"
    and "validate (sr_closureInput r) = Inr ()" and "list_all short_refs (observed_gates (sr_closureInput r))"
    and "list_ex (crosses (sr_closureInput r)) (cx_boundaries (sr_closureInput r)) \<or>
      (\<exists>g \<in> set (cx_gates (sr_closureInput r)). cg_type g \<noteq> SEMANTIC \<and> \<not> gate_holds (cg_type g) (sr_closureInput r))"
  shows "\<exists>v. cv_unmetGateIds v = unsatisfied_ids (observed_gates (sr_closureInput r))
    \<and> fst (handle_stop audit_get audit_claim policy outer env r s) =
      \<lparr>sp_status = CONTINUED_WITH_CORRECTION, sp_decision = Some RETRY_WITH_CORRECTION,
        sp_continuationCount = audit_count s (stop_key r) + 1,
        sp_output = Some (correctionReason v (sr_closureInput r)), sp_diagnostic = None\<rparr>"
proof (rule wired_failing[OF assms(6-8)])
  fix v assume v: "verify None (sr_closureInput r) = Inr v" "cv_decision v = RETRY_WITH_CORRECTION"
    "cv_unmetGateIds v = unsatisfied_ids (observed_gates (sr_closureInput r))"
  have "obtain_verification policy outer env (sr_closureInput r) = Inr (v, 2)"
    by (rule wired_settles[OF v(1) assms(1,2)]) (simp add: v(2))
  then show ?thesis using correction_blocks[OF assms(3-5) _ v(2)] v(3) by blast
qed

lemma unfinished_task_is_sent_back_witness:
  "sp_status (fst (handle_stop audit_get audit_claim ex_policy 5000 ex_stop_env (ex_request ex_failing) ex_counter))
     = CONTINUED_WITH_CORRECTION"
proof -
  have x: "sr_closureInput (ex_request ex_failing) = ex_failing" "validInput (ex_request ex_failing)"
    "\<not> sh_stop_hook_active (sr_hook (ex_request ex_failing))" "maximum_of ex_policy (ex_request ex_failing) = 1"
    by (simp add: ex_request_def, rule ex_request_valid, simp add: ex_failing_def ex_closure_def)
      (simp_all add: ex_request_def maximum_of_def ex_policy_def)
  show ?thesis
    using unfinished_task_is_sent_back[OF ex_wired(1), where r = "ex_request ex_failing" and s = ex_counter
        and policy = ex_policy and outer = 5000, unfolded x,
        OF ex_wired(2)] x ex_counter_zero ex_failing_valid ex_failing_short ex_failing_open by auto
qed

end
