(* ===== verification/InteractionProps.thy ===== *)
theory InteractionProps
  imports Interaction PolicyProps
begin

text \<open>The properties of the interaction policy, and a turn on which they are tried.\<close>

section \<open>A turn\<close>

definition ask_trigger :: "string \<Rightarrow> confirmation_kind \<Rightarrow> impact_level \<Rightarrow> int \<Rightarrow> interaction_trigger" where
  "ask_trigger i k l n = \<lparr>it_triggerId = i, it_sessionId = ''s1'', it_turnId = ''t1'', it_turnOrdinal = n,
     it_kind = k, it_impact = l, it_irreversible = False, it_subjectIds = [''k1''], it_summary = ''cache''\<rparr>"

definition ask_input :: "int \<Rightarrow> interaction_trigger list \<Rightarrow> history_entry list \<Rightarrow> interaction_input" where
  "ask_input n ts h = \<lparr>ii_sessionId = ''s1'', ii_turnId = ''t1'', ii_turnOrdinal = n, ii_now = Iso 5,
     ii_triggers = ts, ii_history = h, ii_policy = ex_policy\<rparr>"

definition ask_turn :: interaction_input where
  "ask_turn = ask_input 30
     [ask_trigger ''a'' LOW_IMPACT_UNKNOWN LOW 30, ask_trigger ''b'' SCOPE_PROMOTION MEDIUM 30,
      ask_trigger ''c'' KNOWLEDGE_CONFLICT HIGH 30] []"

definition entry :: "string \<Rightarrow> int \<Rightarrow> history_entry" where
  "entry t n = \<lparr>he_confirmationId = ''confirmation-0'', he_triggerId = t, he_sessionId = ''s1'',
     he_turnId = ''t1'', he_turnOrdinal = n\<rparr>"

definition ask_first :: interaction_input where
  "ask_first = ask_input 3 [ask_trigger ''a'' SCOPE_PROMOTION MEDIUM 3] []"

definition ask_second :: interaction_input where
  "ask_second = ask_input 23 [ask_trigger ''b'' SCOPE_PROMOTION MEDIUM 23] [entry ''a'' 3]"

definition zero_hash :: "utf16 \<Rightarrow> string" where
  "zero_hash u = ''0''"

definition ask_decision :: interaction_decision where
  "ask_decision = projr (evaluateInteractionPolicy zero_hash ask_turn)"

lemma ask_turn_decision: "evaluateInteractionPolicy zero_hash ask_turn = Inr ask_decision"
  by (rule evaluate_total[of zero_hash ask_turn]) (simp add: ask_decision_def)

lemma ask_ids [simp]: "safe_id ''s1''" "safe_id ''t1''" "safe_id ''a''" "safe_id ''b''" "safe_id ''c''"
  "safe_id ''k1''" "valid_text 500 ''cache''" "safe_id ''confirmation-0''"
  by (simp_all add: text_simps)

lemmas ask_defs = ask_turn_def ask_first_def ask_second_def ask_input_def ask_trigger_def ex_policy_def
  trigger_ok_def history_ok_def entry_def safe_integer_def

lemma ask_turn_valid: "valid_interaction ask_turn"
  "valid_interaction ask_first" "valid_interaction ask_second"
  by (simp_all add: valid_interaction_def ask_defs)

lemmas ask_eval = eligible_def questionBudgetExhausted_def asked_def

lemma first_asks: "session_step zero_hash [] [entry ''a'' 3]"
  using session_asks[OF ask_turn_valid(2), of "ask_trigger ''a'' SCOPE_PROMOTION MEDIUM 3" "[]" zero_hash]
  by (simp add: ask_eval ask_defs confirmation_id_def zero_hash_def)

lemma second_asks: "session_step zero_hash [entry ''a'' 3] [entry ''a'' 3, entry ''b'' 23]"
  using session_asks[OF ask_turn_valid(3), of "ask_trigger ''b'' SCOPE_PROMOTION MEDIUM 23" "[]" zero_hash]
  by (simp add: ask_eval ask_defs confirmation_id_def zero_hash_def)

section \<open>Questions\<close>

text \<open>
  C10: When every question a session is asked is recorded in its history, then whatever the turns
  bring, any two questions of the session are at least twenty turns apart and no trigger is asked
  about twice.
\<close>
theorem questions_are_spaced:
  assumes "(session_step sha)\<^sup>*\<^sup>* [] h" and "a < b" and "b < length h"
  shows "he_turnOrdinal (h ! a) + 20 \<le> he_turnOrdinal (h ! b) \<and> he_triggerId (h ! a) \<noteq> he_triggerId (h ! b)"
proof -
  have s: "spaced h" by (rule session_spaced[OF assms(1)])
  have "map he_triggerId h ! a \<noteq> map he_triggerId h ! b"
    using s assms(2,3) by (metis nth_eq_iff_index_eq length_map less_trans nat_neq_iff spaced_def)
  then show ?thesis using s assms(2,3) sorted_wrt_nth_less[of _ h a b] by (auto simp: spaced_def)
qed

theorem questions_are_spaced_witness:
  "(session_step zero_hash)\<^sup>*\<^sup>* [] [entry ''a'' 3, entry ''b'' 23]
     \<and> he_turnOrdinal (entry ''a'' 3) + 20 \<le> he_turnOrdinal (entry ''b'' 23)"
proof -
  have run: "(session_step zero_hash)\<^sup>*\<^sup>* [] [entry ''a'' 3, entry ''b'' 23]"
    using first_asks second_asks by (meson rtranclp.rtrancl_into_rtrancl rtranclp.rtrancl_refl)
  show ?thesis using questions_are_spaced[OF run, of 0 1] run by simp
qed

text \<open>
  On a valid turn with triggers, every trigger is accounted for exactly once: it is the one asked
  about, or it is deferred with a default that has its subjects and the safe effect of its kind. The
  default of the question asked is its option with the safe effect.
\<close>
theorem triggers_accounted_once:
  assumes "valid_interaction i" and "ii_triggers i \<noteq> []" and "evaluateInteractionPolicy sha i = Inr d"
  shows "mset (de_deferredTriggerIds d) + mset (map cq_triggerId (case de_request d of None \<Rightarrow> [] | Some q \<Rightarrow> [q]))
      = mset (map it_triggerId (ii_triggers i))
    \<and> map sd_triggerId (de_defaults d) = de_deferredTriggerIds d
    \<and> list_all (accounts i) (de_defaults d)
    \<and> list_all (\<lambda>q. map_option op_effect (find (\<lambda>p. op_optionId p = cq_safeDefaultOptionId q) (cq_options q))
        = SAFE_CONFIRMATION_EFFECT_BY_KIND (cq_kind q)) (case de_request d of None \<Rightarrow> [] | Some q \<Rightarrow> [q])"
proof -
  have ids: "mset (map it_triggerId (lowUnknown i)) + mset (map it_triggerId (repeated i))
      + mset (map it_triggerId (eligible i)) = mset (map it_triggerId (ii_triggers i))"
    unfolding mset_map split_triggers[symmetric] by simp
  show ?thesis using assms(3)
  proof (cases rule: decision_cases)
    case (defers d')
    have "map sd_triggerId (de_defaults d) = map it_triggerId (lowUnknown i) @ map it_triggerId (repeated i)
        @ map it_triggerId (eligible i)"
      using defers by (simp add: early_default_ids comp_def fallback_def)
    then show ?thesis using ids defers early_accounts[of i] late_accounts[OF subset_refl] by (simp add: add.assoc flip: ids)
  next
    case (asks d' t ts q)
    have "map sd_triggerId (de_defaults d) = map it_triggerId (lowUnknown i) @ map it_triggerId (repeated i)
        @ map it_triggerId ts"
      using asks by (simp add: early_default_ids comp_def fallback_def)
    moreover have "list_all (accounts i) (map (\<lambda>t. fallback t LOWER_PRIORITY_DEFERRED) ts)"
      using asks(6) by (intro late_accounts) auto
    ultimately show ?thesis
      using ids asks early_accounts[of i] request_default[OF asks(7)]
        request_fields(2)[OF asks(7)]
      by (simp add: ac_simps flip: ids)
  qed (use assms in simp_all)
qed

theorem triggers_accounted_once_witness:
  "mset (de_deferredTriggerIds ask_decision)
     + mset (map cq_triggerId (case de_request ask_decision of None \<Rightarrow> [] | Some q \<Rightarrow> [q])) = {#''a'', ''b'', ''c''#}"
  using triggers_accounted_once[OF ask_turn_valid(1) _ ask_turn_decision]
  by (simp add: ask_turn_def ask_input_def ask_trigger_def)

text \<open>
  C24: A question is asked exactly when the turn is valid, some trigger other than a low-impact one was
  never asked about, and no question falls into the window of the policy; it is then put about a
  trigger that no other such trigger precedes in the order: irreversible first, then impact, then
  kind, then trigger id.
\<close>
theorem asks_most_pressing:
  assumes "evaluateInteractionPolicy sha i = Inr d"
  shows "(de_request d \<noteq> None) = (valid_interaction i \<and> \<not> questionBudgetExhausted i
      \<and> list_ex (\<lambda>t. it_kind t \<noteq> LOW_IMPACT_UNKNOWN \<and> it_triggerId t \<notin> set (asked i)) (ii_triggers i))
    \<and> list_all (\<lambda>q. list_ex (\<lambda>t. request sha t (ii_now i) = Inr q
        \<and> list_all (\<lambda>u. it_kind u = LOW_IMPACT_UNKNOWN \<or> it_triggerId u \<in> set (asked i) \<or> prio_le t u)
          (ii_triggers i)) (ii_triggers i)) (case de_request d of None \<Rightarrow> [] | Some q \<Rightarrow> [q])"
  using assms
proof (cases rule: decision_cases)
  case (asks d' t ts q)
  note least = priority_order.sort_by_head_least[OF asks(6)[unfolded eligible_def]]
  show ?thesis using asks least by (auto simp: list_ex_iff list_all_iff)
next
  case (defers d')
  then show ?thesis by (auto simp: list_ex_iff eligible_def filter_empty_conv)
qed (simp_all add: bare_decision_def)

theorem asks_most_pressing_witness:
  "list_all (\<lambda>q. cq_triggerId q = ''c'') (case de_request ask_decision of None \<Rightarrow> [] | Some q \<Rightarrow> [q])
     \<and> de_request ask_decision \<noteq> None"
proof -
  have "\<not> questionBudgetExhausted ask_turn" by (simp add: ask_eval ask_defs)
  then have asks: "de_request ask_decision \<noteq> None"
    using asks_most_pressing[OF ask_turn_decision] ask_turn_valid(1) by (simp add: asked_def ask_defs)
  then obtain q where q: "de_request ask_decision = Some q" by auto
  then have "list_ex (\<lambda>t. request zero_hash t (Iso 5) = Inr q \<and> it_triggerId t = ''c'') (ii_triggers ask_turn)"
    using asks_most_pressing[OF ask_turn_decision]
    by (auto simp: ask_defs asked_def prio_le_iff request_def split: if_splits)
  then show ?thesis using q by (auto simp: list_ex_iff request_fields)
qed

end
