(* ===== verification/ConfirmationInv.thy ===== *)
theory ConfirmationInv
  imports Confirmation
begin

text \<open>
  The invariant of the confirmation repository and what every operation keeps: rows are consistent
  with the request they were saved with, claims and resolutions are never taken back.
\<close>

section \<open>Targets\<close>

interpretation target_order: comparator "\<lambda>x y. tg_subjectId x \<le> tg_subjectId y"
  by unfold_locales auto

lemma insert_by_least: "list_all (le x) ys \<Longrightarrow> insert_by le x ys = x # ys"
  by (cases ys) auto

lemma sort_by_sorted: "sorted_wrt le xs \<Longrightarrow> sort_by le xs = xs"
  by (induction xs) (auto simp: insert_by_least list_all_iff)

lemma validateTargets_Inr:
  assumes "validateTargets q ts = Inr ts'"
  shows "ts' = sort_by (\<lambda>x y. tg_subjectId x \<le> tg_subjectId y) ts" "validateTargets q ts' = Inr ts'"
    "length ts' = length (cq_subjectIds q)" "distinct (map tg_subjectId ts')"
    "list_all (\<lambda>t. safe_id (tg_subjectId t) \<and> SAFE_REVISION (tg_expectedRevision t)) ts'"
    "set (cq_subjectIds q) \<subseteq> set (map tg_subjectId ts')"
proof -
  let ?le = "\<lambda>x y. tg_subjectId x \<le> tg_subjectId y"
  show e: "ts' = sort_by ?le ts" using assms by (auto simp: validateTargets_def Let_def split: if_splits)
  have s: "sort_by ?le ts' = ts'" unfolding e by (intro sort_by_sorted target_order.sorted_sort_by)
  show "validateTargets q ts' = Inr ts'" using assms unfolding validateTargets_def s Let_def
    by (auto simp: e split: if_splits)
  show "length ts' = length (cq_subjectIds q)" "distinct (map tg_subjectId ts')"
    "list_all (\<lambda>t. safe_id (tg_subjectId t) \<and> SAFE_REVISION (tg_expectedRevision t)) ts'"
    "set (cq_subjectIds q) \<subseteq> set (map tg_subjectId ts')"
    using assms by (auto simp: validateTargets_def Let_def e list_ex_iff list_all_iff split: if_splits)
qed

section \<open>The invariant\<close>

definition resolved_ok :: "platform \<Rightarrow> confirmation_row \<Rightarrow> confirmation_resolution \<Rightarrow> bool" where
  "resolved_ok pf row r \<longleftrightarrow> parseConfirmationResolution pf r \<and> cn_confirmationId r = cw_confirmationId row
   \<and> cw_resolutionHash row = Some (pf_sha pf (resolution_text pf r))
   \<and> cw_claimResolutionId row = Some (cn_resolutionId r) \<and> cw_claimEventId row = Some (cn_responseEventId r)
   \<and> cw_claimHash row = Some (cn_responseTextHash r) \<and> \<not> expands (cw_request row) (cw_targets row) r"

definition row_ok :: "platform \<Rightarrow> confirmation_row \<Rightarrow> bool" where
  "row_ok pf row \<longleftrightarrow> row_check row \<and> parseRequest pf row = Inr (cw_request row)
   \<and> parseTargets pf row (cw_request row) = Inr (cw_targets row)
   \<and> (case cw_resolution row of None \<Rightarrow> True | Some r \<Rightarrow> resolved_ok pf row r)"

definition repository_inv :: "platform \<Rightarrow> confirmation_db \<Rightarrow> bool" where
  "repository_inv pf db \<longleftrightarrow> distinct (map cw_confirmationId (cb_rows db)) \<and> list_all (row_ok pf) (cb_rows db)"

lemma row_ofD: "row_of db c = Some row \<Longrightarrow> row \<in> set (cb_rows db) \<and> cw_confirmationId row = c"
  unfolding row_of_def by (rule find_SomeD)

lemma row_of_ok: "repository_inv pf db \<Longrightarrow> row_of db c = Some row \<Longrightarrow> row_ok pf row"
  by (auto simp: repository_inv_def list_all_iff dest: row_ofD)

lemma row_of_member:
  "repository_inv pf db \<Longrightarrow> row \<in> set (cb_rows db) \<Longrightarrow> row_of db (cw_confirmationId row) = Some row"
  by (auto simp: repository_inv_def row_of_def intro: find_unique)

text \<open>An update of one row changes what that row's key finds, and nothing else.\<close>

lemma find_map_if:
  assumes "\<And>r. cw_confirmationId (f r) = cw_confirmationId r"
  shows "find (\<lambda>r. cw_confirmationId r = c) (map (\<lambda>r. if P r then f r else r) rows)
    = map_option (\<lambda>r. if P r then f r else r) (find (\<lambda>r. cw_confirmationId r = c) rows)"
  using assms by (induction rows) auto

lemma update_rowsD:
  assumes "update_rows P f db = Inr db'" and "\<And>r. cw_confirmationId (f r) = cw_confirmationId r"
  shows "row_of db' c = map_option (\<lambda>r. if P r then f r else r) (row_of db c)"
    "map cw_confirmationId (cb_rows db') = map cw_confirmationId (cb_rows db)" "cb_closed db' = cb_closed db"
    "set (cb_rows db') = (\<lambda>r. if P r then f r else r) ` set (cb_rows db)"
  using assms find_map_if[of f c P "cb_rows db"]
  by (auto simp: update_rows_def row_of_def comp_def split: if_splits)

lemma update_rows_inv:
  assumes "repository_inv pf db" and "update_rows P f db = Inr db'"
    and "\<And>r. cw_confirmationId (f r) = cw_confirmationId r"
    and "\<And>r. r \<in> set (cb_rows db) \<Longrightarrow> P r \<Longrightarrow> row_ok pf r \<Longrightarrow> row_ok pf (f r)"
  shows "repository_inv pf db'"
  using assms(1,4) update_rowsD[OF assms(2,3)] by (auto simp: repository_inv_def list_all_iff)

section \<open>What an operation does\<close>

definition claim_by :: "string \<Rightarrow> string \<Rightarrow> string \<Rightarrow> confirmation_row \<Rightarrow> confirmation_row" where
  "claim_by i e h r = r\<lparr>cw_status := ROW_CLAIMED, cw_claimResolutionId := Some i, cw_claimEventId := Some e,
     cw_claimHash := Some h\<rparr>"

definition resolve_by :: "platform \<Rightarrow> confirmation_resolution \<Rightarrow> confirmation_row \<Rightarrow> confirmation_row" where
  "resolve_by pf r x = x\<lparr>cw_status := ROW_RESOLVED, cw_resolution := Some r,
     cw_resolutionHash := Some (pf_sha pf (resolution_text pf r)), cw_resolvedAt := Some (cn_resolvedAt r)\<rparr>"

lemma row_update_simps [simp]:
  "cw_confirmationId (claim_by i e h r) = cw_confirmationId r" "cw_status (claim_by i e h r) = ROW_CLAIMED"
  "cw_confirmationId (resolve_by pf x r) = cw_confirmationId r" "cw_status (resolve_by pf x r) = ROW_RESOLVED"
  "cw_request (claim_by i e h r) = cw_request r" "cw_request (resolve_by pf x r) = cw_request r"
  "cw_targets (claim_by i e h r) = cw_targets r" "cw_targets (resolve_by pf x r) = cw_targets r"
  "cw_resolution (claim_by i e h r) = cw_resolution r" "cw_resolution (resolve_by pf x r) = Some x"
  "parseRequest pf (claim_by i e h r) = parseRequest pf r" "parseRequest pf (resolve_by pf x r) = parseRequest pf r"
  "parseTargets pf (claim_by i e h r) = parseTargets pf r" "parseTargets pf (resolve_by pf x r) = parseTargets pf r"
  by (simp_all add: claim_by_def resolve_by_def parseRequest_def parseTargets_def fun_eq_iff Let_def)

lemma claim_ok:
  assumes "row_ok pf r" and "cw_status r = ROW_PENDING"
  shows "row_ok pf (claim_by i e h r)"
proof -
  have "row_check (claim_by i e h r)" "cw_resolution r = None"
    using assms by (auto simp: row_ok_def row_check_def claim_by_def)
  then show ?thesis using assms by (simp add: row_ok_def)
qed

lemma resolve_ok:
  assumes "row_ok pf row" and "owns_claim r row" and "parseConfirmationResolution pf r"
    and "\<not> expands (cw_request row) (cw_targets row) r" and "cn_confirmationId r = cw_confirmationId row"
  shows "row_ok pf (resolve_by pf r row)"
proof -
  have "row_check (resolve_by pf r row)" using assms(1,2)
    by (auto simp: row_ok_def row_check_def resolve_by_def owns_claim_def)
  moreover have "resolved_ok pf (resolve_by pf r row) r" using assms
    by (simp add: resolved_ok_def owns_claim_def resolve_by_def)
  ultimately show ?thesis using assms(1) by (simp add: row_ok_def)
qed

lemma claim_cases:
  assumes "claim_confirmation c i e h db = Inr (x, db')"
  obtains (Missing) "row_of db c = None" "x = CONFLICT" "db' = db"
  | (Settled) row where "row_of db c = Some row" "cw_status row \<noteq> ROW_PENDING" "db' = db"
      "x \<noteq> CLAIMED" "x = RETRY \<Longrightarrow> cw_status row = ROW_CLAIMED \<and> cw_claimResolutionId row = Some i
        \<and> cw_claimEventId row = Some e \<and> cw_claimHash row = Some h"
      "x = RESOLVED \<Longrightarrow> cw_status row = ROW_RESOLVED \<and> cw_claimResolutionId row = Some i"
  | (Taken) row where "row_of db c = Some row" "cw_status row = ROW_PENDING" "x = CLAIMED"
      "update_rows (\<lambda>r. cw_confirmationId r = c \<and> cw_status r = ROW_PENDING) (claim_by i e h) db = Inr db'"
proof (cases "row_of db c")
  case None
  then have "x = CONFLICT" "db' = db" using assms by (simp_all add: claim_confirmation_def)
  with None show thesis by (rule Missing)
next
  case (Some row)
  show thesis
  proof (cases "cw_status row")
    case ROW_PENDING
    then have "update_rows (\<lambda>r. cw_confirmationId r = c \<and> cw_status r = ROW_PENDING) (claim_by i e h) db = Inr db'
        \<and> x = CLAIMED"
      using assms Some unfolding claim_confirmation_def claim_by_def[abs_def] by auto
    with Some ROW_PENDING show thesis by (intro Taken[of row]) auto
  next
    case ROW_CLAIMED
    then have "db' = db" "x = (if cw_claimResolutionId row = Some i \<and> cw_claimEventId row = Some e
        \<and> cw_claimHash row = Some h then RETRY else CONFLICT)"
      using assms Some by (simp_all add: claim_confirmation_def)
    with Some ROW_CLAIMED show thesis by (intro Settled[of row]) (simp_all split: if_splits)
  next
    case ROW_RESOLVED
    then have "db' = db" "x = (if cw_claimResolutionId row = Some i then RESOLVED else CONFLICT)"
      using assms Some by (simp_all add: claim_confirmation_def)
    with Some ROW_RESOLVED show thesis by (intro Settled[of row]) (simp_all split: if_splits)
  qed
qed

lemma complete_cases:
  assumes "complete_confirmation pf r db = Inr (x, db')" and "repository_inv pf db"
  obtains (Existing) row where "row_of db (cn_confirmationId r) = Some row" "cw_status row = ROW_RESOLVED"
      "cw_resolutionHash row = Some (pf_sha pf (resolution_text pf r))" "db' = db"
  | (Resolved) row where "row_of db (cn_confirmationId r) = Some row" "owns_claim r row"
      "parseConfirmationResolution pf r" "\<not> expands (cw_request row) (cw_targets row) r"
      "update_rows (\<lambda>y. cw_confirmationId y = cn_confirmationId r \<and> cw_status y = ROW_CLAIMED)
         (resolve_by pf r) db = Inr db'"
proof -
  obtain row where row: "row_of db (cn_confirmationId r) = Some row"
    using assms(1) by (auto simp: complete_confirmation_def split: option.splits)
  have ok: "parseRequest pf row = Inr (cw_request row)" "parseTargets pf row (cw_request row) = Inr (cw_targets row)"
    using row_of_ok[OF assms(2) row] by (simp_all add: row_ok_def)
  show thesis
  proof (cases "cw_status row = ROW_RESOLVED")
    case True
    then have "db' = db" "cw_resolutionHash row = Some (pf_sha pf (resolution_text pf r))"
      using assms(1) row by (auto simp: complete_confirmation_def split: if_splits)
    with row True show thesis by (intro Existing[of row])
  next
    case False
    then have "owns_claim r row \<and> parseConfirmationResolution pf r \<and> \<not> expands (cw_request row) (cw_targets row) r
      \<and> update_rows (\<lambda>y. cw_confirmationId y = cn_confirmationId r \<and> cw_status y = ROW_CLAIMED) (resolve_by pf r) db
        = Inr db'"
      using assms(1) row ok unfolding complete_confirmation_def resolve_by_def[abs_def] by auto
    with row show thesis by (intro Resolved[of row]) auto
  qed
qed

section \<open>Preservation\<close>

lemma new_row_ok:
  assumes "parseConfirmationRequest pf q" and "validateTargets q ts = Inr ts'"
  shows "row_ok pf (new_row pf q ts')"
proof -
  have "0 \<le> cq_turnOrdinal q" using assms(1) by (simp add: parseConfirmationRequest_def request_schema_def)
  then have "row_check (new_row pf q ts')" by (simp add: row_check_def new_row_def)
  then show ?thesis using assms(1) validateTargets_Inr(2)[OF assms(2)]
    by (simp add: row_ok_def parseRequest_def parseTargets_def new_row_def Let_def)
qed

lemma save_cases:
  assumes "save_confirmation pf q ts db = Inr (x, db')"
  obtains (Existing) row where "row_of db (cq_confirmationId q) = Some row" "x = SAVE_EXISTING" "db' = db"
  | (Saved) ts' where "row_of db (cq_confirmationId q) = None" "x = SAVED" "parseConfirmationRequest pf q"
      "validateTargets q ts = Inr ts'" "db' = db\<lparr>cb_rows := cb_rows db @ [new_row pf q ts']\<rparr>"
proof -
  obtain ts' where ts: "validateTargets q ts = Inr ts'" and p: "parseConfirmationRequest pf q"
    using assms by (auto simp: save_confirmation_def)
  show thesis
  proof (cases "row_of db (cq_confirmationId q)")
    case None
    then have "x = SAVED" "db' = db\<lparr>cb_rows := cb_rows db @ [new_row pf q ts']\<rparr>"
      using assms ts p new_row_ok[OF p ts] by (simp_all add: save_confirmation_def insert_row_def row_ok_def)
    with None p ts show thesis by (intro Saved[of ts'])
  next
    case (Some row)
    then have "x = SAVE_EXISTING" "db' = db"
      using assms ts p by (auto simp: save_confirmation_def split: if_splits)
    with Some show thesis by (intro Existing[of row])
  qed
qed

lemma row_of_append:
  "row_of (db\<lparr>cb_rows := cb_rows db @ [r]\<rparr>) c =
     (case row_of db c of Some x \<Rightarrow> Some x | None \<Rightarrow> if cw_confirmationId r = c then Some r else None)"
proof -
  have "find P (xs @ ys) = (case find P xs of Some x \<Rightarrow> Some x | None \<Rightarrow> find P ys)" for P :: "confirmation_row \<Rightarrow> bool" and xs ys
    by (induction xs) auto
  then show ?thesis by (simp add: row_of_def split: option.splits)
qed

lemma save_inv:
  assumes "save_confirmation pf q ts db = Inr (x, db')" and "repository_inv pf db"
  shows "repository_inv pf db'"
  using assms(1)
proof (cases rule: save_cases)
  case (Saved ts')
  have "cq_confirmationId q \<notin> set (map cw_confirmationId (cb_rows db))"
    using Saved(1) by (auto simp: row_of_def find_None_conv)
  moreover have "cw_confirmationId (new_row pf q ts') = cq_confirmationId q" by (simp add: new_row_def)
  ultimately show ?thesis using assms(2) Saved(5) new_row_ok[OF Saved(3,4)]
    by (auto simp: repository_inv_def)
qed (use assms in simp)

lemma claim_inv:
  assumes "claim_confirmation c i e h db = Inr (x, db')" and "repository_inv pf db"
  shows "repository_inv pf db'"
  using assms(1)
proof (cases rule: claim_cases)
  case (Taken row)
  show ?thesis by (rule update_rows_inv[OF assms(2) Taken(4)]) (auto intro: claim_ok)
qed (use assms in simp_all)

lemma complete_inv:
  assumes "complete_confirmation pf r db = Inr (x, db')" and "repository_inv pf db"
  shows "repository_inv pf db'"
  using assms
proof (cases rule: complete_cases)
  case (Resolved row)
  show ?thesis
  proof (rule update_rows_inv[OF assms(2) Resolved(5)])
    fix y assume y: "y \<in> set (cb_rows db)" "cw_confirmationId y = cn_confirmationId r \<and> cw_status y = ROW_CLAIMED" "row_ok pf y"
    then have "y = row" using row_of_member[OF assms(2) y(1)] Resolved(1) by simp
    then show "row_ok pf (resolve_by pf r y)" using y Resolved by (auto intro: resolve_ok)
  qed simp
qed (use assms in simp)

lemma step_repository_inv: "repository_step pf db db' \<Longrightarrow> repository_inv pf db \<Longrightarrow> repository_inv pf db'"
proof (induction rule: repository_step.induct)
  case (Saves q ts db x db')
  then show ?case by (rule save_inv)
next
  case (Claims c i e h db x db')
  then show ?case by (rule claim_inv)
next
  case (Completes r db x db')
  then show ?case by (rule complete_inv)
next
  case (Closes db)
  then show ?case by (simp add: repository_inv_def close_repository_def)
qed

lemma reachable_repository_inv: "(repository_step pf)\<^sup>*\<^sup>* empty_repository db \<Longrightarrow> repository_inv pf db"
  by (induction rule: rtranclp_induct)
     (simp_all add: repository_inv_def empty_repository_def step_repository_inv[unfolded repository_inv_def])

section \<open>Progress of a row\<close>

text \<open>Who claimed a row, and with what it was resolved: neither is ever taken back.\<close>

definition claimed_by :: "confirmation_db \<Rightarrow> string \<Rightarrow> (string \<times> string \<times> string) option" where
  "claimed_by db c = (case row_of db c of
     None \<Rightarrow> None
   | Some row \<Rightarrow> (case (cw_claimResolutionId row, cw_claimEventId row, cw_claimHash row) of
       (Some i, Some e, Some h) \<Rightarrow> Some (i, e, h) | _ \<Rightarrow> None))"

definition resolved_with :: "confirmation_db \<Rightarrow> string \<Rightarrow> confirmation_resolution option" where
  "resolved_with db c = (case row_of db c of None \<Rightarrow> None | Some row \<Rightarrow> cw_resolution row)"

definition requested :: "confirmation_db \<Rightarrow> string \<Rightarrow> pending_confirmation option" where
  "requested db c = (case row_of db c of None \<Rightarrow> None | Some row \<Rightarrow> Some (cw_request row, cw_targets row))"

definition keeps :: "confirmation_db \<Rightarrow> confirmation_db \<Rightarrow> bool" where
  "keeps db db' \<longleftrightarrow> (\<forall>c. (claimed_by db c \<noteq> None \<longrightarrow> claimed_by db' c = claimed_by db c)
     \<and> (resolved_with db c \<noteq> None \<longrightarrow> resolved_with db' c = resolved_with db c)
     \<and> (requested db c \<noteq> None \<longrightarrow> requested db' c = requested db c))"

lemma keeps_refl [simp]: "keeps db db"
  by (simp add: keeps_def)

lemma keeps_trans: "keeps a b \<Longrightarrow> keeps b c \<Longrightarrow> keeps a c"
  unfolding keeps_def by metis

lemma keeps_rows:
  assumes "\<And>c row. row_of db c = Some row \<Longrightarrow> \<exists>row'. row_of db' c = Some row'
      \<and> cw_request row' = cw_request row \<and> cw_targets row' = cw_targets row
      \<and> (cw_claimResolutionId row \<noteq> None \<longrightarrow> cw_claimResolutionId row' = cw_claimResolutionId row
         \<and> cw_claimEventId row' = cw_claimEventId row \<and> cw_claimHash row' = cw_claimHash row)
      \<and> (cw_resolution row \<noteq> None \<longrightarrow> cw_resolution row' = cw_resolution row)"
  shows "keeps db db'"
  unfolding keeps_def
proof (intro allI)
  fix c
  show "(claimed_by db c \<noteq> None \<longrightarrow> claimed_by db' c = claimed_by db c)
     \<and> (resolved_with db c \<noteq> None \<longrightarrow> resolved_with db' c = resolved_with db c)
     \<and> (requested db c \<noteq> None \<longrightarrow> requested db' c = requested db c)"
  proof (cases "row_of db c")
    case None
    then show ?thesis by (simp add: claimed_by_def resolved_with_def requested_def)
  next
    case (Some row)
    obtain row' where r: "row_of db' c = Some row'" "cw_request row' = cw_request row" "cw_targets row' = cw_targets row"
      "cw_claimResolutionId row \<noteq> None \<Longrightarrow> cw_claimResolutionId row' = cw_claimResolutionId row
         \<and> cw_claimEventId row' = cw_claimEventId row \<and> cw_claimHash row' = cw_claimHash row"
      "cw_resolution row \<noteq> None \<Longrightarrow> cw_resolution row' = cw_resolution row"
      using assms[OF Some] by blast
    have "claimed_by db c \<noteq> None \<Longrightarrow> cw_claimResolutionId row \<noteq> None"
      using Some by (auto simp: claimed_by_def split: option.splits)
    then show ?thesis using Some r by (auto simp: claimed_by_def resolved_with_def requested_def)
  qed
qed

lemma update_keeps:
  assumes "update_rows P f db = Inr db'" and "\<And>r. cw_confirmationId (f r) = cw_confirmationId r"
    and "\<And>c row. row_of db c = Some row \<Longrightarrow> P row \<Longrightarrow> cw_request (f row) = cw_request row \<and> cw_targets (f row) = cw_targets row
      \<and> (cw_claimResolutionId row \<noteq> None \<longrightarrow> cw_claimResolutionId (f row) = cw_claimResolutionId row
         \<and> cw_claimEventId (f row) = cw_claimEventId row \<and> cw_claimHash (f row) = cw_claimHash row)
      \<and> (cw_resolution row \<noteq> None \<longrightarrow> cw_resolution (f row) = cw_resolution row)"
  shows "keeps db db'"
  using assms(3) by (intro keeps_rows) (auto simp: update_rowsD(1)[OF assms(1,2)])

lemma claim_keeps:
  assumes "claim_confirmation c i e h db = Inr (x, db')" and "repository_inv pf db"
  shows "keeps db db'"
  using assms(1)
proof (cases rule: claim_cases)
  case (Taken row)
  show ?thesis
  proof (rule update_keeps[OF Taken(4)])
    fix c' r assume "row_of db c' = Some r" "cw_confirmationId r = c \<and> cw_status r = ROW_PENDING"
    then show "cw_request (claim_by i e h r) = cw_request r \<and> cw_targets (claim_by i e h r) = cw_targets r
      \<and> (cw_claimResolutionId r \<noteq> None \<longrightarrow> cw_claimResolutionId (claim_by i e h r) = cw_claimResolutionId r
         \<and> cw_claimEventId (claim_by i e h r) = cw_claimEventId r \<and> cw_claimHash (claim_by i e h r) = cw_claimHash r)
      \<and> (cw_resolution r \<noteq> None \<longrightarrow> cw_resolution (claim_by i e h r) = cw_resolution r)"
      using row_of_ok[OF assms(2), of c' r] by (simp add: row_ok_def row_check_def)
  qed simp
qed simp_all

lemma complete_keeps:
  assumes "complete_confirmation pf r db = Inr (x, db')" and "repository_inv pf db"
  shows "keeps db db'"
  using assms
proof (cases rule: complete_cases)
  case (Resolved row)
  show ?thesis
  proof (rule update_keeps[OF Resolved(5)])
    fix c y assume "row_of db c = Some y" "cw_confirmationId y = cn_confirmationId r \<and> cw_status y = ROW_CLAIMED"
    then show "cw_request (resolve_by pf r y) = cw_request y \<and> cw_targets (resolve_by pf r y) = cw_targets y
      \<and> (cw_claimResolutionId y \<noteq> None \<longrightarrow> cw_claimResolutionId (resolve_by pf r y) = cw_claimResolutionId y
         \<and> cw_claimEventId (resolve_by pf r y) = cw_claimEventId y \<and> cw_claimHash (resolve_by pf r y) = cw_claimHash y)
      \<and> (cw_resolution y \<noteq> None \<longrightarrow> cw_resolution (resolve_by pf r y) = cw_resolution y)"
      using row_of_ok[OF assms(2), of c y] by (simp add: row_ok_def row_check_def resolve_by_def)
  qed simp
qed simp

lemma save_keeps: "save_confirmation pf q ts db = Inr (x, db') \<Longrightarrow> keeps db db'"
  by (erule save_cases) (auto simp: row_of_append intro!: keeps_rows)

lemma step_keeps: "repository_step pf db db' \<Longrightarrow> repository_inv pf db \<Longrightarrow> keeps db db'"
proof (induction rule: repository_step.induct)
  case (Closes db)
  show ?case by (rule keeps_rows) (simp add: row_of_def close_repository_def)
qed (auto intro: save_keeps claim_keeps complete_keeps)

lemma reachable_keeps:
  assumes "(repository_step pf)\<^sup>*\<^sup>* db db'" and "repository_inv pf db"
  shows "keeps db db' \<and> repository_inv pf db'"
  using assms
  by (induction rule: rtranclp_induct) (auto intro: keeps_trans step_keeps step_repository_inv)

section \<open>Reading\<close>

lemma map_results_total:
  "(\<And>x. x \<in> set xs \<Longrightarrow> f x = Inr (g x)) \<Longrightarrow> map_results f xs = Inr (map g xs)"
  by (induction xs) auto

text \<open>On a consistent repository every valid query succeeds and returns the rows as they were saved.\<close>

lemma pending_total:
  assumes "repository_inv pf db" and "\<not> cb_closed db" and "safe_id sessionId"
    and "case c of None \<Rightarrow> True | Some i \<Rightarrow> safe_id i"
  shows "pending_confirmations pf sessionId c db
    = Inr (map (\<lambda>row. (cw_request row, cw_targets row)) (pending_rows sessionId c db))"
proof -
  have "pending_of pf row = Inr (cw_request row, cw_targets row)" if "row \<in> set (pending_rows sessionId c db)" for row
  proof -
    have "row \<in> set (cb_rows db)" using that by (auto simp: pending_rows_def dest: in_set_takeD)
    then have "row_ok pf row" using assms(1) by (auto simp: repository_inv_def list_all_iff)
    then show ?thesis by (simp add: row_ok_def pending_of_def)
  qed
  then show ?thesis using assms(2-4) map_results_total[of "pending_rows sessionId c db" "pending_of pf"]
    by (auto simp: pending_confirmations_def split: option.splits)
qed

lemma resolution_total:
  assumes "repository_inv pf db" and "\<not> cb_closed db" and "safe_id c"
  shows "stored_resolution pf c db = Inr (resolved_with db c)"
proof (cases "row_of db c")
  case None
  then show ?thesis using assms by (simp add: stored_resolution_def resolved_with_def)
next
  case (Some row)
  have ok: "row_ok pf row" by (rule row_of_ok[OF assms(1) Some])
  have id: "cw_confirmationId row = c" using row_ofD[OF Some] by simp
  show ?thesis
  proof (cases "cw_resolution row")
    case None
    then show ?thesis using assms Some by (auto simp: stored_resolution_def resolved_with_def split: bool.splits)
  next
    case r: (Some r)
    then have "resolved_ok pf row r" "cw_status row = ROW_RESOLVED" using ok by (auto simp: row_ok_def row_check_def)
    then show ?thesis using assms Some id r by (simp add: stored_resolution_def resolved_with_def resolved_ok_def)
  qed
qed

end
