(* ===== verification/Writeback.thy ===== *)
theory Writeback
  imports ConfirmationInv
begin

text \<open>
  The user's reply to a confirmation (\<^verbatim>\<open>packages/confirmation-writeback/src/matcher.ts\<close> and \<open>service.ts\<close>).
  A reply is handled in two synchronous parts, before and after the effect port is awaited:
  \<open>writeback_begin\<close> matches the reply and claims the confirmation, \<open>writeback_finish\<close> checks what the
  port answered and resolves it. Other work on the repository may happen in between. An error is
  represented by its name.
\<close>

section \<open>Matching (matcher.ts)\<close>

datatype confirmation_match = NO_MATCH | AMBIGUOUS | MATCH confirmation_option response_kind

fun PHRASES :: "confirmation_effect \<Rightarrow> utf16 list" where
  "PHRASES KEEP_PROPOSED =
     [[26242, 19981, 22788, 29702],
      [20808, 20445, 30041, 20505, 36873],
      [20445, 25345, 20505, 36873]]"
| "PHRASES REJECT_CANDIDATE =
     [[25298, 32477],
      [25298, 32477, 20505, 36873],
      [19981, 37319, 29992],
      [19981, 25509, 21463],
      [21542, 23450, 20505, 36873],
      [19981, 35201, 36825, 20010, 20505, 36873],
      [19981, 26159, 36825, 20010, 24847, 24605]]"
| "PHRASES ACCEPT_CANDIDATE =
     [[37319, 29992],
      [37319, 29992, 20505, 36873],
      [25509, 21463, 20505, 36873],
      [21516, 24847, 37319, 29992],
      [23601, 29992, 36825, 20010]]"
| "PHRASES KEEP_PROJECT =
     [[20165, 39033, 30446],
      [20445, 30041, 39033, 30446],
      [19981, 25552, 21319],
      [19981, 35201, 25552, 21319],
      [21482, 22312, 24403, 21069, 39033, 30446]]"
| "PHRASES PROMOTE_GLOBAL =
     [[25552, 21319, 20840, 23616],
      [35774, 20026, 20840, 23616],
      [20840, 23616, 20351, 29992],
      [25552, 21319, 20026, 20840, 23616, 30693, 35782]]"
| "PHRASES KEEP_RULE =
     [[20445, 30041, 35268, 21017],
      [19981, 35206, 30422],
      [25298, 32477, 35206, 30422],
      [20445, 25345, 29616, 26377, 35268, 21017]]"
| "PHRASES APPLY_OVERRIDE =
     [[20801, 35768, 35206, 30422],
      [24212, 29992, 35206, 30422],
      [35206, 30422, 35268, 21017],
      [21516, 24847, 35206, 30422]]"
| "PHRASES STOP_WITHOUT_EXPANSION =
     [[20572, 27490],
      [19981, 29992, 32487, 32493],
      [20572, 27490, 20219, 21153],
      [19981, 32487, 32493]]"
| "PHRASES CONTINUE_ORIGINAL_SCOPE =
     [[32487, 32493],
      [32487, 32493, 21407, 20219, 21153],
      [25353, 21407, 33539, 22260, 32487, 32493],
      [21482, 25353, 21407, 20219, 21153, 32487, 32493]]"
| "PHRASES KEEP_CURRENT =
     [[20445, 25345, 24403, 21069],
      [20445, 30041, 24403, 21069]]"

text \<open>The texts the regular expression of a correction may start with.\<close>

definition CORRECTION_STARTS :: "utf16 list" where
  "CORRECTION_STARTS =
    (let subjects = [] # [[36825, 20010], [19978, 36848], [35813]];
         nouns = [] # [[26041, 26696], [32467, 35770], [23454, 29616], [24847, 24605]];
         denials = [19981, 23545] # [p @ s @ n. p \<leftarrow> [[19981, 26159]], s \<leftarrow> subjects, n \<leftarrow> nouns];
         turns = [[24212, 35813], [24212, 35813, 26159],
           [24212, 20026], [25913, 25104], [25913, 20026]] in
     [d @ t. d \<leftarrow> denials, t \<leftarrow> turns]
   @ [[32416, 27491, 20026], [32416, 27491, 26159], [25913, 25104],
      [25913, 20026], [24212, 35813, 26159], [24212, 20026]])"

fun starts_with_units :: "utf16 \<Rightarrow> utf16 \<Rightarrow> bool" where
  "starts_with_units [] u = True"
| "starts_with_units (p # ps) [] = False"
| "starts_with_units (p # ps) (c # cs) = (p = c \<and> starts_with_units ps cs)"

definition option_matches :: "platform \<Rightarrow> utf16 \<Rightarrow> nat \<Rightarrow> confirmation_option \<Rightarrow> bool" where
  "option_matches pf normalized index p \<longleftrightarrow>
     normalized = pf_normalize pf (units (op_optionId p)) \<or> normalized = pf_normalize pf (op_label p)
   \<or> normalized = units (show_nat (index + 1)) \<or> normalized \<in> set (PHRASES (op_effect p))"

text \<open>The options matched, each an object of its own.\<close>

definition exact_options :: "platform \<Rightarrow> utf16 \<Rightarrow> confirmation_option list \<Rightarrow> confirmation_option list" where
  "exact_options pf normalized options =
     map snd (filter (\<lambda>(index, p). option_matches pf normalized index p) (List.enumerate 0 options))"

definition matchConfirmationReply :: "platform \<Rightarrow> confirmation_request \<Rightarrow> utf16 \<Rightarrow> confirmation_match" where
  "matchConfirmationReply pf q statement =
    (let normalized = pf_normalize pf statement in
     if normalized = [] then NO_MATCH
     else let exact = exact_options pf normalized (cq_options q);
       correction = (cq_kind q = KNOWLEDGE_CONFLICT
         \<and> list_ex (\<lambda>p. starts_with_units p normalized) CORRECTION_STARTS) in
       if correction \<and> exact \<noteq> [] then AMBIGUOUS
       else if correction then
         (case find (\<lambda>p. op_effect p = REJECT_CANDIDATE) (cq_options q) of
            None \<Rightarrow> NO_MATCH | Some rejected \<Rightarrow> MATCH rejected CORRECTION)
       else (case exact of [] \<Rightarrow> NO_MATCH | [p] \<Rightarrow> MATCH p OPTION | _ \<Rightarrow> AMBIGUOUS))"

section \<open>Replies and results (types.ts, service.ts)\<close>

record confirmation_reply =
  ry_sessionId :: string
  ry_turnId :: string
  ry_turnOrdinal :: int
  ry_eventId :: string
  ry_statement :: utf16
  ry_occurredAt :: timestamp
  ry_confirmationId :: "string option"

datatype writeback_status =
  NO_PENDING | AMBIGUOUS_PENDING | NO_EXPLICIT_CHOICE | AMBIGUOUS_CHOICE | WB_RESOLVED | ALREADY_RESOLVED
| WB_CONFLICT | RETRYABLE | WB_INVALID_INPUT

record writeback_result =
  wr_status :: writeback_status
  wr_confirmationId :: "string option"
  wr_resolution :: "confirmation_resolution option"
  wr_diagnostic :: "string option"

definition wb_result :: "writeback_status \<Rightarrow> string option \<Rightarrow> writeback_result" where
  "wb_result st c = \<lparr>wr_status = st, wr_confirmationId = c, wr_resolution = None, wr_diagnostic = None\<rparr>"

lemma wb_result_simps [simp]:
  "wr_resolution (wb_result st c) = None" "wr_status (wb_result st c) = st" "wr_confirmationId (wb_result st c) = c"
  by (simp_all add: wb_result_def)

record effect_command =
  ec_resolutionId :: string
  ec_confirmationId :: string
  ec_effect :: confirmation_effect
  ec_responseKind :: response_kind
  ec_responseEventId :: string
  ec_responseText :: utf16
  ec_targets :: "target_snapshot list"

definition effect_deadline_ok :: "int \<Rightarrow> bool" where
  "effect_deadline_ok ms \<longleftrightarrow> \<not> (\<not> safe_integer ms \<or> ms < 1 \<or> ms > 60000)"

definition retryable :: "string option \<Rightarrow> string \<Rightarrow> writeback_result" where
  "retryable c name = (wb_result RETRYABLE c)\<lparr>wr_diagnostic := Some (name @ '': confirmation writeback operation failed'')\<rparr>"

definition js_space_unit :: "nat \<Rightarrow> bool" where
  "js_space_unit u \<longleftrightarrow> u \<in> {9, 10, 11, 12, 13, 32, 160, 5760, 8232, 8233, 8239, 8287, 12288, 65279}
     \<or> 8192 \<le> u \<and> u \<le> 8202"

definition validReply :: "confirmation_reply \<Rightarrow> bool" where
  "validReply r \<longleftrightarrow> safe_id (ry_sessionId r) \<and> safe_id (ry_turnId r) \<and> safe_id (ry_eventId r)
   \<and> safe_integer (ry_turnOrdinal r) \<and> ry_turnOrdinal r \<ge> 0
   \<and> \<not> list_all js_space_unit (ry_statement r) \<and> length (ry_statement r) \<le> 10000
   \<and> 0 \<notin> set (ry_statement r) \<and> canonical_date (ry_occurredAt r)
   \<and> (case ry_confirmationId r of None \<Rightarrow> True | Some c \<Rightarrow> safe_id c)"

section \<open>Relations (service.ts)\<close>

definition relation_fits ::
  "confirmation_relation \<Rightarrow> version_relation list \<Rightarrow> target_snapshot \<Rightarrow> bool" where
  "relation_fits expected relations t = (case find (\<lambda>l. vl_subjectId l = tg_subjectId t) relations of
     None \<Rightarrow> False
   | Some l \<Rightarrow> \<not> (vl_beforeRevision l \<noteq> tg_expectedRevision t \<or> vl_relation l \<noteq> expected
       \<or> \<not> SAFE_REVISION (vl_afterRevision l)
       \<or> vl_relation l \<noteq> RETAINS \<and> vl_relation l \<noteq> CONTINUES \<and> vl_afterRevision l = vl_beforeRevision l))"

definition validateRelations :: "confirmation_effect \<Rightarrow> response_kind \<Rightarrow> target_snapshot list
    \<Rightarrow> version_relation list \<Rightarrow> version_relation list option" where
  "validateRelations eff kind ts relations =
    (if length relations \<noteq> length ts \<or> \<not> distinct (map vl_subjectId relations) then None
     else let expected = (if kind = CORRECTION then CORRECTS else CONFIRMATION_RELATION_BY_EFFECT eff) in
       if list_all (relation_fits expected relations) ts
       then Some (sort_by (\<lambda>x y. vl_subjectId x \<le> vl_subjectId y) relations) else None)"

section \<open>The handler (service.ts)\<close>

text \<open>The repository as the service calls it; a call that throws is the name of its error.\<close>

record 's writeback_port =
  wp_pending :: "string \<Rightarrow> string option \<Rightarrow> 's \<Rightarrow> string + pending_confirmation list"
  wp_claim :: "string \<Rightarrow> string \<Rightarrow> string \<Rightarrow> string \<Rightarrow> 's \<Rightarrow> string + claim_result \<times> 's"
  wp_complete :: "confirmation_resolution \<Rightarrow> 's \<Rightarrow> string + 's"
  wp_resolution :: "string \<Rightarrow> 's \<Rightarrow> string + confirmation_resolution option"

record pending_effect =
  pe_reply :: confirmation_reply
  pe_request :: confirmation_request
  pe_targets :: "target_snapshot list"
  pe_option :: confirmation_option
  pe_kind :: response_kind
  pe_resolutionId :: string
  pe_hash :: string

definition resolution_id :: "platform \<Rightarrow> confirmation_request \<Rightarrow> confirmation_reply \<Rightarrow> confirmation_option
    \<Rightarrow> response_kind \<Rightarrow> string" where
  "resolution_id pf q r p k = ''resolution-'' @ take 32 (pf_sha pf (units (json_array
     [json_quote (cq_confirmationId q), json_quote (ry_eventId r), json_quote (op_optionId p),
      json_quote (response_name k)])))"

definition command_of :: "pending_effect \<Rightarrow> effect_command" where
  "command_of p = \<lparr>ec_resolutionId = pe_resolutionId p, ec_confirmationId = cq_confirmationId (pe_request p),
     ec_effect = op_effect (pe_option p), ec_responseKind = pe_kind p,
     ec_responseEventId = ry_eventId (pe_reply p), ec_responseText = ry_statement (pe_reply p),
     ec_targets = pe_targets p\<rparr>"

definition not_later :: "timestamp \<Rightarrow> timestamp \<Rightarrow> bool" where
  "not_later a b = (case (date_parse a, date_parse b) of (Some x, Some y) \<Rightarrow> x \<le> y | _ \<Rightarrow> False)"

definition answer_replay :: "platform \<Rightarrow> 's writeback_port \<Rightarrow> confirmation_reply \<Rightarrow> 's \<Rightarrow> writeback_result" where
  "answer_replay pf port r s = (case ry_confirmationId r of
     None \<Rightarrow> wb_result NO_PENDING None
   | Some c \<Rightarrow> (case wp_resolution port c s of
       Inl e \<Rightarrow> retryable None e
     | Inr None \<Rightarrow> wb_result NO_PENDING None
     | Inr (Some existing) \<Rightarrow>
         (if cn_sessionId existing = ry_sessionId r \<and> cn_responseEventId existing = ry_eventId r
            \<and> cn_responseTextHash existing = pf_sha pf (ry_statement r)
          then (wb_result ALREADY_RESOLVED (Some c))\<lparr>wr_resolution := Some existing\<rparr>
          else wb_result WB_CONFLICT (Some c))))"

definition claim_effect :: "platform \<Rightarrow> 's writeback_port \<Rightarrow> pending_effect \<Rightarrow> 's
    \<Rightarrow> (writeback_result + pending_effect) \<times> 's" where
  "claim_effect pf port p s =
    (let c = cq_confirmationId (pe_request p) in
     case wp_claim port c (pe_resolutionId p) (ry_eventId (pe_reply p)) (pe_hash p) s of
       Inl e \<Rightarrow> (Inl (retryable (Some c) e), s)
     | Inr (CONFLICT, s') \<Rightarrow> (Inl (wb_result WB_CONFLICT (Some c)), s')
     | Inr (RESOLVED, s') \<Rightarrow> (case wp_resolution port c s' of
         Inl e \<Rightarrow> (Inl (retryable (Some c) e), s')
       | Inr None \<Rightarrow> (Inl ((wb_result RETRYABLE (Some c))\<lparr>wr_diagnostic := Some ''resolved claim has no resolution''\<rparr>), s')
       | Inr (Some existing) \<Rightarrow> (Inl ((wb_result ALREADY_RESOLVED (Some c))\<lparr>wr_resolution := Some existing\<rparr>), s'))
     | Inr (CLAIMED, s') \<Rightarrow> (Inr p, s')
     | Inr (RETRY, s') \<Rightarrow> (Inr p, s'))"

definition writeback_begin :: "platform \<Rightarrow> 's writeback_port \<Rightarrow> confirmation_reply \<Rightarrow> 's
    \<Rightarrow> (writeback_result + pending_effect) \<times> 's" where
  "writeback_begin pf port r s =
    (if \<not> validReply r then (Inl (wb_result WB_INVALID_INPUT None), s)
     else case wp_pending port (ry_sessionId r) (ry_confirmationId r) s of
       Inl e \<Rightarrow> (Inl (retryable None e), s)
     | Inr [] \<Rightarrow> (Inl (answer_replay pf port r s), s)
     | Inr [(q, ts)] \<Rightarrow>
         (if ry_turnOrdinal r \<le> cq_turnOrdinal q \<or> ry_turnId r = cq_turnId q
            \<or> not_later (ry_occurredAt r) (cq_createdAt q)
          then (Inl (wb_result WB_INVALID_INPUT None), s)
          else case matchConfirmationReply pf q (ry_statement r) of
            NO_MATCH \<Rightarrow> (Inl (wb_result NO_EXPLICIT_CHOICE (Some (cq_confirmationId q))), s)
          | AMBIGUOUS \<Rightarrow> (Inl (wb_result AMBIGUOUS_CHOICE (Some (cq_confirmationId q))), s)
          | MATCH p k \<Rightarrow> claim_effect pf port
              \<lparr>pe_reply = r, pe_request = q, pe_targets = ts, pe_option = p, pe_kind = k,
               pe_resolutionId = resolution_id pf q r p k, pe_hash = pf_sha pf (ry_statement r)\<rparr> s)
     | Inr (x # y # zs) \<Rightarrow> (Inl (wb_result AMBIGUOUS_PENDING None), s))"

definition resolution_of :: "pending_effect \<Rightarrow> version_relation list \<Rightarrow> confirmation_resolution" where
  "resolution_of p relations = (let q = pe_request p; r = pe_reply p in
     \<lparr>cn_resolutionId = pe_resolutionId p, cn_confirmationId = cq_confirmationId q,
      cn_sessionId = ry_sessionId r, cn_requestTurnId = cq_turnId q, cn_responseTurnId = ry_turnId r,
      cn_responseEventId = ry_eventId r, cn_responseKind = pe_kind p, cn_responseTextHash = pe_hash p,
      cn_selectedOptionId = op_optionId (pe_option p), cn_effect = op_effect (pe_option p),
      cn_subjectIds = sorted_ids (cq_subjectIds q),
      cn_correctionStatementRef = (if pe_kind p = CORRECTION then Some (ry_eventId r) else None),
      cn_relations = relations, cn_resolvedAt = ry_occurredAt r\<rparr>)"

definition writeback_finish :: "platform \<Rightarrow> 's writeback_port \<Rightarrow> pending_effect \<Rightarrow> version_relation list settled
    \<Rightarrow> 's \<Rightarrow> writeback_result \<times> 's" where
  "writeback_finish pf port p applied s =
    (let c = cq_confirmationId (pe_request p) in
     case applied of
       Threw e \<Rightarrow> (retryable (Some c) e, s)
     | Expired \<Rightarrow> ((wb_result RETRYABLE (Some c))\<lparr>wr_diagnostic :=
         Some ''EffectDeadlineError: confirmation effect timed out''\<rparr>, s)
     | Settled given \<Rightarrow>
        (case validateRelations (op_effect (pe_option p)) (pe_kind p) (pe_targets p) given of
           None \<Rightarrow> (retryable (Some c) ''Error'', s)
         | Some relations \<Rightarrow>
            (if \<not> parseConfirmationResolution pf (resolution_of p relations) then (retryable (Some c) ''Error'', s)
             else case wp_complete port (resolution_of p relations) s of
               Inl e \<Rightarrow> (retryable (Some c) e, s)
             | Inr s' \<Rightarrow> (case wp_resolution port c s' of
                 Inl e \<Rightarrow> (retryable (Some c) e, s')
               | Inr None \<Rightarrow> (retryable (Some c) ''Error'', s')
               | Inr (Some stored) \<Rightarrow> ((wb_result WB_RESOLVED (Some c))\<lparr>wr_resolution := Some stored\<rparr>, s')))))"

definition handle_reply :: "platform \<Rightarrow> 's writeback_port \<Rightarrow> (effect_command \<Rightarrow> version_relation list settled)
    \<Rightarrow> confirmation_reply \<Rightarrow> 's \<Rightarrow> writeback_result \<times> 's" where
  "handle_reply pf port apply r s = (case writeback_begin pf port r s of
     (Inl x, s') \<Rightarrow> (x, s') | (Inr p, s') \<Rightarrow> writeback_finish pf port p (apply (command_of p)) s')"

section \<open>Concurrent replies\<close>

text \<open>
  A system is the repository, the replies whose effect is being applied, every command sent to the
  effect port and every result returned. What else happens to the repository is given by \<open>drift\<close>.
\<close>

record 's writeback_system =
  ws_store :: 's
  ws_pending :: "pending_effect list"
  ws_commands :: "effect_command list"
  ws_results :: "writeback_result list"

inductive writeback_step :: "platform \<Rightarrow> 's writeback_port \<Rightarrow> ('s \<Rightarrow> 's \<Rightarrow> bool)
    \<Rightarrow> 's writeback_system \<Rightarrow> 's writeback_system \<Rightarrow> bool" for pf port drift where
  Answers: "writeback_begin pf port r s = (Inl x, s') \<Longrightarrow>
     writeback_step pf port drift \<lparr>ws_store = s, ws_pending = ps, ws_commands = cs, ws_results = rs\<rparr>
       \<lparr>ws_store = s', ws_pending = ps, ws_commands = cs, ws_results = rs @ [x]\<rparr>"
| Applies: "writeback_begin pf port r s = (Inr p, s') \<Longrightarrow>
     writeback_step pf port drift \<lparr>ws_store = s, ws_pending = ps, ws_commands = cs, ws_results = rs\<rparr>
       \<lparr>ws_store = s', ws_pending = p # ps, ws_commands = cs @ [command_of p], ws_results = rs\<rparr>"
| Finishes: "writeback_finish pf port p applied s = (x, s') \<Longrightarrow>
     writeback_step pf port drift \<lparr>ws_store = s, ws_pending = ps @ p # qs, ws_commands = cs, ws_results = rs\<rparr>
       \<lparr>ws_store = s', ws_pending = ps @ qs, ws_commands = cs, ws_results = rs @ [x]\<rparr>"
| Drifts: "drift s s' \<Longrightarrow>
     writeback_step pf port drift \<lparr>ws_store = s, ws_pending = ps, ws_commands = cs, ws_results = rs\<rparr>
       \<lparr>ws_store = s', ws_pending = ps, ws_commands = cs, ws_results = rs\<rparr>"

section \<open>The interface of a repository\<close>

text \<open>
  What the service relies on. \<open>asked\<close>, \<open>owner\<close> and \<open>outcome\<close> are what a repository holds of a
  confirmation: the request, who claimed it, and its resolution. None of them is ever changed by a call
  or by the drift once it is there; what is read back is what is held; and a claim is granted, or
  repeated, only to the caller it is held for.
\<close>

locale confirmation_repository =
  fixes port :: "'s writeback_port" and drift :: "'s \<Rightarrow> 's \<Rightarrow> bool" and good :: "'s \<Rightarrow> bool"
    and asked :: "'s \<Rightarrow> string \<Rightarrow> pending_confirmation option"
    and owner :: "'s \<Rightarrow> string \<Rightarrow> (string \<times> string \<times> string) option"
    and outcome :: "'s \<Rightarrow> string \<Rightarrow> confirmation_resolution option"
    and stable :: "'s \<Rightarrow> 's \<Rightarrow> bool"
  assumes stable_def: "stable s s' \<longleftrightarrow> good s' \<and> (\<forall>k. (asked s k \<noteq> None \<longrightarrow> asked s' k = asked s k)
      \<and> (owner s k \<noteq> None \<longrightarrow> owner s' k = owner s k) \<and> (outcome s k \<noteq> None \<longrightarrow> outcome s' k = outcome s k))"
    and claim_stable: "good s \<Longrightarrow> wp_claim port c i e h s = Inr (x, s') \<Longrightarrow> stable s s'"
    and complete_stable: "good s \<Longrightarrow> wp_complete port r s = Inr s' \<Longrightarrow> stable s s'"
    and drift_stable: "good s \<Longrightarrow> drift s s' \<Longrightarrow> stable s s'"
    and claim_owner: "good s \<Longrightarrow> wp_claim port c i e h s = Inr (x, s') \<Longrightarrow> x = CLAIMED \<or> x = RETRY \<Longrightarrow>
      owner s' c = Some (i, e, h)"
    and pending_read: "good s \<Longrightarrow> wp_pending port z k s = Inr l \<Longrightarrow> (q, ts) \<in> set l \<Longrightarrow>
      asked s (cq_confirmationId q) = Some (q, ts)"
    and resolution_read: "good s \<Longrightarrow> wp_resolution port c s = Inr (Some r) \<Longrightarrow> outcome s c = Some r"
begin

lemma stable_refl: "good s \<Longrightarrow> stable s s"
  by (simp add: stable_def)

lemma claim_effect_cases:
  assumes "claim_effect pf port p s = (x, s')" and "good s"
  shows "stable s s'
    \<and> (case x of
        Inl a \<Rightarrow> (\<forall>z. wr_resolution a = Some z \<longrightarrow> (\<exists>c. wr_confirmationId a = Some c \<and> outcome s' c = Some z))
      | Inr p' \<Rightarrow> p' = p \<and> owner s' (cq_confirmationId (pe_request p))
          = Some (pe_resolutionId p, ry_eventId (pe_reply p), pe_hash p))"
proof -
  let ?c = "cq_confirmationId (pe_request p)"
  let ?claim = "wp_claim port ?c (pe_resolutionId p) (ry_eventId (pe_reply p)) (pe_hash p) s"
  show ?thesis
  proof (cases ?claim)
    case (Inl e)
    then show ?thesis using assms by (auto simp: claim_effect_def retryable_def wb_result_def stable_refl)
  next
    case (Inr y)
    obtain k s1 where y: "y = (k, s1)" by fastforce
    note c = Inr[unfolded y]
    have st: "stable s s1" by (rule claim_stable[OF assms(2) c])
    then have g: "good s1" by (simp add: stable_def)
    have s': "s' = s1" using assms(1) c
      by (auto simp: claim_effect_def Let_def split: claim_result.splits sum.splits option.splits)
    show ?thesis
    proof (cases k)
      case RESOLVED
      then show ?thesis using assms(1) c st resolution_read[OF g]
        by (auto simp: claim_effect_def Let_def retryable_def split: sum.splits option.splits)
    qed (use assms(1) c st claim_owner[OF assms(2) c] in \<open>auto simp: claim_effect_def Let_def\<close>)
  qed
qed

text \<open>
  A result that carries a resolution carries the outcome held; a handler that goes on has claimed the
  confirmation for exactly the option its reply matched.
\<close>

definition backed :: "'s \<Rightarrow> writeback_result \<Rightarrow> bool" where
  "backed s a \<longleftrightarrow> (\<forall>z. wr_resolution a = Some z \<longrightarrow> (\<exists>c. wr_confirmationId a = Some c \<and> outcome s c = Some z))"

definition claimed_for :: "platform \<Rightarrow> 's \<Rightarrow> pending_effect \<Rightarrow> bool" where
  "claimed_for pf s p \<longleftrightarrow> asked s (cq_confirmationId (pe_request p)) = Some (pe_request p, pe_targets p)
     \<and> owner s (cq_confirmationId (pe_request p)) = Some (pe_resolutionId p, ry_eventId (pe_reply p), pe_hash p)
     \<and> pe_hash p = pf_sha pf (ry_statement (pe_reply p))
     \<and> matchConfirmationReply pf (pe_request p) (ry_statement (pe_reply p)) = MATCH (pe_option p) (pe_kind p)"

lemma begin_cases:
  assumes "writeback_begin pf port r s = (x, s')" and "good s"
  shows "stable s s' \<and> (case x of Inl a \<Rightarrow> backed s' a | Inr p \<Rightarrow> claimed_for pf s' p)"
proof -
  have quick: ?thesis if "x = Inl a" "s' = s" "wr_resolution a = None" for a
    using that assms(2) by (simp add: stable_refl backed_def)
  show ?thesis
  proof (cases "validReply r")
    case False
    then show ?thesis using assms(1) by (intro quick) (auto simp: writeback_begin_def wb_result_def)
  next
    case valid: True
    show ?thesis
    proof (cases "wp_pending port (ry_sessionId r) (ry_confirmationId r) s")
      case (Inl e)
      then show ?thesis using assms(1) valid
        by (intro quick) (auto simp: writeback_begin_def wb_result_def retryable_def)
    next
      case (Inr l)
      consider (nil) "l = []" | (one) q ts where "l = [(q, ts)]" | (many) a b zs where "l = a # b # zs"
        by (metis list.exhaust surj_pair)
      then show ?thesis
      proof cases
        case nil
        then have x: "x = Inl (answer_replay pf port r s)" "s' = s"
          using assms(1) valid Inr by (auto simp: writeback_begin_def)
        have "\<exists>c. wr_confirmationId (answer_replay pf port r s) = Some c \<and> outcome s c = Some z"
          if "wr_resolution (answer_replay pf port r s) = Some z" for z
          using that resolution_read[OF assms(2)]
          by (auto simp: answer_replay_def wb_result_def retryable_def split: option.splits sum.splits if_splits)
        then show ?thesis using x assms(2) by (simp add: stable_refl backed_def)
      next
        case one
        let ?p = "\<lambda>p k. \<lparr>pe_reply = r, pe_request = q, pe_targets = ts, pe_option = p, pe_kind = k,
               pe_resolutionId = resolution_id pf q r p k, pe_hash = pf_sha pf (ry_statement r)\<rparr>"
        show ?thesis
        proof (cases "ry_turnOrdinal r \<le> cq_turnOrdinal q \<or> ry_turnId r = cq_turnId q
            \<or> not_later (ry_occurredAt r) (cq_createdAt q)")
          case True
          then show ?thesis using assms(1) valid Inr one
            by (intro quick) (auto simp: writeback_begin_def wb_result_def)
        next
          case late: False
          show ?thesis
          proof (cases "matchConfirmationReply pf q (ry_statement r)")
            case (MATCH p k)
            then have "claim_effect pf port (?p p k) s = (x, s')"
              using assms(1) valid Inr one late by (simp add: writeback_begin_def)
            from claim_effect_cases[OF this assms(2)] have c: "stable s s'"
              "case x of Inl a \<Rightarrow> backed s' a | Inr p' \<Rightarrow> p' = ?p p k
                \<and> owner s' (cq_confirmationId q) = Some (resolution_id pf q r p k, ry_eventId r, pf_sha pf (ry_statement r))"
              by (simp_all add: backed_def split: sum.splits)
            have "asked s (cq_confirmationId q) = Some (q, ts)"
              by (rule pending_read[OF assms(2) Inr]) (simp add: one)
            then have "asked s' (cq_confirmationId q) = Some (q, ts)" using c(1) by (auto simp: stable_def)
            then show ?thesis using c MATCH by (auto simp: claimed_for_def split: sum.splits)
          next
            case NO_MATCH
            then have "x = Inl (wb_result NO_EXPLICIT_CHOICE (Some (cq_confirmationId q)))" "s' = s"
              using assms(1) valid Inr one late by (simp_all add: writeback_begin_def)
            then show ?thesis by (rule quick) simp
          next
            case AMBIGUOUS
            then have "x = Inl (wb_result AMBIGUOUS_CHOICE (Some (cq_confirmationId q)))" "s' = s"
              using assms(1) valid Inr one late by (simp_all add: writeback_begin_def)
            then show ?thesis by (rule quick) simp
          qed
        qed
      next
        case many
        then show ?thesis using assms(1) valid Inr
          by (intro quick) (auto simp: writeback_begin_def wb_result_def)
      qed
    qed
  qed
qed

lemma finish_cases:
  assumes "writeback_finish pf port p applied s = (x, s')" and "good s"
  shows "stable s s' \<and> backed s' x"
proof -
  let ?c = "cq_confirmationId (pe_request p)"
  have quick: ?thesis if "s' = s" "wr_resolution x = None"
    using that assms(2) by (simp add: stable_refl backed_def)
  show ?thesis
  proof (cases applied)
    case (Threw e)
    then show ?thesis using assms(1) by (intro quick) (auto simp: writeback_finish_def retryable_def)
  next
    case Expired
    then show ?thesis using assms(1) by (intro quick) (auto simp: writeback_finish_def)
  next
    case (Settled given)
    show ?thesis
    proof (cases "\<exists>relations s1. validateRelations (op_effect (pe_option p)) (pe_kind p) (pe_targets p) given = Some relations
        \<and> parseConfirmationResolution pf (resolution_of p relations)
        \<and> wp_complete port (resolution_of p relations) s = Inr s1")
      case False
      then show ?thesis using assms(1) Settled
        by (intro quick) (auto simp: writeback_finish_def retryable_def Let_def split: option.splits if_splits sum.splits)
    next
      case True
      then obtain relations s1 where r: "validateRelations (op_effect (pe_option p)) (pe_kind p) (pe_targets p) given = Some relations"
        "parseConfirmationResolution pf (resolution_of p relations)" "wp_complete port (resolution_of p relations) s = Inr s1"
        by blast
      have st: "stable s s1" by (rule complete_stable[OF assms(2) r(3)])
      then have "good s1" by (simp add: stable_def)
      note read = resolution_read[OF this, of ?c]
      show ?thesis using assms(1) Settled r st read
        by (auto simp: writeback_finish_def retryable_def backed_def Let_def split: sum.splits option.splits)
    qed
  qed
qed

text \<open>The invariant of a system: every command is the claimed one, every answer the outcome held.\<close>

definition commanded :: "platform \<Rightarrow> 's \<Rightarrow> effect_command \<Rightarrow> bool" where
  "commanded pf s k \<longleftrightarrow> (\<exists>p. command_of p = k \<and> claimed_for pf s p)"

definition system_inv :: "platform \<Rightarrow> 's writeback_system \<Rightarrow> bool" where
  "system_inv pf y \<longleftrightarrow> good (ws_store y) \<and> list_all (commanded pf (ws_store y)) (ws_commands y)
     \<and> list_all (backed (ws_store y)) (ws_results y)"

lemma backed_stable: "backed s a \<Longrightarrow> stable s s' \<Longrightarrow> backed s' a"
  unfolding backed_def stable_def by (metis option.distinct(1))

lemma claimed_stable: "claimed_for pf s p \<Longrightarrow> stable s s' \<Longrightarrow> claimed_for pf s' p"
  unfolding claimed_for_def stable_def by (metis option.distinct(1))

lemma commanded_stable: "commanded pf s k \<Longrightarrow> stable s s' \<Longrightarrow> commanded pf s' k"
  unfolding commanded_def using claimed_stable by blast

lemma system_stable:
  assumes "system_inv pf \<lparr>ws_store = s, ws_pending = ps, ws_commands = cs, ws_results = rs\<rparr>" and "stable s s'"
  shows "system_inv pf \<lparr>ws_store = s', ws_pending = qs, ws_commands = cs, ws_results = rs\<rparr>"
  using assms backed_stable[OF _ assms(2)] commanded_stable[OF _ assms(2)]
  by (auto simp: system_inv_def list_all_iff stable_def)

lemma writeback_step_inv:
  assumes "writeback_step pf port drift y z" and "system_inv pf y"
  shows "system_inv pf z"
  using assms(1)
proof (cases rule: writeback_step.cases)
  case (Answers r s x s' ps cs rs)
  have g: "good s" using assms(2) Answers(1) by (simp add: system_inv_def)
  note b = begin_cases[OF Answers(3) g]
  from b system_stable[of pf s ps cs rs s' ps] assms(2) Answers(1,2) show ?thesis
    by (simp add: system_inv_def)
next
  case (Applies r s p s' ps cs rs)
  have g: "good s" using assms(2) Applies(1) by (simp add: system_inv_def)
  note b = begin_cases[OF Applies(3) g]
  from b system_stable[of pf s ps cs rs s' "p # ps"] assms(2) Applies(1,2) show ?thesis
    by (auto simp: system_inv_def commanded_def)
next
  case (Finishes p applied s x s' ps qs cs rs)
  have g: "good s" using assms(2) Finishes(1) by (simp add: system_inv_def)
  note b = finish_cases[OF Finishes(3) g]
  from b system_stable[of pf s "ps @ p # qs" cs rs s' "ps @ qs"] assms(2) Finishes(1,2) show ?thesis
    by (simp add: system_inv_def)
next
  case (Drifts s s' ps cs rs)
  have g: "good s" using assms(2) Drifts(1) by (simp add: system_inv_def)
  from drift_stable[OF g Drifts(3)] system_stable[of pf s ps cs rs s' ps] assms(2) Drifts(1,2)
  show ?thesis by simp
qed

lemma writeback_run_inv:
  assumes "(writeback_step pf port drift)\<^sup>*\<^sup>* y z" and "system_inv pf y"
  shows "system_inv pf z"
  using assms by (induction rule: rtranclp_induct) (auto intro: writeback_step_inv)

lemma commands_agree:
  assumes "system_inv pf y" and "k \<in> set (ws_commands y)" and "l \<in> set (ws_commands y)"
    and "ec_confirmationId k = ec_confirmationId l"
    and "pf_sha pf (ec_responseText k) = pf_sha pf (ec_responseText l) \<Longrightarrow> ec_responseText k = ec_responseText l"
  shows "k = l"
proof -
  obtain p where p: "command_of p = k" "claimed_for pf (ws_store y) p"
    using assms(1,2) by (auto simp: system_inv_def list_all_iff commanded_def)
  obtain q where q: "command_of q = l" "claimed_for pf (ws_store y) q"
    using assms(1,3) by (auto simp: system_inv_def list_all_iff commanded_def)
  have c: "cq_confirmationId (pe_request p) = cq_confirmationId (pe_request q)"
    using p(1) q(1) assms(4) by (auto simp: command_of_def)
  have same: "pe_request p = pe_request q" "pe_targets p = pe_targets q" "pe_resolutionId p = pe_resolutionId q"
    "ry_eventId (pe_reply p) = ry_eventId (pe_reply q)" "pe_hash p = pe_hash q"
    using p(2) q(2) c by (simp_all add: claimed_for_def)
  have said: "ec_responseText k = ry_statement (pe_reply p)" "ec_responseText l = ry_statement (pe_reply q)"
    unfolding p(1)[symmetric] q(1)[symmetric] by (simp_all add: command_of_def)
  have "pf_sha pf (ry_statement (pe_reply p)) = pf_sha pf (ry_statement (pe_reply q))"
    using p(2) q(2) same(5) by (simp add: claimed_for_def)
  then have t: "ry_statement (pe_reply p) = ry_statement (pe_reply q)"
    using assms(5) unfolding said by blast
  have "matchConfirmationReply pf (pe_request p) (ry_statement (pe_reply p)) = MATCH (pe_option p) (pe_kind p)"
    "matchConfirmationReply pf (pe_request q) (ry_statement (pe_reply q)) = MATCH (pe_option q) (pe_kind q)"
    using p(2) q(2) unfolding claimed_for_def by blast+
  then have "pe_option p = pe_option q" "pe_kind p = pe_kind q" unfolding same(1) t by simp_all
  then show ?thesis unfolding p(1)[symmetric] q(1)[symmetric] command_of_def using same t by simp
qed

lemma answers_agree:
  assumes "system_inv pf y" and "a \<in> set (ws_results y)" and "b \<in> set (ws_results y)"
    and "wr_confirmationId a = wr_confirmationId b"
    and "wr_resolution a = Some u" and "wr_resolution b = Some v"
  shows "u = v"
  using assms by (auto simp: system_inv_def list_all_iff backed_def) (metis option.inject)

end

section \<open>The repository behind the port\<close>

text \<open>Every error of the repository is an \<open>Error\<close>.\<close>

definition repository_port :: "platform \<Rightarrow> confirmation_db writeback_port" where
  "repository_port pf = \<lparr>
     wp_pending = (\<lambda>z c db. map_error (\<lambda>_. ''Error'') (pending_confirmations pf z c db)),
     wp_claim = (\<lambda>c i e h db. map_error (\<lambda>_. ''Error'') (claim_confirmation c i e h db)),
     wp_complete = (\<lambda>r db. map_error (\<lambda>_. ''Error'') (and_then (complete_confirmation pf r db) (\<lambda>(_, db'). Inr db'))),
     wp_resolution = (\<lambda>c db. map_error (\<lambda>_. ''Error'') (stored_resolution pf c db))\<rparr>"

definition repository_stable :: "platform \<Rightarrow> confirmation_db \<Rightarrow> confirmation_db \<Rightarrow> bool" where
  "repository_stable pf db db' \<longleftrightarrow> repository_inv pf db' \<and> (\<forall>k. (requested db k \<noteq> None \<longrightarrow> requested db' k = requested db k)
     \<and> (claimed_by db k \<noteq> None \<longrightarrow> claimed_by db' k = claimed_by db k)
     \<and> (resolved_with db k \<noteq> None \<longrightarrow> resolved_with db' k = resolved_with db k))"

lemma repository_stableI: "repository_inv pf db' \<Longrightarrow> keeps db db' \<Longrightarrow> repository_stable pf db db'"
  unfolding repository_stable_def keeps_def by blast

lemma claim_claimed:
  assumes "claim_confirmation c i e h db = Inr (x, db')" and "x = CLAIMED \<or> x = RETRY"
  shows "claimed_by db' c = Some (i, e, h)"
  using assms(1)
proof (cases rule: claim_cases)
  case (Taken row)
  then show ?thesis using row_ofD[OF Taken(1)]
    by (auto simp: claimed_by_def update_rowsD(1)[OF Taken(4)] claim_by_def)
next
  case (Settled row)
  then show ?thesis using assms(2) by (auto simp: claimed_by_def)
qed (use assms(2) in simp)

lemma pending_requested:
  assumes "repository_inv pf db" and "pending_confirmations pf z c db = Inr l" and "(q, ts) \<in> set l"
  shows "requested db (cq_confirmationId q) = Some (q, ts)"
proof -
  have "l = map (\<lambda>row. (cw_request row, cw_targets row)) (pending_rows z c db)"
    using assms(2) pending_total[OF assms(1), of z c]
    by (auto simp: pending_confirmations_def split: option.splits)
  then obtain row where row: "row \<in> set (pending_rows z c db)" "q = cw_request row" "ts = cw_targets row"
    using assms(3) by auto
  have m: "row \<in> set (cb_rows db)" using row(1) by (auto simp: pending_rows_def dest: in_set_takeD)
  then have "row_ok pf row" using assms(1) by (auto simp: repository_inv_def list_all_iff)
  then have "cq_confirmationId q = cw_confirmationId row"
    using row(2) by (auto simp: row_ok_def parseRequest_def Let_def split: if_splits)
  then show ?thesis using row_of_member[OF assms(1) m] row by (simp add: requested_def)
qed

lemma resolution_resolved:
  assumes "repository_inv pf db" and "stored_resolution pf c db = Inr (Some r)"
  shows "resolved_with db c = Some r"
  using assms(2) resolution_total[OF assms(1), of c] by (auto simp: stored_resolution_def)

interpretation sqlite: confirmation_repository "repository_port pf" "repository_step pf" "repository_inv pf"
  requested claimed_by resolved_with "repository_stable pf" for pf
proof
  show "repository_stable pf s s' \<longleftrightarrow> repository_inv pf s' \<and> (\<forall>k. (requested s k \<noteq> None \<longrightarrow> requested s' k = requested s k)
      \<and> (claimed_by s k \<noteq> None \<longrightarrow> claimed_by s' k = claimed_by s k)
      \<and> (resolved_with s k \<noteq> None \<longrightarrow> resolved_with s' k = resolved_with s k))" for s s'
    by (rule repository_stable_def)
  show "repository_inv pf s \<Longrightarrow> wp_claim (repository_port pf) c i e h s = Inr (x, s') \<Longrightarrow> repository_stable pf s s'"
    for s c i e h x s'
    by (auto simp: repository_port_def intro!: repository_stableI intro: claim_inv claim_keeps)
  show "repository_inv pf s \<Longrightarrow> wp_complete (repository_port pf) r s = Inr s' \<Longrightarrow> repository_stable pf s s'" for s r s'
    by (auto simp: repository_port_def intro!: repository_stableI intro: complete_inv complete_keeps)
  show "repository_inv pf s \<Longrightarrow> repository_step pf s s' \<Longrightarrow> repository_stable pf s s'" for s s'
    by (auto intro!: repository_stableI intro: step_repository_inv step_keeps)
  show "repository_inv pf s \<Longrightarrow> wp_claim (repository_port pf) c i e h s = Inr (x, s') \<Longrightarrow> x = CLAIMED \<or> x = RETRY \<Longrightarrow>
      claimed_by s' c = Some (i, e, h)" for s c i e h x s'
    by (auto simp: repository_port_def intro: claim_claimed)
  show "repository_inv pf s \<Longrightarrow> wp_pending (repository_port pf) z k s = Inr l \<Longrightarrow> (q, ts) \<in> set l \<Longrightarrow>
      requested s (cq_confirmationId q) = Some (q, ts)" for s z k l q ts
    by (auto simp: repository_port_def intro: pending_requested)
  show "repository_inv pf s \<Longrightarrow> wp_resolution (repository_port pf) c s = Inr (Some r) \<Longrightarrow> resolved_with s c = Some r" for s c r
    by (auto simp: repository_port_def intro: resolution_resolved)
qed

end
