(* ===== verification/WritebackProps.thy ===== *)
theory WritebackProps
  imports Writeback InteractionProps
begin

text \<open>The properties of confirmations: questions that can be stored, replies that settle them.\<close>

section \<open>Questions and the schema\<close>

lemma code_points_plain: "list_all (\<lambda>u. u < 55296 \<or> 57343 < u) u \<Longrightarrow> code_points u = length u"
  by (induction u rule: code_points.induct) auto

lemma schema_text_plain:
  "list_all (\<lambda>u. u < 55296 \<or> 57343 < u) u \<Longrightarrow> list_all (\<lambda>c. c \<noteq> 0 \<and> c \<noteq> 13 \<and> c \<noteq> 10) u \<Longrightarrow>
     schema_text n u \<longleftrightarrow> u \<noteq> [] \<and> length u \<le> n"
  by (cases u) (auto simp: schema_text_def code_points_plain)

lemma hex_id_tail: "hex_char c \<Longrightarrow> id_tail c"
  by (auto simp: hex_char_def id_tail_def ascii_alnum_def ascii_lower_def ascii_digit_def)

lemma hash_suffix_safe:
  assumes "hash64 h" and "safe_id (p @ ''-'')" and "length p \<le> 400"
  shows "safe_id (p @ ''-'' @ take 32 h)"
proof -
  have "list_all id_tail h" using assms(1) by (auto simp: hash64_def list_all_iff intro: hex_id_tail)
  then have "list_all id_tail (take 32 h)" by (auto simp: list_all_iff dest: in_set_takeD)
  moreover have "length (take 32 h) = 32" using assms(1) by (simp add: hash64_def)
  ultimately show ?thesis using assms(2,3)
    by (cases p) (auto simp: safe_id_def head_tail_def)
qed

definition plain_unit :: "nat \<Rightarrow> bool" where
  "plain_unit u \<longleftrightarrow> u \<noteq> 0 \<and> u \<noteq> 13 \<and> u \<noteq> 10 \<and> (u < 55296 \<or> 57343 < u)"

lemma plain_units_schema: "list_all plain_unit u \<Longrightarrow> schema_text n u \<longleftrightarrow> u \<noteq> [] \<and> length u \<le> n"
  by (rule schema_text_plain) (auto simp: list_all_iff plain_unit_def)

lemma hex_digit_plain: "0 \<le> n \<Longrightarrow> n < 16 \<Longrightarrow> 32 \<le> code_of (hex_digit n)"
  by (auto simp: hex_digit_def)

lemma json_escape_plain: "d \<in> set (json_escape c) \<Longrightarrow> 32 \<le> code_of d"
proof -
  have "0 \<le> code_of c" by (metis of_nat_0_le_iff of_nat_of_char)
  then show "d \<in> set (json_escape c) \<Longrightarrow> 32 \<le> code_of d"
    by (auto simp: json_escape_def Let_def hex_digit_plain split: if_splits)
qed

lemma quoted_plain: "list_all plain_unit (units (json_quote s))"
proof -
  have "plain_unit (of_char d)" if "d \<in> set (json_quote s)" for d
  proof -
    have "32 \<le> code_of d" using that json_escape_plain by (auto simp: json_quote_def)
    then have "32 \<le> (of_char d :: nat)" by (metis of_nat_of_char of_nat_le_iff of_nat_numeral)
    moreover have "of_char d < (55296 :: nat)" by (rule less_trans[OF nat_of_char_less_256]) simp
    ultimately show ?thesis by (simp add: plain_unit_def)
  qed
  then show ?thesis by (simp add: list_all_iff units_def)
qed

lemma question_plain: "question t = Inr u \<Longrightarrow> list_all plain_unit u \<and> u \<noteq> []"
  using quoted_plain by (cases "it_kind t") (auto simp: question_def plain_unit_def)

lemma options_schema:
  "k \<noteq> LOW_IMPACT_UNKNOWN \<Longrightarrow> list_all (\<lambda>p. safe_id (op_optionId p) \<and> schema_text 200 (op_label p)) (OPTIONS k)
     \<and> 2 \<le> length (OPTIONS k) \<and> length (OPTIONS k) \<le> 3 \<and> distinct (map op_optionId (OPTIONS k))
     \<and> distinct (map op_effect (OPTIONS k)) \<and> map op_effect (OPTIONS k) = CONFIRMATION_EFFECTS_BY_KIND k"
  by (cases k) (simp_all add: mk_option_def plain_units_schema plain_unit_def text_simps)

lemma request_question: "request sha t now = Inr q \<Longrightarrow> question t = Inr (cq_question q)"
  by (auto simp: request_def split: option.splits)

lemma request_default_id:
  "request sha t now = Inr q \<Longrightarrow> cq_safeDefaultOptionId q \<in> op_optionId ` set (OPTIONS (it_kind t))"
  by (auto simp: request_def dest: find_SomeD split: option.splits)

lemma safe_prefix: "safe_id ''confirmation-''" "safe_id ''resolution-''"
  by (simp_all add: text_simps)

lemma request_schema_iff:
  assumes "request (pf_sha pf) t now = Inr q" and "trigger_ok i t" and "valid_interaction i"
    and "\<And>u. hash64 (pf_sha pf u)"
  shows "parseConfirmationRequest pf q \<longleftrightarrow> length (cq_question q) \<le> 1000 \<and> pf_date_time pf now"
proof -
  note f = request_fields[OF assms(1)]
  note o' = options_schema[OF f(1)]
  have ids: "list_all safe_id [cq_confirmationId q, cq_sessionId q, cq_turnId q, cq_triggerId q, cq_safeDefaultOptionId q]"
    using assms(2,3) f request_default_id[OF assms(1)] o'
      hash_suffix_safe[OF assms(4), of "''confirmation''"]
    by (auto simp: trigger_ok_def valid_interaction_def confirmation_id_def list_all_iff safe_prefix)
  have subjects: "subject_list_ok (cq_subjectIds q)"
    using assms(2) f by (auto simp: trigger_ok_def subject_list_ok_def list_all_iff Suc_le_eq)
  have ord: "0 \<le> cq_turnOrdinal q \<and> cq_turnOrdinal q \<le> 9007199254740991"
    using assms(2,3) f by (auto simp: trigger_ok_def valid_interaction_def safe_integer_def)
  have text': "schema_text 1000 (cq_question q) \<longleftrightarrow> length (cq_question q) \<le> 1000"
    using question_plain[OF request_question[OF assms(1)]] plain_units_schema by auto
  have "request_schema pf q \<longleftrightarrow> length (cq_question q) \<le> 1000 \<and> pf_date_time pf now"
    unfolding request_schema_def using ids subjects ord text' f o' by simp
  then show ?thesis unfolding parseConfirmationRequest_def Let_def
    using o' f request_default[OF assms(1)] by (auto simp: list_ex_iff)
qed


definition long_summary :: string where
  "long_summary = replicate 490 (CHR 0x22)"

definition long_turn :: interaction_input where
  "long_turn = ask_input 3 [(ask_trigger ''a'' KNOWLEDGE_CONFLICT HIGH 3)\<lparr>it_summary := long_summary\<rparr>] []"

definition plain_platform :: platform where
  "plain_platform = \<lparr>pf_sha = (\<lambda>u. replicate 64 (CHR ''0'')), pf_iso = (\<lambda>t. []), pf_date_time = (\<lambda>t. True),
     pf_normalize = (\<lambda>u. u)\<rparr>"

lemma plain_hash: "hash64 (pf_sha plain_platform u)"
  by (simp add: plain_platform_def hash64_def hex_char_def ascii_digit_def list_all_iff)

lemma long_summary_ok: "valid_text 500 long_summary"
proof -
  have "dropWhile js_space (replicate n (CHR 0x22)) = replicate n (CHR 0x22)" for n
    by (cases n) (simp_all add: js_space_def)
  then have "js_trim long_summary = long_summary" by (simp add: js_trim_def long_summary_def)
  moreover have "long_summary \<noteq> []" "length long_summary = 490" "list_all plain_char long_summary"
    by (simp_all add: long_summary_def list_all_iff plain_char_def)
  ultimately show ?thesis by (simp add: valid_text_def has_text_def plain_text_def)
qed

lemma quoted_long: "length (json_quote long_summary) = 982"
proof -
  have "length (concat (replicate n [a, b])) = 2 * n" for n and a b :: char by (induction n) auto
  then show ?thesis by (simp add: json_quote_def long_summary_def json_escape_def)
qed

lemma long_turn_valid: "valid_interaction long_turn"
  using long_summary_ok
  by (simp add: valid_interaction_def long_turn_def ask_input_def ask_trigger_def ex_policy_def trigger_ok_def
      safe_integer_def)

lemma long_turn_asks:
  obtains d q where "evaluateInteractionPolicy (pf_sha plain_platform) long_turn = Inr d" "de_request d = Some q"
    "length (cq_question q) = 1012" "list_all plain_unit (cq_question q)"
proof -
  let ?sha = "pf_sha plain_platform"
  obtain d where d: "evaluateInteractionPolicy ?sha long_turn = Inr d" by (rule evaluate_total)
  have "eligible long_turn = ii_triggers long_turn" "\<not> questionBudgetExhausted long_turn"
    "ii_triggers long_turn \<noteq> []"
    by (simp_all add: ask_eval long_turn_def ask_input_def ask_trigger_def)
  with d long_turn_valid obtain q where q: "de_request d = Some q"
    by (cases rule: decision_cases) auto
  obtain t where t: "t \<in> set (ii_triggers long_turn)" "request ?sha t (ii_now long_turn) = Inr q"
    using asking_conditions(5)[OF d q] by blast
  then have qt: "question t = Inr (cq_question q)" by (intro request_question)
  moreover have "it_kind t = KNOWLEDGE_CONFLICT" "it_summary t = long_summary"
    using t(1) by (simp_all add: long_turn_def ask_input_def ask_trigger_def)
  ultimately have "cq_question q = fst (the (question_parts KNOWLEDGE_CONFLICT)) @ units (json_quote long_summary)
      @ snd (the (question_parts KNOWLEDGE_CONFLICT))" by (simp add: question_def)
  then have "length (cq_question q) = 1012" using quoted_long by (simp add: units_def)
  then show thesis using that d q question_plain[OF qt] by blast
qed

lemma too_long_question:
  "list_all plain_unit (cq_question q) \<Longrightarrow> 1000 < length (cq_question q) \<Longrightarrow> \<not> parseConfirmationRequest pf q"
  by (simp add: parseConfirmationRequest_def request_schema_def plain_units_schema)


end
