(* ===== verification/ReplyProps.thy ===== *)
theory ReplyProps
  imports WritebackProps
begin

text \<open>The properties of replies: what they can change, that they settle a confirmation, and only once.\<close>

section \<open>Every interleaving of replies\<close>

definition writeback_start :: "confirmation_db \<Rightarrow> confirmation_db writeback_system" where
  "writeback_start db = \<lparr>ws_store = db, ws_pending = [], ws_commands = [], ws_results = []\<rparr>"

lemma writeback_start_inv:
  "(repository_step pf)\<^sup>*\<^sup>* empty_repository db \<Longrightarrow> sqlite.system_inv pf pf (writeback_start db)"
  by (simp add: sqlite.system_inv_def writeback_start_def reachable_repository_inv)

text \<open>
  C9: However the handling of replies interleaves, with each other and with anything else that is
  done to the repository, all effect commands that are ever sent for one confirmation are the same
  command: one option chosen by one reply of the user, applied to the same targets. (No two of the
  reply texts involved have the same SHA-256.)
\<close>
theorem one_effect_per_confirmation:
  assumes "(repository_step pf)\<^sup>*\<^sup>* empty_repository db"
    and "(writeback_step pf (repository_port pf) (repository_step pf))\<^sup>*\<^sup>* (writeback_start db) y"
    and "k \<in> set (ws_commands y)" and "l \<in> set (ws_commands y)" and "ec_confirmationId k = ec_confirmationId l"
    and "pf_sha pf (ec_responseText k) = pf_sha pf (ec_responseText l) \<Longrightarrow> ec_responseText k = ec_responseText l"
  shows "k = l"
  by (rule sqlite.commands_agree[OF sqlite.writeback_run_inv[OF assms(2) writeback_start_inv[OF assms(1)]] assms(3-6)])

text \<open>
  However the handling of replies interleaves, all answers that carry a resolution of one
  confirmation carry the same resolution, which is the one the repository holds.
\<close>
theorem one_resolution_per_confirmation:
  assumes "(repository_step pf)\<^sup>*\<^sup>* empty_repository db"
    and "(writeback_step pf (repository_port pf) (repository_step pf))\<^sup>*\<^sup>* (writeback_start db) y"
    and "a \<in> set (ws_results y)" and "wr_resolution a = Some u"
  shows "\<exists>c. wr_confirmationId a = Some c \<and> resolved_with (ws_store y) c = Some u"
proof -
  have "sqlite.system_inv pf pf y" by (rule sqlite.writeback_run_inv[OF assms(2) writeback_start_inv[OF assms(1)]])
  then show ?thesis using assms(3,4) by (auto simp: sqlite.system_inv_def sqlite.backed_def list_all_iff)
qed

section \<open>What a resolution says\<close>

text \<open>
  C19: In every repository reached by the operations, and whatever is done next, claims and
  resolutions are final: a resolution held for a confirmation stays the same, belongs to the claim
  held, names an option of the request with its effect, covers exactly the subjects of the request,
  and starts from the revisions the request was saved with.
\<close>
theorem resolutions_are_final:
  assumes "(repository_step pf)\<^sup>*\<^sup>* empty_repository db" and "resolved_with db c = Some r"
    and "(repository_step pf)\<^sup>*\<^sup>* db db'"
  shows "resolved_with db' c = Some r
    \<and> claimed_by db' c = Some (cn_resolutionId r, cn_responseEventId r, cn_responseTextHash r)
    \<and> parseConfirmationResolution pf r
    \<and> (case requested db' c of None \<Rightarrow> False | Some (q, ts) \<Rightarrow>
         parseConfirmationRequest pf q \<and> cq_confirmationId q = cn_confirmationId r \<and> \<not> expands q ts r)"
proof -
  have inv: "repository_inv pf db" by (rule reachable_repository_inv[OF assms(1)])
  obtain row where row: "row_of db c = Some row" "cw_resolution row = Some r"
    using assms(2) by (auto simp: resolved_with_def split: option.splits)
  have ok: "row_ok pf row" "resolved_ok pf row r" using row_of_ok[OF inv row(1)] row(2) by (simp_all add: row_ok_def)
  have q: "parseConfirmationRequest pf (cw_request row)" "cq_confirmationId (cw_request row) = cw_confirmationId row"
    using ok(1) by (auto simp: row_ok_def parseRequest_def Let_def split: if_splits)
  have now: "claimed_by db c = Some (cn_resolutionId r, cn_responseEventId r, cn_responseTextHash r)"
    "requested db c = Some (cw_request row, cw_targets row)"
    using row ok(2) by (simp_all add: claimed_by_def requested_def resolved_ok_def)
  have "keeps db db'" using reachable_keeps[OF assms(3) inv] by simp
  then have "claimed_by db' c = claimed_by db c" "requested db' c = requested db c" "resolved_with db' c = resolved_with db c"
    unfolding keeps_def using now assms(2) by simp_all
  then show ?thesis using now assms(2) ok(2) q by (simp add: resolved_ok_def)
qed

section \<open>A reply that settles\<close>

lemma find_by_key:
  "distinct (map f xs) \<Longrightarrow> x \<in> set xs \<Longrightarrow> find (\<lambda>y. f y = f x) xs = Some x"
  by (rule find_unique)

lemma relation_fitsD:
  assumes "relation_fits e ls t"
  obtains l where "find (\<lambda>l. vl_subjectId l = tg_subjectId t) ls = Some l" "l \<in> set ls"
    "vl_subjectId l = tg_subjectId t" "vl_beforeRevision l = tg_expectedRevision t" "vl_relation l = e"
    "SAFE_REVISION (vl_afterRevision l)"
  using assms find_SomeD[of _ ls] by (auto simp: relation_fits_def split: option.splits)

lemma validated_relations:
  assumes "validateRelations eff kind ts given = Some ls" and "distinct (map tg_subjectId ts)"
    and "list_all (\<lambda>t. safe_id (tg_subjectId t) \<and> SAFE_REVISION (tg_expectedRevision t)) ts"
  shows "distinct (map vl_subjectId ls)" "length ls = length ts"
    "vl_subjectId ` set ls = tg_subjectId ` set ts"
    "list_all (\<lambda>l. safe_id (vl_subjectId l) \<and> SAFE_REVISION (vl_beforeRevision l) \<and> SAFE_REVISION (vl_afterRevision l)
       \<and> vl_relation l = (if kind = CORRECTION then CORRECTS else CONFIRMATION_RELATION_BY_EFFECT eff)) ls"
    "list_all (\<lambda>t. map_option vl_beforeRevision (find (\<lambda>l. vl_subjectId l = tg_subjectId t) ls)
       = Some (tg_expectedRevision t)) ts"
proof -
  let ?e = "if kind = CORRECTION then CORRECTS else CONFIRMATION_RELATION_BY_EFFECT eff"
  have v: "length given = length ts" "distinct (map vl_subjectId given)" "list_all (relation_fits ?e given) ts"
    and ls: "ls = sort_by (\<lambda>x y. vl_subjectId x \<le> vl_subjectId y) given"
    using assms(1) by (auto simp: validateRelations_def Let_def split: if_splits)
  show d: "distinct (map vl_subjectId ls)" and "length ls = length ts" using v ls by simp_all
  have sub: "tg_subjectId ` set ts \<subseteq> vl_subjectId ` set given"
  proof
    fix x assume "x \<in> tg_subjectId ` set ts"
    then obtain t where t: "t \<in> set ts" "x = tg_subjectId t" by blast
    then have "relation_fits ?e given t" using v(3) by (simp add: list_all_iff)
    then show "x \<in> vl_subjectId ` set given" by (rule relation_fitsD) (use t in force)
  qed
  have "card (vl_subjectId ` set given) = card (tg_subjectId ` set ts)"
    using v(1,2) assms(2) by (metis distinct_card length_map set_map)
  then have same: "tg_subjectId ` set ts = vl_subjectId ` set given"
    using sub by (intro card_subset_eq) auto
  then show "vl_subjectId ` set ls = tg_subjectId ` set ts" using ls by simp
  have each: "\<exists>t \<in> set ts. vl_subjectId l = tg_subjectId t \<and> vl_beforeRevision l = tg_expectedRevision t
      \<and> vl_relation l = ?e \<and> SAFE_REVISION (vl_afterRevision l)" if "l \<in> set given" for l
  proof -
    have "vl_subjectId l \<in> tg_subjectId ` set ts" using same that by simp
    then obtain t where t: "t \<in> set ts" "vl_subjectId l = tg_subjectId t" by (rule imageE)
    then have "relation_fits ?e given t" using v(3) by (simp add: list_all_iff)
    then obtain l' where l': "find (\<lambda>l. vl_subjectId l = tg_subjectId t) given = Some l'"
      "vl_beforeRevision l' = tg_expectedRevision t" "vl_relation l' = ?e" "SAFE_REVISION (vl_afterRevision l')"
      by (rule relation_fitsD)
    have "find (\<lambda>y. vl_subjectId y = vl_subjectId l) given = Some l" by (rule find_by_key[OF v(2) that])
    then have "l' = l" using l'(1) unfolding t(2) by simp
    then show ?thesis using t l'(2-4) by (intro bexI[of _ t]) simp_all
  qed
  show "list_all (\<lambda>l. safe_id (vl_subjectId l) \<and> SAFE_REVISION (vl_beforeRevision l) \<and> SAFE_REVISION (vl_afterRevision l)
       \<and> vl_relation l = ?e) ls"
    unfolding list_all_iff ls set_sort_by
  proof
    fix l assume "l \<in> set given"
    from each[OF this] obtain t where t: "t \<in> set ts" "vl_subjectId l = tg_subjectId t"
      "vl_beforeRevision l = tg_expectedRevision t" "vl_relation l = ?e" "SAFE_REVISION (vl_afterRevision l)" by blast
    then show "safe_id (vl_subjectId l) \<and> SAFE_REVISION (vl_beforeRevision l) \<and> SAFE_REVISION (vl_afterRevision l)
       \<and> vl_relation l = ?e"
      using assms(3) by (simp add: list_all_iff)
  qed
  show "list_all (\<lambda>t. map_option vl_beforeRevision (find (\<lambda>l. vl_subjectId l = tg_subjectId t) ls)
       = Some (tg_expectedRevision t)) ts"
    unfolding list_all_iff
  proof
    fix t assume t: "t \<in> set ts"
    then have "relation_fits ?e given t" using v(3) by (simp add: list_all_iff)
    then obtain l where l: "l \<in> set given" "vl_subjectId l = tg_subjectId t" "vl_beforeRevision l = tg_expectedRevision t"
      by (rule relation_fitsD)
    have "find (\<lambda>y. vl_subjectId y = vl_subjectId l) ls = Some l" by (rule find_by_key[OF d]) (simp add: ls l)
    then show "map_option vl_beforeRevision (find (\<lambda>l. vl_subjectId l = tg_subjectId t) ls) = Some (tg_expectedRevision t)"
      using l by simp
  qed
qed

lemma match_option:
  assumes "matchConfirmationReply pf q u = MATCH p k"
  shows "p \<in> set (cq_options q)" "k = CORRECTION \<Longrightarrow> cq_kind q = KNOWLEDGE_CONFLICT \<and> op_effect p = REJECT_CANDIDATE"
proof -
  let ?n = "pf_normalize pf u"
  let ?exact = "exact_options pf ?n (cq_options q)"
  have sub: "set ?exact \<subseteq> set (cq_options q)" by (auto simp: exact_options_def in_set_enumerate_eq)
  define c where "c = (cq_kind q = KNOWLEDGE_CONFLICT \<and> list_ex (\<lambda>p. starts_with_units p ?n) CORRECTION_STARTS)"
  have ne: "?n \<noteq> []" using assms by (auto simp: matchConfirmationReply_def)
  have m: "(if c \<and> ?exact \<noteq> [] then AMBIGUOUS
      else if c then (case find (\<lambda>p. op_effect p = REJECT_CANDIDATE) (cq_options q) of
            None \<Rightarrow> NO_MATCH | Some rejected \<Rightarrow> MATCH rejected CORRECTION)
      else (case ?exact of [] \<Rightarrow> NO_MATCH | [p] \<Rightarrow> MATCH p OPTION | _ \<Rightarrow> AMBIGUOUS)) = MATCH p k"
    using assms unfolding matchConfirmationReply_def Let_def if_not_P[OF ne] c_def .
  have "p \<in> set (cq_options q) \<and> (k = CORRECTION \<longrightarrow> cq_kind q = KNOWLEDGE_CONFLICT \<and> op_effect p = REJECT_CANDIDATE)"
  proof (cases c)
    case True
    then have "find (\<lambda>p. op_effect p = REJECT_CANDIDATE) (cq_options q) = Some p" using m
      by (auto split: if_splits option.splits)
    then show ?thesis using True c_def by (auto dest: find_SomeD)
  next
    case False
    then have "?exact = [p]" "k = OPTION" using m by (auto split: list.splits)
    then show ?thesis using sub by simp
  qed
  then show "p \<in> set (cq_options q)" "k = CORRECTION \<Longrightarrow> cq_kind q = KNOWLEDGE_CONFLICT \<and> op_effect p = REJECT_CANDIDATE"
    by blast+
qed

text \<open>A resolution built from validated relations passes its schema and expands nothing.\<close>

lemma resolution_fits:
  assumes row: "row_ok pf row" and p: "pe_request p = cw_request row" "pe_targets p = cw_targets row"
    and v: "validReply (pe_reply p)" "ry_sessionId (pe_reply p) = cw_sessionId row"
      "ry_turnId (pe_reply p) \<noteq> cq_turnId (pe_request p)" "pf_date_time pf (ry_occurredAt (pe_reply p))"
    and m: "matchConfirmationReply pf (pe_request p) u = MATCH (pe_option p) (pe_kind p)"
    and h: "hash64 (pe_hash p)" "safe_id (pe_resolutionId p)"
    and ls: "validateRelations (op_effect (pe_option p)) (pe_kind p) (pe_targets p) given = Some ls"
  shows "parseConfirmationResolution pf (resolution_of p ls) \<and> \<not> expands (cw_request row) (cw_targets row) (resolution_of p ls)"
proof -
  let ?q = "cw_request row" and ?ts = "cw_targets row" and ?r = "resolution_of p ls"
  have q: "parseConfirmationRequest pf ?q" "cq_sessionId ?q = cw_sessionId row"
    using row by (auto simp: row_ok_def parseRequest_def Let_def split: if_splits)
  have schema: "request_schema pf ?q" and opts: "distinct (map op_optionId (cq_options ?q))"
    using q(1) by (auto simp: parseConfirmationRequest_def Let_def)
  have t: "validateTargets ?q ?ts = Inr ?ts" using row by (auto simp: row_ok_def parseTargets_def split: if_splits)
  note ts = validateTargets_Inr(3-6)[OF t]
  note rel = validated_relations[OF ls[unfolded p(2)] ts(2,3)]
  note o' = match_option[OF m, unfolded p(1)]
  have sub: "subject_list_ok (cq_subjectIds ?q)" using schema by (simp add: request_schema_def)
  have cover: "set (cq_subjectIds ?q) \<subseteq> vl_subjectId ` set ls" using ts(4) rel(3) by simp
  have kind: "pe_kind p = CORRECTION \<Longrightarrow> cq_kind ?q = KNOWLEDGE_CONFLICT \<and> op_effect (pe_option p) = REJECT_CANDIDATE"
    by (rule o'(2))
  have "find (\<lambda>y. op_optionId y = op_optionId (pe_option p)) (cq_options ?q) = Some (pe_option p)"
    by (rule find_by_key[OF opts o'(1)])
  then have "\<not> expands ?q ?ts ?r"
    using v(2) q(2) rel(5) kind by (auto simp: expands_def resolution_of_def Let_def p list_ex_iff list_all_iff)
  moreover have "resolution_schema pf ?r"
    using schema o'(1) v h rel sub ts(1)
    by (auto simp: resolution_schema_def resolution_of_def Let_def p request_schema_def validReply_def
        subject_list_ok_def list_all_iff Suc_le_eq)
  moreover have "distinct (map vl_subjectId ls)" "length ls = length (cq_subjectIds ?q)"
    "list_all (\<lambda>l. vl_relation l = (if pe_kind p = CORRECTION then CORRECTS
       else CONFIRMATION_RELATION_BY_EFFECT (op_effect (pe_option p)))) ls"
    using rel ts(1) by (auto simp: list_all_iff)
  ultimately show ?thesis using cover kind v(3)
    by (auto simp: parseConfirmationResolution_def resolution_of_def Let_def p list_ex_iff list_all_iff)
qed

lemma update_total:
  "(\<And>r. r \<in> set (cb_rows db) \<Longrightarrow> P r \<Longrightarrow> row_ok pf (f r)) \<Longrightarrow> \<exists>db'. update_rows P f db = Inr db'"
  by (auto simp: update_rows_def list_all_iff row_ok_def)

lemma claim_takes:
  assumes "repository_inv pf db" and "\<not> cb_closed db" and "row_of db c = Some row" and "cw_status row = ROW_PENDING"
    and "list_all safe_id [c, i, e]" and "hash64 h"
  shows "\<exists>db'. claim_confirmation c i e h db = Inr (CLAIMED, db') \<and> row_of db' c = Some (claim_by i e h row)
    \<and> \<not> cb_closed db'"
proof -
  let ?P = "\<lambda>r. cw_confirmationId r = c \<and> cw_status r = ROW_PENDING"
  have "\<exists>db'. update_rows ?P (claim_by i e h) db = Inr db'"
    using assms(1) by (intro update_total[of _ _ pf]) (auto simp: repository_inv_def list_all_iff intro: claim_ok)
  then obtain db' where u: "update_rows ?P (claim_by i e h) db = Inr db'" by blast
  have c: "claim_confirmation c i e h db = Inr (CLAIMED, db')"
    using assms(2-6) u unfolding claim_confirmation_def claim_by_def[abs_def] by simp
  have "row_of db' c = Some (claim_by i e h row)" "cb_closed db' = cb_closed db"
    using update_rowsD(1)[OF u, of c] update_rowsD(3)[OF u] assms(3,4) row_ofD[OF assms(3)] by simp_all
  then show ?thesis using c assms(2) by simp
qed

lemma complete_takes:
  assumes "repository_inv pf db" and "\<not> cb_closed db" and "row_of db (cn_confirmationId r) = Some row"
    and "owns_claim r row" and "parseConfirmationResolution pf r" and "\<not> expands (cw_request row) (cw_targets row) r"
  shows "\<exists>db'. complete_confirmation pf r db = Inr (COMPLETED, db') \<and> resolved_with db' (cn_confirmationId r) = Some r
    \<and> \<not> cb_closed db'"
proof -
  let ?P = "\<lambda>x. cw_confirmationId x = cn_confirmationId r \<and> cw_status x = ROW_CLAIMED"
  note ok = row_of_ok[OF assms(1,3)]
  have "y = row" if "y \<in> set (cb_rows db)" "?P y" for y
    using row_of_member[OF assms(1) that(1)] assms(3) that(2) by simp
  then have "\<exists>db'. update_rows ?P (resolve_by pf r) db = Inr db'"
    using ok assms(4-6) row_ofD[OF assms(3)] by (intro update_total[of _ _ pf]) (auto intro!: resolve_ok)
  then obtain db' where u: "update_rows ?P (resolve_by pf r) db = Inr db'" by blast
  have "parseRequest pf row = Inr (cw_request row)" "parseTargets pf row (cw_request row) = Inr (cw_targets row)"
    "cw_status row = ROW_CLAIMED"
    using ok assms(4) by (simp_all add: row_ok_def owns_claim_def)
  then have c: "complete_confirmation pf r db = Inr (COMPLETED, db')"
    using assms(2-6) u unfolding complete_confirmation_def resolve_by_def[abs_def] by simp
  have "resolved_with db' (cn_confirmationId r) = Some r" "cb_closed db' = cb_closed db"
    using update_rowsD(1)[OF u, of "cn_confirmationId r"] update_rowsD(3)[OF u] assms(3,4) row_ofD[OF assms(3)]
    by (simp_all add: resolved_with_def owns_claim_def)
  then show ?thesis using c assms(2) by simp
qed

text \<open>What a reply is taken for, when its session has the one pending confirmation \<open>row\<close>.\<close>

definition taken_for :: "platform \<Rightarrow> confirmation_reply \<Rightarrow> confirmation_row \<Rightarrow> confirmation_option \<Rightarrow> response_kind
    \<Rightarrow> pending_effect" where
  "taken_for pf r row p k = \<lparr>pe_reply = r, pe_request = cw_request row, pe_targets = cw_targets row, pe_option = p,
     pe_kind = k, pe_resolutionId = resolution_id pf (cw_request row) r p k, pe_hash = pf_sha pf (ry_statement r)\<rparr>"

text \<open>The reply comes after the question: a later turn, another turn id, a later time.\<close>

definition reply_is_later :: "confirmation_reply \<Rightarrow> confirmation_request \<Rightarrow> bool" where
  "reply_is_later r q \<longleftrightarrow> \<not> (ry_turnOrdinal r \<le> cq_turnOrdinal q \<or> ry_turnId r = cq_turnId q
     \<or> not_later (ry_occurredAt r) (cq_createdAt q))"

lemma begin_takes:
  assumes "repository_inv pf db" and "\<not> cb_closed db" and "validReply r"
    and "pending_rows (ry_sessionId r) (ry_confirmationId r) db = [row]" and "cw_status row = ROW_PENDING"
    and "reply_is_later r (cw_request row)"
    and "matchConfirmationReply pf (cw_request row) (ry_statement r) = MATCH p k" and "\<forall>u. hash64 (pf_sha pf u)"
  shows "\<exists>db'. writeback_begin pf (repository_port pf) r db = (Inr (taken_for pf r row p k), db')
    \<and> repository_step pf db db' \<and> repository_inv pf db' \<and> \<not> cb_closed db'
    \<and> row_of db' (cw_confirmationId row) = Some (claim_by (resolution_id pf (cw_request row) r p k) (ry_eventId r)
        (pf_sha pf (ry_statement r)) row)"
proof -
  let ?q = "cw_request row" and ?c = "cw_confirmationId row" and ?i = "resolution_id pf (cw_request row) r p k"
  have "row \<in> set (pending_rows (ry_sessionId r) (ry_confirmationId r) db)" using assms(4) by simp
  then have m: "row \<in> set (cb_rows db)" by (auto simp: pending_rows_def dest: in_set_takeD)
  then have ok: "row_ok pf row" using assms(1) by (simp add: repository_inv_def list_all_iff)
  then have q: "parseConfirmationRequest pf ?q" "cq_confirmationId ?q = ?c"
    by (auto simp: row_ok_def parseRequest_def Let_def split: if_splits)
  have ids: "list_all safe_id [?c, ?i, ry_eventId r]"
    using q assms(3) hash_suffix_safe[of _ "''resolution''"] assms(8) safe_prefix(2)
    by (auto simp: parseConfirmationRequest_def request_schema_def validReply_def resolution_id_def)
  obtain db' where c: "claim_confirmation ?c ?i (ry_eventId r) (pf_sha pf (ry_statement r)) db = Inr (CLAIMED, db')"
      "row_of db' ?c = Some (claim_by ?i (ry_eventId r) (pf_sha pf (ry_statement r)) row)" "\<not> cb_closed db'"
    using claim_takes[OF assms(1,2) row_of_member[OF assms(1) m] assms(5) ids] assms(8) by blast
  have pend: "pending_confirmations pf (ry_sessionId r) (ry_confirmationId r) db = Inr [(?q, cw_targets row)]"
    using pending_total[OF assms(1,2), of "ry_sessionId r" "ry_confirmationId r"] assms(3,4)
    by (simp add: validReply_def)
  have "claim_effect pf (repository_port pf) (taken_for pf r row p k) db = (Inr (taken_for pf r row p k), db')"
    using c q by (simp add: claim_effect_def repository_port_def taken_for_def)
  then have "writeback_begin pf (repository_port pf) r db = (Inr (taken_for pf r row p k), db')"
    using assms(3,6,7) pend unfolding writeback_begin_def reply_is_later_def taken_for_def
    by (simp add: repository_port_def)
  then show ?thesis using c claim_inv[OF c(1) assms(1)] repository_step.Claims[OF c(1)] by blast
qed

lemma finish_takes:
  assumes "repository_inv pf db" and "validReply r"
    and "pending_rows (ry_sessionId r) (ry_confirmationId r) db = [row]"
    and "reply_is_later r (cw_request row)"
    and "matchConfirmationReply pf (cw_request row) (ry_statement r) = MATCH p k"
    and "validateRelations (op_effect p) k (cw_targets row) given = Some ls"
    and "\<forall>u. hash64 (pf_sha pf u)" and "pf_date_time pf (ry_occurredAt r)"
    and "repository_inv pf db1" and "\<not> cb_closed db1"
    and "row_of db1 (cw_confirmationId row) = Some (claim_by (resolution_id pf (cw_request row) r p k) (ry_eventId r)
        (pf_sha pf (ry_statement r)) row)"
  shows "\<exists>db2. writeback_finish pf (repository_port pf) (taken_for pf r row p k) (Settled given) db1
      = (\<lparr>wr_status = WB_RESOLVED, wr_confirmationId = Some (cw_confirmationId row),
          wr_resolution = Some (resolution_of (taken_for pf r row p k) ls), wr_diagnostic = None\<rparr>, db2)
    \<and> repository_step pf db1 db2
    \<and> resolved_with db2 (cw_confirmationId row) = Some (resolution_of (taken_for pf r row p k) ls)"
proof -
  let ?p = "taken_for pf r row p k" and ?c = "cw_confirmationId row"
  let ?r = "resolution_of ?p ls" and ?i = "resolution_id pf (cw_request row) r p k"
  let ?row = "claim_by ?i (ry_eventId r) (pf_sha pf (ry_statement r)) row"
  have "row \<in> set (pending_rows (ry_sessionId r) (ry_confirmationId r) db)" using assms(3) by simp
  then have m: "row \<in> set (cb_rows db)" "cw_sessionId row = ry_sessionId r"
    by (auto simp: pending_rows_def dest: in_set_takeD)
  then have ok: "row_ok pf row" using assms(1) by (simp add: repository_inv_def list_all_iff)
  then have c: "cq_confirmationId (cw_request row) = ?c" "parseConfirmationRequest pf (cw_request row)"
    by (auto simp: row_ok_def parseRequest_def Let_def split: if_splits)
  have "safe_id ?i" using hash_suffix_safe[of _ "''resolution''"] assms(7) safe_prefix(2) by (simp add: resolution_id_def)
  then have fits: "parseConfirmationResolution pf ?r \<and> \<not> expands (cw_request row) (cw_targets row) ?r"
    using assms(2,4-8) m(2)
    by (intro resolution_fits[OF ok, where u = "ry_statement r" and given = given])
       (simp_all add: taken_for_def reply_is_later_def)
  have own: "cn_confirmationId ?r = ?c" "owns_claim ?r ?row"
    using c by (simp_all add: resolution_of_def taken_for_def Let_def owns_claim_def claim_by_def)
  have "row_of db1 (cn_confirmationId ?r) = Some ?row" using own(1) assms(11) by simp
  then obtain db2 where d: "complete_confirmation pf ?r db1 = Inr (COMPLETED, db2)"
    "resolved_with db2 ?c = Some ?r" "\<not> cb_closed db2"
    using complete_takes[OF assms(9,10) _ own(2)] fits own(1) by auto
  have "safe_id ?c" using c by (auto simp: parseConfirmationRequest_def request_schema_def)
  then have "stored_resolution pf ?c db2 = Inr (Some ?r)"
    using resolution_total[OF complete_inv[OF d(1) assms(9)] d(3)] d(2) by simp
  then have "writeback_finish pf (repository_port pf) ?p (Settled given) db1
      = ((wb_result WB_RESOLVED (Some ?c))\<lparr>wr_resolution := Some ?r\<rparr>, db2)"
    using fits d(1) assms(6) c(1) by (simp add: writeback_finish_def repository_port_def taken_for_def Let_def)
  then show ?thesis using d(2) repository_step.Completes[OF d(1)] by (simp add: wb_result_def)
qed

section \<open>A confirmation and a reply\<close>

definition asked_request :: confirmation_request where
  "asked_request = projr (request (pf_sha plain_platform) (ask_trigger ''a'' SCOPE_PROMOTION MEDIUM 3) (Iso 5))"

definition asked_targets :: "target_snapshot list" where
  "asked_targets = [\<lparr>tg_subjectId = ''k1'', tg_expectedRevision = ''r1''\<rparr>]"

definition asked_row :: confirmation_row where
  "asked_row = new_row plain_platform asked_request asked_targets"

definition asked_db :: confirmation_db where
  "asked_db = \<lparr>cb_rows = [asked_row], cb_closed = False\<rparr>"

definition asked_reply :: confirmation_reply where
  "asked_reply = \<lparr>ry_sessionId = ''s1'', ry_turnId = ''t2'', ry_turnOrdinal = 4, ry_eventId = ''e2'',
     ry_statement = units ''promote-global'', ry_occurredAt = Iso 9, ry_confirmationId = None\<rparr>"

definition asked_relations :: "version_relation list" where
  "asked_relations = [\<lparr>vl_subjectId = ''k1'', vl_relation = PROMOTES, vl_beforeRevision = ''r1'', vl_afterRevision = ''r2''\<rparr>]"

lemma asked_request: "request (pf_sha plain_platform) (ask_trigger ''a'' SCOPE_PROMOTION MEDIUM 3) (Iso 5) = Inr asked_request"
  by (rule request_total[of "ask_trigger ''a'' SCOPE_PROMOTION MEDIUM 3" "pf_sha plain_platform" "Iso 5"])
     (simp_all add: asked_request_def ask_trigger_def)

lemmas asked_fields = request_fields[OF asked_request, unfolded ask_trigger_def interaction_trigger.simps]

lemma asked_valid: "parseConfirmationRequest plain_platform asked_request"
proof -
  have "cq_question asked_request = projr (question (ask_trigger ''a'' SCOPE_PROMOTION MEDIUM 3))"
    using request_question[OF asked_request] by simp
  then have "length (cq_question asked_request) \<le> 1000"
    by (simp add: question_def ask_trigger_def units_def json_quote_def json_escape_def)
  then show ?thesis
    using request_schema_iff[OF asked_request, of ask_first] plain_hash ask_turn_valid(2)
    by (simp add: ask_first_def ask_input_def valid_interaction_def plain_platform_def)
qed

lemma asked_save: "save_confirmation plain_platform asked_request asked_targets empty_repository = Inr (SAVED, asked_db)"
proof -
  have "validateTargets asked_request asked_targets = Inr asked_targets"
    by (simp add: validateTargets_def asked_targets_def asked_fields sorted_ids_def SAFE_REVISION_def revision_tail_def
        text_simps)
  then show ?thesis using asked_valid new_row_ok[OF asked_valid]
    by (simp add: save_confirmation_def empty_repository_def row_of_def insert_row_def row_ok_def asked_db_def asked_row_def)
qed

lemma asked_saved: "(repository_step plain_platform)\<^sup>*\<^sup>* empty_repository asked_db"
  by (intro r_into_rtranclp repository_step.Saves[OF asked_save])

lemma asked_pending: "pending_rows ''s1'' None asked_db = [asked_row]"
  by (simp add: pending_rows_def asked_db_def asked_row_def new_row_def asked_fields)

lemma asked_match:
  "matchConfirmationReply plain_platform asked_request (units ''promote-global'')
     = MATCH (OPTIONS SCOPE_PROMOTION ! 1) OPTION"
  by (simp add: matchConfirmationReply_def asked_fields exact_options_def option_matches_def mk_option_def
      plain_platform_def units_def show_nat.simps digit_char_def)

lemma asked_reply_facts:
  "validReply asked_reply" "reply_is_later asked_reply asked_request"
  by (simp_all add: validReply_def asked_reply_def safe_integer_def units_def js_space_unit_def text_simps
      reply_is_later_def asked_fields not_later_def)

lemma asked_relations_fit:
  "validateRelations PROMOTE_GLOBAL OPTION asked_targets asked_relations = Some asked_relations"
  by (simp add: validateRelations_def asked_targets_def asked_relations_def relation_fits_def SAFE_REVISION_def
      revision_tail_def text_simps)

lemma asked_row_fields [simp]:
  "cw_request asked_row = asked_request" "cw_targets asked_row = asked_targets" "cw_status asked_row = ROW_PENDING"
  "cw_confirmationId asked_row = cq_confirmationId asked_request"
  by (simp_all add: asked_row_def new_row_def)

lemma asked_reply_fields [simp]:
  "ry_sessionId asked_reply = ''s1''" "ry_confirmationId asked_reply = None" "ry_occurredAt asked_reply = Iso 9"
  "ry_statement asked_reply = units ''promote-global''"
  by (simp_all add: asked_reply_def)

lemma asked_date: "pf_date_time plain_platform t"
  by (simp add: plain_platform_def)

abbreviation asked_effect :: pending_effect where
  "asked_effect \<equiv> taken_for plain_platform asked_reply asked_row (OPTIONS SCOPE_PROMOTION ! 1) OPTION"

lemma asked_begins: "\<exists>db'. writeback_begin plain_platform (repository_port plain_platform) asked_reply asked_db
    = (Inr asked_effect, db') \<and> repository_step plain_platform asked_db db' \<and> repository_inv plain_platform db' \<and> \<not> cb_closed db'
    \<and> row_of db' (cq_confirmationId asked_request)
      = Some (claim_by (resolution_id plain_platform asked_request asked_reply (OPTIONS SCOPE_PROMOTION ! 1) OPTION)
          (ry_eventId asked_reply) (pf_sha plain_platform (units ''promote-global'')) asked_row)"
  using begin_takes[OF reachable_repository_inv[OF asked_saved], of asked_reply asked_row "OPTIONS SCOPE_PROMOTION ! 1" OPTION]
    asked_pending asked_match asked_reply_facts plain_hash
  by (simp add: asked_db_def del: OPTIONS.simps)

lemma asked_option_effect: "op_effect (OPTIONS SCOPE_PROMOTION ! 1) = PROMOTE_GLOBAL"
  by (simp add: mk_option_def)

lemma asked_finishes:
  assumes "repository_inv plain_platform db" and "\<not> cb_closed db"
    and "row_of db (cq_confirmationId asked_request)
      = Some (claim_by (resolution_id plain_platform asked_request asked_reply (OPTIONS SCOPE_PROMOTION ! 1) OPTION)
          (ry_eventId asked_reply) (pf_sha plain_platform (units ''promote-global'')) asked_row)"
  shows "\<exists>db2. writeback_finish plain_platform (repository_port plain_platform) asked_effect (Settled asked_relations) db
      = (\<lparr>wr_status = WB_RESOLVED, wr_confirmationId = Some (cq_confirmationId asked_request),
          wr_resolution = Some (resolution_of asked_effect asked_relations), wr_diagnostic = None\<rparr>, db2)
    \<and> repository_step plain_platform db db2
    \<and> resolved_with db2 (cq_confirmationId asked_request) = Some (resolution_of asked_effect asked_relations)"
  using finish_takes[OF reachable_repository_inv[OF asked_saved], of asked_reply asked_row "OPTIONS SCOPE_PROMOTION ! 1"
      OPTION asked_relations asked_relations db] assms
    asked_pending asked_match asked_reply_facts plain_hash asked_relations_fit asked_date
  by (simp add: asked_option_effect del: OPTIONS.simps One_nat_def)

text \<open>
  C22: A valid reply that comes after the only pending question of its session and explicitly picks one
  of its options resolves it, whenever the effect port answers with relations that fit: the answer is
  the resolution of that reply, and the repository holds it.
\<close>
theorem explicit_reply_resolves:
  assumes "(repository_step pf)\<^sup>*\<^sup>* empty_repository db" and "\<not> cb_closed db" and "validReply r"
    and "pending_rows (ry_sessionId r) (ry_confirmationId r) db = [row]" and "cw_status row = ROW_PENDING"
    and "reply_is_later r (cw_request row)"
    and "matchConfirmationReply pf (cw_request row) (ry_statement r) = MATCH p k"
    and "apply (command_of (taken_for pf r row p k)) = Settled given"
    and "validateRelations (op_effect p) k (cw_targets row) given = Some ls"
    and "\<forall>u. hash64 (pf_sha pf u)" and "pf_date_time pf (ry_occurredAt r)"
  shows "\<exists>db'. handle_reply pf (repository_port pf) apply r db
      = (\<lparr>wr_status = WB_RESOLVED, wr_confirmationId = Some (cw_confirmationId row),
          wr_resolution = Some (resolution_of (taken_for pf r row p k) ls), wr_diagnostic = None\<rparr>, db')
    \<and> resolved_with db' (cw_confirmationId row) = Some (resolution_of (taken_for pf r row p k) ls)"
proof -
  have inv: "repository_inv pf db" by (rule reachable_repository_inv[OF assms(1)])
  obtain db1 where b: "writeback_begin pf (repository_port pf) r db = (Inr (taken_for pf r row p k), db1)"
    "repository_inv pf db1" "\<not> cb_closed db1" "row_of db1 (cw_confirmationId row)
      = Some (claim_by (resolution_id pf (cw_request row) r p k) (ry_eventId r) (pf_sha pf (ry_statement r)) row)"
    using begin_takes[OF inv assms(2-7,10)] by blast
  show ?thesis using finish_takes[OF inv assms(3,4,6,7,9-11) b(2-4)] b(1) assms(8) by (auto simp: handle_reply_def)
qed

theorem explicit_reply_resolves_witness:
  "\<exists>db'. fst (handle_reply plain_platform (repository_port plain_platform) (\<lambda>_. Settled asked_relations) asked_reply asked_db)
      = \<lparr>wr_status = WB_RESOLVED, wr_confirmationId = Some (cq_confirmationId asked_request),
          wr_resolution = Some (resolution_of asked_effect asked_relations), wr_diagnostic = None\<rparr>
    \<and> resolved_with db' (cq_confirmationId asked_request) = Some (resolution_of asked_effect asked_relations)"
  using explicit_reply_resolves[OF asked_saved, of asked_reply asked_row "OPTIONS SCOPE_PROMOTION ! 1" OPTION
      "\<lambda>_. Settled asked_relations" asked_relations asked_relations]
    asked_pending asked_match asked_reply_facts plain_hash asked_relations_fit asked_date asked_option_effect
  by (auto simp: asked_db_def simp del: OPTIONS.simps One_nat_def)

abbreviation asked_answer :: writeback_result where
  "asked_answer \<equiv> \<lparr>wr_status = WB_RESOLVED, wr_confirmationId = Some (cq_confirmationId asked_request),
     wr_resolution = Some (resolution_of asked_effect asked_relations), wr_diagnostic = None\<rparr>"

text \<open>The reply claims the confirmation and sends its command; the port answers and it is resolved.\<close>

lemma asked_run:
  obtains db1 db2 where "repository_step plain_platform asked_db db1" "repository_step plain_platform db1 db2"
    "writeback_begin plain_platform (repository_port plain_platform) asked_reply asked_db = (Inr asked_effect, db1)"
    "writeback_finish plain_platform (repository_port plain_platform) asked_effect (Settled asked_relations) db1
       = (asked_answer, db2)"
    "resolved_with db2 (cq_confirmationId asked_request) = Some (resolution_of asked_effect asked_relations)"
  using asked_begins asked_finishes by blast

abbreviation asked_system :: "confirmation_db \<Rightarrow> pending_effect list \<Rightarrow> writeback_result list \<Rightarrow> confirmation_db writeback_system" where
  "asked_system db ps rs \<equiv> \<lparr>ws_store = db, ws_pending = ps, ws_commands = [command_of asked_effect], ws_results = rs\<rparr>"

abbreviation asked_steps :: "confirmation_db writeback_system \<Rightarrow> bool" where
  "asked_steps \<equiv> (writeback_step plain_platform (repository_port plain_platform) (repository_step plain_platform))\<^sup>*\<^sup>*
     (writeback_start asked_db)"

lemma asked_system_runs:
  obtains db1 db2 where "asked_steps (asked_system db1 [asked_effect] [])" "asked_steps (asked_system db2 [] [asked_answer])"
proof -
  obtain db1 db2 where b: "writeback_begin plain_platform (repository_port plain_platform) asked_reply asked_db = (Inr asked_effect, db1)"
    and f: "writeback_finish plain_platform (repository_port plain_platform) asked_effect (Settled asked_relations) db1
       = (asked_answer, db2)" by (rule asked_run)
  have one: "asked_steps (asked_system db1 [asked_effect] [])"
    using writeback_step.Applies[OF b, of "repository_step plain_platform" "[]" "[]" "[]"]
    unfolding writeback_start_def by (simp add: r_into_rtranclp)
  have "asked_steps (asked_system db2 [] [asked_answer])"
    using writeback_step.Finishes[OF f, of "repository_step plain_platform" "[]" "[]" "[command_of asked_effect]" "[]"]
    by (intro rtranclp.rtrancl_into_rtrancl[OF one]) simp
  with one show thesis by (rule that)
qed

theorem one_effect_per_confirmation_witness:
  "\<exists>y. asked_steps y \<and> length (ws_commands y) = 1 \<and> hd (ws_commands y) = last (ws_commands y)"
proof -
  obtain db1 where r: "asked_steps (asked_system db1 [asked_effect] [])" by (rule asked_system_runs)
  show ?thesis using one_effect_per_confirmation[OF asked_saved r, of "command_of asked_effect" "command_of asked_effect"] r
    by (intro exI[of _ "asked_system db1 [asked_effect] []"]) simp
qed

theorem one_resolution_per_confirmation_witness:
  "\<exists>y. asked_steps y
    \<and> resolved_with (ws_store y) (cq_confirmationId asked_request) = Some (resolution_of asked_effect asked_relations)"
proof -
  obtain db2 where r: "asked_steps (asked_system db2 [] [asked_answer])" by (rule asked_system_runs)
  show ?thesis using one_resolution_per_confirmation[OF asked_saved r, of asked_answer] r
    by (intro exI[of _ "asked_system db2 [] [asked_answer]"]) simp
qed

theorem resolutions_are_final_witness:
  "\<exists>db'. resolved_with db' (cq_confirmationId asked_request) = Some (resolution_of asked_effect asked_relations)
    \<and> claimed_by db' (cq_confirmationId asked_request) \<noteq> None"
proof -
  obtain db1 db2 where s: "repository_step plain_platform asked_db db1" "repository_step plain_platform db1 db2"
    and r: "resolved_with db2 (cq_confirmationId asked_request) = Some (resolution_of asked_effect asked_relations)"
    by (rule asked_run)
  have "(repository_step plain_platform)\<^sup>*\<^sup>* empty_repository db2"
    by (rule rtranclp.rtrancl_into_rtrancl[OF rtranclp.rtrancl_into_rtrancl[OF asked_saved s(1)] s(2)])
  from resolutions_are_final[OF this r rtranclp.rtrancl_refl] show ?thesis by auto
qed

end
