(* ===== verification/AuditProps.thy ===== *)
theory AuditProps
  imports RuntimeAudit
begin

text \<open>The invariant of the runtime audit store and its properties.\<close>

section \<open>The invariant\<close>

definition injection_ok :: "audit_sizes \<Rightarrow> injection_row \<Rightarrow> bool" where
  "injection_ok sz w \<longleftrightarrow> w = row_of_attempt (iw_payload w) \<and> is_ok (validateAttempt (iw_payload w))
     \<and> sz_injection sz (iw_payload w) \<le> MAX_RECORD_BYTES"

definition audit_inv :: "audit_sizes \<Rightarrow> audit_db \<Rightarrow> bool" where
  "audit_inv sz db \<longleftrightarrow> distinct (map iw_attemptId (ad_injections db)) \<and> list_all (injection_ok sz) (ad_injections db)
     \<and> distinct (map mx_expansionId (ad_expansions db)) \<and> distinct (map cu_closureRunId (ad_closures db))
     \<and> list_all (\<lambda>x. case mx_attemptId x of None \<Rightarrow> True | Some i \<Rightarrow> find_injection db i \<noteq> None) (ad_expansions db)
     \<and> list_all (\<lambda>r. is_ok (validateClosure r)) (ad_closures db)"

lemma validateAttempt_iff: "is_ok (validateAttempt r) \<longleftrightarrow>
    audit_id (ia_attemptId r) \<and> audit_id (ia_sessionId r) \<and> audit_id (ia_turnId r) \<and> audit_id (ia_traceId r)
    \<and> audit_id (ia_runId r) \<and> (case ia_deliveryEvidenceRef r of None \<Rightarrow> True | Some e \<Rightarrow> audit_id e)
    \<and> attempt_fields_ok r"
  by (auto simp: validateAttempt_def is_ok_iff assertIdentity_def split: option.splits)

lemma find_injectionD: "find_injection db i = Some w \<Longrightarrow> w \<in> set (ad_injections db) \<and> iw_attemptId w = i"
  unfolding find_injection_def by (rule find_SomeD)

lemma injection_member:
  "audit_inv sz db \<Longrightarrow> w \<in> set (ad_injections db) \<Longrightarrow> find_injection db (iw_attemptId w) = Some w"
  by (auto simp: audit_inv_def find_injection_def intro: find_unique)

lemma decode_ok: "injection_ok sz w \<Longrightarrow> decodeInjectionRow sz w = Inr (iw_payload w)"
proof -
  assume ok: "injection_ok sz w"
  then obtain r where r: "w = row_of_attempt r" "iw_payload w = r" by (auto simp: injection_ok_def)
  then show ?thesis using ok by (auto simp: injection_ok_def decodeInjectionRow_def row_of_attempt_def Let_def)
qed

lemma get_injection:
  assumes "audit_inv sz db" and "audit_id i"
  shows "getInjection sz i db = Inr (map_option iw_payload (find_injection db i))"
proof (cases "find_injection db i")
  case None
  then show ?thesis using assms(2) by (simp add: getInjection_def assertIdentity_def)
next
  case (Some w)
  have "injection_ok sz w" using assms(1) find_injectionD[OF Some] by (auto simp: audit_inv_def list_all_iff)
  then show ?thesis using assms(2) Some decode_ok by (simp add: getInjection_def assertIdentity_def)
qed

lemma get_injectionD:
  assumes "audit_inv sz db" and "getInjection sz i db = Inr x"
  shows "audit_id i" "x = map_option iw_payload (find_injection db i)"
proof -
  show i: "audit_id i" using assms(2) by (auto simp: getInjection_def assertIdentity_def)
  show "x = map_option iw_payload (find_injection db i)" using get_injection[OF assms(1) i] assms(2) by simp
qed

section \<open>One attempt\<close>

text \<open>
  An attempt moves on: its identity is kept, its revision never falls and stands for one content, and
  a completion is final.
\<close>

definition attempt_identity :: "injection_attempt \<Rightarrow> string list \<times> int \<times> context_envelope \<times> timestamp" where
  "attempt_identity r = ([ia_attemptId r, ia_sessionId r, ia_turnId r, ia_traceId r, ia_runId r],
     ia_rolloutRevision r, ia_envelope r, ia_createdAt r)"

definition attempt_on :: "injection_attempt \<Rightarrow> injection_attempt \<Rightarrow> bool" where
  "attempt_on a b \<longleftrightarrow> attempt_identity b = attempt_identity a \<and> ia_revision a \<le> ia_revision b
   \<and> (ia_revision a = ia_revision b \<longrightarrow> b = a)
   \<and> (1 \<le> ia_revision a \<longrightarrow> ia_status b = ia_status a \<and> ia_reasonCode b = ia_reasonCode a
       \<and> ia_completedAt b = ia_completedAt a)"

lemma attempt_on_refl [simp]: "attempt_on a a"
  by (simp add: attempt_on_def)

lemma attempt_on_trans: "attempt_on a b \<Longrightarrow> attempt_on b c \<Longrightarrow> attempt_on a c"
  by (auto simp: attempt_on_def)

text \<open>The three stages of a valid attempt, told apart by its revision.\<close>

lemma stage:
  assumes "attempt_fields_ok r"
  shows "ia_status r = DELIVERY_PENDING \<longleftrightarrow> ia_revision r = 0"
    "ia_revision r = 0 \<or> ia_revision r = 1 \<or> ia_revision r = 2"
    "ia_revision r = 2 \<Longrightarrow> ia_status r = INJECTED \<and> ia_deliveryEvidenceRef r \<noteq> None \<and> ia_deliveredAt r \<noteq> None"
    "ia_revision r \<noteq> 2 \<Longrightarrow> ia_deliveryEvidenceRef r = None \<and> ia_deliveredAt r = None"
  using assms by (auto simp: attempt_fields_ok_def Let_def)

section \<open>Updating one row\<close>

lemma find_map_row:
  assumes "\<And>w. iw_attemptId (f w) = iw_attemptId w"
  shows "find (\<lambda>w. iw_attemptId w = i) (map (\<lambda>w. if P w then f w else w) ws)
    = map_option (\<lambda>w. if P w then f w else w) (find (\<lambda>w. iw_attemptId w = i) ws)"
  using assms by (induction ws) auto

lemma update_injectionD:
  assumes "update_injection i n st f db = (k, db')" and "\<And>w. iw_attemptId (f w) = iw_attemptId w"
  shows "find_injection db' j = map_option (\<lambda>w. if iw_attemptId w = i \<and> iw_revision w = n \<and> iw_status w = st then f w else w)
      (find_injection db j)"
    "ad_expansions db' = ad_expansions db" "ad_closures db' = ad_closures db"
    "map iw_attemptId (ad_injections db') = map iw_attemptId (ad_injections db)"
    "set (ad_injections db') = (\<lambda>w. if iw_attemptId w = i \<and> iw_revision w = n \<and> iw_status w = st then f w else w)
      ` set (ad_injections db)"
  using assms find_map_row[of f i] by (auto simp: update_injection_def find_injection_def Let_def comp_def find_map_row)

text \<open>A row replaced by a later valid version of its attempt keeps the store consistent.\<close>

lemma update_inv:
  assumes "audit_inv sz db" and "update_injection i n st f db = (k, db')"
    and "find_injection db i = Some w" and "f w = row_of_attempt r" and "is_ok (validateAttempt r)"
    and "sz_injection sz r \<le> MAX_RECORD_BYTES" and "\<And>v. iw_attemptId (f v) = iw_attemptId v"
  shows "audit_inv sz db'"
proof -
  note u = update_injectionD[OF assms(2,7)]
  have "iw_payload (row_of_attempt r) = r" by (simp add: row_of_attempt_def)
  then have ok: "injection_ok sz (f w)" using assms(4-6) by (simp add: injection_ok_def)
  have "v = w" if "v \<in> set (ad_injections db)" "iw_attemptId v = i" for v
    using injection_member[OF assms(1) that(1)] that(2) assms(3) by simp
  then have "list_all (injection_ok sz) (ad_injections db')"
    using assms(1) ok by (auto simp: list_all_iff u(5) audit_inv_def)
  moreover have "find_injection db' j \<noteq> None \<longleftrightarrow> find_injection db j \<noteq> None" for j by (simp add: u(1))
  ultimately show ?thesis using assms(1) unfolding audit_inv_def
    by (simp add: u(2-4) list_all_iff split: option.splits)
qed

section \<open>What the operations do\<close>

lemma begin_injection_cases:
  assumes "beginInjection sz r db = Inr (x, db')" and "audit_inv sz db"
  shows "x = r \<and> is_ok (validateAttempt r) \<and> sz_injection sz r \<le> MAX_RECORD_BYTES
    \<and> (find_injection db (ia_attemptId r) = None \<and> db' = db\<lparr>ad_injections := ad_injections db @ [row_of_attempt r]\<rparr>
      \<or> (\<exists>w. find_injection db (ia_attemptId r) = Some w \<and> iw_payload w = r \<and> db' = db))"
proof -
  have v: "is_ok (validateAttempt r)" "sz_injection sz r \<le> MAX_RECORD_BYTES"
    using assms(1) by (auto simp: beginInjection_def is_ok_iff)
  then have i: "audit_id (ia_attemptId r)" by (simp add: validateAttempt_iff)
  show ?thesis using assms(1) v get_injection[OF assms(2) i]
    by (auto simp: beginInjection_def split: option.splits if_splits)
qed

text \<open>The attempt a completion makes of a pending one.\<close>

definition completed :: "injection_attempt \<Rightarrow> delivery_status \<Rightarrow> string \<Rightarrow> timestamp \<Rightarrow> injection_attempt" where
  "completed a st reason t = a\<lparr>ia_status := st, ia_reasonCode := reason, ia_completedAt := Some t,
     ia_revision := ia_revision a + 1\<rparr>"

definition acknowledged :: "injection_attempt \<Rightarrow> string \<Rightarrow> timestamp \<Rightarrow> injection_attempt" where
  "acknowledged a e t = a\<lparr>ia_deliveryEvidenceRef := Some e, ia_deliveredAt := Some t, ia_revision := ia_revision a + 1\<rparr>"

lemma complete_injection_cases:
  assumes "completeInjection sz i n st reason t db = Inr (x, db')" and "audit_inv sz db"
  obtains (Replayed) w where "find_injection db i = Some w" "x = iw_payload w" "db' = db"
      "ia_revision x = n + 1 \<or> ia_revision x = n + 2 \<and> ia_deliveryEvidenceRef x \<noteq> None"
      "ia_status x = st" "ia_reasonCode x = reason" "ia_completedAt x = Some t"
  | (Completed) w k where "find_injection db i = Some w" "ia_status (iw_payload w) = DELIVERY_PENDING"
      "ia_revision (iw_payload w) = n" "x = completed (iw_payload w) st reason t"
      "st \<noteq> DELIVERY_PENDING" "upper_code 99 reason" "canonical_date t" "sz_injection sz x \<le> MAX_RECORD_BYTES"
      "update_injection i n DELIVERY_PENDING
         (\<lambda>w. w\<lparr>iw_status := st, iw_revision := ia_revision x, iw_payload := x\<rparr>) db = (k, db')"
proof -
  obtain found where g: "getInjection sz i db = Inr found"
    using assms(1) by (auto simp: completeInjection_def)
  note d = get_injectionD[OF assms(2) g]
  obtain w where w: "find_injection db i = Some w" "found = Some (iw_payload w)"
    using assms(1) g d by (cases "find_injection db i") (auto simp: completeInjection_def)
  show thesis
  proof (cases "ia_revision (iw_payload w) \<noteq> n \<or> ia_status (iw_payload w) \<noteq> DELIVERY_PENDING")
    case True
    then have "x = iw_payload w" "db' = db" "ia_revision x = n + 1 \<or> ia_revision x = n + 2 \<and> ia_deliveryEvidenceRef x \<noteq> None"
      "ia_status x = st" "ia_reasonCode x = reason" "ia_completedAt x = Some t"
      using assms(1) g w by (auto simp: completeInjection_def split: if_splits)
    with w(1) show thesis by (intro Replayed[of w])
  next
    case False
    then have "x = completed (iw_payload w) st reason t" "st \<noteq> DELIVERY_PENDING" "upper_code 99 reason" "canonical_date t"
      "sz_injection sz x \<le> MAX_RECORD_BYTES"
      "\<exists>k. update_injection i n DELIVERY_PENDING
         (\<lambda>w. w\<lparr>iw_status := st, iw_revision := ia_revision x, iw_payload := x\<rparr>) db = (k, db')"
      using assms(1) g w
      by (auto simp: completeInjection_def completed_def Let_def split: prod.splits if_splits)
    with w(1) False show thesis by (auto intro: Completed[of w])
  qed
qed

lemma acknowledge_cases:
  assumes "acknowledgeInjectionDelivery sz i n e t db = Inr (x, db')" and "audit_inv sz db"
  obtains (Replayed) w where "find_injection db i = Some w" "x = iw_payload w" "db' = db"
      "ia_revision x = n + 1" "ia_deliveryEvidenceRef x = Some e" "ia_deliveredAt x = Some t"
  | (Acknowledged) w k where "find_injection db i = Some w" "ia_status (iw_payload w) = INJECTED"
      "ia_revision (iw_payload w) = n" "x = acknowledged (iw_payload w) e t" "ia_deliveryEvidenceRef (iw_payload w) = None"
      "is_ok (validateAttempt x)" "sz_injection sz x \<le> MAX_RECORD_BYTES"
      "update_injection i n INJECTED (\<lambda>w. w\<lparr>iw_revision := ia_revision x, iw_payload := x\<rparr>) db = (k, db')"
proof -
  obtain found where g: "getInjection sz i db = Inr found"
    using assms(1) by (auto simp: acknowledgeInjectionDelivery_def)
  note d = get_injectionD[OF assms(2) g]
  obtain w where w: "find_injection db i = Some w" "found = Some (iw_payload w)"
    using assms(1) g d by (cases "find_injection db i") (auto simp: acknowledgeInjectionDelivery_def)
  show thesis
  proof (cases "ia_deliveryEvidenceRef (iw_payload w) \<noteq> None \<or> ia_deliveredAt (iw_payload w) \<noteq> None")
    case True
    then have "x = iw_payload w" "db' = db" "ia_revision x = n + 1" "ia_deliveryEvidenceRef x = Some e" "ia_deliveredAt x = Some t"
      using assms(1) g w by (auto simp: acknowledgeInjectionDelivery_def split: if_splits)
    with w(1) show thesis by (intro Replayed[of w])
  next
    case False
    then have "ia_status (iw_payload w) = INJECTED" "ia_revision (iw_payload w) = n" "x = acknowledged (iw_payload w) e t"
      "is_ok (validateAttempt x)" "sz_injection sz x \<le> MAX_RECORD_BYTES"
      "\<exists>k. update_injection i n INJECTED (\<lambda>w. w\<lparr>iw_revision := ia_revision x, iw_payload := x\<rparr>) db = (k, db')"
      using assms(1) g w
      by (auto simp: acknowledgeInjectionDelivery_def acknowledged_def Let_def is_ok_iff split: prod.splits if_splits)
    with w(1) False show thesis by (auto intro: Acknowledged[of w])
  qed
qed

section \<open>Steps\<close>

definition attempts_on :: "audit_db \<Rightarrow> audit_db \<Rightarrow> bool" where
  "attempts_on db db' \<longleftrightarrow> (\<forall>i w. find_injection db i = Some w \<longrightarrow>
     (\<exists>w'. find_injection db' i = Some w' \<and> attempt_on (iw_payload w) (iw_payload w')))"

lemma attempts_on_refl [simp]: "attempts_on db db"
  by (auto simp: attempts_on_def)

lemma attempts_on_trans: "attempts_on a b \<Longrightarrow> attempts_on b c \<Longrightarrow> attempts_on a c"
  unfolding attempts_on_def using attempt_on_trans by blast

lemma found_ok:
  assumes "audit_inv sz db" and "find_injection db i = Some w"
  shows "iw_attemptId w = i \<and> w = row_of_attempt (iw_payload w) \<and> is_ok (validateAttempt (iw_payload w))
     \<and> ia_attemptId (iw_payload w) = i \<and> attempt_fields_ok (iw_payload w)"
    "iw_revision w = ia_revision (iw_payload w)" "iw_status w = ia_status (iw_payload w)"
proof -
  have w: "injection_ok sz w" "iw_attemptId w = i"
    using assms find_injectionD[OF assms(2)] by (auto simp: audit_inv_def list_all_iff)
  then obtain a where a: "w = row_of_attempt a" "iw_payload w = a" by (auto simp: injection_ok_def)
  then show "iw_attemptId w = i \<and> w = row_of_attempt (iw_payload w) \<and> is_ok (validateAttempt (iw_payload w))
     \<and> ia_attemptId (iw_payload w) = i \<and> attempt_fields_ok (iw_payload w)"
    using w by (simp add: injection_ok_def validateAttempt_iff row_of_attempt_def)
  show "iw_revision w = ia_revision (iw_payload w)" "iw_status w = ia_status (iw_payload w)"
    using a by (simp_all add: row_of_attempt_def)
qed

lemma completed_ok:
  assumes "is_ok (validateAttempt a)" and "ia_status a = DELIVERY_PENDING" and "st \<noteq> DELIVERY_PENDING"
    and "upper_code 99 reason" and "canonical_date t"
  shows "is_ok (validateAttempt (completed a st reason t))" "attempt_on a (completed a st reason t)"
proof -
  have f: "attempt_fields_ok a" using assms(1) by (simp add: validateAttempt_iff)
  have r: "ia_revision a = 0" "ia_deliveryEvidenceRef a = None" "ia_deliveredAt a = None"
    using stage[OF f] assms(2) by auto
  have "attempt_fields_ok (completed a st reason t)"
    using f assms(2-5) r by (auto simp: attempt_fields_ok_def completed_def Let_def opt_canonical_def safe_integer_def)
  then show "is_ok (validateAttempt (completed a st reason t))"
    using assms(1) by (simp add: validateAttempt_iff completed_def)
  show "attempt_on a (completed a st reason t)" using r by (simp add: attempt_on_def completed_def attempt_identity_def)
qed

lemma acknowledged_on: "attempt_on a (acknowledged a e t)"
  by (simp add: attempt_on_def acknowledged_def attempt_identity_def)

lemma update_attempts_on:
  assumes "audit_inv sz db" and "update_injection i n st f db = (k, db')" and "find_injection db i = Some w"
    and "attempt_on (iw_payload w) (iw_payload (f w))" and "\<And>v. iw_attemptId (f v) = iw_attemptId v"
  shows "attempts_on db db'"
  unfolding attempts_on_def
proof (intro allI impI)
  fix j v assume v: "find_injection db j = Some v"
  show "\<exists>w'. find_injection db' j = Some w' \<and> attempt_on (iw_payload v) (iw_payload w')"
  proof (cases "iw_attemptId v = i")
    case True
    then have "v = w" using v assms(1,3) found_ok by fastforce
    then show ?thesis using v assms(4) by (simp add: update_injectionD(1)[OF assms(2,5)])
  qed (use v in \<open>simp add: update_injectionD(1)[OF assms(2,5)]\<close>)
qed

lemma row_of_completed:
  "w = row_of_attempt a \<Longrightarrow> w\<lparr>iw_status := st, iw_revision := ia_revision (completed a st reason t),
     iw_payload := completed a st reason t\<rparr> = row_of_attempt (completed a st reason t)"
  by (simp add: row_of_attempt_def completed_def)

lemma row_of_acknowledged:
  "w = row_of_attempt a \<Longrightarrow> w\<lparr>iw_revision := ia_revision (acknowledged a e t), iw_payload := acknowledged a e t\<rparr>
     = row_of_attempt (acknowledged a e t)"
  by (simp add: row_of_attempt_def acknowledged_def)

lemma complete_injection_step:
  assumes "completeInjection sz i n st reason t db = Inr (x, db')" and "audit_inv sz db"
  shows "audit_inv sz db' \<and> attempts_on db db'
    \<and> (\<exists>w. find_injection db' i = Some w \<and> iw_payload w = x) \<and> ia_status x = st \<and> ia_reasonCode x = reason
    \<and> ia_completedAt x = Some t \<and> 1 \<le> ia_revision x
    \<and> (ia_revision x = n + 1 \<or> ia_revision x = n + 2 \<and> ia_deliveryEvidenceRef x \<noteq> None)"
  using assms
proof (cases rule: complete_injection_cases)
  case (Replayed w)
  have f: "attempt_fields_ok x" using found_ok(1)[OF assms(2) Replayed(1)] Replayed(2) by simp
  have "st \<noteq> DELIVERY_PENDING" using assms(1) by (auto simp: completeInjection_def)
  then have "ia_revision x \<noteq> 0" using stage(1)[OF f] Replayed(5) by simp
  then have "1 \<le> ia_revision x" using stage(2)[OF f] by auto
  then show ?thesis using Replayed assms(2) by auto
next
  case (Completed w k)
  let ?f = "\<lambda>w. w\<lparr>iw_status := st, iw_revision := ia_revision x, iw_payload := x\<rparr>"
  note fo = found_ok[OF assms(2) Completed(1)]
  have row: "?f w = row_of_attempt x" unfolding Completed(4) by (rule row_of_completed) (use fo in simp)
  have ok: "is_ok (validateAttempt x)" "attempt_on (iw_payload w) x"
    unfolding Completed(4) using completed_ok fo Completed(2,5-7) by auto
  have p: "iw_payload (?f w) = x" by simp
  have z: "ia_revision (iw_payload w) = 0" using fo Completed(2) stage(1)[of "iw_payload w"] by simp
  have "audit_inv sz db'" by (rule update_inv[OF assms(2) Completed(9,1) row ok(1) Completed(8)]) simp
  moreover have "attempts_on db db'" by (rule update_attempts_on[OF assms(2) Completed(9,1)]) (use ok in simp_all)
  moreover have "iw_attemptId w = i \<and> iw_revision w = n \<and> iw_status w = DELIVERY_PENDING"
    using fo Completed(2,3) by simp
  then have "find_injection db' i = Some (?f w)"
    using Completed(1) by (simp add: update_injectionD(1)[OF Completed(9)])
  ultimately show ?thesis using z Completed(3) by (auto simp: Completed(4) completed_def)
qed

lemma acknowledge_step:
  assumes "acknowledgeInjectionDelivery sz i n e t db = Inr (x, db')" and "audit_inv sz db"
  shows "audit_inv sz db' \<and> attempts_on db db'"
  using assms
proof (cases rule: acknowledge_cases)
  case (Acknowledged w k)
  let ?f = "\<lambda>w. w\<lparr>iw_revision := ia_revision x, iw_payload := x\<rparr>"
  note fo = found_ok[OF assms(2) Acknowledged(1)]
  have row: "?f w = row_of_attempt x" unfolding Acknowledged(4) by (rule row_of_acknowledged) (use fo in simp)
  have "audit_inv sz db'" by (rule update_inv[OF assms(2) Acknowledged(8,1) row Acknowledged(6,7)]) simp
  moreover have "attempts_on db db'"
    by (rule update_attempts_on[OF assms(2) Acknowledged(8,1)]) (simp_all add: Acknowledged(4) acknowledged_on)
  ultimately show ?thesis ..
qed (use assms in simp)

lemma begin_injection_step:
  assumes "beginInjection sz r db = Inr (x, db')" and "audit_inv sz db"
  shows "audit_inv sz db' \<and> attempts_on db db'"
proof -
  note c = begin_injection_cases[OF assms]
  show ?thesis
  proof (cases "find_injection db (ia_attemptId r)")
    case (Some w)
    then show ?thesis using c assms(2) by auto
  next
    case None
    then have db': "db' = db\<lparr>ad_injections := ad_injections db @ [row_of_attempt r]\<rparr>" using c by auto
    have ap: "find P (xs @ ys) = (case find P xs of Some y \<Rightarrow> Some y | None \<Rightarrow> find P ys)" for P :: "injection_row \<Rightarrow> bool" and xs ys
      by (induction xs) auto
    have fi: "find_injection db' j = (case find_injection db j of Some y \<Rightarrow> Some y
        | None \<Rightarrow> if ia_attemptId r = j then Some (row_of_attempt r) else None)" for j
      unfolding db' by (simp add: find_injection_def ap row_of_attempt_def split: option.splits)
    have new: "ia_attemptId r \<notin> iw_attemptId ` set (ad_injections db)"
      using None by (auto simp: find_injection_def find_None_conv)
    have "injection_ok sz (row_of_attempt r)" using c by (simp add: injection_ok_def row_of_attempt_def)
    then have "audit_inv sz db'" using assms(2) new fi unfolding audit_inv_def
      by (auto simp: db' row_of_attempt_def list_all_iff split: option.splits)
    moreover have "attempts_on db db'" by (auto simp: attempts_on_def fi)
    ultimately show ?thesis ..
  qed
qed

lemma expansion_step:
  assumes "recordMcpExpansion sz r db = Inr (x, db')" and "audit_inv sz db"
  shows "audit_inv sz db' \<and> attempts_on db db'"
proof -
  have a: "case mx_attemptId r of None \<Rightarrow> True | Some i \<Rightarrow> find_injection db i \<noteq> None"
  proof (cases "mx_attemptId r")
    case (Some i)
    then obtain y where g: "getInjection sz i db = Inr y" and "y \<noteq> None"
      using assms(1) by (auto simp: recordMcpExpansion_def)
    then show ?thesis using get_injectionD(2)[OF assms(2) g] Some by simp
  qed simp
  show ?thesis
  proof (cases "db' = db")
    case False
    then have db': "db' = db\<lparr>ad_expansions := ad_expansions db @ [r]\<rparr>" "getMcpExpansion (mx_expansionId r) db = None"
      using assms(1) by (auto simp: recordMcpExpansion_def split: option.splits if_splits)
    have "mx_expansionId r \<notin> mx_expansionId ` set (ad_expansions db)"
      using db'(2) by (auto simp: getMcpExpansion_def find_None_conv)
    moreover have fi: "find_injection db' j = find_injection db j" for j by (simp add: db' find_injection_def)
    ultimately show ?thesis using assms(2) a unfolding audit_inv_def attempts_on_def fi by (auto simp: db'(1))
  qed (use assms in simp)
qed

lemma closure_step:
  assumes "recordClosure sz r db = Inr (x, db')" and "audit_inv sz db"
  shows "audit_inv sz db' \<and> attempts_on db db'"
proof (cases "db' = db")
  case False
  have v: "is_ok (validateClosure r)" using assms(1) by (auto simp: recordClosure_def is_ok_iff)
  have db': "db' = db\<lparr>ad_closures := ad_closures db @ [r]\<rparr>" "getClosure (cu_closureRunId r) db = None"
    using assms(1) False by (auto simp: recordClosure_def split: option.splits if_splits)
  have "cu_closureRunId r \<notin> cu_closureRunId ` set (ad_closures db)"
    using db'(2) by (auto simp: getClosure_def find_None_conv)
  moreover have fi: "find_injection db' j = find_injection db j" for j by (simp add: db' find_injection_def)
  ultimately show ?thesis using assms(2) v unfolding audit_inv_def attempts_on_def fi by (auto simp: db'(1))
qed (use assms in simp)

lemma audit_step_inv: "audit_step sz db db' \<Longrightarrow> audit_inv sz db \<Longrightarrow> audit_inv sz db' \<and> attempts_on db db'"
  by (induction rule: audit_step.induct)
     (blast dest: begin_injection_step complete_injection_step acknowledge_step expansion_step closure_step)+

lemma audit_steps:
  assumes "(audit_step sz)\<^sup>*\<^sup>* db db'" and "audit_inv sz db"
  shows "audit_inv sz db' \<and> attempts_on db db'"
  using assms by (induction rule: rtranclp_induct) (auto intro: attempts_on_trans dest: audit_step_inv)

lemma empty_audit_inv: "audit_inv sz empty_audits"
  by (simp add: audit_inv_def empty_audits_def)

section \<open>Properties\<close>

lemma reachable_audit_inv: "(audit_step sz)\<^sup>*\<^sup>* empty_audits db \<Longrightarrow> audit_inv sz db"
  using audit_steps[OF _ empty_audit_inv] by blast

lemma get_later:
  assumes "audit_inv sz db" and "getInjection sz i db = Inr (Some a)" and "(audit_step sz)\<^sup>*\<^sup>* db db'"
  shows "\<exists>b. getInjection sz i db' = Inr (Some b) \<and> attempt_on a b \<and> is_ok (validateAttempt b)"
proof -
  obtain w where w: "find_injection db i = Some w" "a = iw_payload w" and i: "audit_id i"
    using get_injectionD[OF assms(1,2)] by (cases "find_injection db i") auto
  have s: "audit_inv sz db'" "attempts_on db db'" using audit_steps[OF assms(3,1)] by blast+
  then obtain w' where w': "find_injection db' i = Some w'" "attempt_on a (iw_payload w')"
    using w unfolding attempts_on_def by blast
  then show ?thesis using get_injection[OF s(1) i] found_ok(1)[OF s(1) w'(1)] by auto
qed

text \<open>
  C23: An injection attempt that a reachable audit store holds can be read in every later store,
  passes validation there, and has only moved on: its identity is the same, its revision has not
  fallen, equal revisions mean the very same record, and a completion, once recorded, keeps its
  status, reason and time.
\<close>
theorem attempts_only_advance:
  assumes "(audit_step sz)\<^sup>*\<^sup>* empty_audits db" and "getInjection sz i db = Inr (Some a)"
    and "(audit_step sz)\<^sup>*\<^sup>* db db'"
  shows "\<exists>b. getInjection sz i db' = Inr (Some b) \<and> attempt_on a b \<and> is_ok (validateAttempt b)"
  by (rule get_later[OF reachable_audit_inv[OF assms(1)] assms(2,3)])

text \<open>
  A completion that succeeded once succeeds again, with the same arguments, in every later store,
  even after the delivery was acknowledged: it changes nothing and answers an attempt with the same
  status, reason and completion time.
\<close>
theorem completion_can_be_repeated:
  assumes "(audit_step sz)\<^sup>*\<^sup>* empty_audits db" and "completeInjection sz i n st reason t db = Inr (x, db1)"
    and "(audit_step sz)\<^sup>*\<^sup>* db1 db2"
  shows "\<exists>y. completeInjection sz i n st reason t db2 = Inr (y, db2) \<and> attempt_on x y
    \<and> ia_status y = st \<and> ia_reasonCode y = reason \<and> ia_completedAt y = Some t"
proof -
  note c = complete_injection_step[OF assms(2) reachable_audit_inv[OF assms(1)]]
  have v: "audit_id i" "st \<noteq> DELIVERY_PENDING" "upper_code 99 reason" "canonical_date t"
    using assms(2) by (auto simp: completeInjection_def assertIdentity_def)
  have inv: "audit_inv sz db1" using c by blast
  obtain w where w: "find_injection db1 i = Some w" "iw_payload w = x" using c by blast
  have "getInjection sz i db1 = Inr (Some x)" using get_injection[OF inv v(1)] w by simp
  from get_later[OF inv this assms(3)] obtain y where y: "getInjection sz i db2 = Inr (Some y)" "attempt_on x y"
    "is_ok (validateAttempt y)" by blast
  have same: "ia_status y = st" "ia_reasonCode y = reason" "ia_completedAt y = Some t" "ia_revision x \<le> ia_revision y"
    using y(2) c by (auto simp: attempt_on_def)
  have f: "attempt_fields_ok y" using y(3) by (simp add: validateAttempt_iff)
  have fx: "attempt_fields_ok x" using found_ok(1)[OF inv w(1)] w(2) by simp
  have "ia_revision y = n + 1 \<or> ia_revision y = n + 2 \<and> ia_deliveryEvidenceRef y \<noteq> None"
  proof (cases "ia_revision y = ia_revision x")
    case True
    then have "y = x" using y(2) by (simp add: attempt_on_def)
    then show ?thesis using c by blast
  next
    case False
    then have "ia_revision x = 1" "ia_revision y = 2" using same(4) stage(2)[OF f] stage(2)[OF fx] c by auto
    then show ?thesis using c stage(3)[OF f] stage(4)[OF fx] by auto
  qed
  then have "completeInjection sz i n st reason t db2 = Inr (y, db2)"
    using v y(1) same by (simp add: completeInjection_def assertIdentity_def)
  then show ?thesis using y(2) same by blast
qed

section \<open>An attempt that is delivered\<close>

definition no_sizes :: audit_sizes where
  "no_sizes = \<lparr>sz_injection = (\<lambda>_. 1), sz_expansion = (\<lambda>_. 1), sz_closure = (\<lambda>_. 1)\<rparr>"

definition new_attempt :: injection_attempt where
  "new_attempt = \<lparr>ia_attemptId = ''a1'', ia_sessionId = ''s1'', ia_turnId = ''t1'', ia_traceId = ''x1'',
     ia_runId = ''r1'', ia_rolloutRevision = 0, ia_status = DELIVERY_PENDING, ia_revision = 0,
     ia_envelope = \<lparr>ce_runId = ''r1'', ce_json = ''{}''\<rparr>, ia_reasonCode = ''NEW'', ia_createdAt = Iso 1,
     ia_completedAt = None, ia_deliveryEvidenceRef = None, ia_deliveredAt = None\<rparr>"

definition injected_attempt :: injection_attempt where
  "injected_attempt = completed new_attempt INJECTED ''DONE'' (Iso 2)"

definition delivered_attempt :: injection_attempt where
  "delivered_attempt = acknowledged injected_attempt ''e1'' (Iso 3)"

definition one_attempt :: "injection_attempt \<Rightarrow> audit_db" where
  "one_attempt a = \<lparr>ad_injections = [row_of_attempt a], ad_expansions = [], ad_closures = []\<rparr>"

lemma audit_ids [simp]: "audit_id ''a1''" "audit_id ''s1''" "audit_id ''t1''" "audit_id ''x1''" "audit_id ''r1''" "audit_id ''e1''"
  "upper_code 99 ''NEW''" "upper_code 99 ''DONE''"
  by (simp_all add: audit_id_def audit_tail_def text_simps)

lemmas attempt_example = new_attempt_def injected_attempt_def delivered_attempt_def completed_def acknowledged_def
  no_sizes_def one_attempt_def row_of_attempt_def MAX_RECORD_BYTES_def

lemma example_valid: "is_ok (validateAttempt new_attempt)" "is_ok (validateAttempt injected_attempt)"
  "is_ok (validateAttempt delivered_attempt)"
  by (simp_all add: validateAttempt_iff attempt_example attempt_fields_ok_def Let_def opt_canonical_def safe_integer_def
      date_before_def)

lemma one_attempt_get:
  "is_ok (validateAttempt a) \<Longrightarrow> ia_attemptId a = ''a1'' \<Longrightarrow> getInjection no_sizes ''a1'' (one_attempt a) = Inr (Some a)"
  by (simp add: getInjection_def assertIdentity_def find_injection_def decodeInjectionRow_def one_attempt_def row_of_attempt_def
      no_sizes_def MAX_RECORD_BYTES_def)

lemma example_gets:
  "getInjection no_sizes ''a1'' (one_attempt new_attempt) = Inr (Some new_attempt)"
  "getInjection no_sizes ''a1'' (one_attempt injected_attempt) = Inr (Some injected_attempt)"
  by (intro one_attempt_get example_valid; simp add: attempt_example)+

lemma new_begun: "beginInjection no_sizes new_attempt empty_audits = Inr (new_attempt, one_attempt new_attempt)"
  using example_valid(1) by (auto simp: beginInjection_def is_ok_iff find_injection_def empty_audits_def attempt_example)

lemma new_completed:
  "completeInjection no_sizes ''a1'' 0 INJECTED ''DONE'' (Iso 2) (one_attempt new_attempt)
     = Inr (injected_attempt, one_attempt injected_attempt)"
  using example_gets(1)
  by (simp add: completeInjection_def assertIdentity_def update_injection_def attempt_example Let_def)

lemma injected_acknowledged:
  "acknowledgeInjectionDelivery no_sizes ''a1'' 1 ''e1'' (Iso 3) (one_attempt injected_attempt)
     = Inr (delivered_attempt, one_attempt delivered_attempt)"
  using example_gets(2) example_valid(3)
  by (auto simp: acknowledgeInjectionDelivery_def assertIdentity_def update_injection_def attempt_example Let_def
      date_before_def safe_integer_def is_ok_iff)

lemma example_steps:
  "(audit_step no_sizes)\<^sup>*\<^sup>* empty_audits (one_attempt new_attempt)"
  "(audit_step no_sizes)\<^sup>*\<^sup>* (one_attempt new_attempt) (one_attempt injected_attempt)"
  "(audit_step no_sizes)\<^sup>*\<^sup>* (one_attempt injected_attempt) (one_attempt delivered_attempt)"
  by (blast intro: audit_step.Begins[OF new_begun] audit_step.Completes[OF new_completed]
      audit_step.Acknowledges[OF injected_acknowledged])+

theorem attempts_only_advance_witness:
  "\<exists>b. getInjection no_sizes ''a1'' (one_attempt injected_attempt) = Inr (Some b) \<and> attempt_on new_attempt b
     \<and> is_ok (validateAttempt b)"
  by (rule attempts_only_advance[OF example_steps(1) example_gets(1) example_steps(2)])

theorem completion_can_be_repeated_witness:
  "\<exists>y. completeInjection no_sizes ''a1'' 0 INJECTED ''DONE'' (Iso 2) (one_attempt delivered_attempt)
      = Inr (y, one_attempt delivered_attempt)
    \<and> attempt_on injected_attempt y \<and> ia_status y = INJECTED \<and> ia_reasonCode y = ''DONE'' \<and> ia_completedAt y = Some (Iso 2)"
  by (rule completion_can_be_repeated[OF example_steps(1) new_completed example_steps(3)])

end
