(* ===== verification/ClosureRuntime.thy ===== *)
theory ClosureRuntime
  imports RuntimeAudit
begin

text \<open>
  The closure runtime (\<^verbatim>\<open>packages/active-knowledge-runtime/src/closure-runtime.ts\<close>,
  \<open>closure-operation-store.ts\<close>): one stop of an agent becomes one durable operation. The stop hook is
  run, a question to the user may be selected, the outcome is checkpointed, and then it is published:
  the audit record is written, the question is saved, the operation is completed. A later handling of
  the same request publishes the checkpoint again. A handling runs in three synchronous parts: until the
  stop hook awaits its ports, until the stop hook answers, and from there to the end. Handlings
  interleave between them, and a restart loses the counters, the set of active operations and every
  handling in progress. The hash of a request, the SHA-256 of its
  canonical JSON, is given, as are the port calls and the clock.
\<close>

section \<open>Data (types.ts)\<close>

record closure_interaction =
  ct_turnOrdinal :: int
  ct_history :: "history_entry list"
  ct_extraTriggers :: "interaction_trigger list option"
  ct_targets :: "target_snapshot list option"

text \<open>Of the closure input, the parts the verifier does not read are kept beside it.\<close>

record closure_request =
  rq_stop :: stop_request
  rq_summary :: string
  rq_taskContract :: "task_contract option"
  rq_interaction :: closure_interaction

record operation_outcome =
  oo_stop :: stop_result
  oo_audit :: closure_run_record
  oo_confirmation :: "pending_confirmation option"

datatype operation_status = OP_PENDING | OP_OUTCOME | OP_COMPLETED

record operation_row =
  ow_identityKey :: string
  ow_requestHash :: string
  ow_status :: operation_status
  ow_outcome :: "operation_outcome option"

record runtime_state =
  rt_operations :: "operation_row list"
  rt_audits :: audit_db
  rt_confirmations :: confirmation_db
  rt_counts :: memory_counter
  rt_active :: "string list"

record runtime_env =
  re_platform :: platform
  re_sizes :: audit_sizes
  re_outcomeBytes :: "operation_outcome \<Rightarrow> int"
  re_requestHash :: "closure_request \<Rightarrow> string"
  re_closurePolicy :: closure_policy
  re_verificationPolicy :: verification_policy
  re_outerHookTimeoutMs :: int

datatype runtime_error =
  OPERATION_IDENTITY_INVALID | IDENTITY_REUSED | NOT_PREPARED | OUTCOME_TOO_LARGE | OUTCOME_CHANGED
| CHECKPOINT_RACED | COMPLETE_BEFORE_OUTCOME | COMPLETION_RACED | NO_RECOVERABLE_OUTCOME
| OPERATION_IN_PROGRESS | AUDIT_ERROR audit_error | CONFIRMATION_ERROR repository_error
| INTERACTION_ERROR interaction_error

section \<open>The operation store (closure-operation-store.ts)\<close>

definition operation_of :: "operation_row list \<Rightarrow> string \<Rightarrow> operation_row option" where
  "operation_of ops k = find (\<lambda>r. ow_identityKey r = k) ops"

definition validate_operation :: "string \<Rightarrow> string \<Rightarrow> runtime_error + unit" where
  "validate_operation k h = ensure (\<not> (\<not> safe_id k \<or> \<not> hash64 h)) OPERATION_IDENTITY_INVALID"

definition owned :: "string \<Rightarrow> string \<Rightarrow> operation_row list \<Rightarrow> runtime_error + operation_row" where
  "owned k h ops = (case operation_of ops k of
     None \<Rightarrow> Inl NOT_PREPARED
   | Some row \<Rightarrow> if ow_requestHash row \<noteq> h then Inl IDENTITY_REUSED else Inr row)"

definition operation_begin :: "string \<Rightarrow> string \<Rightarrow> operation_row list
    \<Rightarrow> runtime_error + operation_row \<times> operation_row list" where
  "operation_begin k h ops =
     and_then (validate_operation k h) (\<lambda>_.
     case operation_of ops k of
       Some row \<Rightarrow> (if ow_requestHash row \<noteq> h then Inl IDENTITY_REUSED else Inr (row, ops))
     | None \<Rightarrow>
         let ops' = ops @ [\<lparr>ow_identityKey = k, ow_requestHash = h, ow_status = OP_PENDING, ow_outcome = None\<rparr>] in
         and_then (owned k h ops') (\<lambda>row. Inr (row, ops')))"

definition update_operation :: "string \<Rightarrow> string \<Rightarrow> operation_status \<Rightarrow> (operation_row \<Rightarrow> operation_row)
    \<Rightarrow> operation_row list \<Rightarrow> nat \<times> operation_row list" where
  "update_operation k h st f ops =
    (let P = (\<lambda>r. ow_identityKey r = k \<and> ow_requestHash r = h \<and> ow_status r = st) in
     (length (filter P ops), map (\<lambda>r. if P r then f r else r) ops))"

definition operation_save :: "(operation_outcome \<Rightarrow> int) \<Rightarrow> string \<Rightarrow> string \<Rightarrow> operation_outcome \<Rightarrow> operation_row list
    \<Rightarrow> runtime_error + operation_row \<times> operation_row list" where
  "operation_save bytes k h outcome ops =
     and_then (validate_operation k h) (\<lambda>_.
     and_then (owned k h ops) (\<lambda>current.
     and_then (ensure (\<not> bytes outcome > 4 * 1024 * 1024) OUTCOME_TOO_LARGE) (\<lambda>_.
     case ow_outcome current of
       Some old \<Rightarrow> (if old \<noteq> outcome then Inl OUTCOME_CHANGED else Inr (current, ops))
     | None \<Rightarrow>
       let (changes, ops') = update_operation k h OP_PENDING
             (\<lambda>r. r\<lparr>ow_status := OP_OUTCOME, ow_outcome := Some outcome\<rparr>) ops in
       if changes \<noteq> 1 then Inl CHECKPOINT_RACED else and_then (owned k h ops') (\<lambda>row. Inr (row, ops')))))"

definition operation_complete :: "string \<Rightarrow> string \<Rightarrow> operation_row list
    \<Rightarrow> runtime_error + operation_row \<times> operation_row list" where
  "operation_complete k h ops =
     and_then (validate_operation k h) (\<lambda>_.
     and_then (owned k h ops) (\<lambda>current.
     if ow_status current = OP_COMPLETED then Inr (current, ops)
     else if ow_outcome current = None then Inl COMPLETE_BEFORE_OUTCOME
     else
       let (changes, ops') = update_operation k h OP_OUTCOME (\<lambda>r. r\<lparr>ow_status := OP_COMPLETED\<rparr>) ops in
       if changes \<noteq> 1 then Inl COMPLETION_RACED else and_then (owned k h ops') (\<lambda>row. Inr (row, ops'))))"

section \<open>Identity (closure-runtime.ts)\<close>

definition bool_text :: "bool \<Rightarrow> string" where
  "bool_text b = (if b then ''true'' else ''false'')"

definition identity_key :: "runtime_env \<Rightarrow> closure_request \<Rightarrow> string" where
  "identity_key e r = (let hook = sr_hook (rq_stop r) in
     ''closure-operation-'' @ take 24 (pf_sha (re_platform e) (units (json_array
       [json_quote (sh_session_id hook), json_quote (sh_turn_id hook),
        json_quote (cx_verificationId (sr_closureInput (rq_stop r))), bool_text (sh_stop_hook_active hook)]))))"

definition closure_run_id :: "runtime_env \<Rightarrow> string \<Rightarrow> string \<Rightarrow> string" where
  "closure_run_id e k h = ''closure-'' @ take 32 (pf_sha (re_platform e) (units (json_array [json_quote k, json_quote h])))"

section \<open>The counter over the audits\<close>

definition counter_of :: "runtime_state \<Rightarrow> string \<Rightarrow> audit_counter" where
  "counter_of y sessionId = \<lparr>ac_runs = map (\<lambda>r. \<lparr>cr_sessionId = cu_sessionId r, cr_turnId = cu_turnId r,
       cr_continuationCount = cu_continuationCount r\<rparr>) (closures_of sessionId (rt_audits y)),
     ac_counts = rt_counts y\<rparr>"

definition runtime_get :: "runtime_state \<Rightarrow> counter_key \<Rightarrow> int \<times> runtime_state" where
  "runtime_get y k = (let (n, c) = audit_get (counter_of y (fst k)) k in (n, y\<lparr>rt_counts := ac_counts c\<rparr>))"

definition runtime_claim :: "runtime_state \<Rightarrow> counter_key \<Rightarrow> int \<Rightarrow> bool \<times> runtime_state" where
  "runtime_claim y k m = (let (b, c) = audit_claim (counter_of y (fst k)) k m in (b, y\<lparr>rt_counts := ac_counts c\<rparr>))"

text \<open>The read that fails: the session of an uncached key is no identity of the audit store.\<close>

definition counter_unreadable :: "runtime_state \<Rightarrow> counter_key \<Rightarrow> bool" where
  "counter_unreadable y k \<longleftrightarrow> rt_counts y k = None \<and> \<not> audit_id (fst k)"

section \<open>The verification captured by the ports\<close>

definition settled_value :: "(int \<Rightarrow> 'a settled) \<Rightarrow> int \<Rightarrow> 'a option" where
  "settled_value operation t = (if t < 1 then None else case operation t of Settled x \<Rightarrow> Some x | _ \<Rightarrow> None)"

definition captured :: "closure_policy \<Rightarrow> int \<Rightarrow> stop_env \<Rightarrow> closure_input \<Rightarrow> closure_result option" where
  "captured policy outer env x =
    (let first = settled_value (se_deterministic env x) (min (cp_deterministicDeadlineMs policy) (remaining outer env 1)) in
     case first of
       None \<Rightarrow> None
     | Some v \<Rightarrow>
       (if validVerification v x \<and> cv_decision v = closure_decision.ASK_USER
          \<and> ''SEMANTIC_VERIFICATION_UNAVAILABLE'' \<in> set (cv_reasonCodes v) then
          (case se_semantic env of
             None \<Rightarrow> Some v
           | Some semantic \<Rightarrow>
             (case settled_value (semantic x) (min (cp_semanticVerificationDeadlineMs policy) (remaining outer env 2)) of
                None \<Rightarrow> Some v | Some w \<Rightarrow> Some w))
        else Some v))"

section \<open>Publishing (closure-runtime.ts)\<close>

record closure_answer =
  an_stop :: stop_result
  an_audit :: closure_run_record

definition publish_question :: "platform \<Rightarrow> operation_outcome \<Rightarrow> confirmation_db \<Rightarrow> repository_error + confirmation_db" where
  "publish_question pf outcome db = (case oo_confirmation outcome of
     None \<Rightarrow> Inr db
   | Some (q, ts) \<Rightarrow> and_then (save_confirmation pf q ts db) (\<lambda>(_, db'). Inr db'))"

text \<open>What has been written before an error stays written.\<close>

definition publish :: "runtime_env \<Rightarrow> operation_row \<Rightarrow> string \<Rightarrow> string \<Rightarrow> runtime_state
    \<Rightarrow> (runtime_error + closure_answer) \<times> runtime_state" where
  "publish e op k h y = (case ow_outcome op of
     None \<Rightarrow> (Inl NO_RECOVERABLE_OUTCOME, y)
   | Some outcome \<Rightarrow> (case recordClosure (re_sizes e) (oo_audit outcome) (rt_audits y) of
       Inl x \<Rightarrow> (Inl (AUDIT_ERROR x), y)
     | Inr (audit, audits) \<Rightarrow> let y1 = y\<lparr>rt_audits := audits\<rparr> in
       (case publish_question (re_platform e) outcome (rt_confirmations y1) of
          Inl x \<Rightarrow> (Inl (CONFIRMATION_ERROR x), y1)
        | Inr db \<Rightarrow> let y2 = y1\<lparr>rt_confirmations := db\<rparr> in
          (case operation_complete k h (rt_operations y2) of
             Inl x \<Rightarrow> (Inl x, y2)
           | Inr (_, ops) \<Rightarrow> (Inr \<lparr>an_stop = oo_stop outcome, an_audit = audit\<rparr>, y2\<lparr>rt_operations := ops\<rparr>)))))"

section \<open>The outcome of a handling (closure-runtime.ts)\<close>

definition task_contract_of :: "closure_request \<Rightarrow> task_contract" where
  "task_contract_of r = (case rq_taskContract r of
     Some c \<Rightarrow> c
   | None \<Rightarrow> let x = sr_closureInput (rq_stop r) in
     \<lparr>tk_contractId = ''contract:'' @ cx_taskId x, tk_objective = cx_objective x,
      tk_gates = map cg_gateId (cx_gates x), tk_boundaries = map cb_boundaryId (cx_boundaries x)\<rparr>)"

definition unknownGates :: "closure_input \<Rightarrow> gate_outcome list" where
  "unknownGates x = map (\<lambda>g. \<lparr>go_gateId = cg_gateId g, go_status = gate_status.UNKNOWN,
     go_reasonCodes = [''STOP_VERIFICATION_NOT_COMPLETED''], go_evidenceRefs = []\<rparr>) (cx_gates x)"

definition runtime_identity :: "closure_request \<Rightarrow> interaction_identity" where
  "runtime_identity r = \<lparr>iy_sessionId = sh_session_id (sr_hook (rq_stop r)),
     iy_turnId = sh_turn_id (sr_hook (rq_stop r)), iy_turnOrdinal = ct_turnOrdinal (rq_interaction r)\<rparr>"

definition runtime_triggers :: "runtime_env \<Rightarrow> closure_request \<Rightarrow> closure_result option \<Rightarrow> interaction_trigger list" where
  "runtime_triggers e r v = opt_list (ct_extraTriggers (rq_interaction r))
     @ (case v of None \<Rightarrow> []
        | Some w \<Rightarrow> (case closureInteractionTrigger (pf_sha (re_platform e)) (runtime_identity r) (rq_summary r) w of
            None \<Rightarrow> [] | Some t \<Rightarrow> [t]))"

definition runtime_interaction_input :: "runtime_env \<Rightarrow> closure_request \<Rightarrow> closure_result option \<Rightarrow> int \<Rightarrow> interaction_input" where
  "runtime_interaction_input e r v now = \<lparr>ii_sessionId = sh_session_id (sr_hook (rq_stop r)),
     ii_turnId = sh_turn_id (sr_hook (rq_stop r)), ii_turnOrdinal = ct_turnOrdinal (rq_interaction r),
     ii_now = Iso now, ii_triggers = runtime_triggers e r v, ii_history = ct_history (rq_interaction r),
     ii_policy = re_verificationPolicy e\<rparr>"

definition closure_record :: "runtime_env \<Rightarrow> closure_request \<Rightarrow> closure_result option \<Rightarrow> stop_result
    \<Rightarrow> interaction_decision \<Rightarrow> int \<Rightarrow> closure_run_record" where
  "closure_record e r v stop d now =
     \<lparr>cu_closureRunId = closure_run_id e (identity_key e r) (re_requestHash e r),
      cu_sessionId = sh_session_id (sr_hook (rq_stop r)), cu_turnId = sh_turn_id (sr_hook (rq_stop r)),
      cu_taskContract = task_contract_of r,
      cu_gates = (case v of None \<Rightarrow> unknownGates (sr_closureInput (rq_stop r)) | Some w \<Rightarrow> cv_gateResults w),
      cu_decision = (case v of None \<Rightarrow> closure_decision.ASK_USER | Some w \<Rightarrow> cv_decision w),
      cu_correctionDelta = map_option (take 100000) (sp_output stop),
      cu_continuationCount = sp_continuationCount stop,
      cu_recursiveStopRejected = (sp_status stop = HOOK_ALREADY_ACTIVE),
      cu_interaction = Some \<lparr>ri_required = (de_action d = ASK_ONE), ri_question = map_option cq_question (de_request d),
        ri_safeDefault = (case de_request d of
            Some q \<Rightarrow> Some (cq_safeDefaultOptionId q)
          | None \<Rightarrow> (case de_defaults d of [] \<Rightarrow> None | s # _ \<Rightarrow> Some (effect_name (sd_effect s))))\<rparr>,
      cu_createdAt = Iso now\<rparr>"

definition confirmation_targets :: "closure_request \<Rightarrow> confirmation_request \<Rightarrow> target_snapshot list" where
  "confirmation_targets r q = map (\<lambda>i.
     case find (\<lambda>t. tg_subjectId t = i) (opt_list (ct_targets (rq_interaction r))) of
       Some t \<Rightarrow> t
     | None \<Rightarrow> \<lparr>tg_subjectId = i, tg_expectedRevision = ''closure:'' @ cx_verificationId (sr_closureInput (rq_stop r))\<rparr>)
     (cq_subjectIds q)"

definition outcome_of :: "runtime_env \<Rightarrow> closure_request \<Rightarrow> closure_result option \<Rightarrow> stop_result \<Rightarrow> int \<times> int
    \<Rightarrow> runtime_error + operation_outcome" where
  "outcome_of e r v stop now =
     and_then (map_error INTERACTION_ERROR
       (evaluateInteractionPolicy (pf_sha (re_platform e)) (runtime_interaction_input e r v (fst now)))) (\<lambda>d.
     Inr \<lparr>oo_stop = stop, oo_audit = closure_record e r v stop d (snd now),
       oo_confirmation = map_option (\<lambda>q. (q, confirmation_targets r q)) (de_request d)\<rparr>)"

section \<open>A handling (closure-runtime.ts)\<close>

text \<open>The stop hook has answered, or still waits for its ports.\<close>

record pending_handling =
  ph_request :: closure_request
  ph_captured :: "closure_result option"
  ph_stop :: "stop_result + pending_stop"

definition deactivate :: "string \<Rightarrow> runtime_state \<Rightarrow> runtime_state" where
  "deactivate k y = y\<lparr>rt_active := removeAll k (rt_active y)\<rparr>"

text \<open>From the stop result to the end, the operation leaving the active set.\<close>

definition conclude :: "runtime_env \<Rightarrow> closure_request \<Rightarrow> closure_result option \<Rightarrow> stop_result \<Rightarrow> int \<times> int \<Rightarrow> runtime_state
    \<Rightarrow> (runtime_error + closure_answer) \<times> runtime_state" where
  "conclude e r v stop now y =
    (let k = identity_key e r; h = re_requestHash e r in
     case outcome_of e r v stop now of
       Inl x \<Rightarrow> (Inl x, deactivate k y)
     | Inr outcome \<Rightarrow> (case operation_save (re_outcomeBytes e) k h outcome (rt_operations y) of
         Inl x \<Rightarrow> (Inl x, deactivate k y)
       | Inr (checkpoint, ops) \<Rightarrow>
         (let (a, y') = publish e checkpoint k h (y\<lparr>rt_operations := ops\<rparr>) in (a, deactivate k y'))))"

definition runtime_begin :: "runtime_env \<Rightarrow> stop_env \<Rightarrow> closure_request \<Rightarrow> runtime_state
    \<Rightarrow> ((runtime_error + closure_answer) + pending_handling) \<times> runtime_state" where
  "runtime_begin e env r y =
    (let k = identity_key e r; h = re_requestHash e r in
     case operation_begin k h (rt_operations y) of
       Inl x \<Rightarrow> (Inl (Inl x), y)
     | Inr (op, ops) \<Rightarrow>
       (let y1 = y\<lparr>rt_operations := ops\<rparr> in
        if ow_outcome op \<noteq> None then (let (a, y2) = publish e op k h y1 in (Inl a, y2))
        else if k \<in> set (rt_active y1) then (Inl (Inl OPERATION_IN_PROGRESS), y1)
        else
         (let y2 = y1\<lparr>rt_active := k # rt_active y1\<rparr> in
          if counter_unreadable y2 (stop_key (rq_stop r))
          then (Inl (Inl (AUDIT_ERROR (AUDIT_IDENTITY ''sessionId''))), deactivate k y2)
          else case stop_begin runtime_get (re_closurePolicy e) (re_outerHookTimeoutMs e) env (rq_stop r) y2 of
            (Inl stop, y3) \<Rightarrow> (Inr \<lparr>ph_request = r, ph_captured = None, ph_stop = Inl stop\<rparr>, y3)
          | (Inr p, y3) \<Rightarrow> (Inr \<lparr>ph_request = r,
                ph_captured = captured (re_closurePolicy e) (re_outerHookTimeoutMs e) env (sr_closureInput (rq_stop r)),
                ph_stop = Inr p\<rparr>, y3))))"

definition runtime_settle :: "pending_handling \<Rightarrow> runtime_state \<Rightarrow> pending_handling \<times> runtime_state" where
  "runtime_settle p y = (case ph_stop p of
     Inl stop \<Rightarrow> (p, y)
   | Inr q \<Rightarrow> (let (stop, y') = stop_finish runtime_get runtime_claim q y in (p\<lparr>ph_stop := Inl stop\<rparr>, y')))"

section \<open>Runs with restarts\<close>

record runtime_system =
  rs_state :: runtime_state
  rs_handlings :: "pending_handling list"
  rs_answers :: "(string \<times> closure_answer) list"

definition answered :: "string \<Rightarrow> runtime_error + closure_answer \<Rightarrow> (string \<times> closure_answer) list" where
  "answered k a = (case a of Inl _ \<Rightarrow> [] | Inr x \<Rightarrow> [(k, x)])"

definition restarted :: "runtime_state \<Rightarrow> runtime_state" where
  "restarted y = y\<lparr>rt_counts := (\<lambda>_. None), rt_active := []\<rparr>"

inductive runtime_step :: "runtime_env \<Rightarrow> runtime_system \<Rightarrow> runtime_system \<Rightarrow> bool" for e where
  Answers: "runtime_begin e env r y = (Inl a, y') \<Longrightarrow>
     runtime_step e \<lparr>rs_state = y, rs_handlings = ps, rs_answers = as\<rparr>
       \<lparr>rs_state = y', rs_handlings = ps, rs_answers = as @ answered (identity_key e r) a\<rparr>"
| Awaits: "runtime_begin e env r y = (Inr p, y') \<Longrightarrow>
     runtime_step e \<lparr>rs_state = y, rs_handlings = ps, rs_answers = as\<rparr>
       \<lparr>rs_state = y', rs_handlings = p # ps, rs_answers = as\<rparr>"
| Settles: "runtime_settle p y = (p', y') \<Longrightarrow>
     runtime_step e \<lparr>rs_state = y, rs_handlings = ps @ p # qs, rs_answers = as\<rparr>
       \<lparr>rs_state = y', rs_handlings = ps @ p' # qs, rs_answers = as\<rparr>"
| Concludes: "ph_stop p = Inl stop \<Longrightarrow> conclude e (ph_request p) (ph_captured p) stop now y = (a, y') \<Longrightarrow>
     runtime_step e \<lparr>rs_state = y, rs_handlings = ps @ p # qs, rs_answers = as\<rparr>
       \<lparr>rs_state = y', rs_handlings = ps @ qs, rs_answers = as @ answered (identity_key e (ph_request p)) a\<rparr>"
| Restarts: "runtime_step e \<lparr>rs_state = y, rs_handlings = ps, rs_answers = as\<rparr>
       \<lparr>rs_state = restarted y, rs_handlings = [], rs_answers = as\<rparr>"
| Audits: "audit_step (re_sizes e) (rt_audits y) audits \<Longrightarrow>
     runtime_step e \<lparr>rs_state = y, rs_handlings = ps, rs_answers = as\<rparr>
       \<lparr>rs_state = y\<lparr>rt_audits := audits\<rparr>, rs_handlings = ps, rs_answers = as\<rparr>"
| Confirms: "repository_step (re_platform e) (rt_confirmations y) db \<Longrightarrow>
     runtime_step e \<lparr>rs_state = y, rs_handlings = ps, rs_answers = as\<rparr>
       \<lparr>rs_state = y\<lparr>rt_confirmations := db\<rparr>, rs_handlings = ps, rs_answers = as\<rparr>"

definition runtime_start :: runtime_system where
  "runtime_start = \<lparr>rs_state = \<lparr>rt_operations = [], rt_audits = empty_audits, rt_confirmations = empty_repository,
     rt_counts = (\<lambda>_. None), rt_active = []\<rparr>, rs_handlings = [], rs_answers = []\<rparr>"

end
