(* ===== verification/ClosureRuntimeProps.thy ===== *)
theory ClosureRuntimeProps
  imports ClosureRuntime AuditProps ReplyProps StopProps
begin

text \<open>
  The invariant of the closure runtime and its properties: operations only advance, what is completed
  has been published, and an operation is answered the same way for ever.
\<close>

section \<open>The operation store\<close>

lemma operation_ofD: "operation_of ops k = Some r \<Longrightarrow> r \<in> set ops \<and> ow_identityKey r = k"
  unfolding operation_of_def by (rule find_SomeD)

lemma operation_of_append:
  "operation_of (ops @ [r]) k = (case operation_of ops k of Some x \<Rightarrow> Some x
     | None \<Rightarrow> if ow_identityKey r = k then Some r else None)"
  by (induction ops) (auto simp: operation_of_def)

lemma operation_of_map:
  assumes "\<And>r. ow_identityKey (f r) = ow_identityKey r"
  shows "operation_of (map (\<lambda>r. if P r then f r else r) ops) k
    = map_option (\<lambda>r. if P r then f r else r) (operation_of ops k)"
  using assms by (induction ops) (auto simp: operation_of_def)

text \<open>A row moves on: its request stays, an outcome stays, completion stays.\<close>

definition operation_on :: "operation_row \<Rightarrow> operation_row \<Rightarrow> bool" where
  "operation_on r r' \<longleftrightarrow> ow_requestHash r' = ow_requestHash r
   \<and> (ow_outcome r \<noteq> None \<longrightarrow> ow_outcome r' = ow_outcome r)
   \<and> (ow_status r = OP_COMPLETED \<longrightarrow> ow_status r' = OP_COMPLETED)"

definition operations_on :: "operation_row list \<Rightarrow> operation_row list \<Rightarrow> bool" where
  "operations_on ops ops' \<longleftrightarrow> (\<forall>k r. operation_of ops k = Some r \<longrightarrow>
     (\<exists>r'. operation_of ops' k = Some r' \<and> operation_on r r'))"

definition operation_ok :: "operation_row \<Rightarrow> bool" where
  "operation_ok r \<longleftrightarrow> safe_id (ow_identityKey r) \<and> hash64 (ow_requestHash r)
     \<and> (ow_status r = OP_PENDING) = (ow_outcome r = None)"

lemma operation_on_refl [simp]: "operation_on r r"
  by (simp add: operation_on_def)

lemma operations_on_refl [simp]: "operations_on ops ops"
  by (auto simp: operations_on_def)

lemma operation_on_trans: "operation_on a b \<Longrightarrow> operation_on b c \<Longrightarrow> operation_on a c"
  by (auto simp: operation_on_def)

lemma operations_on_trans: "operations_on a b \<Longrightarrow> operations_on b c \<Longrightarrow> operations_on a c"
  unfolding operations_on_def using operation_on_trans by blast

lemma outcome_kept:
  assumes "operations_on ops ops'" and "operation_of ops k = Some w" and "ow_outcome w = Some u"
  shows "\<exists>w'. operation_of ops' k = Some w' \<and> ow_outcome w' = Some u"
proof -
  obtain w' where "operation_of ops' k = Some w'" "operation_on w w'" using assms(1,2) unfolding operations_on_def by blast
  then show ?thesis using assms(3) by (simp add: operation_on_def)
qed

lemma validate_operation_Inr [simp]: "validate_operation k h = Inr u \<longleftrightarrow> safe_id k \<and> hash64 h"
  by (cases u) (auto simp: validate_operation_def)

lemma owned_Inr: "owned k h ops = Inr r \<longleftrightarrow> operation_of ops k = Some r \<and> ow_requestHash r = h"
  by (auto simp: owned_def split: option.splits)

lemma update_operationD:
  assumes "update_operation k h st f ops = (n, ops')" and "\<And>r. ow_identityKey (f r) = ow_identityKey r"
    and "\<And>r. ow_status r = st \<Longrightarrow> operation_ok r \<Longrightarrow> operation_ok (f r) \<and> operation_on r (f r)"
    and "list_all operation_ok ops"
  shows "list_all operation_ok ops'" "operations_on ops ops'"
    "operation_of ops' j = map_option (\<lambda>r. if ow_identityKey r = k \<and> ow_requestHash r = h \<and> ow_status r = st then f r else r)
       (operation_of ops j)"
proof -
  have ops': "ops' = map (\<lambda>r. if ow_identityKey r = k \<and> ow_requestHash r = h \<and> ow_status r = st then f r else r) ops"
    using assms(1) by (auto simp: update_operation_def Let_def)
  show of': "operation_of ops' j
      = map_option (\<lambda>r. if ow_identityKey r = k \<and> ow_requestHash r = h \<and> ow_status r = st then f r else r)
       (operation_of ops j)" for j
    unfolding ops' by (rule operation_of_map[OF assms(2)])
  show "list_all operation_ok ops'" using assms(3,4) by (auto simp: ops' list_all_iff)
  have "operation_ok r" if "operation_of ops j = Some r" for j r
    using operation_ofD[OF that] assms(4) by (simp add: list_all_iff)
  then show "operations_on ops ops'" using assms(3) by (auto simp: operations_on_def of')
qed

lemma begin_operation:
  assumes "operation_begin k h ops = Inr (r, ops')" and "list_all operation_ok ops"
  shows "list_all operation_ok ops' \<and> operations_on ops ops' \<and> operation_of ops' k = Some r \<and> ow_requestHash r = h
    \<and> (operation_of ops k = Some r \<and> ops' = ops \<or> operation_of ops k = None \<and> ow_outcome r = None \<and> ow_status r = OP_PENDING)
    \<and> (\<forall>j x. operation_of ops' j = Some x \<longrightarrow> ow_status x = OP_COMPLETED \<longrightarrow> operation_of ops j = Some x)"
  using assms
  by (auto simp: operation_begin_def operations_on_def operation_of_append owned_Inr operation_ok_def Let_def
      split: option.splits if_splits)

lemma save_operation:
  assumes "operation_save bytes k h out ops = Inr (r, ops')" and "list_all operation_ok ops"
  shows "list_all operation_ok ops' \<and> operations_on ops ops' \<and> operation_of ops' k = Some r \<and> ow_outcome r = Some out
    \<and> ow_requestHash r = h
    \<and> (\<forall>j x. operation_of ops' j = Some x \<longrightarrow> ow_status x = OP_COMPLETED \<longrightarrow> operation_of ops j = Some x)"
proof -
  obtain c where c: "operation_of ops k = Some c" "ow_requestHash c = h"
    using assms(1) by (auto simp: operation_save_def owned_Inr)
  show ?thesis
  proof (cases "ow_outcome c")
    case (Some old)
    then show ?thesis using assms c by (auto simp: operation_save_def owned_def split: if_splits)
  next
    case None
    let ?f = "\<lambda>r. r\<lparr>ow_status := OP_OUTCOME, ow_outcome := Some out\<rparr>"
    obtain n where u: "update_operation k h OP_PENDING ?f ops = (n, ops')" and r: "operation_of ops' k = Some r" "ow_requestHash r = h"
      using assms(1) c None by (auto simp: operation_save_def owned_def owned_Inr[unfolded owned_def] split: prod.splits if_splits option.splits)
    have p: "ow_status c = OP_PENDING" using assms(2) operation_ofD[OF c(1)] None by (auto simp: operation_ok_def list_all_iff)
    have ok: "operation_ok (?f r) \<and> operation_on r (?f r)" if "ow_status r = OP_PENDING" "operation_ok r" for r
      using that by (simp add: operation_ok_def operation_on_def)
    note d = update_operationD[OF u _ ok assms(2)]
    have "r = ?f c" using r(1) c p operation_ofD[OF c(1)] d(3)[of k] by simp
    then show ?thesis using d(1,2) r d(3) by auto
  qed
qed

lemma complete_operation:
  assumes "operation_complete k h ops = Inr (r, ops')" and "list_all operation_ok ops"
  shows "list_all operation_ok ops' \<and> operations_on ops ops' \<and> operation_of ops' k = Some r \<and> ow_status r = OP_COMPLETED
    \<and> (\<forall>j x. j \<noteq> k \<longrightarrow> operation_of ops' j = operation_of ops j)
    \<and> (\<forall>c. operation_of ops k = Some c \<longrightarrow> ow_outcome r = ow_outcome c)"
proof -
  obtain c where c: "operation_of ops k = Some c" "ow_requestHash c = h"
    using assms(1) by (auto simp: operation_complete_def owned_Inr)
  show ?thesis
  proof (cases "ow_status c = OP_COMPLETED")
    case True
    then show ?thesis using assms c by (auto simp: operation_complete_def owned_def split: if_splits)
  next
    case False
    let ?f = "\<lambda>r. r\<lparr>ow_status := OP_COMPLETED\<rparr>"
    obtain n where u: "update_operation k h OP_OUTCOME ?f ops = (n, ops')" and r: "operation_of ops' k = Some r"
      and o': "ow_outcome c \<noteq> None"
      using assms(1) c False by (auto simp: operation_complete_def owned_def owned_Inr[unfolded owned_def] split: prod.splits if_splits option.splits)
    have p: "ow_status c = OP_OUTCOME" using assms(2) operation_ofD[OF c(1)] False o'
      by (cases "ow_status c") (auto simp: operation_ok_def list_all_iff)
    have ok: "operation_ok (?f r) \<and> operation_on r (?f r)" if "ow_status r = OP_OUTCOME" "operation_ok r" for r
      using that by (simp add: operation_ok_def operation_on_def)
    note d = update_operationD[OF u _ ok assms(2)]
    have "r = ?f c" using r c p operation_ofD[OF c(1)] d(3)[of k] by simp
    moreover have "operation_of ops' j = operation_of ops j" if "j \<noteq> k" for j
      using that d(3)[of j] by (cases "operation_of ops j") (auto dest: operation_ofD)
    ultimately show ?thesis using d(1,2) r c by auto
  qed
qed

section \<open>What has been published\<close>

definition question_saved :: "platform \<Rightarrow> pending_confirmation \<Rightarrow> confirmation_db \<Rightarrow> bool" where
  "question_saved pf w db \<longleftrightarrow> (case w of (q, ts) \<Rightarrow> parseConfirmationRequest pf q \<and>
     (case (validateTargets q ts, requested db (cq_confirmationId q)) of
        (Inr ts', Some (q', ts'')) \<Rightarrow> pf_sha pf (request_text pf q') = pf_sha pf (request_text pf q)
          \<and> pf_sha pf (targets_text ts'') = pf_sha pf (targets_text ts')
      | _ \<Rightarrow> False))"

definition published :: "runtime_env \<Rightarrow> operation_outcome \<Rightarrow> runtime_state \<Rightarrow> bool" where
  "published e u y \<longleftrightarrow> getClosure (cu_closureRunId (oo_audit u)) (rt_audits y) = Some (oo_audit u)
     \<and> (case oo_confirmation u of None \<Rightarrow> True | Some w \<Rightarrow> question_saved (re_platform e) w (rt_confirmations y))"

definition answer_of :: "operation_outcome \<Rightarrow> closure_answer" where
  "answer_of u = \<lparr>an_stop = oo_stop u, an_audit = oo_audit u\<rparr>"

definition runtime_inv :: "runtime_env \<Rightarrow> runtime_state \<Rightarrow> bool" where
  "runtime_inv e y \<longleftrightarrow> list_all operation_ok (rt_operations y) \<and> audit_inv (re_sizes e) (rt_audits y)
     \<and> repository_inv (re_platform e) (rt_confirmations y)
     \<and> (\<forall>k r u. operation_of (rt_operations y) k = Some r \<longrightarrow> ow_status r = OP_COMPLETED \<longrightarrow> ow_outcome r = Some u
          \<longrightarrow> published e u y)"

definition closures_kept :: "audit_db \<Rightarrow> audit_db \<Rightarrow> bool" where
  "closures_kept db db' \<longleftrightarrow> (\<forall>i r. getClosure i db = Some r \<longrightarrow> getClosure i db' = Some r)"

definition moves_on :: "runtime_state \<Rightarrow> runtime_state \<Rightarrow> bool" where
  "moves_on y y' \<longleftrightarrow> operations_on (rt_operations y) (rt_operations y')
     \<and> closures_kept (rt_audits y) (rt_audits y') \<and> keeps (rt_confirmations y) (rt_confirmations y')"

lemma closures_kept_refl [simp]: "closures_kept db db"
  by (simp add: closures_kept_def)

lemma moves_on_refl [simp]: "moves_on y y"
  by (simp add: moves_on_def)

lemma moves_on_trans: "moves_on a b \<Longrightarrow> moves_on b c \<Longrightarrow> moves_on a c"
  unfolding moves_on_def closures_kept_def using operations_on_trans keeps_trans by blast

lemma published_kept:
  assumes "published e u y" and "closures_kept (rt_audits y) (rt_audits y')" and "keeps (rt_confirmations y) (rt_confirmations y')"
  shows "published e u y'"
proof -
  have "question_saved (re_platform e) w (rt_confirmations y')" if "question_saved (re_platform e) w (rt_confirmations y)" for w
  proof -
    obtain q ts where w: "w = (q, ts)" by fastforce
    have "requested (rt_confirmations y) (cq_confirmationId q) \<noteq> None"
      using that by (auto simp: question_saved_def w split: sum.splits option.splits)
    then have same: "requested (rt_confirmations y') (cq_confirmationId q) = requested (rt_confirmations y) (cq_confirmationId q)"
      using assms(3) by (simp add: keeps_def)
    show ?thesis using that unfolding question_saved_def w prod.case by (simp only: same)
  qed
  then show ?thesis using assms(1,2) by (auto simp: published_def closures_kept_def split: option.splits)
qed

lemma getClosure_append:
  "getClosure i (db\<lparr>ad_closures := ad_closures db @ [r]\<rparr>) = (case getClosure i db of Some x \<Rightarrow> Some x
     | None \<Rightarrow> if cu_closureRunId r = i then Some r else None)"
proof -
  have "find P (xs @ [r]) = (case find P xs of Some x \<Rightarrow> Some x | None \<Rightarrow> if P r then Some r else None)"
    for P :: "closure_run_record \<Rightarrow> bool" and xs by (induction xs) auto
  then show ?thesis by (simp add: getClosure_def)
qed

lemma record_closure:
  assumes "recordClosure sz r db = Inr (x, db')"
  shows "x = r \<and> getClosure (cu_closureRunId r) db' = Some r \<and> closures_kept db db'"
  using assms by (auto simp: recordClosure_def closures_kept_def getClosure_append split: if_splits option.splits)

lemma update_closures: "update_injection i n st f db = (k, db') \<Longrightarrow> ad_closures db' = ad_closures db"
  by (auto simp: update_injection_def Let_def)

lemma audit_step_closures: "audit_step sz db db' \<Longrightarrow> audit_inv sz db \<Longrightarrow> closures_kept db db'"
proof (induction rule: audit_step.induct)
  case (Begins r db x db')
  then have "ad_closures db' = ad_closures db" using begin_injection_cases by fastforce
  then show ?case by (simp add: closures_kept_def getClosure_def)
next
  case (Completes i n st reason t db x db')
  from this(1,2) have "ad_closures db' = ad_closures db"
    by (cases rule: complete_injection_cases) (auto dest: update_closures)
  then show ?case by (simp add: closures_kept_def getClosure_def)
next
  case (Acknowledges i n ev t db x db')
  from this(1,2) have "ad_closures db' = ad_closures db" by (cases rule: acknowledge_cases) (auto dest: update_closures)
  then show ?case by (simp add: closures_kept_def getClosure_def)
next
  case (Expands r db y db')
  then have "ad_closures db' = ad_closures db" by (auto simp: recordMcpExpansion_def split: option.splits if_splits)
  then show ?case by (simp add: closures_kept_def getClosure_def)
next
  case (Closes u db z db')
  then show ?case using record_closure by blast
qed

lemma save_question:
  assumes "save_confirmation pf q ts db = Inr (x, db')" and "repository_inv pf db"
  shows "question_saved pf (q, ts) db'"
proof -
  obtain ts' where v: "parseConfirmationRequest pf q" "validateTargets q ts = Inr ts'"
    using assms(1) by (auto simp: save_confirmation_def)
  show ?thesis using assms(1)
  proof (cases rule: save_cases)
    case (Existing row)
    then have "cw_requestHash row = pf_sha pf (request_text pf q)" "cw_targetsHash row = pf_sha pf (targets_text ts')"
      using assms(1) v by (auto simp: save_confirmation_def split: if_splits)
    moreover have "cw_requestHash row = pf_sha pf (request_text pf (cw_request row))"
      "cw_targetsHash row = pf_sha pf (targets_text (cw_targets row))"
      using row_of_ok[OF assms(2) Existing(1)] by (auto simp: row_ok_def parseRequest_def parseTargets_def Let_def split: if_splits)
    ultimately show ?thesis using v Existing by (simp add: question_saved_def requested_def)
  next
    case (Saved us)
    then show ?thesis using v by (simp add: question_saved_def requested_def row_of_append new_row_def)
  qed
qed

section \<open>Publishing\<close>

lemma runtime_invD:
  assumes "runtime_inv e y"
  shows "list_all operation_ok (rt_operations y)" "audit_inv (re_sizes e) (rt_audits y)"
    "repository_inv (re_platform e) (rt_confirmations y)"
    "operation_of (rt_operations y) k = Some r \<Longrightarrow> ow_status r = OP_COMPLETED \<Longrightarrow> ow_outcome r = Some u \<Longrightarrow> published e u y"
  using assms by (auto simp: runtime_inv_def)

text \<open>The invariant survives a step that adds no completed operation but published ones.\<close>

lemma runtime_inv_step:
  assumes "runtime_inv e y" and "list_all operation_ok (rt_operations y')" and "audit_inv (re_sizes e) (rt_audits y')"
    and "repository_inv (re_platform e) (rt_confirmations y')" and "moves_on y y'"
    and "\<And>k r u. operation_of (rt_operations y') k = Some r \<Longrightarrow> ow_status r = OP_COMPLETED \<Longrightarrow> ow_outcome r = Some u
       \<Longrightarrow> operation_of (rt_operations y) k = Some r \<or> published e u y'"
  shows "runtime_inv e y'"
proof -
  have "published e u y'" if "operation_of (rt_operations y') k = Some r" "ow_status r = OP_COMPLETED" "ow_outcome r = Some u" for k r u
    using assms(6)[OF that]
  proof
    assume "operation_of (rt_operations y) k = Some r"
    then have "published e u y" using runtime_invD(4)[OF assms(1)] that by blast
    then show ?thesis by (rule published_kept) (use assms(5) in \<open>simp_all add: moves_on_def\<close>)
  qed
  then show ?thesis using assms(2-4) unfolding runtime_inv_def by blast
qed

lemma publish_step:
  assumes p: "publish e r k h y = (a, y')" and inv: "runtime_inv e y"
    and r: "operation_of (rt_operations y) k = Some r" "ow_outcome r = Some u"
  shows "runtime_inv e y' \<and> moves_on y y' \<and> (\<forall>x. a = Inr x \<longrightarrow> x = answer_of u
    \<and> (\<exists>r'. operation_of (rt_operations y') k = Some r' \<and> ow_status r' = OP_COMPLETED \<and> ow_outcome r' = Some u))"
proof (cases "recordClosure (re_sizes e) (oo_audit u) (rt_audits y)")
  case (Inl x)
  then show ?thesis using p r(2) inv by (auto simp: publish_def)
next
  case (Inr z)
  obtain audit audits where z: "z = (audit, audits)" by fastforce
  note rc = record_closure[OF Inr[unfolded z]]
  note ai = closure_step[OF Inr[unfolded z] runtime_invD(2)[OF inv]]
  define y1 where "y1 = y\<lparr>rt_audits := audits\<rparr>"
  let ?saved = "publish_question (re_platform e) u (rt_confirmations y1)"
  have m1: "moves_on y y1" using rc by (simp add: y1_def moves_on_def)
  have i1: "runtime_inv e y1"
    by (rule runtime_inv_step[OF inv _ _ _ m1]) (use runtime_invD(1-3)[OF inv] ai in \<open>simp_all add: y1_def\<close>)
  have pub: "publish e r k h y = (case ?saved of Inl x \<Rightarrow> (Inl (CONFIRMATION_ERROR x), y1)
      | Inr db \<Rightarrow> (case operation_complete k h (rt_operations y1) of
          Inl x \<Rightarrow> (Inl x, y1\<lparr>rt_confirmations := db\<rparr>)
        | Inr (_, ops) \<Rightarrow> (Inr \<lparr>an_stop = oo_stop u, an_audit = audit\<rparr>, y1\<lparr>rt_confirmations := db, rt_operations := ops\<rparr>)))"
    using r(2) Inr by (simp add: publish_def z y1_def Let_def cong: sum.case_cong)
  show ?thesis
  proof (cases ?saved)
    case (Inl x)
    then show ?thesis using p pub m1 i1 by auto
  next
    case (Inr db)
    define y2 where "y2 = y1\<lparr>rt_confirmations := db\<rparr>"
    have d: "keeps (rt_confirmations y1) db \<and> repository_inv (re_platform e) db
        \<and> (\<forall>w. oo_confirmation u = Some w \<longrightarrow> question_saved (re_platform e) w db)"
    proof (cases "oo_confirmation u")
      case None
      then show ?thesis using Inr runtime_invD(3)[OF i1] by (simp add: publish_question_def)
    next
      case (Some w)
      obtain q ts where w: "w = (q, ts)" by fastforce
      then obtain x where "save_confirmation (re_platform e) q ts (rt_confirmations y1) = Inr (x, db)"
        using Inr Some by (auto simp: publish_question_def)
      then show ?thesis using save_keeps save_inv[OF _ runtime_invD(3)[OF i1]] save_question[OF _ runtime_invD(3)[OF i1]] Some w
        by auto
    qed
    have m2: "moves_on y y2" using m1 d keeps_trans[of "rt_confirmations y" "rt_confirmations y1" db] by (simp add: y2_def moves_on_def)
    have i2: "runtime_inv e y2"
      by (rule runtime_inv_step[OF inv _ _ _ m2]) (use runtime_invD(1-3)[OF i1] d in \<open>simp_all add: y2_def y1_def\<close>)
    have pu: "published e u y2" using rc d by (auto simp: published_def y2_def y1_def split: option.splits)
    show ?thesis
    proof (cases "operation_complete k h (rt_operations y2)")
      case (Inl x)
      then show ?thesis using p pub Inr m2 i2 by (auto simp: y2_def)
    next
      case Done: (Inr v)
      obtain r' ops where v: "v = (r', ops)" by fastforce
      note c = complete_operation[OF Done[unfolded v] runtime_invD(1)[OF i2]]
      define y3 where "y3 = y2\<lparr>rt_operations := ops\<rparr>"
      have e3: "a = Inr \<lparr>an_stop = oo_stop u, an_audit = audit\<rparr>" "y' = y3" using p pub Inr Done v by (simp_all add: y2_def y3_def)
      have r2: "ow_outcome r' = Some u" using c r by (simp add: y2_def y1_def)
      have m3: "moves_on y2 y3" using c by (simp add: moves_on_def y3_def)
      have p3: "published e u y3" using pu by (simp add: published_def y3_def cong: option.case_cong)
      have "runtime_inv e y3"
      proof (rule runtime_inv_step[OF i2 _ _ _ m3])
        fix j x w assume x: "operation_of (rt_operations y3) j = Some x" "ow_outcome x = Some w"
        show "operation_of (rt_operations y2) j = Some x \<or> published e w y3"
          using x c r2 p3 by (cases "j = k") (auto simp: y3_def)
      qed (use runtime_invD(1-3)[OF i2] c in \<open>simp_all add: y3_def\<close>)
      then show ?thesis using e3 moves_on_trans[OF m2 m3] rc c r2 by (auto simp: answer_of_def y3_def)
    qed
  qed
qed

section \<open>Every interleaving of handlings\<close>

definition answered_well :: "runtime_state \<Rightarrow> string \<times> closure_answer \<Rightarrow> bool" where
  "answered_well y x \<longleftrightarrow> (\<exists>r u. operation_of (rt_operations y) (fst x) = Some r \<and> ow_status r = OP_COMPLETED
     \<and> ow_outcome r = Some u \<and> snd x = answer_of u)"

definition system_ok :: "runtime_env \<Rightarrow> runtime_system \<Rightarrow> bool" where
  "system_ok e z \<longleftrightarrow> runtime_inv e (rs_state z) \<and> list_all (answered_well (rs_state z)) (rs_answers z)"

lemma answered_well_on: "answered_well y x \<Longrightarrow> moves_on y y' \<Longrightarrow> answered_well y' x"
  unfolding answered_well_def moves_on_def operations_on_def operation_on_def by fastforce

text \<open>What the parts of a handling outside the three stores change.\<close>

lemma counter_frames:
  "snd (runtime_get y k) = y\<lparr>rt_counts := rt_counts (snd (runtime_get y k))\<rparr>"
  "snd (runtime_claim y k m) = y\<lparr>rt_counts := rt_counts (snd (runtime_claim y k m))\<rparr>"
  by (auto simp: runtime_get_def runtime_claim_def Let_def split: prod.splits)

definition same_stores :: "runtime_state \<Rightarrow> runtime_state \<Rightarrow> bool" where
  "same_stores y y' \<longleftrightarrow> rt_operations y' = rt_operations y \<and> rt_audits y' = rt_audits y
     \<and> rt_confirmations y' = rt_confirmations y"

lemma same_stores_refl [simp]: "same_stores y y"
  by (simp add: same_stores_def)

lemma same_stores_moves: "same_stores y y' \<Longrightarrow> moves_on y y'"
  by (simp add: same_stores_def moves_on_def)

lemma same_stores_inv: "same_stores y y' \<Longrightarrow> runtime_inv e y' = runtime_inv e y"
  by (simp add: same_stores_def runtime_inv_def published_def cong: option.case_cong)

lemma get_same: "runtime_get y k = (n, y') \<Longrightarrow> same_stores y y'"
  and claim_same: "runtime_claim y k m = (b, y') \<Longrightarrow> same_stores y y'"
  by (auto simp: runtime_get_def runtime_claim_def same_stores_def Let_def split: prod.splits)

lemma same_stores_trans: "same_stores a b \<Longrightarrow> same_stores b c \<Longrightarrow> same_stores a c"
  by (simp add: same_stores_def)

lemma stop_begin_same:
  assumes "stop_begin runtime_get policy outer env r y = (x, y')"
  shows "same_stores y y'"
proof -
  obtain n s where g: "runtime_get y (stop_key r) = (n, s)" by fastforce
  then have "y' = s" using assms by (simp add: stop_begin_def)
  then show ?thesis using get_same[OF g] by simp
qed

lemma stop_finish_same:
  assumes "stop_finish runtime_get runtime_claim p y = (x, y')"
  shows "same_stores y y'"
proof (cases "pn_outcome p")
  case (Inl er)
  then show ?thesis using assms by (auto simp: stop_finish_def split: prod.splits dest: get_same)
next
  case (Inr out)
  show ?thesis
  proof (cases out)
    case (Continues st d reason)
    obtain b s1 where c: "runtime_claim y (pn_key p) (pn_maximum p) = (b, s1)" by fastforce
    obtain n s2 where g: "runtime_get s1 (pn_key p) = (n, s2)" by fastforce
    have "y' = s2" using assms Inr Continues c g by (auto simp: stop_finish_def split: if_splits)
    then show ?thesis using same_stores_trans[OF claim_same[OF c] get_same[OF g]] by simp
  qed (use assms Inr in \<open>auto simp: stop_finish_def\<close>)
qed

lemma deactivate_same: "same_stores y (deactivate k y)"
  by (simp add: same_stores_def deactivate_def)

lemma settle_same: "runtime_settle p y = (p', y') \<Longrightarrow> same_stores y y'"
  by (auto simp: runtime_settle_def split: sum.splits prod.splits dest: stop_finish_same)

text \<open>One synchronous part of a handling keeps the invariant, and its answer is the operation's outcome.\<close>

definition part_ok :: "runtime_env \<Rightarrow> string \<Rightarrow> runtime_state \<Rightarrow> runtime_error + closure_answer \<Rightarrow> runtime_state \<Rightarrow> bool" where
  "part_ok e k y a y' \<longleftrightarrow> runtime_inv e y' \<and> moves_on y y' \<and> list_all (answered_well y') (answered k a)"

lemma part_okI:
  "runtime_inv e y' \<Longrightarrow> moves_on y y' \<Longrightarrow> (\<And>x. a = Inr x \<Longrightarrow> answered_well y' (k, x)) \<Longrightarrow> part_ok e k y a y'"
  by (cases a) (auto simp: part_ok_def answered_def)

lemma part_ok_error: "runtime_inv e y' \<Longrightarrow> moves_on y y' \<Longrightarrow> part_ok e k y (Inl x) y'"
  by (rule part_okI) simp_all

lemma part_ok_same: "part_ok e k y a y' \<Longrightarrow> same_stores y' z \<Longrightarrow> part_ok e k y a z"
  unfolding part_ok_def using same_stores_moves same_stores_inv moves_on_trans answered_well_on
  by (metis (mono_tags, lifting) list.pred_mono_strong)

lemma publish_part:
  assumes "publish e r k h y = (a, y')" and "runtime_inv e y" and "operation_of (rt_operations y) k = Some r" and "ow_outcome r = Some u"
  shows "part_ok e k y a y'"
  using publish_step[OF assms] by (intro part_okI) (auto simp: answered_well_def)

lemma part_ok_from:
  assumes "part_ok e k y1 a y'" and "moves_on y y1"
  shows "part_ok e k y a y'"
  using assms moves_on_trans by (auto simp: part_ok_def)

lemma operations_step:
  assumes "runtime_inv e y" and "list_all operation_ok ops" and "operations_on (rt_operations y) ops"
    and "\<forall>j x. operation_of ops j = Some x \<longrightarrow> ow_status x = OP_COMPLETED \<longrightarrow> operation_of (rt_operations y) j = Some x"
  shows "runtime_inv e (y\<lparr>rt_operations := ops\<rparr>)" "moves_on y (y\<lparr>rt_operations := ops\<rparr>)"
proof -
  show m: "moves_on y (y\<lparr>rt_operations := ops\<rparr>)" using assms(3) by (simp add: moves_on_def)
  show "runtime_inv e (y\<lparr>rt_operations := ops\<rparr>)"
    by (rule runtime_inv_step[OF assms(1) _ _ _ m]) (use runtime_invD(1-3)[OF assms(1)] assms(2,4) in simp_all)
qed

lemma conclude_part:
  assumes "conclude e r v stop now y = (a, y')" and "runtime_inv e y"
  shows "part_ok e (identity_key e r) y a y'"
proof -
  let ?k = "identity_key e r" and ?h = "re_requestHash e r"
  have fail: "part_ok e ?k y (Inl x) (deactivate ?k y)" for x
    by (rule part_ok_same[OF part_ok_error[OF assms(2) moves_on_refl] deactivate_same])
  show ?thesis
  proof (cases "outcome_of e r v stop now")
    case (Inl x)
    then show ?thesis using assms(1) fail by (auto simp: conclude_def)
  next
    case (Inr u)
    show ?thesis
    proof (cases "operation_save (re_outcomeBytes e) ?k ?h u (rt_operations y)")
      case (Inl x)
      then show ?thesis using assms(1) Inr fail by (auto simp: conclude_def)
    next
      case Saved: (Inr c)
      obtain row ops where c: "c = (row, ops)" by fastforce
      note s = save_operation[OF Saved[unfolded c] runtime_invD(1)[OF assms(2)]]
      let ?y1 = "y\<lparr>rt_operations := ops\<rparr>"
      have st: "runtime_inv e ?y1" "moves_on y ?y1" using operations_step[OF assms(2)] s by blast+
      obtain b y2 where p: "publish e row ?k ?h ?y1 = (b, y2)" by fastforce
      then have "a = b" "y' = deactivate ?k y2" using assms(1) Inr Saved c by (simp_all add: conclude_def Let_def)
      moreover have "part_ok e ?k y b y2"
        by (rule part_ok_from[OF publish_part[OF p st(1)] st(2)]) (use s in simp_all)
      ultimately show ?thesis using part_ok_same[OF _ deactivate_same] by blast
    qed
  qed
qed

text \<open>The first part of a handling: refused, published again, already in progress, or started.\<close>

lemma runtime_begin_cases:
  assumes "runtime_begin e env r y = (x, y')"
  obtains (Refused) er where "x = Inl (Inl er)" "y' = y"
  | (Publishes) op ops a where "operation_begin (identity_key e r) (re_requestHash e r) (rt_operations y) = Inr (op, ops)"
      "ow_outcome op \<noteq> None" "x = Inl a"
      "publish e op (identity_key e r) (re_requestHash e r) (y\<lparr>rt_operations := ops\<rparr>) = (a, y')"
  | (Fails) op ops er where "operation_begin (identity_key e r) (re_requestHash e r) (rt_operations y) = Inr (op, ops)"
      "ow_outcome op = None" "x = Inl (Inl er)" "same_stores (y\<lparr>rt_operations := ops\<rparr>) y'"
  | (Starts) op ops p where "operation_begin (identity_key e r) (re_requestHash e r) (rt_operations y) = Inr (op, ops)"
      "ow_outcome op = None" "x = Inr p" "ph_request p = r" "same_stores (y\<lparr>rt_operations := ops\<rparr>) y'"
proof (cases "operation_begin (identity_key e r) (re_requestHash e r) (rt_operations y)")
  case (Inl er)
  then have "x = Inl (Inl er)" "y' = y" using assms by (simp_all add: runtime_begin_def)
  then show thesis by (rule Refused)
next
  case (Inr z)
  obtain op ops where z: "z = (op, ops)" by fastforce
  note b = Inr[unfolded z]
  let ?k = "identity_key e r" and ?y1 = "y\<lparr>rt_operations := ops\<rparr>"
  let ?y2 = "?y1\<lparr>rt_active := ?k # rt_active y\<rparr>"
  have s2: "same_stores ?y1 ?y2" by (simp add: same_stores_def)
  consider "ow_outcome op \<noteq> None" | "ow_outcome op = None" "?k \<in> set (rt_active y)"
    | "ow_outcome op = None" "?k \<notin> set (rt_active y)" "counter_unreadable ?y2 (stop_key (rq_stop r))"
    | "ow_outcome op = None" "?k \<notin> set (rt_active y)" "\<not> counter_unreadable ?y2 (stop_key (rq_stop r))" by blast
  then show thesis
  proof cases
    case 1
    obtain a w where p: "publish e op ?k (re_requestHash e r) ?y1 = (a, w)" by fastforce
    have "x = Inl a" "y' = w" using assms b 1 p by (simp_all add: runtime_begin_def Let_def)
    then show thesis using Publishes[OF b 1] p by simp
  next
    case 2
    then have "x = Inl (Inl OPERATION_IN_PROGRESS)" "y' = ?y1" using assms b by (simp_all add: runtime_begin_def Let_def)
    then show thesis using Fails[OF b 2(1)] by simp
  next
    case 3
    then have "x = Inl (Inl (AUDIT_ERROR (AUDIT_IDENTITY ''sessionId'')))" "y' = deactivate ?k ?y2"
      using assms b by (simp_all add: runtime_begin_def Let_def)
    then show thesis using Fails[OF b 3(1)] same_stores_trans[OF s2 deactivate_same] by simp
  next
    case 4
    obtain d w where g: "stop_begin runtime_get (re_closurePolicy e) (re_outerHookTimeoutMs e) env (rq_stop r) ?y2 = (d, w)"
      by fastforce
    have "(\<exists>p. x = Inr p \<and> ph_request p = r) \<and> y' = w" using assms b 4 g
      by (cases d) (auto simp: runtime_begin_def Let_def)
    then show thesis using Starts[OF b 4(1)] same_stores_trans[OF s2 stop_begin_same[OF g]] by blast
  qed
qed

lemma begin_part:
  assumes "runtime_begin e env r y = (x, y')" and inv: "runtime_inv e y"
  shows "runtime_inv e y' \<and> moves_on y y' \<and> (\<forall>a. x = Inl a \<longrightarrow> part_ok e (identity_key e r) y a y')"
proof -
  have ops: "runtime_inv e (y\<lparr>rt_operations := ops\<rparr>) \<and> moves_on y (y\<lparr>rt_operations := ops\<rparr>)
      \<and> operation_of ops (identity_key e r) = Some op"
    if "operation_begin (identity_key e r) (re_requestHash e r) (rt_operations y) = Inr (op, ops)" for op ops
    using begin_operation[OF that runtime_invD(1)[OF inv]] operations_step[OF inv] by blast
  show ?thesis using assms(1)
  proof (cases rule: runtime_begin_cases)
    case (Refused er)
    then show ?thesis using inv by (auto intro: part_ok_error)
  next
    case (Publishes op ops a)
    obtain u where u: "ow_outcome op = Some u" using Publishes(2) by blast
    note o' = ops[OF Publishes(1)]
    have "part_ok e (identity_key e r) y a y'"
      by (rule part_ok_from[OF publish_part[OF Publishes(4) _ _ u]]) (use o' in simp_all)
    then show ?thesis using Publishes(3) by (simp add: part_ok_def)
  next
    case (Fails op ops er)
    note o' = ops[OF Fails(1)]
    have "part_ok e (identity_key e r) y (Inl er) y'"
      by (rule part_ok_same[OF part_ok_error Fails(4)]) (use o' in simp_all)
    then show ?thesis using Fails(3) by (auto simp: part_ok_def)
  next
    case (Starts op ops p)
    note o' = ops[OF Starts(1)]
    have "part_ok e (identity_key e r) y (Inl NOT_PREPARED) y'"
      by (rule part_ok_same[OF part_ok_error Starts(5)]) (use o' in simp_all)
    then show ?thesis using Starts(3) by (simp add: part_ok_def)
  qed
qed

lemma step_system_ok: "runtime_step e z z' \<Longrightarrow> system_ok e z \<Longrightarrow> system_ok e z' \<and> moves_on (rs_state z) (rs_state z')"
proof (induction rule: runtime_step.induct)
  case (Answers env r y a y' ps as)
  have "runtime_inv e y" "list_all (answered_well y) as" using Answers(2) by (simp_all add: system_ok_def)
  then show ?case using begin_part[OF Answers(1)] answered_well_on[of y _ y']
    by (auto simp: system_ok_def part_ok_def list_all_iff)
next
  case (Awaits env r y p y' ps as)
  have "runtime_inv e y" "list_all (answered_well y) as" using Awaits(2) by (simp_all add: system_ok_def)
  then show ?case using begin_part[OF Awaits(1)] answered_well_on[of y _ y'] by (auto simp: system_ok_def list_all_iff)
next
  case (Settles p y p' y' ps qs as)
  note s = settle_same[OF Settles(1)]
  have "list_all (answered_well y) as" "runtime_inv e y" using Settles(2) by (simp_all add: system_ok_def)
  then show ?case using answered_well_on[OF _ same_stores_moves[OF s]] same_stores_inv[OF s] same_stores_moves[OF s]
    by (auto simp: system_ok_def list_all_iff)
next
  case (Concludes p stop now y a y' ps qs as)
  have "runtime_inv e y" "list_all (answered_well y) as" using Concludes(3) by (simp_all add: system_ok_def)
  then show ?case using conclude_part[OF Concludes(2)] answered_well_on[of y _ y']
    by (auto simp: system_ok_def part_ok_def list_all_iff)
next
  case (Restarts y ps as)
  have s: "same_stores y (restarted y)" by (simp add: same_stores_def restarted_def)
  have "list_all (answered_well y) as" "runtime_inv e y" using Restarts by (simp_all add: system_ok_def)
  then show ?case using answered_well_on[OF _ same_stores_moves[OF s]] same_stores_inv[OF s] same_stores_moves[OF s]
    by (auto simp: system_ok_def list_all_iff)
next
  case (Audits y audits ps as)
  let ?y = "y\<lparr>rt_audits := audits\<rparr>"
  have i: "runtime_inv e y" "list_all (answered_well y) as" using Audits(2) by (simp_all add: system_ok_def)
  have m: "moves_on y ?y" using audit_step_closures[OF Audits(1) runtime_invD(2)[OF i(1)]] by (simp add: moves_on_def)
  have "runtime_inv e ?y"
    by (rule runtime_inv_step[OF i(1) _ _ _ m])
       (use runtime_invD(1-3)[OF i(1)] audit_step_inv[OF Audits(1)] in simp_all)
  then show ?case using i answered_well_on[OF _ m] m by (auto simp: system_ok_def list_all_iff)
next
  case (Confirms y db ps as)
  let ?y = "y\<lparr>rt_confirmations := db\<rparr>"
  have i: "runtime_inv e y" "list_all (answered_well y) as" using Confirms(2) by (simp_all add: system_ok_def)
  have m: "moves_on y ?y" using step_keeps[OF Confirms(1) runtime_invD(3)[OF i(1)]] by (simp add: moves_on_def)
  have "runtime_inv e ?y"
    by (rule runtime_inv_step[OF i(1) _ _ _ m])
       (use runtime_invD(1-3)[OF i(1)] step_repository_inv[OF Confirms(1)] in simp_all)
  then show ?case using i answered_well_on[OF _ m] m by (auto simp: system_ok_def list_all_iff)
qed

lemma steps_system_ok:
  "(runtime_step e)\<^sup>*\<^sup>* z z' \<Longrightarrow> system_ok e z \<Longrightarrow> system_ok e z' \<and> moves_on (rs_state z) (rs_state z')"
  by (induction rule: rtranclp_induct) (auto intro: moves_on_trans dest: step_system_ok)

lemma runtime_start_ok: "system_ok e runtime_start"
  using empty_audit_inv reachable_repository_inv[OF rtranclp.rtrancl_refl]
  by (simp add: system_ok_def runtime_start_def runtime_inv_def operation_of_def)

lemma reachable_system_ok: "(runtime_step e)\<^sup>*\<^sup>* runtime_start z \<Longrightarrow> system_ok e z"
  using steps_system_ok runtime_start_ok by blast

lemma completed_published:
  assumes "runtime_inv e y" and "operation_of (rt_operations y) k = Some r" and "ow_status r = OP_COMPLETED"
  obtains u where "ow_outcome r = Some u" "published e u y"
proof -
  have "ow_outcome r \<noteq> None" using runtime_invD(1)[OF assms(1)] operation_ofD[OF assms(2)] assms(3)
    by (auto simp: operation_ok_def list_all_iff)
  then obtain u where "ow_outcome r = Some u" by blast
  with runtime_invD(4)[OF assms this] that show thesis by blast
qed

section \<open>Example\<close>

text \<open>
  Stops of a hook that is active already, with a trigger the request brings along: an ordinary one, and
  one whose question is too long for its schema.
\<close>

definition zero_hex :: string where
  "zero_hex = replicate 64 (CHR ''0'')"

definition ex_runtime :: runtime_env where
  "ex_runtime = \<lparr>re_platform = plain_platform, re_sizes = \<lparr>sz_injection = (\<lambda>_. 0), sz_expansion = (\<lambda>_. 0), sz_closure = (\<lambda>_. 0)\<rparr>,
     re_outcomeBytes = (\<lambda>_. 0), re_requestHash = (\<lambda>_. zero_hex), re_closurePolicy = StopProps.ex_policy,
     re_verificationPolicy = PolicyProps.ex_policy, re_outerHookTimeoutMs = 5000\<rparr>"

definition active_stop :: "interaction_trigger list \<Rightarrow> closure_request" where
  "active_stop ts = \<lparr>rq_stop = (ex_request ex_done)\<lparr>sr_hook := (sr_hook (ex_request ex_done))\<lparr>sh_stop_hook_active := True\<rparr>\<rparr>,
     rq_summary = ''done'', rq_taskContract = None,
     rq_interaction = \<lparr>ct_turnOrdinal = 3, ct_history = [], ct_extraTriggers = Some ts, ct_targets = Some asked_targets\<rparr>\<rparr>"

definition active_key :: string where
  "active_key = ''closure-operation-'' @ replicate 24 (CHR ''0'')"

lemma active_identity: "identity_key ex_runtime (active_stop ts) = active_key"
  by (simp add: identity_key_def ex_runtime_def plain_platform_def active_key_def Let_def)

lemma active_ids: "safe_id active_key" "hash64 zero_hex" "re_requestHash ex_runtime r = zero_hex"
  "re_platform ex_runtime = plain_platform" "pf_sha plain_platform u = zero_hex"
  by (simp_all add: active_key_def zero_hex_def ex_runtime_def plain_platform_def hash64_def hex_char_def
      list_all_iff text_simps)

abbreviation active_row :: "operation_status \<Rightarrow> operation_outcome option \<Rightarrow> operation_row" where
  "active_row st u \<equiv> \<lparr>ow_identityKey = active_key, ow_requestHash = zero_hex, ow_status = st, ow_outcome = u\<rparr>"

abbreviation begun :: runtime_state where
  "begun \<equiv> \<lparr>rt_operations = [active_row OP_PENDING None], rt_audits = empty_audits, rt_confirmations = empty_repository,
     rt_counts = (\<lambda>_. None)((''s1'', ''t1'') := Some 0), rt_active = [active_key]\<rparr>"

abbreviation active_pending :: "interaction_trigger list \<Rightarrow> pending_handling" where
  "active_pending ts \<equiv> \<lparr>ph_request = active_stop ts, ph_captured = None, ph_stop = Inl (plain_stop HOOK_ALREADY_ACTIVE 0)\<rparr>"

lemma active_input: "runtime_interaction_input ex_runtime (active_stop ts) None 5 = ask_input 3 ts []"
  by (simp add: runtime_interaction_input_def ask_input_def active_stop_def ex_request_def runtime_triggers_def
      ex_runtime_def opt_list_def)

lemma active_valid: "validInput (rq_stop (active_stop ts))"
  by (simp add: active_stop_def ex_request_def validInput_def ex_done_def ex_closure_def text_simps)

lemma active_begins: "runtime_begin ex_runtime ex_stop_env (active_stop ts) (rs_state runtime_start) = (Inr (active_pending ts), begun)"
proof -
  let ?r = "active_stop ts"
  have "operation_begin active_key zero_hex [] = Inr (active_row OP_PENDING None, [active_row OP_PENDING None])"
    by (simp add: operation_begin_def validate_operation_def owned_def active_ids operation_of_def)
  moreover have k: "stop_key (rq_stop ?r) = (''s1'', ''t1'')" "sh_stop_hook_active (sr_hook (rq_stop ?r))"
    by (simp_all add: stop_key_def active_stop_def ex_request_def)
  moreover have "audit_id ''s1''" by (simp add: audit_id_def audit_tail_def text_simps)
  moreover have "closures_of ''s1'' empty_audits = []" by (simp add: closures_of_def empty_audits_def)
  ultimately show ?thesis using active_valid
    by (simp add: runtime_begin_def active_identity active_ids runtime_start_def counter_unreadable_def stop_begin_def
        runtime_get_def audit_get_def counter_of_def persisted_count_def Let_def)
qed

lemma active_run:
  assumes "conclude ex_runtime (active_stop ts) None (plain_stop HOOK_ALREADY_ACTIVE 0) (5, 5) begun = (a, y)"
  shows "(runtime_step ex_runtime)\<^sup>*\<^sup>* runtime_start \<lparr>rs_state = y, rs_handlings = [], rs_answers = answered active_key a\<rparr>"
proof -
  have "runtime_step ex_runtime runtime_start \<lparr>rs_state = begun, rs_handlings = [active_pending ts], rs_answers = []\<rparr>"
    using runtime_step.Awaits[OF active_begins[of ts], of "[]" "[]"] by (simp add: runtime_start_def)
  moreover have "runtime_step ex_runtime \<lparr>rs_state = begun, rs_handlings = [active_pending ts], rs_answers = []\<rparr>
      \<lparr>rs_state = y, rs_handlings = [], rs_answers = answered active_key a\<rparr>"
    using runtime_step.Concludes[of "active_pending ts" "plain_stop HOOK_ALREADY_ACTIVE 0" ex_runtime "(5, 5)" begun a y "[]" "[]" "[]"]
      assms by (simp add: active_identity)
  ultimately show ?thesis by (meson converse_rtranclp_into_rtranclp r_into_rtranclp)
qed

text \<open>The outcome that is checkpointed, for the decision the policy makes of the triggers.\<close>

definition active_outcome :: "interaction_trigger list \<Rightarrow> interaction_decision \<Rightarrow> operation_outcome" where
  "active_outcome ts d = \<lparr>oo_stop = plain_stop HOOK_ALREADY_ACTIVE 0,
     oo_audit = closure_record ex_runtime (active_stop ts) None (plain_stop HOOK_ALREADY_ACTIVE 0) d 5,
     oo_confirmation = map_option (\<lambda>q. (q, confirmation_targets (active_stop ts) q)) (de_request d)\<rparr>"

lemma active_concludes:
  assumes "evaluateInteractionPolicy (pf_sha plain_platform) (ask_input 3 ts []) = Inr d"
  shows "conclude ex_runtime (active_stop ts) None (plain_stop HOOK_ALREADY_ACTIVE 0) (5, 5) begun =
    (let (a, y) = publish ex_runtime (active_row OP_OUTCOME (Some (active_outcome ts d))) active_key zero_hex
       (begun\<lparr>rt_operations := [active_row OP_OUTCOME (Some (active_outcome ts d))]\<rparr>) in (a, deactivate active_key y))"
proof -
  have "outcome_of ex_runtime (active_stop ts) None (plain_stop HOOK_ALREADY_ACTIVE 0) (5, 5) = Inr (active_outcome ts d)"
    using assms by (simp add: outcome_of_def active_input active_ids active_outcome_def map_error_def)
  moreover have "operation_save (re_outcomeBytes ex_runtime) active_key zero_hex u [active_row OP_PENDING None]
      = Inr (active_row OP_OUTCOME (Some u), [active_row OP_OUTCOME (Some u)])" for u
    by (simp add: operation_save_def validate_operation_def active_ids owned_def operation_of_def update_operation_def ex_runtime_def)
  ultimately show ?thesis by (simp add: conclude_def active_identity active_ids Let_def)
qed

text \<open>The ordinary question: the handling publishes its outcome and answers.\<close>

definition ordinary :: "interaction_trigger list" where
  "ordinary = [ask_trigger ''a'' SCOPE_PROMOTION MEDIUM 3]"

lemma ordinary_decision:
  obtains d where "evaluateInteractionPolicy (pf_sha plain_platform) (ask_input 3 ordinary []) = Inr d"
    "de_request d = Some asked_request"
proof -
  have i: "ask_input 3 ordinary [] = ask_first" by (simp add: ask_first_def ordinary_def)
  obtain d where d: "evaluateInteractionPolicy (pf_sha plain_platform) ask_first = Inr d" by (rule evaluate_total)
  have e: "eligible ask_first = ordinary" "\<not> questionBudgetExhausted ask_first" "ii_now ask_first = Iso 5" "ii_triggers ask_first \<noteq> []"
    by (simp_all add: ask_eval ask_first_def ask_input_def ask_trigger_def ordinary_def)
  have "de_request d = Some asked_request" using d
  proof (cases rule: decision_cases)
    case (asks d' t ts q)
    then show ?thesis using e asked_request by (simp add: ordinary_def)
  qed (use ask_turn_valid(2) e in \<open>simp_all add: ordinary_def\<close>)
  then show thesis using that d unfolding i by blast
qed

lemma asked_not_blank: "\<not> js_blank (cq_question asked_request)"
proof -
  have "cq_question asked_request = projr (question (ask_trigger ''a'' SCOPE_PROMOTION MEDIUM 3))"
    using request_question[OF asked_request] by simp
  then show ?thesis by (simp add: question_def ask_trigger_def units_def js_blank_def)
qed

lemma active_record_ok:
  assumes "de_request d = Some q" and "\<not> js_blank (cq_question q)"
  shows "is_ok (validateClosure (oo_audit (active_outcome ts d)))"
proof -
  have "closure_run_id ex_runtime active_key zero_hex = ''closure-'' @ replicate 32 (CHR ''0'')"
    by (simp add: closure_run_id_def ex_runtime_def plain_platform_def)
  moreover have "rq_stop (active_stop ts) = (ex_request ex_done)\<lparr>sr_hook := (sr_hook (ex_request ex_done))\<lparr>sh_stop_hook_active := True\<rparr>\<rparr>"
    "task_contract_of (active_stop ts) = \<lparr>tk_contractId = ''contract:t1'', tk_objective = ''finish'', tk_gates = [''g1''],
       tk_boundaries = [''b1'']\<rparr>"
    by (simp_all add: active_stop_def task_contract_of_def ex_request_def ex_done_def ex_closure_def)
  moreover have "list_all audit_id [''closure-'' @ replicate 32 (CHR ''0''), ''s1'', ''t1'', ''contract:t1'']"
    by (simp add: audit_id_def audit_tail_def list_all_iff text_simps)
  moreover have "unknownGates ex_done = [\<lparr>go_gateId = ''g1'', go_status = gate_status.UNKNOWN,
     go_reasonCodes = [''STOP_VERIFICATION_NOT_COMPLETED''], go_evidenceRefs = []\<rparr>]"
    by (simp add: unknownGates_def ex_done_def ex_closure_def)
  ultimately show ?thesis using assms
    by (simp add: active_outcome_def closure_record_def validateClosure_def active_identity active_ids assertIdentity_def
        ex_request_def plain_stop_def safe_integer_def is_ok_iff)
qed

lemma ordinary_answered:
  obtains u y where "(runtime_step ex_runtime)\<^sup>*\<^sup>* runtime_start
      \<lparr>rs_state = y, rs_handlings = [], rs_answers = [(active_key, answer_of u)]\<rparr>"
    "operation_of (rt_operations y) active_key = Some (active_row OP_COMPLETED (Some u))" "rt_confirmations y = asked_db"
    "oo_confirmation u = Some (asked_request, asked_targets)"
proof -
  obtain d where d: "evaluateInteractionPolicy (pf_sha plain_platform) (ask_input 3 ordinary []) = Inr d"
    "de_request d = Some asked_request" by (rule ordinary_decision)
  define u where "u = active_outcome ordinary d"
  let ?y = "begun\<lparr>rt_operations := [active_row OP_OUTCOME (Some u)]\<rparr>"
  have q: "oo_confirmation u = Some (asked_request, asked_targets)"
    using d by (simp add: u_def active_outcome_def confirmation_targets_def active_stop_def asked_targets_def asked_fields opt_list_def
        sorted_ids_def)
  have v: "is_ok (validateClosure (oo_audit u))" unfolding u_def by (rule active_record_ok[OF d(2) asked_not_blank])
  obtain db where rc: "recordClosure (re_sizes ex_runtime) (oo_audit u) empty_audits = Inr (oo_audit u, db)"
    using v by (auto simp: recordClosure_def is_ok_iff getClosure_def empty_audits_def ex_runtime_def MAX_RECORD_BYTES_def)
  have "operation_complete active_key zero_hex [active_row OP_OUTCOME (Some u)]
      = Inr (active_row OP_COMPLETED (Some u), [active_row OP_COMPLETED (Some u)])"
    by (simp add: operation_complete_def validate_operation_def active_ids owned_def operation_of_def update_operation_def)
  then have "publish ex_runtime (active_row OP_OUTCOME (Some u)) active_key zero_hex ?y = (Inr (answer_of u),
      ?y\<lparr>rt_audits := db, rt_confirmations := asked_db, rt_operations := [active_row OP_COMPLETED (Some u)]\<rparr>)"
    using rc q asked_save by (simp add: publish_def publish_question_def active_ids answer_of_def)
  from that[OF active_run[OF active_concludes[OF d(1), folded u_def, unfolded this Let_def prod.case], unfolded answered_def sum.case] _ _ q]
  show thesis by (simp add: deactivate_def operation_of_def)
qed

text \<open>The question that is too long: the outcome is checkpointed, and publishing it fails.\<close>

lemma long_checkpointed:
  obtains y as u q ts where "(runtime_step ex_runtime)\<^sup>*\<^sup>* runtime_start \<lparr>rs_state = y, rs_handlings = [], rs_answers = as\<rparr>"
    "operation_of (rt_operations y) active_key = Some (active_row OP_OUTCOME (Some u))"
    "oo_confirmation u = Some (q, ts)" "\<not> parseConfirmationRequest plain_platform q"
proof -
  obtain d q where d: "evaluateInteractionPolicy (pf_sha plain_platform) long_turn = Inr d" "de_request d = Some q"
    and l: "length (cq_question q) = 1012" "list_all plain_unit (cq_question q)" by (rule long_turn_asks)
  have bad: "\<not> parseConfirmationRequest plain_platform q" using too_long_question[OF l(2)] l(1) by simp
  define ts where "ts = ii_triggers long_turn"
  have i: "evaluateInteractionPolicy (pf_sha plain_platform) (ask_input 3 ts []) = Inr d"
    using d(1) by (simp add: ts_def long_turn_def ask_input_def)
  define u where "u = active_outcome ts d"
  let ?y = "begun\<lparr>rt_operations := [active_row OP_OUTCOME (Some u)]\<rparr>"
  have q: "oo_confirmation u = Some (q, confirmation_targets (active_stop ts) q)" using d(2) by (simp add: u_def active_outcome_def)
  have pq: "publish_question plain_platform u empty_repository = Inl REQUEST_SCHEMA_INVALID"
    using q bad by (simp add: publish_question_def save_confirmation_def empty_repository_def)
  obtain x y where p: "publish ex_runtime (active_row OP_OUTCOME (Some u)) active_key zero_hex ?y = (Inl x, y)"
    and y: "rt_operations y = [active_row OP_OUTCOME (Some u)]"
    using pq by (cases "recordClosure (re_sizes ex_runtime) (oo_audit u) empty_audits") (auto simp: publish_def active_ids)
  from that[OF active_run[OF active_concludes[OF i, folded u_def, unfolded p Let_def prod.case]] _ q bad] y
  show thesis by (simp add: deactivate_def operation_of_def)
qed

section \<open>Properties\<close>

text \<open>
  C17: However the handlings of stops interleave, with each other, with everything else that is written
  to the audit store and the confirmation repository, and with restarts that lose every handling in
  progress, all answers given for one operation (one session, turn, verification and stop flag) are
  the same answer, and the audit record it carries is the one the audit store holds.
\<close>
theorem operation_answers_agree:
  assumes "(runtime_step e)\<^sup>*\<^sup>* runtime_start z" and "(k, a) \<in> set (rs_answers z)" and "(k, b) \<in> set (rs_answers z)"
  shows "a = b \<and> getClosure (cu_closureRunId (an_audit a)) (rt_audits (rs_state z)) = Some (an_audit a)"
proof -
  have ok: "runtime_inv e (rs_state z)" "list_all (answered_well (rs_state z)) (rs_answers z)"
    using reachable_system_ok[OF assms(1)] by (simp_all add: system_ok_def)
  then have "answered_well (rs_state z) (k, a)" "answered_well (rs_state z) (k, b)" using assms(2,3) by (auto simp: list_all_iff)
  then obtain r u where "operation_of (rt_operations (rs_state z)) k = Some r" "ow_status r = OP_COMPLETED"
    "ow_outcome r = Some u" "a = answer_of u" "b = answer_of u" by (auto simp: answered_well_def)
  then show ?thesis using runtime_invD(4)[OF ok(1)] by (auto simp: published_def answer_of_def)
qed

theorem operation_answers_agree_witness:
  "\<exists>z a. (runtime_step ex_runtime)\<^sup>*\<^sup>* runtime_start z \<and> rs_answers z = [(active_key, a)]
     \<and> getClosure (cu_closureRunId (an_audit a)) (rt_audits (rs_state z)) = Some (an_audit a)"
proof -
  obtain u y where r: "(runtime_step ex_runtime)\<^sup>*\<^sup>* runtime_start
    \<lparr>rs_state = y, rs_handlings = [], rs_answers = [(active_key, answer_of u)]\<rparr>" by (rule ordinary_answered)
  from operation_answers_agree[OF this, of active_key "answer_of u" "answer_of u"] r show ?thesis by force
qed

text \<open>
  C18: In every reachable state a completed operation has its outcome, and the outcome is published: its
  audit record is the one the audit store holds under its id, and a question it selected is held by
  the confirmation repository, with the hashes of that question and of its targets.
\<close>
theorem completed_is_published:
  assumes "(runtime_step e)\<^sup>*\<^sup>* runtime_start z" and "operation_of (rt_operations (rs_state z)) k = Some r"
    and "ow_status r = OP_COMPLETED"
  shows "\<exists>u. ow_outcome r = Some u \<and> published e u (rs_state z)"
proof -
  have "runtime_inv e (rs_state z)" using reachable_system_ok[OF assms(1)] by (simp add: system_ok_def)
  from completed_published[OF this assms(2,3)] show ?thesis by blast
qed

theorem completed_is_published_witness:
  "\<exists>z u. (runtime_step ex_runtime)\<^sup>*\<^sup>* runtime_start z \<and> oo_confirmation u \<noteq> None \<and> published ex_runtime u (rs_state z)"
proof -
  obtain u y where r: "(runtime_step ex_runtime)\<^sup>*\<^sup>* runtime_start
      \<lparr>rs_state = y, rs_handlings = [], rs_answers = [(active_key, answer_of u)]\<rparr>"
    and w: "operation_of (rt_operations y) active_key = Some (active_row OP_COMPLETED (Some u))"
      "oo_confirmation u = Some (asked_request, asked_targets)" by (rule ordinary_answered)
  from completed_is_published[OF r, of active_key "active_row OP_COMPLETED (Some u)"] w r show ?thesis by force
qed

lemma record_closure_again:
  "audit_inv sz db \<Longrightarrow> getClosure (cu_closureRunId r) db = Some r \<Longrightarrow> recordClosure sz r db = Inr (r, db)"
  unfolding getClosure_def recordClosure_def
  using find_SomeD[of "\<lambda>x. cu_closureRunId x = cu_closureRunId r" "ad_closures db" r]
  by (auto simp: audit_inv_def list_all_iff is_ok_iff getClosure_def)

lemma save_again:
  assumes "question_saved pf (q, ts) db" and "repository_inv pf db" and "\<not> cb_closed db"
  shows "save_confirmation pf q ts db = Inr (SAVE_EXISTING, db)"
proof -
  obtain ts' w where v: "parseConfirmationRequest pf q" "validateTargets q ts = Inr ts'"
    "requested db (cq_confirmationId q) = Some w" "pf_sha pf (request_text pf (fst w)) = pf_sha pf (request_text pf q)"
    "pf_sha pf (targets_text (snd w)) = pf_sha pf (targets_text ts')"
    using assms(1) by (auto simp: question_saved_def split: sum.splits option.splits)
  then obtain row where row: "row_of db (cq_confirmationId q) = Some row" "w = (cw_request row, cw_targets row)"
    by (auto simp: requested_def split: option.splits)
  have "cw_requestHash row = pf_sha pf (request_text pf (cw_request row))"
    "cw_targetsHash row = pf_sha pf (targets_text (cw_targets row))"
    using row_of_ok[OF assms(2) row(1)] by (auto simp: row_ok_def parseRequest_def parseTargets_def Let_def split: if_splits)
  then show ?thesis using v row assms(3) by (simp add: save_confirmation_def)
qed

text \<open>
  A stop whose operation was completed can be handled again and again: while the confirmation
  repository is open, every further handling of the same request is answered with the outcome of the
  operation, at once and without changing anything.
\<close>
theorem completed_request_is_answered:
  assumes "(runtime_step e)\<^sup>*\<^sup>* runtime_start z" and "operation_of (rt_operations (rs_state z)) (identity_key e r) = Some w"
    and "ow_status w = OP_COMPLETED" and "ow_requestHash w = re_requestHash e r" and "\<not> cb_closed (rt_confirmations (rs_state z))"
  shows "\<exists>u. ow_outcome w = Some u \<and> runtime_begin e env r (rs_state z) = (Inl (Inr (answer_of u)), rs_state z)"
proof -
  let ?y = "rs_state z" and ?k = "identity_key e r" and ?h = "re_requestHash e r"
  have inv: "runtime_inv e ?y" using reachable_system_ok[OF assms(1)] by (simp add: system_ok_def)
  obtain u where u: "ow_outcome w = Some u" "published e u ?y" by (rule completed_published[OF inv assms(2,3)])
  have v: "safe_id ?k" "hash64 ?h" using runtime_invD(1)[OF inv] operation_ofD[OF assms(2)] assms(4)
    by (auto simp: operation_ok_def list_all_iff)
  have rc: "recordClosure (re_sizes e) (oo_audit u) (rt_audits ?y) = Inr (oo_audit u, rt_audits ?y)"
    using record_closure_again[OF runtime_invD(2)[OF inv]] u(2) by (simp add: published_def)
  have sv: "publish_question (re_platform e) u (rt_confirmations ?y) = Inr (rt_confirmations ?y)"
  proof (cases "oo_confirmation u")
    case (Some x)
    obtain q ts where x: "x = (q, ts)" by fastforce
    then have "question_saved (re_platform e) (q, ts) (rt_confirmations ?y)" using u(2) Some by (simp add: published_def)
    from save_again[OF this runtime_invD(3)[OF inv] assms(5)] show ?thesis using Some x by (simp add: publish_question_def)
  qed (simp add: publish_question_def)
  have "operation_complete ?k ?h (rt_operations ?y) = Inr (w, rt_operations ?y)"
    using v assms(2-4) by (simp add: operation_complete_def owned_def validate_operation_def)
  then have p: "publish e w ?k ?h ?y = (Inr (answer_of u), ?y)"
    using u(1) rc sv by (simp add: publish_def answer_of_def Let_def)
  have "operation_begin ?k ?h (rt_operations ?y) = Inr (w, rt_operations ?y)"
    using v assms(2,4) by (simp add: operation_begin_def validate_operation_def)
  then show ?thesis using u(1) p by (simp add: runtime_begin_def Let_def)
qed

theorem completed_request_is_answered_witness:
  "\<exists>z u. (runtime_step ex_runtime)\<^sup>*\<^sup>* runtime_start z \<and> oo_confirmation u \<noteq> None
     \<and> runtime_begin ex_runtime ex_stop_env (active_stop ordinary) (rs_state z) = (Inl (Inr (answer_of u)), rs_state z)"
proof -
  obtain u y where r: "(runtime_step ex_runtime)\<^sup>*\<^sup>* runtime_start
      \<lparr>rs_state = y, rs_handlings = [], rs_answers = [(active_key, answer_of u)]\<rparr>"
    and w: "operation_of (rt_operations y) active_key = Some (active_row OP_COMPLETED (Some u))" "rt_confirmations y = asked_db"
      "oo_confirmation u = Some (asked_request, asked_targets)" by (rule ordinary_answered)
  from completed_request_is_answered[OF r, of "active_stop ordinary" "active_row OP_COMPLETED (Some u)" ex_stop_env] w
  have "runtime_begin ex_runtime ex_stop_env (active_stop ordinary) y = (Inl (Inr (answer_of u)), y)"
    by (simp add: active_identity active_ids asked_db_def)
  with r w(3) show ?thesis by force
qed



end
