(* ===== verification/Spec2Isabelle.thy ===== *)
theory Spec2Isabelle
  imports
    Prelude
    JobJson JobTables JobStore JobInv JobRefine JobFacts JobExample JobProps ControlStates
    JobWorker WorkerProps
    Domain DomainProps
    EvidenceBase EvidencePolicy PolicyProps
    ScopeResolver ScopeProps Evolution EvolutionProps ScenarioEvolution ScenarioProps
    KnowledgePlan PlanProps Commitments CommitmentProps KnowledgeExtraction KnowledgeExtractionProps
    Invalidation Freshness FreshnessProps
    Orchestrator OrchestratorProps
    Closure ClosureProps StopContinuation StopProps
    Interaction InteractionProps Confirmation ConfirmationInv Writeback WritebackProps ReplyProps
    RuntimeAudit AuditProps ClosureRuntime ClosureRuntimeProps
begin

text \<open>
  ZhiLoop: a verification library for the core of the repository.

  \<^bold>\<open>The program.\<close> ZhiLoop reads the conversations of coding agents, distils knowledge from them, keeps it
  consistent with the code, and gives it back to later sessions. It is a monorepo of TypeScript packages
  (under \<^verbatim>\<open>src/packages\<close>); this library models the packages in which its decisions are taken:

    \<^item> durable work: every background activity is a job of the durable job store (\<^verbatim>\<open>job-runtime\<close>), claimed
      under a lease with a fencing token, run by a worker, retried, cancelled or exhausted;
    \<^item> knowledge in: a candidate is extracted from an episode and receives what the user said of it
      (\<^verbatim>\<open>knowledge-compiler\<close>); it is given a scope (\<^verbatim>\<open>scope-resolver\<close>), compared
      with published knowledge (\<^verbatim>\<open>knowledge-evolution\<close>), judged by its evidence (\<^verbatim>\<open>evidence-policy\<close>), and,
      when all three allow it, planned as the next version of an asset and published
      (\<^verbatim>\<open>knowledge-worker-runtime\<close>);
    \<^item> knowledge kept fresh: a change of the code invalidates fingerprints (\<^verbatim>\<open>invalidation-engine\<close>), and a
      gate decides at retrieval time whether a code fact may be used (\<^verbatim>\<open>knowledge-freshness\<close>);
    \<^item> knowledge out: the context orchestrator chooses what is disclosed, in which detail, under a token
      budget (\<^verbatim>\<open>context-orchestrator\<close>);
    \<^item> the end of a task: a closure verifier checks gates, boundaries and knowledge
      (\<^verbatim>\<open>closure-verifier\<close>), the stop hook sends an unfinished agent back a bounded number of times
      (\<^verbatim>\<open>stop-continuation\<close>), at most one question is put to the user (\<^verbatim>\<open>interaction-policy\<close>), the reply
      is written back exactly once (\<^verbatim>\<open>confirmation-writeback\<close>), and all of it is recorded
      (\<^verbatim>\<open>runtime-audit-store\<close>) by one durable operation per stop (\<^verbatim>\<open>active-knowledge-runtime\<close>).

  \<^bold>\<open>Theories and sources.\<close> A component has a theory with its data and operations, in the order of the code
  and under the code's names, and a theory \<open>\<dots>Props\<close> with its properties.

    \<^item> \<open>Prelude\<close>: text predicates and the array, \<open>Set\<close> and \<open>Map\<close> idioms shared by the packages, sums with
      \<open>and_then\<close>, \<open>ensure\<close> and \<open>map_error\<close>, timestamps, bounded numbers; the interfaces \<open>comparator\<close> (what a
      sort needs of its order) and \<open>transition_table\<close> (reachability in a status machine).
    \<^item> \<open>ControlStates\<close>: \<^verbatim>\<open>control-api/src/constants.ts\<close>, \<open>state-machine.ts\<close>. Eight status machines, each an
      interpretation of \<open>transition_table\<close>.
    \<^item> \<open>JobJson\<close> (\<^verbatim>\<open>job-runtime/src/serialization.ts\<close>), \<open>JobTables\<close> (the tables and constraints of
      \<open>store.ts\<close>, the snapshot schemas of \<^verbatim>\<open>control-api/src/schemas.ts\<close>), \<open>JobStore\<close> (every operation of
      \<open>SqliteDurableJobStore\<close>). \<open>JobInv\<close> is the abstract machine, the moves one job row may make and the
      invariant they keep; \<open>JobRefine\<close> shows that each operation is a sequence of moves and trips no
      constraint; \<open>JobFacts\<close> holds the runs of the store; \<open>JobExample\<close> a concrete one; \<open>JobProps\<close> the
      properties: fencing, attempt numbering, the status table, no internal fault, claims that succeed,
      the JSON round trip.
    \<^item> \<open>JobWorker\<close>, \<open>WorkerProps\<close>: \<^verbatim>\<open>job-runtime/src/worker.ts\<close>. The worker is proved against the interface
      \<open>leased_store\<close>, which the job store interprets.
    \<^item> \<open>Domain\<close>, \<open>DomainProps\<close>: \<^verbatim>\<open>domain/src\<close>. Kinds, scopes, assertions, candidates, assets, locators, the
      knowledge lifecycle (a \<open>transition_table\<close>), promotion to global scope.
    \<^item> \<open>EvidenceBase\<close> (\<^verbatim>\<open>evidence-engine/src/types.ts\<close>, \<^verbatim>\<open>domain/src/codegraph-artifact.ts\<close>),
      \<open>EvidencePolicy\<close> (\<^verbatim>\<open>evidence-policy/src\<close>), \<open>PolicyProps\<close>.
    \<^item> \<open>ScopeResolver\<close>, \<open>ScopeProps\<close> (\<^verbatim>\<open>scope-resolver/src\<close>); \<open>Evolution\<close>, \<open>EvolutionProps\<close>
      (\<^verbatim>\<open>knowledge-evolution/src/evolution.ts\<close>); \<open>ScenarioEvolution\<close>, \<open>ScenarioProps\<close>
      (\<open>scenario-evolution.ts\<close>).
    \<^item> \<open>KnowledgeExtraction\<close>, \<open>KnowledgeExtractionProps\<close> (\<^verbatim>\<open>knowledge-compiler/src/input.ts\<close>, \<open>runner.ts\<close>) and
      \<open>Commitments\<close>, \<open>CommitmentProps\<close> (\<open>commitment-detector.ts\<close>, and \<open>compileUserCommitments\<close> of the worker):
      the candidates made of an episode, and what the user said of them.
    \<^item> \<open>KnowledgePlan\<close>, \<open>PlanProps\<close>: the planning stages of \<^verbatim>\<open>knowledge-worker-runtime/src/runtime.ts\<close>, where
      scope, evolution and evidence policy are composed; the properties speak of what the composition
      publishes.
    \<^item> \<open>Invalidation\<close> (\<^verbatim>\<open>invalidation-engine/src\<close>), \<open>Freshness\<close>, \<open>FreshnessProps\<close>
      (\<^verbatim>\<open>knowledge-freshness/src\<close>: \<open>freshness.ts\<close>, \<open>gate.ts\<close>).
    \<^item> \<open>Orchestrator\<close>, \<open>OrchestratorProps\<close>: \<^verbatim>\<open>context-orchestrator/src\<close> with the token estimate of
      \<^verbatim>\<open>context-renderer/src\<close> and the envelope's JSON schema.
    \<^item> \<open>Closure\<close>, \<open>ClosureProps\<close> (\<^verbatim>\<open>closure-verifier/src\<close>); \<open>StopContinuation\<close>, \<open>StopProps\<close>
      (\<^verbatim>\<open>stop-continuation/src\<close>). The stop hook is proved against the interfaces \<open>continuation_counter\<close>
      (interpreted by the in-memory counter and by the audit-backed one) and \<open>closure_contract\<close>
      (interpreted by the closure verifier).
    \<^item> \<open>Interaction\<close>, \<open>InteractionProps\<close> (\<^verbatim>\<open>interaction-policy/src\<close>); \<open>Confirmation\<close>, \<open>ConfirmationInv\<close>
      (\<^verbatim>\<open>confirmation-writeback/src/repository.ts\<close> and the two schemas); \<open>Writeback\<close>, \<open>WritebackProps\<close>,
      \<open>ReplyProps\<close> (\<open>service.ts\<close>, \<open>matcher.ts\<close>), proved against \<open>confirmation_repository\<close>, which the
      repository interprets.
    \<^item> \<open>RuntimeAudit\<close>, \<open>AuditProps\<close> (\<^verbatim>\<open>runtime-audit-store/src\<close>); \<open>ClosureRuntime\<close>, \<open>ClosureRuntimeProps\<close>
      (\<^verbatim>\<open>active-knowledge-runtime/src/closure-runtime.ts\<close>, \<open>closure-operation-store.ts\<close>), which puts the
      stop hook, the question, the confirmation repository and the audit store together.

  \<^bold>\<open>Conventions.\<close> A JavaScript string is a \<^typ>\<open>string\<close>, whose code units range over Latin-1; where longer
  code units matter (questions, labels, replies) text is a list of UTF-16 code units. A number is an
  integer with the source's safe-integer guards, or a rational where the code divides. An optional
  property is an \<open>option\<close>; a thrown error is \<open>Inl\<close> of the component's error datatype. A \<open>Set\<close> is a list
  without duplicates and a \<open>Map\<close> the list of its values, in insertion order. A SQLite table is a list of
  row records; a transaction that throws leaves it as it was. Checks of a value against its own
  enumeration hold by typing; freezing and cloning have no counterpart.

  \<^bold>\<open>Parameters.\<close> What the sources only call is an argument: SHA-256, \<open>localeCompare\<close>, Unicode normalization,
  the text of a timestamp, the clock, the id factory, the random sample of a retry delay, byte sizes of
  JSON and of rendered text, and the ports (the handler of a job, the Markdown repository, the
  search index, the verifier, a judge, the semantic verifier, an effect). A port may fail, be late, or
  answer differently each time it is asked. Properties quantify over all of these; where one relies on a
  law (an order's laws, an injective hash), it is a hypothesis of that property, and its witness meets it.

  \<^bold>\<open>Order of events.\<close> An operation that awaits nothing is one function. Where the code awaits a port, it is
  split there (\<open>stop_begin\<close> and \<open>stop_finish\<close>, \<open>writeback_begin\<close> and \<open>writeback_finish\<close>,
  \<open>runtime_begin\<close> to \<open>conclude\<close>), the pending part is kept in the state, and a step relation interleaves
  the parts of any number of calls, restarts included; the safety properties are about all runs of these
  relations. The events of a job's handler are a list, in which other processes may replace the
  store. The readings of the Markdown repository are numbered, since it may change in between.

  \<^bold>\<open>Bounds and termination.\<close> Every definition is total. The loop of \<open>claimNext\<close> has the bound of the
  source, 100 rounds, and that it ends earlier with a job is a property; canonical JSON stops at depth
  64; the estimate of an envelope is iterated 10 times as in the source and then raises the source's error; the search
  for a transition path and the shrinking of a selection terminate by a measure. No fuel is added
  to a loop that has none.

  \<^bold>\<open>What the proofs showed.\<close> The properties hold of the code as it is written, some of them as errors it
  makes: a running job with a rejected cancellation cannot be cancelled again; a long changed path makes
  the closure verifier throw; a selected question can be longer than the schema allows, and then blocks
  its stop operation for ever; a judge may widen a published scope without confirmation; a second, weaker
  match hides an alias of a scenario.

  \<^bold>\<open>Not modelled.\<close> Packages that are input and output (file, process, HTTP and SQLite adapters, the
  console, the installer, the sidecar's wiring) decide nothing the properties are about. Retrieval and the
  vector index score in IEEE doubles, which have no faithful counterpart here. Normalising transcripts
  and building episodes work on raw events of external formats; extraction takes episodes as its input. The
  prompt of the extraction model (\<open>mvp-compiler.ts\<close>) is text, and the checkpoints of the worker's stages,
  which save what the modelled stages compute, are left out. The read-only methods of a job's context, opening and migrating the confirmation
  and audit databases, and the SQLite store of freshness records are left out.
\<close>

end
